(* ===== verification/Cyber_Prelude.thy ===== *)
theory Cyber_Prelude
  imports Main "HOL-Library.Sublist"
begin

text \<open>
  Shared vocabulary of the development.

  \<^item> Python code that mutates objects and may raise is a \<^emph>\<open>procedure\<close>: a function from the
    state to a result (\<open>Inl\<close> the exception, \<open>Inr\<close> the returned object) and the state left
    behind. An exception keeps the mutations made before it, as in Python.
  \<^item> \<open>wp m Q E s\<close> is the weakest precondition of a procedure for a postcondition \<open>Q\<close> on
    return and \<open>E\<close> on an exception; the rules in \<open>wp_simps\<close> compute it by rewriting.
  \<^item> A Python \<open>str\<close> is its UTF-8 byte string. Equality, concatenation and \<open>len(x.encode())\<close>
    are those of Python; \<open>strip\<close> is written out below over the UTF-8 forms of the white space
    characters of Python.
  \<^item> The locale \<open>reactive\<close> lifts an invariant of one step to runs.
\<close>

section \<open>Procedures\<close>

type_synonym ('s, 'e, 'a) proc = "'s \<Rightarrow> ('e + 'a) \<times> 's"

definition ret :: "'a \<Rightarrow> ('s, 'e, 'a) proc" where
  "ret a = (\<lambda>s. (Inr a, s))"

definition raise :: "'e \<Rightarrow> ('s, 'e, 'a) proc" where
  "raise e = (\<lambda>s. (Inl e, s))"

definition bind :: "('s, 'e, 'a) proc \<Rightarrow> ('a \<Rightarrow> ('s, 'e, 'b) proc) \<Rightarrow> ('s, 'e, 'b) proc" where
  "bind m f = (\<lambda>s. case m s of (Inl e, t) \<Rightarrow> (Inl e, t) | (Inr a, t) \<Rightarrow> f a t)"

definition seq :: "('s, 'e, 'a) proc \<Rightarrow> ('s, 'e, 'b) proc \<Rightarrow> ('s, 'e, 'b) proc" where
  "seq m n = bind m (\<lambda>_. n)"

text \<open>A result computed without the state.\<close>

definition lift :: "'e + 'a \<Rightarrow> ('s, 'e, 'a) proc" where
  "lift r = (\<lambda>s. (r, s))"

definition gets :: "('s \<Rightarrow> 'a) \<Rightarrow> ('s, 'e, 'a) proc" where
  "gets f = (\<lambda>s. (Inr (f s), s))"

definition modify :: "('s \<Rightarrow> 's) \<Rightarrow> ('s, 'e, unit) proc" where
  "modify f = (\<lambda>s. (Inr (), f s))"

text \<open>\<open>handle m h\<close> is \<open>try: m except E as exc: h exc\<close>: the handler gives \<open>None\<close> for an
  exception it does not catch.\<close>

definition handle ::
  "('s, 'e, 'a) proc \<Rightarrow> ('e \<Rightarrow> ('s, 'e, 'a) proc option) \<Rightarrow> ('s, 'e, 'a) proc" where
  "handle m h = (\<lambda>s. case m s of
       (Inr a, t) \<Rightarrow> (Inr a, t)
     | (Inl e, t) \<Rightarrow> (case h e of None \<Rightarrow> (Inl e, t) | Some k \<Rightarrow> k t))"

text \<open>The outcome of a procedure as a value: \<open>try: x = m except Exception as exc: ...\<close>\<close>

definition attempt :: "('s, 'e, 'a) proc \<Rightarrow> ('s, 'e, 'e + 'a) proc" where
  "attempt m = (\<lambda>s. case m s of (r, t) \<Rightarrow> (Inr r, t))"

text \<open>A procedure on one part of a larger state.\<close>

definition zoom :: "('t \<Rightarrow> 's) \<Rightarrow> ('s \<Rightarrow> 't \<Rightarrow> 't) \<Rightarrow> ('s, 'e, 'a) proc \<Rightarrow> ('t, 'e, 'a) proc" where
  "zoom get put m = (\<lambda>t. case m (get t) of (r, s) \<Rightarrow> (r, put s t))"

definition wp ::
  "('s, 'e, 'a) proc \<Rightarrow> ('a \<Rightarrow> 's \<Rightarrow> bool) \<Rightarrow> ('e \<Rightarrow> 's \<Rightarrow> bool) \<Rightarrow> 's \<Rightarrow> bool" where
  "wp m Q E s = (case m s of (Inl e, t) \<Rightarrow> E e t | (Inr a, t) \<Rightarrow> Q a t)"

named_theorems wp_simps \<open>computing the weakest precondition of a procedure by rewriting\<close>

lemma wp_ret [wp_simps]: "wp (ret a) Q E s = Q a s"
  by (simp add: wp_def ret_def)

lemma wp_raise [wp_simps]: "wp (raise e) Q E s = E e s"
  by (simp add: wp_def raise_def)

lemma wp_bind [wp_simps]: "wp (bind m f) Q E s = wp m (\<lambda>a. wp (f a) Q E) E s"
  by (auto simp: wp_def bind_def split: prod.splits sum.splits)

lemma wp_seq [wp_simps]: "wp (seq m n) Q E s = wp m (\<lambda>_. wp n Q E) E s"
  by (simp add: seq_def wp_bind)

lemma wp_lift [wp_simps]: "wp (lift r) Q E s = (case r of Inl e \<Rightarrow> E e s | Inr a \<Rightarrow> Q a s)"
  by (simp add: wp_def lift_def)

lemma wp_gets [wp_simps]: "wp (gets f) Q E s = Q (f s) s"
  by (simp add: wp_def gets_def)

lemma wp_modify [wp_simps]: "wp (modify f) Q E s = Q () (f s)"
  by (simp add: wp_def modify_def)

lemma wp_handle [wp_simps]:
  "wp (handle m h) Q E s =
     wp m Q (\<lambda>e t. case h e of None \<Rightarrow> E e t | Some k \<Rightarrow> wp k Q E t) s"
  by (auto simp: wp_def handle_def split: prod.splits sum.splits option.splits)

lemma wp_attempt [wp_simps]:
  "wp (attempt m) Q E s = wp m (\<lambda>a. Q (Inr a)) (\<lambda>e. Q (Inl e)) s"
  by (auto simp: wp_def attempt_def split: prod.splits sum.splits)

lemma wp_zoom [wp_simps]:
  "wp (zoom get put m) Q E t = wp m (\<lambda>a s. Q a (put s t)) (\<lambda>e s. E e (put s t)) (get t)"
  by (auto simp: wp_def zoom_def split: prod.splits sum.splits)

lemma wp_if [wp_simps]: "wp (if b then m else n) Q E s = (if b then wp m Q E s else wp n Q E s)"
  by simp

lemma wp_case_option [wp_simps]:
  "wp (case x of None \<Rightarrow> m | Some y \<Rightarrow> f y) Q E s =
     (case x of None \<Rightarrow> wp m Q E s | Some y \<Rightarrow> wp (f y) Q E s)"
  by (simp split: option.splits)

lemma wp_case_prod [wp_simps]:
  "wp (case p of (x, y) \<Rightarrow> f x y) Q E s = (case p of (x, y) \<Rightarrow> wp (f x y) Q E s)"
  by (simp split: prod.splits)

lemma wp_case_sum [wp_simps]:
  "wp (case x of Inl a \<Rightarrow> f a | Inr b \<Rightarrow> g b) Q E s =
     (case x of Inl a \<Rightarrow> wp (f a) Q E s | Inr b \<Rightarrow> wp (g b) Q E s)"
  by (simp split: sum.splits)

lemma wp_mono:
  assumes "wp m Q E s"
    and "\<And>a t. Q a t \<Longrightarrow> Q' a t"
    and "\<And>e t. E e t \<Longrightarrow> E' e t"
  shows "wp m Q' E' s"
  using assms by (auto simp: wp_def split: prod.splits sum.splits)

lemma wp_conj:
  assumes "wp m Q E s" and "wp m Q' E' s"
  shows "wp m (\<lambda>a t. Q a t \<and> Q' a t) (\<lambda>e t. E e t \<and> E' e t) s"
  using assms by (auto simp: wp_def split: prod.splits sum.splits)

lemma wp_returned: "wp m Q E s \<Longrightarrow> m s = (Inr a, t) \<Longrightarrow> Q a t"
  by (simp add: wp_def)

lemma wp_raised: "wp m Q E s \<Longrightarrow> m s = (Inl e, t) \<Longrightarrow> E e t"
  by (simp add: wp_def)

lemma wp_post: "wp m (\<lambda>_ t. I t) (\<lambda>_ t. I t) s \<longleftrightarrow> I (snd (m s))"
  by (auto simp: wp_def split: prod.splits sum.splits)

lemma wpI:
  assumes "\<And>a t. m s = (Inr a, t) \<Longrightarrow> Q a t" and "\<And>e t. m s = (Inl e, t) \<Longrightarrow> E e t"
  shows "wp m Q E s"
  using assms by (auto simp: wp_def split: prod.splits sum.splits)

lemma wp_trivial: "wp m (\<lambda>_ _. True) (\<lambda>_ _. True) s"
  by (auto simp: wp_def split: prod.splits sum.splits)

text \<open>For evaluating a procedure on a concrete state.\<close>

lemmas proc_defs = ret_def raise_def lift_def bind_def seq_def gets_def modify_def handle_def attempt_def zoom_def

section \<open>Lists with a key\<close>

lemma distinct_key_eq:
  "distinct (map f xs) \<Longrightarrow> x \<in> set xs \<Longrightarrow> y \<in> set xs \<Longrightarrow> f x = f y \<Longrightarrow> x = y"
  by (auto simp: distinct_map dest: inj_onD)

section \<open>Steps, runs and invariants\<close>

text \<open>
  A component that reacts to commands. Its contract is an invariant that every admissible command
  keeps; what follows for runs is proved once here. \<open>run_rel\<close> lifts a reflexive, transitive
  relation between the states before and after a command (a log that only grows, an epoch that
  never decreases) to runs.
\<close>

locale reactive =
  fixes step :: "'cmd \<Rightarrow> 's \<Rightarrow> 's"
    and admissible :: "'cmd \<Rightarrow> bool"
    and inv :: "'s \<Rightarrow> bool"
  assumes step_inv: "admissible c \<Longrightarrow> inv s \<Longrightarrow> inv (step c s)"
begin

lemma run_inv: "list_all admissible cs \<Longrightarrow> inv s \<Longrightarrow> inv (fold step cs s)"
proof (induction cs arbitrary: s)
  case Nil
  then show ?case by simp
next
  case (Cons c cs)
  from Cons.prems have "inv (step c s)" by (auto intro: step_inv)
  with Cons.prems show ?case by (simp add: Cons.IH)
qed

lemma run_rel:
  assumes trans: "\<And>a b c. R a b \<Longrightarrow> R b c \<Longrightarrow> R a c"
    and refl: "\<And>a. R a a"
    and step: "\<And>s c. admissible c \<Longrightarrow> inv s \<Longrightarrow> R s (step c s)"
  shows "list_all admissible cs \<Longrightarrow> inv s \<Longrightarrow> R s (fold step cs s)"
proof (induction cs arbitrary: s)
  case Nil
  show ?case by (simp add: refl)
next
  case (Cons c cs)
  from Cons.prems have c: "admissible c" and "inv (step c s)"
    by (auto intro: step_inv)
  with Cons.prems have "R (step c s) (fold step cs (step c s))"
    by (intro Cons.IH) auto
  with step [OF c Cons.prems(2)] have "R s (fold step cs (step c s))" by (rule trans)
  then show ?case by simp
qed

lemma run_stable:
  assumes stable: "\<And>s c. admissible c \<Longrightarrow> inv s \<Longrightarrow> P s \<Longrightarrow> P (step c s)"
    and "list_all admissible cs" and "inv s" and "P s"
  shows "P (fold step cs s)"
proof -
  have "P s \<longrightarrow> P (fold step cs s)"
    using assms(2,3) by (intro run_rel [where R = "\<lambda>s t. P s \<longrightarrow> P t"]) (auto intro: stable)
  with assms(4) show ?thesis by blast
qed

end

end
