(* ===== verification/Py_Text.thy ===== *)
theory Py_Text
  imports Cyber_Prelude
begin

text \<open>
  What the program uses of Python's \<open>str\<close> on UTF-8 byte strings: \<open>strip\<close> over the white
  space characters of Python, \<open>lower\<close> as far as ASCII results are concerned, substring and
  suffix tests, and the decimal form of integers.
\<close>

section \<open>White space and strip\<close>

text \<open>
  The bytes of the white space character a string starts with (0: none). Single bytes:
  U+0009 to U+000D, U+001C to U+0020; two bytes: U+0085 and U+00A0; three bytes: U+1680,
  U+2000 to U+200A, U+2028, U+2029, U+202F, U+205F and U+3000.
\<close>

fun ascii_space :: "char \<Rightarrow> bool" where
  "ascii_space c =
     (let n = (of_char c :: nat) in 9 \<le> n \<and> n \<le> 13 \<or> 28 \<le> n \<and> n \<le> 32)"

fun space3 :: "char \<Rightarrow> char \<Rightarrow> char \<Rightarrow> bool" where
  "space3 a b c =
     (a = CHR 0xE1 \<and> b = CHR 0x9A \<and> c = CHR 0x80 \<or>
      a = CHR 0xE2 \<and> b = CHR 0x80 \<and>
        ((128 :: nat) \<le> of_char c \<and> (of_char c :: nat) \<le> 138 \<or>
         c = CHR 0xA8 \<or> c = CHR 0xA9 \<or> c = CHR 0xAF) \<or>
      a = CHR 0xE2 \<and> b = CHR 0x81 \<and> c = CHR 0x9F \<or>
      a = CHR 0xE3 \<and> b = CHR 0x80 \<and> c = CHR 0x80)"

fun space2 :: "char \<Rightarrow> char \<Rightarrow> bool" where
  "space2 a b = (a = CHR 0xC2 \<and> (b = CHR 0x85 \<or> b = CHR 0xA0))"

fun leading_space :: "string \<Rightarrow> nat" where
  "leading_space [] = 0"
| "leading_space (a # s) =
     (if ascii_space a then 1
      else case s of
        b # r \<Rightarrow>
          (if space2 a b then 2
           else case r of c # _ \<Rightarrow> (if space3 a b c then 3 else 0) | [] \<Rightarrow> 0)
      | [] \<Rightarrow> 0)"

text \<open>The same for the character a reversed string starts with.\<close>

fun trailing_space :: "string \<Rightarrow> nat" where
  "trailing_space [] = 0"
| "trailing_space (a # s) =
     (if ascii_space a then 1
      else case s of
        b # r \<Rightarrow>
          (if space2 b a then 2
           else case r of c # _ \<Rightarrow> (if space3 c b a then 3 else 0) | [] \<Rightarrow> 0)
      | [] \<Rightarrow> 0)"

function drop_spaces :: "(string \<Rightarrow> nat) \<Rightarrow> string \<Rightarrow> string" where
  "drop_spaces f s = (if f s = 0 \<or> s = [] then s else drop_spaces f (drop (f s) s))"
  by pat_completeness auto
termination
  by (relation "measure (\<lambda>(f, s). length s)") auto

declare drop_spaces.simps [simp del]

definition strip :: "string \<Rightarrow> string" where
  "strip s = rev (drop_spaces trailing_space (rev (drop_spaces leading_space s)))"

text \<open>\<open>not s.strip()\<close>\<close>

definition blank :: "string \<Rightarrow> bool" where
  "blank s \<longleftrightarrow> strip s = []"

lemma drop_spaces_Nil [simp]: "drop_spaces f [] = []"
  by (simp add: drop_spaces.simps)

lemma drop_spaces_suffix: "suffix (drop_spaces f s) s"
proof (induction f s rule: drop_spaces.induct)
  case (1 f s)
  show ?case
  proof (cases "f s = 0 \<or> s = []")
    case True
    then show ?thesis by (auto simp: drop_spaces.simps [of f s])
  next
    case False
    with 1 have "suffix (drop_spaces f (drop (f s) s)) (drop (f s) s)" by auto
    moreover have "suffix (drop (f s) s) s" by (rule suffix_drop)
    ultimately show ?thesis
      using False by (auto simp: drop_spaces.simps [of f s] intro: suffix_order.trans)
  qed
qed

lemma strip_Nil [simp]: "strip [] = []"
  by (simp add: strip_def)

lemma blank_Nil [simp]: "blank []"
  by (simp add: blank_def)

lemma length_strip: "length (strip s) \<le> length s"
proof -
  have "length (drop_spaces trailing_space t) \<le> length t" for t
    using drop_spaces_suffix [of trailing_space t] by (rule suffix_length_le)
  from this [of "rev (drop_spaces leading_space s)"]
  have "length (strip s) \<le> length (drop_spaces leading_space s)"
    by (simp add: strip_def)
  also have "\<dots> \<le> length s"
    using drop_spaces_suffix [of leading_space s] by (rule suffix_length_le)
  finally show ?thesis .
qed

text \<open>Text of printable ASCII characters without blanks is its own \<open>strip\<close>.\<close>

definition visible :: "char \<Rightarrow> bool" where
  "visible c \<longleftrightarrow> (32 :: nat) < of_char c \<and> (of_char c :: nat) < 127"

lemma visible_spaces:
  "visible a \<Longrightarrow> \<not> ascii_space a" "visible a \<Longrightarrow> \<not> space2 a b" "visible a \<Longrightarrow> \<not> space3 a b c"
  "visible b \<Longrightarrow> \<not> space2 a b" "visible c \<Longrightarrow> \<not> space3 a b c"
  by (auto simp: visible_def Let_def)

lemma strip_visible:
  assumes "list_all visible s"
  shows "strip s = s"
proof -
  have lead: "leading_space t = 0" if "list_all visible t" for t
    using that visible_spaces by (cases t rule: leading_space.cases)
      (auto split: list.splits simp del: ascii_space.simps space2.simps space3.simps)
  have trail: "trailing_space t = 0" if "list_all visible t" for t
    using that visible_spaces by (cases t rule: trailing_space.cases)
      (auto split: list.splits simp del: ascii_space.simps space2.simps space3.simps)
  show ?thesis
    using lead [OF assms] trail [of "rev s"] assms
    by (simp add: strip_def drop_spaces.simps [of _ s] drop_spaces.simps [of _ "rev s"])
qed

section \<open>Lower case\<close>

text \<open>
  \<open>s.lower()\<close> as far as tests against ASCII text can see it: the ASCII capitals, the Kelvin
  sign (U+212A, lowered to \<open>k\<close>) and the dotted capital I (U+0130, lowered to \<open>i\<close> and a
  combining dot); every other non-ASCII character stays non-ASCII.
\<close>

definition lower_char :: "char \<Rightarrow> char" where
  "lower_char c =
     (let n = (of_char c :: nat) in if 65 \<le> n \<and> n \<le> 90 then char_of (n + 32) else c)"

fun lower :: "string \<Rightarrow> string" where
  "lower [] = []"
| "lower (c # s) =
     (case s of
        d # e # r \<Rightarrow>
          (if c = CHR 0xE2 \<and> d = CHR 0x84 \<and> e = CHR 0xAA then CHR ''k'' # lower r
           else if c = CHR 0xC4 \<and> d = CHR 0xB0
             then CHR ''i'' # CHR 0xCC # CHR 0x87 # lower (e # r)
           else lower_char c # lower s)
      | [d] \<Rightarrow>
          (if c = CHR 0xC4 \<and> d = CHR 0xB0 then [CHR ''i'', CHR 0xCC, CHR 0x87]
           else lower_char c # lower s)
      | [] \<Rightarrow> [lower_char c])"

section \<open>Substrings\<close>

fun contains :: "string \<Rightarrow> string \<Rightarrow> bool" where
  "contains p [] = (p = [])"
| "contains p (c # s) = (prefix p (c # s) \<or> contains p s)"

lemma contains_sublist: "contains p s = sublist p s"
  by (induction p s rule: contains.induct) (auto simp: sublist_Cons_right)

definition startswith :: "string \<Rightarrow> string \<Rightarrow> bool" where
  "startswith s p = prefix p s"

definition endswith :: "string \<Rightarrow> string \<Rightarrow> bool" where
  "endswith s p = suffix p s"

section \<open>Decimal numerals\<close>

definition digit :: "nat \<Rightarrow> char" where
  "digit n = ''0123456789'' ! n"

fun nat_str :: "nat \<Rightarrow> string" where
  "nat_str n = (if n < 10 then [digit n] else nat_str (n div 10) @ [digit (n mod 10)])"

declare nat_str.simps [simp del]

definition int_str :: "int \<Rightarrow> string" where
  "int_str i = (if i < 0 then CHR ''-'' # nat_str (nat (- i)) else nat_str (nat i))"

lemma digit_inj: "m < 10 \<Longrightarrow> n < 10 \<Longrightarrow> digit m = digit n \<Longrightarrow> m = n"
proof -
  have dist: "distinct ''0123456789''" by simp
  assume "m < 10" and "n < 10" and "digit m = digit n"
  with nth_eq_iff_index_eq [OF dist, of m n] show "m = n"
    by (simp add: digit_def)
qed

lemma nat_str_nonempty [simp]: "nat_str n \<noteq> []"
  by (subst nat_str.simps) simp

lemma nat_str_nonempty' [simp]: "[] \<noteq> nat_str n"
  by (rule nat_str_nonempty [symmetric])

lemma nat_str_inj: "nat_str m = nat_str n \<Longrightarrow> m = n"
proof (induction m arbitrary: n rule: nat_str.induct)
  case (1 m)
  show ?case
  proof (cases "m < 10")
    case True
    then have m: "nat_str m = [digit m]" by (simp add: nat_str.simps [of m])
    have "n < 10"
    proof (rule ccontr)
      assume "\<not> n < 10"
      then have "nat_str n = nat_str (n div 10) @ [digit (n mod 10)]"
        by (simp add: nat_str.simps [of n])
      with "1.prems" m show False by simp
    qed
    with True "1.prems" show ?thesis
      by (auto simp: nat_str.simps [of m] nat_str.simps [of n] intro: digit_inj)
  next
    case False
    then have m: "nat_str m = nat_str (m div 10) @ [digit (m mod 10)]"
      by (simp add: nat_str.simps [of m])
    have big: "\<not> n < 10"
    proof
      assume "n < 10"
      then have "nat_str n = [digit n]" by (simp add: nat_str.simps [of n])
      with "1.prems" m show False by simp
    qed
    then have n: "nat_str n = nat_str (n div 10) @ [digit (n mod 10)]"
      by (simp add: nat_str.simps [of n])
    from "1.prems" have "nat_str (m div 10) = nat_str (n div 10)"
      and "digit (m mod 10) = digit (n mod 10)"
      unfolding m n by simp_all
    then have "m div 10 = n div 10" and "m mod 10 = n mod 10"
      using False "1.IH" by (auto intro: digit_inj)
    then show ?thesis by (metis div_mult_mod_eq)
  qed
qed

end
