(* ===== verification/Failover_Journal.thy ===== *)
theory Failover_Journal
  imports Py_Text
begin

text \<open>
  The durable journal of the failover simulator (\<open>Journal\<close> in
  src/src/cybercore/failover_sim.py): three SQLite tables and the operations on them.

  \<^item> \<open>operations\<close> is the table of that name, one row per operation in insertion order, with
    \<open>operation_id\<close> as primary key; \<open>events\<close> is append-only with an AUTOINCREMENT sequence
    number; \<open>leases\<close> has \<open>target\<close> as primary key and is a map.
  \<^item> A \<open>with self.conn\<close> block commits its statements together or not at all. The only
    \<open>sqlite3.Error\<close> the statements themselves can cause is a primary key conflict; failures of
    the storage are the code's own \<open>fail_writes\<close> switch.
  \<^item> The JSON object of an event is the list of its members. Clock seconds, epochs and
    generations stay within SQLite's 64-bit integers and are plain integers here.
\<close>

section \<open>Data\<close>

datatype fexn =
    SimulatedCrash string
  | UnsafeEffect string
  | AuditUnavailable string
  | KeyError string
  | ValueError string

text \<open>The states an operation row passes through; the code stores their names.\<close>

datatype OpState =
    PREPARED | EXECUTING | VERIFYING | SUCCEEDED | STOPPED
  | UNKNOWN | RECOVERING | RECOVERY_FAILED | RECOVERY_BLOCKED

fun state_text :: "OpState \<Rightarrow> string" where
  "state_text PREPARED = ''PREPARED''"
| "state_text EXECUTING = ''EXECUTING''"
| "state_text VERIFYING = ''VERIFYING''"
| "state_text SUCCEEDED = ''SUCCEEDED''"
| "state_text STOPPED = ''STOPPED''"
| "state_text UNKNOWN = ''UNKNOWN''"
| "state_text RECOVERING = ''RECOVERING''"
| "state_text RECOVERY_FAILED = ''RECOVERY_FAILED''"
| "state_text RECOVERY_BLOCKED = ''RECOVERY_BLOCKED''"

record Lease =
  lease_id :: string
  lease_holder :: string
  lease_target :: string
  lease_epoch :: int
  lease_expires :: int

record Request =
  operation_id :: string
  actor :: string
  target :: string
  action :: string
  tier :: string
  policy_hash :: string
  inventory_fresh :: bool
  restore_verified :: bool
  production :: bool
  human_approval :: "string option"
  correlation_id :: string

text \<open>The defaults of the dataclass.\<close>

definition Request_default :: "string \<Rightarrow> Request" where
  "Request_default op =
     \<lparr>operation_id = op, actor = ''Ruku'', target = ''service_a'', action = ''restart'',
      tier = ''GREEN'', policy_hash = ''policy-v1'', inventory_fresh = True,
      restore_verified = True, production = False, human_approval = None,
      correlation_id = ''trace-001''\<rparr>"

datatype json = JStr string | JInt int

record OpRow =
  row_operation_id :: string
  row_actor :: string
  row_target :: string
  row_action :: string
  row_tier :: string
  row_policy_hash :: string
  row_correlation_id :: string
  row_idempotency_key :: string
  row_state :: OpState
  row_before_generation :: int
  row_changed :: int
  row_provider_op :: "string option"
  row_lease_epoch :: int

record EventRow =
  ev_seq :: nat
  ev_operation_id :: string
  ev_timestamp :: int
  ev_data :: "(string \<times> json) list"

record Journal =
  operations :: "OpRow list"
  events :: "EventRow list"
  leases :: "string \<rightharpoonup> Lease"
  fail_writes :: bool

type_synonym 'a journal_proc = "(Journal, fexn, 'a) proc"

text \<open>A new database: the \<open>CREATE TABLE\<close> script of \<open>__init__\<close> on an empty file.\<close>

definition Journal_init :: Journal where
  "Journal_init = \<lparr>operations = [], events = [], leases = Map.empty, fail_writes = False\<rparr>"

section \<open>Operations\<close>

definition Journal_writable :: "unit journal_proc" where
  "Journal_writable =
     bind (gets fail_writes) (\<lambda>bad.
     if bad then raise (AuditUnavailable ''injected journal-write failure'') else ret ())"

definition Journal_get :: "string \<Rightarrow> Journal \<Rightarrow> OpRow option" where
  "Journal_get op j = find (\<lambda>r. row_operation_id r = op) (operations j)"

text \<open>AUTOINCREMENT: one more than the largest sequence number ever used; rows are never deleted.\<close>

definition next_seq :: "Journal \<Rightarrow> nat" where
  "next_seq j = Suc (fold max (map ev_seq (events j)) 0)"

definition Journal_event ::
  "string \<Rightarrow> int \<Rightarrow> (string \<times> json) list \<Rightarrow> Journal \<Rightarrow> Journal" where
  "Journal_event op now data j =
     j\<lparr>events := events j @
        [\<lparr>ev_seq = next_seq j, ev_operation_id = op, ev_timestamp = now, ev_data = data\<rparr>]\<rparr>"

definition prepared_row :: "Request \<Rightarrow> int \<Rightarrow> OpRow" where
  "prepared_row req gen =
     \<lparr>row_operation_id = operation_id req, row_actor = actor req, row_target = target req,
      row_action = action req, row_tier = tier req, row_policy_hash = policy_hash req,
      row_correlation_id = correlation_id req, row_idempotency_key = operation_id req,
      row_state = PREPARED, row_before_generation = gen, row_changed = 0,
      row_provider_op = None, row_lease_epoch = 0\<rparr>"

definition prepared_event :: "Request \<Rightarrow> (string \<times> json) list" where
  "prepared_event req =
     [(''state'', JStr ''PREPARED''), (''actor'', JStr (actor req)),
      (''target'', JStr (target req)), (''policy_hash'', JStr (policy_hash req)),
      (''correlation_id'', JStr (correlation_id req))]"

definition Journal_begin :: "Request \<Rightarrow> int \<Rightarrow> int \<Rightarrow> unit journal_proc" where
  "Journal_begin req gen now =
     seq Journal_writable
     (bind (gets (Journal_get (operation_id req))) (\<lambda>row.
      case row of
        Some _ \<Rightarrow> raise (AuditUnavailable ''journal prepare failed'')
      | None \<Rightarrow> modify (\<lambda>j. Journal_event (operation_id req) now (prepared_event req)
                  (j\<lparr>operations := operations j @ [prepared_row req gen]\<rparr>))))"

text \<open>The keyword arguments of \<open>transition\<close> after the state.\<close>

record Details =
  d_capability_id :: string
  d_lease_id :: string
  d_lease_epoch :: int
  d_verdict :: string
  d_provider_op :: "string option"
  d_changed :: "bool option"
  d_reason :: string

definition transition_event :: "OpRow \<Rightarrow> OpState \<Rightarrow> Details \<Rightarrow> (string \<times> json) list" where
  "transition_event row st d =
     [(''state'', JStr (state_text st)), (''actor'', JStr (row_actor row)),
      (''target'', JStr (row_target row)), (''policy_hash'', JStr (row_policy_hash row)),
      (''correlation_id'', JStr (row_correlation_id row)),
      (''capability_id'', JStr (d_capability_id d)), (''lease_id'', JStr (d_lease_id d)),
      (''lease_epoch'', JInt (d_lease_epoch d)), (''voodoo'', JStr (d_verdict d)),
      (''reason'', JStr (d_reason d))]"

text \<open>The \<open>SET\<close> clause with its two \<open>COALESCE\<close>s and its \<open>CASE\<close>.\<close>

definition update_row :: "OpState \<Rightarrow> Details \<Rightarrow> OpRow \<Rightarrow> OpRow" where
  "update_row st d row =
     row\<lparr>row_state := st,
         row_changed := (case d_changed d of None \<Rightarrow> row_changed row | Some b \<Rightarrow> of_bool b),
         row_provider_op :=
           (case d_provider_op d of None \<Rightarrow> row_provider_op row | Some p \<Rightarrow> Some p),
         row_lease_epoch :=
           (if d_lease_epoch d > 0 then d_lease_epoch d else row_lease_epoch row)\<rparr>"

definition update_operation :: "string \<Rightarrow> OpState \<Rightarrow> Details \<Rightarrow> Journal \<Rightarrow> Journal" where
  "update_operation op st d j =
     j\<lparr>operations :=
        map (\<lambda>r. if row_operation_id r = op then update_row st d r else r) (operations j)\<rparr>"

definition Journal_transition ::
  "string \<Rightarrow> int \<Rightarrow> OpState \<Rightarrow> Details \<Rightarrow> unit journal_proc" where
  "Journal_transition op now st d =
     seq Journal_writable
     (bind (gets (Journal_get op)) (\<lambda>row.
      case row of
        None \<Rightarrow> raise (AuditUnavailable ''missing persisted operation'')
      | Some r \<Rightarrow> modify (\<lambda>j. Journal_event op now (transition_event r st d)
                   (update_operation op st d j))))"

text \<open>\<open>events(operation_id)\<close>: the events of one operation, in order of their sequence number.\<close>

definition Journal_events :: "string \<Rightarrow> Journal \<Rightarrow> EventRow list" where
  "Journal_events op j = filter (\<lambda>e. ev_operation_id e = op) (sort_key ev_seq (events j))"

definition Journal_current_lease :: "string \<Rightarrow> Journal \<Rightarrow> Lease option" where
  "Journal_current_lease t j = leases j t"

definition Journal_acquire ::
  "string \<Rightarrow> string \<Rightarrow> int \<Rightarrow> bool \<Rightarrow> int \<Rightarrow> Lease journal_proc" where
  "Journal_acquire t holder now takeover ttl =
     seq Journal_writable
     (bind (gets (\<lambda>j. leases j t)) (\<lambda>current.
      if (case current of None \<Rightarrow> False | Some l \<Rightarrow> lease_expires l > now \<and> \<not> takeover)
      then raise (UnsafeEffect ''active lease prevents competing controller'')
      else
        let epoch = (case current of None \<Rightarrow> 1 | Some l \<Rightarrow> lease_epoch l + 1);
            lease = \<lparr>lease_id = ''lease-'' @ int_str epoch @ ''-'' @ holder,
                     lease_holder = holder, lease_target = t, lease_epoch = epoch,
                     lease_expires = now + ttl\<rparr>
        in seq (modify (\<lambda>j. j\<lparr>leases := (leases j)(t \<mapsto> lease)\<rparr>)) (ret lease)))"

fun in_flight_state :: "OpState \<Rightarrow> bool" where
  "in_flight_state PREPARED = True"
| "in_flight_state EXECUTING = True"
| "in_flight_state VERIFYING = True"
| "in_flight_state UNKNOWN = True"
| "in_flight_state RECOVERING = True"
| "in_flight_state _ = False"

definition Journal_in_flight :: "string \<Rightarrow> string \<Rightarrow> Journal \<Rightarrow> bool" where
  "Journal_in_flight t excluding j =
     list_ex (\<lambda>r. row_target r = t \<and> row_operation_id r \<noteq> excluding \<and>
                 in_flight_state (row_state r)) (operations j)"

section \<open>Facts about the operations\<close>

text \<open>The weakest preconditions of the operations, for the procedures that call them.\<close>

lemma wp_Journal_begin [wp_simps]:
  "wp (Journal_begin req gen now) Q E j =
     (if fail_writes j then E (AuditUnavailable ''injected journal-write failure'') j
      else if Journal_get (operation_id req) j \<noteq> None
        then E (AuditUnavailable ''journal prepare failed'') j
      else Q () (Journal_event (operation_id req) now (prepared_event req)
                  (j\<lparr>operations := operations j @ [prepared_row req gen]\<rparr>)))"
  by (auto simp: Journal_begin_def Journal_writable_def wp_simps split: option.splits)

lemma wp_Journal_transition [wp_simps]:
  "wp (Journal_transition op now st d) Q E j =
     (if fail_writes j then E (AuditUnavailable ''injected journal-write failure'') j
      else case Journal_get op j of
        None \<Rightarrow> E (AuditUnavailable ''missing persisted operation'') j
      | Some r \<Rightarrow> Q () (Journal_event op now (transition_event r st d) (update_operation op st d j)))"
  by (auto simp: Journal_transition_def Journal_writable_def wp_simps split: option.splits)

lemma wp_Journal_acquire [wp_simps]:
  "wp (Journal_acquire t holder now takeover ttl) Q E j =
     (if fail_writes j then E (AuditUnavailable ''injected journal-write failure'') j
      else if \<exists>l. leases j t = Some l \<and> lease_expires l > now \<and> \<not> takeover
        then E (UnsafeEffect ''active lease prevents competing controller'') j
      else let epoch = (case leases j t of None \<Rightarrow> 1 | Some l \<Rightarrow> lease_epoch l + 1);
               lease = \<lparr>lease_id = ''lease-'' @ int_str epoch @ ''-'' @ holder,
                        lease_holder = holder, lease_target = t, lease_epoch = epoch,
                        lease_expires = now + ttl\<rparr>
           in Q lease (j\<lparr>leases := (leases j)(t \<mapsto> lease)\<rparr>))"
  by (auto simp: Journal_acquire_def Journal_writable_def Let_def wp_simps split: option.splits)

lemma Journal_event_fields [simp]:
  "operations (Journal_event op now data j) = operations j"
  "leases (Journal_event op now data j) = leases j"
  "fail_writes (Journal_event op now data j) = fail_writes j"
  by (simp_all add: Journal_event_def)

lemma update_operation_fields [simp]:
  "events (update_operation op st d j) = events j"
  "leases (update_operation op st d j) = leases j"
  "fail_writes (update_operation op st d j) = fail_writes j"
  by (simp_all add: update_operation_def)

lemma update_row_fields [simp]:
  "row_operation_id (update_row st d r) = row_operation_id r"
  "row_actor (update_row st d r) = row_actor r"
  "row_target (update_row st d r) = row_target r"
  "row_action (update_row st d r) = row_action r"
  "row_tier (update_row st d r) = row_tier r"
  "row_policy_hash (update_row st d r) = row_policy_hash r"
  "row_correlation_id (update_row st d r) = row_correlation_id r"
  "row_state (update_row st d r) = st"
  by (simp_all add: update_row_def)

lemma prepared_row_fields [simp]:
  "row_operation_id (prepared_row req gen) = operation_id req"
  "row_target (prepared_row req gen) = target req"
  "row_state (prepared_row req gen) = PREPARED"
  by (simp_all add: prepared_row_def)

lemma Journal_get_event [simp]:
  "Journal_get op (Journal_event op' now data j) = Journal_get op j"
  by (simp add: Journal_get_def)

lemma find_map_update:
  "find (\<lambda>r. row_operation_id r = op)
     (map (\<lambda>r. if row_operation_id r = op' then update_row st d r else r) rs) =
   map_option (\<lambda>r. if op = op' then update_row st d r else r)
     (find (\<lambda>r. row_operation_id r = op) rs)"
  by (induction rs) auto

lemma Journal_get_update [simp]:
  "Journal_get op (update_operation op' st d j) =
     map_option (\<lambda>r. if op = op' then update_row st d r else r) (Journal_get op j)"
  by (simp add: Journal_get_def update_operation_def find_map_update)

lemma find_append: "find P (xs @ ys) = (case find P xs of None \<Rightarrow> find P ys | Some x \<Rightarrow> Some x)"
  by (induction xs) auto

lemma Journal_get_append [simp]:
  "Journal_get op (j\<lparr>operations := operations j @ [r]\<rparr>) =
     (case Journal_get op j of
        None \<Rightarrow> (if row_operation_id r = op then Some r else None) | Some x \<Rightarrow> Some x)"
  by (simp add: Journal_get_def find_append split: option.splits)

lemma Journal_get_leases [simp]: "Journal_get op (j\<lparr>leases := l\<rparr>) = Journal_get op j"
  by (simp add: Journal_get_def)

lemma Journal_get_SomeD:
  "Journal_get op j = Some r \<Longrightarrow> r \<in> set (operations j) \<and> row_operation_id r = op"
  by (auto simp: Journal_get_def find_Some_iff)

lemma Journal_get_None:
  "Journal_get op j = None \<longleftrightarrow> (\<forall>r \<in> set (operations j). row_operation_id r \<noteq> op)"
  by (auto simp: Journal_get_def find_None_iff)

lemma Journal_get_Some_iff:
  assumes "distinct (map row_operation_id (operations j))"
  shows "Journal_get op j = Some r \<longleftrightarrow> r \<in> set (operations j) \<and> row_operation_id r = op"
proof
  assume "Journal_get op j = Some r"
  then show "r \<in> set (operations j) \<and> row_operation_id r = op" by (rule Journal_get_SomeD)
next
  assume r: "r \<in> set (operations j) \<and> row_operation_id r = op"
  then obtain r' where r': "Journal_get op j = Some r'"
    by (cases "Journal_get op j") (auto simp: Journal_get_None)
  with r assms show "Journal_get op j = Some r"
    by (metis Journal_get_SomeD distinct_map inj_on_def)
qed

lemma in_flight_iff:
  "Journal_in_flight t ex j \<longleftrightarrow>
     (\<exists>r \<in> set (operations j). row_target r = t \<and> row_operation_id r \<noteq> ex \<and>
        in_flight_state (row_state r))"
  by (simp add: Journal_in_flight_def list_ex_iff)

text \<open>A journal write for one operation does not change what another operation sees in flight.\<close>

lemma in_flight_event [simp]:
  "Journal_in_flight t ex (Journal_event op now data j) = Journal_in_flight t ex j"
  by (simp add: Journal_in_flight_def)

lemma in_flight_update_same [simp]:
  "Journal_in_flight t op (update_operation op st d j) = Journal_in_flight t op j"
  by (auto simp: in_flight_iff update_operation_def)

lemma in_flight_append_same [simp]:
  "row_operation_id r = op \<Longrightarrow>
     Journal_in_flight t op (j\<lparr>operations := operations j @ [r]\<rparr>) = Journal_in_flight t op j"
  by (auto simp: in_flight_iff)

lemma in_flight_leases [simp]:
  "Journal_in_flight t ex (j\<lparr>leases := l\<rparr>) = Journal_in_flight t ex j"
  by (simp add: Journal_in_flight_def)

end
