(* ===== verification/Failover_Provider.thy ===== *)
theory Failover_Provider
  imports Failover_Journal
begin

text \<open>
  The inert in-memory provider of the failover simulator (\<open>FakeProvider\<close> in
  src/src/cybercore/failover_sim.py): fencing epochs and idempotent effects.

  The dictionaries \<open>health\<close>, \<open>generation\<close> and \<open>epochs\<close> have exactly the targets as keys and
  never lose one; they are total functions here and every read outside the targets is the
  \<open>KeyError\<close> it is in Python.
\<close>

section \<open>Data\<close>

type_synonym Effect = "string \<times> string \<times> int \<times> string"

record FakeProvider =
  targets :: "string list"
  health :: "string \<Rightarrow> bool"
  generation :: "string \<Rightarrow> int"
  epochs :: "string \<Rightarrow> int"
  fencing :: bool
  idempotency :: bool
  effects :: "Effect list"
  receipts :: "string \<rightharpoonup> Effect"
  fail_restart :: bool
  fail_restore :: bool
  readable :: bool

type_synonym 'a provider_proc = "(FakeProvider, fexn, 'a) proc"

text \<open>The regular expression \<open>[a-z][a-z0-9_]*\<close>, matched in full.\<close>

definition lower_letter :: "char \<Rightarrow> bool" where
  "lower_letter c \<longleftrightarrow> c \<in> set ''abcdefghijklmnopqrstuvwxyz''"

definition name_char :: "char \<Rightarrow> bool" where
  "name_char c \<longleftrightarrow> lower_letter c \<or> c \<in> set ''0123456789_''"

fun symbolic_name :: "string \<Rightarrow> bool" where
  "symbolic_name [] = False"
| "symbolic_name (c # s) = (lower_letter c \<and> list_all name_char s)"

definition FakeProvider_init :: "string list \<Rightarrow> bool \<Rightarrow> bool \<Rightarrow> fexn + FakeProvider" where
  "FakeProvider_init ts fence_on idem_on =
     (if list_ex (\<lambda>t. \<not> symbolic_name t) ts
      then Inl (ValueError ''fake targets must be local symbolic names'')
      else Inr \<lparr>targets = ts, health = (\<lambda>_. True), generation = (\<lambda>_. 0), epochs = (\<lambda>_. 0),
                fencing = fence_on, idempotency = idem_on, effects = [], receipts = Map.empty,
                fail_restart = False, fail_restore = False, readable = True\<rparr>)"

section \<open>Operations\<close>

definition validate_target :: "FakeProvider \<Rightarrow> string \<Rightarrow> bool" where
  "validate_target p t \<longleftrightarrow> symbolic_name t \<and> t \<in> set (targets p)"

definition require_key :: "string \<Rightarrow> unit provider_proc" where
  "require_key t =
     bind (gets targets) (\<lambda>ts. if t \<in> set ts then ret () else raise (KeyError t))"

definition FakeProvider_fence :: "string \<Rightarrow> int \<Rightarrow> unit provider_proc" where
  "FakeProvider_fence t epoch =
     bind (gets fencing) (\<lambda>on.
     if \<not> on then raise (UnsafeEffect ''fake adapter has no enforced fencing'')
     else seq (require_key t)
       (bind (gets epochs) (\<lambda>es.
        if epoch < es t then raise (UnsafeEffect ''stale fencing epoch'')
        else modify (\<lambda>p. p\<lparr>epochs := (epochs p)(t := epoch)\<rparr>))))"

definition FakeProvider_observe ::
  "string \<Rightarrow> string \<Rightarrow> (bool \<times> int \<times> Effect option) provider_proc" where
  "FakeProvider_observe t key =
     bind (gets readable) (\<lambda>ok.
     if \<not> ok then raise (UnsafeEffect ''fake provider observation unavailable'')
     else seq (require_key t)
       (gets (\<lambda>p. (health p t, generation p t, receipts p key))))"

definition supported_action :: "string \<Rightarrow> bool" where
  "supported_action a \<longleftrightarrow> a = ''restart'' \<or> a = ''restore''"

definition effect_op_id :: "FakeProvider \<Rightarrow> string" where
  "effect_op_id p = ''fake-effect-'' @ nat_str (length (effects p) + 1)"

text \<open>The state after a new effect: generation, health, effect log and receipt.\<close>

definition apply_effect ::
  "string \<Rightarrow> string \<Rightarrow> int \<Rightarrow> string \<Rightarrow> FakeProvider \<Rightarrow> FakeProvider" where
  "apply_effect t act epoch key p =
     (let receipt = (t, act, epoch, effect_op_id p) in
      p\<lparr>generation := (generation p)(t := generation p t + 1),
        health := (health p)(t := \<not> (if act = ''restart'' then fail_restart p else fail_restore p)),
        effects := effects p @ [receipt],
        receipts := (if idempotency p then (receipts p)(key \<mapsto> receipt) else receipts p)\<rparr>)"

definition FakeProvider_mutate ::
  "string \<Rightarrow> string \<Rightarrow> int \<Rightarrow> string \<Rightarrow> string provider_proc" where
  "FakeProvider_mutate t act epoch key =
     bind (gets id) (\<lambda>p.
     if \<not> validate_target p t \<or> \<not> supported_action act
       then raise (UnsafeEffect ''non-fake target or unsupported effect'')
     else if \<not> fencing p \<or> epoch \<noteq> epochs p t
       then raise (UnsafeEffect ''effect-boundary fencing rejected'')
     else case (if idempotency p then receipts p key else None) of
         Some (_, _, _, op_id) \<Rightarrow> ret op_id
       | None \<Rightarrow> seq (modify (apply_effect t act epoch key)) (ret (effect_op_id p)))"

section \<open>Facts about the operations\<close>

lemma wp_FakeProvider_fence [wp_simps]:
  "wp (FakeProvider_fence t epoch) Q E p =
     (if \<not> fencing p then E (UnsafeEffect ''fake adapter has no enforced fencing'') p
      else if t \<notin> set (targets p) then E (KeyError t) p
      else if epoch < epochs p t then E (UnsafeEffect ''stale fencing epoch'') p
      else Q () (p\<lparr>epochs := (epochs p)(t := epoch)\<rparr>))"
  by (simp add: FakeProvider_fence_def require_key_def wp_simps)

lemma wp_FakeProvider_observe [wp_simps]:
  "wp (FakeProvider_observe t key) Q E p =
     (if \<not> readable p then E (UnsafeEffect ''fake provider observation unavailable'') p
      else if t \<notin> set (targets p) then E (KeyError t) p
      else Q (health p t, generation p t, receipts p key) p)"
  by (simp add: FakeProvider_observe_def require_key_def wp_simps)

lemma wp_FakeProvider_mutate [wp_simps]:
  "wp (FakeProvider_mutate t act epoch key) Q E p =
     (if \<not> validate_target p t \<or> \<not> supported_action act
        then E (UnsafeEffect ''non-fake target or unsupported effect'') p
      else if \<not> fencing p \<or> epoch \<noteq> epochs p t
        then E (UnsafeEffect ''effect-boundary fencing rejected'') p
      else case (if idempotency p then receipts p key else None) of
          Some (_, _, _, op_id) \<Rightarrow> Q op_id p
        | None \<Rightarrow> Q (effect_op_id p) (apply_effect t act epoch key p))"
  by (auto simp: FakeProvider_mutate_def wp_simps split: option.splits)

lemma apply_effect_fields [simp]:
  "targets (apply_effect t act epoch key p) = targets p"
  "epochs (apply_effect t act epoch key p) = epochs p"
  "fencing (apply_effect t act epoch key p) = fencing p"
  "idempotency (apply_effect t act epoch key p) = idempotency p"
  "effects (apply_effect t act epoch key p) = effects p @ [(t, act, epoch, effect_op_id p)]"
  "receipts (apply_effect t act epoch key p) =
     (if idempotency p then (receipts p)(key \<mapsto> (t, act, epoch, effect_op_id p)) else receipts p)"
  "readable (apply_effect t act epoch key p) = readable p"
  by (simp_all add: apply_effect_def Let_def)

lemma validate_target_cong [simp]:
  "validate_target (apply_effect t act epoch key p) = validate_target p"
  "validate_target (p\<lparr>epochs := es\<rparr>) = validate_target p"
  by (simp_all add: validate_target_def fun_eq_iff)

section \<open>The effect log\<close>

text \<open>
  The log invariant: the \<open>i\<close>th effect carries the \<open>i\<close>th provider operation id, receipts are
  effects of the log, and an idempotent provider has exactly one receipt per effect, under
  different keys.
\<close>

definition provider_inv :: "FakeProvider \<Rightarrow> bool" where
  "provider_inv p \<longleftrightarrow>
     list_all symbolic_name (targets p) \<and>
     (\<forall>i < length (effects p). snd (snd (snd (effects p ! i))) = ''fake-effect-'' @ nat_str (i + 1)) \<and>
     finite (dom (receipts p)) \<and>
     (\<forall>k e. receipts p k = Some e \<longrightarrow> e \<in> set (effects p)) \<and>
     (idempotency p \<longrightarrow> length (effects p) = card (dom (receipts p)))"

lemma provider_inv_init: "FakeProvider_init ts f i = Inr p \<Longrightarrow> provider_inv p"
  by (auto simp: FakeProvider_init_def provider_inv_def list_ex_iff list_all_iff split: if_splits)

lemma provider_inv_effect:
  assumes "provider_inv p" and "idempotency p \<Longrightarrow> receipts p key = None"
  shows "provider_inv (apply_effect t act epoch key p)"
proof -
  have "snd (snd (snd ((effects p @ [(t, act, epoch, effect_op_id p)]) ! i))) =
          ''fake-effect-'' @ nat_str (i + 1)"
    if "i < Suc (length (effects p))" for i
    using that assms(1)
    by (cases "i = length (effects p)") (auto simp: provider_inv_def nth_append effect_op_id_def)
  moreover have "card (insert key (dom (receipts p))) = Suc (card (dom (receipts p)))"
    if "idempotency p"
    using assms that by (intro card_insert_disjoint) (auto simp: provider_inv_def)
  ultimately show ?thesis
    using assms by (auto simp: provider_inv_def)
qed

text \<open>The provider operation ids of the log are all different.\<close>

lemma effect_ids_distinct:
  assumes "provider_inv p"
  shows "distinct (map (\<lambda>e. snd (snd (snd e))) (effects p))"
  using assms by (auto simp: distinct_conv_nth provider_inv_def dest: nat_str_inj)

text \<open>A stale epoch cannot have an effect: the call fails and nothing changes.\<close>

lemma mutate_stale_epoch:
  "epoch \<noteq> epochs p t \<Longrightarrow> \<exists>e. FakeProvider_mutate t act epoch key p = (Inl (UnsafeEffect e), p)"
  by (auto simp: FakeProvider_mutate_def proc_defs)

end
