(* ===== verification/Failover_Simulator.thy ===== *)
theory Failover_Simulator
  imports Failover_Provider
begin

text \<open>
  The failover coordinator (\<open>Simulator\<close> in src/src/cybercore/failover_sim.py): grants, leases
  and verdicts, the gate evaluation, and the three operations \<open>run\<close>, \<open>reconcile\<close> and
  \<open>compensate\<close>, each with every journal write it makes and every exception it lets through.
  The commands a test or an operator can issue are the datatype \<open>command\<close>; \<open>perform\<close> runs one.
\<close>

section \<open>Data\<close>

record Capability =
  capability_id :: string
  cap_holder :: string
  cap_target :: string
  cap_action :: string
  cap_policy_hash :: string
  cap_expires :: int

record Verdict =
  v_decision :: string
  v_target :: string
  v_action :: string
  v_policy_hash :: string
  v_expires :: int
  v_valid :: bool

record Simulator =
  journal :: Journal
  provider :: FakeProvider
  now :: int
  capabilities :: "string \<times> string \<times> string \<rightharpoonup> Capability"
  verdicts :: "string \<times> string \<rightharpoonup> Verdict"
  human_approvals :: "string set"
  alerts :: "string list"

type_synonym 'a sim_proc = "(Simulator, fexn, 'a) proc"

definition Clock_default :: int where
  "Clock_default = 1800000000"

definition Simulator_init :: "Journal \<Rightarrow> FakeProvider \<Rightarrow> int \<Rightarrow> Simulator" where
  "Simulator_init j p t =
     \<lparr>journal = j, provider = p, now = t, capabilities = Map.empty, verdicts = Map.empty,
      human_approvals = {}, alerts = []\<rparr>"

definition on_journal :: "(Journal, fexn, 'a) proc \<Rightarrow> 'a sim_proc" where
  "on_journal m = zoom journal (\<lambda>j s. s\<lparr>journal := j\<rparr>) m"

definition on_provider :: "(FakeProvider, fexn, 'a) proc \<Rightarrow> 'a sim_proc" where
  "on_provider m = zoom provider (\<lambda>p s. s\<lparr>provider := p\<rparr>) m"

lemma wp_on_journal [wp_simps]:
  "wp (on_journal m) Q E s =
     wp m (\<lambda>a j. Q a (s\<lparr>journal := j\<rparr>)) (\<lambda>e j. E e (s\<lparr>journal := j\<rparr>)) (journal s)"
  by (simp add: on_journal_def wp_zoom)

lemma wp_on_provider [wp_simps]:
  "wp (on_provider m) Q E s =
     wp m (\<lambda>a p. Q a (s\<lparr>provider := p\<rparr>)) (\<lambda>e p. E e (s\<lparr>provider := p\<rparr>)) (provider s)"
  by (simp add: on_provider_def wp_zoom)

section \<open>Grants, leases and verdicts\<close>

definition Clock_advance :: "int \<Rightarrow> unit sim_proc" where
  "Clock_advance seconds = modify (\<lambda>s. s\<lparr>now := now s + seconds\<rparr>)"

definition Simulator_grant ::
  "string \<Rightarrow> string \<Rightarrow> string \<Rightarrow> string \<Rightarrow> int \<Rightarrow> Capability sim_proc" where
  "Simulator_grant holder t act ph ttl =
     bind (gets id) (\<lambda>s.
     if \<not> validate_target (provider s) t then raise (UnsafeEffect ''invalid fake target'')
     else
       let cap = \<lparr>capability_id = ''grant-'' @ holder @ ''-'' @ t @ ''-'' @ act,
                  cap_holder = holder, cap_target = t, cap_action = act,
                  cap_policy_hash = ph, cap_expires = now s + ttl\<rparr>
       in seq (modify (\<lambda>s. s\<lparr>capabilities := (capabilities s)((holder, t, act) \<mapsto> cap)\<rparr>))
            (ret cap))"

definition Simulator_lease :: "string \<Rightarrow> string \<Rightarrow> bool \<Rightarrow> int \<Rightarrow> Lease sim_proc" where
  "Simulator_lease holder t takeover ttl =
     bind (gets id) (\<lambda>s.
     if \<not> validate_target (provider s) t \<or> \<not> fencing (provider s)
       then raise (UnsafeEffect ''fencing unavailable'')
     else bind (on_journal (Journal_acquire t holder (now s) takeover ttl)) (\<lambda>lease.
          seq (on_provider (FakeProvider_fence t (lease_epoch lease))) (ret lease)))"

definition Simulator_allow ::
  "string \<Rightarrow> string \<Rightarrow> string \<Rightarrow> string \<Rightarrow> int \<Rightarrow> bool \<Rightarrow> Verdict sim_proc" where
  "Simulator_allow t act decision ph ttl valid =
     bind (gets now) (\<lambda>n.
     let verdict = \<lparr>v_decision = decision, v_target = t, v_action = act, v_policy_hash = ph,
                    v_expires = n + ttl, v_valid = valid\<rparr>
     in seq (modify (\<lambda>s. s\<lparr>verdicts := (verdicts s)((t, act) \<mapsto> verdict)\<rparr>)) (ret verdict))"

section \<open>The gates\<close>

text \<open>The result tuple: ok, reason, capability id, lease id, lease epoch, verdict.\<close>

type_synonym gate_result = "bool \<times> string \<times> string \<times> string \<times> int \<times> string"

definition gate_ok :: "gate_result \<Rightarrow> bool" where
  "gate_ok g = fst g"

definition gate_reason :: "gate_result \<Rightarrow> string" where
  "gate_reason g = fst (snd g)"

definition Jan :: string where
  "Jan = ''Jan Ko'' @ [CHR 0xC4, CHR 0x8D, CHR 0xC3, CHR 0xAD]"

definition capability_ok :: "Simulator \<Rightarrow> Request \<Rightarrow> Capability option \<Rightarrow> bool" where
  "capability_ok s req c =
     (case c of None \<Rightarrow> False
      | Some cap \<Rightarrow> \<not> (cap_expires cap \<le> now s \<or> cap_policy_hash cap \<noteq> policy_hash req))"

definition lease_ok :: "Simulator \<Rightarrow> Request \<Rightarrow> Lease option \<Rightarrow> bool" where
  "lease_ok s req l =
     (case l of None \<Rightarrow> False
      | Some lease \<Rightarrow>
          \<not> (lease_holder lease \<noteq> actor req \<or> lease_expires lease \<le> now s \<or>
             \<not> fencing (provider s) \<or> lease_epoch lease \<noteq> epochs (provider s) (target req)))"

definition verdict_ok :: "Simulator \<Rightarrow> Request \<Rightarrow> Verdict option \<Rightarrow> bool" where
  "verdict_ok s req v =
     (case v of None \<Rightarrow> False
      | Some w \<Rightarrow>
          \<not> (v_decision w \<noteq> ''ALLOW'' \<or> \<not> v_valid w \<or> v_expires w \<le> now s \<or>
             v_policy_hash w \<noteq> policy_hash req))"

definition Simulator_gates :: "Simulator \<Rightarrow> Request \<Rightarrow> gate_result" where
  "Simulator_gates s req =
    (let cap = capabilities s (actor req, target req, action req);
         lease = Journal_current_lease (target req) (journal s);
         v = verdicts s (target req, action req) in
     if production req then (False, ''production forbidden'', '''', '''', 0, '''')
     else if \<not> validate_target (provider s) (target req)
       then (False, ''target not a local fake'', '''', '''', 0, '''')
     else if \<not> supported_action (action req)
       then (False, ''invalid action'', '''', '''', 0, '''')
     else if \<not> inventory_fresh req \<or> \<not> restore_verified req
       then (False, ''stale inventory or untested restore'', '''', '''', 0, '''')
     else if \<not> (tier req = ''GREEN'' \<or> tier req = ''AMBER'' \<or> tier req = ''RED'')
       then (False, ''unrecognized risk tier'', '''', '''', 0, '''')
     else if Journal_in_flight (target req) (operation_id req) (journal s)
       then (False, ''unreconciled prior operation on target'', '''', '''', 0, '''')
     else if (tier req = ''AMBER'' \<or> tier req = ''RED'') \<and>
             (human_approval req \<noteq> Some Jan \<or> operation_id req \<notin> human_approvals s)
       then (False, ''explicit scoped Jan approval missing'', '''', '''', 0, '''')
     else if \<not> capability_ok s req cap
       then (False, ''capability missing, expired or wrong policy'', '''', '''', 0, '''')
     else if \<not> lease_ok s req lease
       then (False, ''exclusive fenced lease missing or stale'', capability_id (the cap), '''', 0, '''')
     else if \<not> verdict_ok s req v
       then (False, ''VOODOO veto/timeout/corrupt verdict'', capability_id (the cap),
             lease_id (the lease), lease_epoch (the lease),
             (case v of None \<Rightarrow> ''UNKNOWN'' | Some w \<Rightarrow> v_decision w))
     else (True, '''', capability_id (the cap), lease_id (the lease), lease_epoch (the lease), ''ALLOW''))"

section \<open>Journal writes of the coordinator\<close>

fun alerting :: "OpState \<Rightarrow> bool" where
  "alerting STOPPED = True"
| "alerting UNKNOWN = True"
| "alerting RECOVERY_FAILED = True"
| "alerting RECOVERY_BLOCKED = True"
| "alerting _ = False"

definition transition_details ::
  "Simulator \<Rightarrow> Request \<Rightarrow> string \<Rightarrow> string option \<Rightarrow> bool option \<Rightarrow> Details" where
  "transition_details s req reason op changed =
     (case Simulator_gates s req of (_, _, cap_id, l_id, epoch, verdict) \<Rightarrow>
        \<lparr>d_capability_id = cap_id, d_lease_id = l_id, d_lease_epoch = epoch,
         d_verdict = verdict, d_provider_op = op, d_changed = changed, d_reason = reason\<rparr>)"

definition Simulator_transition ::
  "Request \<Rightarrow> OpState \<Rightarrow> string \<Rightarrow> string option \<Rightarrow> bool option \<Rightarrow> unit sim_proc" where
  "Simulator_transition req st reason op changed =
     bind (gets id) (\<lambda>s.
     seq (on_journal (Journal_transition (operation_id req) (now s) st
            (transition_details s req reason op changed)))
       (if alerting st
        then modify (\<lambda>s. s\<lparr>alerts := alerts s @
               [operation_id req @ '':'' @ state_text st @ '':'' @ reason]\<rparr>)
        else ret ()))"

text \<open>\<open>self._transition(req, st, reason=...); return st\<close>\<close>

definition finish :: "Request \<Rightarrow> OpState \<Rightarrow> string \<Rightarrow> OpState sim_proc" where
  "finish req st reason = seq (Simulator_transition req st reason None None) (ret st)"

section \<open>run\<close>

text \<open>From \<open>try: receipt = self.provider.mutate(...)\<close> to the end of \<open>run\<close>.\<close>

definition Simulator_verify_effect :: "Request \<Rightarrow> string \<Rightarrow> OpState sim_proc" where
  "Simulator_verify_effect req receipt =
     seq (Simulator_transition req VERIFYING '''' (Some receipt) (Some True))
     (bind (on_provider (FakeProvider_observe (target req) (operation_id req)))
       (\<lambda>(healthy, _, _).
        if healthy then finish req SUCCEEDED ''''
        else finish req UNKNOWN ''health failed after effect''))"

definition Simulator_effect :: "Request \<Rightarrow> string option \<Rightarrow> OpState sim_proc" where
  "Simulator_effect req crash =
     bind (gets (\<lambda>s. Journal_current_lease (target req) (journal s))) (\<lambda>l.
     case l of
       None \<Rightarrow> finish req UNKNOWN ''lost lease''
     | Some lease \<Rightarrow>
         bind (handle
            (bind (on_provider (FakeProvider_mutate (target req) (action req)
                      (lease_epoch lease) (operation_id req))) (\<lambda>r. ret (Inr r)))
            (\<lambda>e. case e of UnsafeEffect msg \<Rightarrow> Some (ret (Inl msg)) | _ \<Rightarrow> None))
         (\<lambda>outcome. case outcome of
            Inl msg \<Rightarrow> finish req STOPPED msg
          | Inr receipt \<Rightarrow>
              if crash = Some ''after_effect''
              then raise (SimulatedCrash ''Kato stopped after effect before acknowledgement'')
              else Simulator_verify_effect req receipt))"

text \<open>The generation \<open>run\<close> records before the effect; an invalid target never reaches the provider.\<close>

definition initial_generation :: "Request \<Rightarrow> Simulator \<Rightarrow> int" where
  "initial_generation req s =
     (if validate_target (provider s) (target req) then generation (provider s) (target req) else 0)"

definition Simulator_run :: "Request \<Rightarrow> string option \<Rightarrow> OpState sim_proc" where
  "Simulator_run req crash =
     bind (gets id) (\<lambda>s.
     if Journal_get (operation_id req) (journal s) \<noteq> None
       then raise (UnsafeEffect ''duplicate operation ID; reconcile instead'')
     else seq (on_journal (Journal_begin req (initial_generation req s) (now s)))
       (bind (gets (\<lambda>s. Simulator_gates s req)) (\<lambda>g.
        if \<not> gate_ok g then finish req STOPPED (gate_reason g)
        else if crash = Some ''before_effect''
          then raise (SimulatedCrash ''Kato stopped after durable PREPARED'')
        else seq (Simulator_transition req EXECUTING '''' None None)
          (if crash = Some ''during_effect''
           then raise (SimulatedCrash ''Kato lost after EXECUTING checkpoint'')
           else bind (gets (\<lambda>s. Simulator_gates s req)) (\<lambda>g'.
             if \<not> gate_ok g' then finish req STOPPED (gate_reason g')
             else Simulator_effect req crash)))))"

section \<open>reconcile\<close>

fun settled :: "OpState \<Rightarrow> bool" where
  "settled STOPPED = True"
| "settled SUCCEEDED = True"
| "settled RECOVERY_FAILED = True"
| "settled RECOVERY_BLOCKED = True"
| "settled _ = False"

definition intent_conflict :: "OpRow \<Rightarrow> Request \<Rightarrow> bool" where
  "intent_conflict row req \<longleftrightarrow>
     row_actor row \<noteq> actor req \<or> row_target row \<noteq> target req \<or> row_action row \<noteq> action req \<or>
     row_tier row \<noteq> tier req \<or> row_policy_hash row \<noteq> policy_hash req \<or>
     row_correlation_id row \<noteq> correlation_id req"

text \<open>The re-dispatch at the end of \<open>reconcile\<close>, from the second gate evaluation on.\<close>

definition Simulator_redispatch :: "Request \<Rightarrow> OpState sim_proc" where
  "Simulator_redispatch req =
     bind (gets (\<lambda>s. Simulator_gates s req)) (\<lambda>g.
     if \<not> gate_ok g then finish req STOPPED (gate_reason g)
     else seq (Simulator_transition req EXECUTING ''safe idempotent re-dispatch'' None None)
       (bind (gets (\<lambda>s. Journal_current_lease (target req) (journal s))) (\<lambda>l.
        case l of
          None \<Rightarrow> finish req UNKNOWN ''lease vanished''
        | Some lease \<Rightarrow>
            bind (on_provider (FakeProvider_mutate (target req) (action req)
                    (lease_epoch lease) (operation_id req))) (\<lambda>receipt.
            seq (Simulator_transition req VERIFYING '''' (Some receipt) (Some True))
            (bind (on_provider (FakeProvider_observe (target req) (operation_id req)))
              (\<lambda>(healthy, _, _).
               if healthy then finish req SUCCEEDED ''provider health verified''
               else finish req UNKNOWN ''effect unhealthy''))))))"

definition Simulator_reconcile :: "Request \<Rightarrow> bool \<Rightarrow> OpState sim_proc" where
  "Simulator_reconcile req retry =
     bind (gets (\<lambda>s. Journal_get (operation_id req) (journal s))) (\<lambda>found.
     case found of
       None \<Rightarrow> raise (UnsafeEffect ''nothing to reconcile'')
     | Some row \<Rightarrow>
         if settled (row_state row) then ret (row_state row)
         else if intent_conflict row req
           then raise (UnsafeEffect ''reconciliation request conflicts with durable intent'')
         else bind (handle
            (bind (on_provider (FakeProvider_observe (target req) (operation_id req)))
               (\<lambda>r. ret (Inr r)))
            (\<lambda>e. case e of UnsafeEffect msg \<Rightarrow> Some (ret (Inl msg)) | _ \<Rightarrow> None))
         (\<lambda>seen. case seen of
            Inl msg \<Rightarrow> finish req UNKNOWN msg
          | Inr (healthy, _, receipt) \<Rightarrow>
             (case receipt of
                Some (_, _, _, op_id) \<Rightarrow>
                  seq (Simulator_transition req VERIFYING '''' (Some op_id) (Some True))
                  (if healthy then finish req SUCCEEDED ''''
                   else finish req UNKNOWN ''observed unhealthy service'')
              | None \<Rightarrow>
                  bind (gets provider) (\<lambda>p.
                  if \<not> retry \<or> \<not> idempotency p \<or> \<not> fencing p
                  then finish req UNKNOWN ''effect not provably absent''
                  else Simulator_redispatch req))))"

section \<open>compensate\<close>

definition restore_key :: "string \<Rightarrow> string" where
  "restore_key op = op @ '':restore''"

definition Simulator_restore :: "Request \<Rightarrow> OpState sim_proc" where
  "Simulator_restore req =
     bind (gets (\<lambda>s. Journal_current_lease (target req) (journal s))) (\<lambda>l.
     case l of
       None \<Rightarrow> finish req RECOVERY_BLOCKED ''lease missing''
     | Some lease \<Rightarrow>
         bind (handle
            (bind (on_provider (FakeProvider_mutate (target req) ''restore''
                      (lease_epoch lease) (restore_key (operation_id req)))) (\<lambda>r. ret (Inr r)))
            (\<lambda>e. case e of UnsafeEffect msg \<Rightarrow> Some (ret (Inl msg)) | _ \<Rightarrow> None))
         (\<lambda>outcome. case outcome of
            Inl msg \<Rightarrow> finish req RECOVERY_FAILED msg
          | Inr op_id \<Rightarrow>
              seq (Simulator_transition req VERIFYING '''' (Some op_id) (Some True))
              (bind (on_provider (FakeProvider_observe (target req)
                        (restore_key (operation_id req))))
                (\<lambda>(healthy, _, _).
                 if healthy then finish req SUCCEEDED ''restored health verified''
                 else finish req RECOVERY_FAILED ''compensation health check failed''))))"

definition Simulator_compensate :: "Request \<Rightarrow> OpState sim_proc" where
  "Simulator_compensate req =
     bind (gets (\<lambda>s. Journal_get (operation_id req) (journal s))) (\<lambda>found.
     case found of
       None \<Rightarrow> raise (UnsafeEffect ''compensation requires an unresolved operation'')
     | Some row \<Rightarrow>
         if \<not> (row_state row = UNKNOWN \<or> row_state row = RECOVERING)
           then raise (UnsafeEffect ''compensation requires an unresolved operation'')
         else if intent_conflict row req
           then raise (UnsafeEffect ''compensation request conflicts with durable intent'')
         else bind (gets (\<lambda>s. Simulator_gates s (req\<lparr>action := ''restore''\<rparr>))) (\<lambda>g.
           if \<not> gate_ok g then finish req RECOVERY_BLOCKED (gate_reason g)
           else seq (Simulator_transition req RECOVERING ''approved distinct restore effect'' None None)
             (Simulator_restore req)))"

section \<open>Commands\<close>

text \<open>
  What the surroundings of the simulator can do: the public methods, an approval by the human,
  the fault switches of the provider and the journal, and the loss of the controller process
  (a new \<open>Simulator\<close> on the same journal and provider).
\<close>

datatype command =
    Grant string string string string int
  | TakeLease string string bool int
  | Allow string string string string int bool
  | Run Request "string option"
  | Reconcile Request bool
  | Compensate Request
  | Advance int
  | Approve string
  | RevokeCapabilities
  | SetFaults bool bool bool
  | SetFailWrites bool
  | Restart

definition outcome_of :: "'a sim_proc \<Rightarrow> Simulator \<Rightarrow> Simulator" where
  "outcome_of m s = snd (m s)"

fun perform :: "command \<Rightarrow> Simulator \<Rightarrow> Simulator" where
  "perform (Grant h t a ph ttl) s = outcome_of (Simulator_grant h t a ph ttl) s"
| "perform (TakeLease h t takeover ttl) s = outcome_of (Simulator_lease h t takeover ttl) s"
| "perform (Allow t a d ph ttl v) s = outcome_of (Simulator_allow t a d ph ttl v) s"
| "perform (Run req crash) s = outcome_of (Simulator_run req crash) s"
| "perform (Reconcile req retry) s = outcome_of (Simulator_reconcile req retry) s"
| "perform (Compensate req) s = outcome_of (Simulator_compensate req) s"
| "perform (Advance n) s = outcome_of (Clock_advance n) s"
| "perform (Approve op) s = s\<lparr>human_approvals := insert op (human_approvals s)\<rparr>"
| "perform RevokeCapabilities s = s\<lparr>capabilities := Map.empty\<rparr>"
| "perform (SetFaults f_restart f_restore can_read) s =
     s\<lparr>provider := (provider s)\<lparr>fail_restart := f_restart, fail_restore := f_restore,
                                readable := can_read\<rparr>\<rparr>"
| "perform (SetFailWrites b) s = s\<lparr>journal := (journal s)\<lparr>fail_writes := b\<rparr>\<rparr>"
| "perform Restart s =
     Simulator_init ((journal s)\<lparr>fail_writes := False\<rparr>) (provider s) (now s)"

end
