(* ===== verification/Failover_Safety.thy ===== *)
theory Failover_Safety
  imports Failover_Simulator
begin

text \<open>
  Safety of the failover simulator. The invariant \<open>sim_inv\<close> ties the operation rows to the
  event log, the leases to the provider's epochs and the receipts to the journalled operations,
  and says that a target never has two operations in flight; every command keeps it. The relation
  \<open>progress\<close> is what every command guarantees about the past: logs only grow, epochs never fall,
  settled operations stay as they are.
\<close>

section \<open>The states after the journal writes\<close>

definition begun :: "Request \<Rightarrow> int \<Rightarrow> Simulator \<Rightarrow> Simulator" where
  "begun req gen s =
     s\<lparr>journal := Journal_event (operation_id req) (now s) (prepared_event req)
         ((journal s)\<lparr>operations := operations (journal s) @ [prepared_row req gen]\<rparr>)\<rparr>"

definition moved ::
  "Request \<Rightarrow> OpState \<Rightarrow> string \<Rightarrow> string option \<Rightarrow> bool option \<Rightarrow> OpRow \<Rightarrow> Simulator \<Rightarrow> Simulator"
where
  "moved req st reason op ch r s =
     (let d = transition_details s req reason op ch in
      s\<lparr>journal := Journal_event (operation_id req) (now s) (transition_event r st d)
                     (update_operation (operation_id req) st d (journal s)),
        alerts := (if alerting st
                   then alerts s @ [operation_id req @ '':'' @ state_text st @ '':'' @ reason]
                   else alerts s)\<rparr>)"

definition row_of :: "Request \<Rightarrow> Simulator \<Rightarrow> OpRow option" where
  "row_of req s = Journal_get (operation_id req) (journal s)"

lemma wp_Simulator_transition [wp_simps]:
  "wp (Simulator_transition req st reason op ch) Q E s =
     (if fail_writes (journal s) then E (AuditUnavailable ''injected journal-write failure'') s
      else case row_of req s of
        None \<Rightarrow> E (AuditUnavailable ''missing persisted operation'') s
      | Some r \<Rightarrow> Q () (moved req st reason op ch r s))"
  by (auto simp: Simulator_transition_def moved_def row_of_def Let_def wp_simps split: option.splits)

lemma wp_finish [wp_simps]:
  "wp (finish req st reason) Q E s =
     (if fail_writes (journal s) then E (AuditUnavailable ''injected journal-write failure'') s
      else case row_of req s of
        None \<Rightarrow> E (AuditUnavailable ''missing persisted operation'') s
      | Some r \<Rightarrow> Q st (moved req st reason None None r s))"
  by (auto simp: finish_def wp_simps split: option.splits)

lemma moved_fields [simp]:
  "provider (moved req st reason op ch r s) = provider s"
  "now (moved req st reason op ch r s) = now s"
  "capabilities (moved req st reason op ch r s) = capabilities s"
  "verdicts (moved req st reason op ch r s) = verdicts s"
  "human_approvals (moved req st reason op ch r s) = human_approvals s"
  "leases (journal (moved req st reason op ch r s)) = leases (journal s)"
  "fail_writes (journal (moved req st reason op ch r s)) = fail_writes (journal s)"
  by (simp_all add: moved_def Let_def)

lemma begun_fields [simp]:
  "provider (begun req gen s) = provider s"
  "now (begun req gen s) = now s"
  "capabilities (begun req gen s) = capabilities s"
  "verdicts (begun req gen s) = verdicts s"
  "human_approvals (begun req gen s) = human_approvals s"
  "leases (journal (begun req gen s)) = leases (journal s)"
  "fail_writes (journal (begun req gen s)) = fail_writes (journal s)"
  by (simp_all add: begun_def)

lemma row_of_moved [simp]:
  "row_of req (moved req st reason op ch r s) =
     map_option (update_row st (transition_details s req reason op ch)) (row_of req s)"
  by (simp add: row_of_def moved_def Let_def)

lemma row_of_begun [simp]:
  "row_of req s = None \<Longrightarrow> row_of req (begun req gen s) = Some (prepared_row req gen)"
  by (simp add: row_of_def begun_def)

lemma row_of_provider [simp]: "row_of req (s\<lparr>provider := p\<rparr>) = row_of req s"
  by (simp add: row_of_def)

section \<open>The gates read the authority only\<close>

text \<open>
  The gates of a request do not change when a journal write for the same operation is made, nor
  when the provider's effect log changes: the second evaluation in \<open>run\<close> can only repeat the first.
\<close>

lemma gates_cong:
  assumes "validate_target (provider t) = validate_target (provider s)"
    and "fencing (provider t) = fencing (provider s)" and "epochs (provider t) = epochs (provider s)"
    and "now t = now s" and "capabilities t = capabilities s" and "verdicts t = verdicts s"
    and "human_approvals t = human_approvals s" and "leases (journal t) = leases (journal s)"
    and "Journal_in_flight (target req) (operation_id req) (journal t) =
         Journal_in_flight (target req) (operation_id req) (journal s)"
  shows "Simulator_gates t req = Simulator_gates s req"
  by (simp only: Simulator_gates_def Journal_current_lease_def capability_ok_def lease_ok_def
      verdict_ok_def assms)

lemma in_flight_moved [simp]:
  "Journal_in_flight t (operation_id req) (journal (moved req st reason op ch r s)) =
     Journal_in_flight t (operation_id req) (journal s)"
  by (simp add: moved_def Let_def)

lemma in_flight_begun [simp]:
  "Journal_in_flight t (operation_id req) (journal (begun req gen s)) =
     Journal_in_flight t (operation_id req) (journal s)"
  by (simp add: begun_def)

lemma gates_moved [simp]:
  "operation_id req' = operation_id req \<Longrightarrow>
     Simulator_gates (moved req st reason op ch r s) req' = Simulator_gates s req'"
  by (rule gates_cong) simp_all

lemma gates_begun [simp]:
  "operation_id req' = operation_id req \<Longrightarrow>
     Simulator_gates (begun req gen s) req' = Simulator_gates s req'"
  by (rule gates_cong) simp_all

lemma gates_effect [simp]:
  "Simulator_gates (s\<lparr>provider := apply_effect t act epoch key (provider s)\<rparr>) req =
     Simulator_gates s req"
  by (rule gates_cong) simp_all

text \<open>The authorisation an effect needs, stated without the order of the tests.\<close>

definition authorised :: "Simulator \<Rightarrow> Request \<Rightarrow> bool" where
  "authorised s req \<longleftrightarrow>
     \<not> production req \<and> validate_target (provider s) (target req) \<and>
     supported_action (action req) \<and> inventory_fresh req \<and> restore_verified req \<and>
     tier req \<in> {''GREEN'', ''AMBER'', ''RED''} \<and>
     \<not> Journal_in_flight (target req) (operation_id req) (journal s) \<and>
     (tier req \<noteq> ''GREEN'' \<longrightarrow>
        human_approval req = Some Jan \<and> operation_id req \<in> human_approvals s) \<and>
     (\<exists>cap. capabilities s (actor req, target req, action req) = Some cap \<and>
        now s < cap_expires cap \<and> cap_policy_hash cap = policy_hash req) \<and>
     (\<exists>l. leases (journal s) (target req) = Some l \<and> lease_holder l = actor req \<and>
        now s < lease_expires l \<and> fencing (provider s) \<and>
        lease_epoch l = epochs (provider s) (target req)) \<and>
     (\<exists>v. verdicts s (target req, action req) = Some v \<and> v_decision v = ''ALLOW'' \<and> v_valid v \<and>
        now s < v_expires v \<and> v_policy_hash v = policy_hash req)"

lemma gates_iff_authorised: "gate_ok (Simulator_gates s req) \<longleftrightarrow> authorised s req"
  by (auto simp: gate_ok_def Simulator_gates_def authorised_def Let_def Journal_current_lease_def
      capability_ok_def lease_ok_def verdict_ok_def split: option.splits)

section \<open>The invariant\<close>

text \<open>The state the last event of an operation recorded.\<close>

definition last_event_state :: "string \<Rightarrow> Journal \<Rightarrow> json option" where
  "last_event_state op j =
     (let es = filter (\<lambda>e. ev_operation_id e = op) (events j) in
      if es = [] then None else map_of (ev_data (last es)) ''state'')"

definition journal_inv :: "Journal \<Rightarrow> bool" where
  "journal_inv j \<longleftrightarrow>
     distinct (map row_operation_id (operations j)) \<and>
     map ev_seq (events j) = [1..<Suc (length (events j))] \<and>
     (\<forall>r \<in> set (operations j).
        last_event_state (row_operation_id r) j = Some (JStr (state_text (row_state r)))) \<and>
     (\<forall>e \<in> set (events j). ev_operation_id e \<in> row_operation_id ` set (operations j))"

text \<open>No two operations in flight on one target.\<close>

definition exclusive_rows :: "OpRow list \<Rightarrow> bool" where
  "exclusive_rows rs \<longleftrightarrow>
     (\<forall>r \<in> set rs. \<forall>r' \<in> set rs.
        in_flight_state (row_state r) \<longrightarrow> in_flight_state (row_state r') \<longrightarrow>
        row_target r = row_target r' \<longrightarrow> row_operation_id r = row_operation_id r')"

definition exclusive :: "Journal \<Rightarrow> bool" where
  "exclusive j \<longleftrightarrow> exclusive_rows (operations j)"

text \<open>The provider's fencing epoch is the epoch of the journal's lease.\<close>

primrec granted_epoch :: "Lease option \<Rightarrow> int" where
  "granted_epoch None = 0"
| "granted_epoch (Some l) = lease_epoch l"

definition fenced :: "Simulator \<Rightarrow> bool" where
  "fenced s \<longleftrightarrow>
     (\<forall>t \<in> set (targets (provider s)).
        epochs (provider s) t = granted_epoch (leases (journal s) t)) \<and>
     (\<forall>t l. leases (journal s) t = Some l \<longrightarrow> 1 \<le> lease_epoch l)"

definition journal_ids :: "Simulator \<Rightarrow> string set" where
  "journal_ids s = row_operation_id ` set (operations (journal s))"

definition base_inv :: "Simulator \<Rightarrow> bool" where
  "base_inv s \<longleftrightarrow>
     journal_inv (journal s) \<and> provider_inv (provider s) \<and> fenced s \<and>
     dom (receipts (provider s)) \<subseteq> journal_ids s \<union> restore_key ` journal_ids s"

definition sim_inv :: "Simulator \<Rightarrow> bool" where
  "sim_inv s \<longleftrightarrow> base_inv s \<and> exclusive (journal s)"

lemma journal_inv_next_seq:
  assumes "journal_inv j"
  shows "next_seq j = Suc (length (events j))"
proof -
  have "fold max (map ev_seq (events j)) 0 = fold max [1..<Suc (length (events j))] 0"
    using assms by (simp add: journal_inv_def)
  also have "fold max [1..<Suc n] 0 = n" for n :: nat
    by (induction n) auto
  finally show ?thesis by (simp add: next_seq_def)
qed

lemma last_event_state_event:
  "last_event_state op (Journal_event op' n data j) =
     (if op = op' then map_of data ''state'' else last_event_state op j)"
  by (simp add: last_event_state_def Journal_event_def Let_def)

lemma last_event_state_operations [simp]:
  "last_event_state op (j\<lparr>operations := rs\<rparr>) = last_event_state op j"
  "last_event_state op (update_operation op' st d j) = last_event_state op j"
  by (simp_all add: last_event_state_def update_operation_def)

lemma ids_update [simp]:
  "map row_operation_id (operations (update_operation op st d j)) =
     map row_operation_id (operations j)"
  by (auto simp: update_operation_def)

lemma ids_update_set [simp]:
  "row_operation_id ` set (operations (update_operation op st d j)) =
     row_operation_id ` set (operations j)"
  by (metis ids_update set_map)

text \<open>Appending an event for \<open>op\<close> together with new rows: what is left to check.\<close>

lemma journal_inv_event:
  assumes inv: "journal_inv j"
    and dist: "distinct (map row_operation_id rs)"
    and ids: "row_operation_id ` set (operations j) \<subseteq> row_operation_id ` set rs"
    and op: "op \<in> row_operation_id ` set rs"
    and old: "\<And>r. r \<in> set rs \<Longrightarrow> row_operation_id r \<noteq> op \<Longrightarrow> r \<in> set (operations j)"
    and new: "\<And>r. r \<in> set rs \<Longrightarrow> row_operation_id r = op \<Longrightarrow>
                map_of data ''state'' = Some (JStr (state_text (row_state r)))"
  shows "journal_inv (Journal_event op n data (j\<lparr>operations := rs\<rparr>))"
proof -
  let ?j = "Journal_event op n data (j\<lparr>operations := rs\<rparr>)"
  have nxt: "next_seq (j\<lparr>operations := rs\<rparr>) = Suc (length (events j))"
    using journal_inv_next_seq [OF inv] by (simp add: next_seq_def)
  have rs: "operations ?j = rs" by simp
  have len: "length (events ?j) = Suc (length (events j))"
    by (simp add: Journal_event_def)
  have "map ev_seq (events ?j) = map ev_seq (events j) @ [Suc (length (events j))]"
    by (simp add: Journal_event_def nxt)
  also have "\<dots> = [1..<Suc (length (events j))] @ [Suc (length (events j))]"
    using inv by (simp only: journal_inv_def)
  also have "\<dots> = [1..<Suc (length (events ?j))]"
    by (simp only: len upt_Suc) simp
  finally have seqs: "map ev_seq (events ?j) = [1..<Suc (length (events ?j))]" .
  have "last_event_state (row_operation_id r) ?j = Some (JStr (state_text (row_state r)))"
    if "r \<in> set rs" for r
    using that inv new old by (auto simp: last_event_state_event journal_inv_def)
  moreover have "ev_operation_id e \<in> row_operation_id ` set rs" if "e \<in> set (events ?j)" for e
    using that inv ids op by (auto simp: Journal_event_def journal_inv_def)
  ultimately show ?thesis
    unfolding journal_inv_def rs using dist seqs by blast
qed

lemma journal_inv_begin:
  assumes "journal_inv j" and "Journal_get (operation_id req) j = None"
  shows "journal_inv (Journal_event (operation_id req) n (prepared_event req)
           (j\<lparr>operations := operations j @ [prepared_row req gen]\<rparr>))"
  using assms
  by (intro journal_inv_event) (auto simp: journal_inv_def Journal_get_None prepared_event_def)

lemma update_operation_operations:
  "update_operation op st d j =
     j\<lparr>operations := map (\<lambda>r. if row_operation_id r = op then update_row st d r else r) (operations j)\<rparr>"
  by (simp add: update_operation_def)

lemma journal_inv_move:
  assumes inv: "journal_inv j" and get: "Journal_get op j = Some r"
  shows "journal_inv (Journal_event op n (transition_event r st d) (update_operation op st d j))"
proof -
  let ?f = "\<lambda>r. if row_operation_id r = op then update_row st d r else r"
  have ids: "map row_operation_id (map ?f (operations j)) = map row_operation_id (operations j)"
    by simp
  have op: "op \<in> row_operation_id ` set (operations j)"
    using Journal_get_SomeD [OF get] by auto
  have set_ids: "row_operation_id ` set (map ?f (operations j)) = row_operation_id ` set (operations j)"
    using arg_cong [OF ids, of set] by (simp only: set_map)
  have "r' \<in> set (operations j)" if "r' \<in> set (map ?f (operations j))" and "row_operation_id r' \<noteq> op" for r'
    using that by (auto split: if_splits)
  moreover have "map_of (transition_event r st d) ''state'' = Some (JStr (state_text (row_state r')))"
    if r': "r' \<in> set (map ?f (operations j))" and r'_op: "row_operation_id r' = op" for r'
  proof -
    from r' have "r' \<in> ?f ` set (operations j)" by (simp only: set_map)
    then obtain q where q: "r' = ?f q" by blast
    with r'_op have "row_operation_id q = op" by (simp split: if_splits)
    with q have "row_state r' = st" by simp
    then show ?thesis by (simp add: transition_event_def)
  qed
  moreover have "distinct (map row_operation_id (map ?f (operations j)))"
    unfolding ids using inv by (simp only: journal_inv_def)
  ultimately show ?thesis
    unfolding update_operation_operations using inv op set_ids
    by (intro journal_inv_event) (simp_all only: order_refl)
qed

lemma exclusive_rowsD:
  "exclusive_rows rs \<Longrightarrow> r \<in> set rs \<Longrightarrow> r' \<in> set rs \<Longrightarrow> in_flight_state (row_state r) \<Longrightarrow>
     in_flight_state (row_state r') \<Longrightarrow> row_target r = row_target r' \<Longrightarrow>
     row_operation_id r = row_operation_id r'"
  unfolding exclusive_rows_def by blast

lemma exclusive_rows_map:
  assumes ex: "exclusive_rows rs"
    and f: "\<And>r. r \<in> set rs \<Longrightarrow>
           row_operation_id (f r) = row_operation_id r \<and> row_target (f r) = row_target r \<and>
           (in_flight_state (row_state (f r)) \<longrightarrow> in_flight_state (row_state r))"
  shows "exclusive_rows (map f rs)"
  unfolding exclusive_rows_def
proof (intro ballI impI)
  fix a b
  assume "a \<in> set (map f rs)" and "b \<in> set (map f rs)"
    and flight: "in_flight_state (row_state a)" "in_flight_state (row_state b)"
    and t: "row_target a = row_target b"
  then obtain a' b' where "a = f a'" "a' \<in> set rs" "b = f b'" "b' \<in> set rs" by auto
  with flight t f [of a'] f [of b'] show "row_operation_id a = row_operation_id b"
    using exclusive_rowsD [OF ex, of a' b'] by simp
qed

lemma exclusive_rows_append:
  assumes ex: "exclusive_rows rs"
    and r: "in_flight_state (row_state r) \<Longrightarrow>
           \<forall>r' \<in> set rs. row_target r' = row_target r \<longrightarrow> in_flight_state (row_state r') \<longrightarrow>
             row_operation_id r' = row_operation_id r"
  shows "exclusive_rows (rs @ [r])"
  unfolding exclusive_rows_def
proof (intro ballI impI)
  fix a b
  assume "a \<in> set (rs @ [r])" and "b \<in> set (rs @ [r])"
    and flight: "in_flight_state (row_state a)" "in_flight_state (row_state b)"
    and t: "row_target a = row_target b"
  then consider "a \<in> set rs" "b \<in> set rs" | "a \<in> set rs" "b = r" | "a = r" "b \<in> set rs"
    | "a = r" "b = r" by auto
  then show "row_operation_id a = row_operation_id b"
  proof cases
    case 1
    with flight t ex show ?thesis by (blast dest: exclusive_rowsD)
  next
    case 2
    with flight t r show ?thesis by metis
  next
    case 3
    with flight t r show ?thesis by metis
  next
    case 4
    then show ?thesis by simp
  qed
qed

lemma exclusive_event [simp]: "exclusive (Journal_event op n data j) = exclusive j"
  by (simp add: exclusive_def)

lemma exclusive_move:
  assumes "exclusive j" and "distinct (map row_operation_id (operations j))"
    and r: "Journal_get op j = Some r"
    and live: "in_flight_state (row_state r) \<or> \<not> in_flight_state st"
  shows "exclusive (update_operation op st d j)"
proof -
  have "r' = r" if "r' \<in> set (operations j)" and "row_operation_id r' = op" for r'
    using that Journal_get_SomeD [OF r] assms(2) by (auto intro: distinct_key_eq)
  with live have
    "in_flight_state (row_state (if row_operation_id q = op then update_row st d q else q))
       \<Longrightarrow> in_flight_state (row_state q)"
    if "q \<in> set (operations j)" for q
    using that by (auto split: if_splits)
  then show ?thesis
    using assms(1) unfolding exclusive_def update_operation_def
    by (auto intro!: exclusive_rows_map)
qed

lemma exclusive_begin:
  assumes "exclusive j" and "\<not> Journal_in_flight (target req) (operation_id req) j"
  shows "exclusive (j\<lparr>operations := operations j @ [prepared_row req gen]\<rparr>)"
  using assms by (auto simp: exclusive_def in_flight_iff intro!: exclusive_rows_append)

lemma exclusive_begin_stop:
  assumes "exclusive j" and "Journal_get (operation_id req) j = None"
    and "\<not> in_flight_state st"
  shows "exclusive (update_operation (operation_id req) st d
           (Journal_event op n data (j\<lparr>operations := operations j @ [prepared_row req gen]\<rparr>)))"
proof -
  have "map (\<lambda>r. if row_operation_id r = operation_id req then update_row st d r else r)
          (operations j) = operations j"
    using assms(2) by (intro map_idI) (auto simp: Journal_get_None)
  with assms show ?thesis
    by (auto simp: exclusive_def update_operation_def intro!: exclusive_rows_append)
qed

end
