(* ===== verification/Failover_Protocol.thy ===== *)
theory Failover_Protocol
  imports Failover_Safety
begin

text \<open>
  The abstract specification of the coordinator: a step relation \<open>wal\<close> (write-ahead log) with one
  rule per durable step, each with the guard that makes it safe. \<open>run_wals\<close>, \<open>reconcile_wals\<close> and
  \<open>compensate_wals\<close> are the refinement: whatever the three operations do, on return and on every
  exception, is a sequence of such steps. The properties of the simulator are then proved by rule
  induction on \<open>wal\<close> and never by unfolding the operations again.
\<close>

section \<open>The write-ahead protocol\<close>

text \<open>Which state an operation row may be moved to.\<close>

fun edge :: "OpState \<Rightarrow> OpState \<Rightarrow> bool" where
  "edge a PREPARED = False"
| "edge a EXECUTING = (\<not> settled a)"
| "edge a VERIFYING = (\<not> settled a)"
| "edge a UNKNOWN = (\<not> settled a)"
| "edge a STOPPED = (\<not> settled a)"
| "edge a SUCCEEDED = (a = VERIFYING)"
| "edge a RECOVERING = (a = UNKNOWN \<or> a = RECOVERING)"
| "edge a RECOVERY_BLOCKED = (a = UNKNOWN \<or> a = RECOVERING)"
| "edge a RECOVERY_FAILED = (a = RECOVERING \<or> a = VERIFYING)"

text \<open>
  One durable step of the protocol for a request: an operation is prepared with its authority, or
  recorded and stopped at once; its row is moved along an edge of the state machine, to \<open>STOPPED\<close>
  only without a receipt and to \<open>SUCCEEDED\<close> only with the provider seen healthy; or the provider
  performs an effect (of the request, or in a compensation the restore), for a row already marked \<open>EXECUTING\<close> (or \<open>RECOVERING\<close>) and with the
  authorisation holding at that moment.
\<close>

inductive wal :: "bool \<Rightarrow> Request \<Rightarrow> Simulator \<Rightarrow> Simulator \<Rightarrow> bool" for restoring req where
  prepare:
    "row_of req s = None \<Longrightarrow> \<not> fail_writes (journal s) \<Longrightarrow> authorised s req \<Longrightarrow>
       wal restoring req s (begun req (initial_generation req s) s)"
| refuse:
    "row_of req s = None \<Longrightarrow> \<not> fail_writes (journal s) \<Longrightarrow> \<not> authorised s req \<Longrightarrow>
       s' = begun req (initial_generation req s) s \<Longrightarrow>
       wal restoring req s (moved req STOPPED (gate_reason (Simulator_gates s req)) None None
                    (prepared_row req (initial_generation req s)) s')"
| move:
    "row_of req s = Some r \<Longrightarrow> \<not> fail_writes (journal s) \<Longrightarrow> \<not> intent_conflict r req \<Longrightarrow>
       edge (row_state r) st \<Longrightarrow>
       (st = STOPPED \<longrightarrow> idempotency (provider s) \<and> receipts (provider s) (operation_id req) = None) \<Longrightarrow>
       (st = SUCCEEDED \<longrightarrow> readable (provider s) \<and> health (provider s) (target req)) \<Longrightarrow>
       wal restoring req s (moved req st reason op ch r s)"
| effect:
    "\<not> restoring \<Longrightarrow> row_of req s = Some r \<Longrightarrow> \<not> fail_writes (journal s) \<Longrightarrow> \<not> intent_conflict r req \<Longrightarrow>
       row_state r = EXECUTING \<Longrightarrow> authorised s req \<Longrightarrow>
       (idempotency (provider s) \<longrightarrow> receipts (provider s) (operation_id req) = None) \<Longrightarrow>
       wal restoring req s (s\<lparr>provider := apply_effect (target req) (action req)
                     (epochs (provider s) (target req)) (operation_id req) (provider s)\<rparr>)"
| restore:
    "restoring \<Longrightarrow> row_of req s = Some r \<Longrightarrow> \<not> fail_writes (journal s) \<Longrightarrow> \<not> intent_conflict r req \<Longrightarrow>
       row_state r = RECOVERING \<Longrightarrow> authorised s (req\<lparr>action := ''restore''\<rparr>) \<Longrightarrow>
       (idempotency (provider s) \<longrightarrow> receipts (provider s) (restore_key (operation_id req)) = None) \<Longrightarrow>
       wal restoring req s (s\<lparr>provider := apply_effect (target req) ''restore''
                     (epochs (provider s) (target req)) (restore_key (operation_id req)) (provider s)\<rparr>)"

abbreviation wals :: "bool \<Rightarrow> Request \<Rightarrow> Simulator \<Rightarrow> Simulator \<Rightarrow> bool" where
  "wals restoring req \<equiv> (wal restoring req)\<^sup>*\<^sup>*"

lemma provider_same [simp]: "p = provider s \<Longrightarrow> s\<lparr>provider := p\<rparr> = (s :: Simulator)"
  by simp

lemma gate_ok_authorised [simp]: "gate_ok (Simulator_gates s req) = authorised s req"
  by (rule gates_iff_authorised)

lemma authorised_moved [simp]:
  "operation_id req' = operation_id req \<Longrightarrow>
     authorised (moved req st reason op ch r s) req' = authorised s req'"
  by (simp flip: gates_iff_authorised del: gate_ok_authorised)

lemma authorised_begun [simp]:
  "operation_id req' = operation_id req \<Longrightarrow> authorised (begun req gen s) req' = authorised s req'"
  by (simp flip: gates_iff_authorised del: gate_ok_authorised)

lemma intent_conflict_update [simp]: "intent_conflict (update_row st d r) req = intent_conflict r req"
  by (simp add: intent_conflict_def)

lemma no_conflict_prepared [simp]: "\<not> intent_conflict (prepared_row req gen) req"
  by (simp add: intent_conflict_def prepared_row_def)

text \<open>Under the authorisation the provider accepts the effect: its exceptions cannot occur.\<close>

lemma authorised_mutate:
  assumes "authorised s req"
  shows "\<exists>l. leases (journal s) (target req) = Some l \<and>
           lease_epoch l = epochs (provider s) (target req) \<and> fencing (provider s) \<and>
           validate_target (provider s) (target req) \<and> supported_action (action req) \<and>
           target req \<in> set (targets (provider s))"
  using assms by (auto simp: authorised_def validate_target_def)

text \<open>Extending a protocol run by one step, in the form the proofs below chain.\<close>

lemma wals_prepare:
  assumes "row_of req s = None" and "\<not> fail_writes (journal s)" and "authorised s req"
    and "gen = initial_generation req s"
  shows "wals restoring req s (begun req gen s)"
  using assms by (auto intro: wal.prepare)

lemma wals_refuse:
  assumes "row_of req s = None" and "\<not> fail_writes (journal s)" and "\<not> authorised s req"
    and "gen = initial_generation req s" and "reason = gate_reason (Simulator_gates s req)"
  shows "wals restoring req s (moved req STOPPED reason None None (prepared_row req gen) (begun req gen s))"
  using assms by (auto intro: wal.refuse)

lemma wals_move:
  assumes "wals restoring req s0 s" and "row_of req s = Some r" and "\<not> fail_writes (journal s)"
    and "\<not> intent_conflict r req" and "edge (row_state r) st"
    and "st = STOPPED \<Longrightarrow> idempotency (provider s) \<and> receipts (provider s) (operation_id req) = None"
    and "st = SUCCEEDED \<Longrightarrow> readable (provider s) \<and> health (provider s) (target req)"
  shows "wals restoring req s0 (moved req st reason op ch r s)"
  using assms(1) by (rule rtranclp.rtrancl_into_rtrancl) (rule wal.move; use assms in blast)

lemma wals_effect:
  assumes "wals False req s0 s" and "row_of req s = Some r" and "\<not> fail_writes (journal s)"
    and "\<not> intent_conflict r req" and "row_state r = EXECUTING" and "authorised s req"
    and "idempotency (provider s) \<Longrightarrow> receipts (provider s) (operation_id req) = None"
    and "p = provider s" and "epoch = epochs (provider s) (target req)"
  shows "wals False req s0 (s\<lparr>provider :=
           apply_effect (target req) (action req) epoch (operation_id req) p\<rparr>)"
  unfolding assms(8,9)
  using assms(1) by (rule rtranclp.rtrancl_into_rtrancl) (rule wal.effect; use assms in auto)

lemma wals_restore:
  assumes "wals True req s0 s" and "row_of req s = Some r" and "\<not> fail_writes (journal s)"
    and "\<not> intent_conflict r req" and "row_state r = RECOVERING"
    and "authorised s (req\<lparr>action := ''restore''\<rparr>)"
    and "idempotency (provider s) \<Longrightarrow> receipts (provider s) (restore_key (operation_id req)) = None"
    and "p = provider s" and "epoch = epochs (provider s) (target req)"
  shows "wals True req s0 (s\<lparr>provider :=
           apply_effect (target req) ''restore'' epoch (restore_key (operation_id req)) p\<rparr>)"
  unfolding assms(8,9)
  using assms(1) by (rule rtranclp.rtrancl_into_rtrancl) (rule wal.restore; use assms in auto)

lemmas wals_intros = wals_prepare wals_refuse wals_move wals_effect wals_restore

lemma wp_finish_wals:
  assumes "wals restoring req s0 s" and "row_of req s = Some r" and "\<not> intent_conflict r req"
    and "edge (row_state r) st"
    and "st = STOPPED \<Longrightarrow> idempotency (provider s) \<and> receipts (provider s) (operation_id req) = None"
    and "st = SUCCEEDED \<Longrightarrow> readable (provider s) \<and> health (provider s) (target req)"
  shows "wp (finish req st reason) (\<lambda>_. wals restoring req s0) (\<lambda>_. wals restoring req s0) s"
  using assms by (auto simp: wp_simps intro: wals_move)

lemma verify_effect_wals:
  assumes "wals False req s0 s" and "row_of req s = Some r" and "\<not> intent_conflict r req"
    and "\<not> settled (row_state r)"
  shows "wp (Simulator_verify_effect req receipt) (\<lambda>_. wals False req s0) (\<lambda>_. wals False req s0) s"
  using assms by (auto simp: Simulator_verify_effect_def wp_simps intro!: wals_move)

lemma effect_wals:
  assumes "wals False req s0 s" and "row_of req s = Some r" and "\<not> fail_writes (journal s)"
    and "\<not> intent_conflict r req" and "row_state r = EXECUTING" and "authorised s req"
  shows "wp (Simulator_effect req crash) (\<lambda>_. wals False req s0) (\<lambda>_. wals False req s0) s"
proof -
  from authorised_mutate [OF assms(6)] obtain l where l: "leases (journal s) (target req) = Some l"
    "lease_epoch l = epochs (provider s) (target req)" "fencing (provider s)"
    "validate_target (provider s) (target req)" "supported_action (action req)"
    "target req \<in> set (targets (provider s))" by blast
  show ?thesis
    using assms l
    by (auto simp: Simulator_effect_def Journal_current_lease_def wp_simps
        intro!: verify_effect_wals wals_effect split: option.splits)
qed


theorem run_wals:
  "wp (Simulator_run req crash) (\<lambda>_. wals False req s) (\<lambda>_. wals False req s) s"
proof (cases "row_of req s = None \<and> \<not> fail_writes (journal s)")
  case False
  then show ?thesis
    by (auto simp: Simulator_run_def wp_simps row_of_def)
next
  case True
  then have new: "row_of req s = None" and wr: "\<not> fail_writes (journal s)" by auto
  let ?gen = "initial_generation req s"
  let ?b = "begun req ?gen s"
  have row: "row_of req ?b = Some (prepared_row req ?gen)" using new by simp
  show ?thesis
  proof (cases "authorised s req")
    case False
    then show ?thesis
      using new wr row
      by (simp add: Simulator_run_def wp_simps row_of_def [symmetric] begun_def [symmetric] wals_refuse)
  next
    case auth: True
    have b: "wals False req s ?b" using new wr auth by (intro wals_prepare) auto
    let ?r = "prepared_row req ?gen"
    have m: "wals False req s (moved req EXECUTING [] None None ?r ?b)"
      using b row wr by (intro wals_move) auto
    have "wp (Simulator_effect req crash) (\<lambda>_. wals False req s) (\<lambda>_. wals False req s)
            (moved req EXECUTING [] None None ?r ?b)"
      using m row wr auth by (intro effect_wals) auto
    with new wr auth row b m show ?thesis
      by (simp add: Simulator_run_def wp_simps row_of_def [symmetric] begun_def [symmetric])
  qed
qed

lemma redispatch_wals:
  assumes "wals False req s0 s" and "row_of req s = Some r" and "\<not> fail_writes (journal s)"
    and "\<not> intent_conflict r req" and "\<not> settled (row_state r)"
    and "idempotency (provider s)" and "receipts (provider s) (operation_id req) = None"
  shows "wp (Simulator_redispatch req) (\<lambda>_. wals False req s0) (\<lambda>_. wals False req s0) s"
proof (cases "authorised s req")
  case False
  with assms show ?thesis
    by (auto simp: Simulator_redispatch_def wp_simps intro!: wals_move)
next
  case True
  from authorised_mutate [OF True] obtain l where l: "leases (journal s) (target req) = Some l"
    "lease_epoch l = epochs (provider s) (target req)" "fencing (provider s)"
    "validate_target (provider s) (target req)" "supported_action (action req)"
    "target req \<in> set (targets (provider s))" by blast
  show ?thesis
    using assms True l
    by (auto simp: Simulator_redispatch_def Journal_current_lease_def wp_simps
        intro!: wals_move wals_effect split: option.splits)
qed

theorem reconcile_wals:
  "wp (Simulator_reconcile req retry) (\<lambda>_. wals False req s) (\<lambda>_. wals False req s) s"
proof (cases "row_of req s")
  case None
  then show ?thesis by (simp add: Simulator_reconcile_def wp_simps row_of_def)
next
  case (Some r)
  show ?thesis
  proof (cases "fail_writes (journal s)")
    case True
    with Some show ?thesis
      by (auto simp: Simulator_reconcile_def Simulator_redispatch_def wp_simps
          row_of_def [symmetric] split: option.splits fexn.splits)
  next
    case False
    have start: "wals False req s s" by simp
    show ?thesis
      using Some False start
      by (auto simp: Simulator_reconcile_def wp_simps row_of_def [symmetric]
          intro!: wals_move redispatch_wals split: option.splits)
  qed
qed

lemma restore_wals:
  assumes "wals True req s0 s" and "row_of req s = Some r" and "\<not> fail_writes (journal s)"
    and "\<not> intent_conflict r req" and "row_state r = RECOVERING"
    and "authorised s (req\<lparr>action := ''restore''\<rparr>)"
  shows "wp (Simulator_restore req) (\<lambda>_. wals True req s0) (\<lambda>_. wals True req s0) s"
proof -
  from authorised_mutate [OF assms(6)] obtain l where l: "leases (journal s) (target req) = Some l"
    "lease_epoch l = epochs (provider s) (target req)" "fencing (provider s)"
    "validate_target (provider s) (target req)" "supported_action ''restore''"
    "target req \<in> set (targets (provider s))" by auto
  show ?thesis
    using assms l
    by (auto simp: Simulator_restore_def Journal_current_lease_def wp_simps
        intro!: wals_move wals_restore split: option.splits)
qed

theorem compensate_wals:
  "wp (Simulator_compensate req) (\<lambda>_. wals True req s) (\<lambda>_. wals True req s) s"
proof (cases "row_of req s")
  case None
  then show ?thesis by (simp add: Simulator_compensate_def wp_simps row_of_def)
next
  case (Some r)
  have start: "wals True req s s" by simp
  show ?thesis
    using Some start
    by (auto simp: Simulator_compensate_def wp_simps row_of_def [symmetric]
        intro!: wals_move restore_wals split: option.splits)
qed

end
