(* ===== verification/Failover_Invariants.thy ===== *)
theory Failover_Invariants
  imports Failover_Protocol
begin

text \<open>
  What holds along the write-ahead protocol, by rule induction on its steps: the invariant
  \<open>sim_inv\<close>, the relation \<open>progress\<close> to the past, the authority behind every effect, and, where
  operation ids cannot collide with compensation keys, that stopped operations had no effect.
\<close>

section \<open>Every protocol step keeps the invariant\<close>

lemma settled_not_in_flight: "settled a \<longleftrightarrow> \<not> in_flight_state a"
  by (cases a) auto

lemma edge_unsettled: "edge a b \<Longrightarrow> in_flight_state a"
  by (cases b) (auto simp: settled_not_in_flight)

lemma journal_ids_moved [simp]: "journal_ids (moved req st reason op ch r s) = journal_ids s"
  by (simp add: journal_ids_def moved_def Let_def)

lemma journal_ids_begun [simp]: "journal_ids (begun req gen s) = insert (operation_id req) (journal_ids s)"
  by (simp add: journal_ids_def begun_def)

lemma journal_ids_provider [simp]: "journal_ids (s\<lparr>provider := p\<rparr>) = journal_ids s"
  by (simp add: journal_ids_def)

lemma row_of_journal_ids: "row_of req s = Some r \<Longrightarrow> operation_id req \<in> journal_ids s"
  unfolding row_of_def journal_ids_def by (drule Journal_get_SomeD) (auto intro: rev_image_eqI)

lemma row_of_None_iff: "row_of req s = None \<longleftrightarrow> operation_id req \<notin> journal_ids s"
  unfolding row_of_def journal_ids_def Journal_get_None by (auto intro: rev_image_eqI)

lemma fenced_moved [simp]: "fenced (moved req st reason op ch r s) = fenced s"
  by (simp add: fenced_def)

lemma fenced_begun [simp]: "fenced (begun req gen s) = fenced s"
  by (simp add: fenced_def)

lemma base_inv_begun:
  "base_inv s \<Longrightarrow> row_of req s = None \<Longrightarrow> base_inv (begun req gen s)"
  by (auto simp: base_inv_def row_of_def begun_def journal_inv_begin fenced_def journal_ids_def)

lemma base_inv_moved:
  "base_inv s \<Longrightarrow> row_of req s = Some r \<Longrightarrow> base_inv (moved req st reason op ch r s)"
  by (auto simp: base_inv_def row_of_def)
    (auto simp: moved_def Let_def journal_inv_move)

lemma base_inv_effect:
  assumes "base_inv s" and "key \<in> journal_ids s \<union> restore_key ` journal_ids s"
    and "idempotency (provider s) \<longrightarrow> receipts (provider s) key = None"
  shows "base_inv (s\<lparr>provider := apply_effect t act epoch key (provider s)\<rparr>)"
  using assms by (auto simp: base_inv_def fenced_def intro!: provider_inv_effect)

lemma exclusive_moved:
  "exclusive (journal (moved req st reason op ch r s)) =
     exclusive (update_operation (operation_id req) st (transition_details s req reason op ch) (journal s))"
  by (simp add: moved_def Let_def)

lemma base_inv_distinct: "base_inv s \<Longrightarrow> distinct (map row_operation_id (operations (journal s)))"
  by (simp add: base_inv_def journal_inv_def)

lemma wal_sim_inv: "wal restoring req s t \<Longrightarrow> sim_inv s \<Longrightarrow> sim_inv t"
proof (induction rule: wal.induct)
  case (prepare s)
  then have "\<not> Journal_in_flight (target req) (operation_id req) (journal s)"
    by (simp add: authorised_def)
  with prepare show ?case
    by (simp add: sim_inv_def base_inv_begun) (simp add: begun_def exclusive_begin)
next
  case (refuse s s')
  then show ?case
    by (simp add: sim_inv_def base_inv_moved base_inv_begun exclusive_moved)
      (simp add: begun_def row_of_def exclusive_begin_stop)
next
  case (move s r st reason op ch)
  then have "exclusive (update_operation (operation_id req) st d (journal s))" for d
    by (intro exclusive_move) (auto simp: sim_inv_def row_of_def base_inv_distinct edge_unsettled)
  with move show ?case
    by (simp add: sim_inv_def base_inv_moved exclusive_moved)
next
  case (effect s r)
  then show ?case
    by (auto simp: sim_inv_def row_of_journal_ids intro!: base_inv_effect)
next
  case (restore s r)
  then show ?case
    by (auto simp: sim_inv_def row_of_journal_ids intro!: base_inv_effect)
qed

lemma wals_sim_inv: "wals restoring req s t \<Longrightarrow> sim_inv s \<Longrightarrow> sim_inv t"
  by (induction rule: rtranclp_induct) (auto intro: wal_sim_inv)

section \<open>What a protocol step does to the past\<close>

definition progress :: "Simulator \<Rightarrow> Simulator \<Rightarrow> bool" where
  "progress s t \<longleftrightarrow>
     prefix (events (journal s)) (events (journal t)) \<and>
     prefix (effects (provider s)) (effects (provider t)) \<and>
     (\<forall>x. epochs (provider s) x \<le> epochs (provider t) x) \<and>
     targets (provider t) = targets (provider s) \<and>
     fencing (provider t) = fencing (provider s) \<and>
     idempotency (provider t) = idempotency (provider s) \<and>
     (\<forall>op r. Journal_get op (journal s) = Some r \<longrightarrow> settled (row_state r) \<longrightarrow>
        Journal_get op (journal t) = Some r)"

lemma progress_refl [simp]: "progress s s"
  by (simp add: progress_def)

lemma progress_trans: "progress a b \<Longrightarrow> progress b c \<Longrightarrow> progress a c"
  unfolding progress_def by (force intro: prefix_order.trans order_trans)

lemma prefix_event [simp]: "prefix (events j) (events (Journal_event op n data j))"
  by (simp add: Journal_event_def)

lemma prefix_event_operations [simp]:
  "prefix (events j) (events (Journal_event op n data (j\<lparr>operations := rs\<rparr>)))"
  "prefix (events j) (events (Journal_event op n data (update_operation op' st d j)))"
  by (simp_all add: Journal_event_def)

lemma progress_begun: "row_of req s = None \<Longrightarrow> progress s (begun req gen s)"
  by (auto simp: progress_def begun_def row_of_def)

lemma progress_moved:
  "row_of req s = Some r \<Longrightarrow> \<not> settled (row_state r) \<Longrightarrow> progress s (moved req st reason op ch r s)"
  by (auto simp: progress_def) (auto simp: moved_def Let_def row_of_def)

lemma wal_progress: "wal restoring req s t \<Longrightarrow> progress s t"
proof (induction rule: wal.induct)
  case (prepare s)
  then show ?case by (simp add: progress_begun)
next
  case (refuse s s')
  then show ?case
    by (auto intro!: progress_trans [OF progress_begun progress_moved])
next
  case (move s r st reason op ch)
  then show ?case
    by (intro progress_moved) (auto simp: settled_not_in_flight edge_unsettled)
qed (simp_all add: progress_def)

lemma wals_progress: "wals restoring req s t \<Longrightarrow> progress s t"
  by (induction rule: rtranclp_induct) (auto intro: progress_trans wal_progress)

lemma wal_authority:
  "wal restoring req s t \<Longrightarrow> operation_id req' = operation_id req \<Longrightarrow> authorised t req' = authorised s req'"
proof (induction rule: wal.induct)
  case (effect s r)
  then show ?case by (simp flip: gates_iff_authorised del: gate_ok_authorised)
next
  case (restore s r)
  then show ?case by (simp flip: gates_iff_authorised del: gate_ok_authorised)
qed simp_all

lemma wal_effects:
  "wal restoring req s t \<Longrightarrow> effects (provider t) = effects (provider s) \<or>
     authorised s (if restoring then req\<lparr>action := ''restore''\<rparr> else req)"
  by (induction rule: wal.induct) simp_all

lemma wals_effects:
  "wals restoring req s t \<Longrightarrow> effects (provider t) \<noteq> effects (provider s) \<Longrightarrow>
     authorised s (if restoring then req\<lparr>action := ''restore''\<rparr> else req)"
proof (induction rule: rtranclp_induct)
  case base
  then show ?case by simp
next
  case (step t u)
  have auth: "authorised t r = authorised s r" if "operation_id r = operation_id req" for r
    using step.hyps(1) that by (induction rule: rtranclp_induct) (auto dest: wal_authority)
  from step wal_effects [OF step.hyps(2)] show ?case
    by (auto simp: auth split: if_splits)
qed

text \<open>With the journal failing, no step is possible at all.\<close>

lemma wals_fail_writes: "wals restoring req s t \<Longrightarrow> fail_writes (journal s) \<Longrightarrow> t = s"
  by (induction rule: converse_rtranclp_induct) (auto elim: wal.cases)

section \<open>Operations that are stopped have no effect\<close>

text \<open>
  Receipts are kept under the operation id, those of a compensation under the id with a suffix.
  Where no operation id carries the suffix itself, the two never meet, and an operation recorded as
  \<open>STOPPED\<close> (or still \<open>PREPARED\<close>) has no receipt.
\<close>

definition restore_free :: "string \<Rightarrow> bool" where
  "restore_free op \<longleftrightarrow> \<not> suffix '':restore'' op"

definition stopped_clean :: "Simulator \<Rightarrow> bool" where
  "stopped_clean s \<longleftrightarrow>
     (\<forall>op \<in> journal_ids s. restore_free op) \<and>
     (idempotency (provider s) \<longrightarrow>
       (\<forall>r \<in> set (operations (journal s)). row_state r = PREPARED \<or> row_state r = STOPPED \<longrightarrow>
          receipts (provider s) (row_operation_id r) = None))"

definition clean_inv :: "Simulator \<Rightarrow> bool" where
  "clean_inv s \<longleftrightarrow> sim_inv s \<and> stopped_clean s"

lemma restore_key_not_free [simp]: "\<not> restore_free (restore_key op)"
  by (auto simp: restore_free_def restore_key_def suffix_def)

lemma clean_new_key:
  assumes "clean_inv s" and "restore_free op" and "op \<notin> journal_ids s"
  shows "receipts (provider s) op = None"
proof -
  have "op \<notin> journal_ids s \<union> restore_key ` journal_ids s"
    using assms by auto
  then show ?thesis
    using assms(1) by (auto simp: clean_inv_def sim_inv_def base_inv_def)
qed

lemma rows_moved:
  "operations (journal (moved req st reason op ch r s)) =
     map (\<lambda>q. if row_operation_id q = operation_id req
              then update_row st (transition_details s req reason op ch) q else q)
       (operations (journal s))"
  by (simp add: moved_def Let_def update_operation_def)

lemma rows_begun:
  "operations (journal (begun req gen s)) = operations (journal s) @ [prepared_row req gen]"
  by (simp add: begun_def)

lemma stopped_clean_moved:
  assumes "stopped_clean s" and "st \<noteq> PREPARED"
    and "st = STOPPED \<Longrightarrow> receipts (provider s) (operation_id req) = None"
  shows "stopped_clean (moved req st reason op ch r s)"
  using assms by (auto simp: stopped_clean_def rows_moved split: if_splits)

lemma stopped_clean_begun:
  assumes "stopped_clean s" and "restore_free (operation_id req)"
    and "receipts (provider s) (operation_id req) = None"
  shows "stopped_clean (begun req gen s)"
  using assms by (auto simp: stopped_clean_def rows_begun)

lemma wal_clean:
  assumes "wal restoring req s t" and "clean_inv s" and "restore_free (operation_id req)"
  shows "clean_inv t"
proof -
  have sim: "sim_inv t"
    using assms(1,2) by (auto simp: clean_inv_def intro: wal_sim_inv)
  have "stopped_clean t"
    using assms
  proof (induction rule: wal.induct)
    case (prepare s)
    then show ?case
      by (auto simp: row_of_None_iff clean_new_key clean_inv_def intro!: stopped_clean_begun)
  next
    case (refuse s s')
    then show ?case
      by (auto simp: row_of_None_iff clean_new_key clean_inv_def
          intro!: stopped_clean_begun stopped_clean_moved)
  next
    case (move s r st reason op ch)
    then have "st \<noteq> PREPARED" by (cases st) auto
    with move show ?case by (auto simp: clean_inv_def intro!: stopped_clean_moved)
  next
    case (effect s r)
    have "q = r" if "q \<in> set (operations (journal s))" and "row_operation_id q = operation_id req" for q
      using that effect Journal_get_SomeD [of "operation_id req" "journal s" r]
      by (auto simp: clean_inv_def sim_inv_def row_of_def dest: base_inv_distinct
          intro: distinct_key_eq [of row_operation_id "operations (journal s)"])
    with effect show ?case by (auto simp: clean_inv_def stopped_clean_def)
  next
    case (restore s r)
    have "row_operation_id q \<noteq> restore_key (operation_id req)"
      if "q \<in> set (operations (journal s))" for q
      using that restore.prems(1)
      by (metis clean_inv_def imageI journal_ids_def restore_key_not_free stopped_clean_def)
    with restore show ?case by (auto simp: clean_inv_def stopped_clean_def)
  qed
  with sim show ?thesis by (simp add: clean_inv_def)
qed

lemma wals_clean:
  "wals restoring req s t \<Longrightarrow> clean_inv s \<Longrightarrow> restore_free (operation_id req) \<Longrightarrow> clean_inv t"
  by (induction rule: rtranclp_induct) (auto intro: wal_clean)

end
