(* ===== verification/Failover_Properties.thy ===== *)
theory Failover_Properties
  imports Failover_Invariants
begin

text \<open>
  The failover simulator as a reactive component: every command keeps \<open>sim_inv\<close> and \<open>progress\<close>,
  so both hold over every sequence of commands. The theorems at the end are the promises of the
  module: exclusive targets, authorised effects, settled operations, at most one effect per
  operation, fencing of old leases, fail-closed journalling and recovery after a crash.
\<close>

section \<open>Commands\<close>

lemma perform_wals:
  "wals False req s (perform (Run req crash) s)"
  "wals False req s (perform (Reconcile req retry) s)"
  "wals True req s (perform (Compensate req) s)"
  using run_wals [of req crash s] reconcile_wals [of req retry s] compensate_wals [of req s]
  by (simp_all add: wp_post outcome_of_def)

text \<open>The remaining commands, as state changes.\<close>

lemma perform_grant:
  "perform (Grant h t a ph ttl) s =
     (if validate_target (provider s) t
      then s\<lparr>capabilities := (capabilities s)((h, t, a) \<mapsto>
        \<lparr>capability_id = ''grant-'' @ h @ ''-'' @ t @ ''-'' @ a, cap_holder = h, cap_target = t,
         cap_action = a, cap_policy_hash = ph, cap_expires = now s + ttl\<rparr>)\<rparr>
      else s)"
  by (simp add: outcome_of_def Simulator_grant_def proc_defs Let_def)

lemma perform_allow:
  "perform (Allow t a d ph ttl v) s =
     s\<lparr>verdicts := (verdicts s)((t, a) \<mapsto>
        \<lparr>v_decision = d, v_target = t, v_action = a, v_policy_hash = ph,
         v_expires = now s + ttl, v_valid = v\<rparr>)\<rparr>"
  by (simp add: outcome_of_def Simulator_allow_def proc_defs Let_def)

lemma perform_advance: "perform (Advance n) s = s\<lparr>now := now s + n\<rparr>"
  by (simp add: outcome_of_def Clock_advance_def proc_defs)

text \<open>What taking a lease does, on every branch.\<close>

definition new_lease :: "string \<Rightarrow> string \<Rightarrow> int \<Rightarrow> Simulator \<Rightarrow> Lease" where
  "new_lease h t ttl s =
     (let epoch = granted_epoch (leases (journal s) t) + 1 in
      \<lparr>lease_id = ''lease-'' @ int_str epoch @ ''-'' @ h, lease_holder = h, lease_target = t,
       lease_epoch = epoch, lease_expires = now s + ttl\<rparr>)"

definition lease_possible :: "string \<Rightarrow> bool \<Rightarrow> Simulator \<Rightarrow> bool" where
  "lease_possible t takeover s \<longleftrightarrow>
     validate_target (provider s) t \<and> fencing (provider s) \<and> \<not> fail_writes (journal s) \<and>
     (takeover \<or> \<not> (\<exists>l. leases (journal s) t = Some l \<and> now s < lease_expires l))"

lemma lease_outcome:
  assumes "sim_inv s"
  shows "wp (Simulator_lease h t takeover ttl)
    (\<lambda>l u. lease_possible t takeover s \<and> l = new_lease h t ttl s \<and>
       u = s\<lparr>journal := (journal s)\<lparr>leases := (leases (journal s))(t \<mapsto> l)\<rparr>,
             provider := (provider s)\<lparr>epochs := (epochs (provider s))(t := lease_epoch l)\<rparr>\<rparr>)
    (\<lambda>_ u. \<not> lease_possible t takeover s \<and> u = s) s"
proof -
  have "epochs (provider s) t = granted_epoch (leases (journal s) t)"
    if "validate_target (provider s) t"
    using assms that by (auto simp: sim_inv_def base_inv_def fenced_def validate_target_def)
  moreover have "(case x of None \<Rightarrow> 1 | Some l \<Rightarrow> lease_epoch l + 1) = granted_epoch x + 1" for x
    by (cases x) auto
  ultimately show ?thesis
    by (auto simp: Simulator_lease_def wp_simps Let_def lease_possible_def new_lease_def
        validate_target_def)
qed

lemma perform_lease:
  assumes "sim_inv s"
  shows "perform (TakeLease h t takeover ttl) s =
    (if lease_possible t takeover s
     then s\<lparr>journal := (journal s)\<lparr>leases := (leases (journal s))(t \<mapsto> new_lease h t ttl s)\<rparr>,
            provider := (provider s)\<lparr>epochs := (epochs (provider s))(t :=
              lease_epoch (new_lease h t ttl s))\<rparr>\<rparr>
     else s)"
  using lease_outcome [OF assms, of h t takeover ttl]
  by (auto simp: wp_def outcome_of_def split: prod.splits sum.splits)

lemma granted_epoch_nonneg: "sim_inv s \<Longrightarrow> 0 \<le> granted_epoch (leases (journal s) t)"
  by (cases "leases (journal s) t") (force simp: sim_inv_def base_inv_def fenced_def)+

lemma new_lease_epoch: "lease_epoch (new_lease h t ttl s) = granted_epoch (leases (journal s) t) + 1"
  by (simp add: new_lease_def Let_def)

lemma journal_inv_cong [simp]:
  "journal_inv (j\<lparr>leases := l\<rparr>) = journal_inv j"
  "journal_inv (j\<lparr>fail_writes := b\<rparr>) = journal_inv j"
  by (simp_all add: journal_inv_def last_event_state_def)

lemma provider_inv_cong [simp]:
  "provider_inv (p\<lparr>epochs := es\<rparr>) = provider_inv p"
  "provider_inv (p\<lparr>fail_restart := a, fail_restore := b, readable := c\<rparr>) = provider_inv p"
  by (simp_all add: provider_inv_def)

lemma sim_inv_cong:
  assumes "sim_inv s"
    and "journal_inv (journal s) \<Longrightarrow> journal_inv (journal t)"
    and "provider_inv (provider s) \<Longrightarrow> provider_inv (provider t)"
    and "fenced s \<Longrightarrow> fenced t"
    and "operations (journal t) = operations (journal s)"
    and "receipts (provider t) = receipts (provider s)"
  shows "sim_inv t"
  using assms by (simp add: sim_inv_def base_inv_def journal_ids_def exclusive_def)

lemma perform_sim_inv: "sim_inv s \<Longrightarrow> sim_inv (perform c s)"
proof (cases c)
  case (TakeLease h t takeover ttl)
  assume inv: "sim_inv s"
  show ?thesis
    unfolding TakeLease perform_lease [OF inv]
    using inv granted_epoch_nonneg [OF inv, of t]
    by (auto simp: new_lease_epoch fenced_def intro!: sim_inv_cong [OF inv])
next
  case (Run req crash)
  then show "sim_inv s \<Longrightarrow> sim_inv (perform c s)"
    using perform_wals(1) wals_sim_inv by blast
next
  case (Reconcile req retry)
  then show "sim_inv s \<Longrightarrow> sim_inv (perform c s)"
    using perform_wals(2) wals_sim_inv by blast
next
  case (Compensate req)
  then show "sim_inv s \<Longrightarrow> sim_inv (perform c s)"
    using perform_wals(3) wals_sim_inv by blast
qed (auto simp: perform_grant perform_allow perform_advance Simulator_init_def fenced_def
    simp del: perform.simps(1,3,7) intro: sim_inv_cong)

lemma perform_progress: "sim_inv s \<Longrightarrow> progress s (perform c s)"
proof (cases c)
  case (TakeLease h t takeover ttl)
  assume inv: "sim_inv s"
  then show ?thesis
    unfolding TakeLease perform_lease [OF inv]
    by (auto simp: new_lease_epoch progress_def lease_possible_def validate_target_def
        sim_inv_def base_inv_def fenced_def)
next
  case (Run req crash)
  then show ?thesis using perform_wals(1) wals_progress by blast
next
  case (Reconcile req retry)
  then show ?thesis using perform_wals(2) wals_progress by blast
next
  case (Compensate req)
  then show ?thesis using perform_wals(3) wals_progress by blast
qed (auto simp: perform_grant perform_allow perform_advance Simulator_init_def progress_def Journal_get_def
    simp del: perform.simps(1,3,7))

section \<open>Runs of commands\<close>

lemma sim_inv_init:
  "FakeProvider_init ts fence_on idem_on = Inr p \<Longrightarrow> sim_inv (Simulator_init Journal_init p t)"
  by (frule provider_inv_init)
    (auto simp: FakeProvider_init_def sim_inv_def base_inv_def Simulator_init_def Journal_init_def
      journal_inv_def fenced_def journal_ids_def exclusive_def exclusive_rows_def split: if_splits)

interpretation sim: reactive perform "\<lambda>_. True" sim_inv
  by unfold_locales (rule perform_sim_inv)

lemma run_progress: "sim_inv s \<Longrightarrow> progress s (fold perform cs s)"
  by (rule sim.run_rel) (auto simp: list_all_iff intro: progress_trans perform_progress)

lemma run_sim_inv: "sim_inv s \<Longrightarrow> sim_inv (fold perform cs s)"
  by (rule sim.run_inv) (simp_all add: list_all_iff)

text \<open>Commands whose operation ids cannot be taken for the key of a compensation.\<close>

fun restore_free_command :: "command \<Rightarrow> bool" where
  "restore_free_command (Run req crash) = restore_free (operation_id req)"
| "restore_free_command (Reconcile req retry) = restore_free (operation_id req)"
| "restore_free_command (Compensate req) = restore_free (operation_id req)"
| "restore_free_command _ = True"

lemma perform_clean: "restore_free_command c \<Longrightarrow> clean_inv s \<Longrightarrow> clean_inv (perform c s)"
proof (cases c)
  case (Run req crash)
  then show "restore_free_command c \<Longrightarrow> clean_inv s \<Longrightarrow> clean_inv (perform c s)"
    using wals_clean [OF perform_wals(1)] by simp
next
  case (Reconcile req retry)
  then show "restore_free_command c \<Longrightarrow> clean_inv s \<Longrightarrow> clean_inv (perform c s)"
    using wals_clean [OF perform_wals(2)] by simp
next
  case (Compensate req)
  then show "restore_free_command c \<Longrightarrow> clean_inv s \<Longrightarrow> clean_inv (perform c s)"
    using wals_clean [OF perform_wals(3)] by simp
next
  case (TakeLease h t takeover ttl)
  assume "clean_inv s"
  then show ?thesis
    using perform_sim_inv [of s c] unfolding TakeLease
    by (auto simp: clean_inv_def perform_lease stopped_clean_def journal_ids_def
        simp del: perform.simps(2))
qed (use perform_sim_inv [of s c] in \<open>auto simp: clean_inv_def stopped_clean_def journal_ids_def
    perform_grant perform_allow perform_advance Simulator_init_def simp del: perform.simps(1,3,7)\<close>)

interpretation clean: reactive perform restore_free_command clean_inv
  by unfold_locales (rule perform_clean)

section \<open>Properties\<close>

text \<open>C3: At every moment, whatever commands were given, a target has at most one operation in
  flight (prepared, executing, verifying, unknown or recovering).\<close>

theorem failover_target_exclusive:
  assumes "FakeProvider_init ts fence_on idem_on = Inr p"
    and "s = fold perform cs (Simulator_init Journal_init p t)"
    and "r \<in> set (operations (journal s))" and "r' \<in> set (operations (journal s))"
    and "in_flight_state (row_state r)" and "in_flight_state (row_state r')"
    and "row_target r = row_target r'"
  shows "r = r'"
proof -
  have inv: "sim_inv s"
    unfolding assms(2) by (intro run_sim_inv sim_inv_init [OF assms(1)])
  then have "row_operation_id r = row_operation_id r'"
    using assms(3-7) by (auto simp: sim_inv_def exclusive_def intro: exclusive_rowsD)
  with inv assms(3,4) show ?thesis
    by (auto simp: sim_inv_def dest: base_inv_distinct
        intro: distinct_key_eq [of row_operation_id "operations (journal s)"])
qed

text \<open>C2: An effect of the provider is always authorised: when a command changes the effect log, it
  is a \<open>run\<close> or \<open>reconcile\<close> whose request passes every gate in the state before the command, or a
  \<open>compensate\<close> whose restore request does.\<close>

theorem failover_effects_authorised:
  assumes "FakeProvider_init ts fence_on idem_on = Inr p"
    and "s = fold perform cs (Simulator_init Journal_init p t)"
    and "effects (provider (perform c s)) \<noteq> effects (provider s)"
  shows "(\<exists>req. ((\<exists>crash. c = Run req crash) \<or> (\<exists>retry. c = Reconcile req retry)) \<and>
            authorised s req) \<or>
         (\<exists>req. c = Compensate req \<and> authorised s (req\<lparr>action := ''restore''\<rparr>))"
proof (cases c)
  case (Run req crash)
  with assms(3) show ?thesis using wals_effects [OF perform_wals(1)] by auto
next
  case (Reconcile req retry)
  with assms(3) show ?thesis using wals_effects [OF perform_wals(2)] by auto
next
  case (Compensate req)
  with assms(3) show ?thesis using wals_effects [OF perform_wals(3)] by auto
next
  case (TakeLease h x takeover ttl)
  have "sim_inv s" unfolding assms(2) by (intro run_sim_inv sim_inv_init [OF assms(1)])
  with assms(3) TakeLease show ?thesis
    by (simp add: perform_lease del: perform.simps(2) split: if_splits)
qed (use assms(3) in \<open>auto simp: perform_grant perform_allow perform_advance Simulator_init_def
    simp del: perform.simps(1,3,7) split: if_splits\<close>)

text \<open>Nothing durable is rewritten: over any commands the event log and the effect log only
  grow, a fencing epoch never falls, and an operation that is settled (stopped, succeeded, recovery
  failed or blocked) keeps its row unchanged for ever.\<close>

theorem failover_history_immutable:
  assumes "FakeProvider_init ts fence_on idem_on = Inr p"
    and "s = fold perform bs (Simulator_init Journal_init p now0)"
    and "t = fold perform cs s"
  shows "prefix (events (journal s)) (events (journal t)) \<and>
     prefix (effects (provider s)) (effects (provider t)) \<and>
     (\<forall>x. epochs (provider s) x \<le> epochs (provider t) x) \<and>
     (\<forall>op r. Journal_get op (journal s) = Some r \<longrightarrow> settled (row_state r) \<longrightarrow>
        Journal_get op (journal t) = Some r)"
proof -
  have "sim_inv s" unfolding assms(2) by (intro run_sim_inv sim_inv_init [OF assms(1)])
  then show ?thesis
    using run_progress [of s cs] unfolding assms(3) progress_def by blast
qed

text \<open>C4: With an idempotent provider the effects are accounted for: there is exactly one receipt
  per effect, every receipt belongs to a journalled operation or to its compensation, and so an
  operation has at most one effect of its own and one restore, whatever is retried.\<close>

theorem failover_effects_at_most_once:
  assumes "FakeProvider_init ts fence_on True = Inr p"
    and "s = fold perform cs (Simulator_init Journal_init p t)"
  shows "length (effects (provider s)) = card (dom (receipts (provider s))) \<and>
     dom (receipts (provider s)) \<subseteq> journal_ids s \<union> restore_key ` journal_ids s \<and>
     length (effects (provider s)) \<le> 2 * length (operations (journal s))"
proof -
  have init: "sim_inv (Simulator_init Journal_init p t)"
    by (rule sim_inv_init [OF assms(1)])
  then have inv: "sim_inv s" unfolding assms(2) by (rule run_sim_inv)
  have "idempotency (provider s)"
    using run_progress [OF init, of cs] assms
    by (auto simp: progress_def Simulator_init_def FakeProvider_init_def split: if_splits)
  with inv have len: "length (effects (provider s)) = card (dom (receipts (provider s)))"
    and keys: "dom (receipts (provider s)) \<subseteq> journal_ids s \<union> restore_key ` journal_ids s"
    by (auto simp: sim_inv_def base_inv_def provider_inv_def)
  have fin: "finite (journal_ids s)" by (simp add: journal_ids_def)
  have "card (journal_ids s) \<le> length (operations (journal s))"
    unfolding journal_ids_def by (metis card_length length_map list.set_map)
  moreover have "card (journal_ids s \<union> restore_key ` journal_ids s) \<le> 2 * card (journal_ids s)"
    using card_Un_le [of "journal_ids s" "restore_key ` journal_ids s"]
      card_image_le [OF fin, of restore_key] by linarith
  moreover have "card (dom (receipts (provider s))) \<le> card (journal_ids s \<union> restore_key ` journal_ids s)"
    using keys fin by (intro card_mono) auto
  ultimately show ?thesis using len keys by linarith
qed

text \<open>With an idempotent provider, an operation recorded as stopped has had no effect: there is
  no receipt under its id. (The operation ids must not end in the suffix of compensation keys.)\<close>

theorem failover_stopped_no_effect:
  assumes "FakeProvider_init ts fence_on True = Inr p"
    and "s = fold perform cs (Simulator_init Journal_init p t)"
    and "list_all restore_free_command cs"
    and "Journal_get op (journal s) = Some r" and "row_state r = STOPPED"
  shows "receipts (provider s) op = None"
proof -
  have init: "sim_inv (Simulator_init Journal_init p t)"
    by (rule sim_inv_init [OF assms(1)])
  then have "clean_inv (Simulator_init Journal_init p t)"
    by (simp add: clean_inv_def stopped_clean_def journal_ids_def Simulator_init_def Journal_init_def)
  then have "clean_inv s" unfolding assms(2) by (rule clean.run_inv [OF assms(3)])
  moreover have "idempotency (provider s)"
    using run_progress [OF init, of cs] assms
    by (auto simp: progress_def Simulator_init_def FakeProvider_init_def split: if_splits)
  ultimately show ?thesis
    using Journal_get_SomeD [OF assms(4)] assms(5)
    by (auto simp: clean_inv_def stopped_clean_def)
qed

text \<open>Event sourcing: after any commands, the sequence numbers of the event log are 1, 2, 3 and
  so on, every operation has events, and the state of its row is the state its last event records.\<close>

theorem failover_event_sourcing:
  assumes "FakeProvider_init ts fence_on idem_on = Inr p"
    and "s = fold perform cs (Simulator_init Journal_init p t)"
  shows "map ev_seq (events (journal s)) = [1..<Suc (length (events (journal s)))] \<and>
     (\<forall>op r. Journal_get op (journal s) = Some r \<longrightarrow>
        last_event_state op (journal s) = Some (JStr (state_text (row_state r))))"
proof -
  have "journal_inv (journal s)"
    using run_sim_inv [OF sim_inv_init [OF assms(1)]] assms(2)
    by (auto simp: sim_inv_def base_inv_def)
  then show ?thesis
    by (auto simp: journal_inv_def dest!: Journal_get_SomeD)
qed

text \<open>C1: The three operations implement the write-ahead protocol: from any state, the state each of
  them leaves, on return and on every exception, is reached by steps of the protocol; only a
  compensation performs restores.\<close>

theorem failover_refines_protocol:
  "wals False req s (snd (Simulator_run req crash s)) \<and>
   wals False req s (snd (Simulator_reconcile req retry s)) \<and>
   wals True req s (snd (Simulator_compensate req s))"
  using perform_wals [of req s] by (simp add: outcome_of_def)

text \<open>C6: Fencing: once another controller has taken the target over, the epoch of the old lease
  can never have an effect again, whatever commands follow: the provider refuses it and stays as it is.\<close>

theorem failover_stale_lease_fenced:
  assumes "FakeProvider_init ts fence_on idem_on = Inr p"
    and "s = fold perform bs (Simulator_init Journal_init p t)"
    and "leases (journal s) x = Some old"
    and "Simulator_lease holder x takeover ttl s = (Inr new, s')"
    and "u = fold perform cs s'"
  shows "lease_epoch old < lease_epoch new \<and>
     (\<exists>msg. FakeProvider_mutate x act (lease_epoch old) key (provider u) =
        (Inl (UnsafeEffect msg), provider u))"
proof -
  have inv: "sim_inv s"
    unfolding assms(2) by (intro run_sim_inv sim_inv_init [OF assms(1)])
  have new: "new = new_lease holder x ttl s"
    and s': "epochs (provider s') x = lease_epoch new"
    using wp_returned [OF lease_outcome [OF inv] assms(4)] by auto
  have old: "lease_epoch new = lease_epoch old + 1"
    using assms(3) by (simp add: new new_lease_epoch)
  have "s' = perform (TakeLease holder x takeover ttl) s"
    using assms(4) by (simp add: outcome_of_def)
  with perform_sim_inv [OF inv, of "TakeLease holder x takeover ttl"] have "sim_inv s'"
    by (simp only:)
  then have "lease_epoch new \<le> epochs (provider u) x"
    using run_progress [of s' cs] s' unfolding assms(5) progress_def by metis
  with old have "lease_epoch old \<noteq> epochs (provider u) x" by linarith
  with old show ?thesis using mutate_stale_epoch by auto
qed

text \<open>Fail closed: while the journal cannot be written, \<open>run\<close>, \<open>reconcile\<close> and \<open>compensate\<close> leave
  journal, provider and alerts exactly as they are.\<close>

theorem failover_journal_failure_is_inert:
  assumes "fail_writes (journal s)"
  shows "snd (Simulator_run req crash s) = s \<and> snd (Simulator_reconcile req retry s) = s \<and>
     snd (Simulator_compensate req s) = s"
  using assms perform_wals [of req s] by (auto simp: outcome_of_def dest!: wals_fail_writes)

end
