(* ===== verification/Failover_Recovery.thy ===== *)
theory Failover_Recovery
  imports Failover_Properties
begin

text \<open>
  Recovery of the failover simulator after a crash between the effect and its acknowledgement, a
  weakness of the keys under which compensations keep their receipts, and concrete runs on which
  the properties of the simulator are evaluated.
\<close>

section \<open>Recovery after a crash\<close>

text \<open>The state in which \<open>run\<close> raises \<open>SimulatedCrash\<close> after the effect.\<close>

definition executing :: "Request \<Rightarrow> Simulator \<Rightarrow> Simulator" where
  "executing req s =
     (let gen = initial_generation req s in
      moved req EXECUTING '''' None None (prepared_row req gen) (begun req gen s))"

definition crashed :: "Request \<Rightarrow> Simulator \<Rightarrow> Simulator" where
  "crashed req s = (executing req s)\<lparr>provider :=
     apply_effect (target req) (action req) (epochs (provider s) (target req)) (operation_id req)
       (provider s)\<rparr>"

lemma executing_fields [simp]:
  "provider (executing req s) = provider s"
  "fail_writes (journal (executing req s)) = fail_writes (journal s)"
  "leases (journal (executing req s)) = leases (journal s)"
  "operation_id req' = operation_id req \<Longrightarrow>
     Simulator_gates (executing req s) req' = Simulator_gates s req'"
  by (simp_all add: executing_def Let_def)

lemma run_crash_outcome:
  assumes "row_of req s = None" and "\<not> fail_writes (journal s)" and "authorised s req"
    and "receipts (provider s) (operation_id req) = None"
  shows "Simulator_run req (Some ''after_effect'') s =
     (Inl (SimulatedCrash ''Kato stopped after effect before acknowledgement''), crashed req s)"
proof -
  from authorised_mutate [OF assms(3)] obtain l where l: "leases (journal s) (target req) = Some l"
    "lease_epoch l = epochs (provider s) (target req)" "fencing (provider s)"
    "validate_target (provider s) (target req)" "supported_action (action req)" by blast
  have "wp (Simulator_run req (Some ''after_effect'')) (\<lambda>_ _. False)
     (\<lambda>e t. e = SimulatedCrash ''Kato stopped after effect before acknowledgement'' \<and>
        t = crashed req s) s"
    using assms l
    by (simp add: Simulator_run_def Simulator_effect_def wp_simps row_of_def [symmetric]
        begun_def [symmetric] Journal_current_lease_def crashed_def executing_def Let_def
        split: option.split)
  then show ?thesis
    by (auto simp: wp_def split: prod.splits sum.splits)
qed

lemma row_of_crashed:
  "row_of req s = None \<Longrightarrow> \<exists>r. row_of req (crashed req s) = Some r \<and> row_state r = EXECUTING \<and>
     \<not> intent_conflict r req"
  by (simp add: crashed_def executing_def Let_def)

lemma row_of_Restart [simp]: "row_of req (perform Restart s) = row_of req s"
  by (simp add: row_of_def Simulator_init_def Journal_get_def)

lemma reconcile_observed:
  assumes "row_of req s = Some r" and "\<not> settled (row_state r)" and "\<not> intent_conflict r req"
    and "\<not> fail_writes (journal s)" and "readable (provider s)"
    and "target req \<in> set (targets (provider s))"
    and "receipts (provider s) (operation_id req) = Some e" and "health (provider s) (target req)"
  shows "wp (Simulator_reconcile req retry)
     (\<lambda>st t. st = SUCCEEDED \<and> provider t = provider s \<and>
        (\<exists>r'. row_of req t = Some r' \<and> row_state r' = SUCCEEDED)) (\<lambda>_ _. False) s"
  using assms
  by (cases e)
    (auto simp: Simulator_reconcile_def wp_simps row_of_def [symmetric] split: option.splits)


text \<open>C5: Crash recovery: when an authorised operation crashes after its effect and the controller is
  replaced (its grants, verdicts and approvals are lost), \<open>reconcile\<close> finds the receipt, reports
  \<open>SUCCEEDED\<close> and makes no second effect, whether or not a retry is allowed. (The provider is
  readable, idempotent and the restart does not leave the service unhealthy.)\<close>

theorem failover_crash_recovery:
  assumes "FakeProvider_init ts fence_on True = Inr p"
    and "s = fold perform cs (Simulator_init Journal_init p t)"
    and "list_all restore_free_command cs" and "restore_free (operation_id req)"
    and "Journal_get (operation_id req) (journal s) = None" and "authorised s req"
    and "\<not> fail_writes (journal s)" and "readable (provider s)"
    and "\<not> fail_restart (provider s)" and "\<not> fail_restore (provider s)"
    and "u = perform Restart (perform (Run req (Some ''after_effect'')) s)"
  shows "fst (Simulator_run req (Some ''after_effect'') s) =
       Inl (SimulatedCrash ''Kato stopped after effect before acknowledgement'') \<and>
     fst (Simulator_reconcile req retry u) = Inr SUCCEEDED \<and>
     effects (provider (perform (Reconcile req retry) u)) = effects (provider s) @
       [(target req, action req, epochs (provider s) (target req), effect_op_id (provider s))]"
proof -
  have init: "sim_inv (Simulator_init Journal_init p t)" by (rule sim_inv_init [OF assms(1)])
  have "clean_inv (Simulator_init Journal_init p t)"
    using init
    by (simp add: clean_inv_def stopped_clean_def journal_ids_def Simulator_init_def Journal_init_def)
  then have clean: "clean_inv s" unfolding assms(2) by (rule clean.run_inv [OF assms(3)])
  have idem: "idempotency (provider s)"
    using run_progress [OF init, of cs] assms(1,2)
    by (auto simp: progress_def Simulator_init_def FakeProvider_init_def split: if_splits)
  have new: "row_of req s = None" using assms(5) by (simp add: row_of_def)
  then have "receipts (provider s) (operation_id req) = None"
    using clean assms(4) by (auto simp: row_of_None_iff intro: clean_new_key)
  from run_crash_outcome [OF new assms(7,6) this]
  have run: "Simulator_run req (Some ''after_effect'') s =
     (Inl (SimulatedCrash ''Kato stopped after effect before acknowledgement''), crashed req s)" .
  then have u: "u = perform Restart (crashed req s)"
    by (simp add: assms(11) outcome_of_def)
  obtain r where r: "row_of req (crashed req s) = Some r" "row_state r = EXECUTING"
    "\<not> intent_conflict r req" using row_of_crashed [OF new] by blast
  have "wp (Simulator_reconcile req retry)
     (\<lambda>st t. st = SUCCEEDED \<and> provider t = provider u \<and>
        (\<exists>r'. row_of req t = Some r' \<and> row_state r' = SUCCEEDED)) (\<lambda>_ _. False) u"
    by (rule reconcile_observed [where r = r]; use r assms(6,8,9,10) idem in
      \<open>simp add: u del: perform.simps\<close>;
      simp add: crashed_def Simulator_init_def apply_effect_def Let_def authorised_def
        validate_target_def)
  then have "fst (Simulator_reconcile req retry u) = Inr SUCCEEDED"
    and "provider (snd (Simulator_reconcile req retry u)) = provider u"
    by (auto simp: wp_def split: prod.splits sum.splits)
  with run show ?thesis
    by (simp add: outcome_of_def) (simp add: u Simulator_init_def crashed_def)
qed

section \<open>A concrete simulator\<close>

definition demo_provider :: FakeProvider where
  "demo_provider = projr (FakeProvider_init [''service_a'', ''service_b''] True True)"

lemma demo_init: "FakeProvider_init [''service_a'', ''service_b''] True True = Inr demo_provider"
  by (simp add: demo_provider_def FakeProvider_init_def lower_letter_def name_char_def)

definition demo_commands :: "command list" where
  "demo_commands =
     [Grant ''Ruku'' ''service_a'' ''restart'' ''policy-v1'' 60,
      TakeLease ''Ruku'' ''service_a'' False 60,
      Allow ''service_a'' ''restart'' ''ALLOW'' ''policy-v1'' 60 True]"

abbreviation demo_run :: "command list \<Rightarrow> Simulator" where
  "demo_run cs \<equiv> fold perform cs (Simulator_init Journal_init demo_provider Clock_default)"

definition demo_request :: Request where
  "demo_request = Request_default ''op-1''"

abbreviation demo_crash :: "command list" where
  "demo_crash \<equiv> demo_commands @ [Run demo_request (Some ''after_effect'')]"

definition demo_crashed :: Simulator where
  "demo_crashed = demo_run demo_crash"

definition demo_row :: OpRow where
  "demo_row = hd (operations (journal demo_crashed))"

lemma failover_target_exclusive_witness:
  "in_flight_state (row_state demo_row) \<and> demo_row = last (operations (journal demo_crashed))"
proof
  show flight: "in_flight_state (row_state demo_row)" by code_simp
  have "operations (journal demo_crashed) \<noteq> []" by code_simp
  moreover have "row_state (last (operations (journal demo_crashed))) = row_state demo_row"
    by code_simp
  moreover have "row_target demo_row = row_target (last (operations (journal demo_crashed)))"
    by code_simp
  ultimately show "demo_row = last (operations (journal demo_crashed))"
    using flight
    by (intro failover_target_exclusive [OF demo_init demo_crashed_def])
      (simp_all add: demo_row_def)
qed

lemma failover_effects_authorised_witness:
  "authorised (demo_run demo_commands) demo_request"
proof -
  have "effects (provider (perform (Run demo_request None) (demo_run demo_commands))) \<noteq>
          effects (provider (demo_run demo_commands))" by code_simp
  from failover_effects_authorised [OF demo_init refl this] show ?thesis by simp
qed

lemma failover_history_immutable_witness:
  "prefix (events (journal (demo_run demo_commands)))
     (events (journal (fold perform [Run demo_request None] (demo_run demo_commands))))"
  using failover_history_immutable [OF demo_init refl refl] by blast

lemma failover_effects_at_most_once_witness:
  "length (effects (provider demo_crashed)) = card (dom (receipts (provider demo_crashed)))"
  using failover_effects_at_most_once [OF demo_init demo_crashed_def] by blast

lemma failover_stopped_no_effect_witness:
  "receipts (provider (demo_run [Run demo_request None])) ''op-1'' = None"
proof -
  have "list_all restore_free_command [Run demo_request None]"
    by (simp add: restore_free_def demo_request_def Request_default_def suffix_def)
  moreover have
    "map_option row_state (Journal_get ''op-1'' (journal (demo_run [Run demo_request None]))) = Some STOPPED"
    by code_simp
  ultimately show ?thesis
    using failover_stopped_no_effect [OF demo_init refl] by blast
qed

lemma failover_event_sourcing_witness:
  "map ev_seq (events (journal demo_crashed)) =
     [1..<Suc (length (events (journal demo_crashed)))]"
  using failover_event_sourcing [OF demo_init demo_crashed_def] by blast

lemma demo_lease:
  "Simulator_lease ''Kato'' ''service_a'' True 60 (demo_run demo_commands) =
     (Inr (new_lease ''Kato'' ''service_a'' 60 (demo_run demo_commands)),
      perform (TakeLease ''Kato'' ''service_a'' True 60) (demo_run demo_commands))"
proof -
  have "sim_inv (demo_run demo_commands)" by (intro run_sim_inv sim_inv_init [OF demo_init])
  moreover have "validate_target (provider (demo_run demo_commands)) ''service_a''"
    "fencing (provider (demo_run demo_commands))"
    "\<not> fail_writes (journal (demo_run demo_commands))" by code_simp+
  then have "lease_possible ''service_a'' True (demo_run demo_commands)"
    by (simp only: lease_possible_def) simp
  ultimately show ?thesis
    using lease_outcome [of "demo_run demo_commands" "''Kato''" "''service_a''" True 60]
    by (auto simp: wp_def outcome_of_def split: prod.splits sum.splits)
qed

lemma failover_stale_lease_fenced_witness:
  "\<exists>msg. FakeProvider_mutate ''service_a'' ''restart'' 1 ''op-9''
       (provider (perform (TakeLease ''Kato'' ''service_a'' True 60) (demo_run demo_commands))) =
     (Inl (UnsafeEffect msg),
      provider (perform (TakeLease ''Kato'' ''service_a'' True 60) (demo_run demo_commands)))"
proof -
  have "map_option lease_epoch (leases (journal (demo_run demo_commands)) ''service_a'') = Some 1"
    by code_simp
  then obtain l where "leases (journal (demo_run demo_commands)) ''service_a'' = Some l"
    "lease_epoch l = 1" by auto
  with failover_stale_lease_fenced [OF demo_init refl this(1) demo_lease, of _ "[]"]
  show ?thesis by simp
qed

lemma failover_journal_failure_is_inert_witness:
  "snd (Simulator_run demo_request None (demo_run (demo_commands @ [SetFailWrites True]))) =
     demo_run (demo_commands @ [SetFailWrites True])"
proof -
  have "fail_writes (journal (demo_run (demo_commands @ [SetFailWrites True])))" by code_simp
  from failover_journal_failure_is_inert [OF this] show ?thesis by blast
qed

lemma failover_crash_recovery_witness:
  "fst (Simulator_reconcile demo_request False (perform Restart demo_crashed)) = Inr SUCCEEDED"
proof -
  have free: "restore_free (operation_id demo_request)"
    by (simp add: restore_free_def demo_request_def Request_default_def suffix_def)
  have cmds: "list_all restore_free_command demo_commands" by (simp add: demo_commands_def)
  have new: "Journal_get (operation_id demo_request) (journal (demo_run demo_commands)) = None"
    by code_simp
  have auth: "authorised (demo_run demo_commands) demo_request"
    unfolding gates_iff_authorised [symmetric] by code_simp
  have faults: "\<not> fail_writes (journal (demo_run demo_commands))"
    "readable (provider (demo_run demo_commands))"
    "\<not> fail_restart (provider (demo_run demo_commands))"
    "\<not> fail_restore (provider (demo_run demo_commands))" by code_simp+
  have "demo_crashed = perform (Run demo_request (Some ''after_effect'')) (demo_run demo_commands)"
    by (simp add: demo_crashed_def)
  with failover_crash_recovery [OF demo_init refl cmds free new auth faults refl] show ?thesis
    by simp
qed

section \<open>Colliding compensation keys\<close>

text \<open>
  Compensations keep their receipt under the operation id with \<open>:restore\<close> appended, in the same
  dictionary as the operations. Where an operation was run whose own id is such a key, the
  compensation of the other one finds a receipt: \<open>compensate\<close> then reports \<open>SUCCEEDED\<close>, with the
  reason "restored health verified", and performs no restore.
\<close>

lemma failover_restore_key_collision:
  assumes "row_of req s = Some r" and "row_state r = UNKNOWN" and "\<not> intent_conflict r req"
    and "\<not> fail_writes (journal s)" and "authorised s (req\<lparr>action := ''restore''\<rparr>)"
    and "idempotency (provider s)" and "readable (provider s)" and "health (provider s) (target req)"
    and "receipts (provider s) (restore_key (operation_id req)) = Some e"
  shows "fst (Simulator_compensate req s) = Inr SUCCEEDED \<and>
     provider (snd (Simulator_compensate req s)) = provider s"
proof -
  from authorised_mutate [OF assms(5)] obtain l where l: "leases (journal s) (target req) = Some l"
    "lease_epoch l = epochs (provider s) (target req)" "fencing (provider s)"
    "validate_target (provider s) (target req)" "supported_action ''restore''"
    "target req \<in> set (targets (provider s))" by auto
  have "wp (Simulator_compensate req) (\<lambda>st t. st = SUCCEEDED \<and> provider t = provider s)
     (\<lambda>_ _. False) s"
    using assms l
    by (cases e) (simp add: Simulator_compensate_def Simulator_restore_def wp_simps
        row_of_def [symmetric] Journal_current_lease_def)
  then show ?thesis
    by (auto simp: wp_def split: prod.splits sum.splits)
qed

lemma failover_restore_key_taken:
  "receipts (provider (demo_run (demo_commands @ [Run (Request_default ''x:restore'') None])))
     (restore_key ''x'') \<noteq> None"
  by code_simp

end
