(* ===== verification/Py_Json.thy ===== *)
theory Py_Json
  imports Py_Text
begin

text \<open>
  Python values as \<open>json.dumps\<close> sees them, and the encoder with \<open>sort_keys=True\<close> and
  \<open>separators=(",", ":")\<close>. The keys of a dictionary are strings, as the annotations of the code
  say; a value of any other kind is \<open>POther\<close>. A float is given by the text \<open>repr\<close> prints, or is
  not finite. Integers of more than 4300 digits raise \<open>ValueError\<close> (\<open>sys.get_int_max_str_digits\<close>).
  The recursion limit of the interpreter is not modelled.
\<close>

section \<open>Values\<close>

datatype pyfloat = Finite string | PosInfinity | NegInfinity | NotANumber

datatype pyval =
    PNone
  | PBool bool
  | PInt int
  | PFloat pyfloat
  | PStr string
  | PList "pyval list"
  | PDict "(string \<times> pyval) list"
  | POther

datatype json_error = JTypeError | JValueError

section \<open>Strings\<close>

definition hex_digit :: "nat \<Rightarrow> char" where
  "hex_digit n = ''0123456789abcdef'' ! (n mod 16)"

definition hex4 :: "nat \<Rightarrow> string" where
  "hex4 n = [hex_digit (n div 4096), hex_digit (n div 256), hex_digit (n div 16), hex_digit n]"

definition u_escape :: "nat \<Rightarrow> string" where
  "u_escape n =
     (if n < 65536 then CHR 0x5C # CHR ''u'' # hex4 n
      else CHR 0x5C # CHR ''u'' # hex4 (55296 + (n - 65536) div 1024) @
           CHR 0x5C # CHR ''u'' # hex4 (56320 + (n - 65536) mod 1024))"

text \<open>One character below 128.\<close>

definition ascii_escape :: "char \<Rightarrow> string" where
  "ascii_escape c =
     (if c = CHR 0x22 then [CHR 0x5C, c]
      else if c = CHR 0x5C then [c, c]
      else if c = CHR 0x0A then [CHR 0x5C, CHR ''n'']
      else if c = CHR 0x0D then [CHR 0x5C, CHR ''r'']
      else if c = CHR 0x09 then [CHR 0x5C, CHR ''t'']
      else if c = CHR 0x0C then [CHR 0x5C, CHR ''f'']
      else if c = CHR 0x08 then [CHR 0x5C, CHR ''b'']
      else if (of_char c :: nat) < 32 then u_escape (of_char c)
      else [c])"

abbreviation low6 :: "char \<Rightarrow> nat" where
  "low6 c \<equiv> of_char c mod 64"

text \<open>The characters of a string under \<open>ensure_ascii=True\<close>, decoding UTF-8.
  (\<open>0x7F\<close> is escaped too).\<close>

fun escape_ascii :: "string \<Rightarrow> string" where
  "escape_ascii [] = []"
| "escape_ascii (a # s) =
     (let n = of_char a :: nat in
      if n = 127 then u_escape 127 @ escape_ascii s
      else if n < 128 then ascii_escape a @ escape_ascii s
      else if n < 224 then
        (case s of b # s' \<Rightarrow> u_escape ((n mod 32) * 64 + low6 b) @ escape_ascii s' | [] \<Rightarrow> [])
      else if n < 240 then
        (case s of b # c # s' \<Rightarrow>
             u_escape ((n mod 16) * 4096 + low6 b * 64 + low6 c) @ escape_ascii s'
         | _ \<Rightarrow> [])
      else
        (case s of b # c # d # s' \<Rightarrow>
             u_escape ((n mod 8) * 262144 + low6 b * 4096 + low6 c * 64 + low6 d) @ escape_ascii s'
         | _ \<Rightarrow> []))"

fun escape_utf8 :: "string \<Rightarrow> string" where
  "escape_utf8 [] = []"
| "escape_utf8 (a # s) =
     (if (of_char a :: nat) < 128 then ascii_escape a @ escape_utf8 s else a # escape_utf8 s)"

definition json_string :: "bool \<Rightarrow> string \<Rightarrow> string" where
  "json_string ensure_ascii s =
     CHR 0x22 # (if ensure_ascii then escape_ascii s else escape_utf8 s) @ [CHR 0x22]"

section \<open>The encoder\<close>

definition json_int :: "int \<Rightarrow> json_error + string" where
  "json_int i =
     (if 4300 < length (nat_str (nat \<bar>i\<bar>)) then Inl JValueError else Inr (int_str i))"

fun json_float :: "bool \<Rightarrow> pyfloat \<Rightarrow> json_error + string" where
  "json_float allow_nan (Finite s) = Inr s"
| "json_float allow_nan PosInfinity = (if allow_nan then Inr ''Infinity'' else Inl JValueError)"
| "json_float allow_nan NegInfinity = (if allow_nan then Inr ''-Infinity'' else Inl JValueError)"
| "json_float allow_nan NotANumber = (if allow_nan then Inr ''NaN'' else Inl JValueError)"

text \<open>Strings are compared by code points, which is the order of their UTF-8 bytes.\<close>

fun str_le :: "string \<Rightarrow> string \<Rightarrow> bool" where
  "str_le [] _ = True"
| "str_le (_ # _) [] = False"
| "str_le (a # s) (b # t) =
     ((of_char a :: nat) < of_char b \<or> (of_char a :: nat) = of_char b \<and> str_le s t)"

fun insert_item :: "string \<times> 'a \<Rightarrow> (string \<times> 'a) list \<Rightarrow> (string \<times> 'a) list" where
  "insert_item x [] = [x]"
| "insert_item x (y # ys) = (if str_le (fst x) (fst y) then x # y # ys else y # insert_item x ys)"

definition sort_items :: "(string \<times> 'a) list \<Rightarrow> (string \<times> 'a) list" where
  "sort_items xs = foldr insert_item xs []"

fun joined :: "string \<Rightarrow> string list \<Rightarrow> string" where
  "joined sep [] = []"
| "joined sep [x] = x"
| "joined sep (x # y # xs) = x @ sep @ joined sep (y # xs)"

fun all_ok :: "('e + 'a) list \<Rightarrow> 'e + 'a list" where
  "all_ok [] = Inr []"
| "all_ok (Inl e # _) = Inl e"
| "all_ok (Inr x # xs) = (case all_ok xs of Inl e \<Rightarrow> Inl e | Inr ys \<Rightarrow> Inr (x # ys))"

text \<open>
  The items of a dictionary are encoded before they are sorted here, and the first error in the
  sorted order is the one raised, as in Python.
\<close>

fun json_dumps :: "bool \<Rightarrow> bool \<Rightarrow> pyval \<Rightarrow> json_error + string" where
  "json_dumps asc nan PNone = Inr ''null''"
| "json_dumps asc nan (PBool b) = Inr (if b then ''true'' else ''false'')"
| "json_dumps asc nan (PInt i) = json_int i"
| "json_dumps asc nan (PFloat x) = json_float nan x"
| "json_dumps asc nan (PStr s) = Inr (json_string asc s)"
| "json_dumps asc nan (PList xs) =
     (case all_ok (map (json_dumps asc nan) xs) of
        Inl e \<Rightarrow> Inl e
      | Inr ys \<Rightarrow> Inr (''['' @ joined '','' ys @ '']''))"
| "json_dumps asc nan (PDict kvs) =
     (case all_ok (map snd (sort_items (map (\<lambda>(k, v). (k,
             case json_dumps asc nan v of
               Inl e \<Rightarrow> Inl e
             | Inr y \<Rightarrow> Inr (json_string asc k @ '':'' @ y))) kvs))) of
        Inl e \<Rightarrow> Inl e
      | Inr ys \<Rightarrow> Inr (''{'' @ joined '','' ys @ ''}''))"
| "json_dumps asc nan POther = Inl JTypeError"

text \<open>\<open>bool(x)\<close>\<close>

fun truthy :: "pyval \<Rightarrow> bool" where
  "truthy PNone = False"
| "truthy (PBool b) = b"
| "truthy (PInt i) = (i \<noteq> 0)"
| "truthy (PFloat x) = (x \<noteq> Finite ''0.0'' \<and> x \<noteq> Finite ''-0.0'')"
| "truthy (PStr s) = (s \<noteq> [])"
| "truthy (PList xs) = (xs \<noteq> [])"
| "truthy (PDict kvs) = (kvs \<noteq> [])"
| "truthy POther = True"

section \<open>When the encoder cannot fail\<close>

definition encodes :: "bool \<Rightarrow> bool \<Rightarrow> pyval \<Rightarrow> bool" where
  "encodes asc nan v \<longleftrightarrow> (\<exists>x. json_dumps asc nan v = Inr x)"

lemma encodes_simps [simp]:
  "encodes asc nan PNone" "encodes asc nan (PBool b)" "encodes asc nan (PStr s)"
  by (simp_all add: encodes_def)

lemma all_ok_Inr: "\<forall>r \<in> set rs. \<exists>x. r = Inr x \<Longrightarrow> \<exists>ys. all_ok rs = Inr ys"
  by (induction rs rule: all_ok.induct) auto

lemma set_sort_items [simp]: "set (sort_items xs) = set xs"
proof -
  have "set (insert_item x ys) = insert x (set ys)" for x :: "string \<times> 'a" and ys
    by (induction x ys rule: insert_item.induct) auto
  then show ?thesis unfolding sort_items_def by (induction xs) auto
qed

lemma encodes_dict [simp]:
  "list_all (\<lambda>kv. encodes asc nan (snd kv)) kvs \<Longrightarrow> encodes asc nan (PDict kvs)"
proof -
  assume "list_all (\<lambda>kv. encodes asc nan (snd kv)) kvs"
  then have "\<exists>ys. all_ok (map snd (sort_items (map (\<lambda>(k, v). (k,
             case json_dumps asc nan v of
               Inl e \<Rightarrow> Inl e
             | Inr y \<Rightarrow> Inr (json_string asc k @ '':'' @ y))) kvs))) = Inr ys"
    by (intro all_ok_Inr) (fastforce simp: list_all_iff encodes_def)
  then show ?thesis by (auto simp: encodes_def)
qed

lemma all_ok_all: "all_ok rs = Inr ys \<Longrightarrow> r \<in> set rs \<Longrightarrow> \<exists>x. r = Inr x"
  by (induction rs arbitrary: ys rule: all_ok.induct) (auto split: sum.splits)

lemma encodes_dict_iff: "encodes asc nan (PDict kvs) \<longleftrightarrow> list_all (\<lambda>kv. encodes asc nan (snd kv)) kvs"
proof
  assume "encodes asc nan (PDict kvs)"
  then obtain ys where "all_ok (map snd (sort_items (map (\<lambda>(k, v). (k,
             case json_dumps asc nan v of
               Inl e \<Rightarrow> Inl e
             | Inr y \<Rightarrow> Inr (json_string asc k @ '':'' @ y))) kvs))) = Inr ys"
    by (auto simp: encodes_def split: sum.splits)
  from all_ok_all [OF this] have "\<exists>x. (case json_dumps asc nan v of Inl e \<Rightarrow> Inl e
      | Inr y \<Rightarrow> Inr (json_string asc k @ '':'' @ y)) = (Inr x :: json_error + string)" if "(k, v) \<in> set kvs" for k v
    using that by (force simp: image_iff)
  then have "encodes asc nan v" if "(k, v) \<in> set kvs" for k v
    using that by (cases "json_dumps asc nan v") (fastforce simp: encodes_def)+
  then show "list_all (\<lambda>kv. encodes asc nan (snd kv)) kvs"
    by (auto simp: list_all_iff)
qed (rule encodes_dict)

lemma encodes_list_iff: "encodes asc nan (PList xs) \<longleftrightarrow> list_all (encodes asc nan) xs"
proof
  assume "encodes asc nan (PList xs)"
  then obtain ys where "all_ok (map (json_dumps asc nan) xs) = Inr ys"
    by (auto simp: encodes_def split: sum.splits)
  from all_ok_all [OF this] show "list_all (encodes asc nan) xs"
    by (auto simp: list_all_iff encodes_def)
next
  assume "list_all (encodes asc nan) xs"
  then have "\<exists>ys. all_ok (map (json_dumps asc nan) xs) = Inr ys"
    by (intro all_ok_Inr) (auto simp: list_all_iff encodes_def)
  then show "encodes asc nan (PList xs)" by (auto simp: encodes_def)
qed

lemma encodes_float [simp]: "encodes asc True (PFloat x)"
  by (cases x) (simp_all add: encodes_def)

text \<open>What is accepted without NaN is accepted with it.\<close>

lemma encodes_nan: "encodes asc False v \<Longrightarrow> encodes asc True v"
proof (induction v)
  case (PInt i)
  then show ?case by (simp add: encodes_def)
next
  case (PList xs)
  then show ?case by (auto simp: encodes_list_iff list_all_iff)
next
  case (PDict kvs)
  then show ?case
    unfolding encodes_dict_iff list_all_iff by (metis prod.collapse prod_set_simps(2) singletonI snds.simps)
next
  case POther
  then show ?case by (simp add: encodes_def)
qed simp_all

section \<open>The order of strings\<close>

lemma str_le_refl: "str_le s s"
  by (induction s) auto

lemma str_le_total: "str_le s t \<or> str_le t s"
  by (induction s t rule: str_le.induct) auto

lemma str_le_antisym: "str_le s t \<Longrightarrow> str_le t s \<Longrightarrow> s = t"
  by (induction s t rule: str_le.induct) (auto simp: of_char_eq_iff elim: str_le.elims)

lemma str_le_trans: "str_le s t \<Longrightarrow> str_le t u \<Longrightarrow> str_le s u"
proof (induction s t arbitrary: u rule: str_le.induct)
  case (3 a s b t)
  then show ?case by (cases u) auto
qed auto

end
