(* ===== verification/Py_Time.thy ===== *)
theory Py_Time
  imports Py_Text
begin

text \<open>
  Python's \<open>datetime\<close>: the wall-clock time in microseconds since 0001-01-01T00:00:00 and the offset
  from UTC in microseconds, or no offset for a naive value. An aware and a naive value are unequal,
  and ordering or subtracting them raises \<open>TypeError\<close>. (A \<open>tzinfo\<close> whose offset is undefined, and
  the \<open>fold\<close> attribute, are not modelled.) Exceptions of the standard library are \<open>pyexn\<close>.
\<close>

datatype pyexn =
    TypeError
  | ValueError string
  | KeyError string
  | PermissionError string
  | RuntimeError string
  | AttributeError string
  | ImportFailure
  | StorageError
  | OtherException string

datatype datetime = DateTime (wall: int) (tz: "int option")

definition aware :: "datetime \<Rightarrow> bool" where
  "aware d \<longleftrightarrow> tz d \<noteq> None"

fun instant :: "datetime \<Rightarrow> int" where
  "instant (DateTime w None) = w"
| "instant (DateTime w (Some off)) = w - off"

definition dt_equal :: "datetime \<Rightarrow> datetime \<Rightarrow> bool" where
  "dt_equal a b \<longleftrightarrow> aware a = aware b \<and> instant a = instant b"

definition dt_le :: "datetime \<Rightarrow> datetime \<Rightarrow> pyexn + bool" where
  "dt_le a b = (if aware a = aware b then Inr (instant a \<le> instant b) else Inl TypeError)"

definition dt_minus :: "datetime \<Rightarrow> datetime \<Rightarrow> pyexn + int" where
  "dt_minus a b = (if aware a = aware b then Inr (instant a - instant b) else Inl TypeError)"

definition microseconds_per_day :: int where
  "microseconds_per_day = 86400000000"

definition minutes :: "int \<Rightarrow> int" where
  "minutes n = n * 60000000"

section \<open>ISO format\<close>

definition is_leap :: "int \<Rightarrow> bool" where
  "is_leap y \<longleftrightarrow> y mod 4 = 0 \<and> (y mod 100 \<noteq> 0 \<or> y mod 400 = 0)"

fun month_of :: "int list \<Rightarrow> int \<Rightarrow> int \<Rightarrow> int \<times> int" where
  "month_of [] m d = (m, d + 1)"
| "month_of (l # ls) m d = (if d < l then (m, d + 1) else month_of ls (m + 1) (d - l))"

text \<open>Year, month and day of a day number (0 is 0001-01-01), as \<open>_ord2ymd\<close> of \<open>datetime.py\<close>.\<close>

definition ymd :: "int \<Rightarrow> int \<times> int \<times> int" where
  "ymd day =
     (let n400 = day div 146097; r400 = day mod 146097;
          n100 = r400 div 36524; r100 = r400 mod 36524;
          n4 = r100 div 1461; r4 = r100 mod 1461;
          n1 = r4 div 365; r1 = r4 mod 365;
          year = n400 * 400 + n100 * 100 + n4 * 4 + n1 + 1 in
      if n1 = 4 \<or> n100 = 4 then (year - 1, 12, 31)
      else
        (year, month_of [31, if is_leap year then 29 else 28, 31, 30, 31, 30, 31, 31, 30, 31, 30, 31] 1 r1))"

definition padded :: "nat \<Rightarrow> int \<Rightarrow> string" where
  "padded w i = (let s = nat_str (nat i) in replicate (w - length s) CHR ''0'' @ s)"

definition iso_offset :: "int \<Rightarrow> string" where
  "iso_offset off =
     (let a = \<bar>off\<bar>; s = a div 1000000; us = a mod 1000000 in
      (if off < 0 then ''-'' else ''+'') @ padded 2 (s div 3600) @ '':'' @ padded 2 (s div 60 mod 60) @
      (if s mod 60 \<noteq> 0 \<or> us \<noteq> 0 then '':'' @ padded 2 (s mod 60) else '''') @
      (if us \<noteq> 0 then ''.'' @ padded 6 us else ''''))"

definition isoformat :: "datetime \<Rightarrow> string" where
  "isoformat d =
     (let day = wall d div microseconds_per_day; t = wall d mod microseconds_per_day;
          us = t mod 1000000; s = t div 1000000 in
      case ymd day of (y, m, dd) \<Rightarrow>
        padded 4 y @ ''-'' @ padded 2 m @ ''-'' @ padded 2 dd @ ''T'' @
        padded 2 (s div 3600) @ '':'' @ padded 2 (s div 60 mod 60) @ '':'' @ padded 2 (s mod 60) @
        (if us = 0 then '''' else ''.'' @ padded 6 us) @
        (case tz d of None \<Rightarrow> '''' | Some off \<Rightarrow> iso_offset off))"

end
