(* ===== verification/Sha256.thy ===== *)
theory Sha256
  imports Main "HOL-Library.Word"
begin

unbundle bit_operations_syntax

text \<open>
  SHA-256 (\<open>hashlib.sha256(data).hexdigest()\<close>) on byte strings, with 32-bit words. The proofs of
  the other theories use no property of it; a statement that needs one names the two inputs that
  would collide.
\<close>

type_synonym w32 = "32 word"

text \<open>
  The constants are what they are defined to be: the first 32 bits of the fractional parts of the
  cube roots of the first 64 primes, and of the square roots of the first 8. \<open>root_bits k n\<close> is the
  greatest number below \<open>2 ^ 48\<close> whose \<open>k\<close>-th power is at most \<open>n\<close>, bit by bit.
\<close>

definition root_bits :: "nat \<Rightarrow> int \<Rightarrow> int" where
  "root_bits k n = foldl (\<lambda>r b. if (r + 2 ^ b) ^ k \<le> n then r + 2 ^ b else r) 0 (rev [0..<48])"

definition small_primes :: "int list" where
  "small_primes = [
     2, 3, 5, 7, 11, 13, 17, 19, 23, 29, 31, 37, 41, 43, 47, 53,
     59, 61, 67, 71, 73, 79, 83, 89, 97, 101, 103, 107, 109, 113, 127, 131,
     137, 139, 149, 151, 157, 163, 167, 173, 179, 181, 191, 193, 197, 199, 211, 223,
     227, 229, 233, 239, 241, 251, 257, 263, 269, 271, 277, 281, 283, 293, 307, 311]"

definition sha_k :: "w32 list" where
  "sha_k = map (\<lambda>p. word_of_int (root_bits 3 (p * 2 ^ 96))) small_primes"

definition sha_init :: "w32 list" where
  "sha_init = map (\<lambda>p. word_of_int (root_bits 2 (p * 2 ^ 64))) (take 8 small_primes)"

definition rotr :: "nat \<Rightarrow> w32 \<Rightarrow> w32" where
  "rotr n w = drop_bit n w OR push_bit (32 - n) w"

definition small0 :: "w32 \<Rightarrow> w32" where
  "small0 w = rotr 7 w XOR rotr 18 w XOR drop_bit 3 w"

definition small1 :: "w32 \<Rightarrow> w32" where
  "small1 w = rotr 17 w XOR rotr 19 w XOR drop_bit 10 w"

definition big0 :: "w32 \<Rightarrow> w32" where
  "big0 w = rotr 2 w XOR rotr 13 w XOR rotr 22 w"

definition big1 :: "w32 \<Rightarrow> w32" where
  "big1 w = rotr 6 w XOR rotr 11 w XOR rotr 25 w"

definition sha_ch :: "w32 \<Rightarrow> w32 \<Rightarrow> w32 \<Rightarrow> w32" where
  "sha_ch e f g = (e AND f) XOR (NOT e AND g)"

definition sha_maj :: "w32 \<Rightarrow> w32 \<Rightarrow> w32 \<Rightarrow> w32" where
  "sha_maj a b c = (a AND b) XOR (a AND c) XOR (b AND c)"

definition extend_step :: "w32 list \<Rightarrow> nat \<Rightarrow> w32 list" where
  "extend_step ws t =
     ws @ [small1 (ws ! (t - 2)) + ws ! (t - 7) + small0 (ws ! (t - 15)) + ws ! (t - 16)]"

definition schedule :: "w32 list \<Rightarrow> w32 list" where
  "schedule block = foldl extend_step block [16..<64]"

fun round :: "w32 list \<Rightarrow> w32 \<times> w32 \<Rightarrow> w32 list" where
  "round [a, b, c, d, e, f, g, h] (k, w) =
     (let t1 = h + big1 e + sha_ch e f g + k + w; t2 = big0 a + sha_maj a b c in
      [t1 + t2, a, b, c, d + t1, e, f, g])"
| "round vs _ = vs"

definition compress :: "w32 list \<Rightarrow> w32 list \<Rightarrow> w32 list" where
  "compress hs block = map2 (+) hs (foldl round hs (zip sha_k (schedule block)))"

fun chunks :: "nat \<Rightarrow> nat \<Rightarrow> 'a list \<Rightarrow> 'a list list" where
  "chunks 0 n xs = []"
| "chunks (Suc fuel) n xs = (if xs = [] then [] else take n xs # chunks fuel n (drop n xs))"

definition big_endian :: "int list \<Rightarrow> w32" where
  "big_endian bs = foldl (\<lambda>acc b. push_bit 8 acc OR of_int b) 0 bs"

text \<open>Padding: one bit, zeros to 56 modulo 64, and the length in bits as eight bytes.\<close>

definition padded_bytes :: "string \<Rightarrow> int list" where
  "padded_bytes s =
     (let n = length s; zeros = (119 - n mod 64) mod 64 in
      map of_char s @ [128] @ replicate zeros 0 @
      map (\<lambda>i. int n * 8 div 256 ^ i mod 256) [7, 6, 5, 4, 3, 2, 1, 0])"

definition sha_blocks :: "string \<Rightarrow> w32 list list" where
  "sha_blocks s =
     (let bs = padded_bytes s in
      map (\<lambda>b. map big_endian (chunks 16 4 b)) (chunks (length bs) 64 bs))"

definition word_hex :: "w32 \<Rightarrow> string" where
  "word_hex w = map (\<lambda>i. ''0123456789abcdef'' ! unat (drop_bit (4 * i) w AND 15)) [7, 6, 5, 4, 3, 2, 1, 0]"

definition sha256_hex :: "string \<Rightarrow> string" where
  "sha256_hex s = concat (map word_hex (foldl compress sha_init (sha_blocks s)))"

lemma length_round [simp]: "length hs = 8 \<Longrightarrow> length (round hs kw) = 8"
  by (cases "(hs, kw)" rule: round.cases) (auto simp: Let_def)

lemma length_compress [simp]: "length hs = 8 \<Longrightarrow> length (compress hs block) = 8"
proof -
  have "length (foldl round vs kws) = 8" if "length vs = 8" for vs kws
    using that by (induction kws arbitrary: vs) auto
  then show "length hs = 8 \<Longrightarrow> length (compress hs block) = 8"
    by (simp add: compress_def)
qed

lemma length_word_hex [simp]: "length (word_hex w) = 8"
  by (simp add: word_hex_def)

lemma length_sha256_hex [simp]: "length (sha256_hex s) = 64"
proof -
  have "length (foldl compress vs bs) = 8" if "length vs = 8" for vs bs
    using that by (induction bs arbitrary: vs) auto
  then have "length (foldl compress sha_init (sha_blocks s)) = 8"
    by (simp add: sha_init_def small_primes_def)
  moreover have "length (concat (map word_hex ws)) = 8 * length ws" for ws
    by (induction ws) auto
  ultimately show ?thesis by (simp add: sha256_hex_def)
qed

lemma set_sha256_hex: "set (sha256_hex s) \<subseteq> set ''0123456789abcdef''"
proof -
  have "''0123456789abcdef'' ! unat (x AND 15) \<in> set ''0123456789abcdef''" for x :: w32
  proof -
    have "x AND 15 = take_bit 4 x" by (simp add: take_bit_eq_mask mask_eq_exp_minus_1)
    then have "unat (x AND 15) = take_bit 4 (unat x)" by (simp add: unsigned_take_bit_eq)
    also have "\<dots> < 2 ^ 4" by (rule take_bit_nat_less_exp)
    finally have "unat (x AND 15) < 16" by simp
    then have "unat (x AND 15) < length ''0123456789abcdef''" by simp
    then show ?thesis by (rule nth_mem)
  qed
  then show ?thesis by (auto simp: sha256_hex_def word_hex_def)
qed

end
