(* ===== verification/Kernel_Model.thy ===== *)
theory Kernel_Model
  imports Cyber_Prelude Py_Json Py_Time Sha256
begin

text \<open>
  The Action Kernel (src/src/cybercore/action_kernel.py): its data, the policy evaluation and the
  dispatch \<open>execute\<close>, with every audit call and every reading of the clock. The clock and the
  evidence sink are parameters: procedures on a world of their own, which may raise. The kernel's
  own state is the set of reserved task ids. A call of \<open>execute\<close> is one step here; the lock that
  makes \<open>_reserve_task_id\<close> atomic between threads is not modelled.
\<close>

section \<open>Data\<close>

record Provenance =
  pv_source :: string
  pv_adapter :: string
  pv_source_instance :: string
  pv_observed_at :: datetime
  pv_confidence :: string
  pv_collector_run :: "string option"
  pv_contract :: string

record TaskRequest =
  tr_task_id :: string
  tr_correlation_id :: string
  tr_actor :: string
  tr_capability :: string
  tr_target_id :: string
  tr_arguments :: pyval
  tr_requested_at :: datetime
  tr_expires_at :: datetime
  tr_provenance :: Provenance
  tr_schema_version :: string
  tr_nexus_contract_family :: string

record CapabilityDescriptor =
  cd_name :: string
  cd_version :: string
  cd_mode :: string
  cd_allowed_targets :: "string set"
  cd_arguments_allowed :: bool
  cd_schema_version :: string
  cd_nexus_contract_family :: string

record PolicyVerdict =
  vd_task_id :: string
  vd_correlation_id :: string
  vd_decision :: string
  vd_reason :: string
  vd_actor :: string
  vd_capability :: string
  vd_target_id :: string
  vd_evaluated_at :: datetime
  vd_provenance :: Provenance
  vd_schema_version :: string

record EvidenceMetadata =
  em_sha256 :: string
  em_byte_count :: nat
  em_media_type :: string
  em_redacted :: bool
  em_schema_version :: string

record ExecutionReceipt =
  er_task_id :: string
  er_correlation_id :: string
  er_status :: string
  er_reason :: string
  er_actor :: string
  er_capability :: string
  er_target_id :: string
  er_policy :: PolicyVerdict
  er_completed_at :: datetime
  er_provenance :: Provenance
  er_evidence :: "EvidenceMetadata option"
  er_schema_version :: string
  er_nexus_contract_family :: string
  er_authorization_expires_at :: "datetime option"

record AuditEvent =
  ae_stage :: string
  ae_task_id :: string
  ae_correlation_id :: string
  ae_actor :: string
  ae_capability :: string
  ae_target_id :: string
  ae_outcome :: string
  ae_reason :: string
  ae_occurred_at :: datetime
  ae_provenance :: Provenance
  ae_evidence_sha256 :: "string option"
  ae_schema_version :: string

definition ACTION_KERNEL_SCHEMA_VERSION :: string where
  "ACTION_KERNEL_SCHEMA_VERSION = ''action-kernel/v1''"

definition NEXUS_ACTION_CONTRACT :: string where
  "NEXUS_ACTION_CONTRACT = ''action/v1''"

definition NEXUS_CAPABILITY_CONTRACT :: string where
  "NEXUS_CAPABILITY_CONTRACT = ''capability/v1''"

definition NEXUS_PROVENANCE_CONTRACT :: string where
  "NEXUS_PROVENANCE_CONTRACT = ''provenance/v1''"

text \<open>The dictionary \<open>Provenance.as_nexus\<close> builds.\<close>

definition as_nexus :: "Provenance \<Rightarrow> pyval" where
  "as_nexus p = PDict
     ([(''contract'', PStr (pv_contract p)), (''source'', PStr (pv_source p)),
       (''adapter'', PStr (pv_adapter p)), (''sourceInstance'', PStr (pv_source_instance p)),
       (''observedAt'', PStr (isoformat (pv_observed_at p))),
       (''confidence'', PStr (pv_confidence p))] @
      (case pv_collector_run p of None \<Rightarrow> [] | Some r \<Rightarrow> [(''collectorRun'', PStr r)]))"

definition evidence_sha256 :: "ExecutionReceipt \<Rightarrow> string option" where
  "evidence_sha256 r = map_option em_sha256 (er_evidence r)"

section \<open>The kernel object\<close>

text \<open>The configuration fixed at construction; dictionaries are association lists.\<close>

record 'w ActionKernel =
  ak_targets :: "(string \<times> (string \<times> string) list) list"
  ak_actors :: "string set"
  ak_enabled :: bool
  ak_max_bytes :: nat
  ak_max_evidence_bytes :: nat
  ak_sink :: "(AuditEvent \<Rightarrow> ('w, pyexn, unit) proc) option"
  ak_source_instance :: string
  ak_clock :: "('w, pyexn, datetime) proc"
  ak_capabilities :: "(string \<times> CapabilityDescriptor) list"

record 'w kernel_state =
  ks_used :: "string set"
  ks_world :: 'w

type_synonym ('w, 'a) kernel_proc = "('w kernel_state, pyexn, 'a) proc"

definition default_capability :: "(string \<times> (string \<times> string) list) list \<Rightarrow> CapabilityDescriptor" where
  "default_capability targets =
     \<lparr>cd_name = ''diagnostics.synthetic_status.v1'', cd_version = ''1'', cd_mode = ''read'',
      cd_allowed_targets = set (map fst targets), cd_arguments_allowed = False,
      cd_schema_version = ACTION_KERNEL_SCHEMA_VERSION,
      cd_nexus_contract_family = NEXUS_CAPABILITY_CONTRACT\<rparr>"

definition ActionKernel_init ::
  "(string \<times> (string \<times> string) list) list \<Rightarrow> string set \<Rightarrow>
   (string \<times> CapabilityDescriptor) list option \<Rightarrow> bool \<Rightarrow> nat \<Rightarrow> nat \<Rightarrow>
   (AuditEvent \<Rightarrow> ('w, pyexn, unit) proc) option \<Rightarrow> string \<Rightarrow> ('w, pyexn, datetime) proc \<Rightarrow>
   'w ActionKernel" where
  "ActionKernel_init targets actors caps enabled max_in max_ev sink inst clock =
     \<lparr>ak_targets = targets, ak_actors = actors, ak_enabled = enabled, ak_max_bytes = max_in,
      ak_max_evidence_bytes = max_ev, ak_sink = sink, ak_source_instance = inst, ak_clock = clock,
      ak_capabilities = (case caps of
          None \<Rightarrow> [(cd_name (default_capability targets), default_capability targets)]
        | Some cs \<Rightarrow> cs)\<rparr>"

definition kernel_start :: "'w \<Rightarrow> 'w kernel_state" where
  "kernel_start w = \<lparr>ks_used = {}, ks_world = w\<rparr>"

definition on_world :: "('w, pyexn, 'a) proc \<Rightarrow> ('w, 'a) kernel_proc" where
  "on_world m = zoom ks_world (\<lambda>w s. s\<lparr>ks_world := w\<rparr>) m"

lemma wp_on_world [wp_simps]:
  "wp (on_world m) Q E s =
     wp m (\<lambda>a w. Q a (s\<lparr>ks_world := w\<rparr>)) (\<lambda>e w. E e (s\<lparr>ks_world := w\<rparr>)) (ks_world s)"
  by (simp add: on_world_def wp_zoom)

section \<open>Verdicts, receipts and audit events\<close>

definition Kernel_now :: "'w ActionKernel \<Rightarrow> ('w, datetime) kernel_proc" where
  "Kernel_now ak = on_world (ak_clock ak)"

definition kernel_provenance :: "'w ActionKernel \<Rightarrow> datetime \<Rightarrow> Provenance" where
  "kernel_provenance ak t =
     \<lparr>pv_source = ''cybercore'', pv_adapter = ''action-kernel'',
      pv_source_instance = ak_source_instance ak, pv_observed_at = t,
      pv_confidence = ''verified'', pv_collector_run = None,
      pv_contract = NEXUS_PROVENANCE_CONTRACT\<rparr>"

definition valid_provenance :: "Provenance \<Rightarrow> bool" where
  "valid_provenance p \<longleftrightarrow>
     pv_contract p = NEXUS_PROVENANCE_CONTRACT \<and> pv_source p \<noteq> [] \<and> pv_adapter p \<noteq> [] \<and>
     pv_source_instance p \<noteq> [] \<and> aware (pv_observed_at p) \<and>
     pv_confidence p \<in> {''verified'', ''supported'', ''inferred'', ''unknown''}"

definition make_verdict ::
  "'w ActionKernel \<Rightarrow> TaskRequest \<Rightarrow> string \<Rightarrow> string \<Rightarrow> string \<Rightarrow> datetime \<Rightarrow> PolicyVerdict" where
  "make_verdict ak req ta dec reason t =
     \<lparr>vd_task_id = tr_task_id req, vd_correlation_id = tr_correlation_id req,
      vd_decision = dec, vd_reason = reason, vd_actor = ta, vd_capability = tr_capability req,
      vd_target_id = tr_target_id req, vd_evaluated_at = t,
      vd_provenance = kernel_provenance ak t,
      vd_schema_version = ACTION_KERNEL_SCHEMA_VERSION\<rparr>"

definition Kernel_verdict ::
  "'w ActionKernel \<Rightarrow> TaskRequest \<Rightarrow> string \<Rightarrow> string \<Rightarrow> string \<Rightarrow> ('w, PolicyVerdict) kernel_proc" where
  "Kernel_verdict ak req ta dec reason =
     bind (Kernel_now ak) (\<lambda>t. ret (make_verdict ak req ta dec reason t))"

definition make_receipt ::
  "'w ActionKernel \<Rightarrow> TaskRequest \<Rightarrow> string \<Rightarrow> PolicyVerdict \<Rightarrow> string \<Rightarrow> string \<Rightarrow>
   EvidenceMetadata option \<Rightarrow> datetime \<Rightarrow> ExecutionReceipt" where
  "make_receipt ak req ta verdict status reason evidence t =
     \<lparr>er_task_id = tr_task_id req, er_correlation_id = tr_correlation_id req,
      er_status = status, er_reason = reason, er_actor = ta, er_capability = tr_capability req,
      er_target_id = tr_target_id req, er_policy = verdict, er_completed_at = t,
      er_provenance = kernel_provenance ak t, er_evidence = evidence,
      er_schema_version = ACTION_KERNEL_SCHEMA_VERSION,
      er_nexus_contract_family = NEXUS_ACTION_CONTRACT,
      er_authorization_expires_at = Some (tr_expires_at req)\<rparr>"

definition Kernel_receipt ::
  "'w ActionKernel \<Rightarrow> TaskRequest \<Rightarrow> string \<Rightarrow> PolicyVerdict \<Rightarrow> string \<Rightarrow> string \<Rightarrow>
   EvidenceMetadata option \<Rightarrow> ('w, ExecutionReceipt) kernel_proc" where
  "Kernel_receipt ak req ta verdict status reason evidence =
     bind (Kernel_now ak) (\<lambda>t. ret (make_receipt ak req ta verdict status reason evidence t))"

definition make_event ::
  "'w ActionKernel \<Rightarrow> TaskRequest \<Rightarrow> string \<Rightarrow> string \<Rightarrow> string \<Rightarrow> string \<Rightarrow> string option \<Rightarrow>
   datetime \<Rightarrow> AuditEvent" where
  "make_event ak req ta stage outcome reason sha t =
     \<lparr>ae_stage = stage, ae_task_id = tr_task_id req, ae_correlation_id = tr_correlation_id req,
      ae_actor = ta, ae_capability = tr_capability req, ae_target_id = tr_target_id req,
      ae_outcome = outcome, ae_reason = reason, ae_occurred_at = t,
      ae_provenance = kernel_provenance ak t, ae_evidence_sha256 = sha,
      ae_schema_version = ACTION_KERNEL_SCHEMA_VERSION\<rparr>"

definition Kernel_audit ::
  "'w ActionKernel \<Rightarrow> TaskRequest \<Rightarrow> string \<Rightarrow> string \<Rightarrow> string \<Rightarrow> string \<Rightarrow> string option \<Rightarrow>
   ('w, bool) kernel_proc" where
  "Kernel_audit ak req ta stage outcome reason sha =
     (case ak_sink ak of
        None \<Rightarrow> ret False
      | Some sink \<Rightarrow>
          bind (Kernel_now ak) (\<lambda>t.
            handle (seq (on_world (sink (make_event ak req ta stage outcome reason sha t))) (ret True))
              (\<lambda>_. Some (ret False))))"

definition Kernel_reserve_task_id :: "string \<Rightarrow> ('w, bool) kernel_proc" where
  "Kernel_reserve_task_id task =
     bind (gets ks_used) (\<lambda>used.
       if task \<in> used then ret False
       else seq (modify (\<lambda>s. s\<lparr>ks_used := insert task (ks_used s)\<rparr>)) (ret True))"

section \<open>Policy\<close>

text \<open>The checks of \<open>_evaluate_policy\<close> from the capability lookup on; \<open>None\<close> is the final \<open>ALLOW\<close>.\<close>

definition capability_denial :: "'w ActionKernel \<Rightarrow> TaskRequest \<Rightarrow> string option" where
  "capability_denial ak req =
    (case map_of (ak_capabilities ak) (tr_capability req) of
       None \<Rightarrow> Some ''CAPABILITY_DENIED''
     | Some d \<Rightarrow>
        if cd_schema_version d \<noteq> ACTION_KERNEL_SCHEMA_VERSION \<or>
           cd_nexus_contract_family d \<noteq> NEXUS_CAPABILITY_CONTRACT \<or>
           cd_name d \<noteq> tr_capability req \<or> cd_mode d \<noteq> ''read''
          then Some ''CAPABILITY_DESCRIPTOR_INVALID''
        else if tr_target_id req \<notin> cd_allowed_targets d then Some ''TARGET_DENIED''
        else (case map_of (ak_targets ak) (tr_target_id req) of
          None \<Rightarrow> Some ''TARGET_DENIED''
        | Some inventory \<Rightarrow>
           (case json_dumps True False (tr_arguments req) of
              Inl _ \<Rightarrow> Some ''INVALID_ARGUMENTS''
            | Inr encoded \<Rightarrow>
               if ak_max_bytes ak < length encoded then Some ''OVERSIZED''
               else if truthy (tr_arguments req) \<and> \<not> cd_arguments_allowed d
                 then Some ''ARGUMENTS_DENIED''
               else (case map_of inventory ''synthetic_status'' of
                  None \<Rightarrow> Some ''INVALID_INVENTORY''
                | Some status \<Rightarrow>
                   if status \<notin> {''ok'', ''offline'', ''unknown''} then Some ''INVALID_INVENTORY''
                   else None))))"

text \<open>The checks before the first comparison of times.\<close>

definition request_denial :: "'w ActionKernel \<Rightarrow> TaskRequest \<Rightarrow> string \<Rightarrow> string option" where
  "request_denial ak req ta =
    (if \<not> ak_enabled ak then Some ''FEATURE_DISABLED''
     else if ta = [] \<or> ta \<notin> ak_actors ak then Some ''ACTOR_DENIED''
     else if tr_actor req = [] \<or> tr_actor req \<noteq> ta then Some ''ACTOR_MISMATCH''
     else if tr_schema_version req \<noteq> ACTION_KERNEL_SCHEMA_VERSION then Some ''SCHEMA_DENIED''
     else if tr_nexus_contract_family req \<noteq> NEXUS_ACTION_CONTRACT then Some ''CONTRACT_DENIED''
     else if \<not> valid_provenance (tr_provenance req) then Some ''PROVENANCE_INVALID''
     else if tr_task_id req = [] \<or> tr_correlation_id req = [] then Some ''INVALID_ID''
     else if \<not> aware (tr_requested_at req) \<or> \<not> aware (tr_expires_at req) then Some ''INVALID_TIME''
     else None)"

text \<open>The checks from \<open>request.expires_at <= self._now()\<close> on, with the clock read as \<open>t\<close>.\<close>

definition Kernel_policy_at ::
  "'w ActionKernel \<Rightarrow> TaskRequest \<Rightarrow> string \<Rightarrow> datetime \<Rightarrow> ('w, PolicyVerdict) kernel_proc" where
  "Kernel_policy_at ak req ta t =
     bind (lift (dt_le (tr_expires_at req) t)) (\<lambda>expired.
     if expired then Kernel_verdict ak req ta ''DENY'' ''EXPIRED''
     else bind (gets ks_used) (\<lambda>used.
       if tr_task_id req \<in> used then Kernel_verdict ak req ta ''DENY'' ''DUPLICATE''
       else (case capability_denial ak req of
            Some reason \<Rightarrow> Kernel_verdict ak req ta ''DENY'' reason
          | None \<Rightarrow> Kernel_verdict ak req ta ''ALLOW'' ''READ_ONLY_ALLOWED'')))"

definition Kernel_evaluate_policy ::
  "'w ActionKernel \<Rightarrow> TaskRequest \<Rightarrow> string \<Rightarrow> ('w, PolicyVerdict) kernel_proc" where
  "Kernel_evaluate_policy ak req ta =
    (case request_denial ak req ta of
       Some reason \<Rightarrow> Kernel_verdict ak req ta ''DENY'' reason
     | None \<Rightarrow>
       bind (lift (dt_le (tr_expires_at req) (tr_requested_at req))) (\<lambda>inverted.
       if inverted then Kernel_verdict ak req ta ''DENY'' ''INVALID_TIME''
       else bind (Kernel_now ak) (Kernel_policy_at ak req ta)))"

section \<open>Dispatch\<close>

definition json_exn :: "json_error \<Rightarrow> pyexn" where
  "json_exn e = (case e of JTypeError \<Rightarrow> TypeError | JValueError \<Rightarrow> ValueError ''json'')"

definition evidence_payload :: "string \<Rightarrow> string \<Rightarrow> pyval" where
  "evidence_payload target status =
     PDict [(''target_id'', PStr target), (''synthetic_status'', PStr status)]"

definition make_evidence :: "string \<Rightarrow> EvidenceMetadata" where
  "make_evidence encoded =
     \<lparr>em_sha256 = sha256_hex encoded, em_byte_count = length encoded,
      em_media_type = ''application/json'', em_redacted = True,
      em_schema_version = ACTION_KERNEL_SCHEMA_VERSION\<rparr>"

text \<open>\<open>self._targets[request.target_id]["synthetic_status"]\<close>\<close>

definition target_status :: "'w ActionKernel \<Rightarrow> string \<Rightarrow> pyexn + string" where
  "target_status ak target =
     (case map_of (ak_targets ak) target of
        None \<Rightarrow> Inl (KeyError target)
      | Some inventory \<Rightarrow>
         (case map_of inventory ''synthetic_status'' of
            None \<Rightarrow> Inl (KeyError ''synthetic_status'')
          | Some status \<Rightarrow> Inr status))"

text \<open>A denial found after the policy was audited: audited again, then reported.\<close>

definition Kernel_deny_late ::
  "'w ActionKernel \<Rightarrow> TaskRequest \<Rightarrow> string \<Rightarrow> string \<Rightarrow> ('w, ExecutionReceipt) kernel_proc" where
  "Kernel_deny_late ak req ta reason =
     bind (Kernel_verdict ak req ta ''DENY'' reason) (\<lambda>v.
     bind (Kernel_audit ak req ta ''execution'' ''DENIED'' reason None) (\<lambda>ok.
     if \<not> ok then Kernel_receipt ak req ta v ''FAILED'' ''AUDIT_FAILED'' None
     else Kernel_receipt ak req ta v ''DENIED'' reason None))"

text \<open>From the reservation of the task id on.\<close>

definition Kernel_dispatch ::
  "'w ActionKernel \<Rightarrow> TaskRequest \<Rightarrow> string \<Rightarrow> PolicyVerdict \<Rightarrow> ('w, ExecutionReceipt) kernel_proc" where
  "Kernel_dispatch ak req ta verdict =
     bind (lift (target_status ak (tr_target_id req))) (\<lambda>status.
     bind (lift (case json_dumps True True (evidence_payload (tr_target_id req) status) of
                   Inl e \<Rightarrow> Inl (json_exn e) | Inr x \<Rightarrow> Inr x)) (\<lambda>encoded.
     if ak_max_evidence_bytes ak < length encoded
       then Kernel_receipt ak req ta verdict ''FAILED'' ''EVIDENCE_OVERSIZED'' None
     else
       bind (Kernel_receipt ak req ta verdict ''EXECUTED'' ''SYNTHETIC_ONLY''
               (Some (make_evidence encoded))) (\<lambda>result.
       bind (Kernel_audit ak req ta ''execution'' ''COMPLETED'' (er_reason result) None) (\<lambda>ok.
       if \<not> ok then Kernel_receipt ak req ta verdict ''FAILED'' ''AUDIT_FAILED'' None
       else
         bind (Kernel_audit ak req ta ''evidence'' ''RECORDED'' ''EVIDENCE_HASHED''
                 (Some (sha256_hex encoded))) (\<lambda>ok.
         if \<not> ok then Kernel_receipt ak req ta verdict ''FAILED'' ''AUDIT_FAILED'' None
         else ret result)))))"

text \<open>The revalidation of the expiry, with the clock read as \<open>t\<close>, and the reservation.\<close>

definition Kernel_commit ::
  "'w ActionKernel \<Rightarrow> TaskRequest \<Rightarrow> string \<Rightarrow> PolicyVerdict \<Rightarrow> datetime \<Rightarrow>
   ('w, ExecutionReceipt) kernel_proc" where
  "Kernel_commit ak req ta verdict t =
     bind (lift (dt_le (tr_expires_at req) t)) (\<lambda>expired.
     if expired then Kernel_deny_late ak req ta ''EXPIRED''
     else
       bind (Kernel_reserve_task_id (tr_task_id req)) (\<lambda>reserved.
       if \<not> reserved then Kernel_deny_late ak req ta ''DUPLICATE''
       else Kernel_dispatch ak req ta verdict))"

definition Kernel_execute ::
  "'w ActionKernel \<Rightarrow> TaskRequest \<Rightarrow> string \<Rightarrow> ('w, ExecutionReceipt) kernel_proc" where
  "Kernel_execute ak req ta =
    (if ak_sink ak = None then
       bind (Kernel_verdict ak req ta ''DENY'' ''AUDIT_UNAVAILABLE'') (\<lambda>v.
         Kernel_receipt ak req ta v ''DENIED'' (vd_reason v) None)
     else
       bind (Kernel_audit ak req ta ''request'' ''OBSERVED'' ''REQUEST_RECEIVED'' None) (\<lambda>ok.
       if \<not> ok then
         bind (Kernel_verdict ak req ta ''DENY'' ''AUDIT_FAILED'') (\<lambda>v.
           Kernel_receipt ak req ta v ''FAILED'' ''AUDIT_FAILED'' None)
       else
         bind (Kernel_evaluate_policy ak req ta) (\<lambda>verdict.
         bind (Kernel_audit ak req ta ''policy'' (vd_decision verdict) (vd_reason verdict) None) (\<lambda>ok.
         if \<not> ok then Kernel_receipt ak req ta verdict ''FAILED'' ''AUDIT_FAILED'' None
         else if vd_decision verdict \<noteq> ''ALLOW''
           then Kernel_receipt ak req ta verdict ''DENIED'' (vd_reason verdict) None
         else
           bind (Kernel_now ak) (Kernel_commit ak req ta verdict)))))"

end
