(* ===== verification/Kernel_Replay.thy ===== *)
theory Kernel_Replay
  imports Kernel_Model
begin

text \<open>
  Replay protection (src/src/cybercore/action_kernel_hive_bridge.py and
  src/src/cybercore/action_kernel_sqlite_replay.py): the contract \<open>replay_guard\<close> of a store of
  claims, the two stores that implement it, and the bounded guard of the process, which keeps
  claims until they expire.
\<close>

section \<open>The contract\<close>

text \<open>The keys granted by a sequence of claims.\<close>

fun granted_keys :: "(string \<Rightarrow> ('g, pyexn, bool) proc) \<Rightarrow> string list \<Rightarrow> 'g \<Rightarrow> string list" where
  "granted_keys claim [] g = []"
| "granted_keys claim (k # ks) g =
     (case claim k g of
        (Inr True, g') \<Rightarrow> k # granted_keys claim ks g'
      | (_, g') \<Rightarrow> granted_keys claim ks g')"

text \<open>
  \<open>ReplayGuard.claim_once\<close>: a claim that succeeds was not made before and is recorded, one that is
  refused was made before, and one that raises may or may not have been recorded. Nothing else
  changes the set of claims.
\<close>

locale replay_guard =
  fixes claim :: "string \<Rightarrow> ('g, pyexn, bool) proc"
    and claimed :: "'g \<Rightarrow> string set"
  assumes claim_new: "claim k g = (Inr True, g') \<Longrightarrow> k \<notin> claimed g \<and> claimed g' = insert k (claimed g)"
    and claim_old: "claim k g = (Inr False, g') \<Longrightarrow> k \<in> claimed g \<and> claimed g' = claimed g"
    and claim_error: "claim k g = (Inl e, g') \<Longrightarrow>
      claimed g' = claimed g \<or> claimed g' = insert k (claimed g)"
begin

lemma claimed_grows: "claimed g \<subseteq> claimed (snd (claim k g))"
proof -
  obtain r g' where x: "claim k g = (r, g')" by fastforce
  show ?thesis
  proof (cases r)
    case (Inl e)
    with x claim_error show ?thesis by fastforce
  next
    case (Inr b)
    with x claim_new claim_old show ?thesis by (cases b) fastforce+
  qed
qed

lemma granted_once: "distinct (granted_keys claim ks g) \<and> set (granted_keys claim ks g) \<inter> claimed g = {}"
proof (induction ks arbitrary: g)
  case Nil
  then show ?case by simp
next
  case (Cons k ks)
  obtain r g' where x: "claim k g = (r, g')" by fastforce
  have ih: "distinct (granted_keys claim ks g')" "set (granted_keys claim ks g') \<inter> claimed g' = {}"
    using Cons.IH by auto
  have grows: "claimed g \<subseteq> claimed g'" using claimed_grows [of g k] x by simp
  show ?case
  proof (cases "r = Inr True")
    case True
    with x claim_new have "k \<notin> claimed g" "claimed g' = insert k (claimed g)" by auto
    with True x ih show ?thesis by auto
  next
    case False
    then have "granted_keys claim (k # ks) g = granted_keys claim ks g'"
      using x by (cases r) (auto split: bool.splits)
    with ih grows show ?thesis by auto
  qed
qed

end

section \<open>InMemoryReplayGuard\<close>

definition InMemoryReplayGuard_init :: "string set" where
  "InMemoryReplayGuard_init = {}"

definition InMemoryReplayGuard_claim_once :: "string \<Rightarrow> (string set, pyexn, bool) proc" where
  "InMemoryReplayGuard_claim_once key =
     bind (gets id) (\<lambda>claimed.
       if key \<in> claimed then ret False
       else seq (modify (insert key)) (ret True))"

interpretation memory: replay_guard InMemoryReplayGuard_claim_once id
  by unfold_locales
    (auto simp: InMemoryReplayGuard_claim_once_def proc_defs split: if_splits)

section \<open>SQLiteReplayGuard\<close>

text \<open>
  The database is the table \<open>replay_claims\<close>, the list of its keys, and the rest of the storage. A
  storage operation is a parameter: it may raise, before the insertion (a locked or broken
  database) or after it (a failure reported although the claim is stored).
\<close>

record 'v replay_db =
  rd_claims :: "string list"
  rd_storage :: 'v

type_synonym 'v storage_proc = "('v, pyexn, unit) proc"

definition on_storage :: "'v storage_proc \<Rightarrow> ('v replay_db, pyexn, unit) proc" where
  "on_storage m = zoom rd_storage (\<lambda>v s. s\<lparr>rd_storage := v\<rparr>) m"

text \<open>Path of the database and timeout: \<open>None\<close> when the constructor accepts them.\<close>

definition SQLiteReplayGuard_init :: "string \<Rightarrow> bool \<Rightarrow> bool \<Rightarrow> pyexn option" where
  "SQLiteReplayGuard_init path absolute timeout_positive =
     (if path = '':memory:'' \<or> \<not> absolute
        then Some (ValueError ''Replay database must use an absolute file path'')
      else if \<not> timeout_positive then Some (ValueError ''Timeout must be positive'')
      else None)"

definition SQLiteReplayGuard_claim_once ::
  "'v storage_proc \<Rightarrow> 'v storage_proc \<Rightarrow> string \<Rightarrow> ('v replay_db, pyexn, bool) proc" where
  "SQLiteReplayGuard_claim_once open_db close_db key =
     (if key = [] \<or> 1024 < length key then raise (ValueError ''Invalid replay key'')
      else seq (on_storage open_db)
        (bind (gets rd_claims) (\<lambda>keys.
         seq (modify (\<lambda>s. if key \<in> set (rd_claims s) then s
                         else s\<lparr>rd_claims := rd_claims s @ [key]\<rparr>))
         (seq (on_storage close_db)
           (ret (key \<notin> set keys))))))"

lemma wp_on_storage [wp_simps]:
  "wp (on_storage m) Q E s =
     wp m (\<lambda>a v. Q a (s\<lparr>rd_storage := v\<rparr>)) (\<lambda>e v. E e (s\<lparr>rd_storage := v\<rparr>)) (rd_storage s)"
  by (simp add: on_storage_def wp_zoom)

lemma SQLite_claim_outcome:
  "wp (SQLiteReplayGuard_claim_once open_db close_db key)
     (\<lambda>new t. new = (key \<notin> set (rd_claims s)) \<and> set (rd_claims t) = insert key (set (rd_claims s)))
     (\<lambda>_ t. set (rd_claims t) = set (rd_claims s) \<or>
        set (rd_claims t) = insert key (set (rd_claims s))) s"
  by (auto simp: SQLiteReplayGuard_claim_once_def wp_simps intro!: wpI)

interpretation sqlite: replay_guard
  "SQLiteReplayGuard_claim_once (open_db :: 'v storage_proc) close_db" "\<lambda>d. set (rd_claims d)"
proof unfold_locales
  fix k and g g' :: "'v replay_db" and e
  show "SQLiteReplayGuard_claim_once open_db close_db k g = (Inr True, g') \<Longrightarrow>
      k \<notin> set (rd_claims g) \<and> set (rd_claims g') = insert k (set (rd_claims g))"
    by (drule wp_returned [OF SQLite_claim_outcome]) simp
  show "SQLiteReplayGuard_claim_once open_db close_db k g = (Inr False, g') \<Longrightarrow>
      k \<in> set (rd_claims g) \<and> set (rd_claims g') = set (rd_claims g)"
    by (drule wp_returned [OF SQLite_claim_outcome]) auto
  show "SQLiteReplayGuard_claim_once open_db close_db k g = (Inl e, g') \<Longrightarrow>
      set (rd_claims g') = set (rd_claims g) \<or> set (rd_claims g') = insert k (set (rd_claims g))"
    by (drule wp_raised [OF SQLite_claim_outcome]) simp
qed

section \<open>The guard of the process\<close>

text \<open>
  \<open>_ExpiringProcessReplayGuard\<close>: the dictionary of claims, with the instant each is valid until
  and its actor. Times are the instants of aware values: the bridge checks that before it calls.
\<close>

record ExpiringGuard =
  eg_max_entries :: int
  eg_max_per_actor :: int
  eg_claimed_until :: "(string \<times> int \<times> string) list"

definition ExpiringGuard_init :: "int \<Rightarrow> int option \<Rightarrow> pyexn + ExpiringGuard" where
  "ExpiringGuard_init max_entries max_per_actor =
     (if max_entries \<le> 0 then Inl (ValueError ''Replay cache capacity must be positive'')
      else if (case max_per_actor of None \<Rightarrow> False | Some n \<Rightarrow> n \<le> 0)
        then Inl (ValueError ''Per-actor replay capacity must be positive'')
      else Inr \<lparr>eg_max_entries = max_entries,
                eg_max_per_actor = (case max_per_actor of None \<Rightarrow> max_entries | Some n \<Rightarrow> n),
                eg_claimed_until = []\<rparr>)"

definition unexpired_claims :: "int \<Rightarrow> ExpiringGuard \<Rightarrow> (string \<times> int \<times> string) list" where
  "unexpired_claims now g = filter (\<lambda>(_, until, _). \<not> until \<le> now) (eg_claimed_until g)"

definition actor_claims :: "string \<Rightarrow> (string \<times> int \<times> string) list \<Rightarrow> nat" where
  "actor_claims actor claims = length (filter (\<lambda>(_, _, a). a = actor) claims)"

definition ExpiringGuard_claim_once ::
  "string \<Rightarrow> int \<Rightarrow> int \<Rightarrow> string \<Rightarrow> (ExpiringGuard, pyexn, bool) proc" where
  "ExpiringGuard_claim_once key expires_at now actor =
     seq (modify (\<lambda>g. g\<lparr>eg_claimed_until := unexpired_claims now g\<rparr>))
     (bind (gets id) (\<lambda>g.
      let claims = eg_claimed_until g in
      if key \<in> fst ` set claims then ret False
      else if expires_at \<le> now then ret True
      else if eg_max_entries g \<le> int (length claims)
        then raise (PermissionError ''Process replay guard capacity exhausted'')
      else if eg_max_per_actor g \<le> int (actor_claims actor claims)
        then raise (PermissionError ''Actor replay guard capacity exhausted'')
      else seq (modify (\<lambda>g. g\<lparr>eg_claimed_until := eg_claimed_until g @ [(key, expires_at, actor)]\<rparr>))
        (ret True)))"

definition guard_inv :: "ExpiringGuard \<Rightarrow> bool" where
  "guard_inv g \<longleftrightarrow>
     0 < eg_max_entries g \<and> 0 < eg_max_per_actor g \<and>
     distinct (map fst (eg_claimed_until g)) \<and>
     int (length (eg_claimed_until g)) \<le> eg_max_entries g \<and>
     (\<forall>actor. int (actor_claims actor (eg_claimed_until g)) \<le> eg_max_per_actor g)"

lemma guard_inv_init: "ExpiringGuard_init n m = Inr g \<Longrightarrow> guard_inv g"
  by (auto simp: ExpiringGuard_init_def guard_inv_def actor_claims_def split: if_splits option.splits)

lemma actor_claims_filter_le: "actor_claims a (filter P xs) \<le> actor_claims a xs"
  unfolding actor_claims_def by (induction xs) auto

lemma guard_inv_expire: "guard_inv g \<Longrightarrow> guard_inv (g\<lparr>eg_claimed_until := unexpired_claims now g\<rparr>)"
  unfolding guard_inv_def unexpired_claims_def
  by (auto simp: distinct_map_filter)
    (meson length_filter_le of_nat_mono order_trans actor_claims_filter_le)+

text \<open>What a claim does, on every branch.\<close>

lemma ExpiringGuard_outcome:
  "wp (ExpiringGuard_claim_once key expires_at now actor)
     (\<lambda>granted h.
        eg_max_entries h = eg_max_entries g \<and> eg_max_per_actor h = eg_max_per_actor g \<and>
        granted = (key \<notin> fst ` set (unexpired_claims now g)) \<and>
        eg_claimed_until h = unexpired_claims now g @
          (if granted \<and> now < expires_at then [(key, expires_at, actor)] else []))
     (\<lambda>e h. h = g\<lparr>eg_claimed_until := unexpired_claims now g\<rparr> \<and> now < expires_at \<and>
        (eg_max_entries g \<le> int (length (unexpired_claims now g)) \<or>
         eg_max_per_actor g \<le> int (actor_claims actor (unexpired_claims now g)))) g"
  by (auto simp: ExpiringGuard_claim_once_def wp_simps Let_def)

lemma guard_inv_claim:
  assumes "guard_inv g"
  shows "guard_inv (snd (ExpiringGuard_claim_once key expires_at now actor g))"
proof -
  have inv: "guard_inv (g\<lparr>eg_claimed_until := unexpired_claims now g\<rparr>)"
    using assms by (rule guard_inv_expire)
  have "wp (ExpiringGuard_claim_once key expires_at now actor) (\<lambda>_ h. guard_inv h) (\<lambda>_ h. guard_inv h) g"
    using inv
    by (auto simp: ExpiringGuard_claim_once_def wp_simps Let_def guard_inv_def actor_claims_def)
  then show ?thesis by (simp add: wp_post)
qed

section \<open>Sequences of claims\<close>

text \<open>One claim of the process guard: key, expiry, time of the call and actor.\<close>

type_synonym timed_claim = "string \<times> int \<times> int \<times> string"

fun guard_step :: "timed_claim \<Rightarrow> ExpiringGuard \<Rightarrow> ExpiringGuard" where
  "guard_step (key, expires_at, now, actor) g = snd (ExpiringGuard_claim_once key expires_at now actor g)"

definition before :: "int \<Rightarrow> timed_claim \<Rightarrow> bool" where
  "before deadline c \<longleftrightarrow> fst (snd (snd c)) < deadline"

lemma guard_inv_step: "guard_inv g \<Longrightarrow> guard_inv (guard_step c g)"
  by (cases c) (simp add: guard_inv_claim)

interpretation process: reactive guard_step "\<lambda>_. True" guard_inv
  by unfold_locales (rule guard_inv_step)

text \<open>A claim is kept as long as it has not expired.\<close>

definition holds :: "string \<Rightarrow> int \<Rightarrow> ExpiringGuard \<Rightarrow> bool" where
  "holds key deadline g \<longleftrightarrow> (\<exists>actor. (key, deadline, actor) \<in> set (eg_claimed_until g))"

lemma holds_step:
  assumes "before deadline c" and "holds key deadline g"
  shows "holds key deadline (guard_step c g)"
proof -
  obtain k e n a where c: "c = (k, e, n, a)" by (cases c) auto
  obtain actor where "(key, deadline, actor) \<in> set (unexpired_claims n g)"
    using assms c by (auto simp: holds_def before_def unexpired_claims_def)
  then have "wp (ExpiringGuard_claim_once k e n a) (\<lambda>_ h. holds key deadline h)
      (\<lambda>_ h. holds key deadline h) g"
    using wp_mono [OF ExpiringGuard_outcome] by (auto simp: holds_def intro!: wp_mono [OF ExpiringGuard_outcome])
  then show ?thesis by (simp add: c wp_post)
qed

interpretation kept: reactive guard_step "before deadline" "holds key deadline"
  by unfold_locales (rule holds_step)

section \<open>Properties\<close>

text \<open>The guard of the process is bounded: after any sequence of claims, at any times, it holds
  no more than its maximum of entries and of entries per actor, and no key twice.\<close>

theorem process_guard_is_bounded:
  assumes "ExpiringGuard_init max_entries max_per_actor = Inr g" and "h = fold guard_step cs g"
  shows "int (length (eg_claimed_until h)) \<le> max_entries \<and>
     (\<forall>actor. int (actor_claims actor (eg_claimed_until h)) \<le>
        (case max_per_actor of None \<Rightarrow> max_entries | Some n \<Rightarrow> n)) \<and>
     distinct (map fst (eg_claimed_until h))"
proof -
  have "eg_max_entries (guard_step c g) = eg_max_entries g \<and>
      eg_max_per_actor (guard_step c g) = eg_max_per_actor g" for c g
  proof -
    obtain k e n a where c: "c = (k, e, n, a)" by (cases c) auto
    have "wp (ExpiringGuard_claim_once k e n a)
        (\<lambda>_ h. eg_max_entries h = eg_max_entries g \<and> eg_max_per_actor h = eg_max_per_actor g)
        (\<lambda>_ h. eg_max_entries h = eg_max_entries g \<and> eg_max_per_actor h = eg_max_per_actor g) g"
      by (auto intro: wp_mono [OF ExpiringGuard_outcome])
    then show ?thesis by (simp add: c wp_post)
  qed
  then have "eg_max_entries (fold guard_step cs g) = eg_max_entries g \<and>
      eg_max_per_actor (fold guard_step cs g) = eg_max_per_actor g" for g
    by (induction cs arbitrary: g) auto
  moreover have "guard_inv h"
    unfolding assms(2) by (rule process.run_inv) (simp_all add: list_all_iff guard_inv_init [OF assms(1)])
  ultimately show ?thesis
    using assms by (auto simp: guard_inv_def ExpiringGuard_init_def split: if_splits)
qed

text \<open>A granted authorisation is consumed until it expires: whatever claims follow before its
  expiry, by any actor and with the guard full or not, the key is still held and claiming it again
  is refused.\<close>

theorem process_guard_refuses_replay:
  assumes "ExpiringGuard_claim_once key expires_at t actor g = (Inr True, h)" and "t < expires_at"
    and "list_all (before expires_at) cs" and "now < expires_at"
  shows "fst (ExpiringGuard_claim_once key expires_at' now actor' (fold guard_step cs h)) = Inr False"
proof -
  have "holds key expires_at h"
    using wp_returned [OF ExpiringGuard_outcome assms(1)] assms(2) by (auto simp: holds_def)
  then have "holds key expires_at (fold guard_step cs h)"
    by (rule kept.run_inv [OF assms(3)])
  then have "key \<in> fst ` set (unexpired_claims now (fold guard_step cs h))"
    using assms(4) by (force simp: holds_def unexpired_claims_def)
  then show ?thesis
    by (simp add: ExpiringGuard_claim_once_def proc_defs Let_def)
qed

text \<open>Durable claims: over any sequence of claims on the SQLite store, with storage failures
  before or after the insertion anywhere, no key is granted twice and no key that was stored before
  is granted.\<close>

theorem sqlite_guard_grants_once:
  "distinct (granted_keys (SQLiteReplayGuard_claim_once open_db close_db) ks d) \<and>
   set (granted_keys (SQLiteReplayGuard_claim_once open_db close_db) ks d) \<inter> set (rd_claims d) = {}"
  by (rule sqlite.granted_once)

lemma process_guard_is_bounded_witness:
  "\<exists>g. ExpiringGuard_init 2 (Some 1) = Inr g \<and>
     int (length (eg_claimed_until (fold guard_step [(''a'', 9, 1, ''x''), (''b'', 9, 2, ''x'')] g))) \<le> 2"
proof -
  obtain g where "ExpiringGuard_init 2 (Some 1) = Inr g" by (simp add: ExpiringGuard_init_def)
  with process_guard_is_bounded [OF this refl] show ?thesis by blast
qed

lemma process_guard_refuses_replay_witness:
  "fst (ExpiringGuard_claim_once ''a'' 99 5 ''y'' (fold guard_step [(''b'', 9, 3, ''x'')]
     \<lparr>eg_max_entries = 1, eg_max_per_actor = 1, eg_claimed_until = [(''a'', 9, ''x'')]\<rparr>)) = Inr False"
proof -
  have "ExpiringGuard_claim_once ''a'' 9 1 ''x''
      \<lparr>eg_max_entries = 1, eg_max_per_actor = 1, eg_claimed_until = []\<rparr> =
    (Inr True, \<lparr>eg_max_entries = 1, eg_max_per_actor = 1, eg_claimed_until = [(''a'', 9, ''x'')]\<rparr>)"
    by (simp add: ExpiringGuard_claim_once_def proc_defs Let_def unexpired_claims_def actor_claims_def)
  from process_guard_refuses_replay [OF this, of "[(''b'', 9, 3, ''x'')]" 5 99 "''y''"] show ?thesis
    by (simp add: before_def)
qed

end
