(* ===== verification/Kernel_Bridge.thy ===== *)
theory Kernel_Bridge
  imports Kernel_Replay
begin

text \<open>
  The dry-run bridge to CyberHIVE (src/src/cybercore/action_kernel_hive_bridge.py, with the wire
  shapes of src/src/cybercore/action_kernel_interop.py). The two clocks, the optional import, the
  durable replay guard and the dispatch of the registry are procedures on a world of their own. The
  monotonic clock is in microseconds, exact where Python's is a float. The guard of the process,
  module state in the code, is part of the state here.
\<close>

section \<open>Wire shapes\<close>

text \<open>The dictionary of \<open>to_hive_health_dry_run\<close>; the constant entries are written as they are there.\<close>

definition to_hive_health_dry_run :: "TaskRequest \<Rightarrow> string \<Rightarrow> pyexn + (string \<times> pyval) list" where
  "to_hive_health_dry_run req ta =
     (if ta = [] \<or> tr_actor req \<noteq> ta then Inl (ValueError ''actor mismatch'')
      else if tr_capability req \<noteq> ''diagnostics.synthetic_status.v1''
        then Inl (ValueError ''unsupported capability'')
      else if truthy (tr_arguments req) then Inl (ValueError ''arguments prohibited'')
      else if tr_target_id req = [] \<or> tr_task_id req = [] \<or> tr_correlation_id req = []
        then Inl (ValueError ''missing identifiers'')
      else Inr
       [(''id'', PStr (tr_task_id req)), (''target_node'', PStr (tr_target_id req)),
        (''action'', PStr ''health_check''), (''payload'', PDict []), (''dry_run'', PBool True),
        (''approval_tokens'', PList []), (''requested_by'', PStr ta),
        (''correlation_id'', PStr (tr_correlation_id req)),
        (''created_at'', PStr (isoformat (tr_requested_at req)))])"

definition nexus_status :: "string \<Rightarrow> string option" where
  "nexus_status = map_of [(''EXECUTED'', ''completed''), (''DENIED'', ''rejected''), (''FAILED'', ''failed'')]"

definition opt_str :: "string option \<Rightarrow> pyval" where
  "opt_str x = (case x of None \<Rightarrow> PNone | Some s \<Rightarrow> PStr s)"

definition to_nexus_action_result :: "ExecutionReceipt \<Rightarrow> pyexn + (string \<times> pyval) list" where
  "to_nexus_action_result r =
     (case nexus_status (er_status r) of
        None \<Rightarrow> Inl (ValueError ''unsupported execution status'')
      | Some status \<Rightarrow> Inr
         [(''contract'', PStr ''action/v1''), (''kind'', PStr ''result''),
          (''actionId'', PStr (er_task_id r)), (''idempotencyKey'', PStr (er_correlation_id r)),
          (''status'', PStr status),
          (''startedAt'', PStr (isoformat (vd_evaluated_at (er_policy r)))),
          (''completedAt'', PStr (isoformat (er_completed_at r))),
          (''providerReceipt'',
             if status = ''completed'' then
               PDict [(''capability'', PStr (er_capability r)), (''targetId'', PStr (er_target_id r)),
                      (''reason'', PStr (er_reason r)),
                      (''evidenceSha256'', opt_str (evidence_sha256 r))]
             else PNone),
          (''error'',
             if status = ''completed'' then PNone
             else PDict [(''code'', PStr (er_reason r)), (''message'', PStr (er_reason r))])])"

section \<open>The environment\<close>

record HiveRequest =
  hq_id :: string
  hq_target_node :: string
  hq_action :: string
  hq_payload :: pyval
  hq_dry_run :: bool
  hq_approval_tokens :: "string list"
  hq_requested_by :: string
  hq_correlation_id :: string
  hq_created_at :: datetime

text \<open>The result of a dispatch; the correlation id may be absent, \<open>None\<close>, or a string.\<close>

record HiveResult =
  hr_request_id :: string
  hr_target_node :: string
  hr_action :: string
  hr_status :: string
  hr_correlation :: "string option option"

record HiveDryRunReceipt =
  hd_request_id :: string
  hd_correlation_id :: string
  hd_target_id :: string
  hd_status :: string
  hd_reason :: string

record 'w hive_env =
  he_utc :: "('w, pyexn, int) proc"
  he_mono :: "('w, pyexn, int) proc"
  he_import :: "('w, pyexn, unit) proc"
  he_guard :: "(string \<Rightarrow> ('w, pyexn, bool) proc) option"
  he_dispatch :: "HiveRequest \<Rightarrow> ('w, pyexn, HiveResult) proc"

record 'w bridge_state =
  bs_process :: ExpiringGuard
  bs_world :: 'w

type_synonym ('w, 'a) bridge_proc = "('w bridge_state, pyexn, 'a) proc"

definition outside :: "('w, pyexn, 'a) proc \<Rightarrow> ('w, 'a) bridge_proc" where
  "outside m = zoom bs_world (\<lambda>w s. s\<lparr>bs_world := w\<rparr>) m"

definition on_process :: "(ExpiringGuard, pyexn, 'a) proc \<Rightarrow> ('w, 'a) bridge_proc" where
  "on_process m = zoom bs_process (\<lambda>g s. s\<lparr>bs_process := g\<rparr>) m"

lemma wp_outside [wp_simps]:
  "wp (outside m) Q E s =
     wp m (\<lambda>a w. Q a (s\<lparr>bs_world := w\<rparr>)) (\<lambda>e w. E e (s\<lparr>bs_world := w\<rparr>)) (bs_world s)"
  by (simp add: outside_def wp_zoom)

lemma wp_on_process [wp_simps]:
  "wp (on_process m) Q E s =
     wp m (\<lambda>a g. Q a (s\<lparr>bs_process := g\<rparr>)) (\<lambda>e g. E e (s\<lparr>bs_process := g\<rparr>)) (bs_process s)"
  by (simp add: on_process_def wp_zoom)

section \<open>The bridge\<close>

definition PROCESS_REPLAY_GUARD :: ExpiringGuard where
  "PROCESS_REPLAY_GUARD = projr (ExpiringGuard_init 4096 (Some 128))"

definition MAX_AUTHORIZATION_LIFETIME :: int where
  "MAX_AUTHORIZATION_LIFETIME = minutes 5"

definition assert_not_expired :: "'w hive_env \<Rightarrow> TaskRequest \<Rightarrow> ('w, int) bridge_proc" where
  "assert_not_expired env task =
     bind (outside (he_utc env)) (\<lambda>t.
     if \<not> aware (tr_expires_at task) \<or> instant (tr_expires_at task) \<le> t
       then raise (PermissionError ''Task authorization expired'')
     else ret t)"

definition bridge_claim_once ::
  "'w hive_env \<Rightarrow> (string \<Rightarrow> ('w, pyexn, bool) proc) \<Rightarrow> string \<Rightarrow> int \<Rightarrow> string \<Rightarrow> ('w, unit) bridge_proc" where
  "bridge_claim_once env guard key expires_at actor =
     bind (outside (he_utc env)) (\<lambda>t.
     bind (on_process (ExpiringGuard_claim_once key expires_at t actor)) (\<lambda>local.
     if \<not> local then raise (PermissionError ''Authorization already consumed'')
     else bind (handle (outside (guard key))
                  (\<lambda>_. Some (raise (PermissionError ''Replay guard unavailable'')))) (\<lambda>durable.
       if \<not> durable then raise (PermissionError ''Authorization already consumed'')
       else ret ())))"

text \<open>The checks of the receipt, up to the lifetime of the authorisation.\<close>

definition receipt_mismatch :: "TaskRequest \<Rightarrow> string \<Rightarrow> ExecutionReceipt \<Rightarrow> bool" where
  "receipt_mismatch task ta r \<longleftrightarrow>
     er_task_id r \<noteq> tr_task_id task \<or> er_correlation_id r \<noteq> tr_correlation_id task \<or>
     er_actor r \<noteq> ta \<or> er_capability r \<noteq> tr_capability task \<or> er_target_id r \<noteq> tr_target_id task"

definition lifetime_exceeded :: "TaskRequest \<Rightarrow> ExecutionReceipt \<Rightarrow> pyexn + bool" where
  "lifetime_exceeded task r =
     (if \<not> aware (tr_requested_at task) \<or> \<not> aware (er_completed_at r) then Inr True
      else case dt_le (tr_expires_at task) (tr_requested_at task) of
        Inl e \<Rightarrow> Inl e
      | Inr True \<Rightarrow> Inr True
      | Inr False \<Rightarrow>
          Inr (\<not> instant (tr_requested_at task) \<le> instant (er_completed_at r) \<or>
               MAX_AUTHORIZATION_LIFETIME < instant (tr_expires_at task) - instant (er_completed_at r)))"

definition check_receipt :: "TaskRequest \<Rightarrow> string \<Rightarrow> ExecutionReceipt \<Rightarrow> pyexn + unit" where
  "check_receipt task ta r =
     (if er_status r \<noteq> ''EXECUTED'' \<or> vd_decision (er_policy r) \<noteq> ''ALLOW''
        then Inl (PermissionError ''Action Kernel policy did not allow task'')
      else if receipt_mismatch task ta r
        then Inl (PermissionError ''Task and authorization receipt do not match'')
      else if (case er_authorization_expires_at r of
                 None \<Rightarrow> True | Some e \<Rightarrow> \<not> dt_equal e (tr_expires_at task))
        then Inl (PermissionError ''Task and authorization expiry do not match'')
      else case lifetime_exceeded task r of
        Inl e \<Rightarrow> Inl e
      | Inr True \<Rightarrow> Inl (PermissionError ''Task authorization lifetime exceeds policy'')
      | Inr False \<Rightarrow> Inr ())"

definition hive_request :: "TaskRequest \<Rightarrow> string \<Rightarrow> HiveRequest" where
  "hive_request task ta =
     \<lparr>hq_id = tr_task_id task, hq_target_node = tr_target_id task, hq_action = ''health_check'',
      hq_payload = PDict [], hq_dry_run = True, hq_approval_tokens = [], hq_requested_by = ta,
      hq_correlation_id = tr_correlation_id task, hq_created_at = tr_requested_at task\<rparr>"

definition claim_key :: "string \<Rightarrow> TaskRequest \<Rightarrow> string" where
  "claim_key ta task = ta @ '':'' @ tr_task_id task @ '':'' @ tr_correlation_id task"

text \<open>A test of the remaining budget against the monotonic clock.\<close>

definition check_budget :: "'w hive_env \<Rightarrow> int \<Rightarrow> int \<Rightarrow> string \<Rightarrow> ('w, unit) bridge_proc" where
  "check_budget env started remaining msg =
     bind (outside (he_mono env)) (\<lambda>m.
     if remaining \<le> m - started then raise (PermissionError msg) else ret ())"

definition accept_result :: "TaskRequest \<Rightarrow> HiveResult \<Rightarrow> pyexn + HiveDryRunReceipt" where
  "accept_result task result =
     (if hr_request_id result \<noteq> tr_task_id task \<or> hr_target_node result \<noteq> tr_target_id task \<or>
         hr_action result \<noteq> ''health_check'' \<or> hr_status result \<noteq> ''dry_run''
        then Inl (RuntimeError ''Unexpected or non-dry-run CyberHIVE result'')
      else if hr_correlation result \<noteq> None \<and> hr_correlation result \<noteq> Some (Some (tr_correlation_id task))
        then Inl (RuntimeError ''CyberHIVE result correlation does not match task'')
      else Inr \<lparr>hd_request_id = hr_request_id result, hd_correlation_id = tr_correlation_id task,
                hd_target_id = hr_target_node result, hd_status = ''dry_run'',
                hd_reason = ''HIVE_DRY_RUN_ONLY''\<rparr>)"

text \<open>From the claim on: the claim, the dispatch, and the checks of what it returned.\<close>

definition bridge_dispatch ::
  "'w hive_env \<Rightarrow> (string \<Rightarrow> ('w, pyexn, bool) proc) \<Rightarrow> TaskRequest \<Rightarrow> string \<Rightarrow> int \<Rightarrow> int \<Rightarrow>
   ('w, HiveDryRunReceipt) bridge_proc" where
  "bridge_dispatch env guard task ta started remaining =
     seq (bridge_claim_once env guard (claim_key ta task) (instant (tr_expires_at task)) ta)
     (seq (assert_not_expired env task)
     (seq (check_budget env started remaining ''Task authorization expired during replay claim'')
     (bind (outside (he_dispatch env (hive_request task ta))) (\<lambda>result.
      seq (assert_not_expired env task)
      (seq (check_budget env started remaining ''Task authorization expired during dispatch'')
        (lift (accept_result task result)))))))"

definition run_local_hive_dry_run ::
  "'w hive_env \<Rightarrow> TaskRequest \<Rightarrow> string \<Rightarrow> ExecutionReceipt \<Rightarrow> ('w, HiveDryRunReceipt) bridge_proc" where
  "run_local_hive_dry_run env task ta r =
     seq (lift (check_receipt task ta r))
     (bind (outside (he_mono env)) (\<lambda>sampling_started.
      bind (assert_not_expired env task) (\<lambda>utc_before.
      bind (outside (he_mono env)) (\<lambda>started.
      bind (assert_not_expired env task) (\<lambda>utc_after.
      let remaining = instant (tr_expires_at task) - max utc_before utc_after -
                      (started - sampling_started) in
      if remaining \<le> 0 then raise (PermissionError ''Task authorization expired before dispatch'')
      else case he_guard env of
        None \<Rightarrow> raise (PermissionError ''Atomic replay guard required'')
      | Some guard \<Rightarrow>
          seq (lift (to_hive_health_dry_run task ta))
          (seq (outside (he_import env))
          (seq (assert_not_expired env task)
          (seq (check_budget env started remaining ''Task authorization expired before replay claim'')
            (bridge_dispatch env guard task ta started remaining)))))))))"

end
