(* ===== verification/Kernel_Bridge_Safety.thy ===== *)
theory Kernel_Bridge_Safety
  imports Kernel_Bridge
begin

text \<open>
  What the bridge may dispatch. Dispatches are observed by adding to the world the list of the
  requests given to the registry (\<open>logged_env\<close>). The durable guard is any store with the contract
  \<open>replay_guard\<close>, and the other procedures of the environment must not remove claims from it.
\<close>

section \<open>Observing dispatches\<close>

type_synonym 'w logged = "'w \<times> HiveRequest list"

definition unlogged :: "('w, pyexn, 'a) proc \<Rightarrow> ('w logged, pyexn, 'a) proc" where
  "unlogged m = zoom fst (\<lambda>w p. (w, snd p)) m"

definition logged_env :: "'w hive_env \<Rightarrow> 'w logged hive_env" where
  "logged_env env =
     \<lparr>he_utc = unlogged (he_utc env), he_mono = unlogged (he_mono env),
      he_import = unlogged (he_import env),
      he_guard = map_option (\<lambda>guard key. unlogged (guard key)) (he_guard env),
      he_dispatch = (\<lambda>q. seq (modify (\<lambda>p. (fst p, snd p @ [q]))) (unlogged (he_dispatch env q)))\<rparr>"

definition dispatch_log :: "'w logged bridge_state \<Rightarrow> HiveRequest list" where
  "dispatch_log s = snd (bs_world s)"

definition request_key :: "HiveRequest \<Rightarrow> string" where
  "request_key q = hq_requested_by q @ '':'' @ hq_id q @ '':'' @ hq_correlation_id q"

lemma request_key_hive_request [simp]: "request_key (hive_request task ta) = claim_key ta task"
  by (simp add: request_key_def hive_request_def claim_key_def)

text \<open>A procedure that removes no claim.\<close>

definition keeps_claims :: "('w \<Rightarrow> string set) \<Rightarrow> ('w, pyexn, 'a) proc \<Rightarrow> bool" where
  "keeps_claims claimed m \<longleftrightarrow> (\<forall>w. claimed w \<subseteq> claimed (snd (m w)))"

text \<open>The contract of an environment for a store of claims.\<close>

definition sound_env :: "('w \<Rightarrow> string set) \<Rightarrow> 'w hive_env \<Rightarrow> bool" where
  "sound_env claimed env \<longleftrightarrow>
     keeps_claims claimed (he_utc env) \<and> keeps_claims claimed (he_mono env) \<and>
     keeps_claims claimed (he_import env) \<and> (\<forall>q. keeps_claims claimed (he_dispatch env q)) \<and>
     (\<forall>guard. he_guard env = Some guard \<longrightarrow> replay_guard guard claimed)"

section \<open>The phases of a call\<close>

definition idle :: "('w \<Rightarrow> string set) \<Rightarrow> 'w logged bridge_state \<Rightarrow> 'w logged bridge_state \<Rightarrow> bool" where
  "idle claimed s t \<longleftrightarrow>
     dispatch_log t = dispatch_log s \<and> claimed (fst (bs_world s)) \<subseteq> claimed (fst (bs_world t))"

definition held :: "('w \<Rightarrow> string set) \<Rightarrow> string \<Rightarrow> HiveRequest list \<Rightarrow> 'w logged bridge_state \<Rightarrow>
    'w logged bridge_state \<Rightarrow> bool" where
  "held claimed k sent s t \<longleftrightarrow>
     dispatch_log t = dispatch_log s @ sent \<and> k \<notin> claimed (fst (bs_world s)) \<and>
     insert k (claimed (fst (bs_world s))) \<subseteq> claimed (fst (bs_world t))"

lemma idle_refl: "idle claimed s s"
  by (simp add: idle_def)

lemma wp_unlogged:
  assumes "keeps_claims claimed m"
    and "\<And>a w. claimed (fst (bs_world s)) \<subseteq> claimed w \<Longrightarrow> Q a (s\<lparr>bs_world := (w, dispatch_log s)\<rparr>)"
    and "\<And>e w. claimed (fst (bs_world s)) \<subseteq> claimed w \<Longrightarrow> E e (s\<lparr>bs_world := (w, dispatch_log s)\<rparr>)"
  shows "wp (outside (unlogged m)) Q E s"
  unfolding wp_outside unlogged_def wp_zoom
proof (rule wpI)
  fix r and w :: 'a
  assume "m (fst (bs_world s)) = (Inr r, w)"
  with assms(1) have "claimed (fst (bs_world s)) \<subseteq> claimed w"
    unfolding keeps_claims_def by (metis snd_conv)
  then show "Q r (s\<lparr>bs_world := (w, snd (bs_world s))\<rparr>)" using assms(2) by (simp add: dispatch_log_def)
next
  fix e and w :: 'a
  assume "m (fst (bs_world s)) = (Inl e, w)"
  with assms(1) have "claimed (fst (bs_world s)) \<subseteq> claimed w"
    unfolding keeps_claims_def by (metis snd_conv)
  then show "E e (s\<lparr>bs_world := (w, snd (bs_world s))\<rparr>)" using assms(3) by (simp add: dispatch_log_def)
qed

lemma wp_quiet_idle:
  assumes "keeps_claims claimed m" and "idle claimed s0 s"
    and "\<And>a t. idle claimed s0 t \<Longrightarrow> Q a t" and "\<And>e t. idle claimed s0 t \<Longrightarrow> E e t"
  shows "wp (outside (unlogged m)) Q E s"
  by (rule wp_unlogged [OF assms(1)])
    (use assms(2) in \<open>auto simp: idle_def dispatch_log_def intro!: assms(3,4)\<close>)

lemma held_stable:
  "held claimed k sent s0 s \<Longrightarrow> claimed (fst (bs_world s)) \<subseteq> claimed w \<Longrightarrow>
     held claimed k sent s0 (s\<lparr>bs_world := (w, dispatch_log s)\<rparr>)"
  by (simp add: held_def dispatch_log_def) blast

lemma wp_quiet_held:
  assumes "keeps_claims claimed m" and "held claimed k sent s0 s"
    and "\<And>a t. held claimed k sent s0 t \<Longrightarrow> Q a t" and "\<And>e t. held claimed k sent s0 t \<Longrightarrow> E e t"
  shows "wp (outside (unlogged m)) Q E s"
  by (rule wp_unlogged [OF assms(1)]) (auto intro!: assms(3,4) held_stable [OF assms(2)])

lemma wp_process_idle:
  assumes "idle claimed s0 s"
    and "\<And>a t. idle claimed s0 t \<Longrightarrow> Q a t" and "\<And>e t. idle claimed s0 t \<Longrightarrow> E e t"
  shows "wp (on_process m) Q E s"
  unfolding wp_on_process
  by (rule wpI) (use assms(1) in \<open>auto simp: idle_def dispatch_log_def intro!: assms(2,3)\<close>)

lemma wp_guard:
  assumes guard: "replay_guard guard claimed" and "idle claimed s0 s"
    and "\<And>t. held claimed k [] s0 t \<Longrightarrow> Q True t" and "\<And>t. idle claimed s0 t \<Longrightarrow> Q False t"
    and "\<And>e t. idle claimed s0 t \<Longrightarrow> E e t"
  shows "wp (outside (unlogged (guard k))) Q E s"
  unfolding wp_outside unlogged_def wp_zoom
proof (rule wpI)
  fix r and w :: 'a
  assume x: "guard k (fst (bs_world s)) = (Inr r, w)"
  show "Q r (s\<lparr>bs_world := (w, snd (bs_world s))\<rparr>)"
  proof (cases r)
    case True
    with x have "guard k (fst (bs_world s)) = (Inr True, w)" by simp
    from replay_guard.claim_new [OF guard this] assms(2)
    have "held claimed k [] s0 (s\<lparr>bs_world := (w, snd (bs_world s))\<rparr>)"
      by (auto simp: held_def idle_def dispatch_log_def)
    with True show ?thesis by (simp add: assms(3))
  next
    case False
    with x have "guard k (fst (bs_world s)) = (Inr False, w)" by simp
    from replay_guard.claim_old [OF guard this] assms(2)
    have "idle claimed s0 (s\<lparr>bs_world := (w, snd (bs_world s))\<rparr>)"
      by (simp add: idle_def dispatch_log_def)
    with False show ?thesis by (simp add: assms(4))
  qed
next
  fix e and w :: 'a
  assume "guard k (fst (bs_world s)) = (Inl e, w)"
  with replay_guard.claim_error [OF guard, of k] have "claimed (fst (bs_world s)) \<subseteq> claimed w" by blast
  with assms(2) show "E e (s\<lparr>bs_world := (w, snd (bs_world s))\<rparr>)"
    by (auto simp: idle_def dispatch_log_def intro!: assms(5))
qed

lemma wp_dispatch_logged:
  assumes "keeps_claims claimed (he_dispatch env q)" and "held claimed k [] s0 s"
    and "\<And>a t. held claimed k [q] s0 t \<Longrightarrow> Q a t" and "\<And>e t. held claimed k [q] s0 t \<Longrightarrow> E e t"
  shows "wp (outside (he_dispatch (logged_env env) q)) Q E s"
proof -
  have "held claimed k [q] s0 (s\<lparr>bs_world := (fst (bs_world s), snd (bs_world s) @ [q])\<rparr>)"
    using assms(2) by (simp add: held_def dispatch_log_def)
  from wp_quiet_held [OF assms(1) this, of Q E] assms(3,4) show ?thesis
    by (simp add: logged_env_def wp_outside wp_seq wp_modify unlogged_def wp_zoom)
qed

section \<open>Every outcome of a call\<close>

definition bridge_sent ::
  "('w \<Rightarrow> string set) \<Rightarrow> TaskRequest \<Rightarrow> string \<Rightarrow> ExecutionReceipt \<Rightarrow> 'w logged bridge_state \<Rightarrow>
   'w logged bridge_state \<Rightarrow> bool" where
  "bridge_sent claimed task ta r s t \<longleftrightarrow>
     held claimed (claim_key ta task) [hive_request task ta] s t \<and>
     check_receipt task ta r = Inr () \<and>
     (\<exists>shaped. to_hive_health_dry_run task ta = Inr shaped)"

lemma sound_logged_env:
  assumes "sound_env claimed env"
  shows "he_utc (logged_env env) = unlogged (he_utc env)" "keeps_claims claimed (he_utc env)"
    "he_mono (logged_env env) = unlogged (he_mono env)" "keeps_claims claimed (he_mono env)"
    "he_import (logged_env env) = unlogged (he_import env)" "keeps_claims claimed (he_import env)"
    "keeps_claims claimed (he_dispatch env q)"
    "he_guard env = Some guard \<Longrightarrow> replay_guard guard claimed"
  using assms by (auto simp: sound_env_def logged_env_def)

lemma wp_not_expired_idle:
  assumes "sound_env claimed env" and "idle claimed s0 s"
    and "\<And>u t. idle claimed s0 t \<Longrightarrow> Q u t" and "\<And>e t. idle claimed s0 t \<Longrightarrow> E e t"
  shows "wp (assert_not_expired (logged_env env) task) Q E s"
  unfolding assert_not_expired_def wp_bind wp_if wp_raise wp_ret sound_logged_env [OF assms(1)]
  by (rule wp_quiet_idle [OF sound_logged_env(2) [OF assms(1)] assms(2)])
    (auto intro: assms(3,4))

lemma wp_not_expired_held:
  assumes "sound_env claimed env" and "held claimed k sent s0 s"
    and "\<And>u t. held claimed k sent s0 t \<Longrightarrow> Q u t" and "\<And>e t. held claimed k sent s0 t \<Longrightarrow> E e t"
  shows "wp (assert_not_expired (logged_env env) task) Q E s"
  unfolding assert_not_expired_def wp_bind wp_if wp_raise wp_ret sound_logged_env [OF assms(1)]
  by (rule wp_quiet_held [OF sound_logged_env(2) [OF assms(1)] assms(2)])
    (auto intro: assms(3,4))

lemma wp_budget_idle:
  assumes "sound_env claimed env" and "idle claimed s0 s"
    and "\<And>u t. idle claimed s0 t \<Longrightarrow> Q u t" and "\<And>e t. idle claimed s0 t \<Longrightarrow> E e t"
  shows "wp (check_budget (logged_env env) started remaining msg) Q E s"
  unfolding check_budget_def wp_bind wp_if wp_raise wp_ret sound_logged_env [OF assms(1)]
  by (rule wp_quiet_idle [OF sound_logged_env(4) [OF assms(1)] assms(2)])
    (auto intro: assms(3,4))

lemma wp_budget_held:
  assumes "sound_env claimed env" and "held claimed k sent s0 s"
    and "\<And>u t. held claimed k sent s0 t \<Longrightarrow> Q u t" and "\<And>e t. held claimed k sent s0 t \<Longrightarrow> E e t"
  shows "wp (check_budget (logged_env env) started remaining msg) Q E s"
  unfolding check_budget_def wp_bind wp_if wp_raise wp_ret sound_logged_env [OF assms(1)]
  by (rule wp_quiet_held [OF sound_logged_env(4) [OF assms(1)] assms(2)])
    (auto intro: assms(3,4))

lemma wp_claim:
  assumes "sound_env claimed env" and "he_guard env = Some guard" and "idle claimed s0 s"
    and "\<And>t. held claimed key [] s0 t \<Longrightarrow> Q () t" and "\<And>e t. idle claimed s0 t \<Longrightarrow> E e t"
    and "\<And>e t. held claimed key [] s0 t \<Longrightarrow> E e t"
  shows "wp (bridge_claim_once (logged_env env) (\<lambda>key. unlogged (guard key)) key expires_at actor) Q E s"
  unfolding bridge_claim_once_def wp_bind wp_if wp_raise wp_handle wp_ret sound_logged_env [OF assms(1)]
  apply (rule wp_quiet_idle [OF sound_logged_env(2) [OF assms(1)] assms(3)])
   apply (rule wp_process_idle, assumption)
    apply (rule if_split [THEN iffD2], intro conjI impI, erule assms(5))
    apply (rule wp_guard [OF sound_logged_env(8) [OF assms(1,2)]], assumption)
      apply (auto simp: wp_raise wp_ret intro: assms(4-6))
  done

lemma wp_bridge_dispatch:
  assumes env: "sound_env claimed env" and guard: "he_guard env = Some guard" and "idle claimed s0 s"
    and check: "check_receipt task ta r = Inr ()" and "to_hive_health_dry_run task ta = Inr shaped"
  shows "wp (bridge_dispatch (logged_env env) (\<lambda>key. unlogged (guard key)) task ta started remaining)
     (\<lambda>_ t. bridge_sent claimed task ta r s0 t)
     (\<lambda>_ t. idle claimed s0 t \<or> held claimed (claim_key ta task) [] s0 t \<or>
        bridge_sent claimed task ta r s0 t) s"
  unfolding bridge_dispatch_def wp_seq wp_bind wp_lift
  apply (rule wp_claim [OF env guard assms(3)])
    apply (rule wp_not_expired_held [OF env], assumption)
     apply (rule wp_budget_held [OF env], assumption)
      apply (rule wp_dispatch_logged [OF sound_logged_env(7) [OF env]], assumption)
       apply (rule wp_not_expired_held [OF env], assumption)
        apply (rule wp_budget_held [OF env], assumption)
         apply (use assms(4,5) in \<open>auto simp: bridge_sent_def split: sum.splits\<close>)
  done

theorem bridge_outcome:
  assumes env: "sound_env claimed env"
  shows "wp (run_local_hive_dry_run (logged_env env) task ta r)
     (\<lambda>_ t. bridge_sent claimed task ta r s t)
     (\<lambda>_ t. idle claimed s t \<or> held claimed (claim_key ta task) [] s t \<or>
        bridge_sent claimed task ta r s t) s"
proof (cases "check_receipt task ta r")
  case (Inl e)
  then show ?thesis by (simp add: run_local_hive_dry_run_def wp_simps idle_refl)
next
  case (Inr x)
  then have check: "check_receipt task ta r = Inr ()" by simp
  let ?late = "\<lambda>started remaining. case he_guard (logged_env env) of
        None \<Rightarrow> raise (PermissionError ''Atomic replay guard required'')
      | Some guard \<Rightarrow>
          seq (lift (to_hive_health_dry_run task ta))
          (seq (outside (he_import (logged_env env)))
          (seq (assert_not_expired (logged_env env) task)
          (seq (check_budget (logged_env env) started remaining ''Task authorization expired before replay claim'')
            (bridge_dispatch (logged_env env) guard task ta started remaining))))"
  have late: "wp (?late started remaining) (\<lambda>_ t. bridge_sent claimed task ta r s t)
     (\<lambda>_ t. idle claimed s t \<or> held claimed (claim_key ta task) [] s t \<or>
        bridge_sent claimed task ta r s t) s'"
    if "idle claimed s s'" for s' started remaining
  proof (cases "he_guard env")
    case None
    with that show ?thesis by (simp add: logged_env_def wp_raise)
  next
    case (Some guard)
    show ?thesis
    proof (cases "to_hive_health_dry_run task ta")
      case (Inl e)
      with Some that show ?thesis by (simp add: logged_env_def wp_seq wp_lift)
    next
      case (Inr shaped)
      have g: "he_guard (logged_env env) = Some (\<lambda>key. unlogged (guard key))"
        using Some by (simp add: logged_env_def)
      show ?thesis
        unfolding g option.case wp_seq wp_lift Inr sum.case sound_logged_env(5) [OF env]
        apply (rule wp_quiet_idle [OF sound_logged_env(6) [OF env] that])
         apply (rule wp_not_expired_idle [OF env], assumption)
          apply (rule wp_budget_idle [OF env], assumption)
           apply (rule wp_bridge_dispatch [OF env Some _ check Inr], assumption)
          apply simp_all
        done
    qed
  qed
  show ?thesis
    unfolding run_local_hive_dry_run_def check Let_def wp_seq [of "lift _"] wp_lift sum.case
      wp_bind wp_if wp_raise sound_logged_env(3) [OF env]
    apply (rule wp_quiet_idle [OF sound_logged_env(4) [OF env] idle_refl])
     apply (rule wp_not_expired_idle [OF env], assumption)
      apply (rule wp_quiet_idle [OF sound_logged_env(4) [OF env]], assumption)
       apply (rule wp_not_expired_idle [OF env], assumption)
        apply (rule if_split [THEN iffD2], intro conjI impI, simp, rule late, assumption)
       apply simp_all
    done
qed

end
