(* ===== verification/Kernel_Execution.thy ===== *)
theory Kernel_Execution
  imports Kernel_Model
begin

text \<open>
  What \<open>execute\<close> does, on every branch. \<open>audited es w w'\<close> says that the kernel led the world from
  \<open>w\<close> to \<open>w'\<close> by reading the clock and calling the sink, and that exactly the events \<open>es\<close> were
  accepted. \<open>execute_outcome\<close> describes every receipt and every exception; the theorems of the
  kernel follow from it. The locale \<open>audit_sink\<close> is the contract of an evidence sink.
\<close>

section \<open>Audited worlds\<close>

inductive audited :: "'w ActionKernel \<Rightarrow> AuditEvent list \<Rightarrow> 'w \<Rightarrow> 'w \<Rightarrow> bool" for ak where
  start: "audited ak [] w w"
| clock: "audited ak es w w1 \<Longrightarrow> ak_clock ak w1 = (r, w2) \<Longrightarrow> audited ak es w w2"
| accept: "audited ak es w w1 \<Longrightarrow> ak_sink ak = Some sink \<Longrightarrow> sink e w1 = (Inr (), w2) \<Longrightarrow>
    audited ak (es @ [e]) w w2"
| reject: "audited ak es w w1 \<Longrightarrow> ak_sink ak = Some sink \<Longrightarrow> sink e w1 = (Inl x, w2) \<Longrightarrow>
    audited ak es w w2"

lemma kernel_state_eta [simp]:
  "(s :: 'w kernel_state)\<lparr>ks_world := w\<rparr> = \<lparr>ks_used = ks_used s, ks_world = w\<rparr>"
  by (cases s) simp

lemma wp_now:
  assumes "audited ak es w0 w"
    and "\<And>t w'. audited ak es w0 w' \<Longrightarrow> ak_clock ak w = (Inr t, w') \<Longrightarrow>
           Q t \<lparr>ks_used = u, ks_world = w'\<rparr>"
    and "\<And>e w'. audited ak es w0 w' \<Longrightarrow> E e \<lparr>ks_used = u, ks_world = w'\<rparr>"
  shows "wp (Kernel_now ak) Q E \<lparr>ks_used = u, ks_world = w\<rparr>"
  unfolding Kernel_now_def wp_on_world
  by (rule wpI) (auto intro: assms audited.clock)

lemma wp_audit:
  assumes "audited ak es w0 w" and "ak_sink ak \<noteq> None"
    and "\<And>t w'. audited ak (es @ [make_event ak req ta stage outcome reason sha t]) w0 w' \<Longrightarrow>
           Q True \<lparr>ks_used = u, ks_world = w'\<rparr>"
    and "\<And>w'. audited ak es w0 w' \<Longrightarrow> Q False \<lparr>ks_used = u, ks_world = w'\<rparr>"
    and "\<And>e w'. audited ak es w0 w' \<Longrightarrow> E e \<lparr>ks_used = u, ks_world = w'\<rparr>"
  shows "wp (Kernel_audit ak req ta stage outcome reason sha) Q E \<lparr>ks_used = u, ks_world = w\<rparr>"
proof -
  obtain sink where sink: "ak_sink ak = Some sink" using assms(2) by blast
  have "wp (on_world (sink (make_event ak req ta stage outcome reason sha t)))
          (\<lambda>_. Q True) (\<lambda>_. Q False) \<lparr>ks_used = u, ks_world = w'\<rparr>"
    if "audited ak es w0 w'" for t w'
    unfolding wp_on_world
    by (rule wpI) (auto intro: assms(3) assms(4) audited.accept [OF that sink] audited.reject [OF that sink])
  then show ?thesis
    unfolding Kernel_audit_def sink
    by (auto simp: wp_simps intro!: wp_now [OF assms(1)] assms(5))
qed

lemma wp_verdict:
  assumes "audited ak es w0 w"
    and "\<And>t w'. audited ak es w0 w' \<Longrightarrow> Q (make_verdict ak req ta dec reason t) \<lparr>ks_used = u, ks_world = w'\<rparr>"
    and "\<And>e w'. audited ak es w0 w' \<Longrightarrow> E e \<lparr>ks_used = u, ks_world = w'\<rparr>"
  shows "wp (Kernel_verdict ak req ta dec reason) Q E \<lparr>ks_used = u, ks_world = w\<rparr>"
  unfolding Kernel_verdict_def wp_simps by (rule wp_now [OF assms(1)]) (auto intro: assms)

lemma wp_receipt:
  assumes "audited ak es w0 w"
    and "\<And>t w'. audited ak es w0 w' \<Longrightarrow>
           Q (make_receipt ak req ta v status reason evidence t) \<lparr>ks_used = u, ks_world = w'\<rparr>"
    and "\<And>e w'. audited ak es w0 w' \<Longrightarrow> E e \<lparr>ks_used = u, ks_world = w'\<rparr>"
  shows "wp (Kernel_receipt ak req ta v status reason evidence) Q E \<lparr>ks_used = u, ks_world = w\<rparr>"
  unfolding Kernel_receipt_def wp_simps by (rule wp_now [OF assms(1)]) (auto intro: assms)

lemma wp_reserve [wp_simps]:
  "wp (Kernel_reserve_task_id task) Q E s =
     (if task \<in> ks_used s then Q False s else Q True (s\<lparr>ks_used := insert task (ks_used s)\<rparr>))"
  by (simp add: Kernel_reserve_task_id_def wp_simps)

section \<open>The policy\<close>

text \<open>The conditions of an \<open>ALLOW\<close>, without the order of the tests and without the clock.\<close>

definition descriptor_covers :: "'w ActionKernel \<Rightarrow> TaskRequest \<Rightarrow> CapabilityDescriptor \<Rightarrow> bool" where
  "descriptor_covers ak req d \<longleftrightarrow>
     cd_schema_version d = ACTION_KERNEL_SCHEMA_VERSION \<and>
     cd_nexus_contract_family d = NEXUS_CAPABILITY_CONTRACT \<and>
     cd_name d = tr_capability req \<and> cd_mode d = ''read'' \<and>
     tr_target_id req \<in> cd_allowed_targets d \<and>
     (truthy (tr_arguments req) \<longrightarrow> cd_arguments_allowed d)"

definition kernel_permits :: "'w ActionKernel \<Rightarrow> TaskRequest \<Rightarrow> string \<Rightarrow> bool" where
  "kernel_permits ak req ta \<longleftrightarrow>
     ak_enabled ak \<and> ta \<noteq> [] \<and> ta \<in> ak_actors ak \<and> tr_actor req = ta \<and>
     tr_schema_version req = ACTION_KERNEL_SCHEMA_VERSION \<and>
     tr_nexus_contract_family req = NEXUS_ACTION_CONTRACT \<and>
     valid_provenance (tr_provenance req) \<and> tr_task_id req \<noteq> [] \<and> tr_correlation_id req \<noteq> [] \<and>
     aware (tr_requested_at req) \<and> aware (tr_expires_at req) \<and>
     instant (tr_requested_at req) < instant (tr_expires_at req) \<and>
     (\<exists>d. map_of (ak_capabilities ak) (tr_capability req) = Some d \<and> descriptor_covers ak req d) \<and>
     (\<exists>encoded. json_dumps True False (tr_arguments req) = Inr encoded \<and>
        length encoded \<le> ak_max_bytes ak) \<and>
     (\<exists>status. target_status ak (tr_target_id req) = Inr status \<and>
        status \<in> {''ok'', ''offline'', ''unknown''})"

lemma capability_denial_None:
  "capability_denial ak req = None \<longleftrightarrow>
     (\<exists>d. map_of (ak_capabilities ak) (tr_capability req) = Some d \<and> descriptor_covers ak req d) \<and>
     (\<exists>encoded. json_dumps True False (tr_arguments req) = Inr encoded \<and>
        length encoded \<le> ak_max_bytes ak) \<and>
     (\<exists>status. target_status ak (tr_target_id req) = Inr status \<and>
        status \<in> {''ok'', ''offline'', ''unknown''})"
  by (auto simp: capability_denial_def descriptor_covers_def target_status_def
      split: option.splits sum.splits if_splits)

definition unexpired :: "TaskRequest \<Rightarrow> datetime \<Rightarrow> bool" where
  "unexpired req t \<longleftrightarrow> aware t \<and> instant t < instant (tr_expires_at req)"

text \<open>Every result of \<open>_evaluate_policy\<close>.\<close>

definition policy_post :: "'w ActionKernel \<Rightarrow> TaskRequest \<Rightarrow> string \<Rightarrow> string set \<Rightarrow> PolicyVerdict \<Rightarrow> bool" where
  "policy_post ak req ta used v \<longleftrightarrow>
     (\<exists>dec reason t. v = make_verdict ak req ta dec reason t \<and>
        (dec = ''DENY'' \<or>
         dec = ''ALLOW'' \<and> reason = ''READ_ONLY_ALLOWED'' \<and> kernel_permits ak req ta \<and>
         tr_task_id req \<notin> used \<and>
         (\<exists>w w' t. ak_clock ak w = (Inr t, w') \<and> unexpired req t)))"

lemma policy_post_deny: "policy_post ak req ta used (make_verdict ak req ta ''DENY'' reason t)"
  unfolding policy_post_def by blast

lemma policy_post_allow:
  "kernel_permits ak req ta \<Longrightarrow> tr_task_id req \<notin> used \<Longrightarrow> ak_clock ak w = (Inr t', w') \<Longrightarrow>
     unexpired req t' \<Longrightarrow> policy_post ak req ta used (make_verdict ak req ta ''ALLOW'' ''READ_ONLY_ALLOWED'' t)"
  unfolding policy_post_def by blast

lemma wp_policy:
  assumes tr: "audited ak es w0 w"
    and Q: "\<And>v w'. audited ak es w0 w' \<Longrightarrow> policy_post ak req ta u v \<Longrightarrow>
              Q v \<lparr>ks_used = u, ks_world = w'\<rparr>"
    and E: "\<And>e w'. audited ak es w0 w' \<Longrightarrow> E e \<lparr>ks_used = u, ks_world = w'\<rparr>"
  shows "wp (Kernel_evaluate_policy ak req ta) Q E \<lparr>ks_used = u, ks_world = w\<rparr>"
proof -
  have deny: "wp (Kernel_verdict ak req ta ''DENY'' reason) Q E \<lparr>ks_used = u, ks_world = w'\<rparr>"
    if "audited ak es w0 w'" for reason w'
    by (rule wp_verdict [OF that]) (auto intro: Q E policy_post_deny)
  have allow: "wp (Kernel_verdict ak req ta ''ALLOW'' ''READ_ONLY_ALLOWED'') Q E
      \<lparr>ks_used = u, ks_world = w'\<rparr>"
    if "audited ak es w0 w'" "kernel_permits ak req ta" "tr_task_id req \<notin> u"
      "ak_clock ak w1 = (Inr t, w2)" "unexpired req t" for w' w1 w2 t
    by (rule wp_verdict [OF that(1)]) (use that in \<open>auto intro: Q E policy_post_allow\<close>)
  have late: "wp (Kernel_policy_at ak req ta t) Q E \<lparr>ks_used = u, ks_world = w'\<rparr>"
    if "request_denial ak req ta = None" "instant (tr_requested_at req) < instant (tr_expires_at req)"
      "audited ak es w0 w'" "ak_clock ak w1 = (Inr t, w2)" for w' w1 w2 t
  proof -
    have "kernel_permits ak req ta" if "capability_denial ak req = None"
      using that \<open>request_denial ak req ta = None\<close> \<open>instant (tr_requested_at req) < _\<close>
      unfolding capability_denial_None kernel_permits_def
      by (auto simp: request_denial_def split: if_splits)
    moreover have "aware (tr_expires_at req)"
      using that(1) by (auto simp: request_denial_def split: if_splits)
    ultimately show ?thesis
      using that
      by (auto simp: Kernel_policy_at_def wp_simps dt_le_def unexpired_def not_le
          split: option.splits intro: deny E intro!: allow)
  qed
  show ?thesis
  proof (cases "request_denial ak req ta")
    case None
    then have "aware (tr_expires_at req) = aware (tr_requested_at req)"
      by (auto simp: request_denial_def split: if_splits)
    with None show ?thesis
      by (auto simp: Kernel_evaluate_policy_def wp_simps dt_le_def not_le
          intro!: deny [OF tr] wp_now [OF tr] late E)
  next
    case (Some reason)
    then show ?thesis by (simp add: Kernel_evaluate_policy_def deny [OF tr])
  qed
qed

section \<open>Every outcome of an execution\<close>

definition own_event :: "'w ActionKernel \<Rightarrow> TaskRequest \<Rightarrow> string \<Rightarrow> AuditEvent \<Rightarrow> bool" where
  "own_event ak req ta e \<longleftrightarrow>
     (\<exists>stage outcome reason sha t. e = make_event ak req ta stage outcome reason sha t)"

definition own_receipt :: "TaskRequest \<Rightarrow> string \<Rightarrow> ExecutionReceipt \<Rightarrow> bool" where
  "own_receipt req ta r \<longleftrightarrow>
     er_task_id r = tr_task_id req \<and> er_correlation_id r = tr_correlation_id req \<and>
     er_actor r = ta \<and> er_capability r = tr_capability req \<and> er_target_id r = tr_target_id req \<and>
     er_authorization_expires_at r = Some (tr_expires_at req)"

definition summary :: "AuditEvent \<Rightarrow> string \<times> string \<times> string" where
  "summary e = (ae_stage e, ae_outcome e, ae_reason e)"

definition evidence_for :: "'w ActionKernel \<Rightarrow> TaskRequest \<Rightarrow> string \<Rightarrow> bool" where
  "evidence_for ak req encoded \<longleftrightarrow>
     (\<exists>status. target_status ak (tr_target_id req) = Inr status \<and>
        json_dumps True True (evidence_payload (tr_target_id req) status) = Inr encoded)"

text \<open>The audit trail of an executed request, and the evidence its receipt names.\<close>

definition executed_trail :: "'w ActionKernel \<Rightarrow> TaskRequest \<Rightarrow> AuditEvent list \<Rightarrow> EvidenceMetadata \<Rightarrow> bool" where
  "executed_trail ak req es ev \<longleftrightarrow>
     map summary es =
       [(''request'', ''OBSERVED'', ''REQUEST_RECEIVED''), (''policy'', ''ALLOW'', ''READ_ONLY_ALLOWED''),
        (''execution'', ''COMPLETED'', ''SYNTHETIC_ONLY''), (''evidence'', ''RECORDED'', ''EVIDENCE_HASHED'')] \<and>
     ae_evidence_sha256 (last es) = Some (em_sha256 ev) \<and>
     (\<exists>encoded. evidence_for ak req encoded \<and> ev = make_evidence encoded \<and>
        length encoded \<le> ak_max_evidence_bytes ak)"

definition executed_post ::
  "'w ActionKernel \<Rightarrow> TaskRequest \<Rightarrow> string \<Rightarrow> string set \<Rightarrow> string set \<Rightarrow> AuditEvent list \<Rightarrow>
   ExecutionReceipt \<Rightarrow> bool" where
  "executed_post ak req ta u u' es r \<longleftrightarrow>
     vd_decision (er_policy r) = ''ALLOW'' \<and> kernel_permits ak req ta \<and>
     tr_task_id req \<notin> u \<and> u' = insert (tr_task_id req) u \<and>
     (\<exists>w w' t. ak_clock ak w = (Inr t, w') \<and> unexpired req t) \<and>
     (\<exists>ev. er_evidence r = Some ev \<and> executed_trail ak req es ev)"

definition denied_post :: "'w ActionKernel \<Rightarrow> string set \<Rightarrow> string set \<Rightarrow> AuditEvent list \<Rightarrow> ExecutionReceipt \<Rightarrow> bool" where
  "denied_post ak u u' es r \<longleftrightarrow>
     vd_decision (er_policy r) = ''DENY'' \<and> er_evidence r = None \<and> u' = u \<and>
     (ak_sink ak \<noteq> None \<longrightarrow>
        es \<noteq> [] \<and> ae_reason (last es) = er_reason r \<and>
        (ae_outcome (last es) = ''DENY'' \<or> ae_outcome (last es) = ''DENIED''))"

definition failed_post :: "TaskRequest \<Rightarrow> string set \<Rightarrow> string set \<Rightarrow> ExecutionReceipt \<Rightarrow> bool" where
  "failed_post req u u' r \<longleftrightarrow>
     er_evidence r = None \<and> (u' = u \<or> u' = insert (tr_task_id req) u) \<and>
     (er_reason r = ''AUDIT_FAILED'' \<or> er_reason r = ''EVIDENCE_OVERSIZED'')"

definition execution_post ::
  "'w ActionKernel \<Rightarrow> TaskRequest \<Rightarrow> string \<Rightarrow> string set \<Rightarrow> string set \<Rightarrow> AuditEvent list \<Rightarrow>
   ExecutionReceipt \<Rightarrow> bool" where
  "execution_post ak req ta u u' es r \<longleftrightarrow>
     own_receipt req ta r \<and> (\<forall>e \<in> set es. own_event ak req ta e) \<and>
     (er_status r = ''EXECUTED'' \<and> executed_post ak req ta u u' es r \<or>
      er_status r = ''DENIED'' \<and> denied_post ak u u' es r \<or>
      er_status r = ''FAILED'' \<and> failed_post req u u' r)"

definition outcome_ok ::
  "'w ActionKernel \<Rightarrow> TaskRequest \<Rightarrow> string \<Rightarrow> 'w kernel_state \<Rightarrow> ExecutionReceipt \<Rightarrow> 'w kernel_state \<Rightarrow> bool" where
  "outcome_ok ak req ta s r t \<longleftrightarrow>
     (\<exists>es. audited ak es (ks_world s) (ks_world t) \<and>
        execution_post ak req ta (ks_used s) (ks_used t) es r)"

definition abort_ok ::
  "'w ActionKernel \<Rightarrow> TaskRequest \<Rightarrow> 'w kernel_state \<Rightarrow> pyexn \<Rightarrow> 'w kernel_state \<Rightarrow> bool" where
  "abort_ok ak req s e t \<longleftrightarrow>
     (\<exists>es. audited ak es (ks_world s) (ks_world t)) \<and>
     (ks_used t = ks_used s \<or> ks_used t = insert (tr_task_id req) (ks_used s))"

lemma make_receipt_fields [simp]:
  "er_status (make_receipt ak req ta v status reason ev t) = status"
  "er_reason (make_receipt ak req ta v status reason ev t) = reason"
  "er_evidence (make_receipt ak req ta v status reason ev t) = ev"
  "er_policy (make_receipt ak req ta v status reason ev t) = v"
  "er_task_id (make_receipt ak req ta v status reason ev t) = tr_task_id req"
  "er_actor (make_receipt ak req ta v status reason ev t) = ta"
  "er_authorization_expires_at (make_receipt ak req ta v status reason ev t) = Some (tr_expires_at req)"
  "own_receipt req ta (make_receipt ak req ta v status reason ev t)"
  by (simp_all add: make_receipt_def own_receipt_def)

lemma make_event_fields [simp]:
  "summary (make_event ak req ta stage outcome reason sha t) = (stage, outcome, reason)"
  "ae_outcome (make_event ak req ta stage outcome reason sha t) = outcome"
  "ae_reason (make_event ak req ta stage outcome reason sha t) = reason"
  "ae_evidence_sha256 (make_event ak req ta stage outcome reason sha t) = sha"
  "own_event ak req ta (make_event ak req ta stage outcome reason sha t)"
  by (auto simp: make_event_def summary_def own_event_def)

lemma make_verdict_fields [simp]:
  "vd_decision (make_verdict ak req ta dec reason t) = dec"
  "vd_reason (make_verdict ak req ta dec reason t) = reason"
  by (simp_all add: make_verdict_def)

lemma outcome_failed:
  assumes "audited ak es (ks_world s) w" and "u = ks_used s \<or> u = insert (tr_task_id req) (ks_used s)"
    and "\<forall>e \<in> set es. own_event ak req ta e"
    and "reason = ''AUDIT_FAILED'' \<or> reason = ''EVIDENCE_OVERSIZED''"
  shows "outcome_ok ak req ta s (make_receipt ak req ta v ''FAILED'' reason None t)
           \<lparr>ks_used = u, ks_world = w\<rparr>"
  using assms unfolding outcome_ok_def execution_post_def failed_post_def
  by (intro exI [of _ es]) auto

lemma outcome_denied:
  assumes "audited ak es (ks_world s) w" and "\<forall>e \<in> set es. own_event ak req ta e"
    and "vd_decision v = ''DENY''"
    and "ak_sink ak \<noteq> None \<longrightarrow> es \<noteq> [] \<and> ae_reason (last es) = reason \<and>
           (ae_outcome (last es) = ''DENY'' \<or> ae_outcome (last es) = ''DENIED'')"
  shows "outcome_ok ak req ta s (make_receipt ak req ta v ''DENIED'' reason None t)
           \<lparr>ks_used = ks_used s, ks_world = w\<rparr>"
  using assms unfolding outcome_ok_def execution_post_def denied_post_def
  by (intro exI [of _ es]) auto

lemma abort_same: "audited ak es (ks_world s) w \<Longrightarrow> abort_ok ak req s e \<lparr>ks_used = ks_used s, ks_world = w\<rparr>"
  by (auto simp: abort_ok_def)

lemma abort_reserved:
  "audited ak es (ks_world s) w \<Longrightarrow>
     abort_ok ak req s e \<lparr>ks_used = insert (tr_task_id req) (ks_used s), ks_world = w\<rparr>"
  by (auto simp: abort_ok_def)

lemma wp_deny_late:
  assumes "audited ak es (ks_world s) w" and "\<forall>e \<in> set es. own_event ak req ta e"
    and "ak_sink ak \<noteq> None"
  shows "wp (Kernel_deny_late ak req ta reason) (outcome_ok ak req ta s) (abort_ok ak req s)
           \<lparr>ks_used = ks_used s, ks_world = w\<rparr>"
  unfolding Kernel_deny_late_def wp_bind
  apply (rule wp_verdict, rule assms(1))
   apply (rule wp_audit, assumption, rule assms(3))
     apply (simp, rule wp_receipt, assumption)
      apply (rule outcome_denied, assumption; use assms in simp)
     apply (erule abort_same)
    apply (simp, rule wp_receipt, assumption)
     apply (rule outcome_failed, assumption; use assms in simp)
    apply (erule abort_same)+
  done

lemma wp_dispatch:
  assumes "audited ak es (ks_world s) w" and "\<forall>e \<in> set es. own_event ak req ta e"
    and "ak_sink ak \<noteq> None" and "kernel_permits ak req ta" and "tr_task_id req \<notin> ks_used s"
    and "ak_clock ak w1 = (Inr t1, w2)" and "unexpired req t1" and "vd_decision v = ''ALLOW''"
    and "map summary es = [(''request'', ''OBSERVED'', ''REQUEST_RECEIVED''),
           (''policy'', ''ALLOW'', ''READ_ONLY_ALLOWED'')]"
  shows "wp (Kernel_dispatch ak req ta v) (outcome_ok ak req ta s) (abort_ok ak req s)
           \<lparr>ks_used = insert (tr_task_id req) (ks_used s), ks_world = w\<rparr>"
proof (cases "target_status ak (tr_target_id req)")
  case (Inl e)
  with assms(1) show ?thesis by (simp add: Kernel_dispatch_def wp_simps abort_reserved)
next
  case status: (Inr status)
  show ?thesis
  proof (cases "json_dumps True True (evidence_payload (tr_target_id req) status)")
    case (Inl e)
    with assms(1) status show ?thesis by (simp add: Kernel_dispatch_def wp_simps abort_reserved)
  next
    case (Inr encoded)
    with status have ev: "evidence_for ak req encoded" by (simp add: evidence_for_def)
    let ?f = "\<lparr>ks_used = insert (tr_task_id req) (ks_used s), ks_world = w\<rparr>"
    have failed: "wp (Kernel_receipt ak req ta v ''FAILED'' reason None) (outcome_ok ak req ta s)
        (abort_ok ak req s) \<lparr>ks_used = insert (tr_task_id req) (ks_used s), ks_world = w'\<rparr>"
      if "audited ak es' (ks_world s) w'" "\<forall>e \<in> set es'. own_event ak req ta e"
        "reason = ''AUDIT_FAILED'' \<or> reason = ''EVIDENCE_OVERSIZED''" for reason w' es'
      by (rule wp_receipt [OF that(1)]) (use that in \<open>auto intro: abort_reserved outcome_failed\<close>)
    have done_ok: "outcome_ok ak req ta s
        (make_receipt ak req ta v ''EXECUTED'' ''SYNTHETIC_ONLY'' (Some (make_evidence encoded)) t)
        \<lparr>ks_used = insert (tr_task_id req) (ks_used s), ks_world = w'\<rparr>"
      if "audited ak ((es @ [make_event ak req ta ''execution'' ''COMPLETED'' ''SYNTHETIC_ONLY'' None t']) @
            [make_event ak req ta ''evidence'' ''RECORDED'' ''EVIDENCE_HASHED''
               (Some (sha256_hex encoded)) t'']) (ks_world s) w'"
        "length encoded \<le> ak_max_evidence_bytes ak" for t t' t'' w'
      unfolding outcome_ok_def execution_post_def executed_post_def executed_trail_def
      apply (rule exI, rule conjI, simp, rule that(1))
      using that(2) assms(2-9) ev by (auto simp: make_evidence_def)
    show ?thesis
      unfolding Kernel_dispatch_def status Inr wp_bind wp_lift wp_if sum.case
      apply (cases "ak_max_evidence_bytes ak < length encoded")
       apply (simp, rule failed [OF assms(1,2)], simp)
      apply (simp only: if_False, rule wp_receipt, rule assms(1))
       apply (simp only: make_receipt_fields, rule wp_audit, assumption, rule assms(3))
         apply (simp only: not_True_eq_False if_False, rule wp_audit, assumption, rule assms(3))
           apply (simp only: not_True_eq_False if_False wp_ret, rule done_ok, assumption, simp)
          apply (simp only: not_False_eq_True if_True, rule failed, assumption; use assms in simp)
         apply (erule abort_reserved)
        apply (simp only: not_False_eq_True if_True, rule failed, assumption; use assms in simp)
       apply (erule abort_reserved)+
      done
  qed
qed

theorem execute_outcome:
  "wp (Kernel_execute ak req ta) (outcome_ok ak req ta s) (abort_ok ak req s) s"
proof (cases "ak_sink ak = None")
  case True
  have start: "audited ak [] (ks_world s) (ks_world s)" by (rule audited.start)
  have "wp (Kernel_execute ak req ta) (outcome_ok ak req ta s) (abort_ok ak req s)
      \<lparr>ks_used = ks_used s, ks_world = ks_world s\<rparr>"
    unfolding Kernel_execute_def wp_bind if_P [OF True]
    apply (rule wp_verdict, rule start)
     apply (rule wp_receipt, assumption)
      apply (rule outcome_denied, assumption; use True in simp)
     apply (erule abort_same)+
    done
  then show ?thesis by (cases s) simp
next
  case sink: False
  have start: "audited ak [] (ks_world s) (ks_world s)" by (rule audited.start)
  have failed: "wp (Kernel_receipt ak req ta v ''FAILED'' ''AUDIT_FAILED'' None) (outcome_ok ak req ta s)
      (abort_ok ak req s) \<lparr>ks_used = ks_used s, ks_world = w'\<rparr>"
    if "audited ak es' (ks_world s) w'" "\<forall>e \<in> set es'. own_event ak req ta e" for v w' es'
    by (rule wp_receipt [OF that(1)]) (use that in \<open>auto intro: abort_same outcome_failed\<close>)
  have late: "wp (Kernel_commit ak req ta v t) (outcome_ok ak req ta s) (abort_ok ak req s)
      \<lparr>ks_used = ks_used s, ks_world = w'\<rparr>"
    if "audited ak es (ks_world s) w'" "\<forall>e \<in> set es. own_event ak req ta e"
      "ak_clock ak w1 = (Inr t, w2)" "policy_post ak req ta (ks_used s) v" "vd_decision v = ''ALLOW''"
      "map summary es = [(''request'', ''OBSERVED'', ''REQUEST_RECEIVED''), (''policy'', vd_decision v, vd_reason v)]"
    for es w' w1 w2 t v
  proof -
    from that(4,5) have "kernel_permits ak req ta" "vd_reason v = ''READ_ONLY_ALLOWED''"
      by (auto simp: policy_post_def)
    moreover from this(1) have "aware (tr_expires_at req)" by (simp add: kernel_permits_def)
    ultimately show ?thesis
      using that sink
      by (auto simp: Kernel_commit_def wp_simps dt_le_def unexpired_def not_le
          intro: abort_same intro!: wp_deny_late wp_dispatch [OF that(1,2) sink _ _ that(3)])
  qed
  have "wp (Kernel_execute ak req ta) (outcome_ok ak req ta s) (abort_ok ak req s)
      \<lparr>ks_used = ks_used s, ks_world = ks_world s\<rparr>"
    unfolding Kernel_execute_def wp_bind wp_if if_not_P [OF sink]
    apply (rule wp_audit, rule start, rule sink)
      apply (simp only: not_True_eq_False if_False, rule wp_policy, assumption)
       apply (rule wp_audit, assumption, rule sink)
         apply (simp only: not_True_eq_False if_False, rule if_split [THEN iffD2], intro conjI impI)
          apply (rule wp_receipt, assumption)
           apply (rule outcome_denied, assumption; force simp: policy_post_def)
          apply (erule abort_same)
         apply (rule wp_now, assumption)
          apply (rule late, assumption; simp)
         apply (erule abort_same)
        apply (simp only: not_False_eq_True if_True, rule failed, assumption; simp)
       apply (erule abort_same)+
     apply (simp only: not_False_eq_True if_True, rule wp_verdict, assumption)
      apply (rule failed, assumption; simp)
     apply (erule abort_same)+
    done
  then show ?thesis by (cases s) simp
qed

end
