(* ===== verification/Kernel_Properties.thy ===== *)
theory Kernel_Properties
  imports Kernel_Execution
begin

text \<open>
  The promises of the Action Kernel: what an executed request implies, at most one execution per
  task id over any session, and that with working clocks \<open>execute\<close> never raises. The locale
  \<open>audit_sink\<close> is the contract of an evidence sink; a sink that keeps it holds exactly the trail
  of the execution.
\<close>

section \<open>Sessions\<close>

text \<open>The receipts of a sequence of calls; a call that raises leaves no receipt.\<close>

fun Kernel_session ::
  "'w ActionKernel \<Rightarrow> (TaskRequest \<times> string) list \<Rightarrow> 'w kernel_state \<Rightarrow>
   ExecutionReceipt list \<times> 'w kernel_state" where
  "Kernel_session ak [] s = ([], s)"
| "Kernel_session ak ((req, ta) # calls) s =
     (case Kernel_execute ak req ta s of (r, t) \<Rightarrow>
        (case Kernel_session ak calls t of (out, u) \<Rightarrow>
           ((case r of Inr receipt \<Rightarrow> receipt # out | Inl _ \<Rightarrow> out), u)))"

definition executed_ids :: "ExecutionReceipt list \<Rightarrow> string list" where
  "executed_ids rs = map er_task_id (filter (\<lambda>r. er_status r = ''EXECUTED'') rs)"

lemma execute_returned:
  "Kernel_execute ak req ta s = (Inr r, t) \<Longrightarrow> outcome_ok ak req ta s r t"
  using wp_returned [OF execute_outcome] .

lemma execute_raised: "Kernel_execute ak req ta s = (Inl e, t) \<Longrightarrow> abort_ok ak req s e t"
  using wp_raised [OF execute_outcome] .

lemma executed_receipt:
  assumes "outcome_ok ak req ta s r t" and "er_status r = ''EXECUTED''"
  shows "\<exists>es. audited ak es (ks_world s) (ks_world t) \<and> own_receipt req ta r \<and>
     executed_post ak req ta (ks_used s) (ks_used t) es r"
  using assms by (auto simp: outcome_ok_def execution_post_def)

lemma used_grows: "ks_used s \<subseteq> ks_used (snd (Kernel_execute ak req ta s))"
  using execute_returned [of ak req ta s] execute_raised [of ak req ta s]
  by (cases "Kernel_execute ak req ta s"; cases "fst (Kernel_execute ak req ta s)")
    (auto simp: outcome_ok_def execution_post_def executed_post_def denied_post_def failed_post_def
      abort_ok_def)

lemma session_executed:
  "Kernel_session ak calls s = (rs, t) \<Longrightarrow>
     distinct (executed_ids rs) \<and> set (executed_ids rs) \<inter> ks_used s = {} \<and>
     ks_used s \<union> set (executed_ids rs) \<subseteq> ks_used t"
proof (induction ak calls s arbitrary: rs t rule: Kernel_session.induct)
  case (1 ak s)
  then show ?case by (simp add: executed_ids_def)
next
  case (2 ak req ta calls s)
  obtain r u where x: "Kernel_execute ak req ta s = (r, u)" by fastforce
  obtain out v where y: "Kernel_session ak calls u = (out, v)" by fastforce
  have ih: "distinct (executed_ids out)" "set (executed_ids out) \<inter> ks_used u = {}"
    "ks_used u \<union> set (executed_ids out) \<subseteq> ks_used v"
    using "2.IH" [OF x [symmetric] y] by auto
  have grows: "ks_used s \<subseteq> ks_used u" using used_grows [of s ak req ta] x by simp
  have tv: "t = v" and rs: "rs = (case r of Inr receipt \<Rightarrow> receipt # out | Inl _ \<Rightarrow> out)"
    using "2.prems" x y by auto
  show ?case
  proof (cases r)
    case (Inl e)
    with ih grows tv rs show ?thesis by auto
  next
    case (Inr receipt)
    show ?thesis
    proof (cases "er_status receipt = ''EXECUTED''")
      case True
      from x Inr have "outcome_ok ak req ta s receipt u" by (auto intro: execute_returned)
      from executed_receipt [OF this True] have "er_task_id receipt \<notin> ks_used s"
        "ks_used u = insert (er_task_id receipt) (ks_used s)"
        by (auto simp: own_receipt_def executed_post_def)
      with True Inr ih grows tv rs show ?thesis by (auto simp: executed_ids_def)
    next
      case False
      with Inr ih grows tv rs show ?thesis by (auto simp: executed_ids_def)
    qed
  qed
qed

section \<open>The evidence sink\<close>

text \<open>
  What the kernel relies on: a sink that returns has recorded the event at the end of its log, one
  that raises has recorded nothing.
\<close>

locale audit_sink =
  fixes sink :: "AuditEvent \<Rightarrow> ('w, pyexn, unit) proc"
    and entry :: "AuditEvent \<Rightarrow> 'x"
    and log :: "'w \<Rightarrow> 'x list"
  assumes accepts: "sink e w = (Inr (), w') \<Longrightarrow> log w' = log w @ [entry e]"
    and rejects: "sink e w = (Inl x, w') \<Longrightarrow> log w' = log w"
begin

lemma audited_log:
  assumes "ak_sink ak = Some sink" and "\<And>w. log (snd (ak_clock ak w)) = log w"
  shows "audited ak es w w' \<Longrightarrow> log w' = log w @ map entry es"
proof (induction rule: audited.induct)
  case (clock es w w1 r w2)
  with assms(2) [of w1] show ?case by simp
qed (use assms(1) in \<open>auto dest: accepts rejects\<close>)

lemma execute_log:
  assumes "ak_sink ak = Some sink" and "\<And>w. log (snd (ak_clock ak w)) = log w"
    and "Kernel_execute ak req ta s = (Inr r, t)"
  shows "\<exists>es. log (ks_world t) = log (ks_world s) @ map entry es \<and>
     execution_post ak req ta (ks_used s) (ks_used t) es r"
  using execute_returned [OF assms(3)] audited_log [OF assms(1,2)]
  unfolding outcome_ok_def by blast

end

section \<open>No exceptions\<close>

text \<open>A clock that always returns an aware time.\<close>

definition sound_clock :: "('w, pyexn, datetime) proc \<Rightarrow> bool" where
  "sound_clock clock \<longleftrightarrow> (\<forall>w. \<exists>t w'. clock w = (Inr t, w') \<and> aware t)"

abbreviation safe :: "('w, 'a) kernel_proc \<Rightarrow> ('a \<Rightarrow> bool) \<Rightarrow> bool" where
  "safe m P \<equiv> \<forall>s. wp m (\<lambda>a _. P a) (\<lambda>_ _. False) s"

lemma safe_bind:
  assumes "safe m P" and "\<And>a. P a \<Longrightarrow> safe (f a) R"
  shows "safe (bind m f) R"
proof
  fix s
  show "wp (bind m f) (\<lambda>a _. R a) (\<lambda>_ _. False) s"
    unfolding wp_bind by (rule wp_mono [OF spec [OF assms(1)]]) (use assms(2) in auto)
qed

lemma safe_now: "sound_clock (ak_clock ak) \<Longrightarrow> safe (Kernel_now ak) aware"
  unfolding Kernel_now_def wp_on_world
  by (auto simp: wp_def sound_clock_def split: prod.splits sum.splits) (metis prod.inject sum.distinct(1) sum.inject(2))+

lemma safe_ret: "R a \<Longrightarrow> safe (ret a) R"
  by (simp add: wp_ret)

lemma safe_now_ret: "sound_clock (ak_clock ak) \<Longrightarrow> (\<And>t. R (f t)) \<Longrightarrow> safe (bind (Kernel_now ak) (\<lambda>t. ret (f t))) R"
  by (rule safe_bind [OF safe_now]) (auto simp: wp_ret)

lemma safe_verdict: "sound_clock (ak_clock ak) \<Longrightarrow> safe (Kernel_verdict ak req ta dec reason) (\<lambda>_. True)"
  unfolding Kernel_verdict_def by (rule safe_now_ret) simp_all

lemma safe_receipt: "sound_clock (ak_clock ak) \<Longrightarrow> safe (Kernel_receipt ak req ta v st reason ev) (\<lambda>_. True)"
  unfolding Kernel_receipt_def by (rule safe_now_ret) simp_all

lemma safe_audit: "sound_clock (ak_clock ak) \<Longrightarrow> safe (Kernel_audit ak req ta stage out reason sha) (\<lambda>_. True)"
proof (cases "ak_sink ak")
  case None
  then show ?thesis by (simp add: Kernel_audit_def wp_ret)
next
  case (Some sink)
  have "safe (handle (seq (on_world (sink e)) (ret True)) (\<lambda>_. Some (ret False))) (\<lambda>_. True)" for e
    by (auto simp: wp_simps intro: wp_trivial)
  then show "sound_clock (ak_clock ak) \<Longrightarrow> ?thesis"
    unfolding Kernel_audit_def Some option.case by (intro safe_bind [OF safe_now]) auto
qed

lemma safe_lift: "r = Inr a \<Longrightarrow> R a \<Longrightarrow> safe (lift r) R"
  by (simp add: wp_lift)

lemma safe_weaken: "safe m P \<Longrightarrow> (\<And>a. P a \<Longrightarrow> R a) \<Longrightarrow> safe m R"
  by (blast intro: wp_mono)

lemma evidence_encodes: "\<exists>x. json_dumps True True (evidence_payload target status) = Inr x"
proof -
  have "encodes True True (evidence_payload target status)" by (simp add: evidence_payload_def)
  then show ?thesis by (simp only: encodes_def)
qed

lemma safe_dispatch:
  assumes clock: "sound_clock (ak_clock ak)" and "kernel_permits ak req ta"
  shows "safe (Kernel_dispatch ak req ta v) (\<lambda>_. True)"
proof -
  obtain status where "target_status ak (tr_target_id req) = Inr status"
    using assms(2) unfolding kernel_permits_def by blast
  moreover obtain encoded where
    "json_dumps True True (evidence_payload (tr_target_id req) status) = Inr encoded"
    using evidence_encodes by blast
  ultimately show ?thesis
    unfolding Kernel_dispatch_def
    using safe_receipt [OF clock] safe_audit [OF clock]
    by (auto simp: wp_lift wp_if wp_ret intro!: safe_bind [OF safe_lift, THEN spec]
        safe_bind [OF safe_receipt [OF clock], THEN spec] safe_bind [OF safe_audit [OF clock], THEN spec])
qed

lemma safe_policy:
  assumes clock: "sound_clock (ak_clock ak)"
  shows "safe (Kernel_evaluate_policy ak req ta) (\<lambda>v. vd_decision v = ''ALLOW'' \<longrightarrow> kernel_permits ak req ta)"
proof -
  let ?R = "\<lambda>v. vd_decision v = ''ALLOW'' \<longrightarrow> kernel_permits ak req ta"
  have deny: "safe (Kernel_verdict ak req ta ''DENY'' reason) ?R" for reason
    unfolding Kernel_verdict_def by (rule safe_now_ret [OF clock]) simp
  have at: "safe (Kernel_policy_at ak req ta t) ?R"
    if "aware t" "request_denial ak req ta = None" "instant (tr_requested_at req) < instant (tr_expires_at req)" for t
  proof -
    have expires: "aware (tr_expires_at req)"
      using that(2) by (auto simp: request_denial_def split: if_splits)
    have "safe (Kernel_verdict ak req ta ''ALLOW'' ''READ_ONLY_ALLOWED'') ?R" if "capability_denial ak req = None"
    proof -
      have "kernel_permits ak req ta"
        using that \<open>request_denial ak req ta = None\<close> \<open>instant (tr_requested_at req) < _\<close>
        unfolding capability_denial_None kernel_permits_def
        by (auto simp: request_denial_def split: if_splits)
      then show ?thesis by (intro safe_weaken [OF safe_verdict [OF clock]]) simp
    qed
    with that(1) expires show ?thesis
      using deny by (auto simp: Kernel_policy_at_def wp_simps dt_le_def split: option.splits)
  qed
  show ?thesis
  proof (cases "request_denial ak req ta")
    case None
    then have "aware (tr_expires_at req)" "aware (tr_requested_at req)"
      by (auto simp: request_denial_def split: if_splits)
    then have "dt_le (tr_expires_at req) (tr_requested_at req) =
        Inr (instant (tr_expires_at req) \<le> instant (tr_requested_at req))"
      by (simp add: dt_le_def)
    moreover have "safe (bind (Kernel_now ak) (Kernel_policy_at ak req ta)) ?R"
      if "instant (tr_requested_at req) < instant (tr_expires_at req)"
      by (rule safe_bind [OF safe_now [OF clock]]) (rule at [OF _ None that])
    ultimately show ?thesis
      using deny None by (auto simp: Kernel_evaluate_policy_def wp_bind [of "lift _"] wp_lift wp_if not_le)
  next
    case (Some reason)
    then show ?thesis using deny by (simp add: Kernel_evaluate_policy_def)
  qed
qed

lemma safe_deny_late: "sound_clock (ak_clock ak) \<Longrightarrow> safe (Kernel_deny_late ak req ta reason) (\<lambda>_. True)"
  unfolding Kernel_deny_late_def
  by (intro safe_bind [OF safe_verdict] safe_bind [OF safe_audit]) (auto simp: wp_if safe_receipt)

lemma safe_commit:
  assumes clock: "sound_clock (ak_clock ak)" and permits: "kernel_permits ak req ta" and "aware t"
  shows "safe (Kernel_commit ak req ta v t) (\<lambda>_. True)"
proof -
  have "dt_le (tr_expires_at req) t = Inr (instant (tr_expires_at req) \<le> instant t)"
    using permits assms(3) by (simp add: dt_le_def kernel_permits_def)
  then show ?thesis
    using safe_deny_late [OF clock] safe_dispatch [OF clock permits]
    by (auto simp: Kernel_commit_def wp_bind [of "lift _"] wp_bind [of "Kernel_reserve_task_id _"]
        wp_reserve wp_lift wp_if)
qed

lemma safe_execute:
  assumes clock: "sound_clock (ak_clock ak)"
  shows "safe (Kernel_execute ak req ta) (\<lambda>_. True)"
proof (cases "ak_sink ak = None")
  case True
  then show ?thesis
    unfolding Kernel_execute_def if_P [OF True]
    by (intro safe_bind [OF safe_verdict [OF clock]] safe_receipt [OF clock])
next
  case False
  have commit: "safe (bind (Kernel_now ak) (Kernel_commit ak req ta v)) (\<lambda>_. True)"
    if "kernel_permits ak req ta" for v
    by (rule safe_bind [OF safe_now [OF clock]]) (rule safe_commit [OF clock that])
  have "safe (bind (Kernel_verdict ak req ta ''DENY'' ''AUDIT_FAILED'') (\<lambda>v.
           Kernel_receipt ak req ta v ''FAILED'' ''AUDIT_FAILED'' None)) (\<lambda>_. True)"
    by (intro safe_bind [OF safe_verdict [OF clock]] safe_receipt [OF clock])
  moreover have "safe (bind (Kernel_audit ak req ta ''policy'' (vd_decision v) (vd_reason v) None) (\<lambda>ok.
         if \<not> ok then Kernel_receipt ak req ta v ''FAILED'' ''AUDIT_FAILED'' None
         else if vd_decision v \<noteq> ''ALLOW''
           then Kernel_receipt ak req ta v ''DENIED'' (vd_reason v) None
         else bind (Kernel_now ak) (Kernel_commit ak req ta v))) (\<lambda>_. True)"
    if "vd_decision v = ''ALLOW'' \<longrightarrow> kernel_permits ak req ta" for v
    by (rule safe_bind [OF safe_audit [OF clock]])
      (use that commit safe_receipt [OF clock] in \<open>simp add: wp_if\<close>)
  ultimately show ?thesis
    unfolding Kernel_execute_def if_not_P [OF False]
    by (intro safe_bind [OF safe_audit [OF clock]]) (auto simp: wp_if intro: safe_bind [OF safe_policy [OF clock], THEN spec])
qed

section \<open>Properties\<close>

text \<open>C7: A request is executed only under the whole policy: the feature is on, the trusted actor is
  known and is the actor of the request, ids, contracts and provenance are well formed, the
  capability descriptor covers the target and the arguments, the task id was never reserved, and a
  reading of the clock was before the expiry. The id is reserved by the execution.\<close>

theorem kernel_executes_only_permitted:
  assumes "Kernel_execute ak req ta s = (Inr r, t)" and "er_status r = ''EXECUTED''"
  shows "kernel_permits ak req ta \<and> vd_decision (er_policy r) = ''ALLOW'' \<and>
     tr_task_id req \<notin> ks_used s \<and> ks_used t = insert (tr_task_id req) (ks_used s) \<and>
     (\<exists>w w' now. ak_clock ak w = (Inr now, w') \<and> unexpired req now)"
  using executed_receipt [OF execute_returned [OF assms(1)] assms(2)]
  by (auto simp: executed_post_def)

text \<open>C8: At most once: over any sequence of calls, with any clock and any sink, no two executed
  receipts have the same task id.\<close>

theorem kernel_executes_at_most_once:
  "distinct (executed_ids (fst (Kernel_session ak calls s)))"
  using session_executed [of ak calls s] by (cases "Kernel_session ak calls s") auto

text \<open>C11: Evidence: the receipt of an executed request names the SHA-256 digest and the length of
  the JSON text of its target and status, within the evidence bound; every other receipt carries no
  evidence.\<close>

theorem kernel_evidence_is_bound:
  assumes "Kernel_execute ak req ta s = (Inr r, t)"
  shows "case er_evidence r of
      None \<Rightarrow> er_status r = ''DENIED'' \<or> er_status r = ''FAILED''
    | Some ev \<Rightarrow> er_status r = ''EXECUTED'' \<and>
        (\<exists>encoded. evidence_for ak req encoded \<and> em_sha256 ev = sha256_hex encoded \<and>
           em_byte_count ev = length encoded \<and> length encoded \<le> ak_max_evidence_bytes ak)"
  using execute_returned [OF assms]
  by (auto simp: outcome_ok_def execution_post_def executed_post_def denied_post_def failed_post_def
      executed_trail_def make_evidence_def split: option.splits)


text \<open>C9: With a sink that keeps the contract of \<open>audit_sink\<close> written out here, the log of an executed
  request has grown by exactly four entries of this task: request observed, policy allowed,
  execution completed and evidence recorded, the last with the digest of the receipt; and a denial
  is the last entry of the log, with its reason.\<close>

theorem kernel_is_audited:
  assumes "ak_sink ak = Some sink"
    and "\<And>e w w'. sink e w = (Inr (), w') \<Longrightarrow> log w' = log w @ [entry e]"
    and "\<And>e w x w'. sink e w = (Inl x, w') \<Longrightarrow> log w' = log w"
    and "\<And>w. log (snd (ak_clock ak w)) = log w"
    and "Kernel_execute ak req ta s = (Inr r, t)"
  shows "\<exists>es. log (ks_world t) = log (ks_world s) @ map entry es \<and>
     list_all (own_event ak req ta) es \<and>
     (er_status r = ''EXECUTED'' \<longrightarrow>
        (\<exists>ev. er_evidence r = Some ev \<and> executed_trail ak req es ev)) \<and>
     (er_status r = ''DENIED'' \<longrightarrow> es \<noteq> [] \<and> ae_reason (last es) = er_reason r)"
proof -
  have "audit_sink sink entry log" by unfold_locales (fact assms)+
  from audit_sink.execute_log [OF this assms(1,4,5)] show ?thesis
    using assms(1)
    by (auto simp: execution_post_def executed_post_def denied_post_def list_all_iff)
qed

section \<open>A concrete kernel\<close>

text \<open>A clock that ticks one microsecond per reading, and a sink that keeps the events.\<close>

record demo_world =
  dw_time :: int
  dw_events :: "AuditEvent list"

definition demo_clock :: "(demo_world, pyexn, datetime) proc" where
  "demo_clock = (\<lambda>w. (Inr (DateTime (dw_time w) (Some 0)), w\<lparr>dw_time := dw_time w + 1\<rparr>))"

definition demo_sink :: "AuditEvent \<Rightarrow> (demo_world, pyexn, unit) proc" where
  "demo_sink e = modify (\<lambda>w. w\<lparr>dw_events := dw_events w @ [e]\<rparr>)"

definition demo_kernel :: "demo_world ActionKernel" where
  "demo_kernel = ActionKernel_init [(''node-1'', [(''synthetic_status'', ''ok'')])] {''ruku''} None True
     2048 2048 (Some demo_sink) ''cybercore-local'' demo_clock"

definition demo_provenance :: Provenance where
  "demo_provenance =
     \<lparr>pv_source = ''cybercore'', pv_adapter = ''cli'', pv_source_instance = ''local'',
      pv_observed_at = DateTime 0 (Some 0), pv_confidence = ''verified'', pv_collector_run = None,
      pv_contract = NEXUS_PROVENANCE_CONTRACT\<rparr>"

definition demo_task :: TaskRequest where
  "demo_task =
     \<lparr>tr_task_id = ''task-1'', tr_correlation_id = ''corr-1'', tr_actor = ''ruku'',
      tr_capability = ''diagnostics.synthetic_status.v1'', tr_target_id = ''node-1'',
      tr_arguments = PDict [], tr_requested_at = DateTime 0 (Some 0),
      tr_expires_at = DateTime 1000000 (Some 0), tr_provenance = demo_provenance,
      tr_schema_version = ACTION_KERNEL_SCHEMA_VERSION,
      tr_nexus_contract_family = NEXUS_ACTION_CONTRACT\<rparr>"

definition demo_start :: "demo_world kernel_state" where
  "demo_start = kernel_start \<lparr>dw_time = 10, dw_events = []\<rparr>"

lemmas demo_kernel_defs =
  demo_kernel_def demo_task_def demo_provenance_def demo_start_def demo_clock_def demo_sink_def
  ActionKernel_init_def default_capability_def kernel_start_def

lemma demo_denial:
  "request_denial demo_kernel demo_task ''ruku'' = None"
  "capability_denial demo_kernel demo_task = None"
  "target_status demo_kernel ''node-1'' = Inr ''ok''"
  by (simp_all add: demo_kernel_defs request_denial_def capability_denial_def target_status_def
      valid_provenance_def aware_def sort_items_def)

lemma demo_kernel_fields:
  "ak_sink demo_kernel = Some demo_sink" "ak_clock demo_kernel = demo_clock"
  "ak_max_evidence_bytes demo_kernel = 2048"
  "tr_expires_at demo_task = DateTime 1000000 (Some 0)"
  "tr_requested_at demo_task = DateTime 0 (Some 0)" "tr_target_id demo_task = ''node-1''"
  "ks_used demo_start = {}" "dw_time (ks_world demo_start) = 10"
  by (simp_all add: demo_kernel_defs)

lemma demo_evidence:
  "\<exists>x. json_dumps True True (evidence_payload ''node-1'' ''ok'') = Inr x \<and> length x \<le> 2048"
proof -
  have "case json_dumps True True (evidence_payload ''node-1'' ''ok'') of
      Inl _ \<Rightarrow> False | Inr x \<Rightarrow> length x \<le> 2048" by code_simp
  then show ?thesis by (auto split: sum.splits)
qed

lemma wp_demo_clock:
  "wp demo_clock Q E w = Q (DateTime (dw_time w) (Some 0)) (w\<lparr>dw_time := dw_time w + 1\<rparr>)"
  by (simp add: demo_clock_def wp_def)

lemma demo_execute:
  "\<exists>r t. Kernel_execute demo_kernel demo_task ''ruku'' demo_start = (Inr r, t) \<and>
     er_status r = ''EXECUTED''"
proof -
  obtain x where "json_dumps True True (evidence_payload ''node-1'' ''ok'') = Inr x" "length x \<le> 2048"
    using demo_evidence by blast
  then have "wp (Kernel_execute demo_kernel demo_task ''ruku'') (\<lambda>r _. er_status r = ''EXECUTED'')
     (\<lambda>_ _. False) demo_start"
    by (simp add: Kernel_execute_def Kernel_audit_def Kernel_now_def Kernel_evaluate_policy_def
        Kernel_policy_at_def Kernel_verdict_def Kernel_receipt_def Kernel_commit_def
        Kernel_dispatch_def demo_denial demo_kernel_fields wp_simps wp_demo_clock
        demo_sink_def dt_le_def aware_def)
  then show ?thesis by (auto simp: wp_def split: prod.splits sum.splits)
qed

lemma kernel_executes_only_permitted_witness: "kernel_permits demo_kernel demo_task ''ruku''"
proof -
  obtain r t where "Kernel_execute demo_kernel demo_task ''ruku'' demo_start = (Inr r, t)"
    "er_status r = ''EXECUTED''" using demo_execute by blast
  from kernel_executes_only_permitted [OF this] show ?thesis by blast
qed

lemma kernel_evidence_is_bound_witness:
  "\<exists>r t. Kernel_execute demo_kernel demo_task ''ruku'' demo_start = (Inr r, t) \<and> er_evidence r \<noteq> None"
proof -
  obtain r t where x: "Kernel_execute demo_kernel demo_task ''ruku'' demo_start = (Inr r, t)"
    "er_status r = ''EXECUTED''" using demo_execute by blast
  with kernel_evidence_is_bound [OF x(1)] show ?thesis by (auto split: option.splits)
qed


lemma kernel_is_audited_witness:
  "\<exists>r t. Kernel_execute demo_kernel demo_task ''ruku'' demo_start = (Inr r, t) \<and>
     length (dw_events (ks_world t)) = 4"
proof -
  obtain r t where x: "Kernel_execute demo_kernel demo_task ''ruku'' demo_start = (Inr r, t)"
    "er_status r = ''EXECUTED''" using demo_execute by blast
  have "\<exists>es. dw_events (ks_world t) = dw_events (ks_world demo_start) @ map id es \<and>
     list_all (own_event demo_kernel demo_task ''ruku'') es \<and>
     (er_status r = ''EXECUTED'' \<longrightarrow>
        (\<exists>ev. er_evidence r = Some ev \<and> executed_trail demo_kernel demo_task es ev)) \<and>
     (er_status r = ''DENIED'' \<longrightarrow> es \<noteq> [] \<and> ae_reason (last es) = er_reason r)"
    by (rule kernel_is_audited [where sink = demo_sink, OF _ _ _ _ x(1)])
      (auto simp: demo_kernel_fields demo_sink_def modify_def demo_clock_def)
  then have "\<exists>es ev. dw_events (ks_world t) = es \<and> executed_trail demo_kernel demo_task es ev"
    using x(2) by (simp add: demo_start_def kernel_start_def) blast
  then obtain es ev where es: "dw_events (ks_world t) = es" "executed_trail demo_kernel demo_task es ev"
    by blast
  from es(2) have "length (map summary es) = 4" by (simp only: executed_trail_def) simp
  with es x show ?thesis by auto
qed

end
