(* ===== verification/Kernel_Broker.thy ===== *)
theory Kernel_Broker
  imports Kernel_Bridge_Safety Kernel_Properties
begin

text \<open>
  The trusted broker (src/src/cybercore/action_kernel_trusted_broker.py), which evaluates a task
  with the kernel and hands the receipt it got to the bridge, and the promises of bridge and broker:
  at most one dispatch per authorisation, and only of tasks the policy permits.
\<close>

section \<open>The broker\<close>

record BrokerResult =
  bres_status :: string
  bres_reason :: string
  bres_hive :: "HiveDryRunReceipt option"

record 'w broker_state =
  bk_used :: "string set"
  bk_process :: ExpiringGuard
  bk_world :: 'w

type_synonym ('w, 'a) broker_proc = "('w broker_state, pyexn, 'a) proc"

definition on_kernel :: "('w, 'a) kernel_proc \<Rightarrow> ('w, 'a) broker_proc" where
  "on_kernel m = zoom (\<lambda>s. \<lparr>ks_used = bk_used s, ks_world = bk_world s\<rparr>)
     (\<lambda>k s. s\<lparr>bk_used := ks_used k, bk_world := ks_world k\<rparr>) m"

definition on_bridge :: "('w, 'a) bridge_proc \<Rightarrow> ('w, 'a) broker_proc" where
  "on_bridge m = zoom (\<lambda>s. \<lparr>bs_process = bk_process s, bs_world = bk_world s\<rparr>)
     (\<lambda>b s. s\<lparr>bk_process := bs_process b, bk_world := bs_world b\<rparr>) m"

definition Broker_execute ::
  "'w ActionKernel \<Rightarrow> 'w hive_env \<Rightarrow> TaskRequest \<Rightarrow> string \<Rightarrow> ('w, BrokerResult) broker_proc" where
  "Broker_execute ak env task actor =
     (if actor = [] \<or> tr_actor task \<noteq> actor
      then ret \<lparr>bres_status = ''DENIED'', bres_reason = ''ACTOR_MISMATCH'', bres_hive = None\<rparr>
      else bind (on_kernel (Kernel_execute ak task actor)) (\<lambda>r.
        if er_status r \<noteq> ''EXECUTED'' \<or> vd_decision (er_policy r) \<noteq> ''ALLOW''
        then ret \<lparr>bres_status = er_status r, bres_reason = er_reason r, bres_hive = None\<rparr>
        else bind (on_bridge (run_local_hive_dry_run env task actor r)) (\<lambda>hive.
          ret \<lparr>bres_status = ''DRY_RUN'', bres_reason = ''HIVE_DRY_RUN_ONLY'', bres_hive = Some hive\<rparr>)))"

text \<open>A kernel whose clock and sink leave the list of dispatches alone.\<close>

definition logged_kernel :: "'w ActionKernel \<Rightarrow> 'w logged ActionKernel" where
  "logged_kernel ak =
     \<lparr>ak_targets = ak_targets ak, ak_actors = ak_actors ak, ak_enabled = ak_enabled ak,
      ak_max_bytes = ak_max_bytes ak, ak_max_evidence_bytes = ak_max_evidence_bytes ak,
      ak_sink = map_option (\<lambda>sink e. unlogged (sink e)) (ak_sink ak),
      ak_source_instance = ak_source_instance ak, ak_clock = unlogged (ak_clock ak),
      ak_capabilities = ak_capabilities ak\<rparr>"

lemma unlogged_snd: "unlogged m w = (r, w') \<Longrightarrow> snd w' = snd w"
  by (auto simp: unlogged_def zoom_def split: prod.splits)

lemma audited_logged: "audited (logged_kernel ak) es w w' \<Longrightarrow> snd w' = snd w"
  by (induction rule: audited.induct) (auto simp: logged_kernel_def dest!: unlogged_snd)

lemma kernel_permits_logged [simp]: "kernel_permits (logged_kernel ak) req ta = kernel_permits ak req ta"
  by (simp add: kernel_permits_def logged_kernel_def descriptor_covers_def target_status_def)

section \<open>Sequences of calls of the bridge\<close>

type_synonym bridge_call = "TaskRequest \<times> string \<times> ExecutionReceipt"

fun bridge_step :: "'w logged hive_env \<Rightarrow> bridge_call \<Rightarrow> 'w logged bridge_state \<Rightarrow> 'w logged bridge_state" where
  "bridge_step env (task, ta, r) s = snd (run_local_hive_dry_run env task ta r s)"

definition log_claimed :: "('w \<Rightarrow> string set) \<Rightarrow> 'w logged bridge_state \<Rightarrow> bool" where
  "log_claimed claimed s \<longleftrightarrow>
     distinct (map request_key (dispatch_log s)) \<and>
     request_key ` set (dispatch_log s) \<subseteq> claimed (fst (bs_world s))"

lemma bridge_step_outcome:
  assumes "sound_env claimed env"
  shows "idle claimed s (bridge_step (logged_env env) (task, ta, r) s) \<or>
     held claimed (claim_key ta task) [] s (bridge_step (logged_env env) (task, ta, r) s) \<or>
     bridge_sent claimed task ta r s (bridge_step (logged_env env) (task, ta, r) s)"
proof -
  have "wp (run_local_hive_dry_run (logged_env env) task ta r)
     (\<lambda>_ t. idle claimed s t \<or> held claimed (claim_key ta task) [] s t \<or> bridge_sent claimed task ta r s t)
     (\<lambda>_ t. idle claimed s t \<or> held claimed (claim_key ta task) [] s t \<or> bridge_sent claimed task ta r s t) s"
    by (rule wp_mono [OF bridge_outcome [OF assms]]) auto
  then show ?thesis by (simp add: wp_post)
qed

lemma log_claimed_step:
  assumes "sound_env claimed env" and "log_claimed claimed s"
  shows "log_claimed claimed (bridge_step (logged_env env) c s)"
proof -
  obtain task ta r where c: "c = (task, ta, r)" by (cases c) auto
  let ?t = "bridge_step (logged_env env) c s"
  consider "idle claimed s ?t" | "held claimed (claim_key ta task) [] s ?t"
    | "bridge_sent claimed task ta r s ?t"
    using bridge_step_outcome [OF assms(1), of s task ta r] unfolding c by blast
  then show ?thesis
  proof cases
    case 1
    with assms(2) show ?thesis by (auto simp: idle_def log_claimed_def)
  next
    case 2
    with assms(2) show ?thesis by (auto simp: held_def log_claimed_def)
  next
    case 3
    then have "dispatch_log ?t = dispatch_log s @ [hive_request task ta]"
      "claim_key ta task \<notin> claimed (fst (bs_world s))"
      "insert (claim_key ta task) (claimed (fst (bs_world s))) \<subseteq> claimed (fst (bs_world ?t))"
      by (auto simp: bridge_sent_def held_def)
    with assms(2) show ?thesis by (force simp: log_claimed_def)
  qed
qed

lemma log_claimed_run:
  "sound_env claimed env \<Longrightarrow> log_claimed claimed s \<Longrightarrow> log_claimed claimed (fold (bridge_step (logged_env env)) cs s)"
  by (induction cs arbitrary: s) (auto intro: log_claimed_step)

section \<open>Properties\<close>

text \<open>One dispatch per authorisation: over any sequence of bridge calls in a process, for any
  tasks, actors and receipts, with clocks that may jump, a guard that may fail and a registry that
  may raise, no two requests handed to the registry have the same actor, task and correlation id.
  (The guard keeps the contract of \<open>replay_guard\<close>; nothing else removes its claims.)\<close>

theorem bridge_dispatches_at_most_once:
  assumes "sound_env claimed env"
  shows "distinct (map request_key (dispatch_log
     (fold (bridge_step (logged_env env)) cs \<lparr>bs_process = g, bs_world = (w, [])\<rparr>)))"
proof -
  have "log_claimed claimed \<lparr>bs_process = g, bs_world = (w, [])\<rparr>"
    by (simp add: log_claimed_def dispatch_log_def)
  from log_claimed_run [OF assms this, of cs] show ?thesis by (simp only: log_claimed_def)
qed


text \<open>The broker dispatches nothing the policy does not permit: when a call of the broker reaches
  the registry, the task's actor is the authenticated one, the whole policy of the kernel held for
  it, and its task id had never been executed.\<close>

theorem broker_dispatches_only_permitted:
  assumes "sound_env claimed env"
    and "Broker_execute (logged_kernel ak) (logged_env env) task actor s = (res, t)"
    and "snd (bk_world t) \<noteq> snd (bk_world s)"
  shows "tr_actor task = actor \<and> kernel_permits ak task actor \<and> tr_task_id task \<notin> bk_used s \<and>
     snd (bk_world t) = snd (bk_world s) @ [hive_request task actor]"
proof -
  let ?k = "\<lparr>ks_used = bk_used s, ks_world = bk_world s\<rparr>"
  have actor: "actor \<noteq> []" "tr_actor task = actor"
    using assms(2,3) by (auto simp: Broker_execute_def proc_defs split: if_splits)
  obtain x k where x: "Kernel_execute (logged_kernel ak) task actor ?k = (x, k)" by fastforce
  have same: "snd (ks_world k) = snd (bk_world s)"
    using x execute_returned [of "logged_kernel ak" task actor ?k] execute_raised [of "logged_kernel ak" task actor ?k]
    by (cases x) (auto simp: outcome_ok_def abort_ok_def dest: audited_logged)
  show ?thesis
  proof (cases x)
    case (Inl e)
    with assms(2,3) actor x same show ?thesis by (auto simp: Broker_execute_def on_kernel_def proc_defs)
  next
    case (Inr r)
    show ?thesis
    proof (cases "er_status r = ''EXECUTED'' \<and> vd_decision (er_policy r) = ''ALLOW''")
      case False
      with assms(2,3) actor x same Inr show ?thesis
        by (auto simp: Broker_execute_def on_kernel_def proc_defs)
    next
      case True
      let ?b = "\<lparr>bs_process = bk_process s, bs_world = ks_world k\<rparr>"
      obtain y b where y: "run_local_hive_dry_run (logged_env env) task actor r ?b = (y, b)" by fastforce
      have t: "bk_world t = bs_world b"
        using assms(2) actor x y Inr True
        by (cases y) (auto simp: Broker_execute_def on_kernel_def on_bridge_def proc_defs)
      have "dispatch_log (bridge_step (logged_env env) (task, actor, r) ?b) \<noteq> dispatch_log ?b"
        using y t same assms(3) by (simp add: dispatch_log_def)
      then have "bridge_sent claimed task actor r ?b b"
        using bridge_step_outcome [OF assms(1), of ?b task actor r] y by (auto simp: idle_def held_def)
      moreover have "kernel_permits ak task actor \<and> tr_task_id task \<notin> bk_used s"
        using executed_receipt [OF execute_returned [OF x [unfolded Inr]]] True
        by (auto simp: executed_post_def)
      ultimately show ?thesis
        using actor t same by (auto simp: bridge_sent_def held_def dispatch_log_def)
    qed
  qed
qed

text \<open>Every receipt the kernel returns has a Nexus wire form, whose status is "completed" exactly
  for an executed one, and only that carries a provider receipt.\<close>

theorem kernel_receipts_serialise:
  assumes "Kernel_execute ak req ta s = (Inr r, t)"
  shows "\<exists>doc. to_nexus_action_result r = Inr doc \<and>
     (map_of doc ''status'' = Some (PStr ''completed'') \<longleftrightarrow> er_status r = ''EXECUTED'') \<and>
     (map_of doc ''providerReceipt'' \<noteq> Some PNone \<longleftrightarrow> er_status r = ''EXECUTED'') \<and>
     map_of doc ''actionId'' = Some (PStr (tr_task_id req))"
  using execute_returned [OF assms]
  by (auto simp: outcome_ok_def execution_post_def own_receipt_def to_nexus_action_result_def
      nexus_status_def)

section \<open>A concrete composition\<close>

text \<open>A registry that answers the health check, the in-memory guard, and clocks that stand still.\<close>

definition demo_env :: "string set hive_env" where
  "demo_env =
     \<lparr>he_utc = ret 500000, he_mono = ret 0, he_import = ret (),
      he_guard = Some InMemoryReplayGuard_claim_once,
      he_dispatch = (\<lambda>q. ret \<lparr>hr_request_id = hq_id q, hr_target_node = hq_target_node q,
        hr_action = hq_action q, hr_status = ''dry_run'', hr_correlation = None\<rparr>)\<rparr>"

definition demo_local_kernel :: "string set ActionKernel" where
  "demo_local_kernel = ActionKernel_init [(''node-1'', [(''synthetic_status'', ''ok'')])] {''ruku''} None True
     2048 2048 (Some (\<lambda>_. ret ())) ''cybercore-local'' (ret (DateTime 10 (Some 0)))"

lemma demo_env_sound: "sound_env id demo_env"
  by (simp add: sound_env_def demo_env_def keeps_claims_def ret_def memory.replay_guard_axioms)

definition demo_receipt :: ExecutionReceipt where
  "demo_receipt = make_receipt demo_local_kernel demo_task ''ruku''
     (make_verdict demo_local_kernel demo_task ''ruku'' ''ALLOW'' ''READ_ONLY_ALLOWED'' (DateTime 10 (Some 0)))
     ''EXECUTED'' ''SYNTHETIC_ONLY'' None (DateTime 10 (Some 0))"

lemma demo_check: "check_receipt demo_task ''ruku'' demo_receipt = Inr ()"
  by (simp add: check_receipt_def demo_receipt_def make_receipt_def make_verdict_def receipt_mismatch_def
      dt_equal_def lifetime_exceeded_def aware_def dt_le_def demo_kernel_defs
      MAX_AUTHORIZATION_LIFETIME_def minutes_def)

lemma unlogged_ret [simp]: "unlogged (ret x) = ret x"
  by (simp add: unlogged_def zoom_def ret_def)

lemma demo_env_fields:
  "he_utc (logged_env demo_env) = ret 500000" "he_mono (logged_env demo_env) = ret 0"
  "he_import (logged_env demo_env) = ret ()"
  "he_guard (logged_env demo_env) = Some (\<lambda>key. unlogged (InMemoryReplayGuard_claim_once key))"
  "he_dispatch (logged_env demo_env) q =
     seq (modify (\<lambda>p. (fst p, snd p @ [q])))
       (ret \<lparr>hr_request_id = hq_id q, hr_target_node = hq_target_node q,
        hr_action = hq_action q, hr_status = ''dry_run'', hr_correlation = None\<rparr>)"
  by (simp_all add: logged_env_def demo_env_def)

lemma demo_shape: "\<exists>shaped. to_hive_health_dry_run demo_task ''ruku'' = Inr shaped"
  by (simp add: to_hive_health_dry_run_def demo_kernel_defs)

lemma demo_process_guard:
  "eg_max_entries PROCESS_REPLAY_GUARD = 4096" "eg_max_per_actor PROCESS_REPLAY_GUARD = 128"
  "eg_claimed_until PROCESS_REPLAY_GUARD = []"
  by (simp_all add: PROCESS_REPLAY_GUARD_def ExpiringGuard_init_def)

lemma demo_dispatch:
  assumes "check_receipt demo_task ''ruku'' r = Inr ()"
  shows "wp (run_local_hive_dry_run (logged_env demo_env) demo_task ''ruku'' r)
     (\<lambda>_ t. dispatch_log t = l @ [hive_request demo_task ''ruku'']) (\<lambda>_ _. False)
     \<lparr>bs_process = PROCESS_REPLAY_GUARD, bs_world = ({}, l)\<rparr>"
proof -
  obtain shaped where "to_hive_health_dry_run demo_task ''ruku'' = Inr shaped"
    using demo_shape by blast
  then show ?thesis
    using assms
    by (simp add: run_local_hive_dry_run_def wp_simps assert_not_expired_def check_budget_def
        Let_def demo_env_fields demo_kernel_fields aware_def bridge_dispatch_def bridge_claim_once_def
        ExpiringGuard_claim_once_def demo_process_guard unexpired_claims_def actor_claims_def
        InMemoryReplayGuard_claim_once_def unlogged_def accept_result_def hive_request_def
        dispatch_log_def)
qed

lemma bridge_dispatches_at_most_once_witness:
  "distinct (map request_key (dispatch_log
     (fold (bridge_step (logged_env demo_env))
        [(demo_task, ''ruku'', demo_receipt), (demo_task, ''ruku'', demo_receipt)]
        \<lparr>bs_process = PROCESS_REPLAY_GUARD, bs_world = ({}, [])\<rparr>)))"
  by (rule bridge_dispatches_at_most_once [OF demo_env_sound])


lemma kernel_receipts_serialise_witness:
  "\<exists>r t doc. Kernel_execute demo_kernel demo_task ''ruku'' demo_start = (Inr r, t) \<and>
     to_nexus_action_result r = Inr doc \<and> map_of doc ''status'' = Some (PStr ''completed'')"
proof -
  obtain r t where x: "Kernel_execute demo_kernel demo_task ''ruku'' demo_start = (Inr r, t)"
    "er_status r = ''EXECUTED''" using demo_execute by blast
  from kernel_receipts_serialise [OF x(1)] x show ?thesis by blast
qed

abbreviation demo_full_kernel :: "string set logged ActionKernel" where
  "demo_full_kernel \<equiv> logged_kernel demo_local_kernel"

lemma demo_full_fields:
  "ak_sink demo_full_kernel = Some (\<lambda>_. ret ())" "ak_clock demo_full_kernel = ret (DateTime 10 (Some 0))"
  "ak_max_evidence_bytes demo_full_kernel = 2048"
  "request_denial demo_full_kernel demo_task ''ruku'' = None"
  "capability_denial demo_full_kernel demo_task = None"
  "target_status demo_full_kernel ''node-1'' = Inr ''ok''"
  by (simp_all add: logged_kernel_def demo_local_kernel_def demo_kernel_defs request_denial_def
      capability_denial_def target_status_def valid_provenance_def aware_def sort_items_def)

lemma demo_full_check:
  "check_receipt demo_task ''ruku'' (make_receipt demo_full_kernel demo_task ''ruku''
     (make_verdict demo_full_kernel demo_task ''ruku'' ''ALLOW'' ''READ_ONLY_ALLOWED'' t)
     ''EXECUTED'' ''SYNTHETIC_ONLY'' ev (DateTime 10 (Some 0))) = Inr ()"
  by (simp add: check_receipt_def make_receipt_def make_verdict_def receipt_mismatch_def
      dt_equal_def lifetime_exceeded_def aware_def dt_le_def demo_kernel_defs
      MAX_AUTHORIZATION_LIFETIME_def minutes_def)

lemma demo_full_execute:
  "wp (Kernel_execute demo_full_kernel demo_task ''ruku'')
     (\<lambda>r t. er_status r = ''EXECUTED'' \<and> vd_decision (er_policy r) = ''ALLOW'' \<and>
        check_receipt demo_task ''ruku'' r = Inr () \<and> ks_world t = ({}, [])) (\<lambda>_ _. False)
     \<lparr>ks_used = {}, ks_world = ({}, [])\<rparr>"
proof -
  obtain x where "json_dumps True True (evidence_payload ''node-1'' ''ok'') = Inr x" "length x \<le> 2048"
    using demo_evidence by blast
  then show ?thesis
    by (simp add: Kernel_execute_def Kernel_audit_def Kernel_now_def Kernel_evaluate_policy_def
        Kernel_policy_at_def Kernel_verdict_def Kernel_receipt_def Kernel_commit_def
        Kernel_dispatch_def demo_full_fields demo_kernel_fields demo_full_check wp_simps dt_le_def aware_def)
qed

definition demo_broker :: "string set logged broker_state" where
  "demo_broker = \<lparr>bk_used = {}, bk_process = PROCESS_REPLAY_GUARD, bk_world = ({}, [])\<rparr>"

lemma broker_dispatches_only_permitted_witness:
  "kernel_permits demo_local_kernel demo_task ''ruku''"
proof -
  have actor: "\<not> (''ruku'' = [] \<or> tr_actor demo_task \<noteq> ''ruku'')" by (simp add: demo_task_def)
  have "wp (Broker_execute demo_full_kernel (logged_env demo_env) demo_task ''ruku'')
      (\<lambda>_ t. snd (bk_world t) \<noteq> snd (bk_world demo_broker)) (\<lambda>_ _. False) demo_broker"
    unfolding Broker_execute_def if_not_P [OF actor] on_kernel_def on_bridge_def wp_bind wp_zoom
    by (simp add: demo_broker_def, rule wp_mono [OF demo_full_execute])
      (auto simp: wp_simps dispatch_log_def demo_broker_def intro!: wp_mono [OF demo_dispatch [of _ "[]"]])
  then obtain res t where "Broker_execute demo_full_kernel (logged_env demo_env) demo_task ''ruku'' demo_broker = (res, t)"
    "snd (bk_world t) \<noteq> snd (bk_world demo_broker)"
    by (auto simp: wp_def split: prod.splits sum.splits)
  from broker_dispatches_only_permitted [OF demo_env_sound this] show ?thesis by blast
qed

end
