(* ===== verification/Kernel_Audit.thy ===== *)
theory Kernel_Audit
  imports Kernel_Properties
begin

text \<open>
  The hash-chained audit database (src/src/cybercore/action_kernel_sqlite_audit.py), checkpoints of
  it (src/src/cybercore/action_kernel_audit_checkpoint.py) and the rules for advancing an external
  anchor (src/src/cybercore/action_kernel_anchor_authority.py).

  The table \<open>audit_events\<close> is the list of its rows in the order of \<open>seq\<close>. What can fail outside the
  code (opening the database, a lock, the disk) is a parameter: a procedure on the rest of the
  storage that may raise before anything is written; a transaction that raises writes nothing.
\<close>

section \<open>The table\<close>

record AuditRow =
  ar_seq :: int
  ar_payload :: string
  ar_previous_hash :: string
  ar_event_hash :: string

record 'v audit_db =
  ad_rows :: "AuditRow list"
  ad_last_seq :: int
  ad_storage :: 'v

definition GENESIS :: string where
  "GENESIS = replicate 64 CHR ''0''"

definition chain_hash :: "string \<Rightarrow> string \<Rightarrow> string" where
  "chain_hash prior payload = sha256_hex (prior @ [CHR 0x0A] @ payload)"

section \<open>The sink\<close>

definition event_document :: "AuditEvent \<Rightarrow> pyval" where
  "event_document e = PDict
     [(''schema_version'', PStr (ae_schema_version e)), (''stage'', PStr (ae_stage e)),
      (''task_id'', PStr (ae_task_id e)), (''correlation_id'', PStr (ae_correlation_id e)),
      (''actor'', PStr (ae_actor e)), (''capability'', PStr (ae_capability e)),
      (''target_id'', PStr (ae_target_id e)), (''outcome'', PStr (ae_outcome e)),
      (''reason'', PStr (ae_reason e)), (''occurred_at'', PStr (isoformat (ae_occurred_at e))),
      (''provenance'', as_nexus (ae_provenance e)),
      (''evidence_sha256'', case ae_evidence_sha256 e of None \<Rightarrow> PNone | Some h \<Rightarrow> PStr h)]"

definition event_payload :: "AuditEvent \<Rightarrow> string" where
  "event_payload e = projr (json_dumps False True (event_document e))"

lemma event_document_encodes: "json_dumps False True (event_document e) = Inr (event_payload e)"
proof -
  have "encodes False True (as_nexus p)" for p by (simp add: as_nexus_def split: option.split)
  then have "encodes False True (event_document e)" by (simp add: event_document_def split: option.split)
  then show ?thesis by (auto simp: event_payload_def encodes_def)
qed

definition last_hash :: "AuditRow list \<Rightarrow> string" where
  "last_hash rows = (if rows = [] then GENESIS else ar_event_hash (last rows))"

definition append_event :: "string \<Rightarrow> 'v audit_db \<Rightarrow> 'v audit_db" where
  "append_event payload d =
     (let previous = last_hash (ad_rows d); seq = ad_last_seq d + 1 in
      d\<lparr>ad_rows := ad_rows d @
          [\<lparr>ar_seq = seq, ar_payload = payload, ar_previous_hash = previous,
            ar_event_hash = chain_hash previous payload\<rparr>],
        ad_last_seq := seq\<rparr>)"

definition SQLiteAuditSink_init :: "string \<Rightarrow> bool \<Rightarrow> pyexn option" where
  "SQLiteAuditSink_init path absolute =
     (if \<not> absolute \<or> path = '':memory:''
      then Some (ValueError ''Audit database requires an absolute file path'') else None)"

definition SQLiteAuditSink_call ::
  "('v, pyexn, unit) proc \<Rightarrow> AuditEvent \<Rightarrow> ('v audit_db, pyexn, unit) proc" where
  "SQLiteAuditSink_call open_db e =
     bind (lift (case json_dumps False True (event_document e) of
                   Inl x \<Rightarrow> Inl (json_exn x) | Inr p \<Rightarrow> Inr p)) (\<lambda>payload.
     if 8192 < length payload then raise (ValueError ''Audit payload exceeds limit'')
     else seq (zoom ad_storage (\<lambda>v d. d\<lparr>ad_storage := v\<rparr>) open_db)
       (modify (append_event payload)))"

section \<open>Verification\<close>

fun verify_rows :: "string \<Rightarrow> int \<Rightarrow> AuditRow list \<Rightarrow> bool" where
  "verify_rows previous previous_seq [] = True"
| "verify_rows previous previous_seq (r # rs) =
     (if ar_seq r \<noteq> previous_seq + 1 \<or> ar_previous_hash r \<noteq> previous then False
      else if chain_hash (ar_previous_hash r) (ar_payload r) \<noteq> ar_event_hash r then False
      else verify_rows (ar_event_hash r) (ar_seq r) rs)"

definition verify_chain :: "AuditRow list \<Rightarrow> bool" where
  "verify_chain rows = verify_rows GENESIS 0 rows"

section \<open>Checkpoints\<close>

record AuditCheckpoint =
  ac_sequence :: int
  ac_event_hash :: string
  ac_database_identity :: string

text \<open>
  \<open>int(text, 16)\<close>: surrounding white space, a sign, the prefix \<open>0x\<close>, and single underscores between
  digits are accepted. (Decimal digits outside ASCII are not modelled.)
\<close>

definition hex_char :: "char \<Rightarrow> bool" where
  "hex_char c \<longleftrightarrow> c \<in> set ''0123456789abcdefABCDEF''"

fun hex_digits :: "bool \<Rightarrow> string \<Rightarrow> bool" where
  "hex_digits after_digit [] = after_digit"
| "hex_digits after_digit (c # s) =
     (if hex_char c then hex_digits True s
      else c = CHR ''_'' \<and> after_digit \<and> s \<noteq> [] \<and> hex_digits False s)"

definition parses_base16 :: "string \<Rightarrow> bool" where
  "parses_base16 s =
     (let t = strip s;
          u = (if t \<noteq> [] \<and> (hd t = CHR ''+'' \<or> hd t = CHR ''-'') then tl t else t) in
      if startswith u ''0x'' \<or> startswith u ''0X''
      then (let v = drop 2 u in hex_digits False (if startswith v ''_'' then tl v else v))
      else hex_digits False u)"

definition AuditCheckpoint_init :: "int \<Rightarrow> string \<Rightarrow> string \<Rightarrow> pyexn + AuditCheckpoint" where
  "AuditCheckpoint_init sequence event_hash identity =
     (if sequence < 0 \<or> length event_hash \<noteq> 64 then Inl (ValueError ''Invalid checkpoint'')
      else if blank identity then Inl (ValueError ''Missing database identity'')
      else if \<not> parses_base16 event_hash then Inl (ValueError ''Invalid checkpoint digest'')
      else Inr \<lparr>ac_sequence = sequence, ac_event_hash = event_hash,
                ac_database_identity = identity\<rparr>)"

text \<open>The loop of \<open>_verified_snapshot\<close>.\<close>

fun snapshot_rows :: "string \<Rightarrow> int \<Rightarrow> AuditRow list \<Rightarrow> pyexn + (int \<times> string) list" where
  "snapshot_rows previous previous_seq [] = Inr []"
| "snapshot_rows previous previous_seq (r # rs) =
     (if ar_seq r \<noteq> previous_seq + 1 \<or> ar_previous_hash r \<noteq> previous
        then Inl (ValueError ''Audit chain verification failed'')
      else if ar_event_hash r \<noteq> chain_hash (ar_previous_hash r) (ar_payload r)
        then Inl (ValueError ''Audit chain verification failed'')
      else case snapshot_rows (ar_event_hash r) (ar_seq r) rs of
        Inl e \<Rightarrow> Inl e
      | Inr snapshot \<Rightarrow> Inr ((ar_seq r, ar_event_hash r) # snapshot))"

text \<open>The database as a reader sees it: an error opening or reading it, or its rows.\<close>

definition verified_snapshot :: "pyexn + AuditRow list \<Rightarrow> pyexn + (int \<times> string) list" where
  "verified_snapshot file =
     (case file of Inl e \<Rightarrow> Inl e | Inr rows \<Rightarrow> snapshot_rows GENESIS 0 rows)"

definition audit_checkpoint :: "pyexn + AuditRow list \<Rightarrow> string \<Rightarrow> pyexn + AuditCheckpoint" where
  "audit_checkpoint file identity =
     (case verified_snapshot file of
        Inl e \<Rightarrow> Inl e
      | Inr snapshot \<Rightarrow>
          if snapshot = [] then AuditCheckpoint_init 0 GENESIS identity
          else AuditCheckpoint_init (fst (last snapshot)) (snd (last snapshot)) identity)"

text \<open>Which errors of the snapshot \<open>verify_anchored_checkpoint\<close> turns into \<open>False\<close>.\<close>

fun snapshot_error_handled :: "pyexn \<Rightarrow> bool" where
  "snapshot_error_handled (ValueError msg) = True"
| "snapshot_error_handled StorageError = True"
| "snapshot_error_handled _ = False"

definition verify_anchored_checkpoint ::
  "pyexn + AuditRow list \<Rightarrow> AuditCheckpoint \<Rightarrow> string \<Rightarrow> pyexn + bool" where
  "verify_anchored_checkpoint file cp identity =
     (if ac_database_identity cp \<noteq> identity then Inr False
      else case verified_snapshot file of
        Inl e \<Rightarrow> if snapshot_error_handled e then Inr False else Inl e
      | Inr snapshot \<Rightarrow>
          if ac_sequence cp = 0 then Inr (ac_event_hash cp = GENESIS)
          else let index = ac_sequence cp - 1 in
            Inr (index < int (length snapshot) \<and>
                 snapshot ! nat index = (ac_sequence cp, ac_event_hash cp)))"

section \<open>Anchors\<close>

record AnchorDecision =
  an_accepted :: bool
  an_reason :: string

definition decision :: "bool \<Rightarrow> string \<Rightarrow> AnchorDecision" where
  "decision ok why = \<lparr>an_accepted = ok, an_reason = why\<rparr>"

definition check_anchor_transition :: "AuditCheckpoint option \<Rightarrow> AuditCheckpoint \<Rightarrow> AnchorDecision" where
  "check_anchor_transition previous candidate =
     (case previous of
        None \<Rightarrow> if ac_sequence candidate = 0 then decision False ''GENESIS_IS_NOT_EVIDENCE''
                else decision True ''INITIAL_CANDIDATE''
      | Some p \<Rightarrow>
          if ac_database_identity p \<noteq> ac_database_identity candidate
            then decision False ''DATABASE_IDENTITY_MISMATCH''
          else if ac_sequence candidate < ac_sequence p then decision False ''ANCHOR_ROLLBACK''
          else if ac_sequence candidate = ac_sequence p then
            (if ac_event_hash candidate \<noteq> ac_event_hash p then decision False ''ANCHOR_EQUIVOCATION''
             else decision False ''ALREADY_ANCHORED'')
          else decision True ''ADVANCED_CANDIDATE'')"

definition verify_and_propose_anchor ::
  "pyexn + AuditRow list \<Rightarrow> AuditCheckpoint \<Rightarrow> AuditCheckpoint option \<Rightarrow> pyexn + AnchorDecision" where
  "verify_and_propose_anchor file candidate previous =
     (let d = check_anchor_transition previous candidate in
      if \<not> an_accepted d then Inr d
      else case verify_anchored_checkpoint file candidate (ac_database_identity candidate) of
        Inl e \<Rightarrow> Inl e
      | Inr ok \<Rightarrow> Inr (if ok then d else decision False ''LOCAL_HISTORY_MISMATCH''))"

end
