(* ===== verification/Kernel_Chain.thy ===== *)
theory Kernel_Chain
  imports Kernel_Audit
begin

text \<open>
  The hash chain: what the sink appends always verifies, two verified chains that agree at their
  end agree everywhere or show a collision of SHA-256, and so a checkpoint binds the prefix it was
  taken from. The sink keeps the contract the kernel relies on.
\<close>

section \<open>Verified chains\<close>

definition row_view :: "AuditRow \<Rightarrow> int \<times> string" where
  "row_view r = (ar_seq r, ar_event_hash r)"

lemma snapshot_verify:
  "snapshot_rows p n rows =
     (if verify_rows p n rows then Inr (map row_view rows)
      else Inl (ValueError ''Audit chain verification failed''))"
  by (induction p n rows rule: verify_rows.induct) (auto simp: row_view_def)

lemma verify_rows_snoc:
  "verify_rows p n (rs @ [r]) \<longleftrightarrow>
     verify_rows p n rs \<and> ar_seq r = (if rs = [] then n else ar_seq (last rs)) + 1 \<and>
     ar_previous_hash r = (if rs = [] then p else ar_event_hash (last rs)) \<and>
     ar_event_hash r = chain_hash (ar_previous_hash r) (ar_payload r)"
  by (induction p n rs rule: verify_rows.induct) auto

lemma verify_rows_append: "verify_rows p n (xs @ ys) \<Longrightarrow> verify_rows p n xs"
  by (induction p n xs rule: verify_rows.induct) (auto split: if_splits)

lemma verify_rows_seq:
  "verify_rows p n rows \<Longrightarrow> i < length rows \<Longrightarrow> ar_seq (rows ! i) = n + int i + 1"
  by (induction p n rows arbitrary: i rule: verify_rows.induct) (auto simp: nth_Cons split: nat.splits if_splits)

lemma verify_chain_last_seq:
  assumes "verify_chain rows" and "rows \<noteq> []"
  shows "ar_seq (last rows) = int (length rows)"
proof -
  have "ar_seq (rows ! (length rows - 1)) = 0 + int (length rows - 1) + 1"
    using assms by (intro verify_rows_seq [of GENESIS]) (auto simp: verify_chain_def)
  moreover have "int (length rows - 1) + 1 = int (length rows)"
    using assms(2) by (cases rows) auto
  ultimately show ?thesis using assms(2) by (simp add: last_conv_nth)
qed

lemma verify_chain_snoc:
  "verify_chain (rs @ [r]) \<longleftrightarrow>
     verify_chain rs \<and> ar_seq r = int (length rs) + 1 \<and> ar_previous_hash r = last_hash rs \<and>
     ar_event_hash r = chain_hash (ar_previous_hash r) (ar_payload r)"
  using verify_chain_last_seq [of rs]
  by (auto simp: verify_chain_def verify_rows_snoc last_hash_def)

lemma length_last_hash: "verify_chain rs \<Longrightarrow> length (last_hash rs) = 64"
  by (cases rs rule: rev_cases) (auto simp: verify_chain_snoc last_hash_def GENESIS_def chain_hash_def)

section \<open>The sink keeps the chain\<close>

definition db_ok :: "'v audit_db \<Rightarrow> bool" where
  "db_ok d \<longleftrightarrow> verify_chain (ad_rows d) \<and> ad_last_seq d = int (length (ad_rows d))"

lemma append_event_ok: "db_ok d \<Longrightarrow> db_ok (append_event payload d)"
  by (simp add: db_ok_def append_event_def Let_def verify_chain_snoc)

lemma sink_outcome:
  "wp (SQLiteAuditSink_call open_db e)
     (\<lambda>_ t. \<exists>v. t = append_event (event_payload e) (d\<lparr>ad_storage := v\<rparr>))
     (\<lambda>_ t. \<exists>v. t = d\<lparr>ad_storage := v\<rparr>) d"
  unfolding SQLiteAuditSink_call_def event_document_encodes
  by (auto simp: wp_simps intro!: wpI) (metis audit_db.surjective audit_db.update_convs(3))

lemma append_event_payloads:
  "map ar_payload (ad_rows (append_event payload d)) = map ar_payload (ad_rows d) @ [payload]"
  by (simp add: append_event_def Let_def)

interpretation chain: audit_sink "SQLiteAuditSink_call (open_db :: ('v, pyexn, unit) proc)" event_payload
  "\<lambda>d. map ar_payload (ad_rows d)"
proof unfold_locales
  fix e x and w w' :: "'v audit_db"
  show "SQLiteAuditSink_call open_db e w = (Inr (), w') \<Longrightarrow>
      map ar_payload (ad_rows w') = map ar_payload (ad_rows w) @ [event_payload e]"
    by (drule wp_returned [OF sink_outcome]) (auto simp: append_event_payloads)
  show "SQLiteAuditSink_call open_db e w = (Inl x, w') \<Longrightarrow>
      map ar_payload (ad_rows w') = map ar_payload (ad_rows w)"
    by (drule wp_raised [OF sink_outcome]) auto
qed

definition sink_step :: "('v, pyexn, unit) proc \<Rightarrow> AuditEvent \<Rightarrow> 'v audit_db \<Rightarrow> 'v audit_db" where
  "sink_step open_db e d = snd (SQLiteAuditSink_call open_db e d)"

lemma db_ok_storage [simp]: "db_ok (d\<lparr>ad_storage := v\<rparr>) = db_ok d"
  by (simp add: db_ok_def)

lemma sink_step_ok: "db_ok d \<Longrightarrow> db_ok (sink_step open_db e d)"
proof -
  assume "db_ok d"
  then have "wp (SQLiteAuditSink_call open_db e) (\<lambda>_ t. db_ok t) (\<lambda>_ t. db_ok t) d"
    by (auto intro!: wp_mono [OF sink_outcome] append_event_ok)
  then show ?thesis by (simp add: sink_step_def wp_post)
qed

interpretation writer: reactive "sink_step open_db" "\<lambda>_. True" db_ok
  by unfold_locales (rule sink_step_ok)

section \<open>Binding\<close>

definition chain_input :: "AuditRow \<Rightarrow> string" where
  "chain_input r = ar_previous_hash r @ [CHR 0x0A] @ ar_payload r"

definition hash_collision :: "string \<Rightarrow> string \<Rightarrow> bool" where
  "hash_collision x y \<longleftrightarrow> x \<noteq> y \<and> sha256_hex x = sha256_hex y"

definition colliding_rows :: "AuditRow list \<Rightarrow> AuditRow list \<Rightarrow> bool" where
  "colliding_rows xs ys \<longleftrightarrow>
     (\<exists>r \<in> set xs. \<exists>r' \<in> set ys. hash_collision (chain_input r) (chain_input r'))"

lemma chains_agree:
  "verify_chain xs \<Longrightarrow> verify_chain ys \<Longrightarrow> length xs = length ys \<Longrightarrow> last_hash xs = last_hash ys \<Longrightarrow>
     xs = ys \<or> colliding_rows xs ys"
proof (induction xs arbitrary: ys rule: rev_induct)
  case Nil
  then show ?case by simp
next
  case (snoc r rs)
  then obtain rs' r' where ys: "ys = rs' @ [r']" by (cases ys rule: rev_cases) auto
  have v: "verify_chain rs" "verify_chain rs'" "length rs = length rs'"
    "ar_seq r = ar_seq r'" "ar_event_hash r = ar_event_hash r'"
    "ar_previous_hash r = last_hash rs" "ar_previous_hash r' = last_hash rs'"
    "ar_event_hash r = sha256_hex (chain_input r)" "ar_event_hash r' = sha256_hex (chain_input r')"
    using snoc.prems unfolding ys verify_chain_snoc
    by (auto simp: last_hash_def chain_input_def chain_hash_def)
  show ?case
  proof (cases "chain_input r = chain_input r'")
    case False
    then have "hash_collision (chain_input r) (chain_input r')"
      using v by (simp add: hash_collision_def)
    then show ?thesis unfolding ys by (auto simp: colliding_rows_def)
  next
    case True
    moreover have "length (ar_previous_hash r) = length (ar_previous_hash r')"
      using v length_last_hash by simp
    ultimately have eq: "ar_previous_hash r = ar_previous_hash r'" "ar_payload r = ar_payload r'"
      by (auto simp: chain_input_def)
    then have "r = r'" using v by simp
    moreover have "rs = rs' \<or> colliding_rows rs rs'"
      using snoc.IH v eq by simp
    ultimately show ?thesis unfolding ys by (auto simp: colliding_rows_def)
  qed
qed

lemma verify_chain_take: "verify_chain rows \<Longrightarrow> verify_chain (take n rows)"
  using verify_rows_append [of GENESIS 0 "take n rows" "drop n rows"] by (simp add: verify_chain_def)

section \<open>Checkpoints\<close>

lemma checkpoint_of_chain:
  assumes "audit_checkpoint (Inr rows) identity = Inr cp"
  shows "verify_chain rows \<and> ac_sequence cp = int (length rows) \<and> ac_event_hash cp = last_hash rows \<and>
     ac_database_identity cp = identity"
  using assms verify_chain_last_seq [of rows]
  by (auto simp: audit_checkpoint_def verified_snapshot_def snapshot_verify AuditCheckpoint_init_def
      last_hash_def last_map row_view_def verify_chain_def split: if_splits)

lemma anchored_prefix:
  assumes "verify_anchored_checkpoint (Inr rows) cp identity = Inr True" and "0 < ac_sequence cp"
  shows "verify_chain rows \<and> ac_sequence cp \<le> int (length rows) \<and>
     last_hash (take (nat (ac_sequence cp)) rows) = ac_event_hash cp"
proof -
  let ?n = "nat (ac_sequence cp)"
  have v: "verify_chain rows" and n: "ac_sequence cp - 1 < int (length rows)"
    and at: "map row_view rows ! nat (ac_sequence cp - 1) = (ac_sequence cp, ac_event_hash cp)"
    using assms
    by (auto simp: verify_anchored_checkpoint_def verified_snapshot_def snapshot_verify Let_def
        verify_chain_def split: if_splits)
  from n assms(2) have lt: "nat (ac_sequence cp - 1) < length rows" and m: "?n = Suc (nat (ac_sequence cp - 1))"
    by linarith+
  have "last (take ?n rows) = rows ! nat (ac_sequence cp - 1)"
    using lt m by (simp add: take_Suc_conv_app_nth)
  moreover have "take ?n rows \<noteq> []" using lt m by auto
  moreover have "ar_event_hash (rows ! nat (ac_sequence cp - 1)) = ac_event_hash cp"
    using at lt by (simp add: row_view_def)
  ultimately show ?thesis
    using v n by (simp add: last_hash_def)
qed

lemma anchored_extension:
  assumes "audit_checkpoint (Inr rows) identity = Inr cp" and "verify_chain (rows @ tail)"
  shows "verify_anchored_checkpoint (Inr (rows @ tail)) cp identity = Inr True"
proof -
  from checkpoint_of_chain [OF assms(1)] have cp: "ac_sequence cp = int (length rows)"
    "ac_event_hash cp = last_hash rows" "ac_database_identity cp = identity" "verify_chain rows" by auto
  show ?thesis
  proof (cases "rows = []")
    case True
    with cp show ?thesis
      using assms(2) by (simp add: verify_anchored_checkpoint_def verified_snapshot_def snapshot_verify
          verify_chain_def last_hash_def)
  next
    case False
    have "nat (int (length rows) - 1) = length rows - 1" by simp
    moreover have "(map row_view rows @ map row_view tail) ! (length rows - 1) = row_view (last rows)"
      using False by (simp add: nth_append last_conv_nth)
    ultimately show ?thesis
      using False cp assms(2) verify_chain_last_seq [OF cp(4) False]
      by (simp add: verify_anchored_checkpoint_def verified_snapshot_def snapshot_verify
          verify_chain_def last_hash_def row_view_def Let_def)
  qed
qed

lemma hex_digits_all: "list_all hex_char s \<Longrightarrow> s \<noteq> [] \<or> b \<Longrightarrow> hex_digits b s"
  by (induction b s rule: hex_digits.induct) auto

lemma parses_lower_hex:
  assumes "set s \<subseteq> set ''0123456789abcdef''" and "s \<noteq> []"
  shows "parses_base16 s"
proof -
  have "list_all (\<lambda>c. visible c \<and> hex_char c \<and> c \<notin> set ''+-xX'') ''0123456789abcdef''"
    by (simp add: visible_def hex_char_def)
  then have all: "visible c \<and> hex_char c \<and> c \<notin> set ''+-xX''" if "c \<in> set s" for c
    using that assms(1) by (simp only: list_all_iff) blast
  have "list_all visible s" "list_all hex_char s"
    using all by (simp_all add: list_all_iff)
  moreover have "hd s \<noteq> CHR ''+'' \<and> hd s \<noteq> CHR ''-''"
    using all [of "hd s"] assms(2) by simp
  moreover have "CHR ''x'' \<notin> set s" "CHR ''X'' \<notin> set s"
    using all [of "CHR ''x''"] all [of "CHR ''X''"] by auto
  then have "\<not> startswith s ''0x''" "\<not> startswith s ''0X''"
    by (auto simp: startswith_def prefix_def)
  ultimately show ?thesis
    using assms(2) by (simp add: parses_base16_def strip_visible hex_digits_all Let_def)
qed

lemma last_hash_hex: "verify_chain rows \<Longrightarrow> set (last_hash rows) \<subseteq> set ''0123456789abcdef''"
  using set_sha256_hex
  by (cases rows rule: rev_cases) (auto simp: last_hash_def verify_chain_snoc chain_hash_def GENESIS_def)

lemma checkpoint_exists:
  assumes "verify_chain rows" and "\<not> blank identity"
  shows "\<exists>cp. audit_checkpoint (Inr rows) identity = Inr cp"
proof -
  have "last_hash rows \<noteq> []" using length_last_hash [OF assms(1)] by auto
  then have "parses_base16 (last_hash rows)"
    by (intro parses_lower_hex last_hash_hex [OF assms(1)])
  then show ?thesis
    using assms verify_chain_last_seq [OF assms(1)] length_last_hash [OF assms(1)]
    by (cases "rows = []") (simp_all add: audit_checkpoint_def verified_snapshot_def snapshot_verify
        verify_chain_def AuditCheckpoint_init_def last_hash_def last_map row_view_def)
qed

section \<open>Properties\<close>

text \<open>C13: The audit database always verifies: whatever events are given to the sink, and whenever the
  storage fails, \<open>verify_chain\<close> holds on a database that was started empty.\<close>

theorem audit_chain_always_verifies:
  assumes "ad_rows d = []" and "ad_last_seq d = 0"
  shows "verify_chain (ad_rows (fold (sink_step open_db) es d))"
proof -
  have "db_ok d" using assms by (simp add: db_ok_def verify_chain_def)
  then have "db_ok (fold (sink_step open_db) es d)"
    by (intro writer.run_inv) (simp_all add: list_all_iff)
  then show ?thesis by (simp add: db_ok_def)
qed

text \<open>C14: Tampering shows: if a checkpoint was taken from a non-empty database and a later database is
  accepted against it, then the later one begins with exactly the rows the checkpoint was taken
  from, payloads included, or two rows are exhibited whose different contents have the same SHA-256
  digest.\<close>

theorem checkpoint_binds_history:
  assumes "audit_checkpoint (Inr rows) identity = Inr cp" and "rows \<noteq> []"
    and "verify_anchored_checkpoint (Inr later) cp identity = Inr True"
  shows "take (length rows) later = rows \<or> colliding_rows rows (take (length rows) later)"
proof -
  from checkpoint_of_chain [OF assms(1)] have cp: "ac_sequence cp = int (length rows)"
    "ac_event_hash cp = last_hash rows" "verify_chain rows" by auto
  with assms(2) have "0 < ac_sequence cp" by simp
  from anchored_prefix [OF assms(3) this] cp have "verify_chain later" "length rows \<le> length later"
    "last_hash (take (length rows) later) = last_hash rows" by auto
  then show ?thesis
    using chains_agree [OF cp(3) verify_chain_take, of later "length rows"] by auto
qed

text \<open>No false alarm: a database that only grew since the checkpoint was taken, and still verifies,
  is accepted against it.\<close>

theorem checkpoint_accepts_extension:
  assumes "audit_checkpoint (Inr rows) identity = Inr cp" and "verify_chain (rows @ tail)"
  shows "verify_anchored_checkpoint (Inr (rows @ tail)) cp identity = Inr True"
  using assms by (rule anchored_extension)

text \<open>Kernel and database together: with the SQLite sink on a sound database, and a clock that
  does not write to it, executing a task appends exactly the four events of its trail to the table,
  as JSON, and the table still verifies.\<close>

theorem executed_trail_is_chained:
  assumes "ak_sink ak = Some (SQLiteAuditSink_call open_db)"
    and "\<And>d. ad_rows (snd (ak_clock ak d)) = ad_rows d \<and> ad_last_seq (snd (ak_clock ak d)) = ad_last_seq d"
    and "db_ok (ks_world s)" and "Kernel_execute ak req ta s = (Inr r, t)"
    and "er_status r = ''EXECUTED''"
  shows "verify_chain (ad_rows (ks_world t)) \<and>
     (\<exists>es ev. map ar_payload (ad_rows (ks_world t)) =
          map ar_payload (ad_rows (ks_world s)) @ map event_payload es \<and>
        er_evidence r = Some ev \<and> executed_trail ak req es ev)"
proof -
  have "db_ok w'" if "audited ak es w w'" and "db_ok w" for es w w'
    using that
  proof (induction rule: audited.induct)
    case (clock es w w1 x w2)
    with assms(2) [of w1] show ?case by (simp add: db_ok_def)
  next
    case (accept es w w1 sink e w2)
    with assms(1) sink_step_ok [of w1 open_db e] show ?case by (simp add: sink_step_def)
  next
    case (reject es w w1 sink e x w2)
    with assms(1) sink_step_ok [of w1 open_db e] show ?case by (simp add: sink_step_def)
  qed simp
  then have "db_ok (ks_world t)"
    using execute_returned [OF assms(4)] assms(3) by (auto simp: outcome_ok_def)
  moreover have "map ar_payload (ad_rows (snd (ak_clock ak w))) = map ar_payload (ad_rows w)" for w
    using assms(2) by simp
  ultimately show ?thesis
    using chain.execute_log [OF assms(1) _ assms(4)] assms(5)
    by (auto simp: db_ok_def execution_post_def executed_post_def denied_post_def failed_post_def)
qed

text \<open>The anchor an authority holds after one proposal: it accepts exactly what the code accepts.\<close>

definition anchor_accepts :: "pyexn + AuditRow list \<Rightarrow> AuditCheckpoint \<Rightarrow> AuditCheckpoint option \<Rightarrow> bool" where
  "anchor_accepts db candidate previous =
     (case verify_and_propose_anchor db candidate previous of Inl _ \<Rightarrow> False | Inr d \<Rightarrow> an_accepted d)"

fun anchor_step ::
  "(pyexn + AuditRow list) \<times> AuditCheckpoint \<Rightarrow> AuditCheckpoint option \<Rightarrow> AuditCheckpoint option" where
  "anchor_step (db, candidate) anchor = (if anchor_accepts db candidate anchor then Some candidate else anchor)"

text \<open>Anchors only advance: over any proposals, each checked against the anchor accepted before it
  and against the local database at that time, the accepted anchor keeps its database identity and
  its sequence never falls; at the same sequence it is the same anchor.\<close>

theorem anchors_only_advance:
  "\<exists>last. fold anchor_step proposals (Some before) = Some last \<and>
     ac_database_identity last = ac_database_identity before \<and>
     (ac_sequence before < ac_sequence last \<or> last = before)"
proof (induction proposals arbitrary: before)
  case Nil
  then show ?case by simp
next
  case (Cons p ps)
  obtain db candidate where p: "p = (db, candidate)" by (cases p)
  show ?case
  proof (cases "anchor_accepts db candidate (Some before)")
    case True
    then have "ac_database_identity candidate = ac_database_identity before"
      "ac_sequence before < ac_sequence candidate"
      by (auto simp: anchor_accepts_def verify_and_propose_anchor_def check_anchor_transition_def
          decision_def Let_def split: if_splits sum.splits)
    with True Cons.IH [of candidate] show ?thesis by (force simp: p)
  next
    case False
    with Cons.IH [of before] show ?thesis by (simp add: p)
  qed
qed

section \<open>Concrete databases\<close>

definition demo_db :: "unit audit_db" where
  "demo_db = \<lparr>ad_rows = [], ad_last_seq = 0, ad_storage = ()\<rparr>"

definition demo_event :: AuditEvent where
  "demo_event = make_event demo_kernel demo_task ''ruku'' ''request'' ''OBSERVED'' ''REQUEST_RECEIVED''
     None (DateTime 10 (Some 0))"

definition demo_rows :: "AuditRow list" where
  "demo_rows = ad_rows (append_event (event_payload demo_event) demo_db)"

definition demo_later :: "AuditRow list" where
  "demo_later = ad_rows (append_event (event_payload demo_event)
     (append_event (event_payload demo_event) demo_db))"

lemma demo_db_ok: "db_ok demo_db"
  by (simp add: db_ok_def demo_db_def verify_chain_def)

lemma demo_rows_facts:
  "demo_rows \<noteq> []" "length demo_rows = 1" "verify_chain demo_rows" "verify_chain demo_later"
  "\<exists>tail. demo_later = demo_rows @ tail"
  using append_event_ok [OF demo_db_ok, of "event_payload demo_event"]
    append_event_ok [OF append_event_ok [OF demo_db_ok, of "event_payload demo_event"], of "event_payload demo_event"]
  by (auto simp: demo_rows_def demo_later_def db_ok_def append_event_def demo_db_def Let_def)

lemma demo_blank: "\<not> blank ''db''"
  by (simp add: blank_def strip_visible visible_def)

lemma audit_chain_always_verifies_witness:
  "verify_chain (ad_rows (fold (sink_step (ret ())) [demo_event, demo_event] demo_db))"
  by (rule audit_chain_always_verifies) (simp_all add: demo_db_def)

lemma checkpoint_binds_history_witness:
  "take 1 demo_later = demo_rows \<or> colliding_rows demo_rows (take 1 demo_later)"
proof -
  obtain cp where cp: "audit_checkpoint (Inr demo_rows) ''db'' = Inr cp"
    using checkpoint_exists [OF demo_rows_facts(3) demo_blank] by blast
  obtain tail where tail: "demo_later = demo_rows @ tail" using demo_rows_facts by blast
  with anchored_extension [OF cp, of tail] demo_rows_facts(4)
  have "verify_anchored_checkpoint (Inr demo_later) cp ''db'' = Inr True" by simp
  from checkpoint_binds_history [OF cp demo_rows_facts(1) this] show ?thesis
    by (simp add: demo_rows_facts(2))
qed

lemma checkpoint_accepts_extension_witness:
  "\<exists>cp. audit_checkpoint (Inr demo_rows) ''db'' = Inr cp \<and>
     verify_anchored_checkpoint (Inr demo_later) cp ''db'' = Inr True"
proof -
  obtain cp where cp: "audit_checkpoint (Inr demo_rows) ''db'' = Inr cp"
    using checkpoint_exists [OF demo_rows_facts(3) demo_blank] by blast
  obtain tail where tail: "demo_later = demo_rows @ tail" using demo_rows_facts by blast
  with checkpoint_accepts_extension [OF cp, of tail] demo_rows_facts(4) cp show ?thesis by auto
qed

text \<open>A kernel that writes to the database, with a storage that never fails.\<close>

definition demo_chain_kernel :: "unit audit_db ActionKernel" where
  "demo_chain_kernel = ActionKernel_init [(''node-1'', [(''synthetic_status'', ''ok'')])] {''ruku''} None True
     2048 2048 (Some (SQLiteAuditSink_call (ret ()))) ''cybercore-local'' (ret (DateTime 10 (Some 0)))"

lemma demo_chain_fields:
  "ak_sink demo_chain_kernel = Some (SQLiteAuditSink_call (ret ()))"
  "ak_clock demo_chain_kernel = ret (DateTime 10 (Some 0))"
  "ak_max_evidence_bytes demo_chain_kernel = 2048"
  "request_denial demo_chain_kernel demo_task ''ruku'' = None"
  "capability_denial demo_chain_kernel demo_task = None"
  "target_status demo_chain_kernel ''node-1'' = Inr ''ok''"
  by (simp_all add: demo_chain_kernel_def demo_kernel_defs request_denial_def
      capability_denial_def target_status_def valid_provenance_def aware_def sort_items_def)

lemma escape_visible: "list_all (\<lambda>c. visible c \<and> c \<noteq> CHR 0x22 \<and> c \<noteq> CHR 0x5C) s \<Longrightarrow> escape_utf8 s = s"
  by (induction s rule: escape_utf8.induct) (auto simp: ascii_escape_def visible_def)

lemma escape_sha: "length (escape_utf8 (sha256_hex x)) = 64"
proof -
  have "list_all (\<lambda>c. visible c \<and> c \<noteq> CHR 0x22 \<and> c \<noteq> CHR 0x5C) ''0123456789abcdef''"
    by (simp add: visible_def)
  then have "list_all (\<lambda>c. visible c \<and> c \<noteq> CHR 0x22 \<and> c \<noteq> CHR 0x5C) (sha256_hex x)"
    using set_sha256_hex [of x] by (simp only: list_all_iff) blast
  then show ?thesis by (simp add: escape_visible)
qed

lemma iso: "isoformat (DateTime 10 (Some 0)) = ''0001-01-01T00:00:00.000010+00:00''" by code_simp

abbreviation demo_chain_event :: "string \<Rightarrow> string \<Rightarrow> string \<Rightarrow> string option \<Rightarrow> AuditEvent" where
  "demo_chain_event stage outcome reason sha \<equiv>
     make_event demo_chain_kernel demo_task ''ruku'' stage outcome reason sha (DateTime 10 (Some 0))"

lemma demo_payload_lengths:
  "length (event_payload (demo_chain_event ''request'' ''OBSERVED'' ''REQUEST_RECEIVED'' None)) \<le> 8192"
  "length (event_payload (demo_chain_event ''policy'' ''ALLOW'' ''READ_ONLY_ALLOWED'' None)) \<le> 8192"
  "length (event_payload (demo_chain_event ''execution'' ''COMPLETED'' ''SYNTHETIC_ONLY'' None)) \<le> 8192"
  "length (event_payload (demo_chain_event ''evidence'' ''RECORDED'' ''EVIDENCE_HASHED''
     (Some (sha256_hex x)))) \<le> 8192"
  using escape_sha [of x]
  by (simp_all add: event_payload_def event_document_def as_nexus_def sort_items_def json_string_def
      make_event_def iso kernel_provenance_def demo_chain_kernel_def demo_task_def ActionKernel_init_def
      ACTION_KERNEL_SCHEMA_VERSION_def NEXUS_PROVENANCE_CONTRACT_def ascii_escape_def)

lemma demo_chain_execute:
  "\<exists>r t. Kernel_execute demo_chain_kernel demo_task ''ruku'' (kernel_start demo_db) = (Inr r, t) \<and>
     er_status r = ''EXECUTED''"
proof -
  obtain x where "json_dumps True True (evidence_payload ''node-1'' ''ok'') = Inr x" "length x \<le> 2048"
    using demo_evidence by blast
  then have "wp (Kernel_execute demo_chain_kernel demo_task ''ruku'') (\<lambda>r _. er_status r = ''EXECUTED'')
     (\<lambda>_ _. False) (kernel_start demo_db)"
    using demo_payload_lengths(1-3) demo_payload_lengths(4) [of x]
    by (simp add: Kernel_execute_def Kernel_audit_def Kernel_now_def Kernel_evaluate_policy_def
        Kernel_policy_at_def Kernel_verdict_def Kernel_receipt_def Kernel_commit_def
        Kernel_dispatch_def demo_chain_fields demo_kernel_fields wp_simps dt_le_def aware_def
        kernel_start_def SQLiteAuditSink_call_def event_document_encodes)
  then show ?thesis by (auto simp: wp_def split: prod.splits sum.splits)
qed

lemma executed_trail_is_chained_witness:
  "\<exists>r t. Kernel_execute demo_chain_kernel demo_task ''ruku'' (kernel_start demo_db) = (Inr r, t) \<and>
     verify_chain (ad_rows (ks_world t)) \<and> length (ad_rows (ks_world t)) = 4"
proof -
  obtain r t where x: "Kernel_execute demo_chain_kernel demo_task ''ruku'' (kernel_start demo_db) = (Inr r, t)"
    "er_status r = ''EXECUTED''" using demo_chain_execute by blast
  have quiet: "ad_rows (snd (ak_clock demo_chain_kernel d)) = ad_rows d \<and>
      ad_last_seq (snd (ak_clock demo_chain_kernel d)) = ad_last_seq d" for d
    by (simp add: demo_chain_fields ret_def)
  have ok: "db_ok (ks_world (kernel_start demo_db))" by (simp add: kernel_start_def demo_db_ok)
  from executed_trail_is_chained [OF demo_chain_fields(1) quiet ok x]
  obtain es ev where v: "verify_chain (ad_rows (ks_world t))"
    and es: "map ar_payload (ad_rows (ks_world t)) =
        map ar_payload (ad_rows (ks_world (kernel_start demo_db))) @ map event_payload es"
    and trail: "executed_trail demo_chain_kernel demo_task es ev" by blast
  have "length (map summary es) = 4" using trail by (simp only: executed_trail_def) simp
  moreover have "length (map ar_payload (ad_rows (ks_world t))) = length es"
    unfolding es by (simp add: kernel_start_def demo_db_def)
  ultimately show ?thesis using x v by auto
qed

end
