(* ===== verification/Py_Json_Parse.thy ===== *)
theory Py_Json_Parse
  imports Py_Json Complex_Main
begin

text \<open>
  \<open>json.loads\<close> on a string: plain (\<open>strict = False\<close>), where the last of two values for a key wins, or
  with an \<open>object_pairs_hook\<close> that refuses duplicate keys (\<open>strict = True\<close>). The scanner takes the whole text apart: strings with their escapes (a lone surrogate keeps its three byte form),
  integers of at most 4300 digits, decimal numbers as exact rationals, arrays and objects. The nesting
  is bounded by a fuel that the length of the text always provides.
\<close>

datatype json_load_error = JDecodeError | JDuplicateKey string | JIntTooLong | JFuel

section \<open>Strings\<close>

definition utf8 :: "nat \<Rightarrow> string" where
  "utf8 n =
     (if n < 128 then [char_of n]
      else if n < 2048 then [char_of (192 + n div 64), char_of (128 + n mod 64)]
      else if n < 65536
        then [char_of (224 + n div 4096), char_of (128 + n div 64 mod 64), char_of (128 + n mod 64)]
      else [char_of (240 + n div 262144), char_of (128 + n div 4096 mod 64),
            char_of (128 + n div 64 mod 64), char_of (128 + n mod 64)])"

definition hex_value :: "char \<Rightarrow> nat option" where
  "hex_value c =
     (let n = of_char c in
      if 48 \<le> n \<and> n \<le> 57 then Some (n - 48)
      else if 97 \<le> n \<and> n \<le> 102 then Some (n - 87)
      else if 65 \<le> n \<and> n \<le> 70 then Some (n - 55)
      else None)"

fun hex4_value :: "string \<Rightarrow> (nat \<times> string) option" where
  "hex4_value (a # b # c # d # s) =
     (case (hex_value a, hex_value b, hex_value c, hex_value d) of
        (Some w, Some x, Some y, Some z) \<Rightarrow> Some (4096 * w + 256 * x + 16 * y + z, s)
      | _ \<Rightarrow> None)"
| "hex4_value _ = None"

lemma hex4_value_length: "hex4_value s = Some (n, r) \<Longrightarrow> length r < length s"
  by (induction s rule: hex4_value.induct) (auto split: option.splits)

definition simple_escape :: "char \<Rightarrow> char option" where
  "simple_escape c =
     (if c = CHR 0x22 \<or> c = CHR 0x5C \<or> c = CHR ''/'' then Some c
      else if c = CHR ''b'' then Some (CHR 0x08)
      else if c = CHR ''f'' then Some (CHR 0x0C)
      else if c = CHR ''n'' then Some (CHR 0x0A)
      else if c = CHR ''r'' then Some (CHR 0x0D)
      else if c = CHR ''t'' then Some (CHR 0x09)
      else None)"

text \<open>After \<open>\u\<close>: the character and what is left, joining a surrogate pair.\<close>

definition scan_unicode :: "string \<Rightarrow> (string \<times> string) option" where
  "scan_unicode s =
     (case hex4_value s of
        None \<Rightarrow> None
      | Some (n, r) \<Rightarrow>
          if 55296 \<le> n \<and> n < 56320 \<and> take 2 r = [CHR 0x5C, CHR ''u''] then
            (case hex4_value (drop 2 r) of
               None \<Rightarrow> None
             | Some (m, r') \<Rightarrow>
                 if 56320 \<le> m \<and> m < 57344
                 then Some (utf8 (65536 + 1024 * (n - 55296) + (m - 56320)), r')
                 else Some (utf8 n, r))
          else Some (utf8 n, r))"

lemma scan_unicode_length: "scan_unicode s = Some (t, r) \<Longrightarrow> length r < length s"
  by (auto simp: scan_unicode_def split: option.splits if_splits dest!: hex4_value_length)

text \<open>The text of a string after its opening quote, and what follows the closing one.\<close>

function (sequential) scan_string :: "string \<Rightarrow> (string \<times> string) option" where
  "scan_string [] = None"
| "scan_string (c # s) =
     (if c = CHR 0x22 then Some ([], s)
      else if (of_char c :: nat) < 32 then None
      else if c \<noteq> CHR 0x5C then
        (case scan_string s of None \<Rightarrow> None | Some (t, r) \<Rightarrow> Some (c # t, r))
      else case s of
        [] \<Rightarrow> None
      | e # s' \<Rightarrow>
          if e = CHR ''u'' then
            (case scan_unicode s' of
               None \<Rightarrow> None
             | Some (u, r) \<Rightarrow>
                 (case scan_string r of None \<Rightarrow> None | Some (t, r') \<Rightarrow> Some (u @ t, r')))
          else
            (case simple_escape e of
               None \<Rightarrow> None
             | Some d \<Rightarrow>
                 (case scan_string s' of None \<Rightarrow> None | Some (t, r) \<Rightarrow> Some (d # t, r))))"
  by pat_completeness auto
termination
  by (relation "measure length") (auto dest!: scan_unicode_length)

section \<open>Numbers\<close>

datatype json_number = IntToken int nat | FloatToken rat

definition is_digit :: "char \<Rightarrow> bool" where
  "is_digit c \<longleftrightarrow> (48 :: nat) \<le> of_char c \<and> (of_char c :: nat) \<le> 57"

definition digits_value :: "string \<Rightarrow> nat" where
  "digits_value ds = foldl (\<lambda>n c. 10 * n + (of_char c - 48)) 0 ds"

definition scan_fraction :: "string \<Rightarrow> string \<times> string" where
  "scan_fraction s =
     (case s of
        c # d # r \<Rightarrow> if c = CHR ''.'' \<and> is_digit d then (takeWhile is_digit (d # r), dropWhile is_digit r) else ([], s)
      | _ \<Rightarrow> ([], s))"

text \<open>The exponent, when there is one.\<close>

definition scan_exponent :: "string \<Rightarrow> int option \<times> string" where
  "scan_exponent s =
     (case s of
        [] \<Rightarrow> (None, s)
      | c # r \<Rightarrow>
          if c \<noteq> CHR ''e'' \<and> c \<noteq> CHR ''E'' then (None, s)
          else
            (let neg = (r \<noteq> [] \<and> hd r = CHR ''-'');
                 r' = (if r \<noteq> [] \<and> (hd r = CHR ''-'' \<or> hd r = CHR ''+'') then tl r else r);
                 ds = takeWhile is_digit r' in
             if ds = [] then (None, s)
             else (Some (if neg then - int (digits_value ds) else int (digits_value ds)), dropWhile is_digit r')))"

definition pow10 :: "int \<Rightarrow> rat" where
  "pow10 e = (if 0 \<le> e then 10 ^ nat e else 1 / 10 ^ nat (- e))"

definition scan_unsigned :: "bool \<Rightarrow> string \<Rightarrow> (json_number \<times> string) option" where
  "scan_unsigned neg s =
     (case s of
        [] \<Rightarrow> None
      | c # r \<Rightarrow>
          if \<not> is_digit c then None
          else
            (let ds = (if c = CHR ''0'' then [c] else takeWhile is_digit s);
                 r1 = (if c = CHR ''0'' then r else dropWhile is_digit s);
                 (fs, r2) = scan_fraction r1;
                 (ex, r3) = scan_exponent r2;
                 sign = (if neg then - 1 else 1) in
             if fs = [] \<and> ex = None then Some (IntToken (sign * int (digits_value ds)) (length ds), r3)
             else Some (FloatToken (of_int sign * of_nat (digits_value (ds @ fs)) *
                   pow10 ((case ex of None \<Rightarrow> 0 | Some e \<Rightarrow> e) - int (length fs))), r3)))"

definition scan_number :: "string \<Rightarrow> (json_number \<times> string) option" where
  "scan_number s =
     (case s of
        [] \<Rightarrow> None
      | c # r \<Rightarrow> if c = CHR ''-'' then scan_unsigned True r else scan_unsigned False s)"

text \<open>The value of the text of a float.\<close>

definition float_text_value :: "string \<Rightarrow> rat" where
  "float_text_value s =
     (case scan_number s of
        Some (FloatToken q, []) \<Rightarrow> q
      | Some (IntToken i n, []) \<Rightarrow> of_int i
      | _ \<Rightarrow> 0)"

section \<open>Values\<close>

definition skip_ws :: "string \<Rightarrow> string" where
  "skip_ws s = dropWhile (\<lambda>c. c = CHR '' '' \<or> c = CHR 0x09 \<or> c = CHR 0x0A \<or> c = CHR 0x0D) s"

fun first_duplicate :: "string list \<Rightarrow> string list \<Rightarrow> string option" where
  "first_duplicate seen [] = None"
| "first_duplicate seen (k # ks) = (if k \<in> set seen then Some k else first_duplicate (k # seen) ks)"

text \<open>\<open>dict(pairs)\<close>\<close>

fun set_item :: "string \<Rightarrow> 'a \<Rightarrow> (string \<times> 'a) list \<Rightarrow> (string \<times> 'a) list" where
  "set_item k v [] = [(k, v)]"
| "set_item k v (kv # kvs) = (if fst kv = k then (k, v) # kvs else kv # set_item k v kvs)"

definition make_dict :: "bool \<Rightarrow> (string \<times> pyval) list \<Rightarrow> json_load_error + pyval" where
  "make_dict strict kvs =
     (case (if strict then first_duplicate [] (map fst kvs) else None) of
        Some k \<Rightarrow> Inl (JDuplicateKey k)
      | None \<Rightarrow> Inr (PDict (foldl (\<lambda>d (k, v). set_item k v d) [] kvs)))"

text \<open>The constants, and the numbers.\<close>

definition scan_atom :: "(rat \<Rightarrow> string) \<Rightarrow> string \<Rightarrow> json_load_error + pyval \<times> string" where
  "scan_atom repr s =
     (if startswith s ''null'' then Inr (PNone, drop 4 s)
      else if startswith s ''true'' then Inr (PBool True, drop 4 s)
      else if startswith s ''false'' then Inr (PBool False, drop 5 s)
      else if startswith s ''NaN'' then Inr (PFloat NotANumber, drop 3 s)
      else if startswith s ''Infinity'' then Inr (PFloat PosInfinity, drop 8 s)
      else if startswith s ''-Infinity'' then Inr (PFloat NegInfinity, drop 9 s)
      else case scan_number s of
        None \<Rightarrow> Inl JDecodeError
      | Some (IntToken i n, r) \<Rightarrow> if 4300 < n then Inl JIntTooLong else Inr (PInt i, r)
      | Some (FloatToken q, r) \<Rightarrow> Inr (PFloat (Finite (repr q)), r))"

fun parse_value :: "bool \<Rightarrow> (rat \<Rightarrow> string) \<Rightarrow> nat \<Rightarrow> string \<Rightarrow> json_load_error + pyval \<times> string"
  and parse_items :: "bool \<Rightarrow> (rat \<Rightarrow> string) \<Rightarrow> nat \<Rightarrow> string \<Rightarrow> json_load_error + pyval list \<times> string"
  and parse_members :: "bool \<Rightarrow> (rat \<Rightarrow> string) \<Rightarrow> nat \<Rightarrow> string \<Rightarrow> json_load_error + (string \<times> pyval) list \<times> string" where
  "parse_value strict repr 0 s = Inl JFuel"
| "parse_value strict repr (Suc n) s =
     (case s of
        [] \<Rightarrow> Inl JDecodeError
      | c # r \<Rightarrow>
          if c = CHR 0x22 then
            (case scan_string r of None \<Rightarrow> Inl JDecodeError | Some (t, r') \<Rightarrow> Inr (PStr t, r'))
          else if c = CHR ''{'' then
            (if startswith (skip_ws r) ''}'' then Inr (PDict [], tl (skip_ws r))
             else case parse_members strict repr n (skip_ws r) of
               Inl e \<Rightarrow> Inl e
             | Inr (kvs, r') \<Rightarrow>
                 (case make_dict strict kvs of Inl e \<Rightarrow> Inl e | Inr d \<Rightarrow> Inr (d, r')))
          else if c = CHR ''['' then
            (if startswith (skip_ws r) '']'' then Inr (PList [], tl (skip_ws r))
             else case parse_items strict repr n (skip_ws r) of
               Inl e \<Rightarrow> Inl e
             | Inr (vs, r') \<Rightarrow> Inr (PList vs, r'))
          else scan_atom repr s)"
| "parse_items strict repr 0 s = Inl JFuel"
| "parse_items strict repr (Suc n) s =
     (case parse_value strict repr n s of
        Inl e \<Rightarrow> Inl e
      | Inr (v, r) \<Rightarrow>
          if startswith (skip_ws r) '']'' then Inr ([v], tl (skip_ws r))
          else if startswith (skip_ws r) '','' then
            (case parse_items strict repr n (skip_ws (tl (skip_ws r))) of
               Inl e \<Rightarrow> Inl e
             | Inr (vs, r') \<Rightarrow> Inr (v # vs, r'))
          else Inl JDecodeError)"
| "parse_members strict repr 0 s = Inl JFuel"
| "parse_members strict repr (Suc n) s =
     (if \<not> startswith s [CHR 0x22] then Inl JDecodeError
      else case scan_string (tl s) of
        None \<Rightarrow> Inl JDecodeError
      | Some (k, r) \<Rightarrow>
          if \<not> startswith (skip_ws r) '':'' then Inl JDecodeError
          else case parse_value strict repr n (skip_ws (tl (skip_ws r))) of
            Inl e \<Rightarrow> Inl e
          | Inr (v, r') \<Rightarrow>
              if startswith (skip_ws r') ''}'' then Inr ([(k, v)], tl (skip_ws r'))
              else if startswith (skip_ws r') '','' then
                (case parse_members strict repr n (skip_ws (tl (skip_ws r'))) of
                   Inl e \<Rightarrow> Inl e
                 | Inr (kvs, r'') \<Rightarrow> Inr ((k, v) # kvs, r''))
              else Inl JDecodeError)"

text \<open>The byte order mark is U+FEFF.\<close>

definition json_loads :: "bool \<Rightarrow> (rat \<Rightarrow> string) \<Rightarrow> string \<Rightarrow> json_load_error + pyval" where
  "json_loads strict repr s =
     (if startswith s [CHR 0xEF, CHR 0xBB, CHR 0xBF] then Inl JDecodeError
      else case parse_value strict repr (2 * length s + 1) (skip_ws s) of
        Inl e \<Rightarrow> Inl e
      | Inr (v, r) \<Rightarrow> if skip_ws r = [] then Inr v else Inl JDecodeError)"

section \<open>The fuel is enough\<close>

lemma skip_ws_length: "length (skip_ws s) \<le> length s"
  by (simp add: skip_ws_def length_dropWhile_le)

lemma tl_ws_length: "startswith (skip_ws s) [c] \<Longrightarrow> length (tl (skip_ws s)) < length s"
  using skip_ws_length [of s] by (cases "skip_ws s") (auto simp: startswith_def)

lemma scan_string_length: "scan_string s = Some (t, r) \<Longrightarrow> length r < length s"
proof (induction s arbitrary: t r rule: scan_string.induct)
  case (2 c s)
  show ?case
  proof (cases s)
    case Nil
    with 2 show ?thesis by (auto split: if_splits)
  next
    case (Cons e s')
    with 2 show ?thesis
      by (fastforce split: if_splits option.splits dest: scan_unicode_length)
  qed
qed simp

lemma scan_fraction_length: "scan_fraction s = (f, r) \<Longrightarrow> length r \<le> length s"
  by (auto simp: scan_fraction_def split: list.splits if_splits intro: le_trans [OF length_dropWhile_le])

lemma scan_exponent_length: "scan_exponent s = (f, r) \<Longrightarrow> length r \<le> length s"
  by (cases s) (auto simp: scan_exponent_def Let_def split: if_splits
      intro: le_trans [OF length_dropWhile_le] diff_le_self)

lemma scan_number_length: "scan_number s = Some (t, r) \<Longrightarrow> length r < length s"
proof -
  have "length r < length s" if "scan_unsigned neg s = Some (t, r)" for neg s
  proof (cases s)
    case (Cons c s')
    define r1 where "r1 = (if c = CHR ''0'' then s' else dropWhile is_digit s)"
    from that Cons have "is_digit c" by (auto simp: scan_unsigned_def split: if_splits)
    then have "length r1 < length s"
      using Cons length_dropWhile_le [of is_digit s'] by (auto simp: r1_def)
    moreover obtain fs r2 where f: "scan_fraction r1 = (fs, r2)" by fastforce
    moreover obtain ex r3 where e: "scan_exponent r2 = (ex, r3)" by fastforce
    moreover from that Cons have "r = r3"
      using f e unfolding scan_unsigned_def r1_def by (auto simp: Let_def split: if_splits)
    ultimately show ?thesis using scan_fraction_length [OF f] scan_exponent_length [OF e] by simp
  qed (use that in \<open>simp add: scan_unsigned_def\<close>)
  then show "scan_number s = Some (t, r) \<Longrightarrow> length r < length s"
    by (fastforce simp: scan_number_def split: list.splits if_splits)
qed

lemma scan_atom_progress:
  "scan_atom repr s \<noteq> Inl JFuel" "scan_atom repr s = Inr (v, r) \<Longrightarrow> length r < length s"
  by (auto simp: scan_atom_def startswith_def prefix_def split: if_splits option.splits json_number.splits
      dest: scan_number_length)

definition progress :: "string \<Rightarrow> json_load_error + 'a \<times> string \<Rightarrow> bool" where
  "progress s result \<longleftrightarrow> result \<noteq> Inl JFuel \<and> (\<forall>v r. result = Inr (v, r) \<longrightarrow> length r < length s)"

lemma progress_mono: "progress s result \<Longrightarrow> length s \<le> length s' \<Longrightarrow> progress s' result"
  by (auto simp: progress_def dest: less_le_trans)

lemma ws_tl_ws_length: "startswith (skip_ws s) [c] \<Longrightarrow> length (skip_ws (tl (skip_ws s))) < length s"
  using tl_ws_length [of s c] skip_ws_length [of "tl (skip_ws s)"] by simp

lemma parse_value_step:
  assumes "progress (skip_ws (tl s)) (parse_members strict repr n (skip_ws (tl s)))"
    and "progress (skip_ws (tl s)) (parse_items strict repr n (skip_ws (tl s)))"
  shows "progress s (parse_value strict repr (Suc n) s)"
proof (cases s)
  case (Cons c r)
  let ?t = "skip_ws r"
  have small: "length (tl ?t) < length s" "length ?t < length s"
    using skip_ws_length [of r] Cons by simp_all
  from assms Cons small(2) have members: "parse_members strict repr n ?t \<noteq> Inl JFuel"
      "parse_members strict repr n ?t = Inr (kvs, u) \<Longrightarrow> length u < length s"
    and items: "parse_items strict repr n ?t \<noteq> Inl JFuel" "parse_items strict repr n ?t = Inr (vs, u) \<Longrightarrow> length u < length s"
    for kvs vs u
    by (auto simp: progress_def dest: less_trans)
  consider "c = CHR 0x22" | "c = CHR ''{''" | "c = CHR ''[''" |
    "c \<noteq> CHR 0x22 \<and> c \<noteq> CHR ''{'' \<and> c \<noteq> CHR ''[''" by blast
  then show ?thesis
  proof cases
    case 1
    with Cons show ?thesis by (auto simp: progress_def split: option.splits dest: scan_string_length)
  next
    case 2
    with Cons small members show ?thesis
      by (auto simp: progress_def make_dict_def split: sum.splits option.splits if_splits)
  next
    case 3
    with Cons small items show ?thesis by (auto simp: progress_def split: sum.splits)
  next
    case 4
    with Cons have "parse_value strict repr (Suc n) s = scan_atom repr s" by simp
    then show ?thesis using scan_atom_progress [of repr s] by (auto simp: progress_def)
  qed
qed (simp add: progress_def)

lemma parse_items_step:
  assumes "progress s (parse_value strict repr n s)"
    and "\<And>s'. length s' < length s \<Longrightarrow> progress s' (parse_items strict repr n s')"
  shows "progress s (parse_items strict repr (Suc n) s)"
proof (cases "parse_value strict repr n s")
  case (Inl e)
  with assms(1) show ?thesis by (simp add: progress_def)
next
  case (Inr vr)
  then obtain v r where v: "parse_value strict repr n s = Inr (v, r)" by (cases vr) auto
  with assms(1) have r: "length r < length s" by (simp add: progress_def)
  have rest: "progress s (parse_items strict repr n (skip_ws (tl (skip_ws r))))" if "startswith (skip_ws r) '',''"
    using ws_tl_ws_length [OF that] r by (intro progress_mono [OF assms(2)]) auto
  have "length (tl (skip_ws r)) < length s" using skip_ws_length [of r] r by simp
  then show ?thesis
    using rest by (auto simp: v progress_def split: sum.splits dest: less_trans)
qed

lemma parse_members_step:
  assumes "\<And>s'. length s' < length s \<Longrightarrow> progress s' (parse_value strict repr n s')"
    and "\<And>s'. length s' < length s \<Longrightarrow> progress s' (parse_members strict repr n s')"
  shows "progress s (parse_members strict repr (Suc n) s)"
proof (cases "startswith s [CHR 0x22] \<and> (\<exists>k r. scan_string (tl s) = Some (k, r) \<and> startswith (skip_ws r) '':'')")
  case True
  then obtain k r where k: "startswith s [CHR 0x22]" "scan_string (tl s) = Some (k, r)" "startswith (skip_ws r) '':''"
    by blast
  let ?t = "skip_ws (tl (skip_ws r))"
  have r: "length ?t < length s"
    using k scan_string_length [OF k(2)] ws_tl_ws_length [OF k(3)] by simp
  show ?thesis
  proof (cases "parse_value strict repr n ?t")
    case (Inl e)
    with k assms(1) [OF r] show ?thesis by (simp add: progress_def)
  next
    case (Inr vr)
    then obtain v r' where v: "parse_value strict repr n ?t = Inr (v, r')" by (cases vr) auto
    with assms(1) [OF r] r have r': "length r' < length s" by (auto simp: progress_def)
    have rest: "progress s (parse_members strict repr n (skip_ws (tl (skip_ws r'))))" if "startswith (skip_ws r') '',''"
      using ws_tl_ws_length [OF that] r' by (intro progress_mono [OF assms(2)]) auto
    have "length (tl (skip_ws r')) < length s" using skip_ws_length [of r'] r' by simp
    then show ?thesis
      using rest k by (auto simp: v progress_def split: sum.splits dest: less_trans)
  qed
qed (auto simp: progress_def split: option.splits)

lemma parse_progress:
  "(\<forall>s. 2 * length s < n \<longrightarrow> progress s (parse_value strict repr n s)) \<and>
   (\<forall>s. 2 * length s + 1 < n \<longrightarrow> progress s (parse_items strict repr n s)) \<and>
   (\<forall>s. 2 * length s < n \<longrightarrow> progress s (parse_members strict repr n s))"
proof (induction n)
  case (Suc n)
  have members: "progress s (parse_members strict repr (Suc n) s)" if "2 * length s < Suc n" for s
    using Suc that by (intro parse_members_step) auto
  have items: "progress s (parse_items strict repr (Suc n) s)" if "2 * length s + 1 < Suc n" for s
    using Suc that by (intro parse_items_step) auto
  have "progress s (parse_value strict repr (Suc n) s)" if "2 * length s < Suc n" for s
  proof (cases "s = []")
    case True
    then show ?thesis by (simp add: progress_def)
  next
    case False
    then have "Suc (length (tl s)) = length s" by simp
    with Suc that skip_ws_length [of "tl s"] show ?thesis by (intro parse_value_step) auto
  qed
  with members items show ?case by blast
qed simp

lemma json_loads_no_fuel: "json_loads strict repr s \<noteq> Inl JFuel"
proof -
  have "progress (skip_ws s) (parse_value strict repr (2 * length s + 1) (skip_ws s))"
    using parse_progress [of "2 * length s + 1" strict repr] skip_ws_length [of s] by auto
  then show ?thesis by (auto simp: json_loads_def progress_def split: sum.splits if_splits)
qed

end
