(* ===== verification/LongRun_Model.thy ===== *)
theory LongRun_Model
  imports Cyber_Prelude Py_Json_Parse Sha256
begin

text \<open>
  The parts of the LongRun runtime around its engine (src/src/cybercore/longrun/): the watchdog, the
  governor, evaluations, the mission manifest with its model bindings, and the state store.

  Floats are exact rationals, infinities or NaN, with the comparisons of IEEE 754; rounding is not
  modelled. Their text in JSON is a parameter, \<open>repr\<close>. The SQLite store is its two tables; a failure
  of the storage itself is not modelled. Exceptions carry the name of their class and a message.
\<close>

section \<open>Floats\<close>

datatype num = Fin rat | PInf | NInf | NaN

fun num_neg :: "num \<Rightarrow> num" where
  "num_neg (Fin a) = Fin (- a)"
| "num_neg PInf = NInf"
| "num_neg NInf = PInf"
| "num_neg NaN = NaN"

fun num_add :: "num \<Rightarrow> num \<Rightarrow> num" where
  "num_add (Fin a) (Fin b) = Fin (a + b)"
| "num_add NaN _ = NaN"
| "num_add _ NaN = NaN"
| "num_add PInf NInf = NaN"
| "num_add NInf PInf = NaN"
| "num_add PInf _ = PInf"
| "num_add _ PInf = PInf"
| "num_add NInf _ = NInf"
| "num_add _ NInf = NInf"

definition num_sub :: "num \<Rightarrow> num \<Rightarrow> num" where
  "num_sub a b = num_add a (num_neg b)"

fun num_le :: "num \<Rightarrow> num \<Rightarrow> bool" where
  "num_le (Fin a) (Fin b) = (a \<le> b)"
| "num_le NaN _ = False"
| "num_le _ NaN = False"
| "num_le NInf _ = True"
| "num_le _ PInf = True"
| "num_le _ _ = False"

fun num_float :: "(rat \<Rightarrow> string) \<Rightarrow> num \<Rightarrow> pyfloat" where
  "num_float repr (Fin a) = Finite (repr a)"
| "num_float repr PInf = PosInfinity"
| "num_float repr NInf = NegInfinity"
| "num_float repr NaN = NotANumber"

datatype lexn = Exc (exc_type: string) (exc_msg: string)

definition value_error :: "string \<Rightarrow> lexn" where
  "value_error msg = Exc ''ValueError'' msg"

definition runtime_error :: "string \<Rightarrow> lexn" where
  "runtime_error msg = Exc ''RuntimeError'' msg"

fun json_lexn :: "json_error \<Rightarrow> lexn" where
  "json_lexn JTypeError = Exc ''TypeError'' ''json''"
| "json_lexn JValueError = Exc ''ValueError'' ''json''"

section \<open>Watchdog\<close>

record WatchdogDecision =
  wd_action :: string
  wd_reason :: string

definition evaluate_watchdog :: "rat \<Rightarrow> int \<Rightarrow> int \<Rightarrow> int \<Rightarrow> int \<Rightarrow> int \<Rightarrow> WatchdogDecision" where
  "evaluate_watchdog elapsed max_wall failures max_failures duplicates max_duplicates =
     (if of_int max_wall \<le> elapsed
        then \<lparr>wd_action = ''STOP'', wd_reason = ''maximum wall budget exhausted''\<rparr>
      else if max_failures \<le> failures
        then \<lparr>wd_action = ''REPLAN'', wd_reason = ''consecutive failure limit reached''\<rparr>
      else if max_duplicates \<le> duplicates
        then \<lparr>wd_action = ''REPLAN'', wd_reason = ''duplicate-step limit reached''\<rparr>
      else \<lparr>wd_action = ''CONTINUE'', wd_reason = ''healthy''\<rparr>)"

section \<open>Governor\<close>

record StepProposal =
  sp_fingerprint :: string
  sp_expected_quality_gain :: num
  sp_expected_information_gain :: num
  sp_cost :: num
  sp_risk :: num
  sp_duplication_probability :: num
  sp_effect :: string

definition proposal_value :: "StepProposal \<Rightarrow> num" where
  "proposal_value p =
     num_sub (num_sub (num_sub (num_add (sp_expected_quality_gain p) (sp_expected_information_gain p))
       (sp_cost p)) (sp_risk p)) (sp_duplication_probability p)"

definition authorize_step :: "StepProposal \<Rightarrow> string list \<Rightarrow> string list \<Rightarrow> bool \<times> string" where
  "authorize_step p allowed prohibited =
     (if sp_effect p \<in> set prohibited then (False, ''effect explicitly prohibited'')
      else if sp_effect p \<notin> set allowed then (False, ''effect not allowlisted'')
      else if num_le (proposal_value p) (Fin 0) then (False, ''non-positive expected value'')
      else (True, ''authorized''))"

section \<open>Evaluation\<close>

text \<open>The message \<open>_validate_json_value\<close> raises with, \<open>None\<close> when it accepts the value.\<close>

fun json_value_error :: "string \<Rightarrow> pyval \<Rightarrow> string option"
  and json_items_error :: "string \<Rightarrow> nat \<Rightarrow> pyval list \<Rightarrow> string option"
  and json_entries_error :: "string \<Rightarrow> (string \<times> pyval) list \<Rightarrow> string option" where
  "json_value_error label (PFloat (Finite s)) = None"
| "json_value_error label (PFloat _) =
     Some (label @ '' must contain canonical JSON values with finite numbers'')"
| "json_value_error label (PList xs) = json_items_error label 0 xs"
| "json_value_error label (PDict kvs) = json_entries_error label kvs"
| "json_value_error label POther = Some (label @ '' must contain canonical JSON values'')"
| "json_value_error label _ = None"
| "json_items_error label i [] = None"
| "json_items_error label i (x # xs) =
     (case json_value_error (label @ ''['' @ nat_str i @ '']'') x of
        Some msg \<Rightarrow> Some msg
      | None \<Rightarrow> json_items_error label (Suc i) xs)"
| "json_entries_error label [] = None"
| "json_entries_error label ((k, x) # kvs) =
     (case json_value_error (label @ ''.'' @ k) x of
        Some msg \<Rightarrow> Some msg
      | None \<Rightarrow> json_entries_error label kvs)"

definition check_metadata :: "pyval \<Rightarrow> lexn + unit" where
  "check_metadata v =
     (case json_value_error ''evaluation metadata'' v of
        Some msg \<Rightarrow> Inl (value_error msg)
      | None \<Rightarrow> Inr ())"

definition evidence_digest :: "pyval \<Rightarrow> lexn + string" where
  "evidence_digest evidence =
     (case json_dumps True False evidence of
        Inl e \<Rightarrow> Inl (json_lexn e)
      | Inr encoded \<Rightarrow> Inr (sha256_hex encoded))"

text \<open>A score as the evaluator returned it: a float, an integer, or no number (a \<open>bool\<close> included).\<close>

datatype score = ScoreFloat num | ScoreInt int | NotNumeric

fun score_num :: "score \<Rightarrow> num" where
  "score_num (ScoreFloat x) = x"
| "score_num (ScoreInt i) = Fin (of_int i)"
| "score_num NotNumeric = NaN"

fun score_json :: "(rat \<Rightarrow> string) \<Rightarrow> score \<Rightarrow> pyval" where
  "score_json repr (ScoreFloat x) = PFloat (num_float repr x)"
| "score_json repr (ScoreInt i) = PInt i"
| "score_json repr NotNumeric = POther"

record EvaluationResult =
  ev_evaluator_id :: pyval
  ev_evaluator_version :: pyval
  ev_score :: score
  ev_verdict :: string
  ev_reasons :: "pyval list"
  ev_evidence_digest :: string
  ev_metadata :: pyval

fun nonempty_text :: "pyval \<Rightarrow> bool" where
  "nonempty_text (PStr s) = (\<not> blank s)"
| "nonempty_text _ = False"

fun is_dict :: "pyval \<Rightarrow> bool" where
  "is_dict (PDict _) = True"
| "is_dict _ = False"

definition EvaluationResult_validate :: "EvaluationResult \<Rightarrow> string \<Rightarrow> lexn + unit" where
  "EvaluationResult_validate ev expected =
     (if \<not> nonempty_text (ev_evaluator_id ev) \<or> \<not> nonempty_text (ev_evaluator_version ev)
        then Inl (value_error ''evaluator identity and version are required'')
      else if ev_score ev = NotNumeric then Inl (value_error ''evaluation score must be numeric'')
      else if \<not> (num_le (Fin 0) (score_num (ev_score ev)) \<and> num_le (score_num (ev_score ev)) (Fin 1))
        then Inl (value_error ''evaluation score must be between 0 and 1'')
      else if ev_verdict ev \<noteq> ''PASS'' \<and> ev_verdict ev \<noteq> ''FAIL''
        then Inl (value_error ''evaluation verdict must be PASS or FAIL'')
      else if ev_reasons ev = [] \<or> \<not> list_all nonempty_text (ev_reasons ev)
        then Inl (value_error ''evaluation reasons must contain non-empty strings'')
      else if ev_evidence_digest ev \<noteq> expected
        then Inl (value_error ''evaluation evidence digest does not match executor evidence'')
      else if \<not> is_dict (ev_metadata ev)
        then Inl (value_error ''evaluation metadata must be an object with string keys'')
      else check_metadata (ev_metadata ev))"

definition evaluation_fields :: "(rat \<Rightarrow> string) \<Rightarrow> EvaluationResult \<Rightarrow> (string \<times> pyval) list" where
  "evaluation_fields repr ev =
     [(''evaluator_id'', ev_evaluator_id ev), (''evaluator_version'', ev_evaluator_version ev),
      (''score'', score_json repr (ev_score ev)), (''verdict'', PStr (ev_verdict ev)),
      (''reasons'', PList (ev_reasons ev)), (''evidence_digest'', PStr (ev_evidence_digest ev)),
      (''metadata'', ev_metadata ev)]"

definition EvaluationResult_event_payload :: "(rat \<Rightarrow> string) \<Rightarrow> EvaluationResult \<Rightarrow> lexn + pyval" where
  "EvaluationResult_event_payload repr ev =
     (case check_metadata (ev_metadata ev) of
        Inl e \<Rightarrow> Inl e
      | Inr _ \<Rightarrow> case evidence_digest (PDict (evaluation_fields repr ev)) of
        Inl e \<Rightarrow> Inl e
      | Inr digest \<Rightarrow>
          Inr (PDict (evaluation_fields repr ev @ [(''evaluation_digest'', PStr digest)])))"

section \<open>Manifest\<close>

record ModelBinding =
  mb_binding_id :: string
  mb_role :: string
  mb_provider_id :: string
  mb_model_id :: string

text \<open>\<open>sorted(_ALLOWED_ROLES)\<close>\<close>

definition allowed_roles_text :: string where
  "allowed_roles_text =
     (let q = CHR 0x27 in
      ''['' @ [q] @ ''evaluator'' @ [q] @ '', '' @ [q] @ ''planner'' @ [q] @ '', '' @ [q] @ ''worker'' @ [q] @ '']'')"

definition ModelBinding_validate :: "ModelBinding \<Rightarrow> lexn + unit" where
  "ModelBinding_validate b =
     (if blank (mb_binding_id b)
        then Inl (value_error ''model binding binding_id must be a non-empty string'')
      else if blank (mb_provider_id b)
        then Inl (value_error ''model binding provider_id must be a non-empty string'')
      else if blank (mb_model_id b)
        then Inl (value_error ''model binding model_id must be a non-empty string'')
      else if mb_role b \<notin> {''planner'', ''worker'', ''evaluator''}
        then Inl (value_error (''model binding role must be one of '' @ allowed_roles_text))
      else Inr ())"

definition ModelBinding_canonical_payload :: "ModelBinding \<Rightarrow> pyval" where
  "ModelBinding_canonical_payload b = PDict
     [(''binding_id'', PStr (mb_binding_id b)), (''role'', PStr (mb_role b)),
      (''provider_id'', PStr (mb_provider_id b)), (''model_id'', PStr (mb_model_id b))]"

record LongRunManifest =
  lm_run_id :: string
  lm_objective :: string
  lm_minimum_wall_seconds :: int
  lm_maximum_wall_seconds :: int
  lm_evaluator_threshold :: num
  lm_checkpoint_every_steps :: int
  lm_max_consecutive_failures :: int
  lm_max_duplicate_steps :: int
  lm_evidence_required :: bool
  lm_independent_evaluation_required :: bool
  lm_allowed_effects :: "string list"
  lm_prohibited_effects :: "string list"
  lm_model_bindings :: "ModelBinding list"
  lm_metadata :: "(string \<times> string) list"

text \<open>The loop over the bindings, with the roles and ids seen so far.\<close>

fun bindings_valid :: "string set \<Rightarrow> string set \<Rightarrow> ModelBinding list \<Rightarrow> lexn + unit" where
  "bindings_valid roles ids [] = Inr ()"
| "bindings_valid roles ids (b # bs) =
     (case ModelBinding_validate b of
        Inl e \<Rightarrow> Inl e
      | Inr _ \<Rightarrow>
          if mb_role b \<in> roles then Inl (value_error (''duplicate model binding role: '' @ mb_role b))
          else if mb_binding_id b \<in> ids
            then Inl (value_error (''duplicate model binding_id: '' @ mb_binding_id b))
          else bindings_valid (insert (mb_role b) roles) (insert (mb_binding_id b) ids) bs)"

lemma bindings_valid_iff:
  "bindings_valid roles ids bs = Inr () \<longleftrightarrow>
     list_all (\<lambda>b. ModelBinding_validate b = Inr ()) bs \<and>
     distinct (map mb_role bs) \<and> distinct (map mb_binding_id bs) \<and>
     set (map mb_role bs) \<inter> roles = {} \<and> set (map mb_binding_id bs) \<inter> ids = {}"
  by (induction bs arbitrary: roles ids) (auto split: sum.splits)

text \<open>The names of the overlapping effects are left out of the message.\<close>

definition LongRunManifest_validate :: "LongRunManifest \<Rightarrow> lexn + unit" where
  "LongRunManifest_validate m =
     (if blank (lm_run_id m) \<or> blank (lm_objective m)
        then Inl (value_error ''run_id and objective are required'')
      else if lm_minimum_wall_seconds m < 0
        then Inl (value_error ''minimum_wall_seconds must be non-negative'')
      else if lm_maximum_wall_seconds m \<le> 0
        then Inl (value_error ''maximum_wall_seconds must be positive'')
      else if lm_maximum_wall_seconds m < lm_minimum_wall_seconds m
        then Inl (value_error ''minimum wall budget cannot exceed maximum'')
      else if \<not> (num_le (Fin 0) (lm_evaluator_threshold m) \<and> num_le (lm_evaluator_threshold m) (Fin 1))
        then Inl (value_error ''evaluator_threshold must be between 0 and 1'')
      else if lm_checkpoint_every_steps m < 1
        then Inl (value_error ''checkpoint_every_steps must be >= 1'')
      else if lm_max_consecutive_failures m < 1 \<or> lm_max_duplicate_steps m < 1
        then Inl (value_error ''failure and duplicate limits must be >= 1'')
      else if set (lm_allowed_effects m) \<inter> set (lm_prohibited_effects m) \<noteq> {}
        then Inl (value_error ''effects cannot be both allowed and prohibited'')
      else bindings_valid {} {} (lm_model_bindings m))"

fun binding_le :: "ModelBinding \<Rightarrow> ModelBinding \<Rightarrow> bool" where
  "binding_le a b =
     (if mb_role a = mb_role b then str_le (mb_binding_id a) (mb_binding_id b)
      else str_le (mb_role a) (mb_role b))"

fun insert_binding :: "ModelBinding \<Rightarrow> ModelBinding list \<Rightarrow> ModelBinding list" where
  "insert_binding b [] = [b]"
| "insert_binding b (c # cs) = (if binding_le b c then b # c # cs else c # insert_binding b cs)"

definition LongRunManifest_canonical_payload :: "(rat \<Rightarrow> string) \<Rightarrow> LongRunManifest \<Rightarrow> pyval" where
  "LongRunManifest_canonical_payload repr m = PDict
     [(''run_id'', PStr (lm_run_id m)), (''objective'', PStr (lm_objective m)),
      (''minimum_wall_seconds'', PInt (lm_minimum_wall_seconds m)),
      (''maximum_wall_seconds'', PInt (lm_maximum_wall_seconds m)),
      (''evaluator_threshold'', PFloat (num_float repr (lm_evaluator_threshold m))),
      (''checkpoint_every_steps'', PInt (lm_checkpoint_every_steps m)),
      (''max_consecutive_failures'', PInt (lm_max_consecutive_failures m)),
      (''max_duplicate_steps'', PInt (lm_max_duplicate_steps m)),
      (''evidence_required'', PBool (lm_evidence_required m)),
      (''independent_evaluation_required'', PBool (lm_independent_evaluation_required m)),
      (''allowed_effects'', PList (map PStr (lm_allowed_effects m))),
      (''prohibited_effects'', PList (map PStr (lm_prohibited_effects m))),
      (''model_bindings'', PList (map ModelBinding_canonical_payload
          (foldr insert_binding (lm_model_bindings m) []))),
      (''metadata'', PDict (map (\<lambda>(k, v). (k, PStr v)) (sort_items (lm_metadata m))))]"

definition LongRunManifest_digest :: "(rat \<Rightarrow> string) \<Rightarrow> LongRunManifest \<Rightarrow> lexn + string" where
  "LongRunManifest_digest repr m =
     (case LongRunManifest_validate m of
        Inl e \<Rightarrow> Inl e
      | Inr _ \<Rightarrow>
          (case json_dumps True True (LongRunManifest_canonical_payload repr m) of
             Inl e \<Rightarrow> Inl (json_lexn e)
           | Inr encoded \<Rightarrow> Inr (sha256_hex encoded)))"

section \<open>State store\<close>

record RunState =
  rs_run_id :: string
  rs_manifest_digest :: string
  rs_status :: string
  rs_step_index :: int
  rs_consecutive_failures :: int
  rs_last_step_fingerprint :: "string option"
  rs_duplicate_count :: int
  rs_evaluator_score :: rat
  rs_started_at :: rat
  rs_updated_at :: rat

record RunEvent =
  re_id :: nat
  re_run_id :: string
  re_step_index :: int
  re_kind :: string
  re_payload :: pyval
  re_created_at :: rat

record 'w longrun =
  lr_runs :: "string \<rightharpoonup> RunState"
  lr_events :: "RunEvent list"
  lr_world :: 'w

type_synonym ('w, 'a) longrun_proc = "('w longrun, lexn, 'a) proc"

definition store_init :: "'w \<Rightarrow> 'w longrun" where
  "store_init w = \<lparr>lr_runs = Map.empty, lr_events = [], lr_world = w\<rparr>"

definition encode_payload :: "pyval \<Rightarrow> lexn + string" where
  "encode_payload payload =
     (case json_dumps True True payload of Inl e \<Rightarrow> Inl (json_lexn e) | Inr x \<Rightarrow> Inr x)"

definition store_append_event :: "string \<Rightarrow> int \<Rightarrow> string \<Rightarrow> pyval \<Rightarrow> rat \<Rightarrow> 'w longrun \<Rightarrow> 'w longrun" where
  "store_append_event run step kind payload created s =
     s\<lparr>lr_events := lr_events s @
       [\<lparr>re_id = length (lr_events s) + 1, re_run_id = run, re_step_index = step, re_kind = kind,
         re_payload = payload, re_created_at = created\<rparr>]\<rparr>"

definition store_load :: "string \<Rightarrow> ('w, RunState option) longrun_proc" where
  "store_load run = gets (\<lambda>s. lr_runs s run)"

definition store_create_with_event :: "RunState \<Rightarrow> string \<Rightarrow> pyval \<Rightarrow> rat \<Rightarrow> ('w, unit) longrun_proc" where
  "store_create_with_event st kind payload created =
     bind (lift (encode_payload payload)) (\<lambda>_.
     bind (gets (\<lambda>s. lr_runs s (rs_run_id st))) (\<lambda>existing.
     if existing \<noteq> None then raise (Exc ''IntegrityError'' ''runs.run_id'')
     else modify (\<lambda>s. store_append_event (rs_run_id st) (rs_step_index st) kind payload created
            (s\<lparr>lr_runs := (lr_runs s)(rs_run_id st \<mapsto> st)\<rparr>))))"

definition store_save_with_event :: "RunState \<Rightarrow> string \<Rightarrow> pyval \<Rightarrow> rat \<Rightarrow> ('w, unit) longrun_proc" where
  "store_save_with_event st kind payload created =
     bind (lift (encode_payload payload)) (\<lambda>_.
     modify (\<lambda>s. store_append_event (rs_run_id st) (rs_step_index st) kind payload created
       (if lr_runs s (rs_run_id st) = None then s
        else s\<lparr>lr_runs := (lr_runs s)(rs_run_id st \<mapsto> st)\<rparr>)))"

text \<open>
  The table holds the encoded text of a payload; an event above carries the payload it was made of, and
  \<open>event_text\<close> is that text. Reading an event decodes it.
\<close>

definition event_text :: "RunEvent \<Rightarrow> string" where
  "event_text e = (case encode_payload (re_payload e) of Inl _ \<Rightarrow> [] | Inr x \<Rightarrow> x)"

fun load_exn :: "json_load_error \<Rightarrow> lexn" where
  "load_exn JIntTooLong = value_error ''json''"
| "load_exn _ = Exc ''JSONDecodeError'' ''json''"

definition decode_event :: "(rat \<Rightarrow> string) \<Rightarrow> RunEvent \<Rightarrow> lexn + RunEvent" where
  "decode_event repr e =
     (case json_loads False repr (event_text e) of
        Inl err \<Rightarrow> Inl (load_exn err)
      | Inr payload \<Rightarrow>
          if \<not> is_dict payload
          then Inl (runtime_error ''stored LongRun event payload is not an object'')
          else Inr (e\<lparr>re_payload := payload\<rparr>))"

text \<open>The last \<open>limit\<close> events of a run, oldest first.\<close>

definition store_list_events :: "(rat \<Rightarrow> string) \<Rightarrow> string \<Rightarrow> int \<Rightarrow> ('w, RunEvent list) longrun_proc" where
  "store_list_events repr run limit =
     (if limit < 1 \<or> 1000 < limit then raise (value_error ''event limit must be between 1 and 1000'')
      else bind (gets (\<lambda>s. rev (take (nat limit) (rev (filter (\<lambda>e. re_run_id e = run) (lr_events s))))))
        (\<lambda>rows. lift (all_ok (map (decode_event repr) rows))))"

end
