(* ===== verification/LongRun_Engine.thy ===== *)
theory LongRun_Engine
  imports LongRun_Model
begin

text \<open>
  The LongRun engine (src/src/cybercore/longrun/engine.py). Planner, executor, evaluator and clock
  are procedures on a world of their own. \<open>run_step\<close> is cut at its callbacks: \<open>plan_step\<close>,
  \<open>check_step\<close>, \<open>execute_step\<close>, \<open>evaluate_step\<close> and \<open>conclude_step\<close>, each with the transitions the
  code persists there. An evaluator also returns the evidence as it leaves it, which may differ from
  what it was given; \<open>None\<close> is a result that is no \<open>EvaluationResult\<close>.
\<close>

section \<open>The engine object\<close>

record StepResult =
  sr_success :: bool
  sr_evidence :: pyval

record 'w LongRunEngine =
  le_manifest :: LongRunManifest
  le_repr :: "rat \<Rightarrow> string"
  le_planner :: "RunState \<Rightarrow> ('w, lexn, StepProposal) proc"
  le_executor :: "StepProposal \<Rightarrow> ('w, lexn, StepResult) proc"
  le_evaluator :: "(StepProposal \<Rightarrow> StepResult \<Rightarrow> ('w, lexn, EvaluationResult option \<times> pyval) proc) option"
  le_clock :: "'w \<Rightarrow> rat \<times> 'w"

text \<open>\<open>same_callback\<close>: whether evaluator and executor are the same object.\<close>

definition LongRunEngine_init :: "bool \<Rightarrow> 'w LongRunEngine \<Rightarrow> lexn + 'w LongRunEngine" where
  "LongRunEngine_init same_callback le =
     (case LongRunManifest_validate (le_manifest le) of
        Inl e \<Rightarrow> Inl e
      | Inr _ \<Rightarrow>
          if same_callback
          then Inl (value_error ''executor and independent evaluator must be different callbacks'')
          else Inr le)"

definition callback :: "('w, lexn, 'a) proc \<Rightarrow> ('w, 'a) longrun_proc" where
  "callback m = zoom lr_world (\<lambda>w s. s\<lparr>lr_world := w\<rparr>) m"

definition read_clock :: "'w LongRunEngine \<Rightarrow> ('w, rat) longrun_proc" where
  "read_clock le = callback (\<lambda>w. case le_clock le w of (t, w') \<Rightarrow> (Inr t, w'))"

definition terminal :: "string \<Rightarrow> bool" where
  "terminal status \<longleftrightarrow> status = ''COMPLETED'' \<or> status = ''STOPPED'' \<or> status = ''BLOCKED''"

definition initial_state :: "'w LongRunEngine \<Rightarrow> rat \<Rightarrow> string \<Rightarrow> RunState" where
  "initial_state le now digest =
     \<lparr>rs_run_id = lm_run_id (le_manifest le), rs_manifest_digest = digest, rs_status = ''RUNNING'',
      rs_step_index = 0, rs_consecutive_failures = 0, rs_last_step_fingerprint = None,
      rs_duplicate_count = 0, rs_evaluator_score = 0, rs_started_at = now, rs_updated_at = now\<rparr>"

definition load_or_create :: "'w LongRunEngine \<Rightarrow> ('w, RunState) longrun_proc" where
  "load_or_create le =
     bind (store_load (lm_run_id (le_manifest le))) (\<lambda>existing.
     case existing of
       None \<Rightarrow>
         bind (read_clock le) (\<lambda>now.
         bind (lift (LongRunManifest_digest (le_repr le) (le_manifest le))) (\<lambda>digest.
         let st = initial_state le now digest in
         seq (store_create_with_event st ''RUN_STARTED'' (PDict [(''manifest_digest'', PStr digest)]) now)
           (ret st)))
     | Some st \<Rightarrow>
         bind (lift (LongRunManifest_digest (le_repr le) (le_manifest le))) (\<lambda>digest.
         if rs_manifest_digest st \<noteq> digest
         then raise (runtime_error ''manifest digest mismatch; immutable mission contract changed'')
         else ret st))"

definition persist_transition :: "RunState \<Rightarrow> string \<Rightarrow> (string \<times> pyval) list \<Rightarrow> ('w, RunState) longrun_proc" where
  "persist_transition st kind payload =
     seq (store_save_with_event st kind (PDict payload) (rs_updated_at st)) (ret st)"

definition watchdog_of :: "'w LongRunEngine \<Rightarrow> RunState \<Rightarrow> rat \<Rightarrow> WatchdogDecision" where
  "watchdog_of le st now =
     evaluate_watchdog (now - rs_started_at st) (lm_maximum_wall_seconds (le_manifest le))
       (rs_consecutive_failures st) (lm_max_consecutive_failures (le_manifest le))
       (rs_duplicate_count st) (lm_max_duplicate_steps (le_manifest le))"

text \<open>The \<open>replace(...)\<close> calls.\<close>

definition stopped_at :: "rat \<Rightarrow> RunState \<Rightarrow> RunState" where
  "stopped_at now st = st\<lparr>rs_status := ''STOPPED'', rs_updated_at := now\<rparr>"

definition blocked_at :: "rat \<Rightarrow> RunState \<Rightarrow> RunState" where
  "blocked_at now st = st\<lparr>rs_status := ''BLOCKED'', rs_updated_at := now\<rparr>"

definition replanned_at :: "rat \<Rightarrow> RunState \<Rightarrow> RunState" where
  "replanned_at now st =
     st\<lparr>rs_consecutive_failures := 0, rs_duplicate_count := 0, rs_last_step_fingerprint := None,
        rs_updated_at := now\<rparr>"

text \<open>A step that was taken, with the fingerprint of its proposal and the duplicate count.\<close>

definition stepped :: "StepProposal \<Rightarrow> int \<Rightarrow> rat \<Rightarrow> RunState \<Rightarrow> RunState" where
  "stepped p dup now st =
     st\<lparr>rs_step_index := rs_step_index st + 1, rs_last_step_fingerprint := Some (sp_fingerprint p),
        rs_duplicate_count := dup, rs_updated_at := now\<rparr>"

definition failed_step :: "StepProposal \<Rightarrow> int \<Rightarrow> rat \<Rightarrow> RunState \<Rightarrow> RunState" where
  "failed_step p dup now st =
     (stepped p dup now st)\<lparr>rs_consecutive_failures := rs_consecutive_failures st + 1\<rparr>"

section \<open>The end of a step\<close>

definition num_json :: "'w LongRunEngine \<Rightarrow> num \<Rightarrow> pyval" where
  "num_json le x = PFloat (num_float (le_repr le) x)"

definition result_score :: "EvaluationResult option \<Rightarrow> rat" where
  "result_score evaluation =
     (case evaluation of None \<Rightarrow> 0
      | Some ev \<Rightarrow> (case score_num (ev_score ev) of Fin q \<Rightarrow> q | _ \<Rightarrow> 0))"

definition accepts_completion ::
  "'w LongRunEngine \<Rightarrow> StepResult \<Rightarrow> EvaluationResult option \<Rightarrow> rat \<Rightarrow> bool" where
  "accepts_completion le result evaluation elapsed \<longleftrightarrow>
     sr_success result \<and>
     (case evaluation of None \<Rightarrow> False
      | Some ev \<Rightarrow> ev_verdict ev = ''PASS'' \<and>
          num_le (lm_evaluator_threshold (le_manifest le)) (score_num (ev_score ev))) \<and>
     of_int (lm_minimum_wall_seconds (le_manifest le)) \<le> elapsed"

definition concluded_state ::
  "'w LongRunEngine \<Rightarrow> RunState \<Rightarrow> StepProposal \<Rightarrow> int \<Rightarrow> StepResult \<Rightarrow> EvaluationResult option \<Rightarrow> rat \<Rightarrow> RunState" where
  "concluded_state le st p dup result evaluation now =
     (let new = (stepped p dup now st)
            \<lparr>rs_consecutive_failures := (if sr_success result then 0 else rs_consecutive_failures st + 1),
             rs_evaluator_score := max (rs_evaluator_score st) (result_score evaluation)\<rparr>;
          elapsed = now - rs_started_at new in
      if of_int (lm_maximum_wall_seconds (le_manifest le)) \<le> elapsed then new\<lparr>rs_status := ''STOPPED''\<rparr>
      else if accepts_completion le result evaluation elapsed then new\<lparr>rs_status := ''COMPLETED''\<rparr>
      else new)"

definition result_payload ::
  "'w LongRunEngine \<Rightarrow> StepProposal \<Rightarrow> StepResult \<Rightarrow> string \<Rightarrow> RunState \<Rightarrow> pyval option \<Rightarrow> bool \<Rightarrow>
   (string \<times> pyval) list" where
  "result_payload le p result digest new evaluation out_of_time =
     [(''fingerprint'', PStr (sp_fingerprint p)), (''success'', PBool (sr_success result)),
      (''value'', num_json le (proposal_value p)), (''evidence'', sr_evidence result),
      (''evidence_digest'', PStr digest), (''status'', PStr (rs_status new))] @
     (case evaluation of None \<Rightarrow> [] | Some e \<Rightarrow> [(''evaluation'', e)]) @
     (if out_of_time then [(''terminal_reason'', PStr ''maximum wall budget exhausted after evaluation'')]
      else [])"

definition conclude_step ::
  "'w LongRunEngine \<Rightarrow> RunState \<Rightarrow> StepProposal \<Rightarrow> int \<Rightarrow> StepResult \<Rightarrow> string \<Rightarrow>
   EvaluationResult option \<Rightarrow> ('w, RunState) longrun_proc" where
  "conclude_step le st p dup result digest evaluation =
     bind (read_clock le) (\<lambda>now.
     let new = concluded_state le st p dup result evaluation now;
         out_of_time = of_int (lm_maximum_wall_seconds (le_manifest le)) \<le> now - rs_started_at st in
     bind (lift (case evaluation of None \<Rightarrow> Inr None
             | Some ev \<Rightarrow> (case EvaluationResult_event_payload (le_repr le) ev of
                 Inl e \<Rightarrow> Inl e | Inr x \<Rightarrow> Inr (Some x)))) (\<lambda>ev_payload.
     bind (attempt (persist_transition new ''STEP_RESULT''
             (result_payload le p result digest new ev_payload out_of_time))) (\<lambda>saved.
     case saved of
       Inr _ \<Rightarrow> ret new
     | Inl e \<Rightarrow>
         if exc_type e = ''TypeError'' \<or> exc_type e = ''ValueError'' then
           seq (persist_transition (failed_step p dup now st) ''STEP_PERSISTENCE_FAILURE''
             [(''fingerprint'', PStr (sp_fingerprint p)), (''exception_type'', PStr (exc_type e)),
              (''reason'', PStr ''step result payload is not JSON serializable''),
              (''value'', num_json le (proposal_value p))])
           (raise (runtime_error ''step result payload is not JSON serializable''))
         else raise e)))"

section \<open>Evaluation\<close>

definition invalid_evaluation ::
  "'w LongRunEngine \<Rightarrow> RunState \<Rightarrow> StepProposal \<Rightarrow> int \<Rightarrow> string \<Rightarrow> string \<Rightarrow> ('w, RunState) longrun_proc" where
  "invalid_evaluation le st p dup digest reason =
     bind (read_clock le) (\<lambda>now.
       persist_transition (blocked_at now (stepped p dup now st)) ''EVALUATION_INVALID''
         [(''fingerprint'', PStr (sp_fingerprint p)), (''reason'', PStr reason),
          (''evidence_digest'', PStr digest)])"

definition evaluate_step ::
  "'w LongRunEngine \<Rightarrow> RunState \<Rightarrow> StepProposal \<Rightarrow> int \<Rightarrow> StepResult \<Rightarrow> string \<Rightarrow> ('w, RunState) longrun_proc" where
  "evaluate_step le st p dup result digest =
     (case le_evaluator le of
        None \<Rightarrow> conclude_step le st p dup result digest None
      | Some evaluator \<Rightarrow>
          bind (attempt (callback (evaluator p result))) (\<lambda>outcome.
          case outcome of
            Inl e \<Rightarrow>
              bind (read_clock le) (\<lambda>now.
              seq (persist_transition (failed_step p dup now st) ''EVALUATION_EXCEPTION''
                [(''fingerprint'', PStr (sp_fingerprint p)), (''exception_type'', PStr (exc_type e)),
                 (''evidence_digest'', PStr digest)])
              (raise e))
          | Inr (evaluation, evidence_after) \<Rightarrow>
              if evidence_digest evidence_after \<noteq> Inr digest
                then invalid_evaluation le st p dup digest ''evaluator mutated executor evidence snapshot''
              else (case evaluation of
                None \<Rightarrow> invalid_evaluation le st p dup digest ''evaluator returned an invalid result type''
              | Some ev \<Rightarrow>
                  (case EvaluationResult_validate ev digest of
                     Inl e \<Rightarrow> invalid_evaluation le st p dup digest (exc_msg e)
                   | Inr _ \<Rightarrow> conclude_step le st p dup result digest (Some ev)))))"

section \<open>Execution\<close>

definition execute_step ::
  "'w LongRunEngine \<Rightarrow> RunState \<Rightarrow> StepProposal \<Rightarrow> int \<Rightarrow> ('w, RunState) longrun_proc" where
  "execute_step le st p dup =
     bind (attempt (callback (le_executor le p))) (\<lambda>outcome.
     bind (read_clock le) (\<lambda>now.
     case outcome of
       Inl e \<Rightarrow>
         seq (persist_transition (failed_step p dup now st) ''STEP_EXCEPTION''
           [(''fingerprint'', PStr (sp_fingerprint p)), (''exception_type'', PStr (exc_type e)),
            (''value'', num_json le (proposal_value p))])
         (raise e)
     | Inr result \<Rightarrow>
         (case evidence_digest (sr_evidence result) of
            Inl e \<Rightarrow>
              seq (persist_transition (failed_step p dup now st) ''STEP_PERSISTENCE_FAILURE''
                [(''fingerprint'', PStr (sp_fingerprint p)), (''exception_type'', PStr (exc_type e)),
                 (''reason'', PStr ''step result evidence is not canonical JSON''),
                 (''value'', num_json le (proposal_value p))])
              (raise (runtime_error ''step result evidence is not canonical JSON''))
          | Inr digest \<Rightarrow>
              if lm_evidence_required (le_manifest le) \<and> \<not> truthy (sr_evidence result)
              then persist_transition (blocked_at now (stepped p dup now st)) ''EVALUATION_BLOCKED''
                [(''fingerprint'', PStr (sp_fingerprint p)),
                 (''reason'', PStr ''executor evidence is required but empty''),
                 (''evidence_digest'', PStr digest)]
              else evaluate_step le st p dup result digest)))"

section \<open>Planning\<close>

definition next_duplicate_count :: "RunState \<Rightarrow> StepProposal \<Rightarrow> int" where
  "next_duplicate_count st p =
     (if Some (sp_fingerprint p) = rs_last_step_fingerprint st then rs_duplicate_count st + 1 else 0)"

definition step_authorized :: "'w LongRunEngine \<Rightarrow> StepProposal \<Rightarrow> bool \<times> string" where
  "step_authorized le p =
     authorize_step p (lm_allowed_effects (le_manifest le)) (lm_prohibited_effects (le_manifest le))"

definition check_step :: "'w LongRunEngine \<Rightarrow> RunState \<Rightarrow> StepProposal \<Rightarrow> ('w, RunState) longrun_proc" where
  "check_step le st p =
     (if \<not> fst (step_authorized le p) then
        bind (read_clock le) (\<lambda>now.
          persist_transition (blocked_at now st) ''STEP_BLOCKED''
            [(''fingerprint'', PStr (sp_fingerprint p)), (''reason'', PStr (snd (step_authorized le p)))])
      else if lm_independent_evaluation_required (le_manifest le) \<and> le_evaluator le = None then
        bind (read_clock le) (\<lambda>now.
          persist_transition (blocked_at now st) ''EVALUATION_BLOCKED''
            [(''fingerprint'', PStr (sp_fingerprint p)),
             (''reason'', PStr ''independent evaluator is required but not configured'')])
      else execute_step le st p (next_duplicate_count st p))"

definition planner_failed :: "'w LongRunEngine \<Rightarrow> rat \<Rightarrow> RunState \<Rightarrow> RunState" where
  "planner_failed le now st =
     st\<lparr>rs_status := (if of_int (lm_maximum_wall_seconds (le_manifest le)) \<le> now - rs_started_at st
                      then ''STOPPED'' else rs_status st),
        rs_step_index := rs_step_index st + 1,
        rs_consecutive_failures := rs_consecutive_failures st + 1, rs_updated_at := now\<rparr>"

definition plan_step :: "'w LongRunEngine \<Rightarrow> RunState \<Rightarrow> ('w, RunState) longrun_proc" where
  "plan_step le st =
     bind (attempt (callback (le_planner le st))) (\<lambda>outcome.
     bind (read_clock le) (\<lambda>now.
     case outcome of
       Inl e \<Rightarrow>
         (let failed = planner_failed le now st in
          seq (persist_transition failed ''PLANNER_EXCEPTION''
            ([(''exception_type'', PStr (exc_type e)), (''status'', PStr (rs_status failed))] @
             (if rs_status failed = ''STOPPED''
              then [(''terminal_reason'', PStr ''maximum wall budget exhausted during planning'')] else [])))
          (raise e))
     | Inr p \<Rightarrow>
         if wd_action (watchdog_of le st now) = ''STOP'' then
           persist_transition (stopped_at now st) ''WATCHDOG_STOP''
             [(''reason'', PStr (wd_reason (watchdog_of le st now))), (''phase'', PStr ''post_planning'')]
         else check_step le st p))"

section \<open>Steps and runs\<close>

definition run_step :: "'w LongRunEngine \<Rightarrow> ('w, RunState) longrun_proc" where
  "run_step le =
     bind (load_or_create le) (\<lambda>st.
     if terminal (rs_status st) then ret st
     else bind (read_clock le) (\<lambda>now.
       let d = watchdog_of le st now in
       if wd_action d = ''STOP'' then
         persist_transition (stopped_at now st) ''WATCHDOG_STOP'' [(''reason'', PStr (wd_reason d))]
       else if wd_action d = ''REPLAN'' then
         bind (persist_transition (replanned_at now st) ''WATCHDOG_REPLAN'' [(''reason'', PStr (wd_reason d))])
           (plan_step le)
       else plan_step le st))"

text \<open>
  The loop of \<open>run_until_terminal\<close>: with \<open>max_steps\<close> it ends by itself; without, it is cut after
  \<open>fuel\<close> rounds, and \<open>None\<close> says that it was still running then.
\<close>

fun run_bounded :: "'w LongRunEngine \<Rightarrow> nat \<Rightarrow> RunState \<Rightarrow> ('w, RunState) longrun_proc" where
  "run_bounded le 0 st = ret st"
| "run_bounded le (Suc n) st =
     (if rs_status st \<noteq> ''RUNNING'' then ret st else bind (run_step le) (run_bounded le n))"

fun run_unbounded :: "'w LongRunEngine \<Rightarrow> nat \<Rightarrow> RunState \<Rightarrow> ('w, RunState option) longrun_proc" where
  "run_unbounded le 0 st = (if rs_status st \<noteq> ''RUNNING'' then ret (Some st) else ret None)"
| "run_unbounded le (Suc n) st =
     (if rs_status st \<noteq> ''RUNNING'' then ret (Some st) else bind (run_step le) (run_unbounded le n))"

definition run_until_terminal_max :: "'w LongRunEngine \<Rightarrow> nat \<Rightarrow> ('w, RunState) longrun_proc" where
  "run_until_terminal_max le max_steps = bind (load_or_create le) (run_bounded le max_steps)"

definition run_until_terminal :: "'w LongRunEngine \<Rightarrow> nat \<Rightarrow> ('w, RunState option) longrun_proc" where
  "run_until_terminal le fuel = bind (load_or_create le) (run_unbounded le fuel)"

end
