(* ===== verification/LongRun_Lifecycle.thy ===== *)
theory LongRun_Lifecycle
  imports LongRun_Engine
begin

text \<open>
  The life of a run as a step relation on the two tables of the state store, and the proof that the
  engine implements it: \<open>transition\<close> lists the changes a running mission may undergo and the event
  each of them records, \<open>lifecycle\<close> the changes of the tables. \<open>stored\<close> is the state between two
  calls: the tables reached so far and the row of the mission.
\<close>

section \<open>The step relation\<close>

type_synonym ledger = "(string \<rightharpoonup> RunState) \<times> RunEvent list"

definition ledger_of :: "'w longrun \<Rightarrow> ledger" where
  "ledger_of s = (lr_runs s, lr_events s)"

abbreviation mission :: "'w LongRunEngine \<Rightarrow> string" where
  "mission le \<equiv> lm_run_id (le_manifest le)"

abbreviation contract_digest :: "'w LongRunEngine \<Rightarrow> lexn + string" where
  "contract_digest le \<equiv> LongRunManifest_digest (le_repr le) (le_manifest le)"

definition out_of_time :: "'w LongRunEngine \<Rightarrow> rat \<Rightarrow> RunState \<Rightarrow> bool" where
  "out_of_time le now st \<longleftrightarrow> of_int (lm_maximum_wall_seconds (le_manifest le)) \<le> now - rs_started_at st"

text \<open>Below the two limits of the watchdog.\<close>

definition within_limits :: "'w LongRunEngine \<Rightarrow> RunState \<Rightarrow> bool" where
  "within_limits le st \<longleftrightarrow>
     rs_consecutive_failures st < lm_max_consecutive_failures (le_manifest le) \<and>
     rs_duplicate_count st < lm_max_duplicate_steps (le_manifest le)"

text \<open>An evaluation the engine may act on, for evidence of this digest.\<close>

definition evaluation_ok :: "'w LongRunEngine \<Rightarrow> string \<Rightarrow> EvaluationResult option \<Rightarrow> bool" where
  "evaluation_ok le digest evaluation \<longleftrightarrow>
     (case evaluation of
        None \<Rightarrow> \<not> lm_independent_evaluation_required (le_manifest le)
      | Some ev \<Rightarrow> EvaluationResult_validate ev digest = Inr ())"

text \<open>An evaluation that is acted on is one the configured evaluator returned for this step.\<close>

definition produced :: "'w LongRunEngine \<Rightarrow> StepProposal \<Rightarrow> StepResult \<Rightarrow> EvaluationResult option \<Rightarrow> bool" where
  "produced le p result evaluation \<longleftrightarrow>
     (case evaluation of None \<Rightarrow> True
      | Some ev \<Rightarrow> \<exists>evaluator w w' evidence. le_evaluator le = Some evaluator \<and>
          evaluator p result w = (Inr (Some ev, evidence), w'))"

definition evaluation_payload :: "'w LongRunEngine \<Rightarrow> EvaluationResult option \<Rightarrow> lexn + pyval option" where
  "evaluation_payload le evaluation =
     (case evaluation of None \<Rightarrow> Inr None
      | Some ev \<Rightarrow> (case EvaluationResult_event_payload (le_repr le) ev of
          Inl e \<Rightarrow> Inl e | Inr x \<Rightarrow> Inr (Some x)))"

inductive transition ::
  "'w LongRunEngine \<Rightarrow> RunState \<Rightarrow> string \<Rightarrow> (string \<times> pyval) list \<Rightarrow> RunState \<Rightarrow> bool"
  for le st where
  stop: "out_of_time le now st \<Longrightarrow> kind = ''WATCHDOG_STOP'' \<Longrightarrow>
    transition le st kind payload (stopped_at now st)"
| replan: "\<not> within_limits le st \<Longrightarrow> \<not> out_of_time le now st \<Longrightarrow> kind = ''WATCHDOG_REPLAN'' \<Longrightarrow>
    transition le st kind payload (replanned_at now st)"
| no_plan: "within_limits le st \<Longrightarrow> kind = ''PLANNER_EXCEPTION'' \<Longrightarrow>
    transition le st kind payload (planner_failed le now st)"
| refuse: "kind = ''STEP_BLOCKED'' \<or> kind = ''EVALUATION_BLOCKED'' \<Longrightarrow>
    transition le st kind payload (blocked_at now st)"
| fail: "within_limits le st \<Longrightarrow> fst (step_authorized le p) \<Longrightarrow>
    kind \<in> {''STEP_EXCEPTION'', ''EVALUATION_EXCEPTION'', ''STEP_PERSISTENCE_FAILURE''} \<Longrightarrow>
    transition le st kind payload (failed_step p (next_duplicate_count st p) now st)"
| distrust: "within_limits le st \<Longrightarrow> fst (step_authorized le p) \<Longrightarrow>
    kind = ''EVALUATION_BLOCKED'' \<or> kind = ''EVALUATION_INVALID'' \<Longrightarrow>
    transition le st kind payload (blocked_at now (stepped p (next_duplicate_count st p) now st))"
| conclude: "within_limits le st \<Longrightarrow> fst (step_authorized le p) \<Longrightarrow> kind = ''STEP_RESULT'' \<Longrightarrow>
    evidence_digest (sr_evidence result) = Inr digest \<Longrightarrow> evaluation_ok le digest evaluation \<Longrightarrow>
    produced le p result evaluation \<Longrightarrow> evaluation_payload le evaluation = Inr ev_payload \<Longrightarrow>
    st' = concluded_state le st p (next_duplicate_count st p) result evaluation now \<Longrightarrow>
    payload = result_payload le p result digest st' ev_payload (out_of_time le now st) \<Longrightarrow>
    transition le st kind payload st'"

definition event_of :: "RunEvent list \<Rightarrow> RunState \<Rightarrow> string \<Rightarrow> (string \<times> pyval) list \<Rightarrow> RunEvent" where
  "event_of events st kind payload =
     \<lparr>re_id = length events + 1, re_run_id = rs_run_id st, re_step_index = rs_step_index st,
      re_kind = kind, re_payload = PDict payload, re_created_at = rs_updated_at st\<rparr>"

inductive lifecycle :: "'w LongRunEngine \<Rightarrow> ledger \<Rightarrow> ledger \<Rightarrow> bool" for le where
  start: "runs (mission le) = None \<Longrightarrow> contract_digest le = Inr digest \<Longrightarrow>
    st = initial_state le now digest \<Longrightarrow>
    lifecycle le (runs, events) (runs(mission le \<mapsto> st),
      events @ [event_of events st ''RUN_STARTED'' [(''manifest_digest'', PStr digest)]])"
| progress: "runs (mission le) = Some st \<Longrightarrow> contract_digest le = Inr (rs_manifest_digest st) \<Longrightarrow>
    rs_status st = ''RUNNING'' \<Longrightarrow> transition le st kind payload st' \<Longrightarrow>
    lifecycle le (runs, events) (runs(mission le \<mapsto> st'), events @ [event_of events st' kind payload])"

text \<open>
  What every transition leaves alone. A status is one of the four of the code; a row is kept under
  its own id.
\<close>

lemma transition_frame:
  assumes "transition le st kind payload st'"
  shows "rs_run_id st' = rs_run_id st" and "rs_manifest_digest st' = rs_manifest_digest st"
    and "rs_started_at st' = rs_started_at st"
  using assms
  by (induction rule: transition.induct)
    (simp_all add: stopped_at_def replanned_at_def planner_failed_def blocked_at_def failed_step_def
      stepped_def concluded_state_def Let_def)

definition known_status :: "RunState \<Rightarrow> bool" where
  "known_status st \<longleftrightarrow> rs_status st = ''RUNNING'' \<or> terminal (rs_status st)"

lemma transition_status:
  assumes "transition le st kind payload st'" and "rs_status st = ''RUNNING''"
  shows "known_status st'"
  using assms
  by (induction rule: transition.induct)
    (simp_all add: stopped_at_def replanned_at_def planner_failed_def blocked_at_def failed_step_def
      stepped_def concluded_state_def Let_def known_status_def terminal_def)

section \<open>The state between two calls\<close>

definition stored :: "'w LongRunEngine \<Rightarrow> ledger \<Rightarrow> RunState \<Rightarrow> 'w longrun \<Rightarrow> bool" where
  "stored le l st s \<longleftrightarrow> (lifecycle le)\<^sup>*\<^sup>* l (ledger_of s) \<and> lr_runs s (mission le) = Some st \<and>
     rs_run_id st = mission le \<and> contract_digest le = Inr (rs_manifest_digest st) \<and> known_status st"

lemma stored_world: "stored le l st (s\<lparr>lr_world := w\<rparr>) \<longleftrightarrow> stored le l st s"
  by (simp add: stored_def ledger_of_def)

lemma wp_read_clock:
  assumes "stored le l st s" and "\<And>now t. stored le l st t \<Longrightarrow> Q now t"
  shows "wp (read_clock le) Q E s"
  unfolding read_clock_def callback_def wp_zoom
  by (auto simp: wp_def assms stored_world split: prod.splits)

text \<open>The postcondition of the engine's procedures: the row they return is the one they stored.\<close>

definition kept_row :: "'w LongRunEngine \<Rightarrow> ledger \<Rightarrow> ('w, RunState) longrun_proc \<Rightarrow> 'w longrun \<Rightarrow> bool" where
  "kept_row le l m s \<longleftrightarrow> wp m (stored le l) (\<lambda>_ t. \<exists>st. stored le l st t) s"

lemma kept_rowI:
  "wp m (stored le l) (\<lambda>_ t. \<exists>st. stored le l st t) s \<Longrightarrow> kept_row le l m s"
  by (simp add: kept_row_def)

lemma stored_move:
  assumes at: "stored le l st s" and "rs_status st = ''RUNNING''"
    and move: "transition le st kind payload st'"
  shows "stored le l st' (store_append_event (rs_run_id st') (rs_step_index st') kind (PDict payload)
    (rs_updated_at st') (s\<lparr>lr_runs := (lr_runs s)(rs_run_id st' \<mapsto> st')\<rparr>))"
proof -
  note frame = transition_frame [OF move]
  from at have row: "lr_runs s (mission le) = Some st" "rs_run_id st = mission le"
    "contract_digest le = Inr (rs_manifest_digest st)" by (auto simp: stored_def)
  have "lifecycle le (ledger_of s)
    ((lr_runs s)(mission le \<mapsto> st'), lr_events s @ [event_of (lr_events s) st' kind payload])"
    unfolding ledger_of_def using assms row by (intro lifecycle.progress)
  with at have "(lifecycle le)\<^sup>*\<^sup>* l
    ((lr_runs s)(mission le \<mapsto> st'), lr_events s @ [event_of (lr_events s) st' kind payload])"
    unfolding stored_def by (blast intro: rtranclp.rtrancl_into_rtrancl)
  with row frame transition_status [OF move assms(2)] show ?thesis
    by (simp add: stored_def ledger_of_def store_append_event_def event_of_def)
qed

lemma wp_persist:
  assumes at: "stored le l st s" and "rs_status st = ''RUNNING''"
    and move: "transition le st kind payload st'"
    and "\<And>t. stored le l st' t \<Longrightarrow> Q st' t"
    and "\<And>e. encode_payload (PDict payload) = Inl e \<Longrightarrow> E e s"
  shows "wp (persist_transition st' kind payload) Q E s"
proof -
  from at transition_frame [OF move] have "lr_runs s (rs_run_id st') = Some st"
    by (auto simp: stored_def)
  moreover have "Q st' (store_append_event (rs_run_id st') (rs_step_index st') kind (PDict payload)
    (rs_updated_at st') (s\<lparr>lr_runs := (lr_runs s)(rs_run_id st' \<mapsto> st')\<rparr>))"
    by (rule assms(4)) (rule stored_move [OF assms(1-3)])
  ultimately show ?thesis
    using assms(5) by (auto simp: persist_transition_def store_save_with_event_def wp_simps split: sum.splits)
qed

section \<open>The engine implements it\<close>

lemma contract_valid: "contract_digest le = Inr d \<Longrightarrow> LongRunManifest_validate (le_manifest le) = Inr ()"
  by (auto simp: LongRunManifest_digest_def split: sum.splits)

lemma contract_limits:
  assumes "contract_digest le = Inr d"
  shows "1 \<le> lm_max_consecutive_failures (le_manifest le)" and "1 \<le> lm_max_duplicate_steps (le_manifest le)"
  using contract_valid [OF assms] by (auto simp: LongRunManifest_validate_def split: if_splits)

lemma watchdog_stop: "wd_action (watchdog_of le st now) = ''STOP'' \<longleftrightarrow> out_of_time le now st"
  by (auto simp: watchdog_of_def evaluate_watchdog_def out_of_time_def)

lemma watchdog_replan:
  "wd_action (watchdog_of le st now) = ''REPLAN'' \<longleftrightarrow> \<not> out_of_time le now st \<and> \<not> within_limits le st"
  by (auto simp: watchdog_of_def evaluate_watchdog_def out_of_time_def within_limits_def)

text \<open>The state of a mission that a step may be taken from.\<close>

definition ready :: "'w LongRunEngine \<Rightarrow> ledger \<Rightarrow> RunState \<Rightarrow> 'w longrun \<Rightarrow> bool" where
  "ready le l st s \<longleftrightarrow> stored le l st s \<and> rs_status st = ''RUNNING'' \<and> within_limits le st"

lemma persist_kept:
  assumes "stored le l st s" and "rs_status st = ''RUNNING''" and "transition le st kind payload st'"
  shows "kept_row le l (persist_transition st' kind payload) s"
  unfolding kept_row_def using assms by (rule wp_persist) (use assms(1) in blast)+

lemma persist_raise_kept:
  assumes "stored le l st s" and "rs_status st = ''RUNNING''" and "transition le st kind payload st'"
  shows "kept_row le l (seq (persist_transition st' kind payload) (raise e)) s"
  unfolding kept_row_def wp_seq wp_raise using assms by (rule wp_persist) (use assms(1) in blast)+

lemma clock_kept:
  assumes "stored le l st s" and "\<And>now t. stored le l st t \<Longrightarrow> kept_row le l (f now) t"
  shows "kept_row le l (bind (read_clock le) f) s"
  unfolding kept_row_def wp_bind using assms by (intro wp_read_clock) (auto simp: kept_row_def)

lemma callback_kept:
  assumes "stored le l st s" and "\<And>x t w w'. stored le l st t \<Longrightarrow> m w = (x, w') \<Longrightarrow> kept_row le l (f x) t"
  shows "kept_row le l (bind (attempt (callback m)) f) s"
  unfolding kept_row_def wp_bind wp_attempt callback_def wp_zoom
  by (rule wpI) (use assms in \<open>auto simp: kept_row_def stored_world\<close>)

lemma persist_then_kept:
  assumes "stored le l st s" and "rs_status st = ''RUNNING''" and "transition le st kind payload st'"
    and "\<And>t. stored le l st' t \<Longrightarrow> kept_row le l (f (Inr st')) t"
    and "\<And>e t. stored le l st t \<Longrightarrow> kept_row le l (f (Inl e)) t"
  shows "kept_row le l (bind (attempt (persist_transition st' kind payload)) f) s"
  unfolding kept_row_def wp_bind wp_attempt using assms(1-3)
  by (rule wp_persist) (use assms in \<open>auto simp: kept_row_def\<close>)

lemma lift_kept:
  assumes "stored le l st s" and "\<And>x. r = Inr x \<Longrightarrow> kept_row le l (f x) s"
  shows "kept_row le l (bind (lift r) f) s"
  using assms by (auto simp: kept_row_def wp_simps split: sum.splits)

lemma ret_kept: "stored le l st s \<Longrightarrow> kept_row le l (ret st) s"
  by (simp add: kept_row_def wp_simps)

lemma raise_kept: "stored le l st s \<Longrightarrow> kept_row le l (raise e) s"
  by (auto simp: kept_row_def wp_simps)

text \<open>Each part of a step, from the running state it is entered with.\<close>

lemma conclude_step_kept:
  assumes st: "stored le l st s" "rs_status st = ''RUNNING''" "within_limits le st"
    and p: "fst (step_authorized le p)"
    and ev: "evidence_digest (sr_evidence result) = Inr digest" "evaluation_ok le digest evaluation"
      "produced le p result evaluation"
  shows "kept_row le l (conclude_step le st p (next_duplicate_count st p) result digest evaluation) s"
  unfolding conclude_step_def Let_def evaluation_payload_def [symmetric] out_of_time_def [symmetric]
  apply (rule clock_kept [OF st(1)], rule lift_kept, assumption)
  apply (rule persist_then_kept, assumption, rule st(2),
      rule transition.conclude [OF st(3) p refl ev _ refl refl], assumption)
   apply (simp add: ret_kept)
  apply (auto intro!: raise_kept persist_raise_kept transition.fail st p)
  done

lemma invalid_evaluation_kept:
  assumes "stored le l st s" "rs_status st = ''RUNNING''" "within_limits le st" "fst (step_authorized le p)"
  shows "kept_row le l (invalid_evaluation le st p (next_duplicate_count st p) digest reason) s"
  unfolding invalid_evaluation_def
  by (rule clock_kept [OF assms(1)], rule persist_kept)
    (use assms in \<open>auto intro: transition.distrust\<close>)

lemma evaluate_step_kept:
  assumes st: "stored le l st s" "rs_status st = ''RUNNING''" "within_limits le st"
    and p: "fst (step_authorized le p)"
    and ev: "evidence_digest (sr_evidence result) = Inr digest"
    and "le_evaluator le = None \<Longrightarrow> \<not> lm_independent_evaluation_required (le_manifest le)"
  shows "kept_row le l (evaluate_step le st p (next_duplicate_count st p) result digest) s"
proof (cases "le_evaluator le")
  case None
  with assms show ?thesis
    by (simp add: evaluate_step_def conclude_step_kept evaluation_ok_def produced_def)
next
  case (Some evaluator)
  show ?thesis
    unfolding evaluate_step_def Some option.case
    apply (rule callback_kept [OF st(1)])
    apply (auto split: sum.splits option.splits
        intro!: clock_kept invalid_evaluation_kept conclude_step_kept persist_raise_kept transition.fail
        simp: st p ev evaluation_ok_def produced_def Some)
    apply blast
    done
qed

lemma execute_step_kept:
  assumes st: "stored le l st s" "rs_status st = ''RUNNING''" "within_limits le st"
    and p: "fst (step_authorized le p)"
    and "le_evaluator le = None \<Longrightarrow> \<not> lm_independent_evaluation_required (le_manifest le)"
  shows "kept_row le l (execute_step le st p (next_duplicate_count st p)) s"
  unfolding execute_step_def
  apply (rule callback_kept [OF st(1)])
  apply (rule clock_kept, assumption)
  apply (auto split: sum.splits
      intro!: persist_raise_kept persist_kept evaluate_step_kept transition.fail transition.distrust
      simp: st(2,3) p assms(5))
  done

lemma check_step_kept:
  assumes st: "stored le l st s" "rs_status st = ''RUNNING''" "within_limits le st"
  shows "kept_row le l (check_step le st p) s"
  unfolding check_step_def
  by (auto intro!: clock_kept [OF st(1)] persist_kept transition.refuse execute_step_kept simp: st)

lemma plan_step_kept:
  assumes st: "stored le l st s" "rs_status st = ''RUNNING''" "within_limits le st"
  shows "kept_row le l (plan_step le st) s"
  unfolding plan_step_def Let_def
  apply (rule callback_kept [OF st(1)])
  apply (rule clock_kept, assumption)
  apply (auto split: sum.splits
      intro!: persist_raise_kept persist_kept check_step_kept transition.no_plan transition.stop
      simp: st(2,3) watchdog_stop)
  done

section \<open>Steps and runs\<close>

text \<open>What the engine expects of the row of its mission when it starts.\<close>

definition row_ok :: "'w LongRunEngine \<Rightarrow> 'w longrun \<Rightarrow> bool" where
  "row_ok le s \<longleftrightarrow> (\<forall>st. lr_runs s (mission le) = Some st \<longrightarrow> rs_run_id st = mission le \<and> known_status st)"

definition advanced :: "'w LongRunEngine \<Rightarrow> ledger \<Rightarrow> 'w longrun \<Rightarrow> bool" where
  "advanced le l t \<longleftrightarrow> (lifecycle le)\<^sup>*\<^sup>* l (ledger_of t) \<and> row_ok le t"

lemma stored_advanced: "stored le l st t \<Longrightarrow> advanced le l t"
  by (auto simp: stored_def advanced_def row_ok_def)

definition runs_well :: "'w LongRunEngine \<Rightarrow> ledger \<Rightarrow> ('w, RunState) longrun_proc \<Rightarrow> 'w longrun \<Rightarrow> bool" where
  "runs_well le l m s \<longleftrightarrow> wp m (stored le l) (\<lambda>_. advanced le l) s"

lemma kept_runs_well: "kept_row le l m s \<Longrightarrow> runs_well le l m s"
  unfolding kept_row_def runs_well_def by (erule wp_mono) (auto dest: stored_advanced)

lemma load_or_create_runs_well:
  assumes "advanced le l s"
  shows "runs_well le l (load_or_create le) s"
proof -
  have start: "stored le l (initial_state le now d)
      (store_append_event (mission le) 0 ''RUN_STARTED'' (PDict [(''manifest_digest'', PStr d)]) now
        (s\<lparr>lr_world := w, lr_runs := (lr_runs s)(mission le \<mapsto> initial_state le now d)\<rparr>))"
    if "contract_digest le = Inr d" "lr_runs s (mission le) = None" for now d w
  proof -
    have "lifecycle le (ledger_of s) ((lr_runs s)(mission le \<mapsto> initial_state le now d),
        lr_events s @ [event_of (lr_events s) (initial_state le now d) ''RUN_STARTED''
          [(''manifest_digest'', PStr d)]])"
      unfolding ledger_of_def using that by (intro lifecycle.start) auto
    with assms have "(lifecycle le)\<^sup>*\<^sup>* l ((lr_runs s)(mission le \<mapsto> initial_state le now d),
        lr_events s @ [event_of (lr_events s) (initial_state le now d) ''RUN_STARTED''
          [(''manifest_digest'', PStr d)]])"
      unfolding advanced_def by (blast intro: rtranclp.rtrancl_into_rtrancl)
    with that show ?thesis
      by (simp add: stored_def ledger_of_def store_append_event_def event_of_def initial_state_def
          known_status_def)
  qed
  have clock: "wp (read_clock le) Q E s" if "\<And>now w. Q now (s\<lparr>lr_world := w\<rparr>)" for Q :: "rat \<Rightarrow> 'a longrun \<Rightarrow> bool" and E
    unfolding read_clock_def callback_def wp_zoom by (auto simp: wp_def that split: prod.splits)
  have world: "advanced le l (s\<lparr>lr_world := w\<rparr>)" for w
    using assms by (simp add: advanced_def ledger_of_def row_ok_def)
  show ?thesis
  proof (cases "lr_runs s (mission le)")
    case None
    then show ?thesis
      unfolding runs_well_def load_or_create_def store_load_def store_create_with_event_def Let_def
      by (auto simp: wp_simps world intro!: clock start [unfolded initial_state_def] simp: initial_state_def split: sum.splits)
  next
    case (Some st)
    with assms show ?thesis
      unfolding runs_well_def load_or_create_def store_load_def
      by (auto simp: wp_simps stored_def advanced_def row_ok_def split: sum.splits)
  qed
qed

lemma runs_well_bind:
  assumes "runs_well le l m s" and "\<And>st t. stored le l st t \<Longrightarrow> runs_well le l (f st) t"
  shows "runs_well le l (bind m f) s"
  using assms unfolding runs_well_def wp_bind by (auto elim: wp_mono)

lemma run_step_runs_well:
  assumes "advanced le l s"
  shows "runs_well le l (run_step le) s"
  unfolding run_step_def Let_def
proof (rule runs_well_bind [OF load_or_create_runs_well [OF assms]], rule kept_runs_well)
  fix st t
  assume t: "stored le l st t"
  show "kept_row le l (if terminal (rs_status st) then ret st
     else bind (read_clock le) (\<lambda>now.
       if wd_action (watchdog_of le st now) = ''STOP'' then
         persist_transition (stopped_at now st) ''WATCHDOG_STOP''
           [(''reason'', PStr (wd_reason (watchdog_of le st now)))]
       else if wd_action (watchdog_of le st now) = ''REPLAN'' then
         bind (persist_transition (replanned_at now st) ''WATCHDOG_REPLAN''
             [(''reason'', PStr (wd_reason (watchdog_of le st now)))])
           (plan_step le)
       else plan_step le st)) t"
  proof (cases "terminal (rs_status st)")
    case True
    with t show ?thesis by (simp add: ret_kept)
  next
    case False
    with t have run: "rs_status st = ''RUNNING''" by (simp add: stored_def known_status_def)
    have replan: "kept_row le l (bind (persist_transition (replanned_at now st) ''WATCHDOG_REPLAN'' pl) (plan_step le)) u"
      if "\<not> out_of_time le now st" "\<not> within_limits le st" "stored le l st u" for now pl u
    proof -
      have "rs_status (replanned_at now st) = ''RUNNING''" "within_limits le (replanned_at now st)"
        using run contract_limits [of le] t by (auto simp: replanned_at_def within_limits_def stored_def)
      then have "kept_row le l (plan_step le (replanned_at now st)) v"
        if "stored le l (replanned_at now st) v" for v using that by (simp add: plan_step_kept)
      then show ?thesis
        unfolding kept_row_def wp_bind
        by (intro wp_persist [OF that(3) run transition.replan [OF that(2,1) refl]]) (use that in blast)+
    qed
    have "within_limits le st" if "wd_action (watchdog_of le st now) \<noteq> ''STOP''"
      "wd_action (watchdog_of le st now) \<noteq> ''REPLAN''" for now
      using that by (simp add: watchdog_stop watchdog_replan)
    with False replan t run show ?thesis
      by (auto intro!: clock_kept [OF t] persist_kept transition.stop plan_step_kept
          simp: watchdog_stop watchdog_replan)
  qed
qed

lemma run_bounded_runs_well: "stored le l st s \<Longrightarrow> runs_well le l (run_bounded le n st) s"
proof (induction n arbitrary: st s)
  case 0
  then show ?case by (simp add: runs_well_def wp_simps)
next
  case (Suc n)
  then show ?case
    by (auto simp: runs_well_def [of _ _ "ret _"] wp_simps
        intro!: runs_well_bind run_step_runs_well stored_advanced)
qed

end
