(* ===== verification/LongRun_Invariants.thy ===== *)
theory LongRun_Invariants
  imports LongRun_Lifecycle
begin

text \<open>
  What the life of a mission guarantees. The invariant of one mission in a shared state store
  (bounded counters, a log in step with the row, evidence behind a completion) is proved over the
  step relation and holds for every sequence of steps of any engines on the store; then who may call
  the executor, and that a run ends.
\<close>

section \<open>The invariant of a mission\<close>

definition history :: "LongRunManifest \<Rightarrow> RunEvent list \<Rightarrow> RunEvent list" where
  "history m events = filter (\<lambda>e. re_run_id e = lm_run_id m) events"

text \<open>The event that a completed mission rests on.\<close>

definition completion_recorded ::
  "(rat \<Rightarrow> string) \<Rightarrow> LongRunManifest \<Rightarrow> RunState \<Rightarrow> RunEvent \<Rightarrow> bool" where
  "completion_recorded repr m st e \<longleftrightarrow>
     (\<exists>payload evidence digest ev x.
        re_kind e = ''STEP_RESULT'' \<and> re_payload e = PDict payload \<and>
        map_of payload ''success'' = Some (PBool True) \<and>
        map_of payload ''evidence'' = Some evidence \<and> evidence_digest evidence = Inr digest \<and>
        map_of payload ''evidence_digest'' = Some (PStr digest) \<and>
        map_of payload ''evaluation'' = Some x \<and> EvaluationResult_event_payload repr ev = Inr x \<and>
        EvaluationResult_validate ev digest = Inr () \<and> ev_verdict ev = ''PASS'' \<and>
        num_le (lm_evaluator_threshold m) (score_num (ev_score ev)) \<and>
        of_int (lm_minimum_wall_seconds m) \<le> rs_updated_at st - rs_started_at st \<and>
        rs_updated_at st - rs_started_at st < of_int (lm_maximum_wall_seconds m))"

definition row_bounds :: "LongRunManifest \<Rightarrow> RunState \<Rightarrow> bool" where
  "row_bounds m st \<longleftrightarrow>
     0 \<le> rs_step_index st \<and>
     0 \<le> rs_consecutive_failures st \<and> rs_consecutive_failures st \<le> lm_max_consecutive_failures m \<and>
     0 \<le> rs_duplicate_count st \<and> rs_duplicate_count st \<le> lm_max_duplicate_steps m \<and>
     0 \<le> rs_evaluator_score st \<and> rs_evaluator_score st \<le> 1"

definition log_matches :: "(rat \<Rightarrow> string) \<Rightarrow> LongRunManifest \<Rightarrow> RunState \<Rightarrow> RunEvent \<Rightarrow> bool" where
  "log_matches repr m st e \<longleftrightarrow> re_step_index e = rs_step_index st \<and> re_created_at e = rs_updated_at st \<and>
     (rs_status st = ''COMPLETED'' \<longrightarrow> completion_recorded repr m st e)"

definition mission_inv :: "(rat \<Rightarrow> string) \<Rightarrow> LongRunManifest \<Rightarrow> ledger \<Rightarrow> bool" where
  "mission_inv repr m l \<longleftrightarrow>
     sorted (map re_step_index (history m (snd l))) \<and>
     (case fst l (lm_run_id m) of
        None \<Rightarrow> history m (snd l) = []
      | Some st \<Rightarrow> rs_run_id st = lm_run_id m \<and> known_status st \<and> row_bounds m st \<and>
          history m (snd l) \<noteq> [] \<and> log_matches repr m st (last (history m (snd l))))"

lemma validated_score:
  assumes "EvaluationResult_validate ev d = Inr ()"
  shows "0 \<le> result_score (Some ev)" and "result_score (Some ev) \<le> 1"
  using assms
  by (auto simp: EvaluationResult_validate_def result_score_def split: if_splits num.splits)

lemma result_score_bounds:
  assumes "evaluation_ok le d evaluation"
  shows "0 \<le> result_score evaluation \<and> result_score evaluation \<le> 1"
  using assms validated_score
  by (cases evaluation) (auto simp: evaluation_ok_def result_score_def [of None])

lemma transition_bounds:
  assumes "transition le st kind payload st'" and "row_bounds (le_manifest le) st"
    and "contract_digest le = Inr d"
  shows "row_bounds (le_manifest le) st' \<and> rs_step_index st \<le> rs_step_index st'"
  using assms(1)
proof cases
  case (conclude p result digest evaluation ev_payload now)
  with assms(2) result_score_bounds [of le digest evaluation] contract_limits [OF assms(3)] show ?thesis
    by (auto simp: row_bounds_def concluded_state_def Let_def stepped_def within_limits_def
        next_duplicate_count_def max_def)
qed (use assms(2) contract_limits [OF assms(3)] in
  \<open>auto simp: row_bounds_def stopped_at_def replanned_at_def planner_failed_def blocked_at_def
     failed_step_def stepped_def within_limits_def next_duplicate_count_def\<close>)

lemma transition_completes:
  assumes "transition le st kind payload st'" and "rs_status st = ''RUNNING''"
    and "rs_status st' = ''COMPLETED''"
  shows "completion_recorded (le_repr le) (le_manifest le) st' (event_of events st' kind payload)"
  using assms(1)
proof cases
  case (conclude p result digest evaluation ev_payload now)
  with assms(2,3) have time: "\<not> out_of_time le now st"
    and acc: "accepts_completion le result evaluation (now - rs_started_at st)"
    and st': "rs_updated_at st' = now" "rs_started_at st' = rs_started_at st"
    by (auto simp: concluded_state_def Let_def stepped_def out_of_time_def split: if_splits)
  from acc obtain ev where ev: "evaluation = Some ev" "ev_verdict ev = ''PASS''" "sr_success result"
    "num_le (lm_evaluator_threshold (le_manifest le)) (score_num (ev_score ev))"
    "of_int (lm_minimum_wall_seconds (le_manifest le)) \<le> now - rs_started_at st"
    by (auto simp: accepts_completion_def split: option.splits)
  with conclude obtain x where x: "ev_payload = Some x" "EvaluationResult_event_payload (le_repr le) ev = Inr x"
    "EvaluationResult_validate ev digest = Inr ()"
    by (auto simp: evaluation_payload_def evaluation_ok_def split: sum.splits)
  with conclude ev time st' show ?thesis
    unfolding completion_recorded_def
    by (intro exI [of _ payload] exI [of _ "sr_evidence result"] exI [of _ digest] exI [of _ ev] exI [of _ x])
      (auto simp: event_of_def result_payload_def out_of_time_def)
qed (use assms(2,3) in \<open>auto simp: stopped_at_def replanned_at_def planner_failed_def blocked_at_def
     failed_step_def stepped_def split: if_splits\<close>)

lemma sorted_le_last: "sorted xs \<Longrightarrow> y \<in> set xs \<Longrightarrow> (y :: int) \<le> last xs"
  by (induction xs) auto

lemma sorted_snoc: "sorted xs \<Longrightarrow> xs \<noteq> [] \<longrightarrow> last xs \<le> (x :: int) \<Longrightarrow> sorted (xs @ [x])"
  using sorted_le_last [of xs] by (fastforce simp: sorted_append)

lemma mission_inv_other:
  assumes "mission_inv repr m (runs, events)" and "r \<noteq> lm_run_id m" and "rs_run_id st = r"
  shows "mission_inv repr m (runs(r \<mapsto> st), events @ [event_of events' st kind payload])"
  using assms by (auto simp: mission_inv_def history_def event_of_def split: option.splits)

lemma mission_inv_same:
  assumes inv: "sorted (map re_step_index (history m events))"
    and "history m events \<noteq> [] \<longrightarrow> re_step_index (last (history m events)) \<le> rs_step_index st"
    and "rs_run_id st = lm_run_id m" "known_status st" "row_bounds m st"
    and "rs_status st = ''COMPLETED'' \<longrightarrow> completion_recorded repr m st (event_of events' st kind payload)"
  shows "mission_inv repr m (runs(lm_run_id m \<mapsto> st), events @ [event_of events' st kind payload])"
  using assms sorted_snoc [OF inv, of "rs_step_index st"]
  by (simp add: mission_inv_def history_def event_of_def log_matches_def last_map)

text \<open>Engines that share a store may differ in everything, unless they work on the mission itself.\<close>

definition compatible :: "(rat \<Rightarrow> string) \<Rightarrow> LongRunManifest \<Rightarrow> 'w LongRunEngine \<Rightarrow> bool" where
  "compatible repr m le \<longleftrightarrow> (mission le = lm_run_id m \<longrightarrow> le_manifest le = m \<and> le_repr le = repr)"

lemma lifecycle_inv:
  assumes "lifecycle le l l'" and "compatible repr m le" and "mission_inv repr m l"
    and keyed: "\<And>st. fst l (mission le) = Some st \<Longrightarrow> rs_run_id st = mission le"
  shows "mission_inv repr m l'"
  using assms(1)
proof cases
  case (start runs digest st now events)
  then have st: "rs_run_id st = mission le" by (simp add: initial_state_def)
  show ?thesis
  proof (cases "mission le = lm_run_id m")
    case True
    with assms(2) have m: "le_manifest le = m" by (simp add: compatible_def)
    from start m contract_limits [OF start(4)] have "row_bounds m st" "known_status st"
      by (simp_all add: initial_state_def row_bounds_def known_status_def)
    moreover from start True assms(3) have "history m events = []" by (simp add: mission_inv_def)
    moreover have "rs_status st \<noteq> ''COMPLETED''" using start by (simp add: initial_state_def)
    ultimately show ?thesis
      using st True unfolding start(2) by (auto intro!: mission_inv_same)
  qed (use start st assms(3) in \<open>auto intro: mission_inv_other\<close>)
next
  case (progress runs st kind payload st' events)
  with keyed transition_frame [OF progress(6)] have st: "rs_run_id st' = mission le" by simp
  show ?thesis
  proof (cases "mission le = lm_run_id m")
    case True
    with assms(2) have m: "le_manifest le = m" "le_repr le = repr" by (simp_all add: compatible_def)
    with progress True assms(3) have inv: "row_bounds m st"
      "sorted (map re_step_index (history m events))"
      "re_step_index (last (history m events)) = rs_step_index st"
      by (auto simp: mission_inv_def log_matches_def)
    with transition_bounds [OF progress(6)] progress(4) m
    have "row_bounds m st' \<and> rs_step_index st \<le> rs_step_index st'" by blast
    with inv m progress st transition_status [OF progress(6,5)] transition_completes [OF progress(6,5)]
    show ?thesis by (auto intro!: mission_inv_same)
  qed (use progress st assms(3) in \<open>auto intro: mission_inv_other\<close>)
qed

section \<open>Steps of any engines on one store\<close>

definition table_ok :: "ledger \<Rightarrow> bool" where
  "table_ok l \<longleftrightarrow> (\<forall>k st. fst l k = Some st \<longrightarrow> rs_run_id st = k \<and> known_status st) \<and>
     map re_id (snd l) = [1..<Suc (length (snd l))]"

lemma lifecycle_table_ok:
  assumes "lifecycle le l l'" and "table_ok l"
  shows "table_ok l'"
  using assms(1)
proof cases
  case (start runs digest st now events)
  with assms(2) show ?thesis by (auto simp: table_ok_def initial_state_def known_status_def event_of_def)
next
  case (progress runs st kind payload st' events)
  with assms(2) transition_frame [OF progress(6)] transition_status [OF progress(6,5)]
  show ?thesis by (auto simp: table_ok_def event_of_def)
qed

text \<open>The history that a table of runs never loses: its events and the rows that have ended.\<close>

definition ledger_extends :: "ledger \<Rightarrow> ledger \<Rightarrow> bool" where
  "ledger_extends l l' \<longleftrightarrow> prefix (snd l) (snd l') \<and>
     (\<forall>k st. fst l k = Some st \<longrightarrow>
        (if rs_status st = ''RUNNING''
         then \<exists>st'. fst l' k = Some st' \<and> rs_started_at st' = rs_started_at st \<and>
           rs_manifest_digest st' = rs_manifest_digest st
         else fst l' k = Some st))"

lemma ledger_extends_refl: "ledger_extends l l"
  by (auto simp: ledger_extends_def)

lemma ledger_extends_trans: "ledger_extends a b \<Longrightarrow> ledger_extends b c \<Longrightarrow> ledger_extends a c"
  unfolding ledger_extends_def by (intro conjI allI impI) (auto split: if_splits dest: prefix_order.trans, metis+)

lemma lifecycle_extends: "lifecycle le l l' \<Longrightarrow> ledger_extends l l'"
  by (induction rule: lifecycle.induct) (auto simp: ledger_extends_def transition_frame)

lemma lifecycles_keep:
  assumes "(lifecycle le)\<^sup>*\<^sup>* l l'" and "table_ok l"
  shows "table_ok l' \<and> ledger_extends l l' \<and>
    (compatible repr m le \<longrightarrow> mission_inv repr m l \<longrightarrow> mission_inv repr m l')"
  using assms
proof (induction rule: rtranclp_induct)
  case base
  then show ?case by (simp add: ledger_extends_refl)
next
  case (step y z)
  then have "table_ok y" by blast
  with step show ?case
    by (auto intro: lifecycle_table_ok lifecycle_inv ledger_extends_trans [OF _ lifecycle_extends]
        simp: table_ok_def [of y])
qed

definition engine_step :: "'w LongRunEngine \<Rightarrow> 'w longrun \<Rightarrow> 'w longrun" where
  "engine_step le s = snd (run_step le s)"

lemma table_ok_advanced: "table_ok (ledger_of s) \<Longrightarrow> advanced le (ledger_of s) s"
  by (simp add: advanced_def row_ok_def table_ok_def ledger_of_def)

lemma run_step_lifecycle:
  assumes "table_ok (ledger_of s)"
  shows "(lifecycle le)\<^sup>*\<^sup>* (ledger_of s) (ledger_of (engine_step le s))"
  using run_step_runs_well [OF table_ok_advanced [OF assms], of le]
  by (auto simp: runs_well_def wp_def engine_step_def advanced_def stored_def split: prod.splits sum.splits)

definition fleet_inv :: "(rat \<Rightarrow> string) \<Rightarrow> LongRunManifest \<Rightarrow> 'w longrun \<Rightarrow> bool" where
  "fleet_inv repr m s \<longleftrightarrow> table_ok (ledger_of s) \<and> mission_inv repr m (ledger_of s)"

interpretation tables: reactive engine_step "\<lambda>_. True" "\<lambda>s. table_ok (ledger_of s)"
  by unfold_locales (use run_step_lifecycle lifecycles_keep in blast)

interpretation fleet: reactive engine_step "compatible repr m" "fleet_inv repr m" for repr m
  by unfold_locales (use run_step_lifecycle lifecycles_keep in \<open>unfold fleet_inv_def, blast\<close>)

lemma store_init_fleet: "fleet_inv repr m (store_init w)"
  by (simp add: fleet_inv_def table_ok_def mission_inv_def ledger_of_def store_init_def history_def)

lemma fleet_run:
  assumes "list_all (compatible repr m) les"
  shows "fleet_inv repr m (fold engine_step les (store_init w))"
  by (rule fleet.run_inv [OF assms store_init_fleet])

lemma mission_row:
  assumes "fleet_inv repr m s" and "lr_runs s (lm_run_id m) = Some st"
  shows "row_bounds m st" and "history m (lr_events s) \<noteq> []"
    and "log_matches repr m st (last (history m (lr_events s)))"
    and "sorted (map re_step_index (history m (lr_events s)))" and "known_status st"
  using assms by (auto simp: fleet_inv_def mission_inv_def ledger_of_def)

end
