(* ===== verification/LongRun_Properties.thy ===== *)
theory LongRun_Properties
  imports LongRun_Invariants
begin

text \<open>
  The properties of the LongRun runtime, and the engine the witnesses run: a mission whose planner
  always makes the same proposal, whose executor returns one piece of evidence and whose evaluator
  passes it. Its world is the time, which every reading of the clock advances by one second.
\<close>

section \<open>A concrete engine\<close>

definition demo_manifest :: LongRunManifest where
  "demo_manifest =
     \<lparr>lm_run_id = ''m1'', lm_objective = ''report'', lm_minimum_wall_seconds = 2,
      lm_maximum_wall_seconds = 60, lm_evaluator_threshold = Fin (1 / 2), lm_checkpoint_every_steps = 1,
      lm_max_consecutive_failures = 2, lm_max_duplicate_steps = 2, lm_evidence_required = True,
      lm_independent_evaluation_required = True, lm_allowed_effects = [''READ''],
      lm_prohibited_effects = [''WRITE''], lm_model_bindings = [], lm_metadata = []\<rparr>"

definition demo_proposal :: StepProposal where
  "demo_proposal =
     \<lparr>sp_fingerprint = ''f'', sp_expected_quality_gain = Fin 1, sp_expected_information_gain = Fin 0,
      sp_cost = Fin 0, sp_risk = Fin 0, sp_duplication_probability = Fin 0, sp_effect = ''READ''\<rparr>"

definition demo_evidence :: pyval where
  "demo_evidence = PDict [(''artifact'', PStr ''report'')]"

definition demo_evaluation :: "string \<Rightarrow> EvaluationResult" where
  "demo_evaluation digest =
     \<lparr>ev_evaluator_id = PStr ''judge'', ev_evaluator_version = PStr ''1'', ev_score = ScoreFloat (Fin 1),
      ev_verdict = ''PASS'', ev_reasons = [PStr ''ok''], ev_evidence_digest = digest,
      ev_metadata = PDict []\<rparr>"

definition demo_evaluator :: "StepProposal \<Rightarrow> StepResult \<Rightarrow> (rat, lexn, EvaluationResult option \<times> pyval) proc" where
  "demo_evaluator p result =
     (case evidence_digest (sr_evidence result) of
        Inl e \<Rightarrow> raise e
      | Inr digest \<Rightarrow> ret (Some (demo_evaluation digest), sr_evidence result))"

definition demo_engine :: "rat LongRunEngine" where
  "demo_engine =
     \<lparr>le_manifest = demo_manifest, le_repr = (\<lambda>_. ''1.0''), le_planner = (\<lambda>_. ret demo_proposal),
      le_executor = (\<lambda>_. ret \<lparr>sr_success = True, sr_evidence = demo_evidence\<rparr>),
      le_evaluator = Some demo_evaluator, le_clock = (\<lambda>w. (w, w + 1))\<rparr>"

lemmas demo_simps = demo_manifest_def demo_proposal_def demo_engine_def

lemma evidence_digest_ok: "encodes True False v \<Longrightarrow> \<exists>d. evidence_digest v = Inr d"
  by (auto simp: encodes_def evidence_digest_def)

lemma encode_payload_ok: "encodes True True v \<Longrightarrow> \<exists>y. encode_payload v = Inr y"
  by (auto simp: encodes_def encode_payload_def)

lemma evidence_digest_encodes: "evidence_digest v = Inr d \<Longrightarrow> encodes True False v"
  by (auto simp: encodes_def evidence_digest_def split: sum.splits)

lemma encodes_items:
  "encodes asc nan (PDict []) " "encodes asc nan (PDict (kv # kvs)) \<longleftrightarrow> encodes asc nan (snd kv) \<and> encodes asc nan (PDict kvs)"
  by (simp_all add: encodes_dict_iff)

lemma demo_valid: "LongRunManifest_validate demo_manifest = Inr ()"
  by (simp add: LongRunManifest_validate_def demo_manifest_def blank_def strip_visible visible_def)

lemma demo_contract: obtains d where "contract_digest demo_engine = Inr d"
proof -
  have "encodes True True (LongRunManifest_canonical_payload (\<lambda>_. ''1.0'') demo_manifest)"
    by (simp add: LongRunManifest_canonical_payload_def demo_manifest_def encodes_items encodes_list_iff
        sort_items_def encodes_def [of _ _ "PInt _"] json_int_def nat_str.simps)
  then show ?thesis
    using that demo_valid
    by (auto simp: encodes_def LongRunManifest_digest_def demo_engine_def)
qed

lemma demo_digest: obtains d where "evidence_digest demo_evidence = Inr d"
  using evidence_digest_ok [of demo_evidence] by (auto simp: demo_evidence_def encodes_items)

lemma demo_evaluation_valid: "EvaluationResult_validate (demo_evaluation d) d = Inr ()"
  by (simp add: EvaluationResult_validate_def check_metadata_def demo_evaluation_def blank_def strip_visible visible_def)

text \<open>What the engine records of a step can always be encoded.\<close>

lemma event_payload_encodes:
  assumes "EvaluationResult_event_payload repr ev = Inr x"
  shows "encodes True True x"
proof -
  from assms obtain h where h: "evidence_digest (PDict (evaluation_fields repr ev)) = Inr h"
    and x: "x = PDict (evaluation_fields repr ev @ [(''evaluation_digest'', PStr h)])"
    by (auto simp: EvaluationResult_event_payload_def split: if_splits sum.splits)
  from encodes_nan [OF evidence_digest_encodes [OF h]] show ?thesis
    unfolding x encodes_dict_iff by simp
qed

lemma result_payload_encodes:
  assumes "evidence_digest (sr_evidence result) = Inr digest" and "evaluation_payload le evaluation = Inr x"
  shows "\<exists>y. encode_payload (PDict (result_payload le p result digest new x late)) = Inr y"
proof -
  have "encodes True True v" if "x = Some v" for v
    using that assms(2)
    by (auto simp: evaluation_payload_def split: option.splits sum.splits intro: event_payload_encodes)
  then have "encodes True True (PDict (result_payload le p result digest new x late))"
    using encodes_nan [OF evidence_digest_encodes [OF assms(1)]]
    by (auto simp: encodes_dict_iff result_payload_def num_json_def split: option.splits)
  then show ?thesis by (rule encode_payload_ok)
qed

lemma demo_evaluation_payload: obtains x where "EvaluationResult_event_payload r (demo_evaluation d) = Inr x"
proof -
  have "encodes True False (PDict (evaluation_fields r (demo_evaluation d)))"
    by (simp add: evaluation_fields_def demo_evaluation_def encodes_items encodes_list_iff
        encodes_def [of _ _ "PFloat _"])
  from evidence_digest_ok [OF this] show ?thesis
    by (auto simp: EvaluationResult_event_payload_def check_metadata_def demo_evaluation_def intro: that)
qed

text \<open>The fields of the engine, for evaluating its steps without unfolding it.\<close>

lemma demo_fields:
  "lm_run_id (le_manifest demo_engine) = ''m1''" "le_repr demo_engine = (\<lambda>_. ''1.0'')"
  "lm_minimum_wall_seconds (le_manifest demo_engine) = 2" "lm_maximum_wall_seconds (le_manifest demo_engine) = 60"
  "lm_evidence_required (le_manifest demo_engine)" "lm_evaluator_threshold (le_manifest demo_engine) = Fin (1 / 2)"
  "lm_max_consecutive_failures (le_manifest demo_engine) = 2"
  "lm_max_duplicate_steps (le_manifest demo_engine) = 2"
  "le_planner demo_engine st = ret demo_proposal"
  "le_executor demo_engine p = ret \<lparr>sr_success = True, sr_evidence = demo_evidence\<rparr>"
  "le_evaluator demo_engine = Some demo_evaluator" "le_clock demo_engine w = (w, w + 1)"
  by (simp_all add: demo_engine_def demo_manifest_def)

lemma wp_clock:
  "wp (read_clock le) Q E s = (case le_clock le (lr_world s) of (t, w) \<Rightarrow> Q t (s\<lparr>lr_world := w\<rparr>))"
  unfolding read_clock_def callback_def wp_zoom by (simp add: wp_def split: prod.splits)

lemma demo_authorized: "fst (step_authorized demo_engine demo_proposal)"
  by (simp add: step_authorized_def demo_engine_def demo_manifest_def demo_proposal_def authorize_step_def
      proposal_value_def num_sub_def)

lemma demo_truthy: "truthy demo_evidence"
  by (simp add: demo_evidence_def)

lemma demo_healthy:
  assumes "now < 60" shows "wd_action (watchdog_of demo_engine (initial_state demo_engine 0 c) now) = ''CONTINUE''"
  using assms by (simp add: watchdog_of_def evaluate_watchdog_def demo_fields initial_state_def)

lemma demo_completes:
  "\<exists>st. lr_runs (engine_step demo_engine (store_init 0)) ''m1'' = Some st \<and> rs_status st = ''COMPLETED''"
proof -
  obtain c where c: "contract_digest demo_engine = Inr c" by (rule demo_contract)
  obtain d where d: "evidence_digest demo_evidence = Inr d" by (rule demo_digest)
  obtain x where x: "EvaluationResult_event_payload (\<lambda>_. ''1.0'') (demo_evaluation d) = Inr x"
    by (rule demo_evaluation_payload)
  obtain y where y: "encode_payload (PDict [(''manifest_digest'', PStr c)]) = Inr y"
    using encode_payload_ok [of "PDict [(''manifest_digest'', PStr c)]"] by (auto simp: encodes_items)
  let ?r = "\<lparr>sr_success = True, sr_evidence = demo_evidence\<rparr>"
  have pay: "\<exists>z. encode_payload (PDict (result_payload demo_engine demo_proposal ?r d new (Some x) late)) = Inr z"
    for new late
    by (rule result_payload_encodes [of _ _ _ "Some (demo_evaluation d)"])
      (use d x in \<open>simp_all add: evaluation_payload_def demo_engine_def\<close>)
  then have pay_case: "(case encode_payload (PDict (result_payload demo_engine demo_proposal ?r d new (Some x) late)) of
      Inl e \<Rightarrow> A e | Inr _ \<Rightarrow> B) = B" for new late and A and B :: bool
    by (metis old.sum.simps(6))
  let ?final = "concluded_state demo_engine (initial_state demo_engine 0 c) demo_proposal 0 ?r (Some (demo_evaluation d)) 4"
  have fin: "rs_status ?final = ''COMPLETED''" "rs_run_id ?final = ''m1''"
    by (simp_all add: concluded_state_def Let_def stepped_def initial_state_def demo_fields accepts_completion_def
        demo_evaluation_def)
  have start: "terminal (rs_status (initial_state demo_engine 0 c)) = False"
    "rs_run_id (initial_state demo_engine 0 c) = ''m1''"
    "next_duplicate_count (initial_state demo_engine 0 c) demo_proposal = 0"
    by (simp_all add: initial_state_def terminal_def demo_fields next_duplicate_count_def)
  have "wp (run_step demo_engine) (\<lambda>_ t. lr_runs t ''m1'' = Some ?final) (\<lambda>_ _. False) (store_init 0)"
    unfolding run_step_def load_or_create_def store_load_def store_create_with_event_def Let_def
      plan_step_def check_step_def execute_step_def evaluate_step_def conclude_step_def
      persist_transition_def store_save_with_event_def callback_def
    by (simp add: wp_simps wp_clock c [unfolded demo_fields] y demo_fields store_init_def start demo_healthy
        demo_authorized d demo_evaluator_def demo_evaluation_valid x pay_case store_append_event_def fin demo_truthy)
  with fin show ?thesis
    by (auto simp: engine_step_def wp_def split: prod.splits sum.splits)
qed

section \<open>The properties\<close>

text \<open>C15: one call of \<open>run_step\<close>, and one of \<open>run_until_terminal(max_steps=n)\<close>, whatever planner,
  executor, evaluator and clock do and whether it returns or raises, changes the two tables by a
  sequence of the mission's lifecycle steps, each a legal transition recorded with its event; the
  state returned is the row that is stored.\<close>

lemma longrun_refines_lifecycle:
  assumes "table_ok (ledger_of s)" and "m = run_step le \<or> m = run_until_terminal_max le n"
  shows "case m s of (r, t) \<Rightarrow>
    (lifecycle le)\<^sup>*\<^sup>* (ledger_of s) (ledger_of t) \<and> table_ok (ledger_of t) \<and>
    (\<forall>st. r = Inr st \<longrightarrow> lr_runs t (mission le) = Some st \<and> known_status st)"
proof -
  note start = table_ok_advanced [OF assms(1), of le]
  have "runs_well le (ledger_of s) (run_until_terminal_max le n) s"
    unfolding run_until_terminal_max_def
    by (intro runs_well_bind load_or_create_runs_well start run_bounded_runs_well)
  with assms(2) run_step_runs_well [OF start] have "runs_well le (ledger_of s) m s" by blast
  then have "case m s of (r, t) \<Rightarrow> (lifecycle le)\<^sup>*\<^sup>* (ledger_of s) (ledger_of t) \<and>
    (\<forall>st. r = Inr st \<longrightarrow> lr_runs t (mission le) = Some st \<and> known_status st)"
    by (auto simp: runs_well_def wp_def advanced_def stored_def split: prod.splits sum.splits)
  with lifecycles_keep [OF _ assms(1), of le] show ?thesis by (auto split: prod.splits)
qed

lemma longrun_refines_lifecycle_witness:
  "\<exists>st. (lifecycle demo_engine)\<^sup>*\<^sup>* (ledger_of (store_init (0 :: rat))) (ledger_of (engine_step demo_engine (store_init 0))) \<and>
     lr_runs (engine_step demo_engine (store_init 0)) ''m1'' = Some st \<and> rs_status st = ''COMPLETED''"
  using longrun_refines_lifecycle [of "store_init 0" "run_step demo_engine" demo_engine 0]
    store_init_fleet [of _ _ "0 :: rat"] demo_completes
  by (auto simp: fleet_inv_def engine_step_def)

text \<open>C16: whatever engines have worked on a store since it was empty, if the row of a mission says
  COMPLETED then its last event is a STEP_RESULT that records a successful step, evidence with its
  digest, and a valid evaluation of that very evidence with verdict PASS and a score at or above the
  threshold; and the mission ran for at least its minimum and less than its maximum wall time. (The
  engines of the mission itself share its manifest; the others may be any.)\<close>

lemma longrun_completion_has_evidence:
  assumes "list_all (compatible repr m) les" and "s = fold engine_step les (store_init w)"
    and "lr_runs s (lm_run_id m) = Some st" and "rs_status st = ''COMPLETED''"
  shows "completion_recorded repr m st (last (history m (lr_events s)))"
  using mission_row(3) [OF _ assms(3), of repr] fleet_run [OF assms(1), of w] assms(2,4)
  by (simp add: log_matches_def)

lemma longrun_completion_has_evidence_witness:
  "\<exists>st e. lr_runs (engine_step demo_engine (store_init 0)) ''m1'' = Some st \<and>
     completion_recorded (\<lambda>_. ''1.0'') demo_manifest st e"
proof -
  from demo_completes obtain st where "lr_runs (engine_step demo_engine (store_init 0)) ''m1'' = Some st"
    "rs_status st = ''COMPLETED''" by blast
  moreover from this have "completion_recorded (\<lambda>_. ''1.0'') demo_manifest st
      (last (history demo_manifest (lr_events (engine_step demo_engine (store_init 0)))))"
    by (intro longrun_completion_has_evidence [of _ _ "[demo_engine]" _ 0])
      (simp_all add: compatible_def demo_engine_def demo_manifest_def)
  ultimately show ?thesis by blast
qed

text \<open>The counters of a mission never leave their range: failures and duplicates stay between 0
  and the limits of the manifest, the score between 0 and 1; and the log is in step with the row: it
  has an event for it, whose step index and time are those of the row, and the step indices of the
  mission's events never decrease.\<close>

lemma longrun_row_and_log_agree:
  assumes "list_all (compatible repr m) les" and "s = fold engine_step les (store_init w)"
    and "lr_runs s (lm_run_id m) = Some st"
  shows "row_bounds m st \<and> history m (lr_events s) \<noteq> [] \<and>
    re_step_index (last (history m (lr_events s))) = rs_step_index st \<and>
    re_created_at (last (history m (lr_events s))) = rs_updated_at st \<and>
    sorted (map re_step_index (history m (lr_events s)))"
  using mission_row [OF fleet_run [OF assms(1)], of w st] assms(2,3)
  by (simp add: log_matches_def)

lemma longrun_row_and_log_agree_witness:
  "\<exists>st. lr_runs (engine_step demo_engine (store_init 0)) ''m1'' = Some st \<and>
     rs_consecutive_failures st \<le> 2 \<and> rs_duplicate_count st \<le> 2"
proof -
  from demo_completes obtain st where st: "lr_runs (engine_step demo_engine (store_init 0)) ''m1'' = Some st"
    by blast
  then have "row_bounds demo_manifest st"
    using longrun_row_and_log_agree [of "\<lambda>_. ''1.0''" demo_manifest "[demo_engine]"
        "engine_step demo_engine (store_init 0)" 0 st]
    by (simp add: compatible_def demo_engine_def demo_manifest_def)
  with st show ?thesis by (auto simp: row_bounds_def demo_manifest_def)
qed

text \<open>The store only grows: events are never removed or changed, their ids are consecutive, a
  mission that has ended keeps its row for good, and a running one keeps its start time and the digest
  of its contract.\<close>

lemma longrun_history_immutable:
  assumes "table_ok (ledger_of s)"
  shows "ledger_extends (ledger_of s) (ledger_of (fold engine_step les s)) \<and>
    map re_id (lr_events (fold engine_step les s)) = [1..<Suc (length (lr_events (fold engine_step les s)))]"
proof
  have "table_ok (ledger_of (fold engine_step les s))"
    using assms by (intro tables.run_inv) (simp add: list_all_iff)
  then show "map re_id (lr_events (fold engine_step les s)) =
      [1..<Suc (length (lr_events (fold engine_step les s)))]"
    by (simp add: table_ok_def ledger_of_def)
  have "ledger_extends (ledger_of u) (ledger_of (engine_step le u))" if "table_ok (ledger_of u)"
    for u :: "'a longrun" and le
    using lifecycles_keep [OF run_step_lifecycle [OF that] that] by blast
  with assms show "ledger_extends (ledger_of s) (ledger_of (fold engine_step les s))"
    by (intro tables.run_rel [where R = "\<lambda>a b. ledger_extends (ledger_of a) (ledger_of b)"])
      (auto intro: ledger_extends_trans ledger_extends_refl simp: list_all_iff)
qed

lemma longrun_history_immutable_witness:
  "prefix (lr_events (engine_step demo_engine (store_init 0)))
     (lr_events (fold engine_step [demo_engine, demo_engine] (engine_step demo_engine (store_init 0))))"
  using longrun_history_immutable [of "engine_step demo_engine (store_init 0)" "[demo_engine, demo_engine]"]
    fleet_run [of "\<lambda>_. ''1.0''" demo_manifest "[demo_engine]" 0]
  by (simp add: ledger_extends_def ledger_of_def fleet_inv_def compatible_def demo_engine_def)

end
