(* ===== verification/LongRun_Runs.thy ===== *)
theory LongRun_Runs
  imports LongRun_Properties
begin

text \<open>
  Further properties of the LongRun engine: what a settled mission and a changed contract do, who
  may call the executor, what is recorded of a step, when the digest of a contract changes, and that
  a run ends.
\<close>

section \<open>The contract of a mission\<close>

text \<open>A mission that has ended stays as it is: \<open>run_step\<close> returns its row without a change of
  the store and without calling the planner, the executor, the evaluator or the clock. With a manifest
  of another digest it raises instead, and again changes and calls nothing.\<close>

lemma longrun_contract_enforced:
  assumes "lr_runs s (mission le) = Some st" and "contract_digest le = Inr d"
    and "rs_manifest_digest st \<noteq> d \<or> terminal (rs_status st)"
  shows "run_step le s =
    (if rs_manifest_digest st \<noteq> d
     then Inl (runtime_error ''manifest digest mismatch; immutable mission contract changed'')
     else Inr st, s)"
  using assms by (auto simp: run_step_def load_or_create_def store_load_def proc_defs)

lemma longrun_contract_enforced_witness:
  "\<exists>st. rs_status st = ''BLOCKED'' \<and>
     run_step demo_engine ((store_init 0)\<lparr>lr_runs := [''m1'' \<mapsto> st]\<rparr>) =
     (Inr st, (store_init 0)\<lparr>lr_runs := [''m1'' \<mapsto> st]\<rparr>)"
proof -
  obtain c where c: "contract_digest demo_engine = Inr c" by (rule demo_contract)
  let ?st = "blocked_at 1 (initial_state demo_engine 0 c)"
  have "run_step demo_engine ((store_init 0)\<lparr>lr_runs := [''m1'' \<mapsto> ?st]\<rparr>) =
    (Inr ?st, (store_init 0)\<lparr>lr_runs := [''m1'' \<mapsto> ?st]\<rparr>)"
    using longrun_contract_enforced [OF _ c, of "(store_init 0)\<lparr>lr_runs := [''m1'' \<mapsto> ?st]\<rparr>" ?st]
    by (simp add: demo_fields blocked_at_def initial_state_def terminal_def)
  then show ?thesis by (intro exI [of _ ?st]) (simp add: blocked_at_def)
qed

section \<open>The executor\<close>

lemma update_executor_fields:
  "le_manifest (le\<lparr>le_executor := ex\<rparr>) = le_manifest le" "le_repr (le\<lparr>le_executor := ex\<rparr>) = le_repr le"
  "le_planner (le\<lparr>le_executor := ex\<rparr>) = le_planner le" "le_evaluator (le\<lparr>le_executor := ex\<rparr>) = le_evaluator le"
  "le_clock (le\<lparr>le_executor := ex\<rparr>) = le_clock le" "le_executor (le\<lparr>le_executor := ex\<rparr>) = ex"
  by simp_all

lemma update_executor_parts:
  "initial_state (le\<lparr>le_executor := ex\<rparr>) = initial_state le"
  "read_clock (le\<lparr>le_executor := ex\<rparr>) = read_clock le"
  "watchdog_of (le\<lparr>le_executor := ex\<rparr>) = watchdog_of le"
  "step_authorized (le\<lparr>le_executor := ex\<rparr>) = step_authorized le"
  "planner_failed (le\<lparr>le_executor := ex\<rparr>) = planner_failed le"
  "accepts_completion (le\<lparr>le_executor := ex\<rparr>) = accepts_completion le"
  "num_json (le\<lparr>le_executor := ex\<rparr>) = num_json le"
  unfolding initial_state_def read_clock_def watchdog_of_def step_authorized_def planner_failed_def
    accepts_completion_def num_json_def fun_eq_iff update_executor_fields
  by (intro conjI allI refl)+

lemma update_executor_conclusion:
  "concluded_state (le\<lparr>le_executor := ex\<rparr>) = concluded_state le"
  "result_payload (le\<lparr>le_executor := ex\<rparr>) = result_payload le"
  "invalid_evaluation (le\<lparr>le_executor := ex\<rparr>) = invalid_evaluation le"
  "load_or_create (le\<lparr>le_executor := ex\<rparr>) = load_or_create le"
  unfolding concluded_state_def result_payload_def invalid_evaluation_def load_or_create_def fun_eq_iff
    update_executor_fields update_executor_parts
  by (intro conjI allI refl)+

lemma update_executor_evaluation:
  "conclude_step (le\<lparr>le_executor := ex\<rparr>) = conclude_step le"
  "evaluate_step (le\<lparr>le_executor := ex\<rparr>) = evaluate_step le"
proof -
  show conclude: "conclude_step (le\<lparr>le_executor := ex\<rparr>) = conclude_step le"
    unfolding conclude_step_def fun_eq_iff update_executor_fields update_executor_parts
      update_executor_conclusion by (intro allI refl)
  show "evaluate_step (le\<lparr>le_executor := ex\<rparr>) = evaluate_step le"
    unfolding evaluate_step_def fun_eq_iff update_executor_fields update_executor_parts
      update_executor_conclusion conclude by (intro allI refl)
qed

lemmas update_executor = update_executor_fields update_executor_parts update_executor_conclusion
  update_executor_evaluation

text \<open>The proposals an engine may hand to its executor.\<close>

definition executable_step :: "'w LongRunEngine \<Rightarrow> StepProposal \<Rightarrow> bool" where
  "executable_step le p \<longleftrightarrow>
     sp_effect p \<in> set (lm_allowed_effects (le_manifest le)) \<and>
     sp_effect p \<notin> set (lm_prohibited_effects (le_manifest le)) \<and>
     \<not> num_le (proposal_value p) (Fin 0) \<and>
     (lm_independent_evaluation_required (le_manifest le) \<longrightarrow> le_evaluator le \<noteq> None)"

lemma update_executor_steps:
  assumes "\<And>p. executable_step le p \<Longrightarrow> ex p = le_executor le p"
  shows "check_step (le\<lparr>le_executor := ex\<rparr>) = check_step le"
    and "plan_step (le\<lparr>le_executor := ex\<rparr>) = plan_step le"
    and "run_step (le\<lparr>le_executor := ex\<rparr>) = run_step le"
proof -
  have "execute_step (le\<lparr>le_executor := ex\<rparr>) st p = execute_step le st p" if "executable_step le p" for st p
    unfolding execute_step_def update_executor assms [OF that] by (rule refl)
  then show check: "check_step (le\<lparr>le_executor := ex\<rparr>) = check_step le"
    by (intro ext) (auto simp: check_step_def update_executor step_authorized_def authorize_step_def
        executable_step_def split: if_splits)
  show plan: "plan_step (le\<lparr>le_executor := ex\<rparr>) = plan_step le"
    unfolding plan_step_def update_executor check fun_eq_iff by (intro allI refl)
  show "run_step (le\<lparr>le_executor := ex\<rparr>) = run_step le"
    unfolding run_step_def update_executor plan by (rule refl)
qed

text \<open>C17: the executor is only ever called on a proposal whose effect is allowed and not prohibited,
  whose expected value is not known to be non-positive, and, where the manifest demands independent
  evaluation, with an evaluator configured: what it would do on any other proposal makes no difference
  to the result, the store or the world of any number of steps.\<close>

theorem longrun_executor_authorised:
  assumes "\<And>p. executable_step le p \<Longrightarrow> ex p = le_executor le p"
  shows "run_step (le\<lparr>le_executor := ex\<rparr>) s = run_step le s \<and>
    run_until_terminal_max (le\<lparr>le_executor := ex\<rparr>) n s = run_until_terminal_max le n s"
proof -
  note steps = update_executor_steps [of le ex, OF assms]
  have "run_bounded (le\<lparr>le_executor := ex\<rparr>) n = run_bounded le n"
  proof (induction n)
    case 0
    show ?case by (intro ext) simp
  next
    case (Suc n)
    show ?case by (intro ext) (simp add: steps Suc)
  qed
  then show ?thesis by (simp add: run_until_terminal_max_def update_executor steps)
qed

lemma longrun_executor_authorised_witness:
  "run_step (demo_engine\<lparr>le_executor :=
       (\<lambda>p. if sp_effect p = ''READ'' then le_executor demo_engine p else raise (runtime_error ''called''))\<rparr>)
     (store_init 0) = run_step demo_engine (store_init 0)"
  by (rule longrun_executor_authorised [THEN conjunct1])
    (simp add: executable_step_def demo_engine_def demo_manifest_def)

section \<open>What is recorded of a step\<close>

text \<open>Once the evidence of a step has a digest, the end of the step is decided by the
  evaluation alone. If its payload can be built, \<open>STEP_RESULT\<close> is always stored, the new state with
  it, and the new state is returned: the handler for a payload that is not JSON serializable is never
  reached. If it cannot (metadata with an integer of more than 4300 digits passes \<open>validate\<close> but not
  \<open>event_payload\<close>), the step raises and leaves no trace: neither the event nor the step index nor
  the failure counter records that the executor has run.\<close>

theorem longrun_conclusion_recorded:
  assumes "evidence_digest (sr_evidence result) = Inr digest"
  shows "\<exists>now w. le_clock le (lr_world s) = (now, w) \<and>
    conclude_step le st p dup result digest evaluation s =
    (let new = concluded_state le st p dup result evaluation now; s' = s\<lparr>lr_world := w\<rparr> in
     case evaluation_payload le evaluation of
       Inl e \<Rightarrow> (Inl e, s')
     | Inr x \<Rightarrow> (Inr new,
         store_append_event (rs_run_id new) (rs_step_index new) ''STEP_RESULT''
           (PDict (result_payload le p result digest new x (out_of_time le now st))) (rs_updated_at new)
           (if lr_runs s (rs_run_id new) = None then s'
            else s'\<lparr>lr_runs := (lr_runs s)(rs_run_id new \<mapsto> new)\<rparr>)))"
proof -
  obtain now w where clock: "le_clock le (lr_world s) = (now, w)" by fastforce
  show ?thesis
  proof (cases "evaluation_payload le evaluation")
    case (Inl e)
    with clock show ?thesis
      by (simp add: conclude_step_def Let_def evaluation_payload_def [symmetric] read_clock_def callback_def
          proc_defs)
  next
    case (Inr x)
    from result_payload_encodes [OF assms Inr, of p] obtain y where
      "encode_payload (PDict (result_payload le p result digest
        (concluded_state le st p dup result evaluation now) x (out_of_time le now st))) = Inr y"
      by blast
    with clock Inr show ?thesis
      by (simp add: conclude_step_def Let_def evaluation_payload_def [symmetric] out_of_time_def [symmetric]
          read_clock_def callback_def persist_transition_def store_save_with_event_def proc_defs)
  qed
qed

text \<open>The second case occurs.\<close>

lemma length_nat_str: "10 ^ k \<le> n \<Longrightarrow> k < length (nat_str n)"
proof (induction k arbitrary: n)
  case (Suc k)
  then have "10 ^ k \<le> n div 10" by (simp add: less_eq_div_iff_mult_less_eq)
  with Suc.IH have "k < length (nat_str (n div 10))" by blast
  moreover from Suc.prems have "\<not> n < 10"
    using order_trans [of 10 "10 ^ Suc k" n] by simp
  ultimately show ?case by (simp add: nat_str.simps [of n])
qed simp

definition huge_evaluation :: "nat \<Rightarrow> string \<Rightarrow> EvaluationResult" where
  "huge_evaluation k digest = (demo_evaluation digest)\<lparr>ev_metadata := PDict [(''n'', PInt (10 ^ k))]\<rparr>"

lemma huge_evaluation_unrecorded:
  assumes "4300 \<le> k"
  shows "EvaluationResult_validate (huge_evaluation k d) d = Inr ()"
    and "\<exists>e. evaluation_payload le (Some (huge_evaluation k d)) = Inl e"
proof -
  show "EvaluationResult_validate (huge_evaluation k d) d = Inr ()"
    using demo_evaluation_valid [of d]
    by (simp add: EvaluationResult_validate_def check_metadata_def huge_evaluation_def demo_evaluation_def split: if_splits)
  have "\<not> encodes True False (PInt (10 ^ k))"
    using length_nat_str [of k "10 ^ k"] assms by (simp add: encodes_def json_int_def nat_power_eq)
  then have "\<not> encodes True False (PDict (evaluation_fields (le_repr le) (huge_evaluation k d)))"
    unfolding encodes_dict_iff by (simp add: evaluation_fields_def huge_evaluation_def encodes_dict_iff)
  then show "\<exists>e. evaluation_payload le (Some (huge_evaluation k d)) = Inl e"
    by (auto simp: encodes_def evaluation_payload_def EvaluationResult_event_payload_def check_metadata_def huge_evaluation_def evidence_digest_def
        split: sum.splits)
qed

lemma longrun_conclusion_recorded_witness:
  "\<exists>d e w. evidence_digest demo_evidence = Inr d \<and>
     EvaluationResult_validate (huge_evaluation 4300 d) d = Inr () \<and>
     conclude_step demo_engine (initial_state demo_engine 0 d) demo_proposal 0 \<lparr>sr_success = True, sr_evidence = demo_evidence\<rparr> d
       (Some (huge_evaluation 4300 d)) (store_init 0) = (Inl e, store_init w)"
proof -
  obtain d where d: "evidence_digest demo_evidence = Inr d" by (rule demo_digest)
  obtain e where e: "evaluation_payload demo_engine (Some (huge_evaluation 4300 d)) = Inl e"
    using huge_evaluation_unrecorded(2) [OF order_refl] by blast
  from longrun_conclusion_recorded [of "\<lparr>sr_success = True, sr_evidence = demo_evidence\<rparr>" d demo_engine
      "store_init 0" "initial_state demo_engine 0 d" demo_proposal 0 "Some (huge_evaluation 4300 d)"] d e
    huge_evaluation_unrecorded(1) [OF order_refl, of d]
  show ?thesis by (auto simp: Let_def store_init_def)
qed

text \<open>A proposal of unknown value passes the governor: NaN is not at most 0.\<close>

lemma nan_value_authorized:
  assumes "sp_risk p = NaN" and "sp_effect p \<in> set allowed" and "sp_effect p \<notin> set prohibited"
  shows "authorize_step p allowed prohibited = (True, ''authorized'')"
proof -
  have nan: "num_add a NaN = NaN" "num_add NaN a = NaN" for a by (cases a; simp)+
  have "proposal_value p = NaN" by (simp add: proposal_value_def num_sub_def assms nan)
  with assms show ?thesis by (simp add: authorize_step_def)
qed

end
