(* ===== verification/LongRun_Termination.thy ===== *)
theory LongRun_Termination
  imports LongRun_Runs
begin

text \<open>
  A run ends. The world has a time that no callback turns back and that advances by at least \<open>d\<close> at
  each reading of the clock; then \<open>run_until_terminal\<close> without a step limit returns or raises within a
  number of rounds fixed by the wall budget of the manifest, whatever the planner proposes.
\<close>

section \<open>Time\<close>

definition time_advances :: "'w LongRunEngine \<Rightarrow> ('w \<Rightarrow> rat) \<Rightarrow> rat \<Rightarrow> bool" where
  "time_advances le time d \<longleftrightarrow>
     (\<forall>w. time w \<le> fst (le_clock le w) \<and> fst (le_clock le w) \<le> time (snd (le_clock le w)) \<and>
        time w + d \<le> time (snd (le_clock le w))) \<and>
     (\<forall>st w. time w \<le> time (snd (le_planner le st w))) \<and>
     (\<forall>p w. time w \<le> time (snd (le_executor le p w))) \<and>
     (\<forall>evaluator p r w. le_evaluator le = Some evaluator \<longrightarrow> time w \<le> time (snd (evaluator p r w)))"

definition keeps_time :: "('w \<Rightarrow> rat) \<Rightarrow> ('w, 'a) longrun_proc \<Rightarrow> bool" where
  "keeps_time time m \<longleftrightarrow> (\<forall>s. time (lr_world s) \<le> time (lr_world (snd (m s))))"

lemma keeps_time_ret [simp]: "keeps_time time (ret x)" "keeps_time time (raise e)" "keeps_time time (lift r)"
  by (simp_all add: keeps_time_def proc_defs)

lemma keeps_time_bind:
  "keeps_time time m \<Longrightarrow> (\<And>x. keeps_time time (f x)) \<Longrightarrow> keeps_time time (bind m f)"
  unfolding keeps_time_def bind_def by (fastforce split: prod.splits sum.splits intro: order_trans)

lemma keeps_time_seq: "keeps_time time m \<Longrightarrow> keeps_time time n \<Longrightarrow> keeps_time time (seq m n)"
  unfolding seq_def by (rule keeps_time_bind)

lemma keeps_time_attempt: "keeps_time time m \<Longrightarrow> keeps_time time (attempt m)"
  by (simp add: keeps_time_def attempt_def case_prod_beta)

lemma keeps_time_callback: "(\<And>w. time w \<le> time (snd (m w))) \<Longrightarrow> keeps_time time (callback m)"
  by (simp add: keeps_time_def callback_def zoom_def case_prod_beta)

lemma keeps_time_persist: "keeps_time time (persist_transition st kind payload)"
  unfolding persist_transition_def store_save_with_event_def
  by (intro keeps_time_seq keeps_time_bind keeps_time_ret)
    (simp add: keeps_time_def modify_def store_append_event_def)

lemma keeps_time_clock: "time_advances le time d \<Longrightarrow> 0 < d \<Longrightarrow> keeps_time time (read_clock le)"
proof -
  assume "time_advances le time d" and "0 < d"
  then have "time w \<le> fst (le_clock le w)" "fst (le_clock le w) \<le> time (snd (le_clock le w))" for w
    by (simp_all add: time_advances_def)
  from order_trans [OF this] have "time w \<le> time (snd (le_clock le w))" for w .
  then show ?thesis
    unfolding read_clock_def by (intro keeps_time_callback) (simp add: case_prod_beta)
qed

lemmas keeps_time_rules = keeps_time_bind keeps_time_seq keeps_time_attempt keeps_time_persist keeps_time_ret

lemma step_keeps_time:
  assumes "time_advances le time d" and "0 < d"
  shows "keeps_time time (plan_step le st)"
proof -
  note clock = keeps_time_clock [OF assms]
  have conclude: "keeps_time time (conclude_step le st p dup result digest evaluation)" for st p dup result digest evaluation
    unfolding conclude_step_def Let_def by (intro keeps_time_rules clock) (auto intro!: keeps_time_rules split: sum.splits)
  have invalid: "keeps_time time (invalid_evaluation le st p dup digest reason)" for st p dup digest reason
    unfolding invalid_evaluation_def by (intro keeps_time_rules clock)
  have evaluate: "keeps_time time (evaluate_step le st p dup result digest)" for st p dup result digest
    unfolding evaluate_step_def using assms(1)
    by (auto simp: time_advances_def split: option.splits sum.splits
        intro!: keeps_time_rules keeps_time_callback clock conclude invalid)
  have execute: "keeps_time time (execute_step le st p dup)" for st p dup
    unfolding execute_step_def using assms(1)
    by (auto simp: time_advances_def split: sum.splits
        intro!: keeps_time_rules keeps_time_callback clock evaluate)
  have check: "keeps_time time (check_step le st p)" for st p
    unfolding check_step_def by (auto intro!: keeps_time_rules clock execute)
  show ?thesis
    unfolding plan_step_def Let_def using assms(1)
    by (auto simp: time_advances_def split: sum.splits
        intro!: keeps_time_rules keeps_time_callback clock check)
qed

section \<open>Rounds\<close>

lemma run_step_running:
  assumes "stored le l st s" and "rs_status st = ''RUNNING''"
  shows "run_step le s = (case le_clock le (lr_world s) of (now, w) \<Rightarrow>
    (if out_of_time le now st
     then persist_transition (stopped_at now st) ''WATCHDOG_STOP'' [(''reason'', PStr (wd_reason (watchdog_of le st now)))]
     else if \<not> within_limits le st
     then bind (persist_transition (replanned_at now st) ''WATCHDOG_REPLAN''
       [(''reason'', PStr (wd_reason (watchdog_of le st now)))]) (plan_step le)
     else plan_step le st) (s\<lparr>lr_world := w\<rparr>))"
  using assms
  by (auto simp: run_step_def load_or_create_def store_load_def stored_def proc_defs read_clock_def callback_def
      terminal_def Let_def watchdog_stop watchdog_replan split: prod.splits)

definition time_left :: "'w LongRunEngine \<Rightarrow> RunState \<Rightarrow> rat" where
  "time_left le st = rs_started_at st + of_int (lm_maximum_wall_seconds (le_manifest le))"

lemma run_step_takes_time:
  assumes adv: "time_advances le time d" and d: "0 < d"
    and st: "stored le l st s" "rs_status st = ''RUNNING''"
  shows "wp (run_step le) (\<lambda>st' t. rs_status st' = ''RUNNING'' \<longrightarrow>
    time (lr_world s) + d \<le> time (lr_world t) \<and> time (lr_world s) < time_left le st) (\<lambda>_ _. True) s"
proof -
  obtain now w where clock: "le_clock le (lr_world s) = (now, w)" by fastforce
  with adv have tick: "time (lr_world s) \<le> now" "time (lr_world s) + d \<le> time w"
    by (auto simp: time_advances_def dest: spec [of _ "lr_world s"])
  show ?thesis
  proof (cases "out_of_time le now st")
    case True
    have "wp (persist_transition (stopped_at now st) kind payload) (\<lambda>st' _. rs_status st' \<noteq> ''RUNNING'')
      (\<lambda>_ _. True) u" for kind payload u
      by (simp add: persist_transition_def store_save_with_event_def wp_simps stopped_at_def split: sum.splits)
    with True have "wp (run_step le) (\<lambda>st' _. rs_status st' \<noteq> ''RUNNING'') (\<lambda>_ _. True) s"
      unfolding wp_def run_step_running [OF st] clock by simp
    then show ?thesis by (rule wp_mono) auto
  next
    case False
    then have left: "now < time_left le st" by (auto simp: out_of_time_def time_left_def)
    note plan = step_keeps_time [OF adv d]
    have "keeps_time time (if \<not> within_limits le st
       then bind (persist_transition (replanned_at now st) ''WATCHDOG_REPLAN''
         [(''reason'', PStr (wd_reason (watchdog_of le st now)))]) (plan_step le)
       else plan_step le st)"
      by (simp add: plan keeps_time_rules)
    then have "time w \<le> time (lr_world (snd ((if \<not> within_limits le st
       then bind (persist_transition (replanned_at now st) ''WATCHDOG_REPLAN''
         [(''reason'', PStr (wd_reason (watchdog_of le st now)))]) (plan_step le)
       else plan_step le st) (s\<lparr>lr_world := w\<rparr>))))"
      unfolding keeps_time_def by (rule allE [of _ "s\<lparr>lr_world := w\<rparr>"]) simp
    then have "time w \<le> time (lr_world (snd (run_step le s)))"
      unfolding run_step_running [OF st] clock using False by simp
    with left tick show ?thesis by (auto simp: wp_def split: prod.splits sum.splits)
  qed
qed

lemma stored_steps:
  assumes "stored le (ledger_of s) st' t" and "table_ok (ledger_of s)" and "lr_runs s (mission le) = Some st"
  shows "table_ok (ledger_of t)" and "rs_started_at st' = rs_started_at st"
proof -
  from assms(1,2) lifecycles_keep [of le "ledger_of s" "ledger_of t"]
  have "table_ok (ledger_of t) \<and> ledger_extends (ledger_of s) (ledger_of t)" by (simp add: stored_def)
  then show "table_ok (ledger_of t)" and "rs_started_at st' = rs_started_at st"
    using assms(1,3) by (auto simp: ledger_extends_def ledger_of_def stored_def split: if_splits
        dest!: spec [of _ "mission le"] spec [of _ st])
qed

lemma run_unbounded_ends:
  assumes adv: "time_advances le time d" and d: "0 < d"
  shows "stored le l st s \<Longrightarrow> table_ok (ledger_of s) \<Longrightarrow> time_left le st \<le> time (lr_world s) + of_nat n * d \<Longrightarrow>
    fst (run_unbounded le (Suc n) st s) \<noteq> Inr None"
proof (induction n arbitrary: l st s)
  case 0
  show ?case
  proof (cases "rs_status st = ''RUNNING''")
    case True
    have "wp (run_step le) (\<lambda>st' _. rs_status st' \<noteq> ''RUNNING'') (\<lambda>_ _. True) s"
      by (rule wp_mono [OF run_step_takes_time [OF adv d 0(1) True]]) (use 0(3) d in auto)
    with True show ?thesis
      by (auto simp: bind_def wp_def ret_def split: prod.splits sum.splits)
  qed (simp add: ret_def)
next
  case (Suc n)
  show ?case
  proof (cases "rs_status st = ''RUNNING''")
    case True
    have row: "lr_runs s (mission le) = Some st" using Suc.prems(1) by (simp add: stored_def)
    have "wp (run_step le) (\<lambda>st' t. fst (run_unbounded le (Suc n) st' t) \<noteq> Inr None) (\<lambda>_ _. True) s"
    proof (rule wp_mono [OF wp_conj [OF run_step_takes_time [OF adv d Suc.prems(1) True]
            run_step_runs_well [OF table_ok_advanced [OF Suc.prems(2)], unfolded runs_well_def]]])
      fix st' t
      assume *: "(rs_status st' = ''RUNNING'' \<longrightarrow> time (lr_world s) + d \<le> time (lr_world t) \<and>
        time (lr_world s) < time_left le st) \<and> stored le (ledger_of s) st' t"
      note same = stored_steps [OF * [THEN conjunct2] Suc.prems(2) row]
      show "fst (run_unbounded le (Suc n) st' t) \<noteq> Inr None"
      proof (cases "rs_status st' = ''RUNNING''")
        case True
        with * same(2) Suc.prems(3) have "time_left le st' \<le> time (lr_world t) + of_nat n * d"
          by (auto simp: time_left_def algebra_simps)
        with * same(1) show ?thesis by (intro Suc.IH) auto
      qed (simp add: ret_def)
    qed auto
    with True show ?thesis
      by (simp only: run_unbounded.simps(2) [of le "Suc n"]) (auto simp: bind_def wp_def split: prod.splits sum.splits)
  qed (simp add: ret_def)
qed

lemma load_or_create_started:
  assumes "time_advances le time d" and "0 < d"
    and "\<And>st. lr_runs s (mission le) = Some st \<Longrightarrow> rs_started_at st \<le> time (lr_world s)"
  shows "wp (load_or_create le) (\<lambda>st t. rs_started_at st \<le> time (lr_world t)) (\<lambda>_ _. True) s"
proof -
  have "fst (le_clock le w) \<le> time (snd (le_clock le w))" for w
    using assms(1) by (simp add: time_advances_def)
  from this [of "lr_world s"] show ?thesis
    using assms(3) unfolding load_or_create_def store_load_def Let_def
    by (auto simp: wp_simps wp_clock store_create_with_event_def initial_state_def store_append_event_def
        split: option.splits sum.splits prod.splits)
qed

text \<open>C18: \<open>run_until_terminal\<close> without a step limit comes to an end. If every reading of the clock
  advances the time by at least \<open>d\<close> seconds and no callback turns it back, \<open>n + 1\<close> rounds with \<open>n * d\<close>
  at least the maximum wall time are enough: after them the loop has returned a state that is not
  running, or a callback's exception has left it.\<close>

theorem longrun_run_ends:
  assumes "time_advances le time d" and "0 < d" and "table_ok (ledger_of s)"
    and "\<And>st. lr_runs s (mission le) = Some st \<Longrightarrow> rs_started_at st \<le> time (lr_world s)"
    and "of_int (lm_maximum_wall_seconds (le_manifest le)) \<le> of_nat n * d"
  shows "fst (run_until_terminal le (Suc n) s) \<noteq> Inr None"
proof -
  have "wp (load_or_create le) (\<lambda>st t. fst (run_unbounded le (Suc n) st t) \<noteq> Inr None) (\<lambda>_ _. True) s"
  proof (rule wp_mono [OF wp_conj [OF load_or_create_started [of le time d, OF assms(1,2,4)]
          load_or_create_runs_well [OF table_ok_advanced [OF assms(3)], unfolded runs_well_def]]])
    fix st t
    assume *: "rs_started_at st \<le> time (lr_world t) \<and> stored le (ledger_of s) st t"
    with assms(3) have "table_ok (ledger_of t)"
      using lifecycles_keep [of le "ledger_of s" "ledger_of t"] by (simp add: stored_def)
    moreover from * assms(5) have "time_left le st \<le> time (lr_world t) + of_nat n * d"
      by (simp add: time_left_def)
    ultimately show "fst (run_unbounded le (Suc n) st t) \<noteq> Inr None"
      using * by (intro run_unbounded_ends [OF assms(1,2)]) auto
  qed auto
  then show ?thesis
    unfolding run_until_terminal_def
    by (simp only: bind_def wp_def) (auto split: prod.splits sum.splits)
qed

lemma longrun_run_ends_witness:
  "fst (run_until_terminal demo_engine 61 (store_init 0)) \<noteq> Inr None"
proof -
  have "time_advances demo_engine (\<lambda>w. w) 1"
    by (auto simp: time_advances_def demo_engine_def demo_evaluator_def proc_defs split: sum.splits)
  moreover have "table_ok (ledger_of (store_init (0 :: rat)))"
    using store_init_fleet [of "\<lambda>_. []" demo_manifest "0 :: rat"] by (simp add: fleet_inv_def)
  ultimately have "fst (run_until_terminal demo_engine (Suc 60) (store_init 0)) \<noteq> Inr None"
    by (intro longrun_run_ends [where time = "\<lambda>w. w" and d = 1]) (simp_all add: demo_fields store_init_def)
  then show ?thesis by simp
qed

end
