(* ===== verification/Py_Json_Roundtrip.thy ===== *)
theory Py_Json_Roundtrip
  imports Py_Json_Parse
begin

text \<open>
  Reading back what was written: \<open>json.loads (json.dumps v)\<close> is \<open>v\<close> with the items of its dictionaries
  in the order of their keys, for values whose strings are ASCII and whose dictionaries have distinct
  keys. The text of a float is up to \<open>repr\<close>; \<open>reads_back\<close> says what is asked of it.
\<close>

section \<open>Characters\<close>

lemma hex_digit_value: "hex_value (hex_digit n) = Some (n mod 16)"
proof -
  have "list_all (\<lambda>m. hex_value (''0123456789abcdef'' ! m) = Some m) [0..<16]" by code_simp
  moreover have "n mod 16 \<in> set [0..<16]" by simp
  ultimately show ?thesis unfolding hex_digit_def list_all_iff by blast
qed

lemma hex4_read:
  assumes "n < 65536"
  shows "hex4_value (hex4 n @ s) = Some (n, s)"
proof -
  have "n div 256 = n div 16 div 16" "n div 4096 = n div 16 div 16 div 16"
    by (simp_all add: div_mult2_eq [symmetric])
  moreover have top: "n div 4096 mod 16 = n div 4096" using assms by simp
  moreover have digits: "4096 * e + 256 * f + 16 * d + b = m"
    if "16 * e + f = c" "16 * c + d = a" "16 * a + b = m" for a b c d e f m :: nat
    using that by simp
  ultimately have "4096 * (n div 4096 mod 16) + 256 * (n div 256 mod 16) + 16 * (n div 16 mod 16) + n mod 16 = n"
    by (metis digits mult_div_mod_eq)
  then show ?thesis by (simp add: hex4_def hex_digit_value top)
qed

lemma hex4_length [simp]: "length (hex4 n) = 4"
  by (simp add: hex4_def)

definition ascii_char :: "char \<Rightarrow> bool" where
  "ascii_char c \<longleftrightarrow> (of_char c :: nat) < 128"

text \<open>A character in front of what the scanner reads.\<close>

definition prepend :: "char \<Rightarrow> (string \<times> string) option \<Rightarrow> (string \<times> string) option" where
  "prepend c x = (case x of None \<Rightarrow> None | Some (t, r) \<Rightarrow> Some (c # t, r))"

lemma scan_u_escape:
  assumes "n < 128"
  shows "scan_string (u_escape n @ s) = prepend (char_of n) (scan_string s)"
proof -
  have "scan_unicode (hex4 n @ s) = Some ([char_of n], s)"
    using assms by (simp add: scan_unicode_def hex4_read utf8_def)
  then show ?thesis
    using assms by (simp add: u_escape_def prepend_def split: option.splits)
qed

lemma scan_ascii_escape:
  assumes "ascii_char c"
  shows "scan_string (ascii_escape c @ s) = prepend c (scan_string s)"
proof (cases "(of_char c :: nat) < 32")
  case True
  have "scan_string (u_escape (of_char c) @ s) = prepend c (scan_string s)"
    using assms by (simp add: scan_u_escape ascii_char_def)
  with True show ?thesis
    by (auto simp: ascii_escape_def prepend_def simple_escape_def split: option.splits)
next
  case False
  then show ?thesis
    by (auto simp: ascii_escape_def prepend_def simple_escape_def split: option.splits)
qed

lemma scan_escaped:
  assumes "list_all ascii_char s"
  shows "scan_string (escape_ascii s @ CHR 0x22 # r) = Some (s, r)"
    and "scan_string (escape_utf8 s @ CHR 0x22 # r) = Some (s, r)"
proof -
  show "scan_string (escape_ascii s @ CHR 0x22 # r) = Some (s, r)"
    using assms
  proof (induction s)
    case (Cons a s)
    show ?case
    proof (cases "(of_char a :: nat) = 127")
      case True
      then have "a = char_of (127 :: nat)" by (metis char_of_char)
      with Cons True show ?thesis by (simp add: scan_u_escape prepend_def)
    next
      case False
      with Cons show ?thesis by (simp add: Let_def scan_ascii_escape prepend_def ascii_char_def)
    qed
  qed simp
  show "scan_string (escape_utf8 s @ CHR 0x22 # r) = Some (s, r)"
    using assms by (induction s) (simp_all add: scan_ascii_escape prepend_def ascii_char_def)
qed

lemma scan_json_string:
  "list_all ascii_char s \<Longrightarrow> \<exists>t. json_string asc s = CHR 0x22 # t \<and> scan_string (t @ r) = Some (s, r)"
  using scan_escaped [of s r] by (simp add: json_string_def)

section \<open>Integers\<close>

text \<open>What may follow a value inside a document.\<close>

definition delimited :: "string \<Rightarrow> bool" where
  "delimited r \<longleftrightarrow> r = [] \<or> hd r = CHR '','' \<or> hd r = CHR ''}'' \<or> hd r = CHR '']'' \<or> hd r = CHR 0x0A"

lemma is_digit_digit: "n < 10 \<Longrightarrow> is_digit (digit n) \<and> of_char (digit n) - 48 = n"
proof -
  have "list_all (\<lambda>m. is_digit (digit m) \<and> of_char (digit m) - 48 = m) [0..<10]" by code_simp
  then show "n < 10 \<Longrightarrow> is_digit (digit n) \<and> of_char (digit n) - 48 = n"
    unfolding list_all_iff by simp
qed

lemma nat_str_digits: "list_all is_digit (nat_str n)" "digits_value (nat_str n) = n"
proof -
  have "list_all is_digit (nat_str n) \<and> digits_value (nat_str n) = n"
  proof (induction n rule: nat_str.induct)
    case (1 n)
    show ?case
    proof (cases "n < 10")
      case True
      with is_digit_digit [of n] show ?thesis by (simp add: nat_str.simps [of n] digits_value_def)
    next
      case False
      with 1 is_digit_digit [of "n mod 10"] show ?thesis
        by (simp add: nat_str.simps [of n] digits_value_def)
    qed
  qed
  then show "list_all is_digit (nat_str n)" "digits_value (nat_str n) = n" by simp_all
qed

lemma nat_str_leading: "hd (nat_str n) = CHR ''0'' \<Longrightarrow> n = 0"
proof (induction n rule: nat_str.induct)
  case (1 n)
  show ?case
  proof (cases "n < 10")
    case True
    with 1 have "digit n = digit 0" by (simp add: nat_str.simps [of n] digit_def)
    with True show ?thesis by (auto intro: digit_inj)
  next
    case False
    with 1 show ?thesis by (auto simp: nat_str.simps [of n])
  qed
qed

lemma delimited_not_digit: "delimited r \<Longrightarrow> takeWhile is_digit r = []" "delimited r \<Longrightarrow> dropWhile is_digit r = r"
  "delimited r \<Longrightarrow> scan_fraction r = ([], r)" "delimited r \<Longrightarrow> scan_exponent r = (None, r)"
  by (cases r; auto simp: delimited_def is_digit_def scan_fraction_def scan_exponent_def split: list.splits)+

lemma scan_nat_str:
  assumes "delimited r"
  shows "scan_unsigned neg (nat_str n @ r) =
    Some (IntToken ((if neg then - 1 else 1) * int n) (length (nat_str n)), r)"
proof -
  obtain c s where c: "nat_str n = c # s" by (cases "nat_str n") auto
  have digits: "list_all is_digit (c # s)" "digits_value (c # s) = n"
    using nat_str_digits [of n] c by simp_all
  have all: "takeWhile is_digit (c # s @ r) = c # s" "dropWhile is_digit (c # s @ r) = r"
    using digits(1) delimited_not_digit(1,2) [OF assms]
    by (simp_all add: takeWhile_append2 dropWhile_append2 list_all_iff)
  show ?thesis
  proof (cases "c = CHR ''0''")
    case True
    with nat_str_leading [of n] c have "n = 0" by simp
    then have "s = []" using c True by (simp add: nat_str.simps digit_def)
    with True c \<open>n = 0\<close> show ?thesis
      using delimited_not_digit [OF assms] by (simp add: scan_unsigned_def is_digit_def digits_value_def)
  next
    case False
    with c digits all show ?thesis
      using delimited_not_digit [OF assms] by (simp add: scan_unsigned_def)
  qed
qed

lemma scan_json_int:
  assumes "json_int i = Inr x" and "delimited r"
  shows "scan_atom repr (x @ r) = Inr (PInt i, r)" and "x \<noteq> []" and "hd x = CHR ''-'' \<or> is_digit (hd x)"
proof -
  from assms(1) have len: "length (nat_str (nat \<bar>i\<bar>)) \<le> 4300" and x: "x = int_str i"
    by (auto simp: json_int_def split: if_splits)
  have digit: "is_digit (hd (nat_str n))" for n
    using nat_str_digits(1) [of n] by (cases "nat_str n") auto
  then show "x \<noteq> []" and "hd x = CHR ''-'' \<or> is_digit (hd x)"
    by (simp_all add: x int_str_def)
  have atom: "scan_atom repr t =
      (case scan_number t of None \<Rightarrow> Inl JDecodeError
       | Some (IntToken i n, r) \<Rightarrow> if 4300 < n then Inl JIntTooLong else Inr (PInt i, r)
       | Some (FloatToken q, r) \<Rightarrow> Inr (PFloat (Finite (repr q)), r))"
    if "t = CHR ''-'' # nat_str n @ r \<or> t = nat_str n @ r" for t n
    using that digit [of n] by (cases "nat_str n") (auto simp: scan_atom_def startswith_def is_digit_def)
  show "scan_atom repr (x @ r) = Inr (PInt i, r)"
  proof (cases "i < 0")
    case True
    with len show ?thesis
      using atom [of "x @ r" "nat (- i)"] scan_nat_str [OF assms(2), of True "nat (- i)"]
      by (simp add: x int_str_def scan_number_def)
  next
    case False
    have "scan_number (nat_str n @ r) = scan_unsigned False (nat_str n @ r)" for n
      using digit [of n] by (cases "nat_str n") (auto simp: scan_number_def is_digit_def)
    with False len show ?thesis
      using atom [of "x @ r" "nat i"] scan_nat_str [OF assms(2), of False "nat i"]
      by (simp add: x int_str_def)
  qed
qed

section \<open>Values\<close>

text \<open>The values the round trip is stated for, and how they come back.\<close>

definition reads_back :: "(rat \<Rightarrow> string) \<Rightarrow> string \<Rightarrow> bool" where
  "reads_back repr t \<longleftrightarrow> t \<noteq> [] \<and> (hd t = CHR ''-'' \<or> is_digit (hd t)) \<and>
     (\<forall>r. delimited r \<longrightarrow> scan_atom repr (t @ r) = Inr (PFloat (Finite t), r))"

fun plain :: "(rat \<Rightarrow> string) \<Rightarrow> pyval \<Rightarrow> bool" where
  "plain repr (PStr s) = list_all ascii_char s"
| "plain repr (PFloat (Finite t)) = reads_back repr t"
| "plain repr (PList xs) = list_all (plain repr) xs"
| "plain repr (PDict kvs) =
     (distinct (map fst kvs) \<and> list_all (\<lambda>kv. list_all ascii_char (fst kv) \<and> plain repr (snd kv)) kvs)"
| "plain repr _ = True"

fun canonical :: "pyval \<Rightarrow> pyval" where
  "canonical (PList xs) = PList (map canonical xs)"
| "canonical (PDict kvs) = PDict (sort_items (map (\<lambda>(k, v). (k, canonical v)) kvs))"
| "canonical v = v"

text \<open>How a value's text is read: from any fuel that is enough, up to what delimits it.\<close>

definition reads :: "bool \<Rightarrow> (rat \<Rightarrow> string) \<Rightarrow> string \<Rightarrow> pyval \<Rightarrow> bool" where
  "reads strict repr x v \<longleftrightarrow> x \<noteq> [] \<and> skip_ws x = x \<and> hd x \<noteq> CHR '']'' \<and> ascii_char (hd x) \<and>
     (\<forall>r n. delimited r \<longrightarrow> 2 * length (x @ r) < n \<longrightarrow> parse_value strict repr n (x @ r) = Inr (v, r))"

lemma skip_ws_id: "x \<noteq> [] \<Longrightarrow> hd x \<notin> {CHR '' '', CHR 0x09, CHR 0x0A, CHR 0x0D} \<Longrightarrow> skip_ws (x @ r) = x @ r"
  by (cases x) (auto simp: skip_ws_def)

lemma reads_atom:
  assumes "x \<noteq> []" and "ascii_char (hd x)" and "hd x \<notin> set [CHR 0x22, CHR ''{'', CHR ''['', CHR '']'', CHR '' '', CHR 0x09, CHR 0x0A, CHR 0x0D]"
    and "\<And>r. delimited r \<Longrightarrow> scan_atom repr (x @ r) = Inr (v, r)"
  shows "reads strict repr x v"
proof -
  obtain c s where x: "x = c # s" using assms(1) by (cases x) auto
  have "parse_value strict repr n (x @ r) = Inr (v, r)" if "delimited r" "2 * length (x @ r) < n" for r n
    using that assms(3,4) by (cases n) (auto simp: x)
  with assms(2,3) show ?thesis by (simp add: reads_def x skip_ws_def)
qed

lemma reads_string: "list_all ascii_char s \<Longrightarrow> reads strict repr (json_string asc s) (PStr s)"
proof -
  assume s: "list_all ascii_char s"
  have "parse_value strict repr n (json_string asc s @ r) = Inr (PStr s, r)" if "2 * length (json_string asc s @ r) < n" for n r
    using that scan_json_string [OF s, of asc r] by (cases n) auto
  then show ?thesis by (simp add: reads_def json_string_def skip_ws_def ascii_char_def)
qed

lemma reads_ws:
  assumes "reads strict repr x v"
  shows "skip_ws (x @ r) = x @ r"
proof -
  from assms obtain c s where x: "x = c # s" and "skip_ws x = x" by (cases x) (auto simp: reads_def)
  then have "\<not> (c = CHR '' '' \<or> c = CHR 0x09 \<or> c = CHR 0x0A \<or> c = CHR 0x0D)"
    by (auto simp: skip_ws_def) (metis dropWhile.simps(1) impossible_Cons length_dropWhile_le)+
  with x show ?thesis by (simp add: skip_ws_def)
qed

lemma skip_ws_delimiter [simp]:
  "skip_ws (CHR '','' # r) = CHR '','' # r" "skip_ws (CHR '']'' # r) = CHR '']'' # r"
  "skip_ws (CHR ''}'' # r) = CHR ''}'' # r" "skip_ws (CHR '':'' # r) = CHR '':'' # r"
  "skip_ws (CHR 0x22 # r) = CHR 0x22 # r"
  by (simp_all add: skip_ws_def)

lemma startswith_Cons [simp]: "startswith (a # s) [b] \<longleftrightarrow> a = b"
  by (auto simp: startswith_def)

lemma delimited_Cons [simp]: "delimited (c # r) \<longleftrightarrow> c = CHR '','' \<or> c = CHR ''}'' \<or> c = CHR '']'' \<or> c = CHR 0x0A"
  by (simp add: delimited_def)

lemma parse_items_read:
  assumes "list_all2 (reads strict repr) ys vs" and "ys \<noteq> []"
    and "2 * length (joined '','' ys @ CHR '']'' # r) + 1 < n"
  shows "parse_items strict repr n (joined '','' ys @ CHR '']'' # r) = Inr (vs, r)"
  using assms
proof (induction ys arbitrary: vs n)
  case (Cons y ys)
  then obtain v vs' where vs: "vs = v # vs'" and y: "reads strict repr y v" and ys: "list_all2 (reads strict repr) ys vs'"
    by (auto simp: list_all2_Cons1)
  obtain m where n: "n = Suc m" using Cons.prems by (cases n) auto
  have val: "parse_value strict repr m (y @ t) = Inr (v, t)" if "delimited t" "2 * length (y @ t) < m" for t
    using y that by (simp add: reads_def)
  show ?case
  proof (cases ys)
    case Nil
    with ys have "vs' = []" by simp
    with Nil vs val [of "CHR '']'' # r"] Cons.prems(3) n show ?thesis by simp
  next
    case (Cons z zs)
    let ?t = "joined '','' ys @ CHR '']'' # r"
    have t: "joined '','' (y # ys) @ CHR '']'' # r = y @ CHR '','' # ?t" by (simp add: Cons)
    have bound: "2 * length (y @ CHR '','' # ?t) + 1 < n" using Cons.prems(3) unfolding t .
    from ys Cons obtain w where "reads strict repr z w" by (auto simp: list_all2_Cons1)
    then have ws: "skip_ws ?t = ?t"
      using reads_ws [of strict repr z w] Cons by (cases zs) simp_all
    have "parse_items strict repr m ?t = Inr (vs', r)"
      using bound n Cons ys by (intro Cons.IH) auto
    with val [of "CHR '','' # ?t"] bound n ws show ?thesis
      unfolding t n by (simp add: vs)
  qed
qed simp

definition member_text :: "bool \<Rightarrow> string \<Rightarrow> string \<Rightarrow> string" where
  "member_text asc k y = json_string asc k @ CHR '':'' # y"

lemma parse_members_read:
  assumes "list_all2 (\<lambda>(k, y) (k', v). k' = k \<and> list_all ascii_char k \<and> reads strict repr y v) kys kvs" and "kys \<noteq> []"
    and "2 * length (joined '','' (map (\<lambda>(k, y). member_text asc k y) kys) @ CHR ''}'' # r) < n"
  shows "parse_members strict repr n (joined '','' (map (\<lambda>(k, y). member_text asc k y) kys) @ CHR ''}'' # r) = Inr (kvs, r)"
  using assms
proof (induction kys arbitrary: kvs n)
  case (Cons ky kys)
  obtain k y where ky: "ky = (k, y)" by fastforce
  with Cons.prems obtain v kvs' where kvs: "kvs = (k, v) # kvs'" and k: "list_all ascii_char k"
    and y: "reads strict repr y v"
    and rest: "list_all2 (\<lambda>(k, y) (k', v). k' = k \<and> list_all ascii_char k \<and> reads strict repr y v) kys kvs'"
    by (auto simp: list_all2_Cons1)
  obtain m where n: "n = Suc m" using Cons.prems by (cases n) auto
  let ?ts = "map (\<lambda>(k, y). member_text asc k y) kys"
  define t where "t = (if kys = [] then CHR ''}'' # r else CHR '','' # joined '','' ?ts @ CHR ''}'' # r)"
  have shape: "joined '','' (map (\<lambda>(k, y). member_text asc k y) (ky # kys)) @ CHR ''}'' # r =
      json_string asc k @ CHR '':'' # y @ t"
    by (cases kys) (simp_all add: ky t_def member_text_def [of asc k y])
  obtain u where u: "json_string asc k = CHR 0x22 # u" "scan_string (u @ CHR '':'' # y @ t) = Some (k, CHR '':'' # y @ t)"
    using scan_json_string [OF k] by blast
  have bound: "2 * length (json_string asc k @ CHR '':'' # y @ t) < n" using Cons.prems(3) unfolding shape .
  have "delimited t" by (simp add: t_def)
  with y bound n have val: "parse_value strict repr m (y @ t) = Inr (v, t)"
    by (simp add: reads_def)
  have first: "parse_members strict repr n (json_string asc k @ CHR '':'' # y @ t) =
      (if startswith (skip_ws t) ''}'' then Inr ([(k, v)], tl (skip_ws t))
       else if startswith (skip_ws t) '','' then
         (case parse_members strict repr m (skip_ws (tl (skip_ws t))) of
            Inl e \<Rightarrow> Inl e
          | Inr (kvs, r'') \<Rightarrow> Inr ((k, v) # kvs, r''))
       else Inl JDecodeError)"
    using u val reads_ws [OF y] by (simp add: n)
  show ?case
  proof (cases kys)
    case Nil
    with rest have "kvs' = []" by simp
    with first kvs show ?thesis unfolding shape by (simp add: t_def Nil)
  next
    case (Cons kz kzs)
    let ?s = "joined '','' ?ts @ CHR ''}'' # r"
    have "skip_ws ?s = ?s"
      using Cons by (cases kz; cases kzs) (simp_all add: member_text_def json_string_def)
    moreover have "parse_members strict repr m ?s = Inr (kvs', r)"
      using bound n Cons rest by (intro Cons.IH) (auto simp: t_def)
    ultimately show ?thesis
      using first kvs Cons unfolding shape by (simp add: t_def)
  qed
qed simp

section \<open>Sorting keeps the items\<close>

lemma insert_item_map: "insert_item (k, f k v) (map (\<lambda>(k, v). (k, f k v)) kvs) = map (\<lambda>(k, v). (k, f k v)) (insert_item (k, v) kvs)"
  by (induction kvs) auto

lemma sort_items_map: "sort_items (map (\<lambda>(k, v). (k, f k v)) kvs) = map (\<lambda>(k, v). (k, f k v)) (sort_items kvs)"
  by (induction kvs) (auto simp: sort_items_def insert_item_map)

lemma length_insert_item: "length (insert_item x kvs) = Suc (length kvs)"
  by (induction x kvs rule: insert_item.induct) auto

lemma length_sort_items [simp]: "length (sort_items kvs) = length kvs"
  by (induction kvs) (auto simp: sort_items_def length_insert_item)

lemma distinct_sort_items:
  assumes "distinct (map fst kvs)"
  shows "distinct (map fst (sort_items kvs))"
proof -
  have "card (set (map fst (sort_items kvs))) = card (set (map fst kvs))" by simp
  also have "\<dots> = length (map fst (sort_items kvs))" using distinct_card [OF assms] by simp
  finally show ?thesis by (rule card_distinct)
qed

lemma set_item_fresh: "k \<notin> fst ` set d \<Longrightarrow> set_item k v d = d @ [(k, v)]"
  by (induction d) auto

lemma make_dict_distinct:
  assumes "distinct (map fst kvs)"
  shows "make_dict strict kvs = Inr (PDict kvs)"
proof -
  have "first_duplicate seen (map fst kvs) = None" if "set seen \<inter> fst ` set kvs = {}" for seen
    using that assms by (induction kvs arbitrary: seen) auto
  then have "first_duplicate [] (map fst kvs) = None" by simp
  moreover have "foldl (\<lambda>d (k, v). set_item k v d) d kvs = d @ kvs" if "fst ` set d \<inter> fst ` set kvs = {}" for d
    using that assms
  proof (induction kvs arbitrary: d)
    case (Cons kv kvs)
    obtain k v where kv: "kv = (k, v)" by fastforce
    with Cons.prems have "set_item k v d = d @ [(k, v)]" by (intro set_item_fresh) auto
    moreover have "foldl (\<lambda>d (k, v). set_item k v d) (d @ [(k, v)]) kvs = (d @ [(k, v)]) @ kvs"
      using Cons.prems kv by (intro Cons.IH) auto
    ultimately show ?case by (simp add: kv)
  qed simp
  ultimately show ?thesis by (simp add: make_dict_def)
qed

lemma all_ok_map: "all_ok rs = Inr ys \<Longrightarrow> list_all2 (\<lambda>r y. r = Inr y) rs ys"
  by (induction rs arbitrary: ys rule: all_ok.induct) (auto split: sum.splits)

section \<open>The round trip\<close>

lemma reads_number:
  assumes "x \<noteq> []" and "hd x = CHR ''-'' \<or> is_digit (hd x)"
    and "\<And>r. delimited r \<Longrightarrow> scan_atom repr (x @ r) = Inr (v, r)"
  shows "reads strict repr x v"
proof -
  have "hd x \<notin> set [CHR 0x22, CHR ''{'', CHR ''['', CHR '']'', CHR '' '', CHR 0x09, CHR 0x0A, CHR 0x0D]"
    "ascii_char (hd x)"
    using assms(2) by (auto simp: is_digit_def ascii_char_def)
  with assms(1,3) show ?thesis by (intro reads_atom)
qed

lemma reads_float:
  assumes "json_float nan t = Inr x" and "plain repr (PFloat t)"
  shows "reads strict repr x (PFloat t)"
proof (cases t)
  case (Finite u)
  with assms show ?thesis by (auto simp: reads_back_def intro!: reads_number)
qed (use assms in \<open>auto intro!: reads_atom simp: scan_atom_def startswith_def ascii_char_def split: if_splits\<close>)

lemma reads_list:
  assumes "list_all2 (reads strict repr) ys vs"
  shows "reads strict repr (''['' @ joined '','' ys @ '']'') (PList vs)"
proof (cases "ys = []")
  case True
  with assms have "parse_value strict repr n ((''['' @ joined '','' ys @ '']'') @ r) = Inr (PList vs, r)"
    if "2 * length ((''['' @ joined '','' ys @ '']'') @ r) < n" for r n
    using that by (cases n) simp_all
  then show ?thesis by (simp add: reads_def skip_ws_def ascii_char_def)
next
  case False
  let ?t = "\<lambda>r. joined '','' ys @ CHR '']'' # r"
  from False assms obtain y z v where y: "ys = y # z" "reads strict repr y v"
    by (cases ys) (auto simp: list_all2_Cons1)
  then have "skip_ws (?t r) = ?t r" for r
    using reads_ws [of strict repr y v] by (cases z) simp_all
  moreover have "\<not> startswith (?t r) '']''" for r
    using y by (cases y; cases z) (auto simp: reads_def)
  moreover have "parse_items strict repr n (?t r) = Inr (vs, r)" if "2 * length (?t r) + 1 < n" for r n
    using that assms False by (intro parse_items_read)
  ultimately have "parse_value strict repr n (CHR ''['' # ?t r) = Inr (PList vs, r)"
    if "2 * length (CHR ''['' # ?t r) < n" for r n
    using that by (cases n) simp_all
  then show ?thesis by (simp add: reads_def skip_ws_def ascii_char_def)
qed

lemma reads_dict:
  assumes "list_all2 (\<lambda>(k, y) (k', v). k' = k \<and> list_all ascii_char k \<and> reads strict repr y v) kys kvs"
    and "distinct (map fst kvs)"
  shows "reads strict repr (''{'' @ joined '','' (map (\<lambda>(k, y). member_text asc k y) kys) @ ''}'') (PDict kvs)"
proof (cases "kys = []")
  case True
  with assms have "parse_value strict repr n (''{'' @ ''}'' @ r) = Inr (PDict kvs, r)" if "0 < n" for n r
    using that by (cases n) simp_all
  with True show ?thesis by (simp add: reads_def skip_ws_def ascii_char_def)
next
  case False
  let ?t = "\<lambda>r. joined '','' (map (\<lambda>(k, y). member_text asc k y) kys) @ CHR ''}'' # r"
  from False obtain ky z where "kys = ky # z" by (cases kys) auto
  then have "skip_ws (?t r) = ?t r" "\<not> startswith (?t r) ''}''" for r
    by (cases ky; cases z; simp add: member_text_def json_string_def)+
  moreover have "parse_members strict repr n (?t r) = Inr (kvs, r)" if "2 * length (?t r) < n" for r n
    using that assms(1) False by (intro parse_members_read)
  ultimately have "parse_value strict repr n (CHR ''{'' # ?t r) = Inr (PDict kvs, r)"
    if "2 * length (CHR ''{'' # ?t r) < n" for r n
    using that by (cases n) (simp_all add: make_dict_distinct [OF assms(2)])
  then show ?thesis by (simp add: reads_def skip_ws_def ascii_char_def)
qed

lemma dumps_reads: "json_dumps asc nan v = Inr x \<Longrightarrow> plain repr v \<Longrightarrow> reads strict repr x (canonical v)"
proof (induction v arbitrary: x)
  case PNone
  then show ?case by (auto intro!: reads_atom simp: scan_atom_def startswith_def ascii_char_def)
next
  case (PBool b)
  then show ?case by (auto intro!: reads_atom simp: scan_atom_def startswith_def ascii_char_def split: if_splits)
next
  case (PInt i)
  then have "json_int i = Inr x" by simp
  from scan_json_int [OF this] delimited_def [of "[]"] show ?case by (auto intro!: reads_number)
next
  case (PFloat t)
  then show ?case using reads_float [of nan t x] by simp
next
  case (PStr s)
  then show ?case by (auto intro: reads_string)
next
  case (PList xs)
  then obtain ys where ys: "all_ok (map (json_dumps asc nan) xs) = Inr ys" and x: "x = ''['' @ joined '','' ys @ '']''"
    by (auto split: sum.splits)
  have "list_all2 (reads strict repr) ys (map canonical xs)"
    using all_ok_map [OF ys] PList
    by (auto simp: list_all2_conv_all_nth list_all_length)
  then show ?case unfolding x by (simp add: reads_list [simplified])
next
  case (PDict kvs)
  let ?f = "\<lambda>k v. case json_dumps asc nan v of Inl e \<Rightarrow> Inl e | Inr y \<Rightarrow> Inr (json_string asc k @ '':'' @ y)"
  define g where "g v = (case json_dumps asc nan v of Inl _ \<Rightarrow> [] | Inr y \<Rightarrow> y)" for v
  let ?s = "sort_items kvs"
  let ?kys = "map (\<lambda>(k, v). (k, g v)) ?s"
  from PDict.prems(1) obtain ys where "all_ok (map snd (sort_items (map (\<lambda>(k, v). (k, ?f k v)) kvs))) = Inr ys"
    and x: "x = ''{'' @ joined '','' ys @ ''}''" by (auto split: sum.splits)
  then have ys: "list_all2 (\<lambda>kv y. ?f (fst kv) (snd kv) = Inr y) ?s ys"
    using all_ok_map by (fastforce simp: sort_items_map list_all2_conv_all_nth case_prod_beta)
  have item: "y = member_text asc k (g v) \<and> list_all ascii_char k \<and> reads strict repr (g v) (canonical v)"
    if "(k, v) \<in> set kvs" "?f k v = Inr y" for k v y
    using that PDict.IH [of "(k, v)" v] PDict.prems(2)
    by (force simp: g_def member_text_def list_all_iff split: sum.splits)
  have nth: "ys ! i = member_text asc (fst (?s ! i)) (g (snd (?s ! i))) \<and> list_all ascii_char (fst (?s ! i)) \<and>
      reads strict repr (g (snd (?s ! i))) (canonical (snd (?s ! i)))" if "i < length ?s" for i
    using ys that nth_mem [OF that] by (intro item) (auto simp: list_all2_conv_all_nth)
  have "length ys = length ?s" using ys by (simp add: list_all2_conv_all_nth)
  then have shape: "ys = map (\<lambda>(k, y). member_text asc k y) ?kys"
    using nth by (intro nth_equalityI) (auto simp: case_prod_beta)
  have "list_all2 (\<lambda>(k, y) (k', v). k' = k \<and> list_all ascii_char k \<and> reads strict repr y v) ?kys
      (map (\<lambda>(k, v). (k, canonical v)) ?s)"
    using nth by (auto simp: list_all2_conv_all_nth case_prod_beta)
  moreover have "distinct (map fst (map (\<lambda>(k, v). (k, canonical v)) ?s))"
    using PDict.prems(2) distinct_sort_items [of kvs] by (simp add: case_prod_beta comp_def)
  ultimately show ?case
    unfolding x shape canonical.simps sort_items_map [of "\<lambda>_. canonical"] by (intro reads_dict)
qed simp

text \<open>What was written is read back.\<close>

lemma json_loads_line:
  assumes "json_dumps asc nan v = Inr x" and "plain repr v" and "delimited r" and "skip_ws r = []"
  shows "json_loads strict repr (x @ r) = Inr (canonical v)"
proof -
  have x: "reads strict repr x (canonical v)" by (rule dumps_reads [OF assms(1,2)])
  then have "parse_value strict repr (2 * length (x @ r) + 1) (x @ r) = Inr (canonical v, r)"
    unfolding reads_def using assms(3) less_add_one by blast
  moreover have "skip_ws (x @ r) = x @ r" by (rule reads_ws [OF x])
  moreover have "\<not> startswith (x @ r) [CHR 0xEF, CHR 0xBB, CHR 0xBF]"
    using x by (cases x) (auto simp: reads_def ascii_char_def startswith_def)
  ultimately show ?thesis using assms(4) by (simp add: json_loads_def)
qed

theorem json_loads_dumps:
  assumes "json_dumps asc nan v = Inr x" and "plain repr v"
  shows "json_loads strict repr x = Inr (canonical v)"
  using json_loads_line [OF assms, of "[]"] by (simp add: delimited_def skip_ws_def)

end
