(* ===== verification/LongRun_Contract.thy ===== *)
theory LongRun_Contract
  imports LongRun_Termination Py_Json_Roundtrip "HOL-Library.Multiset"
begin

text \<open>
  The digest of a mission manifest does not depend on the order in which the model bindings are
  listed: the canonical payload sorts them, and a valid manifest never has two of the same role. The
  events of a mission are read back from their text as they were recorded.
\<close>

section \<open>Valid bindings\<close>

lemma binding_le_trans: "binding_le a b \<Longrightarrow> binding_le b c \<Longrightarrow> binding_le a c"
  using str_le_trans str_le_antisym by (auto split: if_splits)

lemma binding_le_strict:
  "mb_role a \<noteq> mb_role b \<Longrightarrow> binding_le b a \<longleftrightarrow> \<not> binding_le a b"
  using str_le_total [of "mb_role a" "mb_role b"] str_le_antisym [of "mb_role a" "mb_role b"] by auto

lemma insert_binding_commute:
  assumes "mb_role a \<noteq> mb_role b"
  shows "insert_binding a (insert_binding b cs) = insert_binding b (insert_binding a cs)"
proof (induction cs)
  case Nil
  show ?case using binding_le_strict [OF assms] by (simp del: binding_le.simps)
next
  case (Cons c cs)
  then show ?case
    using binding_le_strict [OF assms] binding_le_trans [of a b c] binding_le_trans [of b a c]
    by (auto simp del: binding_le.simps)
qed

lemma sorted_bindings_order_free:
  assumes "mset bs' = mset bs" and "distinct (map mb_role bs)"
  shows "foldr insert_binding bs' [] = foldr insert_binding bs []"
proof -
  have "insert_binding x \<circ> insert_binding y = insert_binding y \<circ> insert_binding x"
    if "x \<in> set bs'" "y \<in> set bs'" for x y
  proof (cases "x = y")
    case False
    from assms(1) have "set bs' = set bs" by (metis set_mset_mset)
    with that False assms(2) have "mb_role x \<noteq> mb_role y" by (metis distinct_key_eq)
    then show ?thesis by (simp add: fun_eq_iff insert_binding_commute)
  qed simp
  then have "fold insert_binding (rev bs') = fold insert_binding (rev bs)"
    using assms(1) by (intro fold_multiset_equiv) simp_all
  then show ?thesis by (simp add: foldr_conv_fold)
qed

text \<open>The digest of a manifest is independent of the order of its model bindings: two manifests
  that differ only in it, one of them valid, are both valid and have one digest (or both the same
  encoding error), so that either may continue a mission of the other.\<close>

theorem longrun_digest_order_free:
  assumes "LongRunManifest_validate m = Inr ()" and "mset bs = mset (lm_model_bindings m)"
  shows "LongRunManifest_validate (m\<lparr>lm_model_bindings := bs\<rparr>) = Inr () \<and>
    LongRunManifest_digest repr (m\<lparr>lm_model_bindings := bs\<rparr>) = LongRunManifest_digest repr m"
proof -
  have perm: "set bs = set (lm_model_bindings m)" "distinct (map f bs) = distinct (map f (lm_model_bindings m))"
    for f :: "ModelBinding \<Rightarrow> string"
    using mset_eq_setD [OF assms(2)] mset_eq_imp_distinct_iff [of "map f bs" "map f (lm_model_bindings m)"]
      assms(2) by simp_all
  from assms(1) have old: "bindings_valid {} {} (lm_model_bindings m) = Inr ()"
    by (auto simp: LongRunManifest_validate_def split: if_splits)
  then have "bindings_valid {} {} bs = Inr ()"
    by (simp add: bindings_valid_iff perm list_all_iff)
  with assms(1) have valid: "LongRunManifest_validate (m\<lparr>lm_model_bindings := bs\<rparr>) = Inr ()"
    by (auto simp: LongRunManifest_validate_def split: if_splits)
  have "LongRunManifest_canonical_payload repr (m\<lparr>lm_model_bindings := bs\<rparr>) = LongRunManifest_canonical_payload repr m"
    using sorted_bindings_order_free [OF assms(2)] old
    by (simp add: LongRunManifest_canonical_payload_def bindings_valid_iff)
  with valid assms(1) show ?thesis by (simp add: LongRunManifest_digest_def)
qed

definition demo_bindings :: "ModelBinding list" where
  "demo_bindings =
     [\<lparr>mb_binding_id = ''b1'', mb_role = ''worker'', mb_provider_id = ''p'', mb_model_id = ''m''\<rparr>,
      \<lparr>mb_binding_id = ''b2'', mb_role = ''planner'', mb_provider_id = ''p'', mb_model_id = ''m''\<rparr>]"

lemma longrun_digest_order_free_witness:
  "LongRunManifest_digest (\<lambda>_. ''0.5'') (demo_manifest\<lparr>lm_model_bindings := rev demo_bindings\<rparr>) =
     LongRunManifest_digest (\<lambda>_. ''0.5'') (demo_manifest\<lparr>lm_model_bindings := demo_bindings\<rparr>)"
proof -
  have "LongRunManifest_validate (demo_manifest\<lparr>lm_model_bindings := demo_bindings\<rparr>) = Inr ()"
    using demo_valid
    by (auto simp: LongRunManifest_validate_def demo_bindings_def demo_manifest_def ModelBinding_validate_def
        blank_def strip_visible visible_def)
  from longrun_digest_order_free [OF this, of "rev demo_bindings"] show ?thesis by simp
qed

section \<open>Reading the events of a mission\<close>

lemma all_ok_Inr_map: "(\<And>x. x \<in> set xs \<Longrightarrow> f x = Inr (g x)) \<Longrightarrow> all_ok (map f xs) = Inr (map g xs)"
  by (induction xs) auto

definition recorded_event :: "RunEvent \<Rightarrow> RunEvent" where
  "recorded_event e = e\<lparr>re_payload := canonical (re_payload e)\<rparr>"

lemma decode_recorded:
  assumes "encode_payload (re_payload e) = Inr x" and "plain repr (re_payload e)" and "is_dict (re_payload e)"
  shows "decode_event repr e = Inr (recorded_event e)"
proof -
  from assms(1) have "json_dumps True True (re_payload e) = Inr x"
    by (auto simp: encode_payload_def split: sum.splits)
  from json_loads_dumps [OF this assms(2)] assms(1)
  have "json_loads False repr (event_text e) = Inr (canonical (re_payload e))"
    by (simp add: event_text_def)
  moreover have "is_dict (canonical (re_payload e))"
    using assms(3) by (cases "re_payload e") simp_all
  ultimately show ?thesis by (simp add: decode_event_def recorded_event_def)
qed

text \<open>\<open>list_events\<close> gives back what was recorded: for a mission whose recorded payloads are
  encodable dictionaries of ASCII strings, distinct keys and floats that \<open>repr\<close> prints readably, it
  returns the newest \<open>limit\<close> events, oldest first, each with its payload in the order of its keys at
  every level, and changes nothing.\<close>

theorem longrun_events_read_back:
  assumes "1 \<le> limit" and "limit \<le> 1000"
    and "\<And>e. e \<in> set (lr_events s) \<Longrightarrow> re_run_id e = run \<Longrightarrow>
      encode_payload (re_payload e) = Inr (event_text e) \<and> plain repr (re_payload e) \<and> is_dict (re_payload e)"
  shows "store_list_events repr run limit s =
    (let mine = filter (\<lambda>e. re_run_id e = run) (lr_events s) in
     Inr (map recorded_event (drop (length mine - nat limit) mine)), s)"
proof -
  let ?mine = "filter (\<lambda>e. re_run_id e = run) (lr_events s)"
  have rows: "rev (take (nat limit) (rev ?mine)) = drop (length ?mine - nat limit) ?mine"
    by (simp add: rev_take)
  have "decode_event repr e = Inr (recorded_event e)" if "e \<in> set (drop (length ?mine - nat limit) ?mine)" for e
    using in_set_dropD [OF that] assms(3) [of e] decode_recorded [of e] by auto
  with assms(1,2) show ?thesis
    by (simp add: store_list_events_def proc_defs rows all_ok_Inr_map Let_def)
qed

definition demo_event :: RunEvent where
  "demo_event =
     \<lparr>re_id = 1, re_run_id = ''m1'', re_step_index = 0, re_kind = ''RUN_STARTED'',
      re_payload = PDict [(''b'', PInt 1), (''a'', PList [PStr ''x'', PNone])], re_created_at = 0\<rparr>"

lemma longrun_events_read_back_witness:
  "store_list_events (\<lambda>_. ''1.0'') ''m1'' 10 ((store_init ())\<lparr>lr_events := [demo_event]\<rparr>) =
     (Inr [demo_event\<lparr>re_payload := PDict [(''a'', PList [PStr ''x'', PNone]), (''b'', PInt 1)]\<rparr>],
      (store_init ())\<lparr>lr_events := [demo_event]\<rparr>)"
proof -
  have "encodes True True (re_payload demo_event)"
    by (simp add: demo_event_def encodes_dict_iff encodes_list_iff encodes_def [of _ _ "PInt _"] json_int_def
        nat_str.simps)
  then have "encode_payload (re_payload demo_event) = Inr (event_text demo_event)"
    by (auto simp: encodes_def encode_payload_def event_text_def)
  moreover have "plain (\<lambda>_. ''1.0'') (re_payload demo_event)" "is_dict (re_payload demo_event)"
    by (simp_all add: demo_event_def ascii_char_def)
  ultimately have "store_list_events (\<lambda>_. ''1.0'') ''m1'' 10 ((store_init ())\<lparr>lr_events := [demo_event]\<rparr>) =
    (let mine = filter (\<lambda>e. re_run_id e = ''m1'') [demo_event] in
     Inr (map recorded_event (drop (length mine - nat 10) mine)), (store_init ())\<lparr>lr_events := [demo_event]\<rparr>)"
    using longrun_events_read_back [of 10 "(store_init ())\<lparr>lr_events := [demo_event]\<rparr>" "''m1''" "\<lambda>_. ''1.0''"]
    by simp
  then show ?thesis
    by (simp add: recorded_event_def demo_event_def sort_items_def)
qed

end
