(* ===== verification/LongRun_Loader.thy ===== *)
theory LongRun_Loader
  imports LongRun_Model
begin

text \<open>
  Loading a mission manifest (src/src/cybercore/longrun/loader.py). The YAML parser is outside the
  program: a parsed document is a value (\<open>Inl\<close> when PyYAML raises), whose mappings have string keys.
  The lists of names in the messages about unknown fields are left out.
\<close>

section \<open>Fields\<close>

definition get_field :: "(string \<times> pyval) list \<Rightarrow> string \<Rightarrow> pyval" where
  "get_field mapping key = (case map_of mapping key of None \<Rightarrow> PNone | Some v \<Rightarrow> v)"

definition load_mapping :: "string \<Rightarrow> unit + pyval \<Rightarrow> lexn + (string \<times> pyval) list" where
  "load_mapping label document =
     (case document of
        Inl _ \<Rightarrow> Inl (value_error (''invalid '' @ label @ '' YAML''))
      | Inr (PDict kvs) \<Rightarrow> Inr kvs
      | Inr _ \<Rightarrow> Inl (value_error (label @ '' must be a YAML mapping'')))"

definition reject_unknown :: "(string \<times> pyval) list \<Rightarrow> string list \<Rightarrow> string \<Rightarrow> lexn + unit" where
  "reject_unknown mapping allowed label =
     (if set (map fst mapping) - set allowed \<noteq> {}
      then Inl (value_error (''unknown '' @ label @ '' fields''))
      else Inr ())"

definition require_int :: "(string \<times> pyval) list \<Rightarrow> string \<Rightarrow> string \<Rightarrow> lexn + int" where
  "require_int mapping key label =
     (case get_field mapping key of
        PInt n \<Rightarrow> Inr n
      | _ \<Rightarrow> Inl (value_error (label @ ''.'' @ key @ '' must be an integer'')))"

fun float_num :: "pyfloat \<Rightarrow> num" where
  "float_num (Finite t) = Fin (float_text_value t)"
| "float_num PosInfinity = PInf"
| "float_num NegInfinity = NInf"
| "float_num NotANumber = NaN"

definition require_float :: "(string \<times> pyval) list \<Rightarrow> string \<Rightarrow> string \<Rightarrow> lexn + num" where
  "require_float mapping key label =
     (case get_field mapping key of
        PInt n \<Rightarrow> Inr (Fin (of_int n))
      | PFloat x \<Rightarrow> Inr (float_num x)
      | _ \<Rightarrow> Inl (value_error (label @ ''.'' @ key @ '' must be numeric'')))"

definition require_string :: "(string \<times> pyval) list \<Rightarrow> string \<Rightarrow> string \<Rightarrow> lexn + string" where
  "require_string mapping key label =
     (case get_field mapping key of
        PStr s \<Rightarrow>
          if blank s then Inl (value_error (label @ ''.'' @ key @ '' must be a non-empty string''))
          else Inr (strip s)
      | _ \<Rightarrow> Inl (value_error (label @ ''.'' @ key @ '' must be a non-empty string'')))"

fun all_strings :: "pyval list \<Rightarrow> string list option" where
  "all_strings [] = Some []"
| "all_strings (PStr s # vs) = (case all_strings vs of None \<Rightarrow> None | Some ss \<Rightarrow> Some (s # ss))"
| "all_strings (_ # vs) = None"

definition require_string_list :: "(string \<times> pyval) list \<Rightarrow> string \<Rightarrow> string \<Rightarrow> lexn + string list" where
  "require_string_list mapping key label =
     (case get_field mapping key of
        PList (v # vs) \<Rightarrow>
          (case all_strings (v # vs) of
             None \<Rightarrow> Inl (value_error (label @ ''.'' @ key @ '' must be a non-empty string list''))
           | Some ss \<Rightarrow>
               if [] \<in> set (map strip ss)
               then Inl (value_error (label @ ''.'' @ key @ '' cannot contain blank values''))
               else Inr (map strip ss))
      | _ \<Rightarrow> Inl (value_error (label @ ''.'' @ key @ '' must be a non-empty string list'')))"

section \<open>Model bindings\<close>

definition binding_keys :: "string list" where
  "binding_keys = [''binding_id'', ''role'', ''provider_id'', ''model_id'']"

definition load_binding :: "string \<Rightarrow> pyval \<Rightarrow> lexn + ModelBinding" where
  "load_binding label raw =
     (case raw of
        PDict kvs \<Rightarrow>
          (case reject_unknown kvs binding_keys label of
             Inl e \<Rightarrow> Inl e
           | Inr _ \<Rightarrow>
               if set (map fst kvs) \<noteq> set binding_keys
               then Inl (value_error (label @ '' is missing required fields''))
               else case require_string kvs ''binding_id'' label of
                 Inl e \<Rightarrow> Inl e
               | Inr i \<Rightarrow> (case require_string kvs ''role'' label of
                 Inl e \<Rightarrow> Inl e
               | Inr r \<Rightarrow> (case require_string kvs ''provider_id'' label of
                 Inl e \<Rightarrow> Inl e
               | Inr p \<Rightarrow> (case require_string kvs ''model_id'' label of
                 Inl e \<Rightarrow> Inl e
               | Inr m \<Rightarrow>
                   (let b = \<lparr>mb_binding_id = i, mb_role = r, mb_provider_id = p, mb_model_id = m\<rparr> in
                    case ModelBinding_validate b of Inl e \<Rightarrow> Inl e | Inr _ \<Rightarrow> Inr b)))))
      | _ \<Rightarrow> Inl (value_error (label @ '' must be a mapping'')))"

fun load_bindings :: "nat \<Rightarrow> pyval list \<Rightarrow> lexn + ModelBinding list" where
  "load_bindings i [] = Inr []"
| "load_bindings i (raw # raws) =
     (case load_binding (''mission.model_bindings['' @ nat_str i @ '']'') raw of
        Inl e \<Rightarrow> Inl e
      | Inr b \<Rightarrow> (case load_bindings (Suc i) raws of Inl e \<Rightarrow> Inl e | Inr bs \<Rightarrow> Inr (b # bs)))"

definition model_bindings :: "(string \<times> pyval) list \<Rightarrow> lexn + ModelBinding list" where
  "model_bindings mission =
     (case map_of mission ''model_bindings'' of
        None \<Rightarrow> Inr []
      | Some (PList raws) \<Rightarrow> load_bindings 0 raws
      | Some _ \<Rightarrow> Inl (value_error ''mission.model_bindings must be a list''))"

section \<open>The manifest\<close>

definition profile_keys :: "string list" where
  "profile_keys =
     [''version'', ''profile'', ''minimum_wall_seconds'', ''maximum_wall_seconds'', ''evaluator_threshold'',
      ''checkpoint_every_steps'', ''max_consecutive_failures'', ''max_duplicate_steps'', ''allowed_effects'',
      ''prohibited_effects'', ''policy'']"

definition mission_keys :: "string list" where
  "mission_keys = [''version'', ''run_id'', ''objective'', ''metadata'', ''model_bindings'']"

text \<open>\<open>sorted(_POLICY_KEYS)\<close>\<close>

definition policy_keys :: "string list" where
  "policy_keys =
     [''evidence_required'', ''fail_closed_on_unknown_effect'', ''immutable_mission_required'',
      ''independent_evaluation_required'']"

fun check_policy :: "(string \<times> pyval) list \<Rightarrow> string list \<Rightarrow> lexn + unit" where
  "check_policy policy [] = Inr ()"
| "check_policy policy (key # keys) =
     (if get_field policy key \<noteq> PBool True
      then Inl (value_error (''profile.policy.'' @ key @ '' must be true for operator runtime''))
      else check_policy policy keys)"

definition alphanumeric :: "char \<Rightarrow> bool" where
  "alphanumeric c \<longleftrightarrow>
     (let n = (of_char c :: nat) in 48 \<le> n \<and> n \<le> 57 \<or> 65 \<le> n \<and> n \<le> 90 \<or> 97 \<le> n \<and> n \<le> 122)"

fun safe_run_id :: "string \<Rightarrow> bool" where
  "safe_run_id [] = False"
| "safe_run_id (c # s) =
     (alphanumeric c \<and> length s \<le> 127 \<and>
      list_all (\<lambda>d. alphanumeric d \<or> d = CHR ''.'' \<or> d = CHR ''_'' \<or> d = CHR ''-'') s)"

fun string_items :: "(string \<times> pyval) list \<Rightarrow> (string \<times> string) list option" where
  "string_items [] = Some []"
| "string_items ((k, PStr v) # kvs) =
     (case string_items kvs of None \<Rightarrow> None | Some items \<Rightarrow> Some ((k, v) # items))"
| "string_items (_ # kvs) = None"

definition load_metadata :: "(string \<times> pyval) list \<Rightarrow> string \<Rightarrow> lexn + (string \<times> string) list" where
  "load_metadata mission profile_name =
     (case (case map_of mission ''metadata'' of None \<Rightarrow> Some [] | Some (PDict kvs) \<Rightarrow> string_items kvs | Some _ \<Rightarrow> None) of
        None \<Rightarrow> Inl (value_error ''mission.metadata must contain only string keys and values'')
      | Some items \<Rightarrow> Inr (set_item ''longrun_profile'' profile_name items))"

text \<open>The calls that build the manifest, in the order of its arguments.\<close>

definition build_manifest ::
  "(string \<times> pyval) list \<Rightarrow> (string \<times> pyval) list \<Rightarrow> string \<Rightarrow> (string \<times> string) list \<Rightarrow> lexn + LongRunManifest" where
  "build_manifest profile mission run_id metadata =
     (case require_string mission ''objective'' ''mission'' of Inl e \<Rightarrow> Inl e | Inr objective \<Rightarrow>
     (case require_int profile ''minimum_wall_seconds'' ''profile'' of Inl e \<Rightarrow> Inl e | Inr minimum \<Rightarrow>
     (case require_int profile ''maximum_wall_seconds'' ''profile'' of Inl e \<Rightarrow> Inl e | Inr maximum \<Rightarrow>
     (case require_float profile ''evaluator_threshold'' ''profile'' of Inl e \<Rightarrow> Inl e | Inr threshold \<Rightarrow>
     (case require_int profile ''max_consecutive_failures'' ''profile'' of Inl e \<Rightarrow> Inl e | Inr failures \<Rightarrow>
     (case require_int profile ''max_duplicate_steps'' ''profile'' of Inl e \<Rightarrow> Inl e | Inr duplicates \<Rightarrow>
     (case require_string_list profile ''allowed_effects'' ''profile'' of Inl e \<Rightarrow> Inl e | Inr allowed \<Rightarrow>
     (case require_string_list profile ''prohibited_effects'' ''profile'' of Inl e \<Rightarrow> Inl e | Inr prohibited \<Rightarrow>
     (case model_bindings mission of Inl e \<Rightarrow> Inl e | Inr bindings \<Rightarrow>
        Inr \<lparr>lm_run_id = run_id, lm_objective = objective, lm_minimum_wall_seconds = minimum,
          lm_maximum_wall_seconds = maximum, lm_evaluator_threshold = threshold,
          lm_checkpoint_every_steps = 1, lm_max_consecutive_failures = failures,
          lm_max_duplicate_steps = duplicates, lm_evidence_required = True,
          lm_independent_evaluation_required = True, lm_allowed_effects = allowed,
          lm_prohibited_effects = prohibited, lm_model_bindings = bindings, lm_metadata = metadata\<rparr>)))))))))"

text \<open>From the mission's run id on.\<close>

definition load_mission ::
  "(string \<times> pyval) list \<Rightarrow> (string \<times> pyval) list \<Rightarrow> string \<Rightarrow> lexn + LongRunManifest" where
  "load_mission profile mission profile_name =
     (case require_string mission ''run_id'' ''mission'' of Inl e \<Rightarrow> Inl e | Inr run_id \<Rightarrow>
      if \<not> safe_run_id run_id
      then Inl (value_error ''mission.run_id must use only letters, digits, dot, underscore, or hyphen'')
      else case load_metadata mission profile_name of Inl e \<Rightarrow> Inl e | Inr metadata \<Rightarrow>
     (case require_int profile ''checkpoint_every_steps'' ''profile'' of Inl e \<Rightarrow> Inl e | Inr every \<Rightarrow>
      if every \<noteq> 1 then Inl (value_error ''operator runtime currently requires checkpoint_every_steps=1'')
      else case build_manifest profile mission run_id metadata of Inl e \<Rightarrow> Inl e | Inr m \<Rightarrow>
     (case LongRunManifest_validate m of Inl e \<Rightarrow> Inl e | Inr _ \<Rightarrow> Inr m)))"

definition load_profile :: "(string \<times> pyval) list \<Rightarrow> lexn + string" where
  "load_profile profile =
     (case require_string profile ''profile'' ''profile'' of Inl e \<Rightarrow> Inl e | Inr name \<Rightarrow>
     (case get_field profile ''policy'' of
        PDict policy \<Rightarrow>
          (case reject_unknown policy policy_keys ''profile.policy'' of Inl e \<Rightarrow> Inl e | Inr _ \<Rightarrow>
          (case check_policy policy policy_keys of Inl e \<Rightarrow> Inl e | Inr _ \<Rightarrow> Inr name))
      | _ \<Rightarrow> Inl (value_error ''profile.policy must be a mapping'')))"

definition check_version :: "(string \<times> pyval) list \<Rightarrow> string \<Rightarrow> lexn + unit" where
  "check_version mapping label =
     (case require_int mapping ''version'' label of Inl e \<Rightarrow> Inl e | Inr v \<Rightarrow>
      if v \<noteq> 0 then Inl (value_error (''unsupported LongRun '' @ label @ '' version'')) else Inr ())"

definition load_manifest :: "unit + pyval \<Rightarrow> unit + pyval \<Rightarrow> lexn + LongRunManifest" where
  "load_manifest profile_document mission_document =
     (case load_mapping ''profile'' profile_document of Inl e \<Rightarrow> Inl e | Inr profile \<Rightarrow>
     (case load_mapping ''mission'' mission_document of Inl e \<Rightarrow> Inl e | Inr mission \<Rightarrow>
     (case reject_unknown profile profile_keys ''profile'' of Inl e \<Rightarrow> Inl e | Inr _ \<Rightarrow>
     (case reject_unknown mission mission_keys ''mission'' of Inl e \<Rightarrow> Inl e | Inr _ \<Rightarrow>
     (case check_version profile ''profile'' of Inl e \<Rightarrow> Inl e | Inr _ \<Rightarrow>
     (case check_version mission ''mission'' of Inl e \<Rightarrow> Inl e | Inr _ \<Rightarrow>
     (case load_profile profile of Inl e \<Rightarrow> Inl e | Inr name \<Rightarrow>
        load_mission profile mission name)))))))"

section \<open>What a loaded manifest satisfies\<close>

lemma loaded_string: "require_string mapping key label = Inr s \<Longrightarrow> s \<noteq> []"
  by (auto simp: require_string_def blank_def split: pyval.splits if_splits)

lemma all_strings_length: "all_strings vs = Some ss \<Longrightarrow> length ss = length vs"
  by (induction vs arbitrary: ss rule: all_strings.induct) (auto split: option.splits)

lemma loaded_string_list:
  assumes "require_string_list mapping key label = Inr ss"
  shows "ss \<noteq> [] \<and> [] \<notin> set ss"
proof -
  from assms obtain v vs ts where "all_strings (v # vs) = Some ts" and "ss = map strip ts" and "[] \<notin> set (map strip ts)"
    unfolding require_string_list_def by (auto split: pyval.splits list.splits option.splits if_splits)
  with all_strings_length [of "v # vs" ts] show ?thesis by auto
qed

lemma map_of_set_item: "map_of (set_item k v items) k = Some v"
  by (induction items) auto

lemma built_manifest:
  assumes "build_manifest profile mission run_id metadata = Inr m"
  shows "lm_run_id m = run_id" "lm_metadata m = metadata" "lm_evidence_required m"
    "lm_independent_evaluation_required m" "lm_checkpoint_every_steps m = 1"
    "lm_allowed_effects m \<noteq> []" "[] \<notin> set (lm_allowed_effects m @ lm_prohibited_effects m)"
  using assms
  by (auto simp: build_manifest_def split: sum.splits dest!: loaded_string_list)

lemma valid_manifest:
  assumes "LongRunManifest_validate m = Inr ()"
  shows "set (lm_allowed_effects m) \<inter> set (lm_prohibited_effects m) = {}"
    and "distinct (map mb_role (lm_model_bindings m))"
  using assms by (auto simp: LongRunManifest_validate_def bindings_valid_iff split: if_splits)


definition sample_profile :: pyval where
  "sample_profile = PDict
     [(''version'', PInt 0), (''profile'', PStr ''p''), (''minimum_wall_seconds'', PInt 0),
      (''maximum_wall_seconds'', PInt 60), (''evaluator_threshold'', PInt 1),
      (''checkpoint_every_steps'', PInt 1), (''max_consecutive_failures'', PInt 3),
      (''max_duplicate_steps'', PInt 2), (''allowed_effects'', PList [PStr ''read'']),
      (''prohibited_effects'', PList [PStr ''pay'']),
      (''policy'', PDict (map (\<lambda>k. (k, PBool True)) policy_keys))]"

definition sample_mission :: pyval where
  "sample_mission = PDict
     [(''version'', PInt 0), (''run_id'', PStr ''m1''), (''objective'', PStr ''go''),
      (''model_bindings'', PList [PDict [(''binding_id'', PStr ''b''), (''role'', PStr ''worker''),
        (''provider_id'', PStr ''p''), (''model_id'', PStr ''m'')]])]"


end
