(* ===== verification/LongRun_Operator.thy ===== *)
theory LongRun_Operator
  imports LongRun_Contract LongRun_Loader
begin

text \<open>
  The operator's commands on a mission (src/src/cybercore/longrun/operator.py): the deterministic
  engine, which reads files of the repository, and start, resume and inspect. Paths are the POSIX paths
  relative to the repository; resolving, globbing and reading files is the operating system's, so that a
  context carries the candidates with what \<open>stat\<close> says of them, a procedure that reads a file and the
  clock.
\<close>

section \<open>Targets\<close>

text \<open>A candidate path: \<open>None\<close> when it lies outside the repository.\<close>

record candidate =
  ca_path :: "string option"
  ca_symlink :: bool
  ca_file :: bool
  ca_size :: nat

definition safe_target :: "candidate \<Rightarrow> bool" where
  "safe_target c \<longleftrightarrow> ca_path c \<noteq> None \<and> \<not> ca_symlink c \<and> ca_file c \<and> ca_size c \<le> 1000000"

text \<open>The candidates come in the order of their paths.\<close>

definition deterministic_targets :: "candidate list \<Rightarrow> lexn + string list" where
  "deterministic_targets candidates =
     (let targets = map (\<lambda>c. the (ca_path c)) (filter safe_target candidates) in
      if targets = []
      then Inl (runtime_error ''deterministic LongRun harness found no safe repository read targets'')
      else Inr targets)"

section \<open>The deterministic engine\<close>

record 'w operator_context =
  oc_manifest :: LongRunManifest
  oc_candidates :: "candidate list"
  oc_read :: "string \<Rightarrow> ('w, lexn, string) proc"
  oc_clock :: "'w \<Rightarrow> rat \<times> 'w"
  oc_repr :: "rat \<Rightarrow> string"

definition exhausted_proposal :: StepProposal where
  "exhausted_proposal =
     \<lparr>sp_fingerprint = ''repo-read:targets-exhausted'', sp_expected_quality_gain = Fin 0,
      sp_expected_information_gain = Fin 0, sp_cost = Fin (1 / 100), sp_risk = Fin (1 / 100),
      sp_duplication_probability = Fin 1, sp_effect = ''read''\<rparr>"

definition target_proposal :: "string \<Rightarrow> StepProposal" where
  "target_proposal path =
     \<lparr>sp_fingerprint = ''repo-read:'' @ path, sp_expected_quality_gain = Fin (1 / 2),
      sp_expected_information_gain = Fin (1 / 2), sp_cost = Fin (1 / 50), sp_risk = Fin (1 / 100),
      sp_duplication_probability = Fin 0, sp_effect = ''read''\<rparr>"

text \<open>A negative index counts from the end of the tuple, as in Python.\<close>

definition operator_planner :: "string list \<Rightarrow> RunState \<Rightarrow> ('w, lexn, StepProposal) proc" where
  "operator_planner targets st =
     (let i = rs_step_index st; n = int (length targets) in
      if n \<le> i then ret exhausted_proposal
      else if i < - n then raise (Exc ''IndexError'' ''tuple index out of range'')
      else ret (target_proposal (targets ! nat (if i < 0 then i + n else i))))"

text \<open>The dictionary of fingerprints: its values are the paths.\<close>

definition operator_executor ::
  "(string \<Rightarrow> ('w, lexn, string) proc) \<Rightarrow> string list \<Rightarrow> StepProposal \<Rightarrow> ('w, lexn, StepResult) proc" where
  "operator_executor read targets p =
     (case find (\<lambda>path. ''repo-read:'' @ path = sp_fingerprint p) targets of
        None \<Rightarrow> raise (runtime_error ''deterministic harness proposal has no safe read target'')
      | Some path \<Rightarrow>
          bind (read path) (\<lambda>data.
            ret \<lparr>sr_success = True, sr_evidence = PDict
              [(''harness'', PStr ''deterministic-repo-integrity''), (''path'', PStr path),
               (''sha256'', PStr (sha256_hex data)), (''size'', PInt (int (length data)))]\<rparr>))"

definition operator_evaluation :: "string \<Rightarrow> EvaluationResult" where
  "operator_evaluation digest =
     \<lparr>ev_evaluator_id = PStr ''cybercore.deterministic-repo-integrity-judge'', ev_evaluator_version = PStr ''1'',
      ev_score = ScoreFloat (Fin 0), ev_verdict = ''FAIL'',
      ev_reasons = [PStr ''deterministic repository integrity evidence is not independent mission acceptance''],
      ev_evidence_digest = digest, ev_metadata = PDict []\<rparr>"

definition operator_evaluator ::
  "StepProposal \<Rightarrow> StepResult \<Rightarrow> ('w, lexn, EvaluationResult option \<times> pyval) proc" where
  "operator_evaluator p result =
     bind (lift (evidence_digest (sr_evidence result))) (\<lambda>digest.
       ret (Some (operator_evaluation digest), sr_evidence result))"

definition deterministic_engine :: "'w operator_context \<Rightarrow> lexn + 'w LongRunEngine" where
  "deterministic_engine c =
     (if lm_model_bindings (oc_manifest c) \<noteq> []
      then Inl (runtime_error (''model-bound missions require an explicitly injected provider runtime; '' @
             ''CLI live provider execution is not enabled''))
      else case deterministic_targets (oc_candidates c) of
        Inl e \<Rightarrow> Inl e
      | Inr targets \<Rightarrow>
          LongRunEngine_init False
            \<lparr>le_manifest = oc_manifest c, le_repr = oc_repr c, le_planner = operator_planner targets,
             le_executor = operator_executor (oc_read c) targets, le_evaluator = Some operator_evaluator,
             le_clock = oc_clock c\<rparr>)"

section \<open>Commands\<close>

definition missing_run :: "string \<Rightarrow> lexn" where
  "missing_run run = runtime_error (''LongRun '' @ run @ '' does not exist; use start'')"

definition existing_run :: "string \<Rightarrow> lexn" where
  "existing_run run = runtime_error (''LongRun '' @ run @ '' already exists; use resume'')"

definition require_existing :: "'w operator_context \<Rightarrow> ('w, RunState) longrun_proc" where
  "require_existing c =
     bind (store_load (lm_run_id (oc_manifest c))) (\<lambda>existing.
     case existing of
       None \<Rightarrow> raise (missing_run (lm_run_id (oc_manifest c)))
     | Some st \<Rightarrow>
         bind (lift (LongRunManifest_digest (oc_repr c) (oc_manifest c))) (\<lambda>digest.
         if rs_manifest_digest st \<noteq> digest
         then raise (runtime_error ''manifest digest mismatch; immutable mission contract changed'')
         else ret st))"

definition run_deterministic :: "'w operator_context \<Rightarrow> int \<Rightarrow> ('w, RunState) longrun_proc" where
  "run_deterministic c max_steps =
     bind (lift (deterministic_engine c)) (\<lambda>le. run_until_terminal_max le (nat max_steps))"

definition start_longrun :: "'w operator_context \<Rightarrow> int \<Rightarrow> ('w, RunState) longrun_proc" where
  "start_longrun c max_steps =
     (if max_steps < 1 then raise (value_error ''max_steps must be >= 1'')
      else bind (store_load (lm_run_id (oc_manifest c))) (\<lambda>existing.
        if existing \<noteq> None then raise (existing_run (lm_run_id (oc_manifest c)))
        else run_deterministic c max_steps))"

definition resume_longrun :: "'w operator_context \<Rightarrow> int \<Rightarrow> ('w, RunState) longrun_proc" where
  "resume_longrun c max_steps =
     (if max_steps < 1 then raise (value_error ''max_steps must be >= 1'')
      else seq (require_existing c) (run_deterministic c max_steps))"

definition inspect_longrun :: "'w operator_context \<Rightarrow> ('w, RunState) longrun_proc" where
  "inspect_longrun c = require_existing c"

definition inspect_events :: "'w operator_context \<Rightarrow> int \<Rightarrow> ('w, RunEvent list) longrun_proc" where
  "inspect_events c limit =
     seq (require_existing c) (store_list_events (oc_repr c) (lm_run_id (oc_manifest c)) limit)"

section \<open>The operator never accepts a mission\<close>

definition not_completed :: "string \<Rightarrow> ledger \<Rightarrow> bool" where
  "not_completed run l \<longleftrightarrow> (\<forall>st. fst l run = Some st \<longrightarrow> rs_status st \<noteq> ''COMPLETED'')"

lemma operator_transition:
  assumes "transition le st kind payload st'" and "le_evaluator le = Some operator_evaluator"
    and "rs_status st = ''RUNNING''"
  shows "rs_status st' \<noteq> ''COMPLETED''"
  using assms(1)
proof cases
  case (conclude p result digest evaluation ev_payload now)
  then have "\<not> accepts_completion le result evaluation elapsed" for elapsed
    using assms(2)
    by (auto simp: accepts_completion_def produced_def operator_evaluator_def operator_evaluation_def proc_defs
        split: option.splits sum.splits)
  with conclude assms(3) show ?thesis
    by (simp add: concluded_state_def Let_def stepped_def)
qed (use assms(3) in \<open>auto simp: stopped_at_def replanned_at_def planner_failed_def blocked_at_def
     failed_step_def stepped_def split: if_splits\<close>)

lemma operator_lifecycle:
  assumes "(lifecycle le)\<^sup>*\<^sup>* l l'" and "le_evaluator le = Some operator_evaluator"
    and "not_completed (mission le) l"
  shows "not_completed (mission le) l'"
  using assms(1,3)
proof (induction rule: rtranclp_induct)
  case (step y z)
  then have "not_completed (mission le) y" by blast
  with step(2) show ?case
    by (cases rule: lifecycle.cases)
      (auto simp: not_completed_def initial_state_def dest: operator_transition [OF _ assms(2)])
qed

lemma deterministic_engine_fields:
  assumes "deterministic_engine c = Inr le"
  shows "le_evaluator le = Some operator_evaluator" and "le_manifest le = oc_manifest c" and "le_repr le = oc_repr c"
  using assms
  by (auto simp: deterministic_engine_def LongRunEngine_init_def split: if_splits sum.splits)

lemma run_deterministic_keeps:
  assumes "table_ok (ledger_of s)" and "not_completed (lm_run_id (oc_manifest c)) (ledger_of s)"
  shows "wp (run_deterministic c n) (\<lambda>_ t. not_completed (lm_run_id (oc_manifest c)) (ledger_of t))
    (\<lambda>_ t. not_completed (lm_run_id (oc_manifest c)) (ledger_of t)) s"
proof (cases "deterministic_engine c")
  case (Inl e)
  with assms(2) show ?thesis by (simp add: run_deterministic_def wp_simps)
next
  case (Inr le)
  have "runs_well le (ledger_of s) (run_until_terminal_max le (nat n)) s"
    unfolding run_until_terminal_max_def
    by (intro runs_well_bind load_or_create_runs_well table_ok_advanced assms(1) run_bounded_runs_well)
  then have "wp (run_until_terminal_max le (nat n)) (\<lambda>_ t. (lifecycle le)\<^sup>*\<^sup>* (ledger_of s) (ledger_of t))
    (\<lambda>_ t. (lifecycle le)\<^sup>*\<^sup>* (ledger_of s) (ledger_of t)) s"
    unfolding runs_well_def by (rule wp_mono) (auto simp: stored_def advanced_def)
  note steps = this
  have keeps: "not_completed (lm_run_id (oc_manifest c)) l" if "(lifecycle le)\<^sup>*\<^sup>* (ledger_of s) l" for l
    using operator_lifecycle [OF that] deterministic_engine_fields [OF Inr] assms(2) by simp
  show ?thesis
    unfolding run_deterministic_def Inr wp_bind wp_lift sum.case
    by (rule wp_mono [OF steps]) (simp_all add: keeps)
qed

text \<open>C20: the deterministic operator never accepts a mission: \<open>start\<close> and \<open>resume\<close>, with any number of
  steps, on any store in which the mission is not completed, whatever the files contain and whether they
  return or raise, leave it not completed; a returned state is not COMPLETED. \<open>start\<close> on a mission that
  exists and \<open>resume\<close> on one that does not are refused and change nothing.\<close>

theorem operator_never_accepts:
  assumes "table_ok (ledger_of s)" and "not_completed (lm_run_id (oc_manifest c)) (ledger_of s)"
    and "m = start_longrun c n \<or> m = resume_longrun c n"
  shows "not_completed (lm_run_id (oc_manifest c)) (ledger_of (snd (m s))) \<and>
    (lr_runs s (lm_run_id (oc_manifest c)) \<noteq> None \<longrightarrow> 1 \<le> n \<longrightarrow>
       start_longrun c n s = (Inl (existing_run (lm_run_id (oc_manifest c))), s)) \<and>
    (lr_runs s (lm_run_id (oc_manifest c)) = None \<longrightarrow> 1 \<le> n \<longrightarrow>
       resume_longrun c n s = (Inl (missing_run (lm_run_id (oc_manifest c))), s))"
proof (intro conjI impI)
  have "wp m (\<lambda>_ t. not_completed (lm_run_id (oc_manifest c)) (ledger_of t))
    (\<lambda>_ t. not_completed (lm_run_id (oc_manifest c)) (ledger_of t)) s"
    using assms(2,3) run_deterministic_keeps [OF assms(1,2), of n]
    by (auto simp: start_longrun_def resume_longrun_def require_existing_def store_load_def wp_simps
        split: option.splits sum.splits)
  then show "not_completed (lm_run_id (oc_manifest c)) (ledger_of (snd (m s)))"
    by (simp add: wp_post)
qed (simp_all add: start_longrun_def resume_longrun_def require_existing_def store_load_def proc_defs)

definition demo_context :: "rat operator_context" where
  "demo_context =
     \<lparr>oc_manifest = demo_manifest\<lparr>lm_allowed_effects := [''read'']\<rparr>,
      oc_candidates = [\<lparr>ca_path = Some ''README.md'', ca_symlink = False, ca_file = True, ca_size = 5\<rparr>],
      oc_read = (\<lambda>_. ret ''hello''), oc_clock = (\<lambda>w. (w, w + 1)), oc_repr = (\<lambda>_. ''1.0'')\<rparr>"

lemma operator_never_accepts_witness:
  "not_completed ''m1'' (ledger_of (snd (start_longrun demo_context 1 (store_init 0)))) \<and>
     resume_longrun demo_context 1 (store_init 0) = (Inl (missing_run ''m1''), store_init 0)"
proof -
  have "table_ok (ledger_of (store_init (0 :: rat)))"
    using store_init_fleet [of "\<lambda>_. []" demo_manifest "0 :: rat"] by (simp add: fleet_inv_def)
  moreover have "not_completed (lm_run_id (oc_manifest demo_context)) (ledger_of (store_init (0 :: rat)))"
    by (simp add: not_completed_def ledger_of_def store_init_def)
  ultimately show ?thesis
    using operator_never_accepts [of "store_init 0" demo_context "start_longrun demo_context 1" 1]
    by (simp add: demo_context_def demo_manifest_def store_init_def)
qed

end
