(* ===== verification/LongRun_Provider.thy ===== *)
theory LongRun_Provider
  imports LongRun_Model
begin

text \<open>
  Model providers (src/src/cybercore/longrun/provider.py): call policies, requests, responses and
  receipts, the registry of providers and the call with its retries.

  A provider may change its own binding and the payload of the request while it is invoked. Both are
  therefore read from the world: \<open>pv_binding\<close> is the property \<open>provider.binding\<close>, \<open>mr_payload\<close> the
  dictionary object of the request. A response carries whatever the provider put into its fields.
\<close>

section \<open>Call policy\<close>

text \<open>A float, an integer, or no number (a \<open>bool\<close> included).\<close>

record ProviderCallPolicy =
  cp_timeout_seconds :: score
  cp_max_attempts :: pyval

definition ProviderCallPolicy_default :: ProviderCallPolicy where
  "ProviderCallPolicy_default = \<lparr>cp_timeout_seconds = ScoreFloat (Fin 60), cp_max_attempts = PInt 3\<rparr>"

definition ProviderCallPolicy_validate :: "ProviderCallPolicy \<Rightarrow> lexn + unit" where
  "ProviderCallPolicy_validate p =
     (if cp_timeout_seconds p = NotNumeric
        then Inl (value_error ''provider timeout_seconds must be numeric'')
      else case score_num (cp_timeout_seconds p) of
        Fin t \<Rightarrow>
          if t \<le> 0 \<or> 600 < t
            then Inl (value_error ''provider timeout_seconds must be between 0 and 600'')
          else (case cp_max_attempts p of
              PInt n \<Rightarrow>
                if n < 1 \<or> 10 < n
                then Inl (value_error ''provider max_attempts must be between 1 and 10'')
                else Inr ()
            | _ \<Rightarrow> Inl (value_error ''provider max_attempts must be an integer''))
      | _ \<Rightarrow> Inl (value_error ''provider timeout_seconds must be finite''))"

definition max_attempts :: "ProviderCallPolicy \<Rightarrow> int" where
  "max_attempts p = (case cp_max_attempts p of PInt n \<Rightarrow> n | _ \<Rightarrow> 0)"

section \<open>Requests\<close>

definition canonical_digest :: "pyval \<Rightarrow> lexn + string" where
  "canonical_digest payload =
     (case json_dumps True False payload of
        Inl e \<Rightarrow> Inl (json_lexn e)
      | Inr encoded \<Rightarrow> Inr (sha256_hex encoded))"

text \<open>\<open>_validate_json_value\<close> of this module, which has messages of its own.\<close>

fun plain_value_error :: "string \<Rightarrow> pyval \<Rightarrow> string option"
  and plain_items_error :: "string \<Rightarrow> nat \<Rightarrow> pyval list \<Rightarrow> string option"
  and plain_entries_error :: "string \<Rightarrow> (string \<times> pyval) list \<Rightarrow> string option" where
  "plain_value_error label (PFloat (Finite s)) = None"
| "plain_value_error label (PFloat _) = Some (label @ '' must contain finite JSON numbers'')"
| "plain_value_error label (PList xs) = plain_items_error label 0 xs"
| "plain_value_error label (PDict kvs) = plain_entries_error label kvs"
| "plain_value_error label POther = Some (label @ '' must contain canonical JSON values'')"
| "plain_value_error label _ = None"
| "plain_items_error label i [] = None"
| "plain_items_error label i (x # xs) =
     (case plain_value_error (label @ ''['' @ nat_str i @ '']'') x of
        Some msg \<Rightarrow> Some msg
      | None \<Rightarrow> plain_items_error label (Suc i) xs)"
| "plain_entries_error label [] = None"
| "plain_entries_error label ((k, x) # kvs) =
     (case plain_value_error (label @ ''.'' @ k) x of
        Some msg \<Rightarrow> Some msg
      | None \<Rightarrow> plain_entries_error label kvs)"

definition validate_json_object :: "string \<Rightarrow> pyval \<Rightarrow> lexn + unit" where
  "validate_json_object label v =
     (if \<not> is_dict v then Inl (value_error (label @ '' must be an object with string keys''))
      else case plain_value_error label v of
        Some msg \<Rightarrow> Inl (value_error msg)
      | None \<Rightarrow> Inr ())"

record 'w ModelRequest =
  mr_request_id :: string
  mr_role :: string
  mr_payload :: "'w \<Rightarrow> pyval"

definition ModelRequest_validate :: "'w ModelRequest \<Rightarrow> 'w \<Rightarrow> lexn + unit" where
  "ModelRequest_validate r w =
     (if blank (mr_request_id r) then Inl (value_error ''model request_id must be a non-empty string'')
      else if mr_role r \<notin> {''planner'', ''worker'', ''evaluator''}
        then Inl (value_error (''model request role must be one of '' @ allowed_roles_text))
      else validate_json_object ''model request payload'' (mr_payload r w))"

definition ModelRequest_digest :: "'w ModelRequest \<Rightarrow> 'w \<Rightarrow> lexn + string" where
  "ModelRequest_digest r w =
     (case ModelRequest_validate r w of
        Inl e \<Rightarrow> Inl e
      | Inr _ \<Rightarrow> canonical_digest (PDict
          [(''request_id'', PStr (mr_request_id r)), (''role'', PStr (mr_role r)),
           (''payload'', mr_payload r w)]))"

section \<open>Responses and receipts\<close>

record ModelResponse =
  mp_request_id :: pyval
  mp_output_text :: pyval
  mp_response_id :: pyval
  mp_finish_reason :: pyval
  mp_usage :: pyval

fun is_str :: "pyval \<Rightarrow> bool" where
  "is_str (PStr _) = True"
| "is_str _ = False"

fun is_counter :: "pyval \<Rightarrow> bool" where
  "is_counter (PInt n) = (0 \<le> n)"
| "is_counter _ = False"

fun is_usage :: "pyval \<Rightarrow> bool" where
  "is_usage (PDict kvs) = list_all (\<lambda>kv. is_counter (snd kv)) kvs"
| "is_usage _ = False"

definition ModelResponse_validate :: "ModelResponse \<Rightarrow> pyval \<Rightarrow> lexn + unit" where
  "ModelResponse_validate r expected =
     (if mp_request_id r \<noteq> expected
        then Inl (value_error ''model response request_id does not match request'')
      else if \<not> is_str (mp_output_text r)
        then Inl (value_error ''model response output_text must be a string'')
      else if \<not> is_str (mp_response_id r) \<or> \<not> is_str (mp_finish_reason r)
        then Inl (value_error ''model response identifiers must be strings'')
      else if \<not> is_usage (mp_usage r)
        then Inl (value_error ''model response usage must contain non-negative integer counters'')
      else Inr ())"

fun sorted_dict :: "pyval \<Rightarrow> pyval" where
  "sorted_dict (PDict kvs) = PDict (sort_items kvs)"
| "sorted_dict v = v"

definition ModelResponse_digest :: "ModelResponse \<Rightarrow> lexn + string" where
  "ModelResponse_digest r =
     (case ModelResponse_validate r (mp_request_id r) of
        Inl e \<Rightarrow> Inl e
      | Inr _ \<Rightarrow> canonical_digest (PDict
          [(''request_id'', mp_request_id r), (''output_text'', mp_output_text r),
           (''response_id'', mp_response_id r), (''finish_reason'', mp_finish_reason r),
           (''usage'', sorted_dict (mp_usage r))]))"

record ProviderCallReceipt =
  rc_binding :: ModelBinding
  rc_request_id :: string
  rc_request_digest :: string
  rc_response_digest :: string
  rc_attempts :: int
  rc_latency_ms :: rat
  rc_usage :: pyval
  rc_finish_reason :: pyval

definition ProviderCallReceipt_validate :: "ProviderCallReceipt \<Rightarrow> lexn + unit" where
  "ProviderCallReceipt_validate r =
     (case ModelBinding_validate (rc_binding r) of
        Inl e \<Rightarrow> Inl e
      | Inr _ \<Rightarrow>
          if blank (rc_request_id r) \<or> rc_request_digest r = [] \<or> rc_response_digest r = []
            then Inl (value_error ''provider receipt request identity and digests are required'')
          else if rc_attempts r < 1 then Inl (value_error ''provider receipt attempts must be >= 1'')
          else if rc_latency_ms r < 0
            then Inl (value_error ''provider receipt latency must be finite and non-negative'')
          else if \<not> is_usage (rc_usage r)
            then Inl (value_error ''provider receipt usage must contain non-negative integer counters'')
          else Inr ())"

text \<open>\<open>round(x, 3)\<close>: ties go to the even neighbour.\<close>

definition round3 :: "rat \<Rightarrow> rat" where
  "round3 x =
     (let y = x * 1000; f = \<lfloor>y\<rfloor>; d = y - of_int f;
          n = (if d < 1 / 2 then f else if 1 / 2 < d then f + 1 else if even f then f else f + 1)
      in of_int n / 1000)"

definition receipt_fields :: "(rat \<Rightarrow> string) \<Rightarrow> ProviderCallReceipt \<Rightarrow> (string \<times> pyval) list" where
  "receipt_fields repr r =
     [(''binding'', ModelBinding_canonical_payload (rc_binding r)),
      (''request_id'', PStr (rc_request_id r)), (''request_digest'', PStr (rc_request_digest r)),
      (''response_digest'', PStr (rc_response_digest r)), (''attempts'', PInt (rc_attempts r)),
      (''latency_ms'', PFloat (Finite (repr (round3 (rc_latency_ms r))))),
      (''usage'', sorted_dict (rc_usage r)), (''finish_reason'', rc_finish_reason r)]"

definition ProviderCallReceipt_event_payload :: "(rat \<Rightarrow> string) \<Rightarrow> ProviderCallReceipt \<Rightarrow> lexn + pyval" where
  "ProviderCallReceipt_event_payload repr r =
     (case ProviderCallReceipt_validate r of
        Inl e \<Rightarrow> Inl e
      | Inr _ \<Rightarrow>
          (case canonical_digest (PDict (receipt_fields repr r)) of
             Inl e \<Rightarrow> Inl e
           | Inr digest \<Rightarrow> Inr (PDict (receipt_fields repr r @ [(''receipt_digest'', PStr digest)]))))"

section \<open>Registry\<close>

datatype provider_exn =
    Raised lexn
  | ProviderError (pe_code: string) (pe_message: string) (pe_retryable: bool)

record 'w ModelProvider =
  pv_binding :: "'w \<Rightarrow> ModelBinding"
  pv_invoke :: "'w ModelRequest \<Rightarrow> num \<Rightarrow> ('w, provider_exn, ModelResponse) proc"

type_synonym 'w registry = "string \<rightharpoonup> 'w ModelProvider"

definition ProviderRegistry_register :: "'w ModelProvider \<Rightarrow> 'w \<Rightarrow> 'w registry \<Rightarrow> lexn + 'w registry" where
  "ProviderRegistry_register provider w reg =
     (let b = pv_binding provider w in
      case ModelBinding_validate b of
        Inl e \<Rightarrow> Inl e
      | Inr _ \<Rightarrow>
          if reg (mb_binding_id b) \<noteq> None
          then Inl (value_error (''duplicate provider binding_id: '' @ mb_binding_id b))
          else Inr (reg(mb_binding_id b \<mapsto> provider)))"

definition ProviderRegistry_resolve :: "ModelBinding \<Rightarrow> 'w \<Rightarrow> 'w registry \<Rightarrow> lexn + 'w ModelProvider" where
  "ProviderRegistry_resolve b w reg =
     (case ModelBinding_validate b of
        Inl e \<Rightarrow> Inl e
      | Inr _ \<Rightarrow>
          (case reg (mb_binding_id b) of
             None \<Rightarrow> Inl (Exc ''LookupError'' (''provider binding is not registered: '' @ mb_binding_id b))
           | Some provider \<Rightarrow>
               if pv_binding provider w \<noteq> b
               then Inl (runtime_error ''registered provider identity does not match immutable model binding'')
               else Inr provider))"

section \<open>Calls\<close>

type_synonym ('w, 'a) provider_proc = "('w, provider_exn, 'a) proc"

definition require :: "lexn + 'a \<Rightarrow> ('w, 'a) provider_proc" where
  "require r = (case r of Inl e \<Rightarrow> raise (Raised e) | Inr a \<Rightarrow> ret a)"

definition cancelled_error :: provider_exn where
  "cancelled_error = ProviderError ''cancelled'' ''provider call cancelled'' False"

text \<open>\<open>if cancelled is not None and cancelled(): raise\<close>\<close>

definition check_cancelled :: "('w \<Rightarrow> bool \<times> 'w) option \<Rightarrow> ('w, unit) provider_proc" where
  "check_cancelled cancelled =
     (case cancelled of
        None \<Rightarrow> ret ()
      | Some check \<Rightarrow> bind (\<lambda>w. case check w of (b, w') \<Rightarrow> (Inr b, w'))
          (\<lambda>b. if b then raise cancelled_error else ret ()))"

definition validate_attempt_boundary ::
  "'w ModelProvider \<Rightarrow> ModelBinding \<Rightarrow> 'w ModelRequest \<Rightarrow> string \<Rightarrow> ('w, unit) provider_proc" where
  "validate_attempt_boundary provider b request digest = (\<lambda>w.
     if pv_binding provider w \<noteq> b
     then (Inl (Raised (runtime_error ''registered provider identity drifted during provider invocation'')), w)
     else case ModelRequest_digest request w of
       Inl e \<Rightarrow>
         (if exc_type e = ''ValueError''
          then (Inl (Raised (runtime_error ''model request mutated during provider invocation'')), w)
          else (Inl (Raised e), w))
     | Inr d \<Rightarrow>
         (if d \<noteq> digest
          then (Inl (Raised (runtime_error ''model request mutated during provider invocation'')), w)
          else (Inr (), w)))"

text \<open>
  The loop, with the attempts that are left and the number of those made; the response comes with
  the number of attempts.
\<close>

fun attempt_loop ::
  "'w ModelProvider \<Rightarrow> ModelBinding \<Rightarrow> 'w ModelRequest \<Rightarrow> string \<Rightarrow> num \<Rightarrow> ('w \<Rightarrow> bool \<times> 'w) option \<Rightarrow>
   nat \<Rightarrow> int \<Rightarrow> ('w, ModelResponse \<times> int) provider_proc" where
  "attempt_loop provider b request digest timeout cancelled left made =
     seq (check_cancelled cancelled)
     (bind (attempt (pv_invoke provider request timeout)) (\<lambda>outcome.
     case outcome of
       Inl (Raised e) \<Rightarrow> raise (Raised e)
     | Inl (ProviderError code msg retryable) \<Rightarrow>
         seq (validate_attempt_boundary provider b request digest)
         (case left of
            0 \<Rightarrow> raise (ProviderError code msg retryable)
          | Suc n \<Rightarrow>
              if \<not> retryable then raise (ProviderError code msg retryable)
              else attempt_loop provider b request digest timeout cancelled n (made + 1))
     | Inr response \<Rightarrow>
         seq (validate_attempt_boundary provider b request digest)
         (seq (check_cancelled cancelled)
         (ret (response, made + 1)))))"

declare attempt_loop.simps [simp del]

record 'w ModelRuntime =
  rt_registry :: "'w registry"
  rt_clock :: "'w \<Rightarrow> rat \<times> 'w"

record ProviderCall =
  pc_response :: ModelResponse
  pc_receipt :: ProviderCallReceipt

definition runtime_clock :: "'w ModelRuntime \<Rightarrow> ('w, rat) provider_proc" where
  "runtime_clock rt = (\<lambda>w. case rt_clock rt w of (t, w') \<Rightarrow> (Inr t, w'))"

definition make_call_receipt ::
  "ModelBinding \<Rightarrow> 'w ModelRequest \<Rightarrow> string \<Rightarrow> string \<Rightarrow> int \<Rightarrow> rat \<Rightarrow> ModelResponse \<Rightarrow> ProviderCallReceipt" where
  "make_call_receipt b request digest response_digest attempts elapsed response =
     \<lparr>rc_binding = b, rc_request_id = mr_request_id request, rc_request_digest = digest,
      rc_response_digest = response_digest, rc_attempts = attempts,
      rc_latency_ms = max 0 (elapsed * 1000), rc_usage = mp_usage response,
      rc_finish_reason = mp_finish_reason response\<rparr>"

text \<open>After the loop.\<close>

definition finish_call ::
  "'w ModelRuntime \<Rightarrow> ModelBinding \<Rightarrow> 'w ModelRequest \<Rightarrow> string \<Rightarrow> rat \<Rightarrow> ModelResponse \<Rightarrow> int \<Rightarrow>
   ('w, ProviderCall) provider_proc" where
  "finish_call rt b request digest started response attempts =
     seq (require (ModelResponse_validate response (PStr (mr_request_id request))))
     (bind (runtime_clock rt) (\<lambda>finished.
     bind (require (ModelResponse_digest response)) (\<lambda>response_digest.
     let receipt = make_call_receipt b request digest response_digest attempts (finished - started) response in
     seq (require (ProviderCallReceipt_validate receipt))
     (ret \<lparr>pc_response = response, pc_receipt = receipt\<rparr>))))"

definition ModelRuntime_call ::
  "'w ModelRuntime \<Rightarrow> ModelBinding \<Rightarrow> 'w ModelRequest \<Rightarrow> ProviderCallPolicy \<Rightarrow> ('w \<Rightarrow> bool \<times> 'w) option \<Rightarrow>
   ('w, ProviderCall) provider_proc" where
  "ModelRuntime_call rt b request policy cancelled =
     seq (require (ModelBinding_validate b))
     (bind (gets (\<lambda>w. ModelRequest_validate request w)) (\<lambda>valid.
     seq (require valid)
     (if mr_role request \<noteq> mb_role b
      then raise (Raised (value_error ''model request role does not match immutable binding role''))
      else seq (require (ProviderCallPolicy_validate policy))
     (bind (gets (\<lambda>w. ProviderRegistry_resolve b w (rt_registry rt))) (\<lambda>resolved.
     bind (require resolved) (\<lambda>provider.
     bind (gets (\<lambda>w. ModelRequest_digest request w)) (\<lambda>digested.
     bind (require digested) (\<lambda>digest.
     bind (runtime_clock rt) (\<lambda>started.
     bind (attempt_loop provider b request digest (score_num (cp_timeout_seconds policy)) cancelled
             (nat (max_attempts policy - 1)) 0) (\<lambda>(response, attempts).
     finish_call rt b request digest started response attempts))))))))))"

end
