(* ===== verification/LongRun_Provider_Properties.thy ===== *)
theory LongRun_Provider_Properties
  imports LongRun_Provider
begin

text \<open>
  What a provider call guarantees: it ends within the attempts of its policy, whatever the provider
  answers, and the receipt it returns names the binding, the request and the response it belongs to.
  \<open>count\<close> is any observation of the world that counts the invocations of the provider.
\<close>

section \<open>Counting invocations\<close>

definition counts_invocations ::
  "('w \<Rightarrow> nat) \<Rightarrow> 'w ModelRuntime \<Rightarrow> 'w ModelRequest \<Rightarrow> ('w \<Rightarrow> bool \<times> 'w) option \<Rightarrow> bool" where
  "counts_invocations count rt request cancelled \<longleftrightarrow>
     (\<forall>provider t w. provider \<in> ran (rt_registry rt) \<longrightarrow>
        count (snd (pv_invoke provider request t w)) = Suc (count w)) \<and>
     (\<forall>w. count (snd (rt_clock rt w)) = count w) \<and>
     (\<forall>check w. cancelled = Some check \<longrightarrow> count (snd (check w)) = count w)"

lemma wp_require [wp_simps]:
  "wp (require r) Q E w = (case r of Inl e \<Rightarrow> E (Raised e) w | Inr a \<Rightarrow> Q a w)"
  by (simp add: require_def wp_simps split: sum.splits)

lemma wp_boundary:
  assumes "Q () w" and "\<And>e. E e w"
  shows "wp (validate_attempt_boundary provider b request digest) Q E w"
  using assms by (auto simp: wp_def validate_attempt_boundary_def split: sum.splits)

lemma wp_cancelled:
  assumes "counts_invocations count rt request cancelled"
    and "\<And>w'. count w' = count w \<Longrightarrow> Q () w'" and "\<And>e w'. count w' = count w \<Longrightarrow> E e w'"
  shows "wp (check_cancelled cancelled) Q E w"
proof (cases cancelled)
  case None
  with assms show ?thesis by (simp add: check_cancelled_def wp_simps)
next
  case (Some check)
  obtain stop w' where check: "check w = (stop, w')" by fastforce
  with assms(1) Some have "count w' = count w"
    unfolding counts_invocations_def by (metis snd_conv)
  with assms(2,3) Some check show ?thesis
    by (simp add: check_cancelled_def wp_def proc_defs)
qed

lemma wp_invoke:
  assumes "counts_invocations count rt request cancelled" and "provider \<in> ran (rt_registry rt)"
    and "\<And>x w'. count w' = Suc (count w) \<Longrightarrow> Q x w'"
  shows "wp (attempt (pv_invoke provider request t)) Q E w"
  unfolding wp_attempt
proof (rule wpI)
  have "count (snd (pv_invoke provider request t w)) = Suc (count w)"
    using assms(1,2) by (simp add: counts_invocations_def)
  then show "Q (Inr a) w'" if "pv_invoke provider request t w = (Inr a, w')" for a w'
    using that by (simp add: assms(3))
  show "Q (Inl e) w'" if "pv_invoke provider request t w = (Inl e, w')" for e w'
    using that \<open>count _ = Suc _\<close> by (simp add: assms(3))
qed

text \<open>The attempts reported are the invocations made, and never more than the policy allows.\<close>

lemma attempt_loop_bounded:
  assumes counts: "counts_invocations count rt request cancelled" and reg: "provider \<in> ran (rt_registry rt)"
  shows "wp (attempt_loop provider b request digest timeout cancelled left made)
    (\<lambda>(_, n) w'. int (count w') = int (count w) + (n - made) \<and> made < n \<and> n \<le> made + 1 + int left)
    (\<lambda>_ w'. count w' \<le> count w + left + 1) w"
proof (induction left arbitrary: made w)
  case 0
  show ?case
    unfolding attempt_loop.simps [of _ _ _ _ _ _ 0] wp_seq wp_bind
    apply (rule wp_cancelled [OF counts])
     apply (rule wp_invoke [OF counts reg])
     apply (auto simp: wp_simps split: sum.splits provider_exn.splits
        intro!: wp_boundary wp_cancelled [OF counts])
    done
next
  case (Suc left)
  show ?case
    unfolding attempt_loop.simps [of _ _ _ _ _ _ "Suc left"] wp_seq wp_bind
    apply (rule wp_cancelled [OF counts])
     apply (rule wp_invoke [OF counts reg])
     apply (auto simp: wp_simps split: sum.splits provider_exn.splits
        intro!: wp_boundary wp_cancelled [OF counts] wp_mono [OF Suc.IH])
    done
qed

section \<open>Calls\<close>

text \<open>What a returned call claims, against the request and the runtime it was made with.\<close>

definition call_sound ::
  "ModelBinding \<Rightarrow> 'w ModelRequest \<Rightarrow> ProviderCallPolicy \<Rightarrow> string \<Rightarrow> ProviderCall \<Rightarrow> bool" where
  "call_sound b request policy digest c \<longleftrightarrow>
     (let r = pc_receipt c; response = pc_response c in
      rc_binding r = b \<and> mr_role request = mb_role b \<and>
      rc_request_id r = mr_request_id request \<and> mp_request_id response = PStr (mr_request_id request) \<and>
      rc_request_digest r = digest \<and> ModelResponse_digest response = Inr (rc_response_digest r) \<and>
      rc_usage r = mp_usage response \<and> 1 \<le> rc_attempts r \<and> rc_attempts r \<le> max_attempts policy \<and>
      rc_attempts r \<le> 10 \<and> 0 \<le> rc_latency_ms r)"

lemma policy_attempts:
  "ProviderCallPolicy_validate p = Inr () \<Longrightarrow> 1 \<le> max_attempts p \<and> max_attempts p \<le> 10"
  by (auto simp: ProviderCallPolicy_validate_def max_attempts_def split: if_splits num.splits pyval.splits)

lemma wp_runtime_clock:
  assumes "counts_invocations count rt request cancelled" and "\<And>t w'. count w' = count w \<Longrightarrow> Q t w'"
  shows "wp (runtime_clock rt) Q E w"
proof -
  obtain t w' where clock: "rt_clock rt w = (t, w')" by fastforce
  with assms(1) have "count w' = count w" unfolding counts_invocations_def by (metis snd_conv)
  with assms(2) clock show ?thesis by (simp add: runtime_clock_def wp_def)
qed

lemma resolve_registered:
  "ProviderRegistry_resolve b w reg = Inr provider \<Longrightarrow> provider \<in> ran reg"
  by (auto simp: ProviderRegistry_resolve_def ran_def split: sum.splits option.splits if_splits)

lemma finish_call_sound:
  assumes counts: "counts_invocations count rt request cancelled"
    and n: "1 \<le> n" "n \<le> max_attempts policy" "n \<le> 10" and "mr_role request = mb_role b"
  shows "wp (finish_call rt b request digest started response n)
    (\<lambda>c w'. call_sound b request policy digest c \<and> rc_attempts (pc_receipt c) = n \<and> count w' = count w)
    (\<lambda>_ w'. count w' = count w) w"
proof -
  note clock = wp_runtime_clock [OF counts]
  show ?thesis
    unfolding finish_call_def Let_def wp_seq wp_bind wp_require
    by (auto split: sum.splits intro!: clock simp: wp_simps call_sound_def make_call_receipt_def n assms(5)
        ModelResponse_validate_def split: if_splits)
qed

lemma loop_then_finish:
  assumes counts: "counts_invocations count rt request cancelled" and reg: "provider \<in> ran (rt_registry rt)"
    and "ProviderCallPolicy_validate policy = Inr ()" and role: "mr_role request = mb_role b"
  shows "wp (bind (attempt_loop provider b request digest timeout cancelled (nat (max_attempts policy - 1)) 0)
      (\<lambda>(response, n). finish_call rt b request digest started response n))
    (\<lambda>c w'. call_sound b request policy digest c \<and> int (count w') = int (count w) + rc_attempts (pc_receipt c))
    (\<lambda>_ w'. count w' \<le> count w + nat (max_attempts policy)) w"
proof -
  note policy = policy_attempts [OF assms(3)]
  have "wp (attempt_loop provider b request digest timeout cancelled (nat (max_attempts policy - 1)) 0)
    (\<lambda>(_, n) w'. int (count w') = int (count w) + n \<and> 1 \<le> n \<and> n \<le> max_attempts policy)
    (\<lambda>_ w'. count w' \<le> count w + nat (max_attempts policy)) w"
    by (rule wp_mono [OF attempt_loop_bounded [OF counts reg]]) (use policy in auto)
  then show ?thesis
    unfolding wp_bind
  proof (rule wp_mono, goal_cases)
    case (1 x w')
    then obtain response n where x: "x = (response, n)" and n: "int (count w') = int (count w) + n"
      "1 \<le> n" "n \<le> max_attempts policy" by auto
    with policy have "n \<le> 10" by simp
    have "wp (finish_call rt b request digest started response n)
      (\<lambda>c u. call_sound b request policy digest c \<and> int (count u) = int (count w) + rc_attempts (pc_receipt c))
      (\<lambda>_ u. count u \<le> count w + nat (max_attempts policy)) w'"
      by (rule wp_mono [OF finish_call_sound [OF counts n(2,3) \<open>n \<le> 10\<close> role]]) (use n in auto)
    with x show ?case by simp
  qed
qed

text \<open>A provider call never invokes the provider more often than its policy allows (ten times at
  most), however it answers; a call that is returned was made for this binding and request, its receipt
  names both, the digest the request had when the call began and the digest of the response it returns,
  and counts the invocations that were made.\<close>

theorem provider_call_is_bound:
  assumes counts: "counts_invocations count rt request cancelled"
  shows "case ModelRuntime_call rt b request policy cancelled w of
      (Inl e, w') \<Rightarrow> count w' \<le> count w + nat (max_attempts policy)
    | (Inr c, w') \<Rightarrow> \<exists>digest. ModelRequest_digest request w = Inr digest \<and>
        call_sound b request policy digest c \<and> int (count w') = int (count w) + rc_attempts (pc_receipt c)"
proof -
  have "wp (ModelRuntime_call rt b request policy cancelled)
    (\<lambda>c w'. \<exists>digest. ModelRequest_digest request w = Inr digest \<and> call_sound b request policy digest c \<and>
       int (count w') = int (count w) + rc_attempts (pc_receipt c))
    (\<lambda>_ w'. count w' \<le> count w + nat (max_attempts policy)) w"
    unfolding ModelRuntime_call_def wp_seq wp_bind [of "require _"] wp_bind [of "gets _"]
      wp_bind [of "runtime_clock _"] wp_gets wp_require wp_if wp_raise
    by (auto split: sum.splits intro!: wp_runtime_clock [OF counts]
        wp_mono [OF loop_then_finish [OF counts]] dest!: resolve_registered)
  then show ?thesis by (simp add: wp_def)
qed

lemma canonical_digest_nonempty: "canonical_digest v = Inr d \<Longrightarrow> d \<noteq> []"
proof
  assume "canonical_digest v = Inr d" and "d = []"
  then obtain x where "sha256_hex x = []" by (auto simp: canonical_digest_def split: sum.splits)
  with length_sha256_hex [of x] show False by simp
qed

text \<open>A provider that fails once with a retryable error and then answers.\<close>

definition demo_binding :: ModelBinding where
  "demo_binding = \<lparr>mb_binding_id = ''b'', mb_role = ''planner'', mb_provider_id = ''p'', mb_model_id = ''m''\<rparr>"

definition demo_request :: "nat ModelRequest" where
  "demo_request = \<lparr>mr_request_id = ''r'', mr_role = ''planner'', mr_payload = (\<lambda>_. PDict [])\<rparr>"

definition demo_provider :: "nat ModelProvider" where
  "demo_provider =
     \<lparr>pv_binding = (\<lambda>_. demo_binding),
      pv_invoke = (\<lambda>_ _ w.
        if w = 0 then (Inl (ProviderError ''busy'' ''try again'' True), Suc w)
        else (Inr \<lparr>mp_request_id = PStr ''r'', mp_output_text = PStr ''ok'', mp_response_id = PStr [],
               mp_finish_reason = PStr ''stop'', mp_usage = PDict []\<rparr>, Suc w))\<rparr>"

definition demo_runtime :: "nat ModelRuntime" where
  "demo_runtime = \<lparr>rt_registry = [''b'' \<mapsto> demo_provider], rt_clock = (\<lambda>w. (0, w))\<rparr>"

lemma provider_call_is_bound_witness:
  "\<exists>c. ModelRuntime_call demo_runtime demo_binding demo_request ProviderCallPolicy_default None 0 = (Inr c, 2) \<and>
     rc_attempts (pc_receipt c) = 2"
proof -
  have counts: "counts_invocations (\<lambda>w. w) demo_runtime demo_request None"
    by (simp add: counts_invocations_def demo_runtime_def demo_provider_def)
  have valid: "ModelBinding_validate demo_binding = Inr ()" "ModelRequest_validate demo_request w = Inr ()" for w
    by (simp_all add: ModelBinding_validate_def ModelRequest_validate_def validate_json_object_def
        demo_binding_def demo_request_def blank_def strip_visible visible_def)
  have enc: "encodes True False (PDict kvs) \<Longrightarrow> \<exists>d. canonical_digest (PDict kvs) = Inr d" for kvs
    by (auto simp: encodes_def canonical_digest_def)
  have "\<exists>d. ModelRequest_digest demo_request w = Inr d" for w
    using enc [of "[(''request_id'', PStr ''r''), (''role'', PStr ''planner''), (''payload'', PDict [])]"] valid(2)
    by (simp add: ModelRequest_digest_def encodes_dict_iff demo_request_def)
  then obtain d where d: "ModelRequest_digest demo_request 0 = Inr d" by blast
  have "ModelRequest_digest demo_request w = ModelRequest_digest demo_request 0" for w
    using valid(2) by (simp add: ModelRequest_digest_def demo_request_def)
  with d have d': "ModelRequest_digest demo_request w = Inr d" for w by simp
  let ?response = "\<lparr>mp_request_id = PStr ''r'', mp_output_text = PStr ''ok'', mp_response_id = PStr [],
               mp_finish_reason = PStr ''stop'', mp_usage = PDict []\<rparr>"
  have loop: "attempt_loop demo_provider demo_binding demo_request d t None (Suc (Suc 0)) 0 0 =
      (Inr (?response, 2), 2)" for t
    by (simp add: attempt_loop.simps check_cancelled_def proc_defs demo_provider_def validate_attempt_boundary_def d')
  obtain h where h: "ModelResponse_digest ?response = Inr h"
    using enc [of "[(''request_id'', PStr ''r''), (''output_text'', PStr ''ok''), (''response_id'', PStr []),
      (''finish_reason'', PStr ''stop''), (''usage'', PDict [])]"]
    by (auto simp: ModelResponse_digest_def ModelResponse_validate_def encodes_dict_iff sort_items_def)
  have nonempty: "d \<noteq> []" "h \<noteq> []"
    using d h by (auto simp: ModelRequest_digest_def ModelResponse_digest_def simp del: json_dumps.simps
        dest!: canonical_digest_nonempty split: sum.splits)
  have demo_fields: "mr_role demo_request = ''planner''" "mb_role demo_binding = ''planner''"
    "mr_request_id demo_request = ''r''" "rt_clock demo_runtime w = (0, w)" for w
    by (simp_all add: demo_request_def demo_binding_def demo_runtime_def)
  have "nat (max_attempts ProviderCallPolicy_default - 1) = Suc (Suc 0)"
    by (simp add: max_attempts_def ProviderCallPolicy_default_def)
  moreover have "ProviderRegistry_resolve demo_binding 0 (rt_registry demo_runtime) = Inr demo_provider"
    using valid(1) by (simp add: ProviderRegistry_resolve_def demo_runtime_def demo_provider_def demo_binding_def)
  moreover have "ProviderCallPolicy_validate ProviderCallPolicy_default = Inr ()"
    by (simp add: ProviderCallPolicy_validate_def ProviderCallPolicy_default_def)
  ultimately have "\<exists>c. ModelRuntime_call demo_runtime demo_binding demo_request ProviderCallPolicy_default None 0 =
      (Inr c, 2)"
    using valid d h loop nonempty
    by (simp add: ModelRuntime_call_def finish_call_def require_def proc_defs runtime_clock_def Let_def
        demo_fields ModelResponse_validate_def ProviderCallReceipt_validate_def make_call_receipt_def
        blank_def strip_visible visible_def)
  with provider_call_is_bound [OF counts, where b = demo_binding and policy = ProviderCallPolicy_default and w = 0] show ?thesis
    by auto
qed

end
