(* ===== verification/LongRun_Components.thy ===== *)
theory LongRun_Components
  imports LongRun_Engine LongRun_Loader LongRun_Provider_Properties
begin

text \<open>
  Planner, executor and evaluator that ask model providers (src/src/cybercore/longrun/
  model_components.py). The answers are JSON texts, taken apart field by field. The receipt of the last
  plan, which the closures share, is kept beside the world of the runtime. The payload of a request is a
  fresh dictionary; a provider that changes it is refused by the runtime and not followed up here. The
  lists of names in the messages about unknown fields are left out.
\<close>

section \<open>Answers\<close>

definition decode_object :: "(rat \<Rightarrow> string) \<Rightarrow> string \<Rightarrow> string \<Rightarrow> lexn + (string \<times> pyval) list" where
  "decode_object repr answer label =
     (case json_loads True repr answer of
        Inl (JDuplicateKey k) \<Rightarrow> Inl (value_error (label @ '' response contains a duplicate JSON object key''))
      | Inl JIntTooLong \<Rightarrow> Inl (value_error ''json'')
      | Inl _ \<Rightarrow> Inl (value_error (label @ '' must return a JSON object''))
      | Inr (PDict kvs) \<Rightarrow> Inr kvs
      | Inr _ \<Rightarrow> Inl (value_error (label @ '' must return a JSON object'')))"

definition exact_fields :: "(string \<times> pyval) list \<Rightarrow> string list \<Rightarrow> string \<Rightarrow> lexn + unit" where
  "exact_fields raw allowed label =
     (case reject_unknown raw allowed (label @ '' response'') of
        Inl e \<Rightarrow> Inl e
      | Inr _ \<Rightarrow>
          if set (map fst raw) \<noteq> set allowed
          then Inl (value_error (label @ '' response is missing required fields''))
          else Inr ())"

definition answer_number :: "pyval \<Rightarrow> string \<Rightarrow> lexn + rat" where
  "answer_number v label =
     (case v of
        PInt n \<Rightarrow> Inr (of_int n)
      | PFloat x \<Rightarrow> (case float_num x of Fin q \<Rightarrow> Inr q | _ \<Rightarrow> Inl (value_error (label @ '' must be finite'')))
      | _ \<Rightarrow> Inl (value_error (label @ '' must be numeric'')))"

definition non_negative_number :: "pyval \<Rightarrow> string \<Rightarrow> lexn + rat" where
  "non_negative_number v label =
     (case answer_number v label of
        Inl e \<Rightarrow> Inl e
      | Inr q \<Rightarrow> if q < 0 then Inl (value_error (label @ '' must be non-negative'')) else Inr q)"

definition probability :: "pyval \<Rightarrow> string \<Rightarrow> lexn + rat" where
  "probability v label =
     (case answer_number v label of
        Inl e \<Rightarrow> Inl e
      | Inr q \<Rightarrow> if q < 0 \<or> 1 < q then Inl (value_error (label @ '' must be between 0 and 1'')) else Inr q)"

definition answer_string :: "pyval \<Rightarrow> string \<Rightarrow> lexn + string" where
  "answer_string v label =
     (case v of
        PStr s \<Rightarrow> if blank s then Inl (value_error (label @ '' must be a non-empty string'')) else Inr (strip s)
      | _ \<Rightarrow> Inl (value_error (label @ '' must be a non-empty string'')))"

definition proposal_payload :: "(rat \<Rightarrow> string) \<Rightarrow> StepProposal \<Rightarrow> pyval" where
  "proposal_payload repr p = PDict
     [(''fingerprint'', PStr (sp_fingerprint p)),
      (''expected_quality_gain'', PFloat (num_float repr (sp_expected_quality_gain p))),
      (''expected_information_gain'', PFloat (num_float repr (sp_expected_information_gain p))),
      (''cost'', PFloat (num_float repr (sp_cost p))), (''risk'', PFloat (num_float repr (sp_risk p))),
      (''duplication_probability'', PFloat (num_float repr (sp_duplication_probability p))),
      (''effect'', PStr (sp_effect p))]"

definition proposal_keys :: "string list" where
  "proposal_keys =
     [''fingerprint'', ''expected_quality_gain'', ''expected_information_gain'', ''cost'', ''risk'',
      ''duplication_probability'', ''effect'']"

definition read_proposal :: "(string \<times> pyval) list \<Rightarrow> lexn + StepProposal" where
  "read_proposal raw =
     (case answer_string (get_field raw ''fingerprint'') ''planner.fingerprint'' of Inl e \<Rightarrow> Inl e | Inr fp \<Rightarrow>
     (case answer_number (get_field raw ''expected_quality_gain'') ''planner.expected_quality_gain'' of Inl e \<Rightarrow> Inl e | Inr quality \<Rightarrow>
     (case answer_number (get_field raw ''expected_information_gain'') ''planner.expected_information_gain'' of Inl e \<Rightarrow> Inl e | Inr info \<Rightarrow>
     (case non_negative_number (get_field raw ''cost'') ''planner.cost'' of Inl e \<Rightarrow> Inl e | Inr cost \<Rightarrow>
     (case non_negative_number (get_field raw ''risk'') ''planner.risk'' of Inl e \<Rightarrow> Inl e | Inr risk \<Rightarrow>
     (case probability (get_field raw ''duplication_probability'') ''planner.duplication_probability'' of Inl e \<Rightarrow> Inl e | Inr dup \<Rightarrow>
     (case answer_string (get_field raw ''effect'') ''planner.effect'' of Inl e \<Rightarrow> Inl e | Inr eff \<Rightarrow>
        Inr \<lparr>sp_fingerprint = fp, sp_expected_quality_gain = Fin quality, sp_expected_information_gain = Fin info,
          sp_cost = Fin cost, sp_risk = Fin risk, sp_duplication_probability = Fin dup, sp_effect = eff\<rparr>)))))))"

fun is_finite :: "num \<Rightarrow> bool" where
  "is_finite (Fin q) = True"
| "is_finite _ = False"

definition parse_proposal :: "(rat \<Rightarrow> string) \<Rightarrow> string \<Rightarrow> lexn + StepProposal" where
  "parse_proposal repr answer =
     (case decode_object repr answer ''planner'' of Inl e \<Rightarrow> Inl e | Inr raw \<Rightarrow>
     (case exact_fields raw proposal_keys ''planner'' of Inl e \<Rightarrow> Inl e | Inr _ \<Rightarrow>
     (case read_proposal raw of Inl e \<Rightarrow> Inl e | Inr p \<Rightarrow>
        if \<not> is_finite (proposal_value p) then Inl (value_error ''planner proposal value must be finite'')
        else Inr p)))"

definition model_calls_key :: string where
  "model_calls_key = ''_cybercore_model_calls''"

definition parse_worker :: "(rat \<Rightarrow> string) \<Rightarrow> string \<Rightarrow> lexn + bool \<times> (string \<times> pyval) list" where
  "parse_worker repr answer =
     (case decode_object repr answer ''worker'' of Inl e \<Rightarrow> Inl e | Inr raw \<Rightarrow>
     (case exact_fields raw [''success'', ''evidence''] ''worker'' of Inl e \<Rightarrow> Inl e | Inr _ \<Rightarrow>
     (case get_field raw ''success'' of
        PBool success \<Rightarrow>
          (case get_field raw ''evidence'' of
             PDict evidence \<Rightarrow>
               if success \<and> evidence = []
                 then Inl (value_error ''successful worker must return non-empty evidence'')
               else if model_calls_key \<in> set (map fst evidence)
                 then Inl (value_error (''worker.evidence cannot use reserved key '' @ model_calls_key))
               else Inr (success, evidence)
           | _ \<Rightarrow> Inl (value_error ''worker.evidence must be an object with string keys''))
      | _ \<Rightarrow> Inl (value_error ''worker.success must be boolean''))))"

definition parse_evaluation :: "(rat \<Rightarrow> string) \<Rightarrow> string \<Rightarrow> lexn + rat \<times> string \<times> string list" where
  "parse_evaluation repr answer =
     (case decode_object repr answer ''evaluator'' of Inl e \<Rightarrow> Inl e | Inr raw \<Rightarrow>
     (case exact_fields raw [''score'', ''verdict'', ''reasons''] ''evaluator'' of Inl e \<Rightarrow> Inl e | Inr _ \<Rightarrow>
     (case answer_number (get_field raw ''score'') ''evaluator.score'' of Inl e \<Rightarrow> Inl e | Inr score \<Rightarrow>
     (case answer_string (get_field raw ''verdict'') ''evaluator.verdict'' of Inl e \<Rightarrow> Inl e | Inr verdict \<Rightarrow>
     (case get_field raw ''reasons'' of
        PList (r # rs) \<Rightarrow>
          (case all_strings (r # rs) of
             Some reasons \<Rightarrow>
               if list_all (\<lambda>s. \<not> blank s) reasons then Inr (score, verdict, map strip reasons)
               else Inl (value_error ''evaluator.reasons must contain non-empty strings'')
           | None \<Rightarrow> Inl (value_error ''evaluator.reasons must contain non-empty strings''))
      | _ \<Rightarrow> Inl (value_error ''evaluator.reasons must contain non-empty strings''))))))"

section \<open>The components\<close>

record 'w components =
  co_pending :: "(string \<times> ProviderCallReceipt) option"
  co_world :: 'w

record 'w component_setup =
  cs_manifest :: LongRunManifest
  cs_runtime :: "'w ModelRuntime"
  cs_policy :: ProviderCallPolicy
  cs_repr :: "rat \<Rightarrow> string"
  cs_planner :: ModelBinding
  cs_worker :: ModelBinding
  cs_evaluator :: ModelBinding

definition model_binding :: "LongRunManifest \<Rightarrow> string \<Rightarrow> ModelBinding option" where
  "model_binding m role = find (\<lambda>b. mb_role b = role) (lm_model_bindings m)"

definition provider_components ::
  "LongRunManifest \<Rightarrow> 'w ModelRuntime \<Rightarrow> ProviderCallPolicy \<Rightarrow> (rat \<Rightarrow> string) \<Rightarrow> lexn + 'w component_setup" where
  "provider_components m rt policy repr =
     (case LongRunManifest_validate m of Inl e \<Rightarrow> Inl e | Inr _ \<Rightarrow>
     (case (model_binding m ''planner'', model_binding m ''worker'', model_binding m ''evaluator'') of
        (Some p, Some w, Some e) \<Rightarrow>
          if mb_binding_id e = mb_binding_id p \<or> mb_binding_id e = mb_binding_id w
          then Inl (value_error ''independent evaluator must use a distinct binding identity'')
          else (case ProviderCallPolicy_validate policy of Inl err \<Rightarrow> Inl err | Inr _ \<Rightarrow>
            Inr \<lparr>cs_manifest = m, cs_runtime = rt, cs_policy = policy, cs_repr = repr, cs_planner = p,
              cs_worker = w, cs_evaluator = e\<rparr>)
      | _ \<Rightarrow> Inl (value_error ''provider-bound runtime requires planner, worker, and evaluator bindings'')))"

fun provider_lexn :: "provider_exn \<Rightarrow> lexn" where
  "provider_lexn (Raised e) = e"
| "provider_lexn (ProviderError code msg retryable) = Exc ''ProviderError'' msg"

text \<open>\<open>runtime.call(binding, request, policy=policy)\<close>\<close>

definition component_call ::
  "'w component_setup \<Rightarrow> ModelBinding \<Rightarrow> string \<Rightarrow> string \<Rightarrow> pyval \<Rightarrow> ('w components, lexn, ProviderCall) proc" where
  "component_call cs b request_id role payload = (\<lambda>s.
     case ModelRuntime_call (cs_runtime cs) b
         \<lparr>mr_request_id = request_id, mr_role = role, mr_payload = (\<lambda>_. payload)\<rparr> (cs_policy cs) None (co_world s) of
       (Inl e, w) \<Rightarrow> (Inl (provider_lexn e), s\<lparr>co_world := w\<rparr>)
     | (Inr c, w) \<Rightarrow> (Inr c, s\<lparr>co_world := w\<rparr>))"

text \<open>The output of a validated response is a string.\<close>

definition output_of :: "ProviderCall \<Rightarrow> string" where
  "output_of c = (case mp_output_text (pc_response c) of PStr s \<Rightarrow> s | _ \<Rightarrow> [])"

definition planner_payload :: "'w component_setup \<Rightarrow> RunState \<Rightarrow> pyval" where
  "planner_payload cs st = PDict
     [(''objective'', PStr (lm_objective (cs_manifest cs))),
      (''state'', PDict
        [(''step_index'', PInt (rs_step_index st)), (''consecutive_failures'', PInt (rs_consecutive_failures st)),
         (''last_step_fingerprint'', case rs_last_step_fingerprint st of None \<Rightarrow> PNone | Some s \<Rightarrow> PStr s),
         (''duplicate_count'', PInt (rs_duplicate_count st)),
         (''evaluator_score'', PFloat (Finite (cs_repr cs (rs_evaluator_score st))))]),
      (''contract'', PDict
        [(''allowed_effects'', PList (map PStr (lm_allowed_effects (cs_manifest cs)))),
         (''prohibited_effects'', PList (map PStr (lm_prohibited_effects (cs_manifest cs))))])]"

definition component_planner :: "'w component_setup \<Rightarrow> RunState \<Rightarrow> ('w components, lexn, StepProposal) proc" where
  "component_planner cs st =
     bind (component_call cs (cs_planner cs)
       (lm_run_id (cs_manifest cs) @ '':planner:'' @ int_str (rs_step_index st)) ''planner'' (planner_payload cs st)) (\<lambda>c.
     bind (lift (parse_proposal (cs_repr cs) (output_of c))) (\<lambda>p.
     seq (modify (\<lambda>s. s\<lparr>co_pending := Some (sp_fingerprint p, pc_receipt c)\<rparr>))
     (ret p)))"

text \<open>\<open>s.replace(old, new, 1)\<close>\<close>

fun replace_first :: "string \<Rightarrow> string \<Rightarrow> string \<Rightarrow> string" where
  "replace_first old new [] = (if old = [] then new else [])"
| "replace_first old new (c # s) =
     (if startswith (c # s) old then new @ drop (length old) (c # s) else c # replace_first old new s)"

definition component_executor :: "'w component_setup \<Rightarrow> StepProposal \<Rightarrow> ('w components, lexn, StepResult) proc" where
  "component_executor cs p =
     bind (gets co_pending) (\<lambda>pending.
     case pending of
       None \<Rightarrow> raise (runtime_error ''worker call has no matching provider planner receipt'')
     | Some (fp, planned) \<Rightarrow>
         if fp \<noteq> sp_fingerprint p
         then raise (runtime_error ''worker call has no matching provider planner receipt'')
         else
           seq (modify (\<lambda>s. s\<lparr>co_pending := None\<rparr>))
           (bind (component_call cs (cs_worker cs)
              (replace_first '':planner:'' '':worker:'' (rc_request_id planned)) ''worker''
              (PDict [(''objective'', PStr (lm_objective (cs_manifest cs))),
                      (''proposal'', proposal_payload (cs_repr cs) p)])) (\<lambda>c.
            bind (lift (parse_worker (cs_repr cs) (output_of c))) (\<lambda>(success, evidence).
            bind (lift (ProviderCallReceipt_event_payload (cs_repr cs) planned)) (\<lambda>plan_event.
            bind (lift (ProviderCallReceipt_event_payload (cs_repr cs) (pc_receipt c))) (\<lambda>work_event.
            ret \<lparr>sr_success = success,
              sr_evidence = PDict (set_item model_calls_key (PList [plan_event, work_event]) evidence)\<rparr>))))))"

definition binding_identity :: "ModelBinding \<Rightarrow> string" where
  "binding_identity b = mb_provider_id b @ '':'' @ mb_model_id b @ '':'' @ mb_binding_id b"

definition component_evaluator ::
  "'w component_setup \<Rightarrow> StepProposal \<Rightarrow> StepResult \<Rightarrow>
   ('w components, lexn, EvaluationResult option \<times> pyval) proc" where
  "component_evaluator cs p result =
     bind (lift (evidence_digest (sr_evidence result))) (\<lambda>digest.
     bind (component_call cs (cs_evaluator cs)
       (lm_run_id (cs_manifest cs) @ '':evaluator:'' @ take 24 digest) ''evaluator''
       (PDict [(''objective'', PStr (lm_objective (cs_manifest cs))),
               (''proposal'', proposal_payload (cs_repr cs) p),
               (''execution'', PDict
                 [(''success'', PBool (sr_success result)), (''evidence'', sr_evidence result),
                  (''evidence_digest'', PStr digest)])])) (\<lambda>c.
     bind (lift (parse_evaluation (cs_repr cs) (output_of c))) (\<lambda>(score, verdict, reasons).
     bind (lift (ProviderCallReceipt_event_payload (cs_repr cs) (pc_receipt c))) (\<lambda>event.
     ret (Some \<lparr>ev_evaluator_id = PStr (binding_identity (cs_evaluator cs)),
         ev_evaluator_version = PStr ''provider-binding-v1'', ev_score = ScoreFloat (Fin score),
         ev_verdict = verdict, ev_reasons = map PStr reasons, ev_evidence_digest = digest,
         ev_metadata = PDict [(''provider_receipt'', event)]\<rparr>, sr_evidence result)))))"

end
