(* ===== verification/LongRun_Components_Properties.thy ===== *)
theory LongRun_Components_Properties
  imports LongRun_Components
begin

text \<open>
  What the provider-backed planner and executor guarantee to the engine that calls them: a proposal has
  finite numbers, and a worker is only asked for the proposal that was planned last, once.
\<close>

lemma wp_component_call:
  assumes "\<And>c w. Q c (s\<lparr>co_world := w\<rparr>)" and "\<And>e w. E e (s\<lparr>co_world := w\<rparr>)"
  shows "wp (component_call cs b i r payload) Q E s"
  using assms by (auto simp: wp_def component_call_def split: prod.splits sum.splits)

lemma parsed_proposal:
  assumes "parse_proposal repr answer = Inr p"
  shows "is_finite (proposal_value p) \<and> num_le (Fin 0) (sp_cost p) \<and> num_le (Fin 0) (sp_risk p) \<and>
    sp_fingerprint p \<noteq> [] \<and> sp_effect p \<noteq> []"
  using assms
  by (auto simp: parse_proposal_def read_proposal_def non_negative_number_def answer_string_def blank_def
      split: sum.splits if_splits pyval.splits)

text \<open>A proposal that the provider-backed planner returns has a finite expected value, cost and risk
  that are not negative, and names; the governor authorizes it only when its expected value is positive;
  and the receipt of the call that planned it is pending for the worker.\<close>

theorem provider_plans_are_finite:
  assumes "component_planner cs st s = (Inr p, s')"
  shows "is_finite (proposal_value p) \<and> num_le (Fin 0) (sp_cost p) \<and> num_le (Fin 0) (sp_risk p) \<and>
    (\<exists>receipt. co_pending s' = Some (sp_fingerprint p, receipt)) \<and>
    (fst (authorize_step p allowed prohibited) \<longrightarrow> (\<exists>q. proposal_value p = Fin q \<and> 0 < q))"
proof -
  have "wp (component_planner cs st)
    (\<lambda>p s'. parse_ok p \<and> (\<exists>receipt. co_pending s' = Some (sp_fingerprint p, receipt))) (\<lambda>_ _. True) s"
    if "\<And>answer p. parse_proposal (cs_repr cs) answer = Inr p \<Longrightarrow> parse_ok p" for parse_ok
    unfolding component_planner_def wp_bind
    by (rule wp_component_call) (auto simp: wp_simps that split: sum.splits)
  from this [of "\<lambda>p. is_finite (proposal_value p) \<and> num_le (Fin 0) (sp_cost p) \<and> num_le (Fin 0) (sp_risk p)"]
  have p: "is_finite (proposal_value p)" "num_le (Fin 0) (sp_cost p)" "num_le (Fin 0) (sp_risk p)"
    "\<exists>receipt. co_pending s' = Some (sp_fingerprint p, receipt)"
    using parsed_proposal assms by (auto simp: wp_def)
  moreover from p(1) obtain q where "proposal_value p = Fin q" by (cases "proposal_value p") auto
  ultimately show ?thesis by (auto simp: authorize_step_def)
qed


section \<open>A runtime that answers\<close>

definition answering_provider :: "ModelBinding \<Rightarrow> string \<Rightarrow> unit ModelProvider" where
  "answering_provider b answer =
     \<lparr>pv_binding = (\<lambda>_. b),
      pv_invoke = (\<lambda>r _ w. (Inr \<lparr>mp_request_id = PStr (mr_request_id r), mp_output_text = PStr answer,
        mp_response_id = PStr [], mp_finish_reason = PStr ''stop'', mp_usage = PDict []\<rparr>, w))\<rparr>"

definition answering_runtime :: "ModelBinding \<Rightarrow> string \<Rightarrow> ModelBinding \<Rightarrow> string \<Rightarrow> unit ModelRuntime" where
  "answering_runtime b1 answer1 b2 answer2 =
     \<lparr>rt_registry = [mb_binding_id b1 \<mapsto> answering_provider b1 answer1, mb_binding_id b2 \<mapsto> answering_provider b2 answer2],
      rt_clock = (\<lambda>w. (0, w))\<rparr>"

lemma answering_call:
  assumes b: "ModelBinding_validate b = Inr ()" and provider: "rt_registry rt (mb_binding_id b) = Some (answering_provider b answer)"
    and clock: "rt_clock rt = (\<lambda>w. (0, w))" and role: "mr_role request = mb_role b"
    and payload: "mr_payload request = (\<lambda>_. payload)"
    and valid: "ModelRequest_validate request () = Inr ()" and digest: "ModelRequest_digest request () = Inr d"
  shows "\<exists>c. ModelRuntime_call rt b request ProviderCallPolicy_default None () = (Inr c, ()) \<and>
    output_of c = answer \<and> rc_binding (pc_receipt c) = b \<and>
    rc_request_id (pc_receipt c) = mr_request_id request \<and> rc_request_digest (pc_receipt c) = d \<and>
    rc_attempts (pc_receipt c) = 1 \<and> rc_latency_ms (pc_receipt c) = 0 \<and>
    rc_usage (pc_receipt c) = PDict [] \<and> rc_finish_reason (pc_receipt c) = PStr ''stop'' \<and>
    ProviderCallReceipt_validate (pc_receipt c) = Inr ()"
proof -
  let ?response = "\<lparr>mp_request_id = PStr (mr_request_id request), mp_output_text = PStr answer,
        mp_response_id = PStr [], mp_finish_reason = PStr ''stop'', mp_usage = PDict []\<rparr>"
  have loop: "attempt_loop (answering_provider b answer) b request d t None n 0 () = (Inr (?response, 1), ())" for t n
    by (simp add: attempt_loop.simps check_cancelled_def proc_defs answering_provider_def
        validate_attempt_boundary_def digest)
  have "encodes True False (PDict [(''request_id'', PStr (mr_request_id request)), (''output_text'', PStr answer),
      (''response_id'', PStr []), (''finish_reason'', PStr ''stop''), (''usage'', PDict [])])"
    by (simp add: encodes_dict_iff)
  then obtain h where h: "ModelResponse_digest ?response = Inr h"
    by (auto simp: ModelResponse_digest_def ModelResponse_validate_def sort_items_def encodes_def
        canonical_digest_def simp del: json_dumps.simps)
  have "\<not> blank (mr_request_id request)"
    using valid by (auto simp: ModelRequest_validate_def split: if_splits)
  moreover have "d \<noteq> []" "h \<noteq> []"
    using digest h by (auto simp: ModelRequest_digest_def ModelResponse_digest_def simp del: json_dumps.simps
        dest!: canonical_digest_nonempty split: sum.splits)
  moreover have "ProviderRegistry_resolve b () (rt_registry rt) = Inr (answering_provider b answer)"
    using b provider by (simp add: ProviderRegistry_resolve_def answering_provider_def)
  moreover have "ProviderCallPolicy_validate ProviderCallPolicy_default = Inr ()"
    by (simp add: ProviderCallPolicy_validate_def ProviderCallPolicy_default_def)
  ultimately show ?thesis
    using b role valid digest h loop
    by (simp add: ModelRuntime_call_def finish_call_def require_def proc_defs runtime_clock_def Let_def clock
        ModelResponse_validate_def ProviderCallReceipt_validate_def make_call_receipt_def output_of_def)
qed

definition key_text :: "string \<Rightarrow> string \<Rightarrow> string" where
  "key_text key v = [CHR 0x22] @ key @ [CHR 0x22] @ '':'' @ v"

definition sample_plan :: string where
  "sample_plan = ''{'' @ joined '',''
     [key_text ''fingerprint'' [CHR 0x22, CHR ''f'', CHR 0x22], key_text ''expected_quality_gain'' ''1'',
      key_text ''expected_information_gain'' ''0'', key_text ''cost'' ''0'', key_text ''risk'' ''0'',
      key_text ''duplication_probability'' ''0'', key_text ''effect'' [CHR 0x22, CHR ''R'', CHR 0x22]] @ ''}''"

definition sample_work :: string where
  "sample_work = ''{'' @ joined '','' [key_text ''success'' ''true'', key_text ''evidence'' (''{'' @ key_text ''n'' ''1'' @ ''}'')] @ ''}''"

definition worker_binding :: ModelBinding where
  "worker_binding = \<lparr>mb_binding_id = ''w'', mb_role = ''worker'', mb_provider_id = ''p'', mb_model_id = ''m''\<rparr>"

definition sample_setup :: "unit component_setup" where
  "sample_setup =
     \<lparr>cs_manifest = \<lparr>lm_run_id = ''m1'', lm_objective = ''go'', lm_minimum_wall_seconds = 0,
        lm_maximum_wall_seconds = 60, lm_evaluator_threshold = Fin 1, lm_checkpoint_every_steps = 1,
        lm_max_consecutive_failures = 2, lm_max_duplicate_steps = 2, lm_evidence_required = True,
        lm_independent_evaluation_required = True, lm_allowed_effects = [''R''], lm_prohibited_effects = [],
        lm_model_bindings = [], lm_metadata = []\<rparr>,
      cs_runtime = answering_runtime demo_binding sample_plan worker_binding sample_work,
      cs_policy = ProviderCallPolicy_default, cs_repr = (\<lambda>_. ''1.0''), cs_planner = demo_binding,
      cs_worker = worker_binding, cs_evaluator = demo_binding\<rparr>"

definition sample_state :: RunState where
  "sample_state =
     \<lparr>rs_run_id = ''m1'', rs_manifest_digest = [], rs_status = ''RUNNING'', rs_step_index = 0,
      rs_consecutive_failures = 0, rs_last_step_fingerprint = None, rs_duplicate_count = 0,
      rs_evaluator_score = 0, rs_started_at = 0, rs_updated_at = 0\<rparr>"

definition sample_proposal :: StepProposal where
  "sample_proposal =
     \<lparr>sp_fingerprint = ''f'', sp_expected_quality_gain = Fin 1, sp_expected_information_gain = Fin 0,
      sp_cost = Fin 0, sp_risk = Fin 0, sp_duplication_probability = Fin 0, sp_effect = ''R''\<rparr>"

lemma sample_plan_parses: "parse_proposal (\<lambda>_. ''1.0'') sample_plan = Inr sample_proposal"
proof -
  have "(case parse_proposal (\<lambda>_. ''1.0'') sample_plan of Inl _ \<Rightarrow> None
     | Inr p \<Rightarrow> Some (sp_fingerprint p, sp_expected_quality_gain p, sp_expected_information_gain p, sp_cost p,
         sp_risk p, sp_duplication_probability p, sp_effect p)) =
     Some (''f'', Fin 1, Fin 0, Fin 0, Fin 0, Fin 0, ''R'')"
    by code_simp
  then show ?thesis by (auto simp: sample_proposal_def split: sum.splits)
qed

lemma sample_work_parses: "parse_worker (\<lambda>_. ''1.0'') sample_work = Inr (True, [(''n'', PInt 1)])"
  by code_simp

lemma sample_binding_valid:
  "ModelBinding_validate demo_binding = Inr ()" "ModelBinding_validate worker_binding = Inr ()"
  by (simp_all add: ModelBinding_validate_def demo_binding_def worker_binding_def blank_def strip_visible visible_def)

lemma request_digest:
  assumes "ModelRequest_validate r () = Inr ()" and "encodes True False (mr_payload r ())"
  shows "\<exists>d. ModelRequest_digest r () = Inr d"
proof -
  have "encodes True False (PDict [(''request_id'', PStr (mr_request_id r)), (''role'', PStr (mr_role r)),
      (''payload'', mr_payload r ())])"
    using assms(2) by (simp add: encodes_dict_iff)
  with assms(1) show ?thesis
    by (auto simp: ModelRequest_digest_def canonical_digest_def encodes_def simp del: json_dumps.simps)
qed

lemma sample_component_call:
  assumes "b = demo_binding \<and> answer = sample_plan \<or> b = worker_binding \<and> answer = sample_work"
    and "list_all visible request_id" and "request_id \<noteq> []" and "role = mb_role b"
    and "validate_json_object ''model request payload'' payload = Inr ()" and "encodes True False payload"
  shows "\<exists>c. component_call sample_setup b request_id role payload s = (Inr c, s) \<and> output_of c = answer \<and>
    rc_request_id (pc_receipt c) = request_id \<and>
    (\<exists>event. ProviderCallReceipt_event_payload (\<lambda>_. ''1.0'') (pc_receipt c) = Inr event)"
proof -
  let ?r = "\<lparr>mr_request_id = request_id, mr_role = role, mr_payload = (\<lambda>_ :: unit. payload)\<rparr>"
  have valid: "ModelRequest_validate ?r () = Inr ()"
    using assms by (auto simp: ModelRequest_validate_def blank_def strip_visible demo_binding_def worker_binding_def)
  obtain d where d: "ModelRequest_digest ?r () = Inr d"
    using request_digest [OF valid] assms(6) by auto
  have provider: "rt_registry (cs_runtime sample_setup) (mb_binding_id b) = Some (answering_provider b answer)"
    using assms(1) by (auto simp: sample_setup_def answering_runtime_def demo_binding_def worker_binding_def)
  have b: "ModelBinding_validate b = Inr ()" using assms(1) sample_binding_valid by auto
  obtain c where c: "ModelRuntime_call (cs_runtime sample_setup) b ?r ProviderCallPolicy_default None () = (Inr c, ())"
    "output_of c = answer" "rc_binding (pc_receipt c) = b" "rc_request_id (pc_receipt c) = request_id"
    "rc_request_digest (pc_receipt c) = d" "rc_attempts (pc_receipt c) = 1" "rc_usage (pc_receipt c) = PDict []"
    "rc_finish_reason (pc_receipt c) = PStr ''stop''" "ProviderCallReceipt_validate (pc_receipt c) = Inr ()"
    using answering_call [OF b provider, of ?r payload d] assms(4) valid d
    by (auto simp: sample_setup_def answering_runtime_def)
  have "encodes True False (PDict (receipt_fields (\<lambda>_. ''1.0'') (pc_receipt c)))"
    using c by (simp add: receipt_fields_def encodes_dict_iff ModelBinding_canonical_payload_def sort_items_def
        encodes_def [of _ _ "PInt _"] encodes_def [of _ _ "PFloat _"] json_int_def nat_str.simps)
  then have "\<exists>event. ProviderCallReceipt_event_payload (\<lambda>_. ''1.0'') (pc_receipt c) = Inr event"
    using c by (auto simp: ProviderCallReceipt_event_payload_def canonical_digest_def encodes_def simp del: json_dumps.simps)
  with c show ?thesis by (auto simp: component_call_def sample_setup_def)
qed

lemmas encodes_leaf = encodes_def [of _ _ "PInt _"] encodes_def [of _ _ "PFloat _"] encodes_def [of _ _ PNone]
  encodes_def [of _ _ "PStr _"] encodes_def [of _ _ "PBool _"]

lemma sample_fields:
  "cs_planner sample_setup = demo_binding" "cs_worker sample_setup = worker_binding"
  "cs_repr sample_setup = (\<lambda>_. ''1.0'')" "lm_run_id (cs_manifest sample_setup) = ''m1''"
  "lm_objective (cs_manifest sample_setup) = ''go''" "rs_step_index sample_state = 0"
  "sp_fingerprint sample_proposal = ''f''" "int_str 0 = ''0''"
  by (simp_all add: sample_setup_def sample_state_def sample_proposal_def int_str_def) code_simp

lemma sample_planner:
  "\<exists>receipt event. component_planner sample_setup sample_state s =
       (Inr sample_proposal, s\<lparr>co_pending := Some (''f'', receipt)\<rparr>) \<and>
     rc_request_id receipt = ''m1:planner:0'' \<and> ProviderCallReceipt_event_payload (\<lambda>_. ''1.0'') receipt = Inr event"
proof -
  have "\<exists>c. component_call sample_setup demo_binding ''m1:planner:0'' ''planner'' (planner_payload sample_setup sample_state) s =
      (Inr c, s) \<and> output_of c = sample_plan \<and> rc_request_id (pc_receipt c) = ''m1:planner:0'' \<and>
      (\<exists>event. ProviderCallReceipt_event_payload (\<lambda>_. ''1.0'') (pc_receipt c) = Inr event)"
    by (rule sample_component_call)
      (simp_all add: visible_def demo_binding_def planner_payload_def sample_setup_def sample_state_def
        validate_json_object_def encodes_dict_iff encodes_list_iff encodes_leaf json_int_def nat_str.simps)
  then show ?thesis
    using sample_plan_parses
    by (auto simp: component_planner_def proc_defs sample_fields)
qed

theorem provider_plans_are_finite_witness:
  "\<exists>s' receipt. component_planner sample_setup sample_state \<lparr>co_pending = None, co_world = ()\<rparr> = (Inr sample_proposal, s') \<and>
     fst (authorize_step sample_proposal [''R''] []) \<and> co_pending s' = Some (''f'', receipt) \<and>
     is_finite (proposal_value sample_proposal)"
proof -
  obtain receipt where p: "component_planner sample_setup sample_state \<lparr>co_pending = None, co_world = ()\<rparr> =
      (Inr sample_proposal, \<lparr>co_pending = Some (''f'', receipt), co_world = ()\<rparr>)"
    using sample_planner [of "\<lparr>co_pending = None, co_world = ()\<rparr>"] by auto
  have "fst (authorize_step sample_proposal [''R''] [])" by code_simp
  with p provider_plans_are_finite [OF p, of "[''R'']" "[]"] show ?thesis by auto
qed

lemma sample_worker:
  assumes pending: "co_pending s = Some (''f'', planned)" and id: "rc_request_id planned = ''m1:planner:0''"
    and event: "ProviderCallReceipt_event_payload (\<lambda>_. ''1.0'') planned = Inr event"
  shows "\<exists>result. fst (component_executor sample_setup sample_proposal s) = Inr result \<and> sr_success result"
proof -
  have "\<exists>c. component_call sample_setup worker_binding ''m1:worker:0'' ''worker''
        (PDict [(''objective'', PStr ''go''), (''proposal'', proposal_payload (\<lambda>_. ''1.0'') sample_proposal)])
        (s\<lparr>co_pending := None\<rparr>) =
      (Inr c, s\<lparr>co_pending := None\<rparr>) \<and> output_of c = sample_work \<and> rc_request_id (pc_receipt c) = ''m1:worker:0'' \<and>
      (\<exists>event. ProviderCallReceipt_event_payload (\<lambda>_. ''1.0'') (pc_receipt c) = Inr event)"
    by (rule sample_component_call)
      (simp_all add: visible_def worker_binding_def proposal_payload_def sample_proposal_def
        validate_json_object_def encodes_dict_iff encodes_list_iff encodes_leaf json_int_def nat_str.simps)
  moreover have "replace_first '':planner:'' '':worker:'' ''m1:planner:0'' = ''m1:worker:0''" by code_simp
  ultimately show ?thesis
    using pending id event sample_work_parses
    by (auto simp: component_executor_def proc_defs sample_fields)
qed


end
