(* ===== verification/Voice_Audio.thy ===== *)
theory Voice_Audio
  imports Py_Text
begin

text \<open>
  Audio frames and the bounded buffer (src/src/cybercore/voice/audio.py), with the contract of a
  bounded queue as a locale: whatever is pushed and popped, frames leave in the order in which they were
  accepted, none is lost and none is made up.
\<close>

section \<open>Exceptions of the voice runtime\<close>

text \<open>\<open>Foreign\<close> is an exception of an adapter or of an event sink.\<close>

datatype vexn =
    ValueError string
  | RuntimeError string
  | AudioBackpressureError
  | Foreign string

section \<open>Frames\<close>

datatype AudioEncoding = PCM_S16LE

record AudioFormat =
  af_sample_rate_hz :: int
  af_channels :: int
  af_sample_width_bytes :: int
  af_encoding :: AudioEncoding

definition AudioFormat_default :: AudioFormat where
  "AudioFormat_default =
     \<lparr>af_sample_rate_hz = 16000, af_channels = 1, af_sample_width_bytes = 2, af_encoding = PCM_S16LE\<rparr>"

definition AudioFormat_init :: "AudioFormat \<Rightarrow> vexn + AudioFormat" where
  "AudioFormat_init f =
     (if af_sample_rate_hz f \<le> 0 then Inl (ValueError ''sample rate must be positive'')
      else if af_channels f \<le> 0 then Inl (ValueError ''channel count must be positive'')
      else if af_sample_width_bytes f \<le> 0 then Inl (ValueError ''sample width must be positive'')
      else if af_encoding f = PCM_S16LE \<and> af_sample_width_bytes f \<noteq> 2
        then Inl (ValueError ''PCM_S16LE requires a two-byte sample width'')
      else Inr f)"

definition bytes_per_second :: "AudioFormat \<Rightarrow> int" where
  "bytes_per_second f = af_sample_rate_hz f * af_channels f * af_sample_width_bytes f"

definition bytes_per_sample_frame :: "AudioFormat \<Rightarrow> int" where
  "bytes_per_sample_frame f = af_channels f * af_sample_width_bytes f"

record AudioFrame =
  fr_sequence :: int
  fr_payload :: string
  fr_format :: AudioFormat
  fr_captured_at_ms :: "int option"

definition AudioFrame_init :: "AudioFrame \<Rightarrow> vexn + AudioFrame" where
  "AudioFrame_init f =
     (if fr_sequence f < 0 then Inl (ValueError ''audio frame sequence must be non-negative'')
      else if fr_payload f = [] then Inl (ValueError ''audio frame payload must not be empty'')
      else if int (length (fr_payload f)) mod bytes_per_sample_frame (fr_format f) \<noteq> 0
        then Inl (ValueError ''audio frame payload is not aligned to complete sample frames'')
      else case fr_captured_at_ms f of
        Some t \<Rightarrow> if t < 0 then Inl (ValueError ''captured_at_ms must be non-negative'') else Inr f
      | None \<Rightarrow> Inr f)"

section \<open>The buffer\<close>

record BoundedAudioBuffer =
  bb_max_frames :: int
  bb_max_bytes :: int
  bb_frames :: "AudioFrame list"
  bb_byte_count :: int

definition BoundedAudioBuffer_init :: "int \<Rightarrow> int \<Rightarrow> vexn + BoundedAudioBuffer" where
  "BoundedAudioBuffer_init max_frames max_bytes =
     (if max_frames \<le> 0 \<or> max_bytes \<le> 0 then Inl (ValueError ''audio buffer limits must be positive'')
      else Inr \<lparr>bb_max_frames = max_frames, bb_max_bytes = max_bytes, bb_frames = [], bb_byte_count = 0\<rparr>)"

definition buffer_push :: "AudioFrame \<Rightarrow> (BoundedAudioBuffer, vexn, unit) proc" where
  "buffer_push f = (\<lambda>b.
     let next_frames = int (length (bb_frames b)) + 1;
         next_bytes = bb_byte_count b + int (length (fr_payload f))
     in if next_frames > bb_max_frames b \<or> next_bytes > bb_max_bytes b
        then (Inl AudioBackpressureError, b)
        else (Inr (), b\<lparr>bb_frames := bb_frames b @ [f], bb_byte_count := next_bytes\<rparr>))"

definition buffer_pop :: "(BoundedAudioBuffer, vexn, AudioFrame option) proc" where
  "buffer_pop = (\<lambda>b.
     case bb_frames b of
       [] \<Rightarrow> (Inr None, b)
     | f # fs \<Rightarrow>
         (Inr (Some f), b\<lparr>bb_frames := fs, bb_byte_count := bb_byte_count b - int (length (fr_payload f))\<rparr>))"

definition buffer_flush :: "(BoundedAudioBuffer, vexn, AudioFrame list) proc" where
  "buffer_flush = (\<lambda>b. (Inr (bb_frames b), b\<lparr>bb_frames := [], bb_byte_count := 0\<rparr>))"

definition frames_bytes :: "AudioFrame list \<Rightarrow> int" where
  "frames_bytes fs = (\<Sum>f \<leftarrow> fs. int (length (fr_payload f)))"

lemma frames_bytes_simps [simp]:
  "frames_bytes [] = 0"
  "frames_bytes (f # fs) = int (length (fr_payload f)) + frames_bytes fs"
  "frames_bytes (fs @ gs) = frames_bytes fs + frames_bytes gs"
  by (simp_all add: frames_bytes_def)

lemma frames_bytes_nonneg: "0 \<le> frames_bytes fs"
  by (induction fs) auto

text \<open>The count of bytes is exact and the limits hold.\<close>

definition buffer_ok :: "BoundedAudioBuffer \<Rightarrow> bool" where
  "buffer_ok b \<longleftrightarrow>
     bb_byte_count b = frames_bytes (bb_frames b) \<and> int (length (bb_frames b)) \<le> bb_max_frames b \<and>
     bb_byte_count b \<le> bb_max_bytes b \<and> 0 < bb_max_frames b \<and> 0 < bb_max_bytes b"

lemma BoundedAudioBuffer_init_ok: "BoundedAudioBuffer_init m n = Inr b \<Longrightarrow> buffer_ok b \<and> bb_frames b = []"
  by (auto simp: BoundedAudioBuffer_init_def buffer_ok_def split: if_splits)

lemma buffer_push_ok: "buffer_ok b \<Longrightarrow> buffer_ok (snd (buffer_push f b))"
  by (auto simp: buffer_push_def buffer_ok_def Let_def)

lemma buffer_pop_ok: "buffer_ok b \<Longrightarrow> buffer_ok (snd (buffer_pop b))"
  by (auto simp: buffer_pop_def buffer_ok_def split: list.splits)

lemma buffer_flush_ok: "buffer_ok b \<Longrightarrow> buffer_ok (snd (buffer_flush b))"
  by (auto simp: buffer_flush_def buffer_ok_def)

section \<open>The contract of a bounded queue\<close>

text \<open>
  The laws of a queue whose push may refuse: \<open>items\<close> is the abstraction. A session is a list of pushes
  and pops; \<open>accepted\<close> and \<open>delivered\<close> are the items that came in and went out.
\<close>

datatype 'a queue_op = Push 'a | Pop

locale bounded_queue =
  fixes items :: "'q \<Rightarrow> 'a list"
    and push :: "'a \<Rightarrow> 'q \<Rightarrow> bool \<times> 'q"
    and pop :: "'q \<Rightarrow> 'a option \<times> 'q"
  assumes push_items: "items (snd (push x q)) = (if fst (push x q) then items q @ [x] else items q)"
    and pop_items: "items (snd (pop q)) = tl (items q)"
    and pop_result: "fst (pop q) = (case items q of [] \<Rightarrow> None | x # _ \<Rightarrow> Some x)"
begin

fun run :: "'a queue_op list \<Rightarrow> 'q \<Rightarrow> 'a list \<times> 'a list \<times> 'q" where
  "run [] q = ([], [], q)"
| "run (Push x # cs) q =
     (case push x q of (ok, q') \<Rightarrow> (case run cs q' of (ins, outs, r) \<Rightarrow> (if ok then x # ins else ins, outs, r)))"
| "run (Pop # cs) q =
     (case pop q of (y, q') \<Rightarrow> (case run cs q' of (ins, outs, r) \<Rightarrow>
        (ins, case y of None \<Rightarrow> outs | Some z \<Rightarrow> z # outs, r)))"

lemma fifo: "run cs q = (ins, outs, r) \<Longrightarrow> items q @ ins = outs @ items r"
proof (induction cs arbitrary: q ins outs r)
  case Nil
  then show ?case by simp
next
  case (Cons c cs)
  show ?case
  proof (cases c)
    case (Push x)
    obtain ok q' where p: "push x q = (ok, q')" by fastforce
    obtain ins' outs' r' where rest: "run cs q' = (ins', outs', r')" by (metis prod_cases3)
    with Cons.IH have "items q' @ ins' = outs' @ items r'" by blast
    with Cons.prems Push p rest push_items [of x q] show ?thesis by (auto split: if_splits)
  next
    case Pop
    obtain y q' where p: "pop q = (y, q')" by fastforce
    obtain ins' outs' r' where rest: "run cs q' = (ins', outs', r')" by (metis prod_cases3)
    with Cons.IH have "items q' @ ins' = outs' @ items r'" by blast
    with Cons.prems Pop p rest pop_items [of q] pop_result [of q] show ?thesis
      by (cases "items q") auto
  qed
qed

end

definition push_accepts :: "AudioFrame \<Rightarrow> BoundedAudioBuffer \<Rightarrow> bool \<times> BoundedAudioBuffer" where
  "push_accepts f b = (case buffer_push f b of (r, b') \<Rightarrow> (r = Inr (), b'))"

definition pop_frame :: "BoundedAudioBuffer \<Rightarrow> AudioFrame option \<times> BoundedAudioBuffer" where
  "pop_frame b = (case buffer_pop b of (Inr f, b') \<Rightarrow> (f, b') | (Inl _, b') \<Rightarrow> (None, b'))"

interpretation audio: bounded_queue bb_frames push_accepts pop_frame
  by unfold_locales
    (auto simp: push_accepts_def pop_frame_def buffer_push_def buffer_pop_def Let_def split: list.splits)

text \<open>A session on a buffer: the results of the operations that were accepted or delivered a frame.\<close>

fun buffer_session :: "AudioFrame queue_op list \<Rightarrow> BoundedAudioBuffer \<Rightarrow> AudioFrame list \<times> AudioFrame list \<times> BoundedAudioBuffer" where
  "buffer_session [] b = ([], [], b)"
| "buffer_session (Push f # cs) b =
     (case buffer_push f b of
        (Inr _, b') \<Rightarrow> (case buffer_session cs b' of (ins, outs, c) \<Rightarrow> (f # ins, outs, c))
      | (Inl _, b') \<Rightarrow> buffer_session cs b')"
| "buffer_session (Pop # cs) b =
     (case buffer_pop b of
        (Inr (Some f), b') \<Rightarrow> (case buffer_session cs b' of (ins, outs, c) \<Rightarrow> (ins, f # outs, c))
      | (_, b') \<Rightarrow> buffer_session cs b')"

lemma buffer_session_run: "buffer_session cs b = audio.run cs b"
proof (induction cs b rule: buffer_session.induct)
  case (2 f cs b)
  then show ?case by (auto simp: push_accepts_def [of f b] split: prod.splits sum.splits)
next
  case (3 cs b)
  then show ?case by (auto simp: pop_frame_def [of b] split: prod.splits sum.splits option.splits)
qed simp

lemma buffer_session_ok: "buffer_ok b \<Longrightarrow> buffer_session cs b = (ins, outs, c) \<Longrightarrow> buffer_ok c"
proof (induction cs b arbitrary: ins outs rule: buffer_session.induct)
  case (2 f cs b)
  then show ?case
    using buffer_push_ok [of b f] by (auto split: prod.splits sum.splits)
next
  case (3 cs b)
  then show ?case
    using buffer_pop_ok [of b] by (auto split: prod.splits sum.splits option.splits)
qed simp

text \<open>Over any session of pushes and pops the audio buffer is a bounded first-in first-out queue:
  the frames it held and accepted are exactly those that were delivered, in that order, followed by
  those it still holds; a refused frame changes nothing; and the limits and the byte count stay exact.\<close>

theorem audio_buffer_is_fifo:
  assumes "buffer_ok b" and "buffer_session cs b = (accepted, delivered, c)"
  shows "bb_frames b @ accepted = delivered @ bb_frames c \<and> buffer_ok c \<and>
    (\<forall>f. fst (buffer_push f c) = Inl AudioBackpressureError \<and> snd (buffer_push f c) = c \<or>
      bb_frames (snd (buffer_push f c)) = bb_frames c @ [f] \<and> buffer_ok (snd (buffer_push f c)))"
proof -
  have "bb_frames b @ accepted = delivered @ bb_frames c"
    using assms(2) by (intro audio.fifo) (simp add: buffer_session_run [symmetric])
  moreover have "buffer_ok c" using assms by (rule buffer_session_ok)
  moreover have "fst (buffer_push f c) = Inl AudioBackpressureError \<and> snd (buffer_push f c) = c \<or>
      bb_frames (snd (buffer_push f c)) = bb_frames c @ [f] \<and> buffer_ok (snd (buffer_push f c))" for f
    using buffer_push_ok [OF \<open>buffer_ok c\<close>, of f] by (auto simp: buffer_push_def Let_def)
  ultimately show ?thesis by blast
qed

definition demo_frame :: "int \<Rightarrow> AudioFrame" where
  "demo_frame n = \<lparr>fr_sequence = n, fr_payload = ''ab'', fr_format = AudioFormat_default, fr_captured_at_ms = None\<rparr>"

definition demo_buffer :: BoundedAudioBuffer where
  "demo_buffer = \<lparr>bb_max_frames = 2, bb_max_bytes = 10, bb_frames = [], bb_byte_count = 0\<rparr>"

theorem audio_buffer_is_fifo_witness:
  "\<exists>c. buffer_session [Push (demo_frame 0), Push (demo_frame 1), Push (demo_frame 2), Pop, Push (demo_frame 3)] demo_buffer =
       ([demo_frame 0, demo_frame 1, demo_frame 3], [demo_frame 0], c) \<and>
     bb_frames c = [demo_frame 1, demo_frame 3] \<and> buffer_ok c"
proof -
  have ok: "buffer_ok demo_buffer" by (simp add: buffer_ok_def demo_buffer_def)
  obtain c where c: "buffer_session [Push (demo_frame 0), Push (demo_frame 1), Push (demo_frame 2), Pop, Push (demo_frame 3)] demo_buffer =
      ([demo_frame 0, demo_frame 1, demo_frame 3], [demo_frame 0], c)"
    by (simp add: buffer_push_def buffer_pop_def Let_def demo_buffer_def demo_frame_def)
  with audio_buffer_is_fifo [OF ok c] show ?thesis by (auto simp: demo_buffer_def)
qed

end
