(* ===== verification/Voice_Barge.thy ===== *)
theory Voice_Barge
  imports Voice_Audio
begin

text \<open>
  The fresh-speech gate (src/src/cybercore/voice/barge_shadow.py) and the voice activity states it
  observes (src/src/cybercore/voice/adapters.py). The gate keeps four counters; the reference it is
  proved against looks at the whole history of observations.
\<close>

datatype VadState = SPEECH | SILENCE | UNKNOWN

record FreshSpeechShadowGate =
  fg_required_silence_frames :: int
  fg_required_speech_frames :: int
  fg_armed :: bool
  fg_silence_frames :: int
  fg_speech_frames :: int
  fg_candidate_frame_sequence :: "int option"

definition gate_reset :: "FreshSpeechShadowGate \<Rightarrow> FreshSpeechShadowGate" where
  "gate_reset g =
     g\<lparr>fg_armed := False, fg_silence_frames := 0, fg_speech_frames := 0, fg_candidate_frame_sequence := None\<rparr>"

definition FreshSpeechShadowGate_init :: "int \<Rightarrow> int \<Rightarrow> vexn + FreshSpeechShadowGate" where
  "FreshSpeechShadowGate_init silence speech =
     (if silence \<le> 0 then Inl (ValueError ''required_silence_frames must be positive'')
      else if speech \<le> 0 then Inl (ValueError ''required_speech_frames must be positive'')
      else Inr (gate_reset
        \<lparr>fg_required_silence_frames = silence, fg_required_speech_frames = speech, fg_armed = False,
         fg_silence_frames = 0, fg_speech_frames = 0, fg_candidate_frame_sequence = None\<rparr>))"

record BargeInShadowSnapshot =
  sn_candidate :: bool
  sn_armed :: bool
  sn_silence_frames :: int
  sn_speech_frames :: int
  sn_candidate_frame_sequence :: "int option"

definition gate_snapshot :: "FreshSpeechShadowGate \<Rightarrow> BargeInShadowSnapshot" where
  "gate_snapshot g =
     \<lparr>sn_candidate = (fg_candidate_frame_sequence g \<noteq> None), sn_armed = fg_armed g,
      sn_silence_frames = fg_silence_frames g, sn_speech_frames = fg_speech_frames g,
      sn_candidate_frame_sequence = fg_candidate_frame_sequence g\<rparr>"

definition gate_observe :: "VadState \<Rightarrow> int \<Rightarrow> FreshSpeechShadowGate \<Rightarrow> bool \<times> FreshSpeechShadowGate" where
  "gate_observe vad k g =
     (if fg_candidate_frame_sequence g \<noteq> None then (True, g)
      else if vad = UNKNOWN
        then (False, g\<lparr>fg_armed := False, fg_silence_frames := 0, fg_speech_frames := 0\<rparr>)
      else if \<not> fg_armed g
        then (let g = g\<lparr>fg_speech_frames := 0\<rparr> in
          if vad = SILENCE
          then (let g = g\<lparr>fg_silence_frames := fg_silence_frames g + 1\<rparr> in
            (False, if fg_required_silence_frames g \<le> fg_silence_frames g then g\<lparr>fg_armed := True\<rparr> else g))
          else (False, g\<lparr>fg_silence_frames := 0\<rparr>))
      else if vad = SPEECH
        then (let g = g\<lparr>fg_speech_frames := fg_speech_frames g + 1\<rparr> in
          if fg_required_speech_frames g \<le> fg_speech_frames g
          then (True, g\<lparr>fg_candidate_frame_sequence := Some k\<rparr>)
          else (False, g))
      else (False, g\<lparr>fg_speech_frames := 0\<rparr>))"

fun gate_run :: "VadState list \<Rightarrow> int \<Rightarrow> FreshSpeechShadowGate \<Rightarrow> FreshSpeechShadowGate" where
  "gate_run [] k g = g"
| "gate_run (v # vs) k g = gate_run vs (k + 1) (snd (gate_observe v k g))"

section \<open>The reference\<close>

text \<open>Silence was heard for \<open>n\<close> frames on end, and the detector was never unsure since.\<close>

definition quiet_before :: "nat \<Rightarrow> VadState list \<Rightarrow> bool" where
  "quiet_before n vs \<longleftrightarrow> (\<exists>pre mid. vs = pre @ replicate n SILENCE @ mid \<and> UNKNOWN \<notin> set mid)"

text \<open>After such a silence, \<open>m\<close> frames of speech on end.\<close>

definition fresh_speech :: "nat \<Rightarrow> nat \<Rightarrow> VadState list \<Rightarrow> bool" where
  "fresh_speech n m vs \<longleftrightarrow>
     (\<exists>pre mid post. vs = pre @ replicate n SILENCE @ mid @ replicate m SPEECH @ post \<and> UNKNOWN \<notin> set mid)"

lemma fresh_speech_iff:
  "fresh_speech n m vs \<longleftrightarrow> (\<exists>before post. vs = before @ replicate m SPEECH @ post \<and> quiet_before n before)"
  unfolding fresh_speech_def quiet_before_def by (metis append.assoc)

text \<open>The number of equal observations at the end.\<close>

definition trailing :: "VadState \<Rightarrow> VadState list \<Rightarrow> nat" where
  "trailing v vs = length (takeWhile (\<lambda>x. x = v) (rev vs))"

lemma trailing_snoc [simp]: "trailing v (vs @ [x]) = (if x = v then Suc (trailing v vs) else 0)"
  by (simp add: trailing_def)

lemma trailing_Nil [simp]: "trailing v [] = 0"
  by (simp add: trailing_def)

lemma snoc_replicate: "vs @ [x] = pre @ replicate (Suc k) v \<longleftrightarrow> x = v \<and> vs = pre @ replicate k v"
proof -
  have "pre @ replicate (Suc k) v = (pre @ replicate k v) @ [v]" by (simp add: replicate_append_same)
  then show ?thesis by (auto simp del: replicate.simps append_assoc)
qed

lemma trailing_ge: "n \<le> trailing v vs \<longleftrightarrow> (\<exists>pre. vs = pre @ replicate n v)"
proof (induction vs arbitrary: n rule: rev_induct)
  case Nil
  then show ?case by simp
next
  case (snoc x vs)
  show ?case
  proof (cases n)
    case 0
    then show ?thesis by simp
  next
    case (Suc k)
    then have "(\<exists>pre. vs @ [x] = pre @ replicate n v) \<longleftrightarrow> x = v \<and> (\<exists>pre. vs = pre @ replicate k v)"
      by (auto simp: snoc_replicate simp del: replicate.simps)
    with Suc snoc show ?thesis by auto
  qed
qed

lemma quiet_before_Nil [simp]: "quiet_before n [] \<longleftrightarrow> n = 0"
  by (auto simp: quiet_before_def)

lemma quiet_before_snoc:
  assumes "0 < n"
  shows "quiet_before n (vs @ [x]) \<longleftrightarrow> x \<noteq> UNKNOWN \<and> quiet_before n vs \<or> n \<le> trailing SILENCE (vs @ [x])"
proof
  assume "quiet_before n (vs @ [x])"
  then obtain pre mid where split: "vs @ [x] = pre @ replicate n SILENCE @ mid" and mid: "UNKNOWN \<notin> set mid"
    by (auto simp: quiet_before_def)
  show "x \<noteq> UNKNOWN \<and> quiet_before n vs \<or> n \<le> trailing SILENCE (vs @ [x])"
  proof (cases mid rule: rev_cases)
    case Nil
    with split show ?thesis unfolding trailing_ge by auto
  next
    case (snoc mid' y)
    with split mid show ?thesis by (auto simp: quiet_before_def)
  qed
next
  assume "x \<noteq> UNKNOWN \<and> quiet_before n vs \<or> n \<le> trailing SILENCE (vs @ [x])"
  then show "quiet_before n (vs @ [x])"
  proof
    assume "x \<noteq> UNKNOWN \<and> quiet_before n vs"
    then obtain pre mid where "vs @ [x] = pre @ replicate n SILENCE @ (mid @ [x])" "UNKNOWN \<notin> set (mid @ [x])"
      by (auto simp: quiet_before_def)
    then show ?thesis unfolding quiet_before_def by blast
  next
    assume "n \<le> trailing SILENCE (vs @ [x])"
    then obtain pre where "vs @ [x] = pre @ replicate n SILENCE @ []" unfolding trailing_ge by auto
    then show ?thesis unfolding quiet_before_def by fastforce
  qed
qed

text \<open>The number of speech frames at the end that came after the silence.\<close>

fun speech_after :: "nat \<Rightarrow> VadState list \<Rightarrow> nat" where
  "speech_after n [] = 0"
| "speech_after n (x # vs) = (if x = SPEECH \<and> quiet_before n (rev vs) then Suc (speech_after n vs) else 0)"

lemma speech_after_ge:
  assumes "0 < m"
  shows "m \<le> speech_after n (rev vs) \<longleftrightarrow> (\<exists>before. vs = before @ replicate m SPEECH \<and> quiet_before n before)"
  using assms
proof (induction vs arbitrary: m rule: rev_induct)
  case Nil
  then show ?case by simp
next
  case (snoc x vs)
  obtain k where m: "m = Suc k" using snoc.prems by (cases m) auto
  have split: "(\<exists>before. vs @ [x] = before @ replicate m SPEECH \<and> quiet_before n before) \<longleftrightarrow>
      x = SPEECH \<and> (\<exists>before. vs = before @ replicate k SPEECH \<and> quiet_before n before)"
    by (auto simp: m snoc_replicate simp del: replicate.simps)
  have quiet: "quiet_before n vs" if "vs = before @ replicate k SPEECH" "quiet_before n before" for before
    using that by (force simp: quiet_before_def)
  show ?case
  proof (cases "k = 0")
    case True
    then show ?thesis unfolding split by (simp add: m)
  next
    case False
    with snoc.IH [of k] quiet show ?thesis unfolding split by (auto simp: m)
  qed
qed

lemma fresh_speech_snoc:
  assumes "0 < m"
  shows "fresh_speech n m (vs @ [x]) \<longleftrightarrow> fresh_speech n m vs \<or> m \<le> speech_after n (rev (vs @ [x]))"
proof
  assume "fresh_speech n m (vs @ [x])"
  then obtain before post where split: "vs @ [x] = before @ replicate m SPEECH @ post" and quiet: "quiet_before n before"
    by (auto simp: fresh_speech_iff)
  show "fresh_speech n m vs \<or> m \<le> speech_after n (rev (vs @ [x]))"
  proof (cases post rule: rev_cases)
    case Nil
    with split quiet assms show ?thesis unfolding speech_after_ge [OF assms] by auto
  next
    case (snoc post' y)
    with split quiet show ?thesis by (auto simp: fresh_speech_iff)
  qed
next
  assume "fresh_speech n m vs \<or> m \<le> speech_after n (rev (vs @ [x]))"
  then show "fresh_speech n m (vs @ [x])"
    unfolding fresh_speech_iff speech_after_ge [OF assms]
    by (metis append.assoc append.right_neutral)
qed

section \<open>The gate is the reference\<close>

text \<open>What the counters are, as long as there is no candidate.\<close>

definition gate_matches :: "VadState list \<Rightarrow> FreshSpeechShadowGate \<Rightarrow> bool" where
  "gate_matches vs g \<longleftrightarrow>
     (let n = nat (fg_required_silence_frames g); m = nat (fg_required_speech_frames g) in
      0 < fg_required_silence_frames g \<and> 0 < fg_required_speech_frames g \<and>
      ((fg_candidate_frame_sequence g \<noteq> None) = fresh_speech n m vs) \<and>
      (fg_candidate_frame_sequence g = None \<longrightarrow>
         fg_armed g = quiet_before n vs \<and>
         (\<not> fg_armed g \<longrightarrow> fg_silence_frames g = int (trailing SILENCE vs)) \<and>
         (fg_armed g \<longrightarrow> fg_speech_frames g = int (speech_after n (rev vs)))))"

lemma gate_matches_init:
  assumes "FreshSpeechShadowGate_init silence speech = Inr g"
  shows "gate_matches [] g"
  using assms
  by (auto simp: FreshSpeechShadowGate_init_def gate_matches_def gate_reset_def fresh_speech_def Let_def split: if_splits)

lemma trailing_quiet: "n \<le> trailing SILENCE vs \<Longrightarrow> quiet_before n vs"
  unfolding trailing_ge quiet_before_def by fastforce

lemma gate_matches_observe:
  assumes "gate_matches vs g"
  shows "gate_matches (vs @ [v]) (snd (gate_observe v k g)) \<and>
    fst (gate_observe v k g) = fresh_speech (nat (fg_required_silence_frames g)) (nat (fg_required_speech_frames g)) (vs @ [v])"
proof -
  define n where "n = nat (fg_required_silence_frames g)"
  define m where "m = nat (fg_required_speech_frames g)"
  have pos: "0 < n" "0 < m" using assms by (simp_all add: gate_matches_def n_def m_def Let_def)
  have req: "fg_required_silence_frames g = int n" "fg_required_speech_frames g = int m"
    using assms by (simp_all add: gate_matches_def n_def m_def Let_def)
  note snoc = quiet_before_snoc [OF pos(1), of vs v] fresh_speech_snoc [OF pos(2), of n vs v]
  have m: "(fg_candidate_frame_sequence g \<noteq> None) = fresh_speech n m vs"
    "fg_candidate_frame_sequence g = None \<Longrightarrow> fg_armed g = quiet_before n vs"
    "fg_candidate_frame_sequence g = None \<Longrightarrow> \<not> fg_armed g \<Longrightarrow> fg_silence_frames g = int (trailing SILENCE vs)"
    "fg_candidate_frame_sequence g = None \<Longrightarrow> fg_armed g \<Longrightarrow> fg_speech_frames g = int (speech_after n (rev vs))"
    using assms by (auto simp: gate_matches_def n_def m_def Let_def)
  show ?thesis
    using pos m snoc trailing_quiet [of n vs]
    by (cases v; cases "fg_candidate_frame_sequence g"; cases "fg_armed g")
      (auto simp: gate_matches_def gate_observe_def Let_def req)
qed

text \<open>C24: after any sequence of observations the gate reports a candidate exactly when the history
  contains a run of the required length of silence, then no unsure detection, then a run of the required
  length of speech; and once reported it stays. Speech that was there from the start is never fresh.\<close>

theorem gate_is_fresh_speech:
  assumes "FreshSpeechShadowGate_init silence speech = Inr g"
  shows "sn_candidate (gate_snapshot (gate_run vs k g)) = fresh_speech (nat silence) (nat speech) vs \<and>
    fst (gate_observe v j (gate_run vs k g)) = fresh_speech (nat silence) (nat speech) (vs @ [v]) \<and>
    (SILENCE \<notin> set vs \<longrightarrow> \<not> sn_candidate (gate_snapshot (gate_run vs k g)))"
proof -
  have required: "fg_required_silence_frames (gate_run ws i h) = fg_required_silence_frames h \<and>
      fg_required_speech_frames (gate_run ws i h) = fg_required_speech_frames h" for ws i h
    by (induction ws arbitrary: i h) (auto simp: gate_observe_def Let_def)
  have run: "gate_matches (us @ ws) (gate_run ws i h)" if "gate_matches us h" for us ws i h
    using that
  proof (induction ws arbitrary: us i h)
    case (Cons w ws)
    with gate_matches_observe [of us h w i] have "gate_matches (us @ [w]) (snd (gate_observe w i h))" by blast
    from Cons.IH [OF this, of "i + 1"] show ?case by simp
  qed simp
  have init: "fg_required_silence_frames g = silence" "fg_required_speech_frames g = speech" "0 < silence"
    using assms by (auto simp: FreshSpeechShadowGate_init_def gate_reset_def split: if_splits)
  have matches: "gate_matches vs (gate_run vs k g)"
    using run [OF gate_matches_init [OF assms]] by simp
  moreover have "\<not> fresh_speech (nat silence) (nat speech) vs" if "SILENCE \<notin> set vs"
    using that init(3) by (auto simp: fresh_speech_def)
  ultimately show ?thesis
    using gate_matches_observe [OF matches, of v j] required [of vs k g] init
    by (auto simp: gate_matches_def gate_snapshot_def Let_def)
qed

theorem gate_is_fresh_speech_witness:
  "\<exists>g. FreshSpeechShadowGate_init 2 2 = Inr g \<and>
     sn_candidate (gate_snapshot (gate_run [SPEECH, SILENCE, SILENCE, SPEECH, SILENCE, SPEECH, SPEECH] 0 g)) \<and>
     \<not> sn_candidate (gate_snapshot (gate_run [SPEECH, SPEECH, SPEECH] 0 g))"
proof -
  obtain g where g: "FreshSpeechShadowGate_init 2 2 = Inr g"
    by (simp add: FreshSpeechShadowGate_init_def)
  have "fresh_speech (nat 2) (nat 2) [SPEECH, SILENCE, SILENCE, SPEECH, SILENCE, SPEECH, SPEECH]"
    unfolding fresh_speech_def
    by (rule exI [of _ "[SPEECH]"], rule exI [of _ "[SPEECH, SILENCE]"], rule exI [of _ "[]"]) (simp add: numeral_2_eq_2)
  moreover have "SILENCE \<notin> set [SPEECH, SPEECH, SPEECH]" by simp
  ultimately show ?thesis
    using g gate_is_fresh_speech [OF g] by blast
qed

end
