(* ===== verification/Voice_Session.thy ===== *)
theory Voice_Session
  imports Voice_Barge
begin

text \<open>The voice session (src/src/cybercore/voice/session.py) that the runtime and the router share.\<close>

datatype SessionStatus = SESSION_ACTIVE | SESSION_INTERRUPTED | SESSION_CANCELLED

record VoiceSession =
  vs_session_id :: string
  vs_status :: SessionStatus
  vs_active_intent_id :: "string option"
  vs_interruption_reason :: "string option"
  vs_references :: "string \<rightharpoonup> string"

definition VoiceSession_init :: "string \<Rightarrow> VoiceSession" where
  "VoiceSession_init session_id =
     \<lparr>vs_session_id = session_id, vs_status = SESSION_ACTIVE, vs_active_intent_id = None,
      vs_interruption_reason = None, vs_references = Map.empty\<rparr>"

type_synonym 'a session_proc = "(VoiceSession, vexn, 'a) proc"

definition session_remember :: "string \<Rightarrow> string \<Rightarrow> unit session_proc" where
  "session_remember name v = (\<lambda>s.
     if vs_status s = SESSION_CANCELLED then (Inl (RuntimeError ''cannot update a cancelled voice session''), s)
     else if blank name \<or> blank v
       then (Inl (ValueError ''session references require a non-empty name and value''), s)
     else (Inr (), s\<lparr>vs_references := (vs_references s)(name \<mapsto> v)\<rparr>))"

definition session_resolve :: "string \<Rightarrow> string option session_proc" where
  "session_resolve name = gets (\<lambda>s. vs_references s name)"

definition session_mark_intent :: "string \<Rightarrow> unit session_proc" where
  "session_mark_intent intent_id = (\<lambda>s.
     if vs_status s = SESSION_CANCELLED
       then (Inl (RuntimeError ''cannot activate an intent on a cancelled voice session''), s)
     else if blank intent_id then (Inl (ValueError ''intent id must not be empty''), s)
     else (Inr (), s\<lparr>vs_active_intent_id := Some intent_id\<rparr>))"

definition session_interrupt :: "string \<Rightarrow> unit session_proc" where
  "session_interrupt reason = (\<lambda>s.
     if vs_status s = SESSION_CANCELLED then (Inr (), s)
     else (Inr (), s\<lparr>vs_status := SESSION_INTERRUPTED,
       vs_interruption_reason := Some (if blank reason then ''operator interruption'' else strip reason)\<rparr>))"

definition session_resume :: "unit session_proc" where
  "session_resume = (\<lambda>s.
     if vs_status s = SESSION_CANCELLED then (Inl (RuntimeError ''cannot resume a cancelled voice session''), s)
     else (Inr (), s\<lparr>vs_status := SESSION_ACTIVE, vs_interruption_reason := None\<rparr>))"

definition session_cancel :: "unit session_proc" where
  "session_cancel = modify (\<lambda>s. s\<lparr>vs_status := SESSION_CANCELLED, vs_active_intent_id := None\<rparr>)"

lemmas session_defs = session_remember_def session_resolve_def session_mark_intent_def session_interrupt_def
  session_resume_def session_cancel_def gets_def modify_def

text \<open>The operations other owners of the session call on it.\<close>

datatype session_op =
    Remember string string
  | Mark_intent string
  | Session_interrupt string
  | Session_resume
  | Session_cancel

fun session_call :: "session_op \<Rightarrow> unit session_proc" where
  "session_call (Remember name v) = session_remember name v"
| "session_call (Mark_intent i) = session_mark_intent i"
| "session_call (Session_interrupt reason) = session_interrupt reason"
| "session_call Session_resume = session_resume"
| "session_call Session_cancel = session_cancel"

lemma session_cancelled_stays:
  "vs_status s = SESSION_CANCELLED \<Longrightarrow> vs_status (snd (session_call op s)) = SESSION_CANCELLED"
  by (cases op) (simp_all add: session_defs)

end
