(* ===== verification/Voice_Realtime.thy ===== *)
theory Voice_Realtime
  imports Voice_Session
begin

text \<open>
  The realtime voice runtime (src/src/cybercore/voice/realtime.py): turns of listening, processing and
  speaking, with barge-in and cancellation. Speech detection, recognition, synthesis, the audio
  transport and the event sink are procedures on a world of their own, and each of them may raise. They
  do not call back into the runtime. The time stamp of an event is left out.
\<close>

section \<open>Adapters and events\<close>

record TranscriptDelta =
  td_text :: string
  td_sequence :: int

record TranscriptResult =
  tr_text :: string
  tr_language :: "string option"

datatype RealtimeEventType =
    STATE_CHANGED | INPUT_FRAME_ACCEPTED | INPUT_FRAME_IGNORED | INPUT_BACKPRESSURE | OUTPUT_BACKPRESSURE
  | VAD_EVALUATED | TRANSCRIPT_DELTA | TRANSCRIPT_FINAL | TTS_STARTED | OUTPUT_FRAME_QUEUED
  | OUTPUT_FRAME_SENT | BARGE_IN | AUDIO_FLUSHED | CANCELLED_EVENT

record RealtimeVoiceEvent =
  re_type :: RealtimeEventType
  re_session_id :: string
  re_state :: string
  re_detail :: "(string \<times> string) list"

record 'w transport =
  tp_send :: "AudioFrame \<Rightarrow> ('w, vexn, unit) proc"
  tp_flush_output :: "('w, vexn, unit) proc"

record 'w adapters =
  ad_vad :: "AudioFrame \<Rightarrow> ('w, vexn, VadState) proc"
  ad_stt_push :: "AudioFrame \<Rightarrow> ('w, vexn, TranscriptDelta list) proc"
  ad_stt_finish :: "('w, vexn, TranscriptResult option) proc"
  ad_stt_reset :: "('w, vexn, unit) proc"
  ad_tts_start :: "string \<Rightarrow> ('w, vexn, unit) proc"
  ad_tts_pull :: "('w, vexn, AudioFrame option) proc"
  ad_tts_cancel :: "('w, vexn, unit) proc"
  ad_tts_reset :: "('w, vexn, unit) proc"
  ad_transport :: "'w transport option"
  ad_event_sink :: "(RealtimeVoiceEvent \<Rightarrow> ('w, vexn, unit) proc) option"

record Utterance =
  ut_id :: string
  ut_session_id :: string
  ut_actor_id :: string
  ut_text :: string

definition Utterance_init :: "Utterance \<Rightarrow> vexn + Utterance" where
  "Utterance_init u =
     (if blank (ut_id u) then Inl (ValueError ''utterance id must not be empty'')
      else if blank (ut_session_id u) then Inl (ValueError ''utterance session_id must not be empty'')
      else if blank (ut_actor_id u) then Inl (ValueError ''utterance actor_id must not be empty'')
      else if blank (ut_text u) then Inl (ValueError ''utterance text must not be empty'')
      else Inr u)"

section \<open>The runtime\<close>

datatype RealtimeState = IDLE | LISTENING | PROCESSING | SPEAKING | INTERRUPTED | CANCELLED

fun state_value :: "RealtimeState \<Rightarrow> string" where
  "state_value IDLE = ''idle''"
| "state_value LISTENING = ''listening''"
| "state_value PROCESSING = ''processing''"
| "state_value SPEAKING = ''speaking''"
| "state_value INTERRUPTED = ''interrupted''"
| "state_value CANCELLED = ''cancelled''"

fun vad_value :: "VadState \<Rightarrow> string" where
  "vad_value SPEECH = ''speech''"
| "vad_value SILENCE = ''silence''"
| "vad_value UNKNOWN = ''unknown''"

record 'w realtime =
  vr_session :: VoiceSession
  vr_state :: RealtimeState
  vr_input :: BoundedAudioBuffer
  vr_output :: BoundedAudioBuffer
  vr_exhausted :: bool
  vr_world :: 'w

type_synonym ('w, 'a) voice_proc = "('w realtime, vexn, 'a) proc"

definition realtime_init :: "VoiceSession \<Rightarrow> int \<Rightarrow> int \<Rightarrow> int \<Rightarrow> int \<Rightarrow> 'w \<Rightarrow> vexn + 'w realtime" where
  "realtime_init session input_frames input_bytes output_frames output_bytes w =
     (if vs_status session = SESSION_CANCELLED
      then Inl (ValueError ''cannot create realtime runtime for a cancelled voice session'')
      else case BoundedAudioBuffer_init input_frames input_bytes of Inl e \<Rightarrow> Inl e | Inr i \<Rightarrow>
        (case BoundedAudioBuffer_init output_frames output_bytes of Inl e \<Rightarrow> Inl e | Inr out \<Rightarrow>
          Inr \<lparr>vr_session = session, vr_state = IDLE, vr_input = i, vr_output = out, vr_exhausted = False,
            vr_world = w\<rparr>))"

definition adapter :: "('w, vexn, 'a) proc \<Rightarrow> ('w, 'a) voice_proc" where
  "adapter m = zoom vr_world (\<lambda>w s. s\<lparr>vr_world := w\<rparr>) m"

definition on_session :: "'a session_proc \<Rightarrow> ('w, 'a) voice_proc" where
  "on_session m = zoom vr_session (\<lambda>x s. s\<lparr>vr_session := x\<rparr>) m"

definition on_input :: "(BoundedAudioBuffer, vexn, 'a) proc \<Rightarrow> ('w, 'a) voice_proc" where
  "on_input m = zoom vr_input (\<lambda>x s. s\<lparr>vr_input := x\<rparr>) m"

definition on_output :: "(BoundedAudioBuffer, vexn, 'a) proc \<Rightarrow> ('w, 'a) voice_proc" where
  "on_output m = zoom vr_output (\<lambda>x s. s\<lparr>vr_output := x\<rparr>) m"

definition set_exhausted :: "bool \<Rightarrow> ('w, unit) voice_proc" where
  "set_exhausted b = modify (\<lambda>s. s\<lparr>vr_exhausted := b\<rparr>)"

definition only_if :: "bool \<Rightarrow> ('s, 'e, unit) proc \<Rightarrow> ('s, 'e, unit) proc" where
  "only_if b m = (if b then m else ret ())"

definition voice_emit :: "'w adapters \<Rightarrow> RealtimeEventType \<Rightarrow> (string \<times> string) list \<Rightarrow> ('w, unit) voice_proc" where
  "voice_emit ad type detail =
     (case ad_event_sink ad of
        None \<Rightarrow> ret ()
      | Some sink \<Rightarrow> bind (gets id) (\<lambda>s. adapter (sink
          \<lparr>re_type = type, re_session_id = vs_session_id (vr_session s), re_state = state_value (vr_state s),
           re_detail = detail\<rparr>)))"

definition voice_transition :: "'w adapters \<Rightarrow> RealtimeState \<Rightarrow> string \<Rightarrow> ('w, unit) voice_proc" where
  "voice_transition ad target reason =
     bind (gets vr_state) (\<lambda>previous.
     if previous = CANCELLED \<and> target \<noteq> CANCELLED
     then raise (RuntimeError ''cancelled realtime runtime is terminal'')
     else seq (modify (\<lambda>s. s\<lparr>vr_state := target\<rparr>))
       (voice_emit ad STATE_CHANGED
         [(''previous'', state_value previous), (''current'', state_value target), (''reason'', reason)]))"

definition start_listening :: "'w adapters \<Rightarrow> ('w, unit) voice_proc" where
  "start_listening ad =
     bind (gets id) (\<lambda>s.
     if vr_state s \<notin> {IDLE, INTERRUPTED}
     then raise (RuntimeError (''cannot start listening from '' @ state_value (vr_state s)))
     else
       seq (only_if (vr_state s = INTERRUPTED \<and> vs_status (vr_session s) = SESSION_INTERRUPTED)
              (on_session session_resume))
       (seq (adapter (ad_stt_reset ad))
       (seq (on_input buffer_flush)
       (voice_transition ad LISTENING ''input turn started''))))"

definition flush_transport :: "'w adapters \<Rightarrow> ('w, unit) voice_proc" where
  "flush_transport ad =
     (case ad_transport ad of None \<Rightarrow> ret () | Some t \<Rightarrow> adapter (tp_flush_output t))"

definition emit_flushed :: "'w adapters \<Rightarrow> AudioFrame list \<Rightarrow> AudioFrame list \<Rightarrow> ('w, unit) voice_proc" where
  "emit_flushed ad ins outs =
     voice_emit ad AUDIO_FLUSHED
       [(''input_frames'', nat_str (length ins)), (''output_frames'', nat_str (length outs))]"

definition interrupt_active_turn :: "'w adapters \<Rightarrow> string \<Rightarrow> ('w, unit) voice_proc" where
  "interrupt_active_turn ad reason =
     bind (gets vr_state) (\<lambda>st.
     if st = CANCELLED then ret ()
     else
       seq (adapter (ad_tts_cancel ad))
       (seq (adapter (ad_stt_reset ad))
       (bind (on_input buffer_flush) (\<lambda>ins.
       bind (on_output buffer_flush) (\<lambda>outs.
       seq (flush_transport ad)
       (seq (set_exhausted False)
       (seq (on_session (session_interrupt reason))
       (seq (voice_transition ad INTERRUPTED reason)
       (emit_flushed ad ins outs)))))))))"

definition emit_sequence ::
  "'w adapters \<Rightarrow> RealtimeEventType \<Rightarrow> AudioFrame \<Rightarrow> (string \<times> string) list \<Rightarrow> ('w, unit) voice_proc" where
  "emit_sequence ad type f detail = voice_emit ad type ((''frame_sequence'', int_str (fr_sequence f)) # detail)"

text \<open>\<open>len\<close> of a \<open>str\<close>: the bytes that do not continue a character.\<close>

definition characters :: "string \<Rightarrow> nat" where
  "characters s = length (filter (\<lambda>c. (of_char c :: nat) < 128 \<or> 192 \<le> (of_char c :: nat)) s)"

fun emit_deltas :: "'w adapters \<Rightarrow> TranscriptDelta list \<Rightarrow> ('w, unit) voice_proc" where
  "emit_deltas ad [] = ret ()"
| "emit_deltas ad (d # ds) =
     seq (voice_emit ad TRANSCRIPT_DELTA
       [(''transcript_sequence'', int_str (td_sequence d)), (''characters'', nat_str (characters (td_text d)))])
     (emit_deltas ad ds)"

text \<open>From the check that input is accepted on.\<close>

definition accept_input :: "'w adapters \<Rightarrow> AudioFrame \<Rightarrow> ('w, TranscriptDelta list) voice_proc" where
  "accept_input ad f =
     bind (gets vr_state) (\<lambda>st.
     if st \<notin> {LISTENING, INTERRUPTED}
     then raise (RuntimeError (''cannot accept input while '' @ state_value st))
     else
       seq (handle (on_input (buffer_push f)) (\<lambda>e.
         if e = AudioBackpressureError then Some (seq (emit_sequence ad INPUT_BACKPRESSURE f []) (raise e)) else None))
       (bind (adapter (ad_stt_push ad f)) (\<lambda>deltas.
       seq (emit_sequence ad INPUT_FRAME_ACCEPTED f [])
       (seq (emit_deltas ad deltas)
       (ret deltas)))))"

text \<open>After the barge-in of a speech frame: an idle runtime starts to listen.\<close>

definition open_input :: "'w adapters \<Rightarrow> AudioFrame \<Rightarrow> VadState \<Rightarrow> ('w, TranscriptDelta list) voice_proc" where
  "open_input ad f vad =
     bind (gets vr_state) (\<lambda>st.
     if st = IDLE
     then (if vad \<noteq> SPEECH
       then seq (emit_sequence ad INPUT_FRAME_IGNORED f [(''reason'', ''idle input was not classified as speech'')])
         (ret [])
       else seq (start_listening ad) (accept_input ad f))
     else accept_input ad f)"

definition receive_input :: "'w adapters \<Rightarrow> AudioFrame \<Rightarrow> ('w, TranscriptDelta list) voice_proc" where
  "receive_input ad f =
     bind (gets vr_state) (\<lambda>st.
     if st = CANCELLED then raise (RuntimeError ''cannot receive audio after cancellation'')
     else bind (adapter (ad_vad ad f)) (\<lambda>vad.
       seq (emit_sequence ad VAD_EVALUATED f [(''vad_state'', vad_value vad)])
       (if st \<in> {SPEAKING, PROCESSING}
        then (if vad \<noteq> SPEECH
          then seq (emit_sequence ad INPUT_FRAME_IGNORED f
                 [(''reason'', state_value st @ '' input was not classified as speech'')])
            (ret [])
          else (let reason = ''speech detected during '' @ state_value st in
            seq (interrupt_active_turn ad reason)
            (seq (emit_sequence ad BARGE_IN f [(''reason'', reason)])
            (open_input ad f vad))))
        else open_input ad f vad)))"

definition finish_utterance :: "'w adapters \<Rightarrow> string \<Rightarrow> string \<Rightarrow> ('w, Utterance option) voice_proc" where
  "finish_utterance ad actor_id utterance_id =
     bind (gets vr_state) (\<lambda>st.
     if st \<notin> {LISTENING, INTERRUPTED}
     then raise (RuntimeError (''cannot finish input while '' @ state_value st))
     else
       bind (adapter (ad_stt_finish ad)) (\<lambda>result.
       seq (on_input buffer_flush)
       (bind (gets vr_session) (\<lambda>session.
       seq (only_if (vs_status session = SESSION_INTERRUPTED) (on_session session_resume))
       (case (case result of None \<Rightarrow> None | Some r \<Rightarrow> if blank (tr_text r) then None else Some r) of
          None \<Rightarrow> seq (voice_transition ad IDLE ''input turn produced no utterance'') (ret None)
        | Some r \<Rightarrow>
            seq (voice_transition ad PROCESSING ''input turn finalized'')
            (seq (voice_emit ad TRANSCRIPT_FINAL
               [(''characters'', nat_str (characters (tr_text r))),
                (''language'', case tr_language r of None \<Rightarrow> [] | Some l \<Rightarrow> l)])
            (bind (lift (Utterance_init
               \<lparr>ut_id = utterance_id, ut_session_id = vs_session_id session, ut_actor_id = actor_id,
                ut_text = tr_text r\<rparr>)) (\<lambda>u. ret (Some u)))))))))"

definition begin_speaking :: "'w adapters \<Rightarrow> string \<Rightarrow> ('w, unit) voice_proc" where
  "begin_speaking ad speech =
     bind (gets vr_state) (\<lambda>st.
     if st \<noteq> PROCESSING then raise (RuntimeError (''cannot begin speaking from '' @ state_value st))
     else if blank speech then raise (ValueError ''TTS text must not be empty'')
     else
       seq (on_output buffer_flush)
       (seq (adapter (ad_tts_reset ad))
       (seq (adapter (ad_tts_start ad speech))
       (seq (set_exhausted False)
       (seq (voice_transition ad SPEAKING ''output turn started'')
       (voice_emit ad TTS_STARTED []))))))"

definition settle_output_if_complete :: "'w adapters \<Rightarrow> ('w, unit) voice_proc" where
  "settle_output_if_complete ad =
     bind (gets id) (\<lambda>s.
     only_if (vr_state s = SPEAKING \<and> vr_exhausted s \<and> bb_frames (vr_output s) = [])
       (seq (adapter (ad_tts_reset ad))
       (seq (set_exhausted False)
       (voice_transition ad IDLE ''output turn completed''))))"

text \<open>The frames that are still to be pulled, and the number of those queued.\<close>

fun pump_loop :: "'w adapters \<Rightarrow> nat \<Rightarrow> int \<Rightarrow> ('w, int) voice_proc" where
  "pump_loop ad 0 queued = ret queued"
| "pump_loop ad (Suc n) queued =
     bind (adapter (ad_tts_pull ad)) (\<lambda>frame.
     case frame of
       None \<Rightarrow> seq (set_exhausted True) (ret queued)
     | Some f \<Rightarrow>
         seq (handle (on_output (buffer_push f)) (\<lambda>e.
           if e = AudioBackpressureError
           then Some (seq (emit_sequence ad OUTPUT_BACKPRESSURE f [])
             (seq (interrupt_active_turn ad ''output backpressure'') (raise e)))
           else None))
         (seq (emit_sequence ad OUTPUT_FRAME_QUEUED f [])
         (pump_loop ad n (queued + 1))))"

definition pump_synthesis :: "'w adapters \<Rightarrow> int \<Rightarrow> ('w, int) voice_proc" where
  "pump_synthesis ad max_frames =
     bind (gets vr_state) (\<lambda>st.
     if st \<noteq> SPEAKING then raise (RuntimeError (''cannot synthesize output while '' @ state_value st))
     else if max_frames \<le> 0 then raise (ValueError ''max_frames must be positive'')
     else bind (pump_loop ad (nat max_frames) 0) (\<lambda>queued.
       seq (settle_output_if_complete ad) (ret queued)))"

definition next_output_frame :: "'w adapters \<Rightarrow> ('w, AudioFrame option) voice_proc" where
  "next_output_frame ad =
     bind (on_output buffer_pop) (\<lambda>frame. seq (settle_output_if_complete ad) (ret frame))"

definition send_next_output :: "'w adapters \<Rightarrow> ('w, bool) voice_proc" where
  "send_next_output ad =
     (case ad_transport ad of
        None \<Rightarrow> raise (RuntimeError ''no realtime audio transport is configured'')
      | Some t \<Rightarrow>
          bind (on_output buffer_pop) (\<lambda>frame.
          case frame of
            None \<Rightarrow> seq (settle_output_if_complete ad) (ret False)
          | Some f \<Rightarrow>
              seq (adapter (tp_send t f))
              (seq (emit_sequence ad OUTPUT_FRAME_SENT f [])
              (seq (settle_output_if_complete ad) (ret True)))))"

definition barge_in :: "'w adapters \<Rightarrow> string \<Rightarrow> ('w, unit) voice_proc" where
  "barge_in ad reason =
     bind (gets vr_state) (\<lambda>st.
     if st \<notin> {PROCESSING, SPEAKING} then raise (RuntimeError (''cannot barge in while '' @ state_value st))
     else seq (interrupt_active_turn ad reason) (voice_emit ad BARGE_IN [(''reason'', reason)]))"

definition voice_cancel :: "'w adapters \<Rightarrow> string \<Rightarrow> ('w, unit) voice_proc" where
  "voice_cancel ad reason =
     bind (gets vr_state) (\<lambda>st.
     if st = CANCELLED then ret ()
     else
       seq (adapter (ad_tts_cancel ad))
       (seq (adapter (ad_stt_reset ad))
       (bind (on_input buffer_flush) (\<lambda>ins.
       bind (on_output buffer_flush) (\<lambda>outs.
       seq (flush_transport ad)
       (seq (set_exhausted False)
       (seq (on_session session_cancel)
       (seq (voice_transition ad CANCELLED reason)
       (seq (emit_flushed ad ins outs)
       (voice_emit ad CANCELLED_EVENT [(''reason'', reason)]))))))))))"

section \<open>Commands\<close>

text \<open>What the owners of the runtime and of its session may call, in any order.\<close>

datatype voice_cmd =
    Start_listening
  | Receive_input AudioFrame
  | Finish_utterance string string
  | Begin_speaking string
  | Pump_synthesis int
  | Next_output
  | Send_next_output
  | Barge_in string
  | Cancel string
  | Session session_op

definition discard :: "('s, 'e, 'a) proc \<Rightarrow> ('s, 'e, unit) proc" where
  "discard m = bind m (\<lambda>_. ret ())"

fun voice_call :: "'w adapters \<Rightarrow> voice_cmd \<Rightarrow> ('w, unit) voice_proc" where
  "voice_call ad Start_listening = start_listening ad"
| "voice_call ad (Receive_input f) = discard (receive_input ad f)"
| "voice_call ad (Finish_utterance a u) = discard (finish_utterance ad a u)"
| "voice_call ad (Begin_speaking t) = begin_speaking ad t"
| "voice_call ad (Pump_synthesis n) = discard (pump_synthesis ad n)"
| "voice_call ad Next_output = discard (next_output_frame ad)"
| "voice_call ad Send_next_output = discard (send_next_output ad)"
| "voice_call ad (Barge_in r) = barge_in ad r"
| "voice_call ad (Cancel r) = voice_cancel ad r"
| "voice_call ad (Session op) = on_session (session_call op)"

definition voice_step :: "'w adapters \<Rightarrow> voice_cmd \<Rightarrow> 'w realtime \<Rightarrow> 'w realtime" where
  "voice_step ad c s = snd (voice_call ad c s)"

end
