(* ===== verification/Voice_Turns.thy ===== *)
theory Voice_Turns
  imports Voice_Realtime
begin

text \<open>
  What the realtime runtime guarantees whatever its adapters do, raising included: its buffers stay
  bounded and belong to the turn that is on, it moves only along the turn-taking protocol below, speech
  interrupts it at once, cancellation is final, and what is queued is played in order.
\<close>

section \<open>Rules for the parts\<close>

lemma wp_adapter:
  assumes "\<And>a w. Q a (s\<lparr>vr_world := w\<rparr>)" and "\<And>e w. E e (s\<lparr>vr_world := w\<rparr>)"
  shows "wp (adapter m) Q E s"
  using assms by (auto simp: adapter_def wp_def zoom_def split: prod.splits sum.splits)

lemma wp_voice_emit:
  assumes "\<And>w. Q () (s\<lparr>vr_world := w\<rparr>)" and "\<And>e w. E e (s\<lparr>vr_world := w\<rparr>)"
  shows "wp (voice_emit ad type detail) Q E s"
proof (cases "ad_event_sink ad")
  case None
  then show ?thesis using assms(1) [of "vr_world s"] by (simp add: voice_emit_def wp_simps)
next
  case (Some sink)
  then show ?thesis using assms by (simp add: voice_emit_def wp_simps wp_adapter)
qed

lemma wp_emit_sequence:
  assumes "\<And>w. Q () (s\<lparr>vr_world := w\<rparr>)" and "\<And>e w. E e (s\<lparr>vr_world := w\<rparr>)"
  shows "wp (emit_sequence ad type f detail) Q E s"
  unfolding emit_sequence_def by (rule wp_voice_emit) (fact assms)+

lemma wp_flush_transport:
  assumes "\<And>w. Q () (s\<lparr>vr_world := w\<rparr>)" and "\<And>e w. E e (s\<lparr>vr_world := w\<rparr>)"
  shows "wp (flush_transport ad) Q E s"
proof (cases "ad_transport ad")
  case None
  then show ?thesis using assms(1) [of "vr_world s"] by (simp add: flush_transport_def wp_simps)
next
  case (Some t)
  then show ?thesis using assms by (simp add: flush_transport_def wp_adapter)
qed

lemma wp_emit_deltas:
  assumes "\<And>w. Q () (s\<lparr>vr_world := w\<rparr>)" and "\<And>e w. E e (s\<lparr>vr_world := w\<rparr>)"
  shows "wp (emit_deltas ad ds) Q E s"
  using assms
proof (induction ds arbitrary: s)
  case Nil
  from Nil(1) [of "vr_world s"] show ?case by (simp add: wp_simps)
next
  case (Cons d ds)
  show ?case
    unfolding emit_deltas.simps wp_seq
    by (rule wp_voice_emit, rule Cons.IH) (use Cons.prems in simp_all)
qed

lemmas wp_outside = wp_adapter wp_voice_emit wp_emit_sequence wp_flush_transport wp_emit_deltas

definition flushed :: "BoundedAudioBuffer \<Rightarrow> BoundedAudioBuffer" where
  "flushed b = b\<lparr>bb_frames := [], bb_byte_count := 0\<rparr>"

lemma flushed_simps [simp]:
  "bb_frames (flushed b) = []" "bb_max_frames (flushed b) = bb_max_frames b" "bb_max_bytes (flushed b) = bb_max_bytes b"
  "buffer_ok b \<Longrightarrow> buffer_ok (flushed b)"
  using buffer_flush_ok [of b] by (simp_all add: flushed_def buffer_flush_def)

lemma wp_buffers [simp]:
  "wp (on_input buffer_flush) Q E s =
     Q (bb_frames (vr_input s)) (s\<lparr>vr_input := flushed (vr_input s)\<rparr>)"
  "wp (on_output buffer_flush) Q E s =
     Q (bb_frames (vr_output s)) (s\<lparr>vr_output := flushed (vr_output s)\<rparr>)"
  by (simp_all add: flushed_def on_input_def on_output_def wp_def zoom_def buffer_flush_def)

lemma wp_set_exhausted [simp]: "wp (set_exhausted b) Q E s = Q () (s\<lparr>vr_exhausted := b\<rparr>)"
  by (simp add: set_exhausted_def wp_simps)

lemma wp_only_if [simp]: "wp (only_if b m) Q E s = (if b then wp m Q E s else Q () s)"
  by (simp add: only_if_def wp_simps)

lemma wp_on_session [simp]:
  "wp (on_session m) Q E s =
     wp m (\<lambda>a x. Q a (s\<lparr>vr_session := x\<rparr>)) (\<lambda>e x. E e (s\<lparr>vr_session := x\<rparr>)) (vr_session s)"
  by (simp add: on_session_def wp_zoom)

lemma wp_session_resume [simp]:
  "wp session_resume Q E x =
     (if vs_status x = SESSION_CANCELLED then E (RuntimeError ''cannot resume a cancelled voice session'') x
      else Q () (x\<lparr>vs_status := SESSION_ACTIVE, vs_interruption_reason := None\<rparr>))"
  by (simp add: session_resume_def wp_def)

lemma wp_session_cancel [simp]:
  "wp session_cancel Q E x = Q () (x\<lparr>vs_status := SESSION_CANCELLED, vs_active_intent_id := None\<rparr>)"
  by (simp add: session_cancel_def wp_simps)

lemma wp_session_interrupt:
  assumes "\<And>y. vs_status y = (if vs_status x = SESSION_CANCELLED then SESSION_CANCELLED else SESSION_INTERRUPTED) \<Longrightarrow> Q () y"
  shows "wp (session_interrupt reason) Q E x"
  using assms by (simp add: session_interrupt_def wp_def)

lemma wp_voice_transition:
  assumes "vr_state s = CANCELLED \<longrightarrow> target = CANCELLED"
    and "\<And>w. Q () (s\<lparr>vr_state := target, vr_world := w\<rparr>)" and "\<And>e w. E e (s\<lparr>vr_state := target, vr_world := w\<rparr>)"
  shows "wp (voice_transition ad target reason) Q E s"
  unfolding voice_transition_def using assms by (auto simp: wp_simps intro!: wp_voice_emit)

section \<open>The invariant\<close>

definition runtime_ok :: "'w realtime \<Rightarrow> bool" where
  "runtime_ok s \<longleftrightarrow>
     buffer_ok (vr_input s) \<and> buffer_ok (vr_output s) \<and>
     (bb_frames (vr_input s) \<noteq> [] \<longrightarrow> vr_state s = LISTENING \<or> vr_state s = INTERRUPTED) \<and>
     (bb_frames (vr_output s) \<noteq> [] \<longrightarrow> vr_state s = SPEAKING) \<and>
     (vr_exhausted s \<longrightarrow> vr_state s = SPEAKING) \<and>
     (vr_state s = CANCELLED \<longrightarrow> vs_status (vr_session s) = SESSION_CANCELLED)"

lemma runtime_ok_world [simp]: "runtime_ok (s\<lparr>vr_world := w\<rparr>) = runtime_ok s"
  by (simp add: runtime_ok_def)

lemma runtime_ok_flushed:
  assumes "runtime_ok s" and "vr_input t = flushed (vr_input s)" and "vr_output t = flushed (vr_output s)"
    and "vr_exhausted t \<Longrightarrow> vr_state t = SPEAKING"
    and "vr_state t = CANCELLED \<Longrightarrow> vs_status (vr_session t) = SESSION_CANCELLED"
  shows "runtime_ok t"
  using assms by (simp add: runtime_ok_def)

lemma runtime_ok_same:
  assumes "runtime_ok s" and "vr_input t = vr_input s" and "vr_output t = vr_output s" and "vr_exhausted t = vr_exhausted s"
    and "vr_state t = vr_state s" and "vr_state t = CANCELLED \<Longrightarrow> vs_status (vr_session t) = SESSION_CANCELLED"
  shows "runtime_ok t"
  using assms by (simp add: runtime_ok_def)

lemma realtime_init_ok: "realtime_init session i ib out outb w = Inr s \<Longrightarrow> runtime_ok s \<and> vr_state s = IDLE"
  by (auto simp: realtime_init_def runtime_ok_def dest: BoundedAudioBuffer_init_ok split: if_splits sum.splits)

section \<open>Turn taking\<close>

inductive turn :: "voice_cmd \<Rightarrow> RealtimeState \<Rightarrow> RealtimeState \<Rightarrow> bool" where
  listen: "st = IDLE \<or> st = INTERRUPTED \<Longrightarrow> turn Start_listening st LISTENING"
| speech_opens: "turn (Receive_input f) IDLE LISTENING"
| speech_interrupts: "st = PROCESSING \<or> st = SPEAKING \<Longrightarrow> turn (Receive_input f) st INTERRUPTED"
| utterance: "st = LISTENING \<or> st = INTERRUPTED \<Longrightarrow> turn (Finish_utterance a u) st PROCESSING"
| no_utterance: "st = LISTENING \<or> st = INTERRUPTED \<Longrightarrow> turn (Finish_utterance a u) st IDLE"
| speak: "turn (Begin_speaking t) PROCESSING SPEAKING"
| spoken: "turn (Pump_synthesis n) SPEAKING IDLE"
| overflow: "turn (Pump_synthesis n) SPEAKING INTERRUPTED"
| played: "c = Next_output \<or> c = Send_next_output \<Longrightarrow> turn c SPEAKING IDLE"
| barge: "st = PROCESSING \<or> st = SPEAKING \<Longrightarrow> turn (Barge_in r) st INTERRUPTED"
| cancelled: "turn (Cancel r) st CANCELLED"

inductive_simps turn_simps:
  "turn Start_listening st st'" "turn (Receive_input f) st st'" "turn (Finish_utterance a u) st st'"
  "turn (Begin_speaking t) st st'" "turn (Pump_synthesis n) st st'" "turn Next_output st st'"
  "turn Send_next_output st st'" "turn (Barge_in r) st st'" "turn (Cancel r) st st'" "turn (Session op) st st'"

lemma start_listening_ok:
  assumes ok: "runtime_ok s"
    and Q: "\<And>t. runtime_ok t \<Longrightarrow> vr_state t = LISTENING \<Longrightarrow> vr_state s = IDLE \<or> vr_state s = INTERRUPTED \<Longrightarrow>
      bb_frames (vr_input t) = [] \<Longrightarrow> Q () t"
    and E: "\<And>e t. runtime_ok t \<Longrightarrow> vr_state t = vr_state s \<or> vr_state t = LISTENING \<and> (vr_state s = IDLE \<or> vr_state s = INTERRUPTED) \<Longrightarrow> E e t"
  shows "wp (start_listening ad) Q E s"
proof (cases "vr_state s = IDLE \<or> vr_state s = INTERRUPTED")
  case False
  with ok E [of s] show ?thesis by (auto simp: start_listening_def wp_simps)
next
  case True
  have quiet: "bb_frames (vr_output s) = []" "\<not> vr_exhausted s" "buffer_ok (vr_input s)" "buffer_ok (vr_output s)"
    using ok True by (auto simp: runtime_ok_def)
  have L: "runtime_ok t" if "vr_state t = LISTENING" "vr_output t = vr_output s" "vr_exhausted t = vr_exhausted s"
    "vr_input t = flushed (vr_input s)" for t
    using that quiet by (simp add: runtime_ok_def)
  have S: "runtime_ok t" if "vr_state t = vr_state s" "vr_output t = vr_output s" "vr_exhausted t = vr_exhausted s"
    "vr_input t = vr_input s" for t
    by (rule runtime_ok_same [OF ok]) (use that True in auto)
  show ?thesis
    using True unfolding start_listening_def
    by (auto simp: wp_simps intro!: wp_outside wp_voice_transition Q E) ((rule L; simp; fail) | (rule S; simp; fail))+
qed

lemma interrupt_active_turn_ok:
  assumes ok: "runtime_ok s" and active: "vr_state s = PROCESSING \<or> vr_state s = SPEAKING"
    and Q: "\<And>t. runtime_ok t \<Longrightarrow> vr_state t = INTERRUPTED \<Longrightarrow> bb_frames (vr_input t) = [] \<Longrightarrow>
      bb_max_frames (vr_input t) = bb_max_frames (vr_input s) \<Longrightarrow> bb_max_bytes (vr_input t) = bb_max_bytes (vr_input s) \<Longrightarrow> Q () t"
    and E: "\<And>e t. runtime_ok t \<Longrightarrow> vr_state t = vr_state s \<or> vr_state t = INTERRUPTED \<Longrightarrow> E e t"
  shows "wp (interrupt_active_turn ad reason) Q E s"
proof -
  have st: "vr_state s \<noteq> CANCELLED" "vr_exhausted s \<longrightarrow> vr_state s = SPEAKING" using ok active by (auto simp: runtime_ok_def)
  have S: "runtime_ok t" if "vr_state t = vr_state s" "vr_output t = vr_output s" "vr_exhausted t = vr_exhausted s"
    "vr_input t = vr_input s" for t
    by (rule runtime_ok_same [OF ok]) (use that st in auto)
  have F: "runtime_ok t" if "vr_state t = vr_state s \<and> vr_exhausted t = vr_exhausted s \<or> vr_state t = INTERRUPTED \<and> \<not> vr_exhausted t"
    "vr_output t = flushed (vr_output s)" "vr_input t = flushed (vr_input s)" for t
    by (rule runtime_ok_flushed [OF ok]) (use that st in auto)
  show ?thesis
    using active unfolding interrupt_active_turn_def emit_flushed_def
    by (auto simp: wp_simps intro!: wp_outside wp_voice_transition wp_session_interrupt Q E)
      ((rule F; simp; fail) | (rule S; simp; fail))+
qed

lemma pushed:
  assumes "buffer_push f b = (Inr (), b')"
  shows "bb_frames b' = bb_frames b @ [f]" "bb_max_frames b' = bb_max_frames b" "bb_max_bytes b' = bb_max_bytes b"
    "buffer_ok b \<Longrightarrow> buffer_ok b'" "int (length (bb_frames b)) < bb_max_frames b"
  using assms buffer_push_ok [of b f] by (auto simp: buffer_push_def Let_def split: if_splits)

lemma wp_push:
  assumes "\<And>b'. buffer_push f (get s) = (Inr (), b') \<Longrightarrow> Q () (put b' s)"
    and "put (get s) s = s" and "E AudioBackpressureError s"
  shows "wp (zoom get put (buffer_push f)) Q E s"
  using assms by (auto simp: wp_def zoom_def buffer_push_def Let_def)

lemma wp_push_input:
  assumes "\<And>b'. buffer_push f (vr_input s) = (Inr (), b') \<Longrightarrow> Q () (s\<lparr>vr_input := b'\<rparr>)"
    and "E AudioBackpressureError s"
  shows "wp (on_input (buffer_push f)) Q E s"
  unfolding on_input_def by (rule wp_push) (simp_all add: assms)

lemma wp_push_output:
  assumes "\<And>b'. buffer_push f (vr_output s) = (Inr (), b') \<Longrightarrow> Q () (s\<lparr>vr_output := b'\<rparr>)"
    and "E AudioBackpressureError s"
  shows "wp (on_output (buffer_push f)) Q E s"
  unfolding on_output_def by (rule wp_push) (simp_all add: assms)

lemma accept_input_ok:
  assumes ok: "runtime_ok s"
    and Q: "\<And>ds t. runtime_ok t \<Longrightarrow> vr_state t = vr_state s \<Longrightarrow> bb_frames (vr_input t) = bb_frames (vr_input s) @ [f] \<Longrightarrow>
      bb_max_frames (vr_input t) = bb_max_frames (vr_input s) \<Longrightarrow>
      int (length (bb_frames (vr_input s))) < bb_max_frames (vr_input s) \<Longrightarrow> Q ds t"
    and E: "\<And>e t. runtime_ok t \<Longrightarrow> vr_state t = vr_state s \<Longrightarrow>
      int (length (bb_frames (vr_input s))) < bb_max_frames (vr_input s) \<or> vr_input t = vr_input s \<Longrightarrow> E e t"
  shows "wp (accept_input ad f) Q E s"
proof (cases "vr_state s = LISTENING \<or> vr_state s = INTERRUPTED")
  case False
  with ok E [of s] show ?thesis by (auto simp: accept_input_def wp_simps)
next
  case True
  have P: "runtime_ok t" if "vr_state t = vr_state s" "vr_output t = vr_output s" "vr_exhausted t = vr_exhausted s"
    "vr_input t = b" "buffer_push f (vr_input s) = (Inr (), b)" for t b
    using ok that True pushed(4) [OF that(5)] by (auto simp: runtime_ok_def)
  show ?thesis
    using True unfolding accept_input_def wp_bind wp_gets
    by (auto simp: wp_simps pushed ok intro!: wp_outside wp_push_input Q E) (rule P; simp; fail)+
qed

definition obeys :: "voice_cmd \<Rightarrow> 'w realtime \<Rightarrow> 'w realtime \<Rightarrow> bool" where
  "obeys c s t \<longleftrightarrow> runtime_ok t \<and> (vr_state t = vr_state s \<or> turn c (vr_state s) (vr_state t))"

lemma open_input_ok:
  assumes ok: "runtime_ok s"
    and Q: "\<And>ds t. runtime_ok t \<Longrightarrow> vr_state t = vr_state s \<or> vr_state s = IDLE \<and> vr_state t = LISTENING \<Longrightarrow>
      vr_state s \<noteq> IDLE \<longrightarrow> bb_frames (vr_input t) = bb_frames (vr_input s) @ [f] \<and>
        int (length (bb_frames (vr_input s))) < bb_max_frames (vr_input s) \<Longrightarrow> Q ds t"
    and E: "\<And>e t. runtime_ok t \<Longrightarrow> vr_state t = vr_state s \<or> vr_state s = IDLE \<and> vr_state t = LISTENING \<Longrightarrow>
      vr_state s \<noteq> IDLE \<longrightarrow> int (length (bb_frames (vr_input s))) < bb_max_frames (vr_input s) \<or> vr_input t = vr_input s \<Longrightarrow> E e t"
  shows "wp (open_input ad f vad) Q E s"
proof (cases "vr_state s = IDLE")
  case False
  then show ?thesis
    by (auto simp: open_input_def wp_simps intro!: accept_input_ok [OF ok] Q E)
next
  case True
  then show ?thesis
    by (auto simp: open_input_def wp_simps ok intro!: wp_outside start_listening_ok [OF ok] accept_input_ok Q E)
qed

text \<open>What a speech frame does while the runtime speaks or processes: nothing is queued any more, and
  the frame is the first of the new turn.\<close>

lemma receive_input_ok:
  assumes ok: "runtime_ok s"
  shows "wp (receive_input ad f)
    (\<lambda>_ t. obeys (Receive_input f) s t \<and>
       (vr_state s \<in> {PROCESSING, SPEAKING} \<longrightarrow> vr_state t = INTERRUPTED \<longrightarrow> bb_frames (vr_input t) = [f]) \<and>
       (vr_state s \<in> {LISTENING, INTERRUPTED} \<longrightarrow> int (length (bb_frames (vr_input s))) < bb_max_frames (vr_input s)))
    (\<lambda>_ t. obeys (Receive_input f) s t \<and>
       (vr_state s \<in> {LISTENING, INTERRUPTED} \<longrightarrow>
          int (length (bb_frames (vr_input s))) < bb_max_frames (vr_input s) \<or> vr_input t = vr_input s)) s"
proof (cases "vr_state s = PROCESSING \<or> vr_state s = SPEAKING")
  case True
  have w: "runtime_ok (s\<lparr>vr_world := w\<rparr>)" "vr_state (s\<lparr>vr_world := w\<rparr>) = PROCESSING \<or> vr_state (s\<lparr>vr_world := w\<rparr>) = SPEAKING" for w
    using ok True by auto
  from True show ?thesis
    by (auto simp: receive_input_def wp_simps obeys_def turn_simps ok Let_def
        intro!: wp_outside interrupt_active_turn_ok [OF w] open_input_ok)
next
  case False
  then show ?thesis
    by (auto simp: receive_input_def wp_simps obeys_def turn_simps ok intro!: wp_outside open_input_ok)
qed

lemma runtime_ok_quiet:
  assumes "runtime_ok s" and "vr_input t = vr_input s \<or> vr_input t = flushed (vr_input s)"
    and "vr_output t = vr_output s \<or> vr_output t = flushed (vr_output s)"
    and "bb_frames (vr_input t) \<noteq> [] \<Longrightarrow> vr_state t = LISTENING \<or> vr_state t = INTERRUPTED"
    and "bb_frames (vr_output t) \<noteq> [] \<Longrightarrow> vr_state t = SPEAKING"
    and "vr_exhausted t \<Longrightarrow> vr_state t = SPEAKING"
    and "vr_state t = CANCELLED \<Longrightarrow> vs_status (vr_session t) = SESSION_CANCELLED"
  shows "runtime_ok t"
  using assms by (auto simp: runtime_ok_def)

lemma finish_utterance_ok:
  assumes ok: "runtime_ok s"
  shows "wp (finish_utterance ad a u) (\<lambda>r t. obeys (Finish_utterance a u) s t \<and> vr_state t = (if r = None then IDLE else PROCESSING))
    (\<lambda>_. obeys (Finish_utterance a u) s) s"
proof (cases "vr_state s = LISTENING \<or> vr_state s = INTERRUPTED")
  case False
  with ok show ?thesis by (auto simp: finish_utterance_def wp_simps obeys_def)
next
  case True
  have quiet: "bb_frames (vr_output s) = []" "\<not> vr_exhausted s" using ok True by (auto simp: runtime_ok_def)
  have P: "runtime_ok t" if "vr_state t = vr_state s \<or> vr_state t = IDLE \<or> vr_state t = PROCESSING" "vr_output t = vr_output s"
    "vr_exhausted t = vr_exhausted s" "vr_input t = flushed (vr_input s)" for t
    by (rule runtime_ok_quiet [OF ok]) (use that quiet True in auto)
  show ?thesis
    using True unfolding finish_utterance_def wp_bind wp_gets
    by (auto simp: wp_simps ok obeys_def turn_simps P split: option.splits sum.splits
        intro!: wp_outside wp_voice_transition)
qed

lemma begin_speaking_ok:
  assumes ok: "runtime_ok s"
  shows "wp (begin_speaking ad speech) (\<lambda>_ t. obeys (Begin_speaking speech) s t \<and> vr_state t = SPEAKING)
    (\<lambda>_. obeys (Begin_speaking speech) s) s"
proof (cases "vr_state s = PROCESSING")
  case False
  with ok show ?thesis by (auto simp: begin_speaking_def wp_simps obeys_def)
next
  case True
  have quiet: "bb_frames (vr_input s) = []" "\<not> vr_exhausted s" using ok True by (auto simp: runtime_ok_def)
  have P: "runtime_ok t" if "vr_state t = vr_state s \<or> vr_state t = SPEAKING" "vr_input t = vr_input s"
    "\<not> vr_exhausted t" "vr_output t = flushed (vr_output s)" for t
    by (rule runtime_ok_quiet [OF ok]) (use that quiet True in auto)
  show ?thesis
    using True quiet(2) unfolding begin_speaking_def wp_bind wp_gets
    by (auto simp: wp_simps ok obeys_def turn_simps P intro!: wp_outside wp_voice_transition)
qed

text \<open>Settling an output turn ends it when everything was synthesised and played.\<close>

lemma settle_ok:
  assumes ok: "runtime_ok s"
    and Q: "\<And>t. runtime_ok t \<Longrightarrow> vr_state t = vr_state s \<or> vr_state s = SPEAKING \<and> vr_state t = IDLE \<Longrightarrow> Q () t"
    and E: "\<And>e t. runtime_ok t \<Longrightarrow> vr_state t = vr_state s \<or> vr_state s = SPEAKING \<and> vr_state t = IDLE \<Longrightarrow> E e t"
  shows "wp (settle_output_if_complete ad) Q E s"
proof (cases "vr_state s = SPEAKING \<and> vr_exhausted s \<and> bb_frames (vr_output s) = []")
  case False
  with ok Q show ?thesis by (auto simp: settle_output_if_complete_def wp_simps)
next
  case True
  have quiet: "bb_frames (vr_input s) = []" using ok True by (auto simp: runtime_ok_def)
  have P: "runtime_ok t" if "vr_state t = vr_state s \<or> vr_state t = IDLE" "vr_input t = vr_input s"
    "vr_exhausted t \<longrightarrow> vr_state t = SPEAKING" "vr_output t = vr_output s" for t
    by (rule runtime_ok_quiet [OF ok]) (use that quiet True in auto)
  show ?thesis
    using True unfolding settle_output_if_complete_def wp_bind wp_gets
    by (auto simp: wp_simps P intro!: wp_outside wp_voice_transition Q E)
qed

lemma pump_loop_ok:
  assumes "runtime_ok s" and "vr_state s = SPEAKING"
    and "\<And>n t. runtime_ok t \<Longrightarrow> vr_state t = SPEAKING \<Longrightarrow> Q n t"
    and "\<And>e t. runtime_ok t \<Longrightarrow> vr_state t = SPEAKING \<or> vr_state t = INTERRUPTED \<Longrightarrow> E e t"
  shows "wp (pump_loop ad n queued) Q E s"
  using assms(1,2)
proof (induction n arbitrary: s queued)
  case 0
  with assms(3) show ?case by (simp add: wp_simps)
next
  case (Suc n)
  have exhausted: "runtime_ok (s\<lparr>vr_world := w, vr_exhausted := True\<rparr>)" for w
    using Suc.prems by (simp add: runtime_ok_def)
  have pushed_ok: "runtime_ok (s\<lparr>vr_output := b\<rparr>)" if "buffer_push f (vr_output s) = (Inr (), b)" for f b
    using Suc.prems pushed(4) [OF that] by (simp add: runtime_ok_def)
  show ?case
    unfolding pump_loop.simps wp_bind
    using Suc.prems pushed_ok exhausted
    by (auto simp: wp_simps split: option.splits
        intro!: wp_outside wp_push_output interrupt_active_turn_ok Suc.IH assms(3,4))
qed

lemma pump_synthesis_ok:
  assumes ok: "runtime_ok s"
  shows "wp (pump_synthesis ad n) (\<lambda>_. obeys (Pump_synthesis n) s) (\<lambda>_. obeys (Pump_synthesis n) s) s"
  using ok by (auto simp: pump_synthesis_def wp_simps obeys_def turn_simps intro!: pump_loop_ok settle_ok)

lemma wp_pop_output:
  assumes ok: "runtime_ok s"
    and "bb_frames (vr_output s) = [] \<Longrightarrow> Q None s"
    and "\<And>f b. bb_frames (vr_output s) = f # bb_frames b \<Longrightarrow> vr_state s = SPEAKING \<Longrightarrow>
      runtime_ok (s\<lparr>vr_output := b\<rparr>) \<Longrightarrow> Q (Some f) (s\<lparr>vr_output := b\<rparr>)"
  shows "wp (on_output buffer_pop) Q E s"
proof (cases "bb_frames (vr_output s)")
  case Nil
  then show ?thesis
    using assms(2) by (simp add: on_output_def wp_simps) (simp add: wp_def buffer_pop_def)
next
  case (Cons f fs)
  define b where "b = snd (buffer_pop (vr_output s))"
  have pop: "buffer_pop (vr_output s) = (Inr (Some f), b)" "bb_frames b = fs"
    using Cons by (simp_all add: b_def buffer_pop_def)
  have st: "vr_state s = SPEAKING" using ok Cons by (simp add: runtime_ok_def)
  have "runtime_ok (s\<lparr>vr_output := b\<rparr>)"
    using ok st buffer_pop_ok [of "vr_output s"] by (simp add: runtime_ok_def pop)
  with st assms(3) [of f b] Cons pop show ?thesis
    by (simp add: on_output_def wp_zoom) (simp add: wp_def pop)
qed

lemma next_output_frame_ok:
  assumes ok: "runtime_ok s"
  shows "wp (next_output_frame ad) (\<lambda>r t. obeys Next_output s t \<and> (bb_frames (vr_output s) = [] \<longrightarrow> r = None))
    (\<lambda>_. obeys Next_output s) s"
  using ok by (auto simp: next_output_frame_def wp_simps obeys_def turn_simps intro!: wp_pop_output settle_ok)

lemma send_next_output_ok:
  assumes ok: "runtime_ok s"
  shows "wp (send_next_output ad) (\<lambda>_. obeys Send_next_output s) (\<lambda>_. obeys Send_next_output s) s"
  using ok by (auto simp: send_next_output_def wp_simps obeys_def turn_simps split: option.splits
      intro!: wp_pop_output wp_outside settle_ok)

lemma barge_in_ok:
  assumes ok: "runtime_ok s"
  shows "wp (barge_in ad r) (\<lambda>_ t. obeys (Barge_in r) s t \<and> vr_state t = INTERRUPTED) (\<lambda>_. obeys (Barge_in r) s) s"
  using ok by (auto simp: barge_in_def wp_simps obeys_def turn_simps intro!: interrupt_active_turn_ok [OF ok] wp_outside)

lemma voice_cancel_ok:
  assumes ok: "runtime_ok s"
  shows "wp (voice_cancel ad r) (\<lambda>_ t. obeys (Cancel r) s t \<and> vr_state t = CANCELLED) (\<lambda>_. obeys (Cancel r) s) s"
proof (cases "vr_state s = CANCELLED")
  case True
  with ok show ?thesis by (auto simp: voice_cancel_def wp_simps obeys_def)
next
  case False
  have P: "runtime_ok t" if "vr_output t = flushed (vr_output s)" "vr_input t = flushed (vr_input s)"
    "vr_exhausted t \<longrightarrow> vr_exhausted s \<and> vr_state t = vr_state s"
    "vr_state t = vr_state s \<or> vr_state t = CANCELLED \<and> vs_status (vr_session t) = SESSION_CANCELLED" for t
    by (rule runtime_ok_quiet [OF ok]) (use that False ok in \<open>auto simp: runtime_ok_def\<close>)
  show ?thesis
    using False unfolding voice_cancel_def wp_bind wp_gets emit_flushed_def
    by (auto simp: wp_simps ok obeys_def turn_simps P intro!: wp_outside wp_voice_transition)
qed

section \<open>Runs\<close>

text \<open>The state in which a command that returns leaves the runtime.\<close>

fun completes :: "voice_cmd \<Rightarrow> RealtimeState \<Rightarrow> bool" where
  "completes Start_listening st = (st = LISTENING)"
| "completes (Begin_speaking _) st = (st = SPEAKING)"
| "completes (Barge_in _) st = (st = INTERRUPTED)"
| "completes (Cancel _) st = (st = CANCELLED)"
| "completes (Finish_utterance _ _) st = (st = IDLE \<or> st = PROCESSING)"
| "completes _ st = True"

lemma wp_discard [wp_simps]: "wp (discard m) Q E s = wp m (\<lambda>_. Q ()) E s"
  by (auto simp: discard_def wp_def bind_def ret_def split: prod.splits sum.splits)

lemma session_ok:
  assumes ok: "runtime_ok s"
  shows "wp (session_call op) (\<lambda>_ x. obeys (Session op) s (s\<lparr>vr_session := x\<rparr>))
    (\<lambda>_ x. obeys (Session op) s (s\<lparr>vr_session := x\<rparr>)) (vr_session s)"
proof -
  have "runtime_ok (s\<lparr>vr_session := snd (session_call op (vr_session s))\<rparr>)"
    using ok session_cancelled_stays [of "vr_session s" op] by (simp add: runtime_ok_def)
  then show ?thesis by (simp add: wp_post obeys_def)
qed

lemma voice_call_obeys:
  assumes ok: "runtime_ok s"
  shows "wp (voice_call ad c) (\<lambda>_ t. obeys c s t \<and> completes c (vr_state t)) (\<lambda>_. obeys c s) s"
proof (cases c)
  case Start_listening
  show ?thesis unfolding Start_listening voice_call.simps
    by (rule start_listening_ok [OF ok]) (auto simp: obeys_def turn_simps)
next
  case (Receive_input f)
  show ?thesis unfolding Receive_input voice_call.simps wp_discard
    by (rule wp_mono [OF receive_input_ok [OF ok]]) auto
next
  case (Finish_utterance a u)
  show ?thesis unfolding Finish_utterance voice_call.simps wp_discard
    by (rule wp_mono [OF finish_utterance_ok [OF ok]]) auto
qed (use ok in \<open>auto simp: wp_simps intro: wp_mono [OF begin_speaking_ok] wp_mono [OF pump_synthesis_ok]
    wp_mono [OF next_output_frame_ok] wp_mono [OF send_next_output_ok] wp_mono [OF barge_in_ok]
    wp_mono [OF voice_cancel_ok] session_ok\<close>)

lemma voice_step_obeys:
  assumes "runtime_ok s"
  shows "obeys c s (voice_step ad c s)"
proof -
  have "wp (voice_call ad c) (\<lambda>_. obeys c s) (\<lambda>_. obeys c s) s"
    by (rule wp_mono [OF voice_call_obeys [OF assms]]) auto
  then show ?thesis by (simp add: wp_post voice_step_def)
qed

interpretation voice: reactive "voice_step ad" "\<lambda>_. True" runtime_ok
  by unfold_locales (use voice_step_obeys in \<open>auto simp: obeys_def\<close>)

text \<open>C22: whatever its adapters and its event sink do, raising included, a command moves the runtime
  only along the turn-taking protocol, and a command that returns has completed its turn: listening,
  speaking, interrupted, cancelled. In every state that is reached the buffers are within their limits,
  input is held only while listening, output only while speaking, and a cancelled runtime has a cancelled
  session.\<close>

theorem voice_refines_turn_taking:
  assumes "realtime_init session i ib out outb w = Inr s0" and "s = fold (voice_step ad) cs s0"
  shows "runtime_ok s \<and>
    (vr_state (voice_step ad c s) = vr_state s \<or> turn c (vr_state s) (vr_state (voice_step ad c s))) \<and>
    (fst (voice_call ad c s) = Inr () \<longrightarrow> completes c (vr_state (voice_step ad c s)))"
proof -
  have ok: "runtime_ok s"
    using voice.run_inv [of cs s0 ad] realtime_init_ok [OF assms(1)] assms(2) by (simp add: list.pred_True)
  have "completes c (vr_state (voice_step ad c s))" if "fst (voice_call ad c s) = Inr ()"
    using voice_call_obeys [OF ok, of ad c] that by (auto simp: wp_def voice_step_def split: prod.splits)
  with ok voice_step_obeys [OF ok, of c ad] show ?thesis by (auto simp: obeys_def)
qed

lemma silent_without_begin:
  assumes "runtime_ok s" and "vr_state s \<noteq> SPEAKING" and "\<forall>c \<in> set cs. \<forall>x. c \<noteq> Begin_speaking x"
  shows "vr_state (fold (voice_step ad) cs s) \<noteq> SPEAKING"
proof -
  from assms show ?thesis
  proof (induction cs arbitrary: s)
    case (Cons c cs)
    have "runtime_ok (voice_step ad c s)" "vr_state (voice_step ad c s) \<noteq> SPEAKING"
      using voice_step_obeys [OF Cons.prems(1), of c ad] Cons.prems by (auto simp: obeys_def elim: turn.cases)
    with Cons show ?case by simp
  qed simp
qed

lemma wp_adapter_known:
  assumes "fst (m (vr_world s)) = Inr a" and "\<And>w. Q a (s\<lparr>vr_world := w\<rparr>)"
  shows "wp (adapter m) Q E s"
  using assms by (auto simp: adapter_def wp_def zoom_def split: prod.splits)

lemma next_output_silent:
  "vr_state t \<noteq> SPEAKING \<Longrightarrow> bb_frames (vr_output t) = [] \<Longrightarrow> next_output_frame ad t = (Inr None, t)"
  by (simp add: next_output_frame_def settle_output_if_complete_def on_output_def only_if_def buffer_pop_def proc_defs)

lemma speech_interrupts_turn:
  assumes ok: "runtime_ok s" and active: "vr_state s \<in> {PROCESSING, SPEAKING}"
    and speech: "fst (ad_vad ad f (vr_world s)) = Inr SPEECH"
  shows "wp (receive_input ad f) (\<lambda>_ t. vr_state t = INTERRUPTED \<and> bb_frames (vr_input t) = [f]) (\<lambda>_ _. True) s"
proof -
  have w: "runtime_ok (s\<lparr>vr_world := w\<rparr>)" "vr_state (s\<lparr>vr_world := w\<rparr>) = PROCESSING \<or> vr_state (s\<lparr>vr_world := w\<rparr>) = SPEAKING" for w
    using ok active by auto
  from active show ?thesis
    unfolding receive_input_def wp_bind wp_gets
    by (auto simp: wp_simps Let_def
        intro!: wp_adapter_known [where m = "ad_vad ad f" and s = s and a = SPEECH, OF speech] wp_emit_sequence interrupt_active_turn_ok [OF w] open_input_ok)
qed

text \<open>C23: speech interrupts at once and for good. A speech frame that the runtime accepts while it speaks
  or processes leaves it interrupted, with that frame as the only input; and from then on no sequence of
  commands without a new \<open>begin_speaking\<close> makes it deliver a frame of output.\<close>

theorem voice_interruption_is_silent:
  assumes ok: "runtime_ok s" and active: "vr_state s \<in> {PROCESSING, SPEAKING}"
    and speech: "fst (ad_vad ad f (vr_world s)) = Inr SPEECH"
    and accepted: "voice_call ad (Receive_input f) s = (Inr (), s')"
    and quiet: "\<forall>c \<in> set cs. \<forall>x. c \<noteq> Begin_speaking x"
    and t: "t = fold (voice_step ad) cs s'"
  shows "vr_state s' = INTERRUPTED \<and> bb_frames (vr_input s') = [f] \<and> bb_frames (vr_output t) = [] \<and>
    vr_state t \<noteq> SPEAKING \<and> next_output_frame ad t = (Inr None, t)"
proof -
  have s': "vr_state s' = INTERRUPTED" "bb_frames (vr_input s') = [f]"
    using speech_interrupts_turn [OF ok active speech] accepted by (auto simp: wp_simps wp_def discard_def bind_def ret_def split: prod.splits sum.splits)
  have ok': "runtime_ok s'"
    using voice_step_obeys [OF ok, of "Receive_input f" ad] accepted by (simp add: voice_step_def obeys_def)
  have "runtime_ok t" using voice.run_inv [of cs s' ad] ok' t by (simp add: list.pred_True)
  moreover have "vr_state t \<noteq> SPEAKING"
    using silent_without_begin [OF ok' _ quiet] s' t by auto
  moreover have "bb_frames (vr_output t) = []" using calculation by (auto simp: runtime_ok_def)
  ultimately show ?thesis using s' next_output_silent by blast
qed

lemma turn_cancelled: "turn c CANCELLED st \<Longrightarrow> st = CANCELLED"
  by (auto elim: turn.cases)

lemma cancelled_step:
  assumes "runtime_ok s" and "vr_state s = CANCELLED"
  shows "vr_state (voice_step ad c s) = CANCELLED"
  using voice_step_obeys [OF assms(1), of c ad] assms(2) turn_cancelled by (auto simp: obeys_def)

text \<open>Cancellation is final. A cancelled runtime stays cancelled, with its session, and empty, through
  every sequence of commands; it accepts no input, speech, synthesis or barge-in any more; and cancelling
  again does nothing.\<close>

theorem voice_cancellation_is_final:
  assumes ok: "runtime_ok s" and "vr_state s = CANCELLED" and t: "t = fold (voice_step ad) cs s"
  shows "vr_state t = CANCELLED \<and> vs_status (vr_session t) = SESSION_CANCELLED \<and>
    bb_frames (vr_input t) = [] \<and> bb_frames (vr_output t) = [] \<and>
    (\<forall>f a u x n r. \<forall>c \<in> {Start_listening, Receive_input f, Finish_utterance a u, Begin_speaking x, Pump_synthesis n, Barge_in r}.
       \<exists>e. voice_call ad c t = (Inl e, t)) \<and>
    voice_call ad (Cancel r) t = (Inr (), t)"
proof -
  have "vr_state t = CANCELLED"
    unfolding t
    by (rule voice.run_stable [where P = "\<lambda>s. vr_state s = CANCELLED"])
      (simp_all add: assms list.pred_True cancelled_step)
  moreover have "runtime_ok t"
    unfolding t by (rule voice.run_inv) (simp_all add: ok list.pred_True)
  ultimately have "runtime_ok t \<and> vr_state t = CANCELLED" by blast
  then show ?thesis
    by (auto simp: runtime_ok_def start_listening_def receive_input_def finish_utterance_def begin_speaking_def
        pump_synthesis_def barge_in_def voice_cancel_def discard_def proc_defs)
qed

end
