(* ===== verification/Voice_Playback.thy ===== *)
theory Voice_Playback
  imports Voice_Turns
begin

text \<open>
  Playing what is queued, the bound on the input of a turn, and concrete runs of the realtime runtime.
\<close>

section \<open>The input of a turn\<close>

lemma full_turn:
  assumes ok: "runtime_ok s" and listening: "vr_state s \<in> {LISTENING, INTERRUPTED}"
    and full: "int (length (bb_frames (vr_input s))) = bb_max_frames (vr_input s)"
  shows "fst (receive_input ad f s) \<noteq> Inr ds \<and> vr_input (voice_step ad (Receive_input f) s) = vr_input s \<and>
    vr_state (voice_step ad (Receive_input f) s) = vr_state s"
proof -
  have "wp (receive_input ad f) (\<lambda>_ _. False) (\<lambda>_ t. vr_input t = vr_input s) s"
    by (rule wp_mono [OF receive_input_ok [OF ok]]) (use listening full in auto)
  moreover have "vr_state (voice_step ad (Receive_input f) s) = vr_state s"
    using voice_step_obeys [OF ok, of "Receive_input f" ad] listening by (auto simp: obeys_def turn_simps)
  ultimately show ?thesis
    by (auto simp: wp_def voice_step_def discard_def bind_def split: prod.splits sum.splits)
qed

text \<open>The input buffer bounds the length of a turn: recognised frames stay in it, so that once a turn
  has accepted \<open>max_frames\<close> frames, every further frame is refused with an exception and changes neither
  the input nor the state, for as long as frames are all that comes.\<close>

theorem long_turn_is_refused:
  assumes ok: "runtime_ok s" and listening: "vr_state s \<in> {LISTENING, INTERRUPTED}"
    and full: "int (length (bb_frames (vr_input s))) = bb_max_frames (vr_input s)"
    and t: "t = fold (voice_step ad) (map Receive_input fs) s"
  shows "bb_frames (vr_input t) = bb_frames (vr_input s) \<and> vr_state t = vr_state s \<and>
    (\<exists>e. fst (receive_input ad f t) = Inl e)"
proof -
  have "runtime_ok t \<and> vr_input t = vr_input s \<and> vr_state t = vr_state s"
    using assms(1-3) unfolding t
  proof (induction fs arbitrary: s)
    case (Cons g fs)
    have "runtime_ok (voice_step ad (Receive_input g) s)"
      using voice_step_obeys [OF Cons.prems(1), of "Receive_input g" ad] by (simp add: obeys_def)
    moreover note full_turn [OF Cons.prems, of ad g]
    ultimately show ?case using Cons.IH [of "voice_step ad (Receive_input g) s"] Cons.prems by auto
  qed simp
  moreover from this have "fst (receive_input ad f t) \<noteq> Inr ds" for ds
    using full_turn [of t ad f ds] listening full by simp
  then have "\<exists>e. fst (receive_input ad f t) = Inl e" by (cases "fst (receive_input ad f t)") auto
  ultimately show ?thesis by simp
qed

section \<open>Playing what is queued\<close>

text \<open>Frames delivered by calls of \<open>next_output_frame\<close>, until one gives none or raises.\<close>

fun play :: "'w adapters \<Rightarrow> nat \<Rightarrow> 'w realtime \<Rightarrow> AudioFrame list \<times> 'w realtime" where
  "play ad 0 s = ([], s)"
| "play ad (Suc n) s =
     (case next_output_frame ad s of
        (Inr (Some f), t) \<Rightarrow> (case play ad n t of (fs, u) \<Rightarrow> (f # fs, u))
      | (_, t) \<Rightarrow> ([], t))"

definition returns :: "('w, vexn, unit) proc \<Rightarrow> bool" where
  "returns m \<longleftrightarrow> (\<forall>w. fst (m w) = Inr ())"

lemma wp_adapter_returns:
  assumes "returns m" and "\<And>w. Q () (s\<lparr>vr_world := w\<rparr>)"
  shows "wp (adapter m) Q E s"
  using assms by (intro wp_adapter_known) (auto simp: returns_def)

definition sink_returns :: "'w adapters \<Rightarrow> bool" where
  "sink_returns ad \<longleftrightarrow> (case ad_event_sink ad of None \<Rightarrow> True | Some sink \<Rightarrow> \<forall>e. returns (sink e))"

lemma wp_voice_emit_returns:
  assumes "sink_returns ad" and "\<And>w. Q () (s\<lparr>vr_world := w\<rparr>)"
  shows "wp (voice_emit ad type detail) Q E s"
proof (cases "ad_event_sink ad")
  case None
  then show ?thesis using assms(2) [of "vr_world s"] by (simp add: voice_emit_def wp_simps)
next
  case (Some sink)
  then show ?thesis using assms by (simp add: sink_returns_def voice_emit_def wp_simps wp_adapter_returns)
qed

lemma next_output_plays:
  assumes speaking: "vr_state s = SPEAKING" "vr_exhausted s" and queued: "bb_frames (vr_output s) = f # fs"
    and sink: "sink_returns ad" and reset: "returns (ad_tts_reset ad)"
  shows "\<exists>t. next_output_frame ad s = (Inr (Some f), t) \<and> bb_frames (vr_output t) = fs \<and>
    (if fs = [] then vr_state t = IDLE \<and> \<not> vr_exhausted t else vr_state t = SPEAKING \<and> vr_exhausted t)"
proof -
  obtain b where b: "buffer_pop (vr_output s) = (Inr (Some f), b)" "bb_frames b = fs"
    using queued by (simp add: buffer_pop_def)
  let ?s = "s\<lparr>vr_output := b\<rparr>"
  let ?post = "\<lambda>t. bb_frames (vr_output t) = fs \<and>
    (if fs = [] then vr_state t = IDLE \<and> \<not> vr_exhausted t else vr_state t = SPEAKING \<and> vr_exhausted t)"
  have pop: "on_output buffer_pop s = (Inr (Some f), ?s)"
    by (simp add: on_output_def zoom_def b(1) split: prod.splits)
  have "wp (settle_output_if_complete ad) (\<lambda>_. ?post) (\<lambda>_ _. False) ?s"
    by (auto simp: settle_output_if_complete_def wp_simps speaking b(2) voice_transition_def
        intro!: wp_adapter_returns [OF reset] wp_voice_emit_returns [OF sink])
  then obtain t where "settle_output_if_complete ad ?s = (Inr (), t)" "?post t"
    by (cases "settle_output_if_complete ad ?s") (auto simp: wp_def split: sum.splits)
  with pop show ?thesis by (auto simp: next_output_frame_def proc_defs)
qed

text \<open>A synthesised answer is played to its end: when synthesis is exhausted and the sink and the reset
  of the synthesiser return, as many calls as frames are queued deliver exactly those frames, in order, and
  leave the runtime idle.\<close>

theorem playback_completes:
  assumes "vr_state s = SPEAKING" and "vr_exhausted s" and "bb_frames (vr_output s) \<noteq> []"
    and sink: "sink_returns ad" and reset: "returns (ad_tts_reset ad)"
  shows "\<exists>t. play ad (length (bb_frames (vr_output s))) s = (bb_frames (vr_output s), t) \<and>
    vr_state t = IDLE \<and> bb_frames (vr_output t) = [] \<and> \<not> vr_exhausted t"
  using assms(1-3)
proof (induction "bb_frames (vr_output s)" arbitrary: s)
  case (Cons f fs)
  obtain t where t: "next_output_frame ad s = (Inr (Some f), t)" "bb_frames (vr_output t) = fs"
    "if fs = [] then vr_state t = IDLE \<and> \<not> vr_exhausted t else vr_state t = SPEAKING \<and> vr_exhausted t"
    using next_output_plays [OF Cons.prems(1,2) Cons.hyps(2) [symmetric] sink reset] by blast
  show ?case
  proof (cases "fs = []")
    case True
    with t Cons.hyps(2) [symmetric] show ?thesis by simp
  next
    case False
    with t Cons.hyps(1) [of t] Cons.hyps(2) [symmetric] show ?thesis by auto
  qed
qed simp

section \<open>Concrete runs\<close>

definition demo_adapters :: "unit adapters" where
  "demo_adapters =
     \<lparr>ad_vad = (\<lambda>f. ret SPEECH), ad_stt_push = (\<lambda>f. ret []), ad_stt_finish = ret (Some \<lparr>tr_text = ''go'', tr_language = None\<rparr>),
      ad_stt_reset = ret (), ad_tts_start = (\<lambda>_. ret ()), ad_tts_pull = ret (Some (demo_frame 7)), ad_tts_cancel = ret (),
      ad_tts_reset = ret (), ad_transport = None, ad_event_sink = None\<rparr>"

definition demo_realtime :: "unit realtime" where
  "demo_realtime =
     \<lparr>vr_session = VoiceSession_init ''s1'', vr_state = IDLE, vr_input = demo_buffer, vr_output = demo_buffer,
      vr_exhausted = False, vr_world = ()\<rparr>"

lemma demo_realtime_init: "realtime_init (VoiceSession_init ''s1'') 2 10 2 10 () = Inr demo_realtime"
  by (simp add: realtime_init_def BoundedAudioBuffer_init_def VoiceSession_init_def demo_realtime_def demo_buffer_def)

lemma demo_realtime_ok: "runtime_ok demo_realtime"
  using realtime_init_ok [OF demo_realtime_init] by blast

definition demo_talk :: "voice_cmd list" where
  "demo_talk = [Receive_input (demo_frame 0), Finish_utterance ''u'' ''a'', Begin_speaking ''hi'', Pump_synthesis 1]"

definition demo_speaking :: "unit realtime" where
  "demo_speaking = fold (voice_step demo_adapters) demo_talk demo_realtime"

lemma demo_speaking_ok: "runtime_ok demo_speaking"
  unfolding demo_speaking_def by (rule voice.run_inv) (simp_all add: list.pred_True demo_realtime_ok)

lemma demo_speaking_state: "vr_state demo_speaking = SPEAKING \<and> bb_frames (vr_output demo_speaking) = [demo_frame 7]"
  by code_simp

theorem voice_refines_turn_taking_witness:
  "runtime_ok demo_speaking \<and> vr_state (voice_step demo_adapters (Cancel ''stop'') demo_speaking) = CANCELLED"
proof -
  have "fst (voice_call demo_adapters (Cancel ''stop'') demo_speaking) = Inr ()" by code_simp
  with voice_refines_turn_taking [OF demo_realtime_init demo_speaking_def, of "Cancel ''stop''"]
  show ?thesis by simp
qed

theorem voice_interruption_is_silent_witness:
  "\<exists>s'. voice_call demo_adapters (Receive_input (demo_frame 1)) demo_speaking = (Inr (), s') \<and>
     vr_state s' = INTERRUPTED \<and>
     (let t = fold (voice_step demo_adapters) [Next_output, Pump_synthesis 1] s' in
       next_output_frame demo_adapters t = (Inr None, t))"
proof -
  have "fst (voice_call demo_adapters (Receive_input (demo_frame 1)) demo_speaking) = Inr ()" by code_simp
  then obtain s' where s': "voice_call demo_adapters (Receive_input (demo_frame 1)) demo_speaking = (Inr (), s')"
    by (cases "voice_call demo_adapters (Receive_input (demo_frame 1)) demo_speaking") auto
  have "vr_state demo_speaking \<in> {PROCESSING, SPEAKING}" using demo_speaking_state by simp
  moreover have "fst (ad_vad demo_adapters (demo_frame 1) (vr_world demo_speaking)) = Inr SPEECH"
    by (simp add: demo_adapters_def ret_def)
  moreover have "\<forall>c \<in> set [Next_output, Pump_synthesis 1]. \<forall>x. c \<noteq> Begin_speaking x" by simp
  ultimately show ?thesis
    using voice_interruption_is_silent [OF demo_speaking_ok _ _ s', of "[Next_output, Pump_synthesis 1]"] s'
    by (auto simp: Let_def)
qed

theorem voice_cancellation_is_final_witness:
  "vr_state (fold (voice_step demo_adapters) [Barge_in ''x'', Session Session_resume, Start_listening]
      (voice_step demo_adapters (Cancel ''stop'') demo_speaking)) = CANCELLED"
proof -
  have "runtime_ok (voice_step demo_adapters (Cancel ''stop'') demo_speaking)"
    using voice_step_obeys [OF demo_speaking_ok] by (simp add: obeys_def)
  moreover have "vr_state (voice_step demo_adapters (Cancel ''stop'') demo_speaking) = CANCELLED" by code_simp
  ultimately show ?thesis
    using voice_cancellation_is_final [of _ _ demo_adapters "[Barge_in ''x'', Session Session_resume, Start_listening]"]
    by blast
qed

definition demo_full :: "unit realtime" where
  "demo_full = fold (voice_step demo_adapters) [Receive_input (demo_frame 0), Receive_input (demo_frame 1)] demo_realtime"

theorem long_turn_is_refused_witness:
  "map fr_sequence (bb_frames (vr_input demo_full)) = [0, 1] \<and>
   (\<exists>e. fst (receive_input demo_adapters (demo_frame 2)
     (fold (voice_step demo_adapters) (map Receive_input [demo_frame 2]) demo_full)) = Inl e)"
proof -
  have ok: "runtime_ok demo_full"
    unfolding demo_full_def by (rule voice.run_inv) (simp_all add: list.pred_True demo_realtime_ok)
  have st: "vr_state demo_full = LISTENING \<and> map fr_sequence (bb_frames (vr_input demo_full)) = [0, 1] \<and>
      length (bb_frames (vr_input demo_full)) = 2 \<and> bb_max_frames (vr_input demo_full) = 2"
    by code_simp
  then have "vr_state demo_full \<in> {LISTENING, INTERRUPTED}"
    and "int (length (bb_frames (vr_input demo_full))) = bb_max_frames (vr_input demo_full)"
    by simp_all
  from long_turn_is_refused [OF ok this refl, of demo_adapters "[demo_frame 2]" "demo_frame 2"] st
  show ?thesis by blast
qed

theorem playback_completes_witness:
  "\<exists>s t. s = voice_step (demo_adapters\<lparr>ad_tts_pull := ret None\<rparr>) (Pump_synthesis 1) demo_speaking \<and>
     play demo_adapters 1 s = ([demo_frame 7], t) \<and> vr_state t = IDLE"
proof -
  let ?s = "voice_step (demo_adapters\<lparr>ad_tts_pull := ret None\<rparr>) (Pump_synthesis 1) demo_speaking"
  have "vr_state ?s = SPEAKING \<and> vr_exhausted ?s \<and> bb_frames (vr_output ?s) = [demo_frame 7]"
    using demo_speaking_state
    by (simp add: voice_step_def discard_def pump_synthesis_def settle_output_if_complete_def only_if_def
        adapter_def set_exhausted_def proc_defs)
  moreover have "sink_returns demo_adapters" "returns (ad_tts_reset demo_adapters)"
    by (simp_all add: sink_returns_def returns_def demo_adapters_def ret_def)
  ultimately show ?thesis
    using playback_completes [of ?s demo_adapters] by auto
qed

end
