(* ===== verification/Voice_Governance.thy ===== *)
theory Voice_Governance
  imports Voice_Realtime Complex_Main
begin

text \<open>
  The records the voice router works on (src/src/cybercore/voice/models.py, approval.py, events.py) and
  the results of the two governance gateways with their parsers
  (src/src/cybercore/integrations/howedo.py, oathdo.py). The metadata of an action and the time stamp of
  an event are left out.
\<close>

section \<open>Intents and actions\<close>

datatype IntentKind =
    QUESTION | SEARCH | INSPECT | PLAN | EXECUTE | APPROVE | CANCEL | MONITOR | UNKNOWN_INTENT

fun kind_value :: "IntentKind \<Rightarrow> string" where
  "kind_value QUESTION = ''question''"
| "kind_value SEARCH = ''search''"
| "kind_value INSPECT = ''inspect''"
| "kind_value PLAN = ''plan''"
| "kind_value EXECUTE = ''execute''"
| "kind_value APPROVE = ''approve''"
| "kind_value CANCEL = ''cancel''"
| "kind_value MONITOR = ''monitor''"
| "kind_value UNKNOWN_INTENT = ''unknown''"

datatype ActionRisk = READ_ONLY | MUTATION | CONSEQUENTIAL

datatype ResponseStatus =
    READY | NEEDS_CONTEXT | BLOCKED_CONTINUITY | BLOCKED_GOVERNANCE | APPROVAL_REQUIRED_STATUS
  | APPROVAL_INTENT_CAPTURED | CANCELLED_STATUS

fun status_value :: "ResponseStatus \<Rightarrow> string" where
  "status_value READY = ''ready''"
| "status_value NEEDS_CONTEXT = ''needs_context''"
| "status_value BLOCKED_CONTINUITY = ''blocked_continuity''"
| "status_value BLOCKED_GOVERNANCE = ''blocked_governance''"
| "status_value APPROVAL_REQUIRED_STATUS = ''approval_required''"
| "status_value APPROVAL_INTENT_CAPTURED = ''approval_intent_captured''"
| "status_value CANCELLED_STATUS = ''cancelled''"

record VoiceIntent =
  vi_id :: string
  vi_utterance_id :: string
  vi_kind :: IntentKind
  vi_operation :: string
  vi_target :: "string option"
  vi_confidence :: rat

definition VoiceIntent_init :: "VoiceIntent \<Rightarrow> vexn + VoiceIntent" where
  "VoiceIntent_init i =
     (if vi_confidence i < 0 \<or> 1 < vi_confidence i
        then Inl (ValueError ''intent confidence must be between 0 and 1'')
      else if blank (vi_operation i) then Inl (ValueError ''intent operation must not be empty'')
      else Inr i)"

record VoiceContext =
  vc_project :: "string option"
  vc_machine :: "string option"
  vc_active_plan_id :: "string option"
  vc_active_plan_revision :: "string option"
  vc_references :: "string \<rightharpoonup> string"

record ActionRequest =
  ar_intent_id :: string
  ar_operation :: string
  ar_risk :: ActionRisk
  ar_target :: "string option"
  ar_plan_id :: "string option"
  ar_plan_revision :: "string option"
  ar_scope :: "string list"

definition mutating :: "ActionRequest \<Rightarrow> bool" where
  "mutating a \<longleftrightarrow> ar_risk a = MUTATION \<or> ar_risk a = CONSEQUENTIAL"

text \<open>Truth of an optional string.\<close>

fun present :: "string option \<Rightarrow> bool" where
  "present None = False"
| "present (Some s) = (s \<noteq> [])"

definition has_bound_plan :: "ActionRequest \<Rightarrow> bool" where
  "has_bound_plan a \<longleftrightarrow> present (ar_plan_id a) \<and> present (ar_plan_revision a)"

record VoiceResponse =
  vp_status :: ResponseStatus
  vp_message :: string
  vp_intent :: VoiceIntent
  vp_action :: "ActionRequest option"
  vp_continuity_decision :: "string option"
  vp_governance_decision :: "string option"
  vp_approval_id :: "string option"
  vp_approval_intent_id :: "string option"

datatype VoiceEventType =
    UTTERANCE_RECEIVED | INTENT_CLASSIFIED | CONTINUITY_EVALUATED | GOVERNANCE_EVALUATED
  | APPROVAL_INTENT_CAPTURED_EVENT | ACTION_BLOCKED | ACTION_READY | VOICE_CANCELLED | RESPONSE_EMITTED

record VoiceEvent =
  ve_type :: VoiceEventType
  ve_session_id :: string
  ve_utterance_id :: string
  ve_detail :: "(string \<times> string) list"

section \<open>Approval\<close>

record ApprovalCheck =
  ac_authorized :: bool
  ac_reason :: string
  ac_approval_id :: "string option"

definition DenyAllApprovalVerifier_verify :: "ActionRequest \<Rightarrow> ('w, vexn, ApprovalCheck) proc" where
  "DenyAllApprovalVerifier_verify a =
     ret \<lparr>ac_authorized = False, ac_reason = ''no matching CyberCore approval verifier was configured'',
       ac_approval_id = None\<rparr>"

record VoiceApprovalIntent =
  va_id :: string
  va_session_id :: string
  va_actor_id :: string
  va_utterance_id :: string
  va_plan_id :: "string option"
  va_plan_revision :: "string option"
  va_scope :: "string list"

definition capture_voice_approval_intent :: "Utterance \<Rightarrow> ActionRequest \<Rightarrow> vexn + VoiceApprovalIntent" where
  "capture_voice_approval_intent u a =
     (if \<not> present (ar_plan_id a) \<or> \<not> present (ar_plan_revision a)
      then Inl (ValueError ''voice approval intent requires an exact plan id and revision'')
      else Inr \<lparr>va_id = ''voice-approval:'' @ ut_id u, va_session_id = ut_session_id u,
        va_actor_id = ut_actor_id u, va_utterance_id = ut_id u, va_plan_id = ar_plan_id a,
        va_plan_revision = ar_plan_revision a, va_scope = ar_scope a\<rparr>)"

section \<open>Continuity and governance\<close>

datatype ContinuityDecision = CONTINUE | PAUSE | REVALIDATE | ABORT | RECOVER

fun continuity_value :: "ContinuityDecision \<Rightarrow> string" where
  "continuity_value CONTINUE = ''CONTINUE''"
| "continuity_value PAUSE = ''PAUSE''"
| "continuity_value REVALIDATE = ''REVALIDATE''"
| "continuity_value ABORT = ''ABORT''"
| "continuity_value RECOVER = ''RECOVER''"

record ContinuityResult =
  ct_decision :: ContinuityDecision
  ct_reason :: string
  ct_witness_id :: "string option"

definition allows_standard_progress :: "ContinuityResult \<Rightarrow> bool" where
  "allows_standard_progress r \<longleftrightarrow> ct_decision r = CONTINUE"

definition FailClosedHowedoGateway_evaluate :: "ActionRequest \<Rightarrow> VoiceContext \<Rightarrow> ('w, vexn, ContinuityResult) proc" where
  "FailClosedHowedoGateway_evaluate a c =
     ret \<lparr>ct_decision = ABORT, ct_reason = ''HOWEDO continuity gateway is not configured'', ct_witness_id = None\<rparr>"

datatype GovernanceDecision = ALLOW | APPROVAL_REQUIRED | DENY

fun governance_value :: "GovernanceDecision \<Rightarrow> string" where
  "governance_value ALLOW = ''ALLOW''"
| "governance_value APPROVAL_REQUIRED = ''APPROVAL_REQUIRED''"
| "governance_value DENY = ''DENY''"

record GovernanceResult =
  gr_decision :: GovernanceDecision
  gr_reason :: string
  gr_evidence_id :: "string option"

definition FailClosedOathdoGateway_evaluate :: "ActionRequest \<Rightarrow> VoiceContext \<Rightarrow> ('w, vexn, GovernanceResult) proc" where
  "FailClosedOathdoGateway_evaluate a c =
     ret \<lparr>gr_decision = DENY, gr_reason = ''OATHDO governance gateway is not configured'', gr_evidence_id = None\<rparr>"

subsection \<open>Parsing a decision\<close>

text \<open>
  \<open>s.upper()\<close> as far as a comparison with ASCII text can see it: the ASCII letters and the characters
  outside ASCII whose upper case has an ASCII letter. Every other character stays outside ASCII.
\<close>

definition upper_char :: "char \<Rightarrow> char" where
  "upper_char c = (let n = (of_char c :: nat) in if 97 \<le> n \<and> n \<le> 122 then char_of (n - 32) else c)"

definition upper2 :: "(string \<times> string) list" where
  "upper2 =
     [([CHR 0xC3, CHR 0x9F], ''SS''), ([CHR 0xC4, CHR 0xB1], ''I''), ([CHR 0xC5, CHR 0x89], [CHR 0xCA, CHR 0xBC, CHR ''N'']),
      ([CHR 0xC5, CHR 0xBF], ''S''), ([CHR 0xC7, CHR 0xB0], [CHR ''J'', CHR 0xCC, CHR 0x8C])]"

definition upper3 :: "(string \<times> string) list" where
  "upper3 =
     [([CHR 0xE1, CHR 0xBA, CHR 0x96], [CHR ''H'', CHR 0xCC, CHR 0xB1]),
      ([CHR 0xE1, CHR 0xBA, CHR 0x97], [CHR ''T'', CHR 0xCC, CHR 0x88]),
      ([CHR 0xE1, CHR 0xBA, CHR 0x98], [CHR ''W'', CHR 0xCC, CHR 0x8A]),
      ([CHR 0xE1, CHR 0xBA, CHR 0x99], [CHR ''Y'', CHR 0xCC, CHR 0x8A]),
      ([CHR 0xE1, CHR 0xBA, CHR 0x9A], [CHR ''A'', CHR 0xCA, CHR 0xBE]),
      ([CHR 0xEF, CHR 0xAC, CHR 0x80], ''FF''), ([CHR 0xEF, CHR 0xAC, CHR 0x81], ''FI''),
      ([CHR 0xEF, CHR 0xAC, CHR 0x82], ''FL''), ([CHR 0xEF, CHR 0xAC, CHR 0x83], ''FFI''),
      ([CHR 0xEF, CHR 0xAC, CHR 0x84], ''FFL''), ([CHR 0xEF, CHR 0xAC, CHR 0x85], ''ST''),
      ([CHR 0xEF, CHR 0xAC, CHR 0x86], ''ST'')]"

function upper :: "string \<Rightarrow> string" where
  "upper s =
     (case s of
        [] \<Rightarrow> []
      | c # r \<Rightarrow>
          (case map_of upper2 (take 2 s) of
             Some u \<Rightarrow> u @ upper (drop 2 s)
           | None \<Rightarrow>
               (case map_of upper3 (take 3 s) of
                  Some u \<Rightarrow> u @ upper (drop 3 s)
                | None \<Rightarrow> upper_char c # upper r)))"
  by pat_completeness auto
termination
  by (relation "measure length") auto

declare upper.simps [simp del]

instantiation ContinuityDecision :: enum
begin

definition enum_ContinuityDecision :: "ContinuityDecision list" where
  "enum_ContinuityDecision = [CONTINUE, PAUSE, REVALIDATE, ABORT, RECOVER]"

definition enum_all_ContinuityDecision :: "(ContinuityDecision \<Rightarrow> bool) \<Rightarrow> bool" where
  "enum_all_ContinuityDecision P \<longleftrightarrow> P CONTINUE \<and> P PAUSE \<and> P REVALIDATE \<and> P ABORT \<and> P RECOVER"

definition enum_ex_ContinuityDecision :: "(ContinuityDecision \<Rightarrow> bool) \<Rightarrow> bool" where
  "enum_ex_ContinuityDecision P \<longleftrightarrow> P CONTINUE \<or> P PAUSE \<or> P REVALIDATE \<or> P ABORT \<or> P RECOVER"

instance
proof
  have "x \<in> set (enum_class.enum :: ContinuityDecision list)" for x
    by (cases x) (simp_all add: enum_ContinuityDecision_def)
  then show univ: "UNIV = set (enum_class.enum :: ContinuityDecision list)" by blast
  show "distinct (enum_class.enum :: ContinuityDecision list)"
    by (simp add: enum_ContinuityDecision_def)
  show "enum_class.enum_all P = (\<forall>x \<in> UNIV. P x)" "enum_class.enum_ex P = (\<exists>x \<in> UNIV. P x)" for P :: "ContinuityDecision \<Rightarrow> bool"
    unfolding univ by (simp_all add: enum_ContinuityDecision_def enum_all_ContinuityDecision_def enum_ex_ContinuityDecision_def)
qed

end

instantiation GovernanceDecision :: enum
begin

definition enum_GovernanceDecision :: "GovernanceDecision list" where
  "enum_GovernanceDecision = [ALLOW, APPROVAL_REQUIRED, DENY]"

definition enum_all_GovernanceDecision :: "(GovernanceDecision \<Rightarrow> bool) \<Rightarrow> bool" where
  "enum_all_GovernanceDecision P \<longleftrightarrow> P ALLOW \<and> P APPROVAL_REQUIRED \<and> P DENY"

definition enum_ex_GovernanceDecision :: "(GovernanceDecision \<Rightarrow> bool) \<Rightarrow> bool" where
  "enum_ex_GovernanceDecision P \<longleftrightarrow> P ALLOW \<or> P APPROVAL_REQUIRED \<or> P DENY"

instance
proof
  have "x \<in> set (enum_class.enum :: GovernanceDecision list)" for x
    by (cases x) (simp_all add: enum_GovernanceDecision_def)
  then show univ: "UNIV = set (enum_class.enum :: GovernanceDecision list)" by blast
  show "distinct (enum_class.enum :: GovernanceDecision list)"
    by (simp add: enum_GovernanceDecision_def)
  show "enum_class.enum_all P = (\<forall>x \<in> UNIV. P x)" "enum_class.enum_ex P = (\<exists>x \<in> UNIV. P x)" for P :: "GovernanceDecision \<Rightarrow> bool"
    unfolding univ by (simp_all add: enum_GovernanceDecision_def enum_all_GovernanceDecision_def enum_ex_GovernanceDecision_def)
qed

end

text \<open>\<open>None\<close> is an argument that is no string.\<close>

definition normalize_howedo_decision :: "string option \<Rightarrow> string \<Rightarrow> string option \<Rightarrow> ContinuityResult" where
  "normalize_howedo_decision v reason witness =
     (case (case v of None \<Rightarrow> None | Some s \<Rightarrow> find (\<lambda>d. continuity_value d = upper (strip s)) Enum.enum) of
        None \<Rightarrow> \<lparr>ct_decision = ABORT, ct_reason = ''unrecognized HOWEDO decision; failed closed'', ct_witness_id = witness\<rparr>
      | Some d \<Rightarrow> \<lparr>ct_decision = d, ct_reason = reason, ct_witness_id = witness\<rparr>)"

definition normalize_oathdo_decision :: "string option \<Rightarrow> string \<Rightarrow> string option \<Rightarrow> GovernanceResult" where
  "normalize_oathdo_decision v reason evidence =
     (case (case v of None \<Rightarrow> None | Some s \<Rightarrow> find (\<lambda>d. governance_value d = upper (strip s)) Enum.enum) of
        None \<Rightarrow> \<lparr>gr_decision = DENY, gr_reason = ''unrecognized OATHDO decision; failed closed'', gr_evidence_id = evidence\<rparr>
      | Some d \<Rightarrow> \<lparr>gr_decision = d, gr_reason = reason, gr_evidence_id = evidence\<rparr>)"

text \<open>Only the word itself lets an action pass.\<close>

lemma normalized_decisions:
  "ct_decision (normalize_howedo_decision v reason witness) = CONTINUE \<longleftrightarrow> (\<exists>s. v = Some s \<and> upper (strip s) = ''CONTINUE'')"
  "gr_decision (normalize_oathdo_decision v reason evidence) = ALLOW \<longleftrightarrow> (\<exists>s. v = Some s \<and> upper (strip s) = ''ALLOW'')"
  "gr_decision (normalize_oathdo_decision v reason evidence) \<noteq> DENY \<longleftrightarrow>
     (\<exists>s. v = Some s \<and> upper (strip s) \<in> {''ALLOW'', ''APPROVAL_REQUIRED''})"
  by (auto simp: normalize_howedo_decision_def normalize_oathdo_decision_def enum_ContinuityDecision_def
      enum_GovernanceDecision_def split: option.splits if_splits)

text \<open>Parsing gives back every decision from its name.\<close>

lemma normalize_value:
  "ct_decision (normalize_howedo_decision (Some (continuity_value d)) reason witness) = d"
  "gr_decision (normalize_oathdo_decision (Some (governance_value g)) reason evidence) = g"
proof -
  have "\<forall>d. upper (strip (continuity_value d)) = continuity_value d" by code_simp
  then have "upper (strip (continuity_value d)) = continuity_value d" by blast
  then show "ct_decision (normalize_howedo_decision (Some (continuity_value d)) reason witness) = d"
    by (cases d) (simp_all only: normalize_howedo_decision_def option.case, simp_all add: enum_ContinuityDecision_def)
  have "\<forall>g. upper (strip (governance_value g)) = governance_value g" by code_simp
  then have "upper (strip (governance_value g)) = governance_value g" by blast
  then show "gr_decision (normalize_oathdo_decision (Some (governance_value g)) reason evidence) = g"
    by (cases g) (simp_all only: normalize_oathdo_decision_def option.case, simp_all add: enum_GovernanceDecision_def)
qed

end
