(* ===== verification/Voice_Router.thy ===== *)
theory Voice_Router
  imports Voice_Governance
begin

text \<open>
  The voice router (src/src/cybercore/voice/router.py): it classifies an utterance, plans an action and
  asks the continuity and governance gateways and the approval verifier before it calls the action
  ready. Compiler, planner, gateways, verifier, event sink and the abort check are procedures on a
  world of their own; the session may be absent.
\<close>

section \<open>The rule-based compiler\<close>

definition intent_markers :: "(IntentKind \<times> string list) list" where
  "intent_markers =
     [(CANCEL, [''cancel'', ''stop'', ''abort'', ''zrus'', ''storno'']),
      (APPROVE, [''approve'', ''schvalu'', ''souhlas'', ''jo udelej'', ''ano proved'']),
      (EXECUTE, [''execute'', ''apply'', ''run'', ''proved'', ''spust'', ''udelej'']),
      (PLAN, [''plan'', ''naplanuj'', ''priprav'']),
      (MONITOR, [''monitor'', ''watch'', ''hlidej'', ''sleduj'']),
      (INSPECT, [''inspect'', ''check'', ''prover'', ''zkontroluj'']),
      (SEARCH, [''search'', ''find'', ''najdi'', ''hledej''])]"

definition classify :: "string \<Rightarrow> IntentKind" where
  "classify u =
     (let t = lower (strip u) in
      case find (\<lambda>(_, markers). list_ex (\<lambda>m. contains m t) markers) intent_markers of
        Some (kind, _) \<Rightarrow> kind
      | None \<Rightarrow> if endswith t ''?'' then QUESTION else UNKNOWN_INTENT)"

definition RuleIntentCompiler_compile :: "Utterance \<Rightarrow> VoiceContext \<Rightarrow> VoiceIntent" where
  "RuleIntentCompiler_compile u c =
     (let kind = classify (ut_text u) in
      \<lparr>vi_id = ''intent:'' @ ut_id u, vi_utterance_id = ut_id u, vi_kind = kind, vi_operation = kind_value kind,
       vi_target = vc_references c ''target'', vi_confidence = (if kind \<noteq> UNKNOWN_INTENT then 1 else 0)\<rparr>)"

section \<open>The router\<close>

record 'w VoiceRouter =
  ro_compiler :: "Utterance \<Rightarrow> VoiceContext \<Rightarrow> ('w, vexn, VoiceIntent) proc"
  ro_planner :: "VoiceIntent \<Rightarrow> VoiceContext \<Rightarrow> ('w, vexn, ActionRequest option) proc"
  ro_howedo :: "ActionRequest \<Rightarrow> VoiceContext \<Rightarrow> ('w, vexn, ContinuityResult) proc"
  ro_oathdo :: "ActionRequest \<Rightarrow> VoiceContext \<Rightarrow> ('w, vexn, GovernanceResult) proc"
  ro_approval :: "ActionRequest \<Rightarrow> ('w, vexn, ApprovalCheck) proc"
  ro_sink :: "(VoiceEvent \<Rightarrow> ('w, vexn, unit) proc) option"

text \<open>\<open>VoiceRouter()\<close>\<close>

definition VoiceRouter_default :: "'w VoiceRouter" where
  "VoiceRouter_default =
     \<lparr>ro_compiler = (\<lambda>u c. ret (RuleIntentCompiler_compile u c)), ro_planner = (\<lambda>i c. ret None),
      ro_howedo = FailClosedHowedoGateway_evaluate, ro_oathdo = FailClosedOathdoGateway_evaluate,
      ro_approval = DenyAllApprovalVerifier_verify, ro_sink = None\<rparr>"

record 'w routing =
  rg_session :: "VoiceSession option"
  rg_world :: 'w

type_synonym ('w, 'a) route_proc = "('w routing, vexn, 'a) proc"

definition ask :: "('w, vexn, 'a) proc \<Rightarrow> ('w, 'a) route_proc" where
  "ask m = zoom rg_world (\<lambda>w s. s\<lparr>rg_world := w\<rparr>) m"

definition with_session :: "unit session_proc \<Rightarrow> ('w, unit) route_proc" where
  "with_session m =
     bind (gets rg_session) (\<lambda>session.
     case session of
       None \<Rightarrow> ret ()
     | Some x \<Rightarrow> zoom (\<lambda>s. x) (\<lambda>y s. s\<lparr>rg_session := Some y\<rparr>) m)"

definition router_emit :: "'w VoiceRouter \<Rightarrow> VoiceEventType \<Rightarrow> Utterance \<Rightarrow> (string \<times> string) list \<Rightarrow> ('w, unit) route_proc" where
  "router_emit ro type u detail =
     (case ro_sink ro of
        None \<Rightarrow> ret ()
      | Some sink \<Rightarrow> ask (sink
          \<lparr>ve_type = type, ve_session_id = ut_session_id u, ve_utterance_id = ut_id u, ve_detail = detail\<rparr>))"

definition response :: "ResponseStatus \<Rightarrow> string \<Rightarrow> VoiceIntent \<Rightarrow> VoiceResponse" where
  "response status message i =
     \<lparr>vp_status = status, vp_message = message, vp_intent = i, vp_action = None, vp_continuity_decision = None,
      vp_governance_decision = None, vp_approval_id = None, vp_approval_intent_id = None\<rparr>"

text \<open>\<open>_response\<close>\<close>

definition respond :: "'w VoiceRouter \<Rightarrow> Utterance \<Rightarrow> VoiceResponse \<Rightarrow> ('w, VoiceResponse) route_proc" where
  "respond ro u r =
     seq (router_emit ro RESPONSE_EMITTED u [(''status'', status_value (vp_status r))]) (ret r)"

definition interrupted_response :: "'w VoiceRouter \<Rightarrow> Utterance \<Rightarrow> VoiceIntent \<Rightarrow> ('w, VoiceResponse) route_proc" where
  "interrupted_response ro u i =
     respond ro u (response NEEDS_CONTEXT ''processing interrupted; stale voice turn was discarded'' i)"

text \<open>\<open>should_abort is not None and should_abort()\<close>\<close>

definition aborted :: "('w, vexn, bool) proc option \<Rightarrow> ('w, bool) route_proc" where
  "aborted should_abort = (case should_abort of None \<Rightarrow> ret False | Some check \<Rightarrow> ask check)"

definition unless_aborted ::
  "'w VoiceRouter \<Rightarrow> Utterance \<Rightarrow> VoiceIntent \<Rightarrow> ('w, vexn, bool) proc option \<Rightarrow>
   ('w, VoiceResponse) route_proc \<Rightarrow> ('w, VoiceResponse) route_proc" where
  "unless_aborted ro u i should_abort m =
     bind (aborted should_abort) (\<lambda>b. if b then interrupted_response ro u i else m)"

text \<open>A response about an action, with the decisions that were made.\<close>

definition governed ::
  "VoiceIntent \<Rightarrow> ActionRequest \<Rightarrow> ContinuityResult \<Rightarrow> GovernanceResult \<Rightarrow> ResponseStatus \<Rightarrow> string \<Rightarrow> VoiceResponse" where
  "governed i a c g status message =
     (response status message i)\<lparr>vp_action := Some a,
       vp_continuity_decision := Some (continuity_value (ct_decision c)),
       vp_governance_decision := Some (governance_value (gr_decision g))\<rparr>"

definition route_ready ::
  "'w VoiceRouter \<Rightarrow> Utterance \<Rightarrow> VoiceIntent \<Rightarrow> ActionRequest \<Rightarrow> ContinuityResult \<Rightarrow> GovernanceResult \<Rightarrow>
   ('w, vexn, bool) proc option \<Rightarrow> string option \<Rightarrow> ('w, VoiceResponse) route_proc" where
  "route_ready ro u i a c g should_abort approval_id =
     unless_aborted ro u i should_abort
       (seq (router_emit ro ACTION_READY u [(''operation'', ar_operation a)])
       (respond ro u ((governed i a c g READY
          ''bounded CyberCore action is ready for the existing execution boundary'')
            \<lparr>vp_approval_id := approval_id\<rparr>)))"

definition route_approval ::
  "'w VoiceRouter \<Rightarrow> Utterance \<Rightarrow> VoiceIntent \<Rightarrow> ActionRequest \<Rightarrow> ContinuityResult \<Rightarrow> GovernanceResult \<Rightarrow>
   ('w, vexn, bool) proc option \<Rightarrow> ('w, VoiceResponse) route_proc" where
  "route_approval ro u i a c g should_abort =
     unless_aborted ro u i should_abort
       (case capture_voice_approval_intent u a of
          Inl (ValueError msg) \<Rightarrow> respond ro u (governed i a c g NEEDS_CONTEXT msg)
        | Inl e \<Rightarrow> raise e
        | Inr captured \<Rightarrow>
            seq (router_emit ro APPROVAL_INTENT_CAPTURED_EVENT u [(''approval_intent_id'', va_id captured)])
            (respond ro u ((governed i a c g APPROVAL_INTENT_CAPTURED
               (''voice approval intent captured; it is not execution authorization '' @
                ''until CyberCore verifies a matching plan-bound approval''))
                 \<lparr>vp_approval_intent_id := Some (va_id captured)\<rparr>)))"

text \<open>After the governance gateway did not deny.\<close>

definition route_governed ::
  "'w VoiceRouter \<Rightarrow> Utterance \<Rightarrow> VoiceIntent \<Rightarrow> ActionRequest \<Rightarrow> ContinuityResult \<Rightarrow> GovernanceResult \<Rightarrow>
   ('w, vexn, bool) proc option \<Rightarrow> ('w, VoiceResponse) route_proc" where
  "route_governed ro u i a c g should_abort =
     (if mutating a \<and> vi_kind i = APPROVE then route_approval ro u i a c g should_abort
      else if gr_decision g = APPROVAL_REQUIRED
        then respond ro u (governed i a c g APPROVAL_REQUIRED_STATUS (gr_reason g))
      else if mutating a
        then (if \<not> has_bound_plan a
          then respond ro u (governed i a c g NEEDS_CONTEXT ''mutating voice action requires an exact plan id and revision'')
          else bind (ask (ro_approval ro a)) (\<lambda>check.
            if \<not> ac_authorized check
            then respond ro u (governed i a c g APPROVAL_REQUIRED_STATUS (ac_reason check))
            else route_ready ro u i a c g should_abort (ac_approval_id check)))
      else route_ready ro u i a c g should_abort None)"

definition route_action ::
  "'w VoiceRouter \<Rightarrow> Utterance \<Rightarrow> VoiceContext \<Rightarrow> VoiceIntent \<Rightarrow> ActionRequest \<Rightarrow> ('w, vexn, bool) proc option \<Rightarrow>
   ('w, VoiceResponse) route_proc" where
  "route_action ro u ctx i a should_abort =
     bind (ask (ro_howedo ro a ctx)) (\<lambda>c.
     seq (router_emit ro CONTINUITY_EVALUATED u [(''decision'', continuity_value (ct_decision c))])
     (if ct_decision c \<noteq> CONTINUE
      then seq (router_emit ro ACTION_BLOCKED u [(''reason'', ''continuity'')])
        (respond ro u ((response BLOCKED_CONTINUITY (ct_reason c) i)
          \<lparr>vp_action := Some a, vp_continuity_decision := Some (continuity_value (ct_decision c))\<rparr>))
      else bind (ask (ro_oathdo ro a ctx)) (\<lambda>g.
        seq (router_emit ro GOVERNANCE_EVALUATED u [(''decision'', governance_value (gr_decision g))])
        (if gr_decision g = DENY
         then seq (router_emit ro ACTION_BLOCKED u [(''reason'', ''governance'')])
           (respond ro u (governed i a c g BLOCKED_GOVERNANCE (gr_reason g)))
         else route_governed ro u i a c g should_abort))))"

definition router_handle ::
  "'w VoiceRouter \<Rightarrow> Utterance \<Rightarrow> VoiceContext \<Rightarrow> ('w, vexn, bool) proc option \<Rightarrow> ('w, VoiceResponse) route_proc" where
  "router_handle ro u ctx should_abort =
     seq (router_emit ro UTTERANCE_RECEIVED u [])
     (bind (ask (ro_compiler ro u ctx)) (\<lambda>i.
     seq (router_emit ro INTENT_CLASSIFIED u [(''kind'', kind_value (vi_kind i))])
     (unless_aborted ro u i should_abort
       (seq (with_session (session_mark_intent (vi_id i)))
       (if vi_kind i = CANCEL
        then seq (with_session session_cancel)
          (seq (router_emit ro VOICE_CANCELLED u [])
          (respond ro u (response CANCELLED_STATUS ''voice session action cancelled by operator intent'' i)))
        else bind (ask (ro_planner ro i ctx)) (\<lambda>action.
          unless_aborted ro u i should_abort
            (case action of
               None \<Rightarrow> respond ro u (response NEEDS_CONTEXT
                 ''no bounded CyberCore action could be planned from this utterance'' i)
             | Some a \<Rightarrow> route_action ro u ctx i a should_abort)))))))"

end
