(* ===== verification/Voice_Router_Properties.thy ===== *)
theory Voice_Router_Properties
  imports Voice_Router Voice_Turns
begin

text \<open>
  What a response of the router says: \<open>ready\<close> needs the answer of every gate, a spoken cancellation comes
  before everything else, and the router without gateways never calls an action ready.
\<close>

text \<open>A callback answered, in some world.\<close>

definition gave :: "('w, vexn, 'a) proc \<Rightarrow> 'a \<Rightarrow> bool" where
  "gave m a \<longleftrightarrow> (\<exists>w w'. m w = (Inr a, w'))"

lemma gave_ret [simp]: "gave (ret a) b \<longleftrightarrow> b = a"
  by (auto simp: gave_def ret_def)

lemma wp_ask:
  assumes "\<And>a w. gave m a \<Longrightarrow> Q a (s\<lparr>rg_world := w\<rparr>)" and "\<And>e w. E e (s\<lparr>rg_world := w\<rparr>)"
  shows "wp (ask m) Q E s"
  using assms by (auto simp: ask_def wp_def zoom_def gave_def split: prod.splits sum.splits)

lemma wp_router_emit:
  assumes "\<And>w. Q () (s\<lparr>rg_world := w\<rparr>)" and "\<And>e w. E e (s\<lparr>rg_world := w\<rparr>)"
  shows "wp (router_emit ro type u detail) Q E s"
proof (cases "ro_sink ro")
  case None
  then show ?thesis using assms(1) [of "rg_world s"] by (simp add: router_emit_def wp_simps)
next
  case (Some sink)
  then show ?thesis using assms by (auto simp: router_emit_def intro!: wp_ask)
qed

lemma wp_respond:
  assumes "\<And>w. Q r (s\<lparr>rg_world := w\<rparr>)" and "\<And>e w. E e (s\<lparr>rg_world := w\<rparr>)"
  shows "wp (respond ro u r) Q E s"
  using assms by (auto simp: respond_def wp_simps intro!: wp_router_emit)

lemma response_simps [simp]:
  "vp_status (response st msg i) = st" "vp_action (response st msg i) = None"
  "vp_status (governed i a c g st msg) = st" "vp_action (governed i a c g st msg) = Some a"
  "vp_approval_id (governed i a c g st msg) = None"
  by (simp_all add: response_def governed_def)

lemma wp_unless_aborted:
  assumes "\<And>w. (\<And>check. should_abort = Some check \<Longrightarrow> gave check False) \<Longrightarrow> wp m Q E (s\<lparr>rg_world := w\<rparr>)"
    and "\<And>msg w. Q (response NEEDS_CONTEXT msg i) (s\<lparr>rg_world := w\<rparr>)" and "\<And>e w. E e (s\<lparr>rg_world := w\<rparr>)"
  shows "wp (unless_aborted ro u i should_abort m) Q E s"
proof (cases should_abort)
  case None
  then show ?thesis
    using assms(1) [of "rg_world s"] by (simp add: unless_aborted_def aborted_def wp_simps)
next
  case (Some check)
  have "wp m Q E (s\<lparr>rg_world := w\<rparr>)" if "gave check False" for w
    by (rule assms(1)) (use Some that in simp)
  then show ?thesis
    using assms(2,3) Some
    by (auto simp: unless_aborted_def aborted_def interrupted_response_def wp_simps intro!: wp_ask wp_respond)
qed

section \<open>Ready\<close>

text \<open>What the gates must have answered for an action to be ready.\<close>

definition ready_action ::
  "'w VoiceRouter \<Rightarrow> VoiceContext \<Rightarrow> ('w, vexn, bool) proc option \<Rightarrow> VoiceIntent \<Rightarrow> ActionRequest \<Rightarrow> VoiceResponse \<Rightarrow> bool" where
  "ready_action ro ctx should_abort i a r \<longleftrightarrow>
     vp_action r = Some a \<and>
     (\<exists>c g. gave (ro_howedo ro a ctx) c \<and> ct_decision c = CONTINUE \<and>
        gave (ro_oathdo ro a ctx) g \<and> gr_decision g = ALLOW) \<and>
     (if mutating a
      then vi_kind i \<noteq> APPROVE \<and> has_bound_plan a \<and>
        (\<exists>check. gave (ro_approval ro a) check \<and> ac_authorized check \<and> vp_approval_id r = ac_approval_id check)
      else vp_approval_id r = None) \<and>
     (\<forall>check. should_abort = Some check \<longrightarrow> gave check False)"

lemma route_governed_ready:
  assumes "gave (ro_howedo ro a ctx) c" and "ct_decision c = CONTINUE"
    and "gave (ro_oathdo ro a ctx) g" and "gr_decision g \<noteq> DENY"
  shows "wp (route_governed ro u i a c g should_abort)
    (\<lambda>r _. vp_status r = READY \<longrightarrow> ready_action ro ctx should_abort i a r) (\<lambda>_ _. True) s"
proof -
  have allow: "gr_decision g = ALLOW" if "gr_decision g \<noteq> APPROVAL_REQUIRED"
    using that assms(4) by (cases "gr_decision g") auto
  have gates: "\<exists>c g. gave (ro_howedo ro a ctx) c \<and> ct_decision c = CONTINUE \<and>
      gave (ro_oathdo ro a ctx) g \<and> gr_decision g = ALLOW" if "gr_decision g \<noteq> APPROVAL_REQUIRED"
    using assms allow [OF that] by blast
  have ready: "wp (route_ready ro u i a c g should_abort approval_id)
      (\<lambda>r _. vp_status r = READY \<longrightarrow> ready_action ro ctx should_abort i a r) (\<lambda>_ _. True) t"
    if "gr_decision g \<noteq> APPROVAL_REQUIRED"
      and "if mutating a then vi_kind i \<noteq> APPROVE \<and> has_bound_plan a \<and>
          (\<exists>check. gave (ro_approval ro a) check \<and> ac_authorized check \<and> approval_id = ac_approval_id check)
        else approval_id = None" for t approval_id
    using that gates
    by (auto simp: route_ready_def wp_simps ready_action_def intro!: wp_unless_aborted wp_router_emit wp_respond)
  have approval: "wp (route_approval ro u i a c g should_abort) (\<lambda>r _. vp_status r \<noteq> READY) (\<lambda>_ _. True) t" for t
    by (auto simp: route_approval_def wp_simps split: sum.splits vexn.splits intro!: wp_unless_aborted wp_router_emit wp_respond)
  show ?thesis
    unfolding route_governed_def
    by (auto simp: wp_simps intro!: wp_ask wp_respond ready wp_mono [OF approval]) blast
qed

lemma route_action_ready:
  "wp (route_action ro u ctx i a should_abort)
    (\<lambda>r _. vp_status r = READY \<longrightarrow> ready_action ro ctx should_abort i a r) (\<lambda>_ _. True) s"
  unfolding route_action_def
  by (auto simp: wp_simps intro!: wp_ask wp_router_emit wp_respond route_governed_ready)

lemma wp_with_session:
  assumes "\<And>x. rg_session s = Some x \<Longrightarrow>
      wp m (\<lambda>_ y. Q () (s\<lparr>rg_session := Some y\<rparr>)) (\<lambda>e y. E e (s\<lparr>rg_session := Some y\<rparr>)) x"
    and "rg_session s = None \<Longrightarrow> Q () s"
  shows "wp (with_session m) Q E s"
  using assms by (auto simp: with_session_def wp_simps split: option.splits)

lemma wp_session:
  assumes "\<And>a t. Q a t" and "\<And>e t. E e t"
  shows "wp m Q E (s :: VoiceSession)"
  using assms by (auto simp: wp_def split: prod.splits sum.splits)

lemma router_handle_ready:
  assumes "router_handle ro u ctx should_abort s = (Inr r, s')" and "vp_status r = READY"
  shows "\<exists>i a. gave (ro_compiler ro u ctx) i \<and> vi_kind i \<noteq> CANCEL \<and> gave (ro_planner ro i ctx) (Some a) \<and>
    ready_action ro ctx should_abort i a r"
proof -
  have "wp (router_handle ro u ctx should_abort)
    (\<lambda>r _. vp_status r = READY \<longrightarrow> (\<exists>i a. gave (ro_compiler ro u ctx) i \<and> vi_kind i \<noteq> CANCEL \<and>
       gave (ro_planner ro i ctx) (Some a) \<and> ready_action ro ctx should_abort i a r)) (\<lambda>_ _. True) s"
    unfolding router_handle_def
    by (auto simp: wp_simps split: option.splits
        intro!: wp_router_emit wp_ask wp_unless_aborted wp_with_session wp_session wp_respond wp_mono [OF route_action_ready]) blast+
  with assms show ?thesis by (auto simp: wp_def)
qed



text \<open>A router whose gates all agree, on a mutation with a bound plan.\<close>

definition agreeing_router :: "unit VoiceRouter" where
  "agreeing_router =
     \<lparr>ro_compiler = (\<lambda>u c. ret (RuleIntentCompiler_compile u c)),
      ro_planner = (\<lambda>i c. ret (Some \<lparr>ar_intent_id = vi_id i, ar_operation = ''restart'', ar_risk = MUTATION, ar_target = None,
        ar_plan_id = Some ''p1'', ar_plan_revision = Some ''r1'', ar_scope = []\<rparr>)),
      ro_howedo = (\<lambda>a c. ret (normalize_howedo_decision (Some ''continue'') ''ok'' None)),
      ro_oathdo = (\<lambda>a c. ret (normalize_oathdo_decision (Some '' Allow '') ''ok'' None)),
      ro_approval = (\<lambda>a. ret \<lparr>ac_authorized = True, ac_reason = ''ok'', ac_approval_id = Some ''ap1''\<rparr>),
      ro_sink = None\<rparr>"

definition an_utterance :: "string \<Rightarrow> Utterance" where
  "an_utterance t = \<lparr>ut_id = ''u1'', ut_session_id = ''s1'', ut_actor_id = ''op'', ut_text = t\<rparr>"

definition no_context :: VoiceContext where
  "no_context = \<lparr>vc_project = None, vc_machine = None, vc_active_plan_id = None, vc_active_plan_revision = None,
     vc_references = (\<lambda>_. None)\<rparr>"

definition an_active_session :: VoiceSession where
  "an_active_session = \<lparr>vs_session_id = ''s1'', vs_status = SESSION_ACTIVE, vs_active_intent_id = None,
     vs_interruption_reason = None, vs_references = (\<lambda>_. None)\<rparr>"

lemma strip_trimmed:
  assumes "leading_space s = 0" and "trailing_space (rev s) = 0"
  shows "strip s = s"
  using assms by (simp add: strip_def drop_spaces.simps [of _ s] drop_spaces.simps [of _ "rev s"])

lemma lower_ascii:
  assumes "(of_char c :: nat) < 128"
  shows "lower (c # s) = lower_char c # lower s"
proof -
  have "c \<noteq> CHR 0xE2" "c \<noteq> CHR 0xC4" using assms by auto
  then show ?thesis by (subst lower.simps) (simp split: list.splits del: lower.simps(2))
qed

lemma lower_map: "list_all (\<lambda>c. (of_char c :: nat) < 128) s \<Longrightarrow> lower s = map lower_char s"
  by (induction s) (simp_all add: lower_ascii del: lower.simps(2))

lemma spoken_words:
  "lower (strip ''proved zalohu'') = ''proved zalohu''" "lower (strip ''Prosim STOP'') = ''prosim stop''"
proof -
  have "strip ''proved zalohu'' = ''proved zalohu''" by (rule strip_trimmed) simp_all
  then show "lower (strip ''proved zalohu'') = ''proved zalohu''"
    by (simp add: lower_map lower_char_def del: lower.simps)
  have chars: "char_of (112::nat) = CHR ''p''" "char_of (115::nat) = CHR ''s''"
    "char_of (116::nat) = CHR ''t''" "char_of (111::nat) = CHR ''o''" by code_simp+
  have "strip ''Prosim STOP'' = ''Prosim STOP''" by (rule strip_trimmed) simp_all
  then show "lower (strip ''Prosim STOP'') = ''prosim stop''"
    by (simp add: lower_map lower_char_def chars del: lower.simps)
qed

lemma spoken_execute: "classify ''proved zalohu'' = EXECUTE"
  unfolding classify_def spoken_words by (simp add: intent_markers_def)

lemma spoken_gates:
  "ct_decision (normalize_howedo_decision (Some ''continue'') ''ok'' None) = CONTINUE"
  "gr_decision (normalize_oathdo_decision (Some '' Allow '') ''ok'' None) = ALLOW"
  by code_simp+

lemma intent_id_not_blank: "strip ''intent:u1'' \<noteq> []"
  by code_simp

definition agreeing_run :: "(vexn + VoiceResponse) \<times> unit routing" where
  "agreeing_run = router_handle agreeing_router (an_utterance ''proved zalohu'') no_context (Some (ret False))
     \<lparr>rg_session = Some an_active_session, rg_world = ()\<rparr>"

lemma agreeing_run_ready: "case fst agreeing_run of Inr r \<Rightarrow> vp_status r = READY | Inl e \<Rightarrow> False"
  by (simp add: agreeing_run_def router_handle_def route_action_def route_governed_def route_ready_def
      agreeing_router_def router_emit_def ask_def zoom_def bind_def seq_def ret_def gets_def unless_aborted_def aborted_def
      with_session_def session_mark_intent_def an_active_session_def an_utterance_def RuleIntentCompiler_compile_def
      spoken_execute spoken_gates intent_id_not_blank mutating_def has_bound_plan_def respond_def governed_def response_def blank_def)


section \<open>Cancellation\<close>

definition spoken_cancel :: "string \<Rightarrow> bool" where
  "spoken_cancel u \<longleftrightarrow>
     list_ex (\<lambda>m. contains m (lower (strip u))) [''cancel'', ''stop'', ''abort'', ''zrus'', ''storno'']"

lemma classify_cancel: "classify u = CANCEL \<longleftrightarrow> spoken_cancel u"
  by (auto simp: classify_def spoken_cancel_def intent_markers_def Let_def)

lemma bind_ask_ret [simp]: "bind (ask (ret a)) f = f a"
  by (simp add: bind_def ask_def zoom_def ret_def fun_eq_iff)

abbreviation regated ::
  "'w VoiceRouter \<Rightarrow> (VoiceIntent \<Rightarrow> VoiceContext \<Rightarrow> ('w, vexn, ActionRequest option) proc) \<Rightarrow>
   (ActionRequest \<Rightarrow> VoiceContext \<Rightarrow> ('w, vexn, ContinuityResult) proc) \<Rightarrow>
   (ActionRequest \<Rightarrow> VoiceContext \<Rightarrow> ('w, vexn, GovernanceResult) proc) \<Rightarrow>
   (ActionRequest \<Rightarrow> ('w, vexn, ApprovalCheck) proc) \<Rightarrow> 'w VoiceRouter" where
  "regated ro p h g v \<equiv> ro\<lparr>ro_planner := p, ro_howedo := h, ro_oathdo := g, ro_approval := v\<rparr>"

lemma emit_regated [simp]: "router_emit (regated ro p h g v) = router_emit ro"
  by (simp add: router_emit_def fun_eq_iff)

lemma respond_regated [simp]: "respond (regated ro p h g v) = respond ro"
  by (simp add: respond_def fun_eq_iff)

lemma unless_aborted_regated [simp]: "unless_aborted (regated ro p h g v) = unless_aborted ro"
  by (simp add: unless_aborted_def [abs_def] interrupted_response_def cong: if_cong)

definition cancel_outcome :: "('w, vexn, bool) proc option \<Rightarrow> VoiceResponse \<Rightarrow> 'w routing \<Rightarrow> bool" where
  "cancel_outcome should_abort r s \<longleftrightarrow>
     vp_action r = None \<and>
     (vp_status r = CANCELLED_STATUS \<and> (\<forall>x. rg_session s = Some x \<longrightarrow> vs_status x = SESSION_CANCELLED) \<or>
      vp_status r = NEEDS_CONTEXT \<and> (\<exists>check. should_abort = Some check \<and> gave check True))"

lemma wp_unless_aborted_by:
  assumes "\<And>w. wp m Q E (s\<lparr>rg_world := w\<rparr>)"
    and "\<And>msg w check. should_abort = Some check \<Longrightarrow> gave check True \<Longrightarrow> Q (response NEEDS_CONTEXT msg i) (s\<lparr>rg_world := w\<rparr>)"
    and "\<And>e w. E e (s\<lparr>rg_world := w\<rparr>)"
  shows "wp (unless_aborted ro u i should_abort m) Q E s"
proof (cases should_abort)
  case None
  then show ?thesis
    using assms(1) [of "rg_world s"] by (simp add: unless_aborted_def aborted_def wp_simps)
next
  case (Some check)
  then show ?thesis
    using assms
    by (auto simp: unless_aborted_def aborted_def interrupted_response_def wp_simps intro!: wp_ask wp_respond)
qed

lemma wp_mark_intent:
  assumes "\<And>y. Q () (s\<lparr>rg_session := y\<rparr>)" and "\<And>e y. E e (s\<lparr>rg_session := y\<rparr>)"
  shows "wp (with_session (session_mark_intent i)) Q E s"
proof -
  have "Q () s" using assms(1) [of "rg_session s"] by simp
  then show ?thesis using assms by (intro wp_with_session wp_session)
qed

lemma wp_cancel_session:
  assumes "\<And>y. (\<And>x. y = Some x \<Longrightarrow> vs_status x = SESSION_CANCELLED) \<Longrightarrow> Q () (s\<lparr>rg_session := y\<rparr>)"
  shows "wp (with_session session_cancel) Q E s"
proof -
  have "Q () s" if "rg_session s = None"
  proof -
    from that have "s\<lparr>rg_session := None\<rparr> = s" by (metis routing.surjective routing.update_convs(1))
    with assms [of None] show ?thesis by simp
  qed
  then show ?thesis by (auto simp: session_cancel_def wp_simps intro!: wp_with_session assms)
qed

text \<open>C26: with the rule-based compiler, an utterance with one of the cancel words in it never reaches a planner,
  a gateway or the verifier: the result is the same whatever they are. When the router answers, the answer names no action,
  and either says cancelled, with the session cancelled for good, or says that the turn was dropped because
  the abort check asked for it.\<close>

theorem operator_cancel_wins:
  assumes "ro_compiler ro = (\<lambda>u c. ret (RuleIntentCompiler_compile u c))" and "spoken_cancel (ut_text u)"
  shows "router_handle ro u ctx should_abort s = router_handle (regated ro p h g v) u ctx should_abort s \<and>
    (\<forall>r s'. router_handle ro u ctx should_abort s = (Inr r, s') \<longrightarrow> cancel_outcome should_abort r s')"
proof -
  have kind: "vi_kind (RuleIntentCompiler_compile u ctx) = CANCEL"
    using assms(2) by (simp add: RuleIntentCompiler_compile_def Let_def classify_cancel)
  have "wp (router_handle ro u ctx should_abort) (cancel_outcome should_abort) (\<lambda>_ _. True) s"
    unfolding router_handle_def
    by (auto simp: wp_simps assms(1) kind cancel_outcome_def
        intro!: wp_router_emit wp_unless_aborted_by wp_mark_intent wp_cancel_session wp_respond)
  then show ?thesis
    by (auto simp: router_handle_def assms(1) kind wp_def)
qed


theorem operator_cancel_wins_witness:
  "router_handle VoiceRouter_default (an_utterance ''Prosim STOP'') no_context None (\<lparr>rg_session = Some an_active_session, rg_world = ()\<rparr>)
   = router_handle agreeing_router (an_utterance ''Prosim STOP'') no_context None \<lparr>rg_session = Some an_active_session, rg_world = ()\<rparr>"
proof -
  have stop: "spoken_cancel (ut_text (an_utterance ''Prosim STOP''))"
    unfolding spoken_cancel_def an_utterance_def Utterance.simps spoken_words by simp
  have gates: "agreeing_router = regated VoiceRouter_default (ro_planner agreeing_router) (ro_howedo agreeing_router)
      (ro_oathdo agreeing_router) (ro_approval agreeing_router)"
    by (simp add: agreeing_router_def VoiceRouter_default_def)
  have "ro_compiler VoiceRouter_default = (\<lambda>u c. ret (RuleIntentCompiler_compile u c))"
    by (simp add: VoiceRouter_default_def)
  from conjunct1 [OF operator_cancel_wins [OF this stop]] show ?thesis
    by (subst gates) assumption
qed

text \<open>The words are looked for as substrings: disagreement in Czech contains agreement.\<close>

lemma disagreement_is_approval: "classify ''nesouhlasim'' = APPROVE"
  by code_simp

text \<open>Without gateways nothing is ready.\<close>

lemma default_router_fails_closed:
  assumes "router_handle VoiceRouter_default u ctx should_abort s = (Inr r, s')"
  shows "vp_status r \<noteq> READY"
  using router_handle_ready [OF assms] by (auto simp: VoiceRouter_default_def)

end
