(* ===== verification/Py_Bytes.thy ===== *)
theory Py_Bytes
  imports Py_Json_Roundtrip Py_Time
begin

text \<open>
  Bytes and text: strict decoding and encoding of UTF-8, the length of a text in characters, lines, and
  results of checks. A text is the list of its UTF-8 bytes, where a lone surrogate (which JSON can
  write as an escape) has its three-byte form; such a text cannot be encoded.
\<close>

section \<open>Checks\<close>

definition andThen :: "'e + 'a \<Rightarrow> ('a \<Rightarrow> 'e + 'b) \<Rightarrow> 'e + 'b" where
  "andThen r f = (case r of Inl e \<Rightarrow> Inl e | Inr a \<Rightarrow> f a)"

definition ensure :: "bool \<Rightarrow> 'e \<Rightarrow> 'e + unit" where
  "ensure b e = (if b then Inr () else Inl e)"

named_theorems check_simps \<open>sequences of checks\<close>

lemma andThen_simps [simp]: "andThen (Inl e) f = Inl e" "andThen (Inr a) f = f a"
  by (simp_all add: andThen_def)

lemma andThen_Inr [check_simps]: "andThen r f = Inr b \<longleftrightarrow> (\<exists>a. r = Inr a \<and> f a = Inr b)"
  by (cases r) auto

lemma andThen_Inl [check_simps]: "andThen r f = Inl e \<longleftrightarrow> r = Inl e \<or> (\<exists>a. r = Inr a \<and> f a = Inl e)"
  by (cases r) auto

lemma ensure_iff [check_simps]: "ensure b e = Inr u \<longleftrightarrow> b" "ensure b e = Inl e' \<longleftrightarrow> \<not> b \<and> e' = e"
  by (auto simp: ensure_def)

lemma ensure_True [simp]: "ensure True e = Inr ()"
  by (simp add: ensure_def)

text \<open>The items of a list are checked in order, and the first error wins.\<close>

fun check_each :: "(nat \<Rightarrow> 'a \<Rightarrow> 'e + 'b) \<Rightarrow> nat \<Rightarrow> 'a list \<Rightarrow> 'e + 'b list" where
  "check_each f i [] = Inr []"
| "check_each f i (x # xs) = andThen (f i x) (\<lambda>y. andThen (check_each f (Suc i) xs) (\<lambda>ys. Inr (y # ys)))"

lemma check_each_map:
  assumes "\<And>i x. x \<in> set xs \<Longrightarrow> f i (g x) = Inr (h x)"
  shows "check_each f i (map g xs) = Inr (map h xs)"
  using assms by (induction xs arbitrary: i) simp_all

lemma check_each_length: "check_each f i xs = Inr ys \<Longrightarrow> length ys = length xs"
  by (induction xs arbitrary: i ys) (auto simp: check_simps)

lemma check_each_results: "check_each f i xs = Inr ys \<Longrightarrow> y \<in> set ys \<Longrightarrow> \<exists>i x. f i x = Inr y"
  by (induction xs arbitrary: i ys) (fastforce simp: check_simps)+

section \<open>UTF-8\<close>

definition continuation :: "char \<Rightarrow> bool" where
  "continuation c \<longleftrightarrow> (128 :: nat) \<le> of_char c \<and> (of_char c :: nat) < 192"

text \<open>The second byte of a sequence of three or four: neither overlong, nor a surrogate, nor past U+10FFFF.\<close>

definition second_ok :: "nat \<Rightarrow> char \<Rightarrow> bool" where
  "second_ok n c \<longleftrightarrow> continuation c \<and>
     (n = 224 \<longrightarrow> (160 :: nat) \<le> of_char c) \<and> (n = 237 \<longrightarrow> (of_char c :: nat) < 160) \<and>
     (n = 240 \<longrightarrow> (144 :: nat) \<le> of_char c) \<and> (n = 244 \<longrightarrow> (of_char c :: nat) < 144)"

text \<open>\<open>bytes.decode("utf-8")\<close> succeeds.\<close>

fun decodable :: "string \<Rightarrow> bool" where
  "decodable [] = True"
| "decodable (a # s) =
     (let n = of_char a :: nat in
      if n < 128 then decodable s
      else if 194 \<le> n \<and> n < 224 then
        (case s of b # r \<Rightarrow> continuation b \<and> decodable r | [] \<Rightarrow> False)
      else if 224 \<le> n \<and> n < 240 then
        (case s of b # c # r \<Rightarrow> second_ok n b \<and> continuation c \<and> decodable r | _ \<Rightarrow> False)
      else if 240 \<le> n \<and> n < 245 then
        (case s of b # c # d # r \<Rightarrow> second_ok n b \<and> continuation c \<and> continuation d \<and> decodable r | _ \<Rightarrow> False)
      else False)"

text \<open>\<open>str.encode("utf-8")\<close> succeeds: the text has no surrogate.\<close>

fun encodable :: "string \<Rightarrow> bool" where
  "encodable (a # b # s) = (\<not> (a = CHR 0xED \<and> (160 :: nat) \<le> of_char b) \<and> encodable (b # s))"
| "encodable _ = True"

text \<open>\<open>str.encode("utf-8", errors="replace")\<close> writes a question mark for a surrogate.\<close>

fun encode_replace :: "string \<Rightarrow> string" where
  "encode_replace (a # b # c # s) =
     (if a = CHR 0xED \<and> (160 :: nat) \<le> of_char b then CHR ''?'' # encode_replace s
      else a # encode_replace (b # c # s))"
| "encode_replace s = s"

lemma encode_replace_encodable: "encodable s \<Longrightarrow> encode_replace s = s"
  by (induction s rule: encode_replace.induct) auto

definition str_len :: "string \<Rightarrow> nat" where
  "str_len s = length (filter (\<lambda>c. \<not> continuation c) s)"

lemma str_len_Nil [simp]: "str_len [] = 0"
  by (simp add: str_len_def)

text \<open>The first \<open>n\<close> characters: \<open>s[:n]\<close>.\<close>

fun str_take :: "nat \<Rightarrow> string \<Rightarrow> string" where
  "str_take n [] = []"
| "str_take n (c # s) =
     (if continuation c then c # str_take n s
      else case n of 0 \<Rightarrow> [] | Suc m \<Rightarrow> c # str_take m s)"

lemma str_take_len: "str_len (str_take n s) \<le> n"
  by (induction n s rule: str_take.induct) (auto simp: str_len_def split: nat.splits)

lemma str_take_all: "str_len s \<le> n \<Longrightarrow> str_take n s = s"
  by (induction n s rule: str_take.induct) (auto simp: str_len_def split: nat.splits if_splits)

section \<open>ASCII\<close>

lemma continuation_ascii: "ascii_char c \<Longrightarrow> \<not> continuation c"
  by (simp add: ascii_char_def continuation_def)

lemma ascii_decodable: "list_all ascii_char s \<Longrightarrow> decodable s"
  by (induction s) (simp_all add: ascii_char_def)

lemma ascii_encodable: "list_all ascii_char s \<Longrightarrow> encodable s"
  by (induction s rule: encodable.induct) (auto simp: ascii_char_def)

lemma ascii_str_len: "list_all ascii_char s \<Longrightarrow> str_len s = length s"
  by (induction s) (simp_all add: str_len_def continuation_ascii)

section \<open>Lines and replacement\<close>

text \<open>The length of a line boundary at the front of a text (\<open>str.splitlines\<close>).\<close>

fun line_break :: "string \<Rightarrow> nat" where
  "line_break [] = 0"
| "line_break (a # s) =
     (let n = of_char a :: nat in
      if n = 13 then (if take 1 s = [CHR 0x0A] then 2 else 1)
      else if 10 \<le> n \<and> n \<le> 12 \<or> 28 \<le> n \<and> n \<le> 30 then 1
      else if a = CHR 0xC2 \<and> take 1 s = [CHR 0x85] then 2
      else if a = CHR 0xE2 \<and> (take 2 s = [CHR 0x80, CHR 0xA8] \<or> take 2 s = [CHR 0x80, CHR 0xA9]) then 3
      else 0)"

function split_lines :: "string \<Rightarrow> string \<Rightarrow> string list" where
  "split_lines line s =
     (case s of
        [] \<Rightarrow> (if line = [] then [] else [rev line])
      | a # r \<Rightarrow> if line_break s = 0 then split_lines (a # line) r else rev line # split_lines [] (drop (line_break s) s))"
  by pat_completeness auto
termination
  by (relation "measure (\<lambda>(line, s). length s)") auto

declare split_lines.simps [simp del]

definition splitlines :: "string \<Rightarrow> string list" where
  "splitlines s = split_lines [] s"

text \<open>\<open>s.replace(old, new)\<close> for a non-empty \<open>old\<close>.\<close>

function replace :: "string \<Rightarrow> string \<Rightarrow> string \<Rightarrow> string" where
  "replace old new s =
     (case s of
        [] \<Rightarrow> []
      | a # r \<Rightarrow> if old \<noteq> [] \<and> startswith s old then new @ replace old new (drop (length old) s) else a # replace old new r)"
  by pat_completeness auto
termination
  by (relation "measure (\<lambda>(old, new, s). length s)") auto

declare replace.simps [simp del]

end
