(* ===== verification/Exec_Inventory.thy ===== *)
theory Exec_Inventory
  imports Py_Bytes
begin

text \<open>
  The validation of a system inventory (src/src/cybercore/execution/server/inventory.py). An inventory is a
  JSON object; the validated inventory is a record here and \<open>inventory_dict\<close> is the dictionary the
  code builds from it. An error is the text of the \<open>ValueError\<close>. \<open>repr\<close> gives the text of the float nearest to a
  number (\<open>inf\<close> when there is none).
\<close>

section \<open>Fields\<close>

definition item :: "string \<Rightarrow> (string \<times> pyval) list \<Rightarrow> pyval" where
  "item k kvs = (case map_of kvs k of Some v \<Rightarrow> v | None \<Rightarrow> PNone)"

definition require_exact_dict :: "string list \<Rightarrow> string \<Rightarrow> pyval \<Rightarrow> string + (string \<times> pyval) list" where
  "require_exact_dict keys label v =
     (case v of
        PDict kvs \<Rightarrow> if set (map fst kvs) = set keys then Inr kvs
          else Inl (label @ '' does not match the exact inventory schema'')
      | _ \<Rightarrow> Inl (label @ '' does not match the exact inventory schema''))"

definition require_int :: "pyval \<Rightarrow> string \<Rightarrow> string + int" where
  "require_int v label =
     (case v of
        PInt i \<Rightarrow> if i < 0 then Inl (label @ '' must be a non-negative integer'') else Inr i
      | _ \<Rightarrow> Inl (label @ '' must be a non-negative integer''))"

definition require_positive_int :: "pyval \<Rightarrow> string \<Rightarrow> string + int" where
  "require_positive_int v label =
     andThen (require_int v label) (\<lambda>i.
       if i = 0 then Inl (label @ '' must be a positive integer'') else Inr i)"

text \<open>\<open>float(i)\<close> overflows from the number half way between the largest double and \<open>2 ** 1024\<close> on.\<close>

definition float_limit :: int where
  "float_limit = 2 ^ 1024 - 2 ^ 970"

definition infinite_text :: "string \<Rightarrow> bool" where
  "infinite_text t \<longleftrightarrow> t = ''inf'' \<or> t = ''-inf''"

definition require_finite :: "pyfloat \<Rightarrow> string \<Rightarrow> string + string" where
  "require_finite x label =
     (case x of
        Finite t \<Rightarrow>
          if infinite_text t then Inl (label @ '' must be finite'')
          else if float_text_value t < 0 then Inl (label @ '' must be non-negative'')
          else Inr t
      | _ \<Rightarrow> Inl (label @ '' must be finite''))"

definition require_number :: "(rat \<Rightarrow> string) \<Rightarrow> pyval \<Rightarrow> string \<Rightarrow> string + string" where
  "require_number repr v label =
     (case v of
        PInt i \<Rightarrow>
          if float_limit \<le> \<bar>i\<bar> then Inl (label @ '' is outside the supported numeric range'')
          else require_finite (Finite (repr (of_int i))) label
      | PFloat x \<Rightarrow> require_finite x label
      | _ \<Rightarrow> Inl (label @ '' must be numeric''))"

definition require_text :: "pyval \<Rightarrow> string \<Rightarrow> nat \<Rightarrow> string + string" where
  "require_text v label max_length =
     (case v of
        PStr s \<Rightarrow> if max_length < str_len s then Inl (label @ '' must be bounded text'') else Inr s
      | _ \<Rightarrow> Inl (label @ '' must be bounded text''))"

definition require_non_empty_text :: "pyval \<Rightarrow> string \<Rightarrow> nat \<Rightarrow> string + string" where
  "require_non_empty_text v label max_length =
     andThen (require_text v label max_length) (\<lambda>s.
       if blank s then Inl (label @ '' must not be empty'') else Inr s)"

section \<open>The validated inventory\<close>

record Host =
  ho_hostname :: string
  ho_cpu_logical :: int
  ho_load_1m :: string
  ho_load_5m :: string
  ho_load_15m :: string

record Memory =
  me_total :: int
  me_available :: int
  me_swap_total :: int
  me_swap_free :: int

record Filesystem =
  fi_total :: int
  fi_used :: int
  fi_free :: int

record Container =
  cn_name :: string
  cn_image :: string
  cn_status :: string
  cn_ports :: string
  cn_size :: string

record Storage =
  sg_type :: string
  sg_total_count :: string
  sg_active :: string
  sg_size :: string
  sg_reclaimable :: string

record Docker =
  dk_cli_present :: bool
  dk_access_status :: string
  dk_server_version :: "string option"
  dk_containers :: "Container list"
  dk_storage :: "Storage list"

record Inventory =
  iv_host :: Host
  iv_memory :: Memory
  iv_filesystem :: Filesystem
  iv_docker :: Docker

definition container_dict :: "Container \<Rightarrow> pyval" where
  "container_dict c = PDict
     [(''name'', PStr (cn_name c)), (''image'', PStr (cn_image c)), (''status'', PStr (cn_status c)),
      (''ports'', PStr (cn_ports c)), (''size'', PStr (cn_size c))]"

definition storage_dict :: "Storage \<Rightarrow> pyval" where
  "storage_dict s = PDict
     [(''type'', PStr (sg_type s)), (''total_count'', PStr (sg_total_count s)), (''active'', PStr (sg_active s)),
      (''size'', PStr (sg_size s)), (''reclaimable'', PStr (sg_reclaimable s))]"

definition host_dict :: "Host \<Rightarrow> pyval" where
  "host_dict h = PDict
     [(''hostname'', PStr (ho_hostname h)), (''cpu_logical'', PInt (ho_cpu_logical h)),
      (''load_1m'', PFloat (Finite (ho_load_1m h))), (''load_5m'', PFloat (Finite (ho_load_5m h))),
      (''load_15m'', PFloat (Finite (ho_load_15m h)))]"

definition memory_dict :: "Memory \<Rightarrow> pyval" where
  "memory_dict m = PDict
     [(''total_bytes'', PInt (me_total m)), (''available_bytes'', PInt (me_available m)),
      (''swap_total_bytes'', PInt (me_swap_total m)), (''swap_free_bytes'', PInt (me_swap_free m))]"

definition filesystem_dict :: "Filesystem \<Rightarrow> pyval" where
  "filesystem_dict f = PDict
     [(''total_bytes'', PInt (fi_total f)), (''used_bytes'', PInt (fi_used f)), (''free_bytes'', PInt (fi_free f))]"

definition docker_dict :: "Docker \<Rightarrow> pyval" where
  "docker_dict d = PDict
     [(''cli_present'', PBool (dk_cli_present d)), (''access_status'', PStr (dk_access_status d)),
      (''server_version'', case dk_server_version d of None \<Rightarrow> PNone | Some v \<Rightarrow> PStr v),
      (''containers'', PList (map container_dict (dk_containers d))),
      (''storage'', PList (map storage_dict (dk_storage d)))]"

definition inventory_dict :: "Inventory \<Rightarrow> pyval" where
  "inventory_dict i = PDict
     [(''schema_version'', PInt 1), (''host'', host_dict (iv_host i)), (''memory'', memory_dict (iv_memory i)),
      (''root_filesystem'', filesystem_dict (iv_filesystem i)), (''docker'', docker_dict (iv_docker i))]"

section \<open>Validation\<close>

definition read_host :: "(rat \<Rightarrow> string) \<Rightarrow> (string \<times> pyval) list \<Rightarrow> string + Host" where
  "read_host repr host =
     andThen (require_text (item ''hostname'' host) ''hostname'' 255) (\<lambda>hostname.
     andThen (require_positive_int (item ''cpu_logical'' host) ''cpu_logical'') (\<lambda>cpu.
     andThen (require_number repr (item ''load_1m'' host) ''load_1m'') (\<lambda>l1.
     andThen (require_number repr (item ''load_5m'' host) ''load_5m'') (\<lambda>l5.
     andThen (require_number repr (item ''load_15m'' host) ''load_15m'') (\<lambda>l15.
     Inr \<lparr>ho_hostname = hostname, ho_cpu_logical = cpu, ho_load_1m = l1, ho_load_5m = l5, ho_load_15m = l15\<rparr>)))))"

definition read_memory :: "(string \<times> pyval) list \<Rightarrow> string + Memory" where
  "read_memory memory =
     andThen (require_int (item ''total_bytes'' memory) ''total_bytes'') (\<lambda>total.
     andThen (require_int (item ''available_bytes'' memory) ''available_bytes'') (\<lambda>available.
     andThen (require_int (item ''swap_total_bytes'' memory) ''swap_total_bytes'') (\<lambda>swap_total.
     andThen (require_int (item ''swap_free_bytes'' memory) ''swap_free_bytes'') (\<lambda>swap_free.
     Inr \<lparr>me_total = total, me_available = available, me_swap_total = swap_total, me_swap_free = swap_free\<rparr>))))"

definition read_filesystem :: "(string \<times> pyval) list \<Rightarrow> string + Filesystem" where
  "read_filesystem filesystem =
     andThen (require_int (item ''total_bytes'' filesystem) ''total_bytes'') (\<lambda>total.
     andThen (require_int (item ''used_bytes'' filesystem) ''used_bytes'') (\<lambda>used.
     andThen (require_int (item ''free_bytes'' filesystem) ''free_bytes'') (\<lambda>free.
     Inr \<lparr>fi_total = total, fi_used = used, fi_free = free\<rparr>)))"

definition check_filesystem :: "Filesystem \<Rightarrow> string + unit" where
  "check_filesystem f =
     (if fi_total f = 0 then Inl ''filesystem total_bytes must be positive''
      else if fi_total f < fi_used f then Inl ''filesystem used_bytes cannot exceed total_bytes''
      else if fi_total f < fi_free f then Inl ''filesystem free_bytes cannot exceed total_bytes''
      else if fi_total f < fi_used f + fi_free f
        then Inl ''filesystem used_bytes + free_bytes cannot exceed total_bytes''
      else Inr ())"

definition check_memory :: "Memory \<Rightarrow> string + unit" where
  "check_memory m =
     (if me_total m = 0 then Inl ''memory total_bytes must be positive''
      else if me_total m < me_available m then Inl ''available_bytes cannot exceed total_bytes''
      else if me_swap_total m < me_swap_free m then Inl ''swap_free_bytes cannot exceed swap_total_bytes''
      else Inr ())"

definition read_container :: "nat \<Rightarrow> pyval \<Rightarrow> string + Container" where
  "read_container index v =
     andThen (require_exact_dict [''name'', ''image'', ''status'', ''ports'', ''size'']
       (''docker container '' @ nat_str index) v) (\<lambda>row.
     andThen (require_non_empty_text (item ''name'' row) ''container name'' 256) (\<lambda>name.
     andThen (require_non_empty_text (item ''image'' row) ''container image'' 512) (\<lambda>image.
     andThen (require_non_empty_text (item ''status'' row) ''container status'' 256) (\<lambda>status.
     andThen (require_text (item ''ports'' row) ''container ports'' 1024) (\<lambda>ports.
     andThen (require_non_empty_text (item ''size'' row) ''container size'' 128) (\<lambda>size.
     Inr \<lparr>cn_name = name, cn_image = image, cn_status = status, cn_ports = ports, cn_size = size\<rparr>))))))"

definition read_storage :: "nat \<Rightarrow> pyval \<Rightarrow> string + Storage" where
  "read_storage index v =
     andThen (require_exact_dict [''type'', ''total_count'', ''active'', ''size'', ''reclaimable'']
       (''docker storage '' @ nat_str index) v) (\<lambda>row.
     andThen (require_non_empty_text (item ''type'' row) ''storage type'' 128) (\<lambda>type.
     andThen (require_non_empty_text (item ''total_count'' row) ''storage total_count'' 64) (\<lambda>count.
     andThen (require_non_empty_text (item ''active'' row) ''storage active'' 64) (\<lambda>active.
     andThen (require_non_empty_text (item ''size'' row) ''storage size'' 128) (\<lambda>size.
     andThen (require_non_empty_text (item ''reclaimable'' row) ''storage reclaimable'' 128) (\<lambda>reclaimable.
     Inr \<lparr>sg_type = type, sg_total_count = count, sg_active = active, sg_size = size, sg_reclaimable = reclaimable\<rparr>))))))"

definition read_rows :: "string \<Rightarrow> nat \<Rightarrow> (nat \<Rightarrow> pyval \<Rightarrow> string + 'a) \<Rightarrow> pyval \<Rightarrow> string + 'a list" where
  "read_rows label limit read v =
     (case v of
        PList rows \<Rightarrow>
          if limit < length rows then Inl (label @ '' must be a bounded list'') else check_each read 0 rows
      | _ \<Rightarrow> Inl (label @ '' must be a bounded list''))"

definition access_statuses :: "string list" where
  "access_statuses = [''ok'', ''partial_failure'', ''not_installed'', ''denied_or_unreachable'']"

definition read_version :: "pyval \<Rightarrow> string + string option" where
  "read_version v =
     (case v of
        PNone \<Rightarrow> Inr None
      | _ \<Rightarrow> andThen (require_non_empty_text v ''docker server_version'' 128) (\<lambda>t. Inr (Some t)))"

definition read_docker :: "(string \<times> pyval) list \<Rightarrow> string + Docker" where
  "read_docker docker =
     andThen (case item ''cli_present'' docker of
         PBool b \<Rightarrow> Inr b | _ \<Rightarrow> Inl ''docker cli_present must be boolean'') (\<lambda>cli_present.
     andThen (require_text (item ''access_status'' docker) ''docker access_status'' 64) (\<lambda>access_status.
     andThen (ensure (access_status \<in> set access_statuses) ''docker access_status is not allowed'') (\<lambda>_.
     andThen (read_version (item ''server_version'' docker)) (\<lambda>version.
     andThen (read_rows ''docker containers'' 100 read_container (item ''containers'' docker)) (\<lambda>containers.
     andThen (read_rows ''docker storage'' 16 read_storage (item ''storage'' docker)) (\<lambda>storage.
     Inr \<lparr>dk_cli_present = cli_present, dk_access_status = access_status, dk_server_version = version,
       dk_containers = containers, dk_storage = storage\<rparr>))))))"

definition check_docker :: "Docker \<Rightarrow> string + unit" where
  "check_docker d =
     (if dk_access_status d = ''not_installed'' then
        (if dk_cli_present d \<or> dk_server_version d \<noteq> None \<or> dk_containers d \<noteq> [] \<or> dk_storage d \<noteq> []
         then Inl ''docker not_installed state is inconsistent'' else Inr ())
      else if dk_access_status d = ''denied_or_unreachable'' then
        (if \<not> dk_cli_present d \<or> dk_server_version d \<noteq> None \<or> dk_containers d \<noteq> [] \<or> dk_storage d \<noteq> []
         then Inl ''docker denied_or_unreachable state is inconsistent'' else Inr ())
      else if dk_access_status d = ''ok'' then
        (if \<not> dk_cli_present d \<or> dk_server_version d = None \<or> dk_storage d = []
         then Inl ''docker ok state is inconsistent'' else Inr ())
      else if dk_access_status d = ''partial_failure'' then
        (if \<not> dk_cli_present d then Inl ''docker partial_failure state is inconsistent'' else Inr ())
      else Inr ())"

definition validate_inventory_payload :: "(rat \<Rightarrow> string) \<Rightarrow> pyval \<Rightarrow> string + Inventory" where
  "validate_inventory_payload repr v =
     andThen (require_exact_dict [''schema_version'', ''host'', ''memory'', ''root_filesystem'', ''docker''] ''inventory'' v) (\<lambda>root.
     andThen (require_int (item ''schema_version'' root) ''schema_version'') (\<lambda>schema_version.
     andThen (ensure (schema_version = 1) ''unsupported inventory schema version'') (\<lambda>_.
     andThen (require_exact_dict [''hostname'', ''cpu_logical'', ''load_1m'', ''load_5m'', ''load_15m''] ''host'' (item ''host'' root)) (\<lambda>host.
     andThen (require_exact_dict [''total_bytes'', ''available_bytes'', ''swap_total_bytes'', ''swap_free_bytes''] ''memory'' (item ''memory'' root)) (\<lambda>memory.
     andThen (require_exact_dict [''total_bytes'', ''used_bytes'', ''free_bytes''] ''root_filesystem'' (item ''root_filesystem'' root)) (\<lambda>filesystem.
     andThen (require_exact_dict [''cli_present'', ''access_status'', ''server_version'', ''containers'', ''storage''] ''docker'' (item ''docker'' root)) (\<lambda>docker.
     andThen (read_host repr host) (\<lambda>h.
     andThen (read_memory memory) (\<lambda>m.
     andThen (read_filesystem filesystem) (\<lambda>f.
     andThen (check_filesystem f) (\<lambda>_.
     andThen (check_memory m) (\<lambda>_.
     andThen (read_docker docker) (\<lambda>d.
     andThen (check_docker d) (\<lambda>_.
     Inr \<lparr>iv_host = h, iv_memory = m, iv_filesystem = f, iv_docker = d\<rparr>))))))))))))))"

end
