(* ===== verification/Exec_Server.thy ===== *)
theory Exec_Server
  imports Exec_Inventory Sha256 Cyber_Prelude
begin

text \<open>
  The server side of governed execution: the request protocol, the fixed operations and the dispatcher
  (src/src/cybercore/execution/server/protocol.py, operations.py, dispatcher.py, authorization.py). The
  process runner, the clock and the authorization verifier are procedures on a world of their own.
  A deeply nested document, on which the JSON scanner exceeds the recursion limit, is not modelled.
\<close>

section \<open>Exceptions and processes\<close>

text \<open>What a process that was cut off has written: nothing, bytes, or text.\<close>

datatype partial_output = NoOutput | Bytes string | Text string

datatype xexn =
    RequestValidationError string
  | ExecutionBlockedError string
  | ValueError string
  | UnicodeEncodeError
  | OSError
  | TimeoutExpired partial_output partial_output
  | OtherError string

text \<open>\<open>CompletedProcess\<close>: \<open>None\<close> is a stream that was not captured.\<close>

record CompletedProcess =
  cp_returncode :: int
  cp_stdout :: "string option"
  cp_stderr :: "string option"

definition captured :: "string option \<Rightarrow> string" where
  "captured x = (case x of None \<Rightarrow> [] | Some s \<Rightarrow> s)"

definition utc_text :: "datetime \<Rightarrow> string" where
  "utc_text d = replace ''+00:00'' ''Z'' (isoformat d)"

definition digest_text :: "string \<Rightarrow> xexn + string" where
  "digest_text s = (if encodable s then Inr (sha256_hex s) else Inl UnicodeEncodeError)"

section \<open>Authorization\<close>

record ExecutionQuery =
  xq_operation_id :: string
  xq_operation :: string
  xq_target_id :: string
  xq_plan_id :: string
  xq_plan_revision :: string
  xq_authorization_reference :: string

record ExecutionAuthorizationCheck =
  xc_authorized :: bool
  xc_reason :: string

type_synonym 'w verifier = "ExecutionQuery \<Rightarrow> ('w, xexn, ExecutionAuthorizationCheck) proc"

definition DenyAll_verify :: "'w verifier" where
  "DenyAll_verify q =
     ret \<lparr>xc_authorized = False, xc_reason = ''no execution authorization verifier was configured''\<rparr>"

text \<open>\<open>authorization_verifier or DenyAllExecutionAuthorizationVerifier()\<close>\<close>

definition chosen_verifier :: "'w verifier option \<Rightarrow> 'w verifier" where
  "chosen_verifier v = (case v of None \<Rightarrow> DenyAll_verify | Some verify \<Rightarrow> verify)"

section \<open>The protocol\<close>

record ServerRequest =
  rq_version :: int
  rq_operation_id :: string
  rq_operation :: string
  rq_target_id :: string
  rq_plan_id :: string
  rq_plan_revision :: string
  rq_authorization_reference :: string
  rq_arguments :: "(string \<times> string) list"

definition required_keys :: "string list" where
  "required_keys =
     [''version'', ''operation_id'', ''operation'', ''target_id'', ''plan_id'', ''plan_revision'',
      ''authorization_reference'', ''arguments'']"

definition string_field :: "(string \<times> pyval) list \<Rightarrow> string \<Rightarrow> xexn + string" where
  "string_field kvs k =
     (case item k kvs of
        PStr s \<Rightarrow> if blank s then Inl (RequestValidationError (k @ '' must be a non-empty string'')) else Inr s
      | _ \<Rightarrow> Inl (RequestValidationError (k @ '' must be a non-empty string'')))"

definition check_request_version :: "pyval \<Rightarrow> xexn + unit" where
  "check_request_version v =
     (case v of
        PInt i \<Rightarrow> ensure (i = 1) (RequestValidationError ''unsupported protocol version'')
      | _ \<Rightarrow> Inl (RequestValidationError ''protocol version must be an integer''))"

definition check_request_arguments :: "pyval \<Rightarrow> xexn + unit" where
  "check_request_arguments v =
     (case v of
        PDict args \<Rightarrow> ensure (args = []) (RequestValidationError ''free-form operation arguments are not supported'')
      | _ \<Rightarrow> Inl (RequestValidationError ''arguments must be an object''))"

definition ServerRequest_from_mapping :: "(string \<times> pyval) list \<Rightarrow> xexn + ServerRequest" where
  "ServerRequest_from_mapping kvs =
     andThen (ensure (set (map fst kvs) = set required_keys)
       (RequestValidationError ''request fields do not match the exact protocol schema'')) (\<lambda>_.
     andThen (check_request_version (item ''version'' kvs)) (\<lambda>_.
     andThen (string_field kvs ''operation_id'') (\<lambda>operation_id.
     andThen (string_field kvs ''operation'') (\<lambda>operation.
     andThen (string_field kvs ''target_id'') (\<lambda>target_id.
     andThen (string_field kvs ''plan_id'') (\<lambda>plan_id.
     andThen (string_field kvs ''plan_revision'') (\<lambda>plan_revision.
     andThen (string_field kvs ''authorization_reference'') (\<lambda>reference.
     andThen (check_request_arguments (item ''arguments'' kvs)) (\<lambda>_.
     andThen (ensure (target_id = ''tasks.cyberdjs.org'')
       (RequestValidationError ''request target is not the canonical server target'')) (\<lambda>_.
     Inr \<lparr>rq_version = 1, rq_operation_id = operation_id, rq_operation = operation, rq_target_id = target_id,
       rq_plan_id = plan_id, rq_plan_revision = plan_revision, rq_authorization_reference = reference,
       rq_arguments = []\<rparr>))))))))))"

record ServerReceipt =
  sr_operation_id :: string
  sr_operation :: string
  sr_target_id :: string
  sr_plan_id :: string
  sr_plan_revision :: string
  sr_authorization_reference_sha256 :: string
  sr_started_at :: string
  sr_completed_at :: string
  sr_exit_code :: int
  sr_stdout_sha256 :: string
  sr_stderr_sha256 :: string
  sr_status :: string
  sr_mutation_possible :: bool
  sr_result :: "Inventory option"

definition ServerReceipt_as_dict :: "ServerReceipt \<Rightarrow> pyval" where
  "ServerReceipt_as_dict r = PDict
     ([(''operation_id'', PStr (sr_operation_id r)), (''operation'', PStr (sr_operation r)),
       (''target_id'', PStr (sr_target_id r)), (''plan_id'', PStr (sr_plan_id r)),
       (''plan_revision'', PStr (sr_plan_revision r)),
       (''authorization_reference_sha256'', PStr (sr_authorization_reference_sha256 r)),
       (''started_at'', PStr (sr_started_at r)), (''completed_at'', PStr (sr_completed_at r)),
       (''exit_code'', PInt (sr_exit_code r)), (''stdout_sha256'', PStr (sr_stdout_sha256 r)),
       (''stderr_sha256'', PStr (sr_stderr_sha256 r)), (''status'', PStr (sr_status r)),
       (''mutation_possible'', PBool (sr_mutation_possible r)), (''secret_values_recorded'', PBool False)] @
      (case sr_result r of None \<Rightarrow> [] | Some i \<Rightarrow> [(''result'', inventory_dict i)]))"

section \<open>Operations\<close>

record OperationSpec =
  os_name :: string
  os_argv :: "string list"
  os_mutating :: bool
  os_timeout_seconds :: nat
  os_result_kind :: "string option"

definition operation_specs :: "OperationSpec list" where
  "operation_specs =
     [\<lparr>os_name = ''system.inventory'',
       os_argv = [''/usr/bin/python3'', ''/usr/local/libexec/cybercore-exec/inventory.py''],
       os_mutating = False, os_timeout_seconds = 20, os_result_kind = Some ''system_inventory''\<rparr>,
      \<lparr>os_name = ''vikunja.backup.install'',
       os_argv = [''/usr/bin/systemctl'', ''start'', ''cybercore-vikunja-backup-install.service''],
       os_mutating = True, os_timeout_seconds = 120, os_result_kind = None\<rparr>,
      \<lparr>os_name = ''vikunja.backup.run'',
       os_argv = [''/usr/bin/systemctl'', ''start'', ''cybercore-vikunja-backup-run.service''],
       os_mutating = True, os_timeout_seconds = 120, os_result_kind = None\<rparr>,
      \<lparr>os_name = ''vikunja.backup.status'',
       os_argv = [''/usr/bin/systemctl'', ''is-active'', ''vikunja-backup.timer''],
       os_mutating = False, os_timeout_seconds = 15, os_result_kind = None\<rparr>,
      \<lparr>os_name = ''vikunja.health.verify'',
       os_argv = [''/usr/bin/curl'', ''--fail'', ''--silent'', ''--show-error'', ''--max-time'', ''10'',
         ''http://127.0.0.1:3456/api/v1/info''],
       os_mutating = False, os_timeout_seconds = 15, os_result_kind = None\<rparr>]"

definition resolve_operation :: "ServerRequest \<Rightarrow> xexn + OperationSpec" where
  "resolve_operation rq =
     (if rq_arguments rq \<noteq> [] then Inl (RequestValidationError ''operation arguments must be empty'')
      else case find (\<lambda>spec. os_name spec = rq_operation rq) operation_specs of
        None \<Rightarrow> Inl (RequestValidationError ''operation is not supported by the server allowlist'')
      | Some spec \<Rightarrow> Inr spec)"

section \<open>The dispatcher\<close>

type_synonym 'w runner = "string list \<Rightarrow> nat \<Rightarrow> ('w, xexn, CompletedProcess) proc"

definition server_timeout_bytes :: "partial_output \<Rightarrow> string" where
  "server_timeout_bytes x = (case x of NoOutput \<Rightarrow> [] | Bytes s \<Rightarrow> s | Text s \<Rightarrow> encode_replace s)"

definition structured_result :: "(rat \<Rightarrow> string) \<Rightarrow> string option \<Rightarrow> string \<Rightarrow> xexn + Inventory option" where
  "structured_result repr kind out =
     (case kind of
        None \<Rightarrow> Inr None
      | Some k \<Rightarrow>
          if k \<noteq> ''system_inventory'' then Inl (RequestValidationError ''operation result kind is not supported'')
          else if \<not> decodable out then Inl (RequestValidationError ''system inventory output failed validation'')
          else case json_loads False repr out of
            Inl e \<Rightarrow> Inl (RequestValidationError ''system inventory output failed validation'')
          | Inr v \<Rightarrow>
              (case validate_inventory_payload repr v of
                 Inl e \<Rightarrow> Inl (RequestValidationError ''system inventory output failed validation'')
               | Inr i \<Rightarrow> Inr (Some i)))"

definition request_query :: "ServerRequest \<Rightarrow> ExecutionQuery" where
  "request_query rq =
     \<lparr>xq_operation_id = rq_operation_id rq, xq_operation = rq_operation rq, xq_target_id = rq_target_id rq,
      xq_plan_id = rq_plan_id rq, xq_plan_revision = rq_plan_revision rq,
      xq_authorization_reference = rq_authorization_reference rq\<rparr>"

text \<open>The process is run; a timeout is exit code 124 with what was written so far.\<close>

definition server_run :: "'w runner \<Rightarrow> ('w, xexn, datetime) proc \<Rightarrow> OperationSpec \<Rightarrow> ('w, xexn, int \<times> string \<times> string \<times> datetime) proc" where
  "server_run run clock spec =
     bind (attempt (run (os_argv spec) (os_timeout_seconds spec))) (\<lambda>outcome.
     case outcome of
       Inr cp \<Rightarrow> bind clock (\<lambda>t. ret (cp_returncode cp, captured (cp_stdout cp), captured (cp_stderr cp), t))
     | Inl (TimeoutExpired out err) \<Rightarrow>
         bind clock (\<lambda>t. ret (124, server_timeout_bytes out,
           server_timeout_bytes err @ CHR 0x0A # ''cybercore-exec operation timed out'', t))
     | Inl e \<Rightarrow> raise e)"

definition server_receipt ::
  "ServerRequest \<Rightarrow> OperationSpec \<Rightarrow> datetime \<Rightarrow> datetime \<Rightarrow> int \<Rightarrow> string \<Rightarrow> string \<Rightarrow> Inventory option \<Rightarrow> xexn + ServerReceipt" where
  "server_receipt rq spec started completed exit_code out err result =
     andThen (digest_text (rq_authorization_reference rq)) (\<lambda>reference.
     Inr \<lparr>sr_operation_id = rq_operation_id rq, sr_operation = rq_operation rq, sr_target_id = rq_target_id rq,
       sr_plan_id = rq_plan_id rq, sr_plan_revision = rq_plan_revision rq,
       sr_authorization_reference_sha256 = reference, sr_started_at = utc_text started,
       sr_completed_at = utc_text completed, sr_exit_code = exit_code, sr_stdout_sha256 = sha256_hex out,
       sr_stderr_sha256 = sha256_hex err, sr_status = (if exit_code = 0 then ''EXECUTED'' else ''FAILED''),
       sr_mutation_possible = os_mutating spec, sr_result = result\<rparr>)"

definition execute_authorized ::
  "(rat \<Rightarrow> string) \<Rightarrow> 'w runner \<Rightarrow> ('w, xexn, datetime) proc \<Rightarrow> ServerRequest \<Rightarrow> OperationSpec \<Rightarrow> ('w, xexn, ServerReceipt) proc" where
  "execute_authorized repr run clock rq spec =
     bind clock (\<lambda>started.
     bind (server_run run clock spec) (\<lambda>(exit_code, out, err, completed).
     bind (if exit_code = 0 then lift (structured_result repr (os_result_kind spec) out) else ret None) (\<lambda>result.
     lift (server_receipt rq spec started completed exit_code out err result))))"

definition execute_request ::
  "(rat \<Rightarrow> string) \<Rightarrow> 'w verifier option \<Rightarrow> 'w runner \<Rightarrow> ('w, xexn, datetime) proc \<Rightarrow> ServerRequest \<Rightarrow> ('w, xexn, ServerReceipt) proc" where
  "execute_request repr verifier run clock rq =
     bind (lift (resolve_operation rq)) (\<lambda>spec.
     if os_mutating spec then
       bind (chosen_verifier verifier (request_query rq)) (\<lambda>check.
       if xc_authorized check then execute_authorized repr run clock rq spec
       else raise (RequestValidationError ''mutating request lacks verified authorization''))
     else execute_authorized repr run clock rq spec)"

definition blocked_dict :: "string \<Rightarrow> pyval" where
  "blocked_dict reason =
     PDict [(''status'', PStr ''BLOCKED''), (''reason'', PStr reason), (''secret_values_recorded'', PBool False)]"

definition load_request :: "(rat \<Rightarrow> string) \<Rightarrow> string \<Rightarrow> xexn + ServerRequest" where
  "load_request repr raw =
     (if 16384 < length raw then Inl (RequestValidationError ''request exceeds the maximum encoded size'')
      else if \<not> decodable raw then Inl (RequestValidationError ''request is not valid UTF-8 JSON'')
      else case json_loads False repr raw of
        Inl JIntTooLong \<Rightarrow> Inl (ValueError ''Exceeds the limit (4300 digits) for integer string conversion'')
      | Inl e \<Rightarrow> Inl (RequestValidationError ''request is not valid UTF-8 JSON'')
      | Inr (PDict kvs) \<Rightarrow> ServerRequest_from_mapping kvs
      | Inr v \<Rightarrow> Inl (RequestValidationError ''request root must be an object''))"

definition dumps_line :: "pyval \<Rightarrow> xexn + string" where
  "dumps_line v =
     (case json_dumps True True v of
        Inl e \<Rightarrow> Inl (ValueError ''Exceeds the limit (4300 digits) for integer string conversion'')
      | Inr x \<Rightarrow> Inr (x @ [CHR 0x0A]))"

definition server_main ::
  "(rat \<Rightarrow> string) \<Rightarrow> 'w runner \<Rightarrow> ('w, xexn, datetime) proc \<Rightarrow> string \<Rightarrow> ('w, xexn, string \<times> int) proc" where
  "server_main repr run clock stdin =
     bind (handle
       (bind (lift (load_request repr (take 16385 stdin))) (\<lambda>rq.
        bind (execute_request repr None run clock rq) (\<lambda>r.
        ret (ServerReceipt_as_dict r, if sr_status r = ''EXECUTED'' then 0 else 1))))
       (\<lambda>e. case e of
          RequestValidationError reason \<Rightarrow> Some (ret (blocked_dict reason, 2))
        | OSError \<Rightarrow> Some (ret (blocked_dict ''fixed operation executable is unavailable'', 126))
        | _ \<Rightarrow> None))
     (\<lambda>(payload, exit_code). bind (lift (dumps_line payload)) (\<lambda>out. ret (out, exit_code)))"

end
