(* ===== verification/Exec_Client.thy ===== *)
theory Exec_Client
  imports Exec_Server
begin

text \<open>
  The client side of governed execution (src/src/cybercore/execution/models.py, policy.py, receipt.py,
  ssh_runner.py): the policy on an action, the transport and the check of what the server answered. The
  parser of ISO 8601 text, \<open>datetime.fromisoformat\<close>, is the parameter \<open>fromiso\<close>.
\<close>

section \<open>Actions and receipts\<close>

datatype ExecutionStatus = BLOCKED | EXECUTED | FAILED

record ExecutionTarget =
  xt_id :: string
  xt_hostname :: string
  xt_ssh_user :: string
  xt_subsystem :: string

record GovernedAction =
  ga_operation_id :: string
  ga_operation :: string
  ga_target_id :: string
  ga_plan_id :: string
  ga_plan_revision :: string
  ga_authorization_reference :: string
  ga_arguments :: "(string \<times> string) list"

definition action_has_bound_plan :: "GovernedAction \<Rightarrow> bool" where
  "action_has_bound_plan a \<longleftrightarrow> \<not> blank (ga_plan_id a) \<and> \<not> blank (ga_plan_revision a)"

record ActionReceipt =
  er_operation_id :: string
  er_operation :: string
  er_target_id :: string
  er_plan_id :: string
  er_plan_revision :: string
  er_authorization_reference_sha256 :: string
  er_transport_argv :: "string list"
  er_started_at :: string
  er_completed_at :: string
  er_exit_code :: int
  er_stdout_sha256 :: string
  er_stderr_sha256 :: string
  er_status :: ExecutionStatus
  er_mutation_possible :: bool
  er_result :: "Inventory option"
  er_secret_values_recorded :: bool

section \<open>The policy\<close>

definition VIKUNJA_TARGET :: ExecutionTarget where
  "VIKUNJA_TARGET = \<lparr>xt_id = ''tasks.cyberdjs.org'', xt_hostname = ''162.35.117.219'',
     xt_ssh_user = ''cybercore-exec'', xt_subsystem = ''cybercore-exec''\<rparr>"

definition SUPPORTED_OPERATIONS :: "string list" where
  "SUPPORTED_OPERATIONS =
     [''system.inventory'', ''vikunja.backup.install'', ''vikunja.backup.run'', ''vikunja.backup.status'',
      ''vikunja.health.verify'']"

definition MUTATING_OPERATIONS :: "string list" where
  "MUTATING_OPERATIONS = [''vikunja.backup.install'', ''vikunja.backup.run'']"

text \<open>No operation takes an argument.\<close>

definition ALLOWED_ARGUMENTS :: "string \<Rightarrow> string list" where
  "ALLOWED_ARGUMENTS operation = []"

record PolicyDecision =
  pd_allowed :: bool
  pd_reason :: string
  pd_mutating :: bool

definition refusal :: "string \<Rightarrow> PolicyDecision" where
  "refusal reason = \<lparr>pd_allowed = False, pd_reason = reason, pd_mutating = False\<rparr>"

definition evaluate_action :: "GovernedAction \<Rightarrow> ExecutionTarget \<Rightarrow> PolicyDecision" where
  "evaluate_action a t =
     (if t \<noteq> VIKUNJA_TARGET then refusal ''execution target is not the canonical WB-0037 target''
      else if ga_target_id a \<noteq> xt_id t then refusal ''action target does not match execution target''
      else if ga_operation a \<notin> set SUPPORTED_OPERATIONS then refusal ''operation is not supported by WB-0037 V1''
      else if blank (ga_operation_id a) then refusal ''operation_id is required''
      else if \<not> action_has_bound_plan a then refusal ''exact plan id and revision are required''
      else if blank (ga_authorization_reference a) then refusal ''authorization reference is required''
      else if set (map fst (ga_arguments a)) \<noteq> set (ALLOWED_ARGUMENTS (ga_operation a))
        then refusal ''operation arguments do not match the exact allowlist''
      else \<lparr>pd_allowed = True, pd_reason = ''bounded action accepted'',
        pd_mutating = ga_operation a \<in> set MUTATING_OPERATIONS\<rparr>)"

section \<open>Receipts\<close>

definition build_receipt ::
  "GovernedAction \<Rightarrow> string list \<Rightarrow> datetime \<Rightarrow> datetime \<Rightarrow> int \<Rightarrow> string \<Rightarrow> string \<Rightarrow> bool \<Rightarrow> Inventory option \<Rightarrow> xexn + ActionReceipt" where
  "build_receipt a argv started completed exit_code out err mutation_possible result =
     andThen (digest_text (ga_authorization_reference a)) (\<lambda>reference.
     Inr \<lparr>er_operation_id = ga_operation_id a, er_operation = ga_operation a, er_target_id = ga_target_id a,
       er_plan_id = ga_plan_id a, er_plan_revision = ga_plan_revision a,
       er_authorization_reference_sha256 = reference, er_transport_argv = argv,
       er_started_at = utc_text started, er_completed_at = utc_text completed, er_exit_code = exit_code,
       er_stdout_sha256 = sha256_hex out, er_stderr_sha256 = sha256_hex err,
       er_status = (if exit_code = 0 then EXECUTED else FAILED), er_mutation_possible = mutation_possible,
       er_result = result, er_secret_values_recorded = False\<rparr>)"

section \<open>The transport\<close>

definition build_transport_argv :: "ExecutionTarget \<Rightarrow> string list" where
  "build_transport_argv t =
     [''ssh'', ''-o'', ''BatchMode=yes'', ''-o'', ''IdentitiesOnly=yes'', ''-o'', ''StrictHostKeyChecking=yes'',
      ''-o'', ''ConnectTimeout=15'', ''-s'', xt_ssh_user t @ ''@'' @ xt_hostname t, xt_subsystem t]"

definition request_dict :: "GovernedAction \<Rightarrow> pyval" where
  "request_dict a = PDict
     [(''version'', PInt 1), (''operation_id'', PStr (ga_operation_id a)), (''operation'', PStr (ga_operation a)),
      (''target_id'', PStr (ga_target_id a)), (''plan_id'', PStr (ga_plan_id a)),
      (''plan_revision'', PStr (ga_plan_revision a)),
      (''authorization_reference'', PStr (ga_authorization_reference a)),
      (''arguments'', PDict (map (\<lambda>(k, v). (k, PStr v)) (ga_arguments a)))]"

definition request_bytes :: "GovernedAction \<Rightarrow> xexn + string" where
  "request_bytes a = dumps_line (request_dict a)"

definition client_timeout_bytes :: "partial_output \<Rightarrow> xexn + string" where
  "client_timeout_bytes x =
     (case x of NoOutput \<Rightarrow> Inr [] | Bytes s \<Rightarrow> Inr s
      | Text s \<Rightarrow> if encodable s then Inr s else Inl UnicodeEncodeError)"

section \<open>The answer of the server\<close>

definition inventory_receipt_keys :: "string list" where
  "inventory_receipt_keys =
     [''operation_id'', ''operation'', ''target_id'', ''plan_id'', ''plan_revision'',
      ''authorization_reference_sha256'', ''started_at'', ''completed_at'', ''exit_code'', ''stdout_sha256'',
      ''stderr_sha256'', ''status'', ''mutation_possible'', ''result'', ''secret_values_recorded'']"

definition require_sha256 :: "pyval \<Rightarrow> string \<Rightarrow> string + string" where
  "require_sha256 v label =
     (case v of
        PStr s \<Rightarrow>
          if str_len s \<noteq> 64 \<or> \<not> list_all (\<lambda>c. c \<in> set ''0123456789abcdef'') s
          then Inl (''server response '' @ label @ '' is not a SHA-256 digest'') else Inr s
      | _ \<Rightarrow> Inl (''server response '' @ label @ '' is not a SHA-256 digest''))"

definition require_timestamp :: "(string \<Rightarrow> datetime option) \<Rightarrow> pyval \<Rightarrow> string \<Rightarrow> string + datetime" where
  "require_timestamp fromiso v label =
     (case v of
        PStr s \<Rightarrow>
          (case fromiso (replace ''Z'' ''+00:00'' s) of
             None \<Rightarrow> Inl (''server response '' @ label @ '' is not a timestamp'')
           | Some d \<Rightarrow> if aware d then Inr d else Inl (''server response '' @ label @ '' must be timezone-aware''))
      | _ \<Rightarrow> Inl (''server response '' @ label @ '' is not a timestamp''))"

definition require_bool :: "pyval \<Rightarrow> string \<Rightarrow> string + unit" where
  "require_bool v label =
     (case v of PBool b \<Rightarrow> Inr () | _ \<Rightarrow> Inl (''server response '' @ label @ '' must be boolean''))"

text \<open>The fields the answer must repeat, in the order they are compared.\<close>

definition expected_binding :: "GovernedAction \<Rightarrow> (string \<times> pyval) list" where
  "expected_binding a =
     [(''operation_id'', PStr (ga_operation_id a)), (''operation'', PStr (ga_operation a)),
      (''target_id'', PStr (ga_target_id a)), (''plan_id'', PStr (ga_plan_id a)),
      (''plan_revision'', PStr (ga_plan_revision a)),
      (''authorization_reference_sha256'', PStr (sha256_hex (ga_authorization_reference a))),
      (''status'', PStr ''EXECUTED''), (''mutation_possible'', PBool False),
      (''secret_values_recorded'', PBool False)]"

definition check_binding :: "(string \<times> pyval) list \<Rightarrow> (string \<times> pyval) list \<Rightarrow> string + unit" where
  "check_binding expected payload =
     (case find (\<lambda>(k, v). item k payload \<noteq> v) expected of
        None \<Rightarrow> Inr ()
      | Some (k, v) \<Rightarrow> Inl (''server response binding mismatch: '' @ k))"

text \<open>An error is the text of the \<open>ValueError\<close>; a reference that cannot be encoded is one, too.\<close>

definition inventory_result_from_server_response ::
  "(rat \<Rightarrow> string) \<Rightarrow> (string \<Rightarrow> datetime option) \<Rightarrow> GovernedAction \<Rightarrow> string \<Rightarrow> string + Inventory" where
  "inventory_result_from_server_response repr fromiso a out =
     (if \<not> decodable out then Inl ''server response is not valid inventory JSON''
      else case json_loads False repr out of
        Inl JIntTooLong \<Rightarrow> Inl ''Exceeds the limit (4300 digits) for integer string conversion''
      | Inl e \<Rightarrow> Inl ''server response is not valid inventory JSON''
      | Inr (PDict payload) \<Rightarrow>
          andThen (ensure (set (map fst payload) = set inventory_receipt_keys)
            ''server response fields do not match the exact receipt schema'') (\<lambda>_.
          andThen (ensure (item ''exit_code'' payload = PInt 0)
            ''server response exit_code is inconsistent with successful inventory'') (\<lambda>_.
          andThen (require_timestamp fromiso (item ''started_at'' payload) ''started_at'') (\<lambda>started.
          andThen (require_timestamp fromiso (item ''completed_at'' payload) ''completed_at'') (\<lambda>completed.
          andThen (ensure (instant started \<le> instant completed) ''server response completed_at precedes started_at'') (\<lambda>_.
          andThen (require_sha256 (item ''stdout_sha256'' payload) ''stdout_sha256'') (\<lambda>_.
          andThen (require_sha256 (item ''stderr_sha256'' payload) ''stderr_sha256'') (\<lambda>_.
          andThen (require_bool (item ''mutation_possible'' payload) ''mutation_possible'') (\<lambda>_.
          andThen (require_bool (item ''secret_values_recorded'' payload) ''secret_values_recorded'') (\<lambda>_.
          andThen (ensure (encodable (ga_authorization_reference a)) ''surrogates not allowed'') (\<lambda>_.
          andThen (check_binding (expected_binding a) payload) (\<lambda>_.
          validate_inventory_payload repr (item ''result'' payload))))))))))))
      | Inr v \<Rightarrow> Inl ''server response is not an object'')"

section \<open>Executing an action\<close>

type_synonym 'w transport = "string list \<Rightarrow> string \<Rightarrow> nat \<Rightarrow> ('w, xexn, CompletedProcess) proc"

definition action_query :: "GovernedAction \<Rightarrow> ExecutionQuery" where
  "action_query a =
     \<lparr>xq_operation_id = ga_operation_id a, xq_operation = ga_operation a, xq_target_id = ga_target_id a,
      xq_plan_id = ga_plan_id a, xq_plan_revision = ga_plan_revision a,
      xq_authorization_reference = ga_authorization_reference a\<rparr>"

definition completed_receipt ::
  "(rat \<Rightarrow> string) \<Rightarrow> (string \<Rightarrow> datetime option) \<Rightarrow> GovernedAction \<Rightarrow> string list \<Rightarrow> bool \<Rightarrow> datetime \<Rightarrow> datetime \<Rightarrow> CompletedProcess \<Rightarrow> xexn + ActionReceipt" where
  "completed_receipt repr fromiso a argv mutation_possible started completed cp =
     (let out = captured (cp_stdout cp); err = captured (cp_stderr cp); exit_code = cp_returncode cp in
      if ga_operation a = ''system.inventory'' \<and> exit_code = 0 then
        (case inventory_result_from_server_response repr fromiso a out of
           Inr i \<Rightarrow> build_receipt a argv started completed exit_code out err mutation_possible (Some i)
         | Inl e \<Rightarrow> build_receipt a argv started completed 65 out
             (err @ CHR 0x0A # ''cybercore-exec structured inventory response failed validation'') mutation_possible None)
      else build_receipt a argv started completed exit_code out err mutation_possible None)"

definition timeout_receipt ::
  "GovernedAction \<Rightarrow> string list \<Rightarrow> bool \<Rightarrow> datetime \<Rightarrow> datetime \<Rightarrow> partial_output \<Rightarrow> partial_output \<Rightarrow> xexn + ActionReceipt" where
  "timeout_receipt a argv mutation_possible started completed out err =
     andThen (client_timeout_bytes err) (\<lambda>e.
     andThen (client_timeout_bytes out) (\<lambda>ob.
     build_receipt a argv started completed 124 ob (e @ CHR 0x0A # ''cybercore-exec transport timed out'')
       mutation_possible None))"

definition transport_action ::
  "(rat \<Rightarrow> string) \<Rightarrow> (string \<Rightarrow> datetime option) \<Rightarrow> 'w transport \<Rightarrow> ('w, xexn, datetime) proc \<Rightarrow> GovernedAction \<Rightarrow> ExecutionTarget \<Rightarrow> bool \<Rightarrow> ('w, xexn, ActionReceipt) proc" where
  "transport_action repr fromiso run clock a t mutation_possible =
     bind clock (\<lambda>started.
     bind (lift (request_bytes a)) (\<lambda>input.
     bind (attempt (run (build_transport_argv t) input 180)) (\<lambda>outcome.
     case outcome of
       Inr cp \<Rightarrow> bind clock (\<lambda>completed.
         lift (completed_receipt repr fromiso a (build_transport_argv t) mutation_possible started completed cp))
     | Inl (TimeoutExpired out err) \<Rightarrow> bind clock (\<lambda>completed.
         lift (timeout_receipt a (build_transport_argv t) mutation_possible started completed out err))
     | Inl e \<Rightarrow> raise e)))"

definition execute_action ::
  "(rat \<Rightarrow> string) \<Rightarrow> (string \<Rightarrow> datetime option) \<Rightarrow> 'w verifier option \<Rightarrow> 'w transport \<Rightarrow> ('w, xexn, datetime) proc \<Rightarrow> GovernedAction \<Rightarrow> ExecutionTarget \<Rightarrow> ('w, xexn, ActionReceipt) proc" where
  "execute_action repr fromiso verifier run clock a t =
     (let decision = evaluate_action a t in
      if \<not> pd_allowed decision then raise (ExecutionBlockedError (pd_reason decision))
      else if pd_mutating decision then
        bind (chosen_verifier verifier (action_query a)) (\<lambda>check.
        if xc_authorized check then transport_action repr fromiso run clock a t True
        else raise (ExecutionBlockedError (xc_reason check)))
      else transport_action repr fromiso run clock a t False)"

end
