(* ===== verification/Exec_Inventory_Properties.thy ===== *)
theory Exec_Inventory_Properties
  imports Exec_Inventory
begin

text \<open>
  What validation gives: a sane inventory, which passes again as it is, also after a trip through JSON text.
\<close>

section \<open>Sane inventories\<close>

definition text_ok :: "nat \<Rightarrow> string \<Rightarrow> bool" where
  "text_ok n s \<longleftrightarrow> str_len s \<le> n"

definition filled_ok :: "nat \<Rightarrow> string \<Rightarrow> bool" where
  "filled_ok n s \<longleftrightarrow> str_len s \<le> n \<and> \<not> blank s"

definition load_ok :: "string \<Rightarrow> bool" where
  "load_ok t \<longleftrightarrow> \<not> infinite_text t \<and> 0 \<le> float_text_value t"

definition host_ok :: "Host \<Rightarrow> bool" where
  "host_ok h \<longleftrightarrow> text_ok 255 (ho_hostname h) \<and> 0 < ho_cpu_logical h \<and>
     load_ok (ho_load_1m h) \<and> load_ok (ho_load_5m h) \<and> load_ok (ho_load_15m h)"

definition memory_ok :: "Memory \<Rightarrow> bool" where
  "memory_ok m \<longleftrightarrow> 0 < me_total m \<and> 0 \<le> me_available m \<and> me_available m \<le> me_total m \<and>
     0 \<le> me_swap_free m \<and> me_swap_free m \<le> me_swap_total m"

definition filesystem_ok :: "Filesystem \<Rightarrow> bool" where
  "filesystem_ok f \<longleftrightarrow> 0 < fi_total f \<and> 0 \<le> fi_used f \<and> 0 \<le> fi_free f \<and> fi_used f + fi_free f \<le> fi_total f"

definition container_ok :: "Container \<Rightarrow> bool" where
  "container_ok c \<longleftrightarrow> filled_ok 256 (cn_name c) \<and> filled_ok 512 (cn_image c) \<and> filled_ok 256 (cn_status c) \<and>
     text_ok 1024 (cn_ports c) \<and> filled_ok 128 (cn_size c)"

definition storage_ok :: "Storage \<Rightarrow> bool" where
  "storage_ok s \<longleftrightarrow> filled_ok 128 (sg_type s) \<and> filled_ok 64 (sg_total_count s) \<and> filled_ok 64 (sg_active s) \<and>
     filled_ok 128 (sg_size s) \<and> filled_ok 128 (sg_reclaimable s)"

text \<open>What Docker may be reported to be: without an answer from the server there are no rows, and \<open>ok\<close>
  needs a version and the storage table.\<close>

definition docker_ok :: "Docker \<Rightarrow> bool" where
  "docker_ok d \<longleftrightarrow>
     (\<forall>v. dk_server_version d = Some v \<longrightarrow> filled_ok 128 v) \<and>
     length (dk_containers d) \<le> 100 \<and> list_all container_ok (dk_containers d) \<and>
     length (dk_storage d) \<le> 16 \<and> list_all storage_ok (dk_storage d) \<and>
     (dk_access_status d = ''not_installed'' \<and> \<not> dk_cli_present d \<and> dk_server_version d = None \<and> dk_containers d = [] \<and> dk_storage d = [] \<or>
      dk_access_status d = ''denied_or_unreachable'' \<and> dk_cli_present d \<and> dk_server_version d = None \<and> dk_containers d = [] \<and> dk_storage d = [] \<or>
      dk_access_status d = ''ok'' \<and> dk_cli_present d \<and> dk_server_version d \<noteq> None \<and> dk_storage d \<noteq> [] \<or>
      dk_access_status d = ''partial_failure'' \<and> dk_cli_present d)"

definition inventory_ok :: "Inventory \<Rightarrow> bool" where
  "inventory_ok i \<longleftrightarrow> host_ok (iv_host i) \<and> memory_ok (iv_memory i) \<and> filesystem_ok (iv_filesystem i) \<and> docker_ok (iv_docker i)"

section \<open>Validation gives a sane inventory\<close>

lemma require_int_iff [check_simps]: "require_int v label = Inr i \<longleftrightarrow> v = PInt i \<and> 0 \<le> i"
  by (auto simp: require_int_def split: pyval.splits)

lemma require_positive_int_iff [check_simps]: "require_positive_int v label = Inr i \<longleftrightarrow> v = PInt i \<and> 0 < i"
  by (cases v) (auto simp: require_positive_int_def require_int_def)

lemma require_text_iff [check_simps]: "require_text v label n = Inr s \<longleftrightarrow> v = PStr s \<and> text_ok n s"
  by (auto simp: require_text_def text_ok_def split: pyval.splits)

lemma require_non_empty_text_iff [check_simps]: "require_non_empty_text v label n = Inr s \<longleftrightarrow> v = PStr s \<and> filled_ok n s"
  by (auto simp: require_non_empty_text_def check_simps filled_ok_def text_ok_def split: if_splits)

lemma require_finite_iff [check_simps]: "require_finite x label = Inr t \<longleftrightarrow> x = Finite t \<and> load_ok t"
  by (auto simp: require_finite_def load_ok_def split: pyfloat.splits if_splits)

lemma require_number_ok: "require_number repr v label = Inr t \<Longrightarrow> load_ok t"
  by (auto simp: require_number_def check_simps split: pyval.splits if_splits)

lemma require_number_float [check_simps]: "require_number repr (PFloat (Finite t)) label = Inr t \<longleftrightarrow> load_ok t"
  by (simp add: require_number_def check_simps)

lemma read_host_ok: "read_host repr host = Inr h \<Longrightarrow> host_ok h"
  by (auto simp: read_host_def host_ok_def check_simps dest: require_number_ok)

lemma read_container_ok: "read_container i v = Inr c \<Longrightarrow> container_ok c"
  by (auto simp: read_container_def container_ok_def check_simps)

lemma read_storage_ok: "read_storage i v = Inr s \<Longrightarrow> storage_ok s"
  by (auto simp: read_storage_def storage_ok_def check_simps)

lemma read_rows_ok:
  assumes "read_rows label n read v = Inr ys"
    and "\<And>i x y. read i x = Inr y \<Longrightarrow> P y"
  shows "length ys \<le> n" and "list_all P ys"
proof -
  from assms(1) obtain rows where rows: "v = PList rows" "length rows \<le> n" "check_each read 0 rows = Inr ys"
    by (auto simp: read_rows_def split: pyval.splits if_splits)
  then show "length ys \<le> n" by (simp add: check_each_length)
  show "list_all P ys" unfolding list_all_iff using check_each_results [OF rows(3)] assms(2) by blast
qed

lemma read_version_ok: "read_version v = Inr (Some t) \<Longrightarrow> filled_ok 128 t"
  by (auto simp: read_version_def check_simps split: pyval.splits)

lemma read_docker_ok:
  assumes "read_docker docker = Inr d" and "check_docker d = Inr u"
  shows "docker_ok d"
proof -
  have "dk_access_status d \<in> set access_statuses" and "\<And>v. dk_server_version d = Some v \<Longrightarrow> filled_ok 128 v"
    and "length (dk_containers d) \<le> 100" "list_all container_ok (dk_containers d)"
    and "length (dk_storage d) \<le> 16" "list_all storage_ok (dk_storage d)"
    using assms(1) read_rows_ok [OF _ read_container_ok] read_rows_ok [OF _ read_storage_ok]
    by (auto simp: read_docker_def check_simps intro: read_version_ok)
  with assms(2) show ?thesis
    by (auto simp: check_docker_def docker_ok_def access_statuses_def split: if_splits)
qed

lemma validated_ok:
  assumes "validate_inventory_payload repr v = Inr i"
  shows "inventory_ok i"
  using assms
  by (auto simp: validate_inventory_payload_def inventory_ok_def check_simps memory_ok_def filesystem_ok_def
      read_memory_def read_filesystem_def check_memory_def check_filesystem_def
      intro: read_host_ok read_docker_ok split: if_splits)

section \<open>A sane inventory passes\<close>

lemma map_of_sort_items: "distinct (map fst kvs) \<Longrightarrow> map_of (sort_items kvs) = map_of kvs"
  by (rule map_of_inject_set [THEN iffD2]) (simp_all add: distinct_sort_items)

text \<open>What survives the trip through JSON text: the keys, and the value of every key.\<close>

lemma item_canonical:
  assumes "distinct (map fst kvs)" and "k \<in> fst ` set kvs"
  shows "item k (sort_items (map (\<lambda>(k, v). (k, canonical v)) kvs)) = canonical (item k kvs)"
proof -
  have "map_of (map (\<lambda>(k, v). (k, canonical v)) kvs) k = map_option canonical (map_of kvs k)"
    by (simp add: map_of_map)
  moreover have "distinct (map fst (map (\<lambda>(k, v). (k, canonical v)) kvs))"
    using assms(1) by (simp add: case_prod_beta comp_def)
  ultimately show ?thesis
    using assms(2) by (auto simp: item_def map_of_sort_items split: option.splits simp: map_of_eq_None_iff)
qed

text \<open>Evaluation of the checks on what passes them.\<close>

lemma passes:
  "text_ok n s \<Longrightarrow> require_text (PStr s) label n = Inr s"
  "filled_ok n s \<Longrightarrow> require_non_empty_text (PStr s) label n = Inr s"
  "0 \<le> i \<Longrightarrow> require_int (PInt i) label = Inr i"
  "0 < i \<Longrightarrow> require_positive_int (PInt i) label = Inr i"
  "load_ok t \<Longrightarrow> require_number repr (PFloat (Finite t)) label = Inr t"
  by (simp_all add: check_simps)

text \<open>How a reader may see a value: scalars as they are, lists and objects by their parts.\<close>

locale json_view =
  fixes view :: "pyval \<Rightarrow> pyval"
  assumes scalars: "view PNone = PNone" "view (PBool b) = PBool b" "view (PInt i) = PInt i" "view (PFloat x) = PFloat x"
      "view (PStr s) = PStr s"
    and lists: "view (PList xs) = PList (map view xs)"
    and objects: "distinct (map fst kvs) \<Longrightarrow> \<exists>kvs'. view (PDict kvs) = PDict kvs' \<and> fst ` set kvs' = fst ` set kvs \<and>
      (\<forall>k \<in> fst ` set kvs. item k kvs' = view (item k kvs))"
begin

text \<open>An object with the keys of a schema passes the check of its keys, and its items are the ones written.\<close>

lemma object_view:
  assumes "distinct (map fst kvs)" and "set keys = fst ` set kvs"
  obtains kvs' where "\<And>label. require_exact_dict keys label (view (PDict kvs)) = Inr kvs'"
    and "\<And>k. k \<in> set keys \<Longrightarrow> item k kvs' = view (item k kvs)"
proof -
  from objects [OF assms(1)] obtain kvs' where "view (PDict kvs) = PDict kvs'" and "fst ` set kvs' = fst ` set kvs"
    and "\<forall>k \<in> fst ` set kvs. item k kvs' = view (item k kvs)" by blast
  with assms(2) show thesis by (intro that [of kvs']) (auto simp: require_exact_dict_def)
qed

lemma read_container_view:
  assumes "container_ok c"
  shows "read_container i (view (container_dict c)) = Inr c"
  unfolding container_dict_def
  by (rule object_view [of "[(''name'', PStr (cn_name c)), (''image'', PStr (cn_image c)), (''status'', PStr (cn_status c)),
        (''ports'', PStr (cn_ports c)), (''size'', PStr (cn_size c))]" "[''name'', ''image'', ''status'', ''ports'', ''size'']"])
    (use assms in \<open>simp_all add: read_container_def item_def scalars passes container_ok_def\<close>)

lemma read_storage_view:
  assumes "storage_ok s"
  shows "read_storage i (view (storage_dict s)) = Inr s"
  unfolding storage_dict_def
  by (rule object_view [of "[(''type'', PStr (sg_type s)), (''total_count'', PStr (sg_total_count s)), (''active'', PStr (sg_active s)),
        (''size'', PStr (sg_size s)), (''reclaimable'', PStr (sg_reclaimable s))]"
        "[''type'', ''total_count'', ''active'', ''size'', ''reclaimable'']"])
    (use assms in \<open>simp_all add: read_storage_def item_def scalars passes storage_ok_def\<close>)

lemma read_rows_view:
  assumes "length ys \<le> n" and "\<And>i y. y \<in> set ys \<Longrightarrow> read i (view (dict y)) = Inr y"
  shows "read_rows label n read (view (PList (map dict ys))) = Inr ys"
  using assms check_each_map [of ys read "view \<circ> dict" id] by (simp add: read_rows_def lists)

lemma read_docker_view:
  assumes "docker_ok d"
    and "item ''cli_present'' kvs = PBool (dk_cli_present d)" and "item ''access_status'' kvs = PStr (dk_access_status d)"
    and "item ''server_version'' kvs = (case dk_server_version d of None \<Rightarrow> PNone | Some v \<Rightarrow> PStr v)"
    and "item ''containers'' kvs = view (PList (map container_dict (dk_containers d)))"
    and "item ''storage'' kvs = view (PList (map storage_dict (dk_storage d)))"
  shows "read_docker kvs = Inr d" and "check_docker d = Inr ()"
proof -
  have status: "dk_access_status d \<in> set access_statuses" "text_ok 64 (dk_access_status d)"
    using assms(1) by (auto simp: docker_ok_def access_statuses_def text_ok_def str_len_def)
  have version: "read_version (item ''server_version'' kvs) = Inr (dk_server_version d)"
    using assms(1,4) by (auto simp: docker_ok_def read_version_def passes split: option.splits)
  have "read_rows ''docker containers'' 100 read_container (item ''containers'' kvs) = Inr (dk_containers d)"
    "read_rows ''docker storage'' 16 read_storage (item ''storage'' kvs) = Inr (dk_storage d)"
    using assms(1) unfolding assms(5,6)
    by (auto simp: docker_ok_def list_all_iff intro!: read_rows_view read_container_view read_storage_view)
  with assms status version show "read_docker kvs = Inr d"
    by (simp add: read_docker_def passes)
  show "check_docker d = Inr ()"
    using assms(1) by (auto simp: docker_ok_def check_docker_def)
qed

lemma validate_view:
  assumes ok: "inventory_ok i"
  shows "validate_inventory_payload repr (view (inventory_dict i)) = Inr i"
proof -
  let ?h = "iv_host i" and ?m = "iv_memory i" and ?f = "iv_filesystem i" and ?d = "iv_docker i"
  obtain root where root: "\<And>label. require_exact_dict [''schema_version'', ''host'', ''memory'', ''root_filesystem'', ''docker''] label
      (view (inventory_dict i)) = Inr root"
    and roots: "item ''schema_version'' root = PInt 1" "item ''host'' root = view (host_dict ?h)"
      "item ''memory'' root = view (memory_dict ?m)" "item ''root_filesystem'' root = view (filesystem_dict ?f)"
      "item ''docker'' root = view (docker_dict ?d)"
    unfolding inventory_dict_def
    by (rule object_view [of "[(''schema_version'', PInt 1), (''host'', host_dict ?h), (''memory'', memory_dict ?m),
        (''root_filesystem'', filesystem_dict ?f), (''docker'', docker_dict ?d)]"
        "[''schema_version'', ''host'', ''memory'', ''root_filesystem'', ''docker'']"])
      (simp_all add: item_def scalars)
  obtain host where host: "\<And>label. require_exact_dict [''hostname'', ''cpu_logical'', ''load_1m'', ''load_5m'', ''load_15m''] label
      (view (host_dict ?h)) = Inr host"
    and hosts: "item ''hostname'' host = PStr (ho_hostname ?h)" "item ''cpu_logical'' host = PInt (ho_cpu_logical ?h)"
      "item ''load_1m'' host = PFloat (Finite (ho_load_1m ?h))" "item ''load_5m'' host = PFloat (Finite (ho_load_5m ?h))"
      "item ''load_15m'' host = PFloat (Finite (ho_load_15m ?h))"
    unfolding host_dict_def
    by (rule object_view [of "[(''hostname'', PStr (ho_hostname ?h)), (''cpu_logical'', PInt (ho_cpu_logical ?h)),
        (''load_1m'', PFloat (Finite (ho_load_1m ?h))), (''load_5m'', PFloat (Finite (ho_load_5m ?h))),
        (''load_15m'', PFloat (Finite (ho_load_15m ?h)))]"
        "[''hostname'', ''cpu_logical'', ''load_1m'', ''load_5m'', ''load_15m'']"])
      (simp_all add: item_def scalars)
  obtain mem where mem: "\<And>label. require_exact_dict [''total_bytes'', ''available_bytes'', ''swap_total_bytes'', ''swap_free_bytes''] label
      (view (memory_dict ?m)) = Inr mem"
    and mems: "item ''total_bytes'' mem = PInt (me_total ?m)" "item ''available_bytes'' mem = PInt (me_available ?m)"
      "item ''swap_total_bytes'' mem = PInt (me_swap_total ?m)" "item ''swap_free_bytes'' mem = PInt (me_swap_free ?m)"
    unfolding memory_dict_def
    by (rule object_view [of "[(''total_bytes'', PInt (me_total ?m)), (''available_bytes'', PInt (me_available ?m)),
        (''swap_total_bytes'', PInt (me_swap_total ?m)), (''swap_free_bytes'', PInt (me_swap_free ?m))]"
        "[''total_bytes'', ''available_bytes'', ''swap_total_bytes'', ''swap_free_bytes'']"])
      (simp_all add: item_def scalars)
  obtain fs where fs: "\<And>label. require_exact_dict [''total_bytes'', ''used_bytes'', ''free_bytes''] label
      (view (filesystem_dict ?f)) = Inr fs"
    and fss: "item ''total_bytes'' fs = PInt (fi_total ?f)" "item ''used_bytes'' fs = PInt (fi_used ?f)"
      "item ''free_bytes'' fs = PInt (fi_free ?f)"
    unfolding filesystem_dict_def
    by (rule object_view [of "[(''total_bytes'', PInt (fi_total ?f)), (''used_bytes'', PInt (fi_used ?f)), (''free_bytes'', PInt (fi_free ?f))]"
        "[''total_bytes'', ''used_bytes'', ''free_bytes'']"])
      (simp_all add: item_def scalars)
  obtain dk where dk: "\<And>label. require_exact_dict [''cli_present'', ''access_status'', ''server_version'', ''containers'', ''storage''] label
      (view (docker_dict ?d)) = Inr dk"
    and dks: "item ''cli_present'' dk = PBool (dk_cli_present ?d)" "item ''access_status'' dk = PStr (dk_access_status ?d)"
      "item ''server_version'' dk = (case dk_server_version ?d of None \<Rightarrow> PNone | Some v \<Rightarrow> PStr v)"
      "item ''containers'' dk = view (PList (map container_dict (dk_containers ?d)))"
      "item ''storage'' dk = view (PList (map storage_dict (dk_storage ?d)))"
    unfolding docker_dict_def
    by (rule object_view [of "[(''cli_present'', PBool (dk_cli_present ?d)), (''access_status'', PStr (dk_access_status ?d)),
        (''server_version'', case dk_server_version ?d of None \<Rightarrow> PNone | Some v \<Rightarrow> PStr v),
        (''containers'', PList (map container_dict (dk_containers ?d))), (''storage'', PList (map storage_dict (dk_storage ?d)))]"
        "[''cli_present'', ''access_status'', ''server_version'', ''containers'', ''storage'']"])
      (simp_all add: item_def scalars split: option.splits)
  have "read_host repr host = Inr ?h"
    using ok by (simp add: read_host_def hosts inventory_ok_def host_ok_def passes)
  moreover have "read_memory mem = Inr ?m" "check_memory ?m = Inr ()"
    using ok by (simp_all add: read_memory_def mems inventory_ok_def memory_ok_def passes check_memory_def)
  moreover have "read_filesystem fs = Inr ?f" "check_filesystem ?f = Inr ()"
    using ok by (simp_all add: read_filesystem_def fss inventory_ok_def filesystem_ok_def passes check_filesystem_def)
  moreover have "read_docker dk = Inr ?d" "check_docker ?d = Inr ()"
    using read_docker_view [OF _ dks] ok by (simp_all add: inventory_ok_def)
  ultimately show ?thesis
    by (simp add: validate_inventory_payload_def root roots host mem fs dk passes)
qed

end

interpretation plain_view: json_view id
  by unfold_locales auto

interpretation text_view: json_view canonical
proof
  fix kvs :: "(string \<times> pyval) list"
  assume "distinct (map fst kvs)"
  then show "\<exists>kvs'. canonical (PDict kvs) = PDict kvs' \<and> fst ` set kvs' = fst ` set kvs \<and>
      (\<forall>k \<in> fst ` set kvs. item k kvs' = canonical (item k kvs))"
    using item_canonical by (auto simp: image_image case_prod_beta)
qed simp_all

end
