(* ===== verification/Exec_Wire.thy ===== *)
theory Exec_Wire
  imports Exec_Client Exec_Inventory_Properties
begin

text \<open>
  The wire between client and server: what \<open>json.dumps\<close> writes is ASCII and is read back, and the request
  of an action the policy allows is read by the server as that action.
\<close>

section \<open>JSON text is ASCII\<close>

fun ascii_floats :: "pyval \<Rightarrow> bool" where
  "ascii_floats (PFloat (Finite t)) = list_all ascii_char t"
| "ascii_floats (PList xs) = list_all ascii_floats xs"
| "ascii_floats (PDict kvs) = list_all (\<lambda>kv. ascii_floats (snd kv)) kvs"
| "ascii_floats _ = True"

lemma hex_digit_ascii: "ascii_char (hex_digit n)"
proof -
  have "list_all (\<lambda>m. ascii_char (''0123456789abcdef'' ! m)) [0..<16]" by code_simp
  moreover have "n mod 16 \<in> set [0..<16]" by simp
  ultimately show ?thesis unfolding hex_digit_def list_all_iff by blast
qed

lemma u_escape_ascii: "list_all ascii_char (u_escape n)"
  by (simp add: u_escape_def hex4_def hex_digit_ascii ascii_char_def [of "CHR 0x5C"] ascii_char_def [of "CHR ''u''"])

lemma ascii_escape_ascii: "(of_char c :: nat) < 128 \<Longrightarrow> list_all ascii_char (ascii_escape c)"
  by (simp add: ascii_escape_def u_escape_ascii ascii_char_def)

lemma escape_ascii_ascii: "list_all ascii_char (escape_ascii s)"
  by (induction s rule: escape_ascii.induct)
    (auto simp: Let_def u_escape_ascii ascii_escape_ascii split: list.splits)

lemma nat_str_ascii: "list_all ascii_char (nat_str n)"
  using nat_str_digits(1) [of n] by (auto simp: list_all_iff is_digit_def ascii_char_def)

lemma joined_ascii: "list_all (list_all ascii_char) ys \<Longrightarrow> list_all ascii_char sep \<Longrightarrow> list_all ascii_char (joined sep ys)"
  by (induction sep ys rule: joined.induct) simp_all

lemma all_ok_parts: "all_ok rs = Inr ys \<Longrightarrow> y \<in> set ys \<Longrightarrow> Inr y \<in> set rs"
  by (induction rs arbitrary: ys rule: all_ok.induct) (auto split: sum.splits)

lemma ascii_literals:
  "ascii_char CHR ''-''" "ascii_char (CHR 0x22)" "ascii_char CHR ''{''" "ascii_char CHR ''}''" "ascii_char CHR ''[''"
  "ascii_char CHR '']''" "ascii_char CHR '',''" "ascii_char CHR '':''" "ascii_char (CHR 0x0A)"
  "list_all ascii_char ''null''" "list_all ascii_char ''true''" "list_all ascii_char ''false''"
  "list_all ascii_char ''NaN''" "list_all ascii_char ''Infinity''" "list_all ascii_char ''-Infinity''"
  by code_simp+

lemmas ascii_rules = ascii_literals [simplified] nat_str_ascii escape_ascii_ascii joined_ascii

lemma dumps_ascii: "json_dumps True nan v = Inr x \<Longrightarrow> ascii_floats v \<Longrightarrow> list_all ascii_char x"
proof (induction v arbitrary: x)
  case (PInt i)
  then show ?case by (auto simp: json_int_def int_str_def ascii_rules split: if_splits)
next
  case (PFloat t)
  then show ?case by (cases t) (auto simp: ascii_rules split: if_splits)
next
  case (PStr s)
  then show ?case by (auto simp: json_string_def ascii_rules)
next
  case (PList xs)
  then obtain ys where ys: "all_ok (map (json_dumps True nan) xs) = Inr ys" and x: "x = ''['' @ joined '','' ys @ '']''"
    by (auto split: sum.splits)
  have "list_all ascii_char y" if "y \<in> set ys" for y
  proof -
    from all_ok_parts [OF ys that] obtain v where "v \<in> set xs" "json_dumps True nan v = Inr y" by auto
    with PList.IH PList.prems(2) show ?thesis by (simp add: list_all_iff)
  qed
  then have "list_all (list_all ascii_char) ys" by (simp add: list_all_iff)
  then show ?case by (simp add: x ascii_rules)
next
  case (PDict kvs)
  then obtain ys where ys: "all_ok (map snd (sort_items (map (\<lambda>(k, v). (k,
             case json_dumps True nan v of
               Inl e \<Rightarrow> Inl e
             | Inr y \<Rightarrow> Inr (json_string True k @ '':'' @ y))) kvs))) = Inr ys"
    and x: "x = ''{'' @ joined '','' ys @ ''}''"
    by (auto split: sum.splits)
  have "list_all ascii_char y" if "y \<in> set ys" for y
  proof -
    from all_ok_parts [OF ys that] obtain k v y' where "(k, v) \<in> set kvs" and "json_dumps True nan v = Inr y'"
      and y: "y = json_string True k @ '':'' @ y'"
      by (auto split: sum.splits)
    with PDict have "list_all ascii_char y'" by (force simp: list_all_iff)
    then show ?thesis by (simp add: y json_string_def ascii_rules)
  qed
  then have "list_all (list_all ascii_char) ys" by (simp add: list_all_iff)
  then show ?case by (simp add: x ascii_rules)
qed (auto simp: ascii_rules split: if_splits)

text \<open>A line of JSON, as both programs write it and read it.\<close>

lemma line_read:
  assumes "dumps_line v = Inr b" and "plain repr v" and "ascii_floats v"
  shows "decodable b" and "json_loads False repr b = Inr (canonical v)"
proof -
  from assms(1) obtain x where x: "json_dumps True True v = Inr x" and b: "b = x @ [CHR 0x0A]"
    by (auto simp: dumps_line_def split: sum.splits)
  have "list_all ascii_char b" using dumps_ascii [OF x assms(3)] by (simp add: b ascii_rules)
  then show "decodable b" by (rule ascii_decodable)
  show "json_loads False repr b = Inr (canonical v)"
    unfolding b using json_loads_line [OF x assms(2)] by (simp add: skip_ws_def)
qed

section \<open>Requests\<close>

definition request_of :: "GovernedAction \<Rightarrow> ServerRequest" where
  "request_of a =
     \<lparr>rq_version = 1, rq_operation_id = ga_operation_id a, rq_operation = ga_operation a, rq_target_id = ga_target_id a,
      rq_plan_id = ga_plan_id a, rq_plan_revision = ga_plan_revision a,
      rq_authorization_reference = ga_authorization_reference a, rq_arguments = []\<rparr>"

definition ascii_action :: "GovernedAction \<Rightarrow> bool" where
  "ascii_action a \<longleftrightarrow>
     list_all (list_all ascii_char)
       [ga_operation_id a, ga_operation a, ga_target_id a, ga_plan_id a, ga_plan_revision a, ga_authorization_reference a]"

lemma allowed_action:
  assumes "pd_allowed (evaluate_action a t)"
  shows "t = VIKUNJA_TARGET" and "ga_target_id a = ''tasks.cyberdjs.org''" and "ga_operation a \<in> set SUPPORTED_OPERATIONS"
    and "\<not> blank (ga_operation_id a)" and "\<not> blank (ga_plan_id a)" and "\<not> blank (ga_plan_revision a)"
    and "\<not> blank (ga_authorization_reference a)" and "ga_arguments a = []"
    and "pd_mutating (evaluate_action a t) \<longleftrightarrow> ga_operation a \<in> set MUTATING_OPERATIONS"
  using assms
  by (auto simp: evaluate_action_def refusal_def VIKUNJA_TARGET_def action_has_bound_plan_def ALLOWED_ARGUMENTS_def split: if_splits)

lemma operations_not_blank: "operation \<in> set SUPPORTED_OPERATIONS \<Longrightarrow> \<not> blank operation" "\<not> blank ''tasks.cyberdjs.org''"
proof -
  have "list_all (\<lambda>s. \<not> blank s) SUPPORTED_OPERATIONS" by code_simp
  then show "operation \<in> set SUPPORTED_OPERATIONS \<Longrightarrow> \<not> blank operation" by (simp add: list_all_iff)
  show "\<not> blank ''tasks.cyberdjs.org''" by code_simp
qed

text \<open>Client and server list the same operations and agree on which change something.\<close>

lemma operations_agree:
  "operation \<in> set SUPPORTED_OPERATIONS \<Longrightarrow>
   \<exists>spec. find (\<lambda>spec. os_name spec = operation) operation_specs = Some spec \<and> os_name spec = operation \<and>
     (os_mutating spec \<longleftrightarrow> operation \<in> set MUTATING_OPERATIONS)"
  by (auto simp: SUPPORTED_OPERATIONS_def operation_specs_def MUTATING_OPERATIONS_def)

lemma request_read:
  assumes allowed: "pd_allowed (evaluate_action a t)" and ascii: "ascii_action a"
  shows "\<exists>b. request_bytes a = Inr b \<and> (length b \<le> 16384 \<longrightarrow> load_request repr b = Inr (request_of a))"
proof -
  note a = allowed_action [OF allowed]
  let ?kvs = "[(''version'', PInt 1), (''operation_id'', PStr (ga_operation_id a)), (''operation'', PStr (ga_operation a)),
      (''target_id'', PStr (ga_target_id a)), (''plan_id'', PStr (ga_plan_id a)),
      (''plan_revision'', PStr (ga_plan_revision a)),
      (''authorization_reference'', PStr (ga_authorization_reference a)), (''arguments'', PDict [])]"
  have dict: "request_dict a = PDict ?kvs" by (simp add: request_dict_def a)
  have one: "json_int 1 = Inr ''1''" by code_simp
  have "encodes True True (PDict ?kvs)" by (simp add: encodes_dict_iff) (simp add: encodes_def one)
  then obtain b where b: "request_bytes a = Inr b"
    by (auto simp: request_bytes_def dumps_line_def dict encodes_def)
  have "plain repr (PDict ?kvs)"
    using ascii by (simp add: ascii_action_def) (simp add: ascii_char_def)
  then have read: "decodable b" "json_loads False repr b = Inr (canonical (PDict ?kvs))"
    using line_read [of "PDict ?kvs" b] b by (simp_all add: request_bytes_def dict)
  obtain kvs' where kvs': "canonical (PDict ?kvs) = PDict kvs'" "fst ` set kvs' = fst ` set ?kvs"
    and items: "\<forall>k \<in> fst ` set ?kvs. item k kvs' = canonical (item k ?kvs)"
    using text_view.objects [of ?kvs] by auto
  have fields: "item ''version'' kvs' = PInt 1" "item ''operation_id'' kvs' = PStr (ga_operation_id a)"
    "item ''operation'' kvs' = PStr (ga_operation a)" "item ''target_id'' kvs' = PStr (ga_target_id a)"
    "item ''plan_id'' kvs' = PStr (ga_plan_id a)" "item ''plan_revision'' kvs' = PStr (ga_plan_revision a)"
    "item ''authorization_reference'' kvs' = PStr (ga_authorization_reference a)" "item ''arguments'' kvs' = PDict []"
    using items by (simp_all add: item_def sort_items_def)
  have "ServerRequest_from_mapping kvs' = Inr (request_of a)"
    using kvs'(2) operations_not_blank a
    by (simp add: ServerRequest_from_mapping_def required_keys_def check_request_version_def check_request_arguments_def
        string_field_def fields request_of_def)
  then have "load_request repr b = Inr (request_of a)" if "length b \<le> 16384"
    using that read kvs'(1) by (simp add: load_request_def)
  with b show ?thesis by blast
qed

end
