(* ===== verification/Exec_Properties.thy ===== *)
theory Exec_Properties
  imports Exec_Client Exec_Inventory_Properties
begin

text \<open>
  What governed execution promises: no process for an action that is not allowed or not authorised,
  receipts bound to their action, and the agreement of client and server about the wire.
\<close>

section \<open>Inventories\<close>

text \<open>An accepted inventory is sane (bounded texts and lists, no more used than there is, a Docker
  state that fits its status), and what the code makes of it is accepted again and gives the same
  inventory, as it is and after a trip through JSON text.\<close>

theorem validated_inventory_is_stable:
  assumes "validate_inventory_payload repr v = Inr i"
  shows "inventory_ok i \<and> validate_inventory_payload repr (inventory_dict i) = Inr i \<and>
    validate_inventory_payload repr (canonical (inventory_dict i)) = Inr i"
  using validated_ok [OF assms] plain_view.validate_view text_view.validate_view by simp

section \<open>No process without permission\<close>

definition may_answer :: "('w, xexn, 'a) proc \<Rightarrow> 'a \<Rightarrow> bool" where
  "may_answer m a \<longleftrightarrow> (\<exists>w w'. m w = (Inr a, w'))"

text \<open>Two continuations of a verifier that differ on nothing it may answer.\<close>

lemma bind_cong_answers:
  assumes "\<And>a. may_answer m a \<Longrightarrow> f a = g a"
  shows "bind m f = bind m g"
  using assms by (fastforce simp: bind_def may_answer_def fun_eq_iff split: prod.splits sum.splits)

lemma bind_lift [simp]: "bind (lift (Inr a)) f = f a" "bind (lift (Inl e)) f = raise e"
  by (simp_all add: bind_def lift_def raise_def fun_eq_iff)

definition authorises :: "'w verifier option \<Rightarrow> ExecutionQuery \<Rightarrow> bool" where
  "authorises verifier q \<longleftrightarrow> (\<exists>check. may_answer (chosen_verifier verifier q) check \<and> xc_authorized check)"

lemma authorisesI: "may_answer (chosen_verifier verifier q) check \<Longrightarrow> xc_authorized check \<Longrightarrow> authorises verifier q"
  by (auto simp: authorises_def)

lemma verified_cong:
  assumes "authorises verifier q \<Longrightarrow> m = m'"
  shows "bind (chosen_verifier verifier q) (\<lambda>check. if xc_authorized check then m else n check) =
    bind (chosen_verifier verifier q) (\<lambda>check. if xc_authorized check then m' else n check)"
proof (rule bind_cong_answers)
  fix check
  assume "may_answer (chosen_verifier verifier q) check"
  then have "m = m'" if "xc_authorized check" using that authorisesI assms by blast
  then show "(if xc_authorized check then m else n check) = (if xc_authorized check then m' else n check)" by simp
qed

lemma no_verifier_authorises [simp]: "\<not> authorises None q"
  by (simp add: authorises_def chosen_verifier_def DenyAll_verify_def may_answer_def ret_def)

lemma execute_request_cong:
  assumes "\<And>spec. resolve_operation rq = Inr spec \<Longrightarrow> os_mutating spec \<longrightarrow> authorises verifier (request_query rq) \<Longrightarrow>
      run (os_argv spec) (os_timeout_seconds spec) = run' (os_argv spec) (os_timeout_seconds spec)"
  shows "execute_request repr verifier run clock rq = execute_request repr verifier run' clock rq"
proof -
  have "execute_authorized repr run clock rq spec = execute_authorized repr run' clock rq spec"
    if "resolve_operation rq = Inr spec" and "os_mutating spec \<longrightarrow> authorises verifier (request_query rq)" for spec
    using assms [OF that] by (simp add: execute_authorized_def server_run_def)
  note same = this
  show ?thesis
  proof (cases "resolve_operation rq")
    case (Inr spec)
    show ?thesis
    proof (cases "os_mutating spec")
      case True
      then show ?thesis
        using same [OF Inr] by (simp add: execute_request_def Inr cong: verified_cong)
    qed (use same [OF Inr] in \<open>simp add: execute_request_def Inr\<close>)
  qed (simp add: execute_request_def)
qed

text \<open>C29: the dispatcher starts a process only for the operation of the request, by its fixed command
  line and time limit, and, when the operation changes something, only if the verifier can authorise
  exactly this request. So two process runners that agree there cannot be told apart.\<close>

theorem server_runs_only_authorised:
  assumes "\<And>spec. resolve_operation rq = Inr spec \<Longrightarrow> os_mutating spec \<longrightarrow> authorises verifier (request_query rq) \<Longrightarrow>
      run (os_argv spec) (os_timeout_seconds spec) = run' (os_argv spec) (os_timeout_seconds spec)"
  shows "execute_request repr verifier run clock rq = execute_request repr verifier run' clock rq"
  using assms by (rule execute_request_cong)

text \<open>The server program, which is started without a verifier, can only run the operations that read: process
  runners that agree on their command lines give the same answer and the same world.\<close>

theorem server_main_only_reads:
  assumes "\<forall>spec \<in> set operation_specs. \<not> os_mutating spec \<longrightarrow>
      run (os_argv spec) (os_timeout_seconds spec) = run' (os_argv spec) (os_timeout_seconds spec)"
  shows "server_main repr run clock stdin = server_main repr run' clock stdin"
proof -
  have "run (os_argv spec) (os_timeout_seconds spec) = run' (os_argv spec) (os_timeout_seconds spec)"
    if "resolve_operation rq = Inr spec" and "os_mutating spec \<longrightarrow> authorises None (request_query rq)" for rq spec
  proof -
    from that(1) have "spec \<in> set operation_specs"
      by (auto simp: resolve_operation_def find_Some_iff split: if_splits option.splits)
    with that(2) assms show ?thesis by simp
  qed
  then have "execute_request repr None run clock rq = execute_request repr None run' clock rq" for rq
    by (rule execute_request_cong)
  then show ?thesis by (simp add: server_main_def)
qed

text \<open>C28: the client hands an action to the transport only when the policy allows it for the one canonical target and,
  if the action changes something, the verifier can authorise exactly this action; it then starts one
  fixed ssh command with the request as its input.\<close>

theorem client_runs_only_authorised:
  assumes "\<And>input. pd_allowed (evaluate_action a t) \<Longrightarrow> t = VIKUNJA_TARGET \<Longrightarrow>
      (pd_mutating (evaluate_action a t) \<longrightarrow> authorises verifier (action_query a)) \<Longrightarrow> request_bytes a = Inr input \<Longrightarrow>
      run (build_transport_argv VIKUNJA_TARGET) input 180 = run' (build_transport_argv VIKUNJA_TARGET) input 180"
  shows "execute_action repr fromiso verifier run clock a t = execute_action repr fromiso verifier run' clock a t"
proof -
  have same: "transport_action repr fromiso run clock a t m = transport_action repr fromiso run' clock a t m"
    if allowed: "pd_allowed (evaluate_action a t)"
      and "pd_mutating (evaluate_action a t) \<longrightarrow> authorises verifier (action_query a)" for m
  proof -
    from allowed have "t = VIKUNJA_TARGET" by (auto simp: evaluate_action_def refusal_def split: if_splits)
    with assms [OF allowed _ that(2)] show ?thesis
      by (cases "request_bytes a") (simp_all add: transport_action_def)
  qed
  then show ?thesis
    by (simp add: execute_action_def Let_def cong: verified_cong)
qed

section \<open>What a receipt says\<close>

definition receipt_of :: "GovernedAction \<Rightarrow> ActionReceipt \<Rightarrow> bool" where
  "receipt_of a r \<longleftrightarrow>
     er_operation_id r = ga_operation_id a \<and> er_operation r = ga_operation a \<and> er_target_id r = ga_target_id a \<and>
     er_plan_id r = ga_plan_id a \<and> er_plan_revision r = ga_plan_revision a \<and>
     er_authorization_reference_sha256 r = sha256_hex (ga_authorization_reference a) \<and>
     er_transport_argv r = build_transport_argv VIKUNJA_TARGET \<and>
     (er_status r = EXECUTED \<longleftrightarrow> er_exit_code r = 0) \<and>
     (er_result r \<noteq> None \<longleftrightarrow> er_status r = EXECUTED \<and> ga_operation a = ''system.inventory'') \<and>
     (\<forall>i. er_result r = Some i \<longrightarrow> inventory_ok i) \<and> \<not> er_secret_values_recorded r"

lemma server_response_ok:
  "inventory_result_from_server_response repr fromiso a out = Inr i \<Longrightarrow> inventory_ok i"
  by (auto simp: inventory_result_from_server_response_def check_simps intro: validated_ok
      split: if_splits sum.splits pyval.splits json_load_error.splits)

lemma build_receipt_of:
  assumes "build_receipt a (build_transport_argv VIKUNJA_TARGET) started completed exit_code out err m result = Inr r"
    and "result \<noteq> None \<longleftrightarrow> exit_code = 0 \<and> ga_operation a = ''system.inventory''"
    and "\<And>i. result = Some i \<Longrightarrow> inventory_ok i"
  shows "receipt_of a r \<and> er_mutation_possible r = m"
  using assms by (auto simp: build_receipt_def check_simps digest_text_def receipt_of_def split: if_splits)

lemma completed_receipt_of:
  assumes "completed_receipt repr fromiso a (build_transport_argv VIKUNJA_TARGET) m started completed cp = Inr r"
  shows "receipt_of a r \<and> er_mutation_possible r = m"
proof -
  let ?out = "captured (cp_stdout cp)" and ?err = "captured (cp_stderr cp)"
  consider i where "inventory_result_from_server_response repr fromiso a ?out = Inr i"
      "ga_operation a = ''system.inventory''" "cp_returncode cp = 0"
    | e where "inventory_result_from_server_response repr fromiso a ?out = Inl e"
      "ga_operation a = ''system.inventory''" "cp_returncode cp = 0"
    | "\<not> (ga_operation a = ''system.inventory'' \<and> cp_returncode cp = 0)"
    by (cases "inventory_result_from_server_response repr fromiso a ?out") auto
  then show ?thesis
  proof cases
    case 1
    with assms have "build_receipt a (build_transport_argv VIKUNJA_TARGET) started completed 0 ?out ?err m (Some i) = Inr r"
      by (simp add: completed_receipt_def)
    then show ?thesis by (rule build_receipt_of) (use 1 server_response_ok in auto)
  next
    case 2
    with assms have "build_receipt a (build_transport_argv VIKUNJA_TARGET) started completed 65 ?out
        (?err @ CHR 0x0A # ''cybercore-exec structured inventory response failed validation'') m None = Inr r"
      by (simp add: completed_receipt_def)
    then show ?thesis by (rule build_receipt_of) auto
  next
    case 3
    with assms have "build_receipt a (build_transport_argv VIKUNJA_TARGET) started completed (cp_returncode cp) ?out ?err m None = Inr r"
      unfolding completed_receipt_def Let_def by (simp only: if_False if_not_P)
    then show ?thesis by (rule build_receipt_of) (use 3 in auto)
  qed
qed

lemma timeout_receipt_of:
  assumes "timeout_receipt a (build_transport_argv VIKUNJA_TARGET) m started completed out err = Inr r"
  shows "receipt_of a r \<and> er_mutation_possible r = m"
proof -
  from assms obtain e ob where "build_receipt a (build_transport_argv VIKUNJA_TARGET) started completed 124 ob
      (e @ CHR 0x0A # ''cybercore-exec transport timed out'') m None = Inr r"
    by (auto simp: timeout_receipt_def check_simps)
  then show ?thesis by (rule build_receipt_of) auto
qed

text \<open>Every receipt of the client repeats the action it is for, with the hash of its authorization reference and the
  fixed command; it says executed exactly for exit code 0, carries a result exactly for an executed
  inventory, and that inventory is sane; and the policy allowed the action.\<close>

theorem client_receipt_is_bound:
  assumes "execute_action repr fromiso verifier run clock a t w = (Inr r, w')"
  shows "receipt_of a r \<and> pd_allowed (evaluate_action a t) \<and> t = VIKUNJA_TARGET \<and>
    er_mutation_possible r = pd_mutating (evaluate_action a t)"
proof -
  have transport: "receipt_of a r' \<and> er_mutation_possible r' = m"
    if "transport_action repr fromiso run clock a VIKUNJA_TARGET m v = (Inr r', v')" for m v r' v'
    using that
    by (auto simp: transport_action_def bind_def lift_def attempt_def raise_def
        split: prod.splits sum.splits xexn.splits dest: completed_receipt_of timeout_receipt_of)
  have allowed: "pd_allowed (evaluate_action a t)"
    using assms by (auto simp: execute_action_def Let_def raise_def split: if_splits)
  then have t: "t = VIKUNJA_TARGET" by (auto simp: evaluate_action_def refusal_def split: if_splits)
  show ?thesis
    using assms allowed t transport
    by (fastforce simp: execute_action_def Let_def raise_def bind_def split: if_splits prod.splits sum.splits)
qed

section \<open>What the server answers\<close>

definition server_answer :: "string \<Rightarrow> int \<Rightarrow> bool" where
  "server_answer out code \<longleftrightarrow>
     (\<exists>r. dumps_line (ServerReceipt_as_dict r) = Inr out \<and> code = (if sr_exit_code r = 0 then 0 else 1)) \<or>
     (\<exists>reason. dumps_line (blocked_dict reason) = Inr out \<and> code \<in> {2, 126})"

lemma server_answerI:
  "dumps_line (ServerReceipt_as_dict r) = Inr out \<Longrightarrow> sr_exit_code r = 0 \<Longrightarrow> server_answer out 0"
  "dumps_line (ServerReceipt_as_dict r) = Inr out \<Longrightarrow> sr_exit_code r \<noteq> 0 \<Longrightarrow> server_answer out 1"
  "dumps_line (blocked_dict reason) = Inr out \<Longrightarrow> server_answer out 2"
  "dumps_line (blocked_dict reason) = Inr out \<Longrightarrow> server_answer out 126"
  by (auto simp: server_answer_def)

lemma dumps_line_error: "dumps_line payload = Inl e \<Longrightarrow> e \<noteq> OSError \<and> (\<forall>reason. e \<noteq> RequestValidationError reason)"
  by (auto simp: dumps_line_def split: sum.splits)

text \<open>When the server program answers at all, it answers one line of JSON: a receipt with exit status 0
  or 1, 0 exactly when the process succeeded, or a refusal with exit status 2 or 126. What it does not
  answer is an exception, and never a failed validation or a missing program.\<close>

theorem server_answers_in_protocol:
  "case fst (server_main repr run clock stdin w) of
      Inr (out, code) \<Rightarrow> server_answer out code
    | Inl e \<Rightarrow> e \<noteq> OSError \<and> (\<forall>reason. e \<noteq> RequestValidationError reason)"
proof -
  let ?Q = "\<lambda>(out, code) _. server_answer out code"
  let ?E = "\<lambda>e _. e \<noteq> OSError \<and> (\<forall>reason. e \<noteq> RequestValidationError reason)"
  have status: "wp (execute_request repr None run clock rq) (\<lambda>r _. sr_status r = ''EXECUTED'' \<longleftrightarrow> sr_exit_code r = 0) (\<lambda>_ _. True) v"
    for rq v
    by (rule wpI) (auto simp: execute_request_def execute_authorized_def server_receipt_def bind_def lift_def raise_def check_simps
        split: if_splits prod.splits sum.splits)
  have "wp (server_main repr run clock stdin) ?Q ?E w"
    unfolding server_main_def wp_bind wp_handle wp_lift
    by (cases "load_request repr (take 16385 stdin)")
      (auto simp: wp_simps dumps_line_error split: sum.splits xexn.splits
        intro: server_answerI intro!: wp_mono [OF status])
  then show ?thesis by (auto simp: wp_def split: sum.splits prod.splits)
qed

section \<open>Where the server does not answer\<close>

text \<open>JSON can write a lone surrogate, and the protocol accepts it in the authorization reference. The
  operation runs, and only then the reference is encoded for its digest: the server ends with an exception
  and the caller gets no receipt of what was done.\<close>

definition surrogate :: string where
  "surrogate = [CHR 0xED, CHR 0xA0, CHR 0x80]"

lemma surrogate_accepted:
  "scan_unicode ''d800'' = Some (surrogate, [])" "\<not> blank surrogate" "\<not> encodable surrogate"
proof -
  have "hex4_value ''d800'' = Some (55296, [])" by (simp add: hex_value_def)
  moreover have "utf8 55296 = surrogate" unfolding surrogate_def utf8_def by (simp add: char_of_def bit_Suc_0_iff)
  ultimately show "scan_unicode ''d800'' = Some (surrogate, [])" by (simp add: scan_unicode_def)
  show "\<not> blank surrogate"
    by (simp add: blank_def strip_def surrogate_def drop_spaces.simps [of leading_space "[CHR 0xED, CHR 0xA0, CHR 0x80]"]
        drop_spaces.simps [of trailing_space "[CHR 0x80, CHR 0xA0, CHR 0xED]"])
  show "\<not> encodable surrogate" by (simp add: surrogate_def)
qed

lemma no_receipt_after_run:
  assumes "load_request repr (take 16385 stdin) = Inr rq" and "resolve_operation rq = Inr spec" and "\<not> os_mutating spec"
    and "\<not> encodable (rq_authorization_reference rq)"
    and "clock = ret now" and "run (os_argv spec) (os_timeout_seconds spec) w = (Inr cp, w')" and "cp_returncode cp \<noteq> 0 \<or> os_result_kind spec = None"
  shows "server_main repr run clock stdin w = (Inl UnicodeEncodeError, w')"
  using assms
  by (auto simp: server_main_def execute_request_def execute_authorized_def server_run_def structured_result_def server_receipt_def
      digest_text_def bind_def lift_def attempt_def handle_def ret_def)

text \<open>A number of more than 4300 digits is no \<open>JSONDecodeError\<close>; nothing catches the \<open>ValueError\<close>.\<close>

lemma long_number_ends_the_server:
  "server_main repr run clock (replicate 4301 CHR ''1'') w =
     (Inl (ValueError ''Exceeds the limit (4300 digits) for integer string conversion''), w)"
proof -
  let ?s = "replicate 4301 CHR ''1''"
  have s: "?s = CHR ''1'' # replicate 4300 CHR ''1''" by (simp add: replicate_Suc [symmetric] del: replicate_Suc)
  have digit: "is_digit CHR ''1''" by code_simp
  have number: "\<exists>i. scan_number ?s = Some (IntToken i 4301, [])"
    unfolding s by (simp add: scan_number_def scan_unsigned_def digit scan_fraction_def scan_exponent_def)
  then have "scan_atom repr ?s = Inl JIntTooLong"
    unfolding s by (auto simp: scan_atom_def startswith_def)
  then have "parse_value False repr (Suc n) ?s = Inl JIntTooLong" for n
    unfolding s by simp
  then have "parse_value False repr (2 * length ?s + 1) ?s = Inl JIntTooLong"
    by (simp only: Suc_eq_plus1 [symmetric])
  moreover have "skip_ws ?s = ?s" by (simp add: s skip_ws_def)
  ultimately have "json_loads False repr ?s = Inl JIntTooLong"
    by (simp add: json_loads_def s startswith_def)
  moreover have "decodable ?s" by (rule ascii_decodable) (simp add: list_all_iff ascii_char_def)
  ultimately show ?thesis
    by (simp add: server_main_def load_request_def bind_def lift_def handle_def)
qed

end
