(* ===== verification/Exec_Loopback.thy ===== *)
theory Exec_Loopback
  imports Exec_Wire Exec_Properties
begin

text \<open>
  Client and server together: the transport hands the request to the server program and gives back what it
  writes. An inventory the server accepts arrives at the caller as the same inventory.
\<close>

definition loopback :: "(rat \<Rightarrow> string) \<Rightarrow> 'w runner \<Rightarrow> ('w, xexn, datetime) proc \<Rightarrow> 'w transport" where
  "loopback repr run clock = (\<lambda>argv input timeout.
     bind (server_main repr run clock input) (\<lambda>(out, exit_code).
     ret \<lparr>cp_returncode = exit_code, cp_stdout = Some out, cp_stderr = Some []\<rparr>))"

section \<open>Times and digests on the wire\<close>

lemma replace_ascii: "list_all ascii_char new \<Longrightarrow> list_all ascii_char s \<Longrightarrow> list_all ascii_char (replace old new s)"
proof (induction old new s rule: replace.induct)
  case (1 old new s)
  then have "list_all ascii_char (drop n s)" for n by (auto simp: list_all_iff dest: in_set_dropD)
  with 1 show ?case by (subst replace.simps) (auto split: list.splits)
qed

lemma time_literals:
  "list_all ascii_char ''0''" "list_all ascii_char ''.''" "list_all ascii_char ''T''" "list_all ascii_char ''+''"
  "list_all ascii_char ''-''" "list_all ascii_char '':''" "list_all ascii_char ''Z''" "list_all ascii_char []"
  by code_simp+

lemma padded_ascii: "list_all ascii_char (padded n i)"
  using time_literals(1) nat_str_ascii by (auto simp: padded_def Let_def list_all_iff)

lemma if_ascii: "list_all ascii_char s \<Longrightarrow> list_all ascii_char t \<Longrightarrow> list_all ascii_char (if b then s else t)"
  by simp

lemma append_ascii: "list_all ascii_char s \<Longrightarrow> list_all ascii_char t \<Longrightarrow> list_all ascii_char (s @ t)"
  by simp

lemma iso_offset_ascii: "list_all ascii_char (iso_offset off)"
  unfolding iso_offset_def Let_def by (intro append_ascii padded_ascii if_ascii time_literals)

lemma isoformat_ascii: "list_all ascii_char (isoformat d)"
proof -
  obtain y m dd where "ymd (wall d div microseconds_per_day) = (y, m, dd)" by (metis prod_cases3)
  moreover have "list_all ascii_char (case tz d of None \<Rightarrow> [] | Some off \<Rightarrow> iso_offset off)"
    by (simp add: iso_offset_ascii split: option.splits)
  ultimately show ?thesis
    unfolding isoformat_def Let_def
    by (simp only: prod.case) (intro append_ascii padded_ascii if_ascii time_literals)
qed

lemma utc_text_ascii: "list_all ascii_char (utc_text d)"
  unfolding utc_text_def by (intro replace_ascii isoformat_ascii time_literals)

lemma sha256_ascii: "list_all ascii_char (sha256_hex s)"
proof -
  have "list_all ascii_char ''0123456789abcdef''" by code_simp
  then show ?thesis using set_sha256_hex [of s] unfolding list_all_iff by blast
qed

lemma sha256_accepted: "require_sha256 (PStr (sha256_hex s)) label = Inr (sha256_hex s)"
proof -
  have "str_len (sha256_hex s) = 64" using ascii_str_len [OF sha256_ascii] by simp
  moreover have "list_all (\<lambda>c. c \<in> set ''0123456789abcdef'') (sha256_hex s)"
    using set_sha256_hex [of s] unfolding list_all_iff by blast
  ultimately show ?thesis unfolding require_sha256_def by (simp only: pyval.case simp_thms if_False)
qed

section \<open>An inventory end to end\<close>

definition inventory_spec :: OperationSpec where
  "inventory_spec = hd operation_specs"

lemma inventory_spec_fields:
  "os_mutating inventory_spec = False" "os_result_kind inventory_spec = Some ''system_inventory''"
  "find (\<lambda>spec. os_name spec = ''system.inventory'') operation_specs = Some inventory_spec"
  by (simp_all add: inventory_spec_def operation_specs_def)

text \<open>The server's receipt for an inventory, and what it writes.\<close>

definition inventory_receipt :: "GovernedAction \<Rightarrow> datetime \<Rightarrow> datetime \<Rightarrow> string \<Rightarrow> string \<Rightarrow> Inventory \<Rightarrow> ServerReceipt" where
  "inventory_receipt a started completed out err i =
     \<lparr>sr_operation_id = ga_operation_id a, sr_operation = ga_operation a, sr_target_id = ga_target_id a,
      sr_plan_id = ga_plan_id a, sr_plan_revision = ga_plan_revision a,
      sr_authorization_reference_sha256 = sha256_hex (ga_authorization_reference a),
      sr_started_at = utc_text started, sr_completed_at = utc_text completed, sr_exit_code = 0,
      sr_stdout_sha256 = sha256_hex out, sr_stderr_sha256 = sha256_hex err, sr_status = ''EXECUTED'',
      sr_mutation_possible = False, sr_result = Some i\<rparr>"

lemma execute_inventory:
  assumes rq: "rq = request_of a" "ga_operation a = ''system.inventory''" "encodable (ga_authorization_reference a)"
    and clock: "\<And>w. clock w = (Inr (now w), w)"
    and run: "run (os_argv inventory_spec) (os_timeout_seconds inventory_spec) w =
      (Inr \<lparr>cp_returncode = 0, cp_stdout = Some out, cp_stderr = err\<rparr>, w')"
    and out: "decodable out" "json_loads False repr out = Inr v" "validate_inventory_payload repr v = Inr i"
  shows "execute_request repr verifier run clock rq w = (Inr (inventory_receipt a (now w) (now w') out (captured err) i), w')"
proof -
  have "resolve_operation rq = Inr inventory_spec"
    by (simp add: resolve_operation_def rq request_of_def inventory_spec_fields)
  then show ?thesis
    using assms by (simp add: execute_request_def inventory_spec_fields execute_authorized_def server_run_def bind_def attempt_def
        ret_def lift_def structured_result_def server_receipt_def digest_text_def request_of_def inventory_receipt_def captured_def)
qed

lemma receipt_dict_plain:
  assumes "ascii_action a" and "plain repr (inventory_dict i)" and "ascii_floats (inventory_dict i)"
    and "encodes True True (inventory_dict i)"
  shows "plain repr (ServerReceipt_as_dict (inventory_receipt a started completed out err i))"
    and "ascii_floats (ServerReceipt_as_dict (inventory_receipt a started completed out err i))"
    and "encodes True True (ServerReceipt_as_dict (inventory_receipt a started completed out err i))"
proof -
  have "ascii_action a \<Longrightarrow> list_all ascii_char (ga_operation_id a) \<and> list_all ascii_char (ga_operation a) \<and>
      list_all ascii_char (ga_target_id a) \<and> list_all ascii_char (ga_plan_id a) \<and> list_all ascii_char (ga_plan_revision a)"
    by (simp add: ascii_action_def)
  moreover have "list_all ascii_char ''EXECUTED''" by code_simp
  moreover have keys: "list_all (list_all ascii_char) inventory_receipt_keys" "distinct inventory_receipt_keys" by code_simp+
  ultimately show "plain repr (ServerReceipt_as_dict (inventory_receipt a started completed out err i))"
    using assms utc_text_ascii sha256_ascii
    by (simp add: ServerReceipt_as_dict_def inventory_receipt_def inventory_receipt_keys_def)
  show "ascii_floats (ServerReceipt_as_dict (inventory_receipt a started completed out err i))"
    using assms(3) by (simp add: ServerReceipt_as_dict_def inventory_receipt_def)
  have "json_int 0 = Inr ''0''" by code_simp
  then have "encodes True True (PInt 0)" by (simp add: encodes_def)
  then show "encodes True True (ServerReceipt_as_dict (inventory_receipt a started completed out err i))"
    using assms(4) by (simp add: ServerReceipt_as_dict_def inventory_receipt_def encodes_dict_iff)
qed

lemma receipt_accepted:
  assumes "ascii_action a" and "ga_operation a = ''system.inventory''" and "inventory_ok i"
    and "plain repr (inventory_dict i)" and "ascii_floats (inventory_dict i)"
    and line: "dumps_line (ServerReceipt_as_dict (inventory_receipt a started completed out err i)) = Inr b"
    and time: "\<And>d. d \<in> {started, completed} \<Longrightarrow> aware d \<and> fromiso (replace ''Z'' ''+00:00'' (utc_text d)) = Some d"
    and order: "instant started \<le> instant completed"
    and enc: "encodes True True (inventory_dict i)"
  shows "inventory_result_from_server_response repr fromiso a b = Inr i"
proof -
  let ?kvs = "[(''operation_id'', PStr (ga_operation_id a)), (''operation'', PStr (ga_operation a)),
       (''target_id'', PStr (ga_target_id a)), (''plan_id'', PStr (ga_plan_id a)),
       (''plan_revision'', PStr (ga_plan_revision a)),
       (''authorization_reference_sha256'', PStr (sha256_hex (ga_authorization_reference a))),
       (''started_at'', PStr (utc_text started)), (''completed_at'', PStr (utc_text completed)),
       (''exit_code'', PInt 0), (''stdout_sha256'', PStr (sha256_hex out)),
       (''stderr_sha256'', PStr (sha256_hex err)), (''status'', PStr ''EXECUTED''),
       (''mutation_possible'', PBool False), (''secret_values_recorded'', PBool False), (''result'', inventory_dict i)]"
  have dict: "ServerReceipt_as_dict (inventory_receipt a started completed out err i) = PDict ?kvs"
    by (simp add: ServerReceipt_as_dict_def inventory_receipt_def)
  have written: "decodable b" "json_loads False repr b = Inr (canonical (PDict ?kvs))"
    using line_read [OF line receipt_dict_plain(1,2) [OF assms(1,4,5) enc]] unfolding dict by this
  obtain kvs' where kvs': "canonical (PDict ?kvs) = PDict kvs'" "fst ` set kvs' = fst ` set ?kvs"
    and items: "\<And>k. k \<in> fst ` set ?kvs \<Longrightarrow> item k kvs' = canonical (item k ?kvs)"
    using text_view.objects [of ?kvs] by auto
  have read: "decodable b" "json_loads False repr b = Inr (PDict kvs')"
    using written unfolding kvs'(1) by this
  have fields: "item ''operation_id'' kvs' = PStr (ga_operation_id a)" "item ''operation'' kvs' = PStr (ga_operation a)"
    "item ''target_id'' kvs' = PStr (ga_target_id a)" "item ''plan_id'' kvs' = PStr (ga_plan_id a)"
    "item ''plan_revision'' kvs' = PStr (ga_plan_revision a)"
    "item ''authorization_reference_sha256'' kvs' = PStr (sha256_hex (ga_authorization_reference a))"
    "item ''started_at'' kvs' = PStr (utc_text started)" "item ''completed_at'' kvs' = PStr (utc_text completed)"
    "item ''exit_code'' kvs' = PInt 0" "item ''stdout_sha256'' kvs' = PStr (sha256_hex out)"
    "item ''stderr_sha256'' kvs' = PStr (sha256_hex err)" "item ''status'' kvs' = PStr ''EXECUTED''"
    "item ''mutation_possible'' kvs' = PBool False" "item ''secret_values_recorded'' kvs' = PBool False"
    "item ''result'' kvs' = canonical (inventory_dict i)"
    by (subst items; simp add: item_def; fail)+
  have keys: "fst ` set kvs' = set inventory_receipt_keys"
    using kvs'(2) by (auto simp: inventory_receipt_keys_def)
  have "encodable (ga_authorization_reference a)"
    using assms(1) by (simp add: ascii_action_def ascii_encodable)
  moreover have "require_timestamp fromiso (PStr (utc_text started)) label = Inr started"
    "require_timestamp fromiso (PStr (utc_text completed)) label = Inr completed" for label
    using time by (simp_all add: require_timestamp_def)
  moreover have "check_binding (expected_binding a) kvs' = Inr ()"
    by (simp add: check_binding_def expected_binding_def fields)
  ultimately show ?thesis
    using read order text_view.validate_view [OF assms(3)]
    by (simp add: inventory_result_from_server_response_def keys fields sha256_accepted require_bool_def)
qed

lemma server_main_inventory:
  assumes allowed: "pd_allowed (evaluate_action a t)" and "ga_operation a = ''system.inventory''" and ascii: "ascii_action a"
    and b: "request_bytes a = Inr b" "length b \<le> 16384"
    and clock: "\<And>w. clock w = (Inr (now w), w)"
    and run: "run (os_argv inventory_spec) (os_timeout_seconds inventory_spec) w =
      (Inr \<lparr>cp_returncode = 0, cp_stdout = Some out, cp_stderr = err\<rparr>, w')"
    and out: "decodable out" "json_loads False repr out = Inr v" "validate_inventory_payload repr v = Inr i"
    and line: "dumps_line (ServerReceipt_as_dict (inventory_receipt a (now w) (now w') out (captured err) i)) = Inr answer"
  shows "server_main repr run clock b w = (Inr (answer, 0), w')"
proof -
  have "load_request repr (take 16385 b) = Inr (request_of a)"
    using request_read [OF allowed ascii, of repr] b by simp
  moreover have "execute_request repr None run clock (request_of a) w =
      (Inr (inventory_receipt a (now w) (now w') out (captured err) i), w')"
    by (rule execute_inventory [where now = now]; (rule refl | fact | (use ascii in \<open>simp add: ascii_action_def ascii_encodable\<close>)))
  moreover have "sr_status (inventory_receipt a (now w) (now w') out (captured err) i) = ''EXECUTED''"
    by (simp add: inventory_receipt_def)
  ultimately show ?thesis
    using line by (simp add: server_main_def bind_def lift_def handle_def ret_def)
qed


section \<open>The round trip of a request\<close>

text \<open>C30: for every action the policy allows (with ASCII texts) the client writes a request which, if it fits the
  limit, the server reads back as exactly that action; the server knows the operation, agrees with the
  client's policy on whether it changes something, and asks its verifier the same question.\<close>

theorem request_round_trip:
  assumes "pd_allowed (evaluate_action a t)" and "ascii_action a"
  shows "\<exists>b spec. request_bytes a = Inr b \<and> (16384 < length b \<or> load_request repr b = Inr (request_of a)) \<and>
    resolve_operation (request_of a) = Inr spec \<and> os_name spec = ga_operation a \<and>
    os_mutating spec = pd_mutating (evaluate_action a t) \<and> request_query (request_of a) = action_query a"
proof -
  obtain b where "request_bytes a = Inr b" and "16384 < length b \<or> load_request repr b = Inr (request_of a)"
    using request_read [OF assms, of repr] by fastforce
  moreover obtain spec where "find (\<lambda>spec. os_name spec = ga_operation a) operation_specs = Some spec"
    and "os_name spec = ga_operation a" "os_mutating spec = (ga_operation a \<in> set MUTATING_OPERATIONS)"
    using operations_agree [OF allowed_action(3) [OF assms(1)]] by blast
  moreover have "request_query (request_of a) = action_query a"
    by (simp add: request_query_def request_of_def action_query_def)
  ultimately show ?thesis
    using allowed_action(9) [OF assms(1)] by (simp add: resolve_operation_def request_of_def)
qed

section \<open>Witnesses\<close>

definition an_action :: "string \<Rightarrow> GovernedAction" where
  "an_action operation =
     \<lparr>ga_operation_id = ''op1'', ga_operation = operation, ga_target_id = ''tasks.cyberdjs.org'', ga_plan_id = ''p1'',
      ga_plan_revision = ''r1'', ga_authorization_reference = ''auth1'', ga_arguments = []\<rparr>"

lemma an_action_operation: "ga_operation (an_action operation) = operation"
  by (simp add: an_action_def)

lemma an_action_texts:
  "\<not> blank ''op1''" "\<not> blank ''p1''" "\<not> blank ''r1''" "\<not> blank ''auth1''"
  by code_simp+

lemma an_action_allowed:
  assumes "operation \<in> set SUPPORTED_OPERATIONS"
  shows "evaluate_action (an_action operation) VIKUNJA_TARGET =
    \<lparr>pd_allowed = True, pd_reason = ''bounded action accepted'', pd_mutating = operation \<in> set MUTATING_OPERATIONS\<rparr>"
  using assms by (simp add: evaluate_action_def an_action_def VIKUNJA_TARGET_def action_has_bound_plan_def ALLOWED_ARGUMENTS_def
      an_action_texts)

lemma supported: "''system.inventory'' \<in> set SUPPORTED_OPERATIONS" "''vikunja.backup.run'' \<in> set SUPPORTED_OPERATIONS"
  "''vikunja.health.verify'' \<in> set SUPPORTED_OPERATIONS" "''vikunja.backup.run'' \<in> set MUTATING_OPERATIONS"
  "''system.inventory'' \<notin> set MUTATING_OPERATIONS" "''vikunja.health.verify'' \<notin> set MUTATING_OPERATIONS"
  by (simp_all add: SUPPORTED_OPERATIONS_def MUTATING_OPERATIONS_def)

lemma an_action_ascii: "operation \<in> set SUPPORTED_OPERATIONS \<Longrightarrow> ascii_action (an_action operation)"
proof -
  have "list_all (\<lambda>operation. ascii_action (an_action operation)) SUPPORTED_OPERATIONS" by code_simp
  then show "operation \<in> set SUPPORTED_OPERATIONS \<Longrightarrow> ascii_action (an_action operation)" by (simp add: list_all_iff)
qed

definition half :: "rat \<Rightarrow> string" where
  "half q = ''0.5''"

definition calm :: "string list \<Rightarrow> nat \<Rightarrow> (unit, xexn, CompletedProcess) proc" where
  "calm argv timeout = ret \<lparr>cp_returncode = 0, cp_stdout = Some [], cp_stderr = None\<rparr>"

definition wild :: "string list \<Rightarrow> nat \<Rightarrow> (unit, xexn, CompletedProcess) proc" where
  "wild argv timeout = (if argv ! 0 = ''/usr/bin/systemctl'' \<and> argv ! 1 = ''start'' then raise OSError else calm argv timeout)"

definition epoch :: datetime where
  "epoch = DateTime 0 (Some 0)"

theorem server_runs_only_authorised_witness:
  "execute_request half None wild (ret epoch) (request_of (an_action ''vikunja.backup.run'')) =
   execute_request half None calm (ret epoch) (request_of (an_action ''vikunja.backup.run''))"
  by (rule server_runs_only_authorised)
    (auto simp: resolve_operation_def request_of_def an_action_def operation_specs_def)

theorem server_main_only_reads_witness:
  "server_main half wild (ret epoch) stdin = server_main half calm (ret epoch) stdin"
  by (rule server_main_only_reads) (simp add: operation_specs_def wild_def)

theorem client_runs_only_authorised_witness:
  "execute_action half (\<lambda>_. None) None (\<lambda>argv input timeout. raise OSError) (ret epoch) (an_action ''vikunja.backup.run'') VIKUNJA_TARGET =
   execute_action half (\<lambda>_. None) None (\<lambda>argv input timeout. calm argv timeout) (ret epoch) (an_action ''vikunja.backup.run'') VIKUNJA_TARGET"
  by (rule client_runs_only_authorised) (simp add: an_action_allowed supported)

theorem request_round_trip_witness:
  "\<exists>b spec. request_bytes (an_action ''vikunja.backup.run'') = Inr b \<and>
    (16384 < length b \<or> load_request half b = Inr (request_of (an_action ''vikunja.backup.run''))) \<and>
    resolve_operation (request_of (an_action ''vikunja.backup.run'')) = Inr spec \<and> os_mutating spec"
  using request_round_trip [of "an_action ''vikunja.backup.run''" VIKUNJA_TARGET half]
  by (auto simp: an_action_allowed supported an_action_ascii)

theorem client_receipt_is_bound_witness:
  "\<exists>r. execute_action half (\<lambda>_. None) None (\<lambda>argv input timeout. calm argv timeout) (ret epoch) (an_action ''vikunja.health.verify'')
      VIKUNJA_TARGET () = (Inr r, ()) \<and> receipt_of (an_action ''vikunja.health.verify'') r"
proof -
  let ?a = "an_action ''vikunja.health.verify''"
  obtain b where b: "request_bytes ?a = Inr b"
    using request_read [of ?a VIKUNJA_TARGET half] by (auto simp: an_action_allowed supported an_action_ascii)
  have receipt: "\<exists>r. build_receipt ?a argv started completed exit_code out err m result = Inr r"
    for argv started completed exit_code out err m result
    by (simp add: build_receipt_def digest_text_def an_action_def)
  have "\<exists>r. execute_action half (\<lambda>_. None) None (\<lambda>argv input timeout. calm argv timeout) (ret epoch) ?a VIKUNJA_TARGET () = (Inr r, ())"
    by (simp add: execute_action_def an_action_allowed supported transport_action_def b bind_def ret_def lift_def attempt_def calm_def
        completed_receipt_def receipt an_action_operation)
  then obtain r where r: "execute_action half (\<lambda>_. None) None (\<lambda>argv input timeout. calm argv timeout) (ret epoch) ?a VIKUNJA_TARGET () = (Inr r, ())"
    by blast
  with client_receipt_is_bound [OF r] show ?thesis by blast
qed

subsection \<open>An inventory\<close>

definition an_inventory :: Inventory where
  "an_inventory =
     \<lparr>iv_host = \<lparr>ho_hostname = ''h1'', ho_cpu_logical = 2, ho_load_1m = ''0.5'', ho_load_5m = ''0.5'', ho_load_15m = ''0.5''\<rparr>,
      iv_memory = \<lparr>me_total = 8, me_available = 4, me_swap_total = 0, me_swap_free = 0\<rparr>,
      iv_filesystem = \<lparr>fi_total = 8, fi_used = 5, fi_free = 3\<rparr>,
      iv_docker = \<lparr>dk_cli_present = True, dk_access_status = ''ok'', dk_server_version = Some ''27'',
        dk_containers = [\<lparr>cn_name = ''db'', cn_image = ''pg'', cn_status = ''Up'', cn_ports = [], cn_size = ''1B''\<rparr>],
        dk_storage = [\<lparr>sg_type = ''Images'', sg_total_count = ''1'', sg_active = ''1'', sg_size = ''1B'', sg_reclaimable = ''0B''\<rparr>]\<rparr>\<rparr>"

lemma an_inventory_ok: "inventory_ok an_inventory"
proof -
  have "filled_ok n s" if "s \<in> {''27'', ''db'', ''pg'', ''Up'', ''1B'', ''Images'', ''1'', ''0B''}" "64 \<le> n" for n s
  proof -
    have "list_all (\<lambda>s. \<not> blank s \<and> str_len s \<le> 64) [''27'', ''db'', ''pg'', ''Up'', ''1B'', ''Images'', ''1'', ''0B'']" by code_simp
    with that show ?thesis unfolding list_all_iff filled_ok_def by fastforce
  qed
  moreover have "load_ok ''0.5''" by code_simp
  moreover have "str_len ''h1'' \<le> 255" by code_simp
  ultimately show ?thesis
    by (simp add: inventory_ok_def an_inventory_def host_ok_def memory_ok_def filesystem_ok_def docker_ok_def
        container_ok_def storage_ok_def text_ok_def)
qed

theorem validated_inventory_is_stable_witness:
  "inventory_ok an_inventory \<and> validate_inventory_payload half (canonical (inventory_dict an_inventory)) = Inr an_inventory"
  using validated_inventory_is_stable [of half "inventory_dict an_inventory" an_inventory]
    plain_view.validate_view [OF an_inventory_ok] by simp

lemma half_reads_back: "reads_back half ''0.5''"
proof -
  have digits: "is_digit CHR ''0''" "is_digit CHR ''5''" "\<not> is_digit CHR ''.''" by code_simp+
  have "scan_atom half (''0.5'' @ r) = Inr (PFloat (Finite ''0.5''), r)" if "delimited r" for r
  proof -
    note r = delimited_not_digit [OF that]
    have "scan_fraction (''.5'' @ r) = (''5'', r)" by (simp add: scan_fraction_def digits r)
    then have "\<exists>q. scan_number (''0.5'' @ r) = Some (FloatToken q, r)"
      by (simp add: scan_number_def scan_unsigned_def digits r)
    then show ?thesis by (auto simp: scan_atom_def startswith_def half_def)
  qed
  then show ?thesis by (simp add: reads_back_def digits)
qed

lemma an_inventory_wire:
  "plain half (inventory_dict an_inventory)" "ascii_floats (inventory_dict an_inventory)" "encodes True True (inventory_dict an_inventory)"
proof -
  note dicts = inventory_dict_def host_dict_def memory_dict_def filesystem_dict_def docker_dict_def container_dict_def storage_dict_def
  show "plain half (inventory_dict an_inventory)"
    by (simp add: dicts an_inventory_def half_reads_back) (simp add: ascii_char_def)
  show "ascii_floats (inventory_dict an_inventory)"
    by (simp add: dicts an_inventory_def ascii_char_def)
  have ints: "list_all (encodes True True) [PInt 0, PInt 1, PInt 2, PInt 3, PInt 4, PInt 5, PInt 8, PFloat (Finite ''0.5'')]"
    by (simp add: encodes_def json_int_def int_str_def nat_str.simps)
  have lists: "encodes True True (PList [v])" if "encodes True True v" for v
    using that by (auto simp: encodes_def)
  show "encodes True True (inventory_dict an_inventory)"
    using ints by (simp add: dicts an_inventory_def encodes_dict_iff lists)
qed

text \<open>The server's command gives the text of the inventory.\<close>

definition inventory_text :: string where
  "inventory_text = (case json_dumps True True (inventory_dict an_inventory) of Inl e \<Rightarrow> [] | Inr x \<Rightarrow> x)"

lemma inventory_text: "json_dumps True True (inventory_dict an_inventory) = Inr inventory_text"
  using an_inventory_wire(3) by (auto simp: inventory_text_def encodes_def)

definition reporting :: "string list \<Rightarrow> nat \<Rightarrow> (unit, xexn, CompletedProcess) proc" where
  "reporting argv timeout = ret \<lparr>cp_returncode = 0, cp_stdout = Some inventory_text, cp_stderr = Some []\<rparr>"

lemma an_action_request:
  "case request_bytes (an_action ''system.inventory'') of Inl e \<Rightarrow> False | Inr b \<Rightarrow> length b \<le> 16384"
  by code_simp


end
