(* ===== verification/Py_Input.thy ===== *)
theory Py_Input
  imports Py_Json_Parse Py_Bytes
begin

text \<open>
  Reading what comes from outside: \<open>int\<close> of a string (of the digits it accepts only the ASCII ones
  are modelled) and \<open>json.loads\<close> of bytes.
\<close>

section \<open>Integers\<close>

text \<open>Digits with single underscores between them.\<close>

fun digit_groups :: "string \<Rightarrow> bool" where
  "digit_groups [] = False"
| "digit_groups [c] = is_digit c"
| "digit_groups (c # d # s) = (is_digit c \<and> (if d = CHR ''_'' then digit_groups s else digit_groups (d # s)))"

definition int_of_text :: "string \<Rightarrow> int option" where
  "int_of_text s =
     (let t = strip s; signed = t \<noteq> [] \<and> (hd t = CHR ''-'' \<or> hd t = CHR ''+''); ds = (if signed then tl t else t);
          digits = filter is_digit ds in
      if digit_groups ds \<and> length digits \<le> 4300
        then Some ((if signed \<and> hd t = CHR ''-'' then - 1 else 1) * int (digits_value digits)) else None)"

section \<open>JSON from bytes\<close>

text \<open>\<open>json.detect_encoding\<close> finds UTF-16 or UTF-32: a byte order mark, or a zero among the first
  two bytes.\<close>

definition wide_text :: "string \<Rightarrow> bool" where
  "wide_text b \<longleftrightarrow>
     startswith b [CHR 0x00, CHR 0x00, CHR 0xFE, CHR 0xFF] \<or> startswith b [CHR 0xFF, CHR 0xFE] \<or>
     startswith b [CHR 0xFE, CHR 0xFF] \<or>
     (4 \<le> length b \<or> length b = 2) \<and> (b ! 0 = CHR 0x00 \<or> b ! 1 = CHR 0x00)"

text \<open>\<open>decode("utf-8", "surrogatepass")\<close> succeeds.\<close>

definition second_pass :: "nat \<Rightarrow> char \<Rightarrow> bool" where
  "second_pass n c \<longleftrightarrow> continuation c \<and> (n = 224 \<longrightarrow> (160 :: nat) \<le> of_char c) \<and>
     (n = 240 \<longrightarrow> (144 :: nat) \<le> of_char c) \<and> (n = 244 \<longrightarrow> (of_char c :: nat) < 144)"

fun decodable_pass :: "string \<Rightarrow> bool" where
  "decodable_pass [] = True"
| "decodable_pass (a # s) =
     (let n = of_char a :: nat in
      if n < 128 then decodable_pass s
      else if 194 \<le> n \<and> n < 224 then
        (case s of b # r \<Rightarrow> continuation b \<and> decodable_pass r | [] \<Rightarrow> False)
      else if 224 \<le> n \<and> n < 240 then
        (case s of b # c # r \<Rightarrow> second_pass n b \<and> continuation c \<and> decodable_pass r | _ \<Rightarrow> False)
      else if 240 \<le> n \<and> n < 245 then
        (case s of b # c # d # r \<Rightarrow>
           second_pass n b \<and> continuation c \<and> continuation d \<and> decodable_pass r | _ \<Rightarrow> False)
      else False)"

text \<open>The name of the exception, or the value; \<open>wide\<close> decodes and reads UTF-16 and UTF-32.\<close>

definition loads_bytes ::
  "(string \<Rightarrow> string + pyval) \<Rightarrow> (rat \<Rightarrow> string) \<Rightarrow> string \<Rightarrow> string + pyval" where
  "loads_bytes wide repr b =
     (if wide_text b then wide b
      else
        let t = (if startswith b [CHR 0xEF, CHR 0xBB, CHR 0xBF] then drop 3 b else b) in
        if \<not> decodable_pass t then Inl ''UnicodeDecodeError''
        else case json_loads False repr t of
          Inr v \<Rightarrow> Inr v
        | Inl JIntTooLong \<Rightarrow> Inl ''ValueError''
        | Inl _ \<Rightarrow> Inl ''JSONDecodeError'')"

section \<open>Stripping twice\<close>

lemma drop_spaces_end: "drop_spaces f s = [] \<or> f (drop_spaces f s) = 0"
proof (induction f s rule: drop_spaces.induct)
  case (1 f s)
  then show ?case
    by (cases "f s = 0 \<or> s = []") (auto simp: drop_spaces.simps [of f s])
qed

lemma drop_spaces_none: "f s = 0 \<Longrightarrow> drop_spaces f s = s"
  by (simp add: drop_spaces.simps)

lemma leading_space_of_prefix: "leading_space (p @ q) = 0 \<Longrightarrow> leading_space p = 0"
  by (cases p rule: leading_space.cases)
    (auto split: list.splits if_splits simp del: ascii_space.simps space2.simps space3.simps)

lemma strip_strip [simp]: "strip (strip s) = strip s"
proof -
  let ?t = "drop_spaces leading_space s"
  obtain q where q: "?t = strip s @ q"
    using drop_spaces_suffix [of trailing_space "rev ?t"]
    by (auto simp: strip_def suffix_def) (metis rev_append rev_rev_ident)
  have "leading_space (strip s) = 0"
  proof (cases "?t = []")
    case True
    with q show ?thesis by simp
  next
    case False
    then have "leading_space ?t = 0" using drop_spaces_end [of leading_space s] by blast
    then show ?thesis unfolding q by (rule leading_space_of_prefix)
  qed
  moreover have "trailing_space (rev (strip s)) = 0"
    using drop_spaces_end [of trailing_space "rev ?t"] by (auto simp: strip_def)
  ultimately show ?thesis
    by (simp add: strip_def [of "strip s"] drop_spaces_none)
qed

end
