(* ===== verification/Exec_Collect.thy ===== *)
theory Exec_Collect
  imports Exec_Loopback Py_Input
begin

text \<open>
  Collecting the inventory on the server (src/src/cybercore/execution/server/inventory.py): the memory table, the
  Docker tables and the whole inventory. The operating system is a record of procedures; the bounded
  runner of commands, with its threads and pipes, is one of them. Of the digits \<open>int()\<close> accepts only the
  ASCII ones are modelled.
\<close>

section \<open>Words and numbers\<close>

text \<open>\<open>str.split()\<close>\<close>

function split_words :: "string \<Rightarrow> string \<Rightarrow> string list" where
  "split_words word s =
     (case s of
        [] \<Rightarrow> (if word = [] then [] else [rev word])
      | a # r \<Rightarrow>
          if leading_space s = 0 then split_words (a # word) r
          else (if word = [] then [] else [rev word]) @ split_words [] (drop (leading_space s) s))"
  by pat_completeness auto
termination
  by (relation "measure (\<lambda>(word, s). length s)") auto

declare split_words.simps [simp del]

section \<open>Memory\<close>

definition partition_colon :: "string \<Rightarrow> string \<times> bool \<times> string" where
  "partition_colon s =
     (let key = takeWhile (\<lambda>c. c \<noteq> CHR '':'') s; rest = dropWhile (\<lambda>c. c \<noteq> CHR '':'') s in
      (key, rest \<noteq> [], tl rest))"

definition meminfo_wanted :: "string list" where
  "meminfo_wanted = [''MemTotal'', ''MemAvailable'', ''SwapTotal'', ''SwapFree'']"

definition meminfo_field :: "string \<Rightarrow> string \<Rightarrow> string + int" where
  "meminfo_field key remainder =
     (let malformed = ''memory inventory field '' @ key @ '' is malformed'' in
      case split_words [] (strip remainder) of
        [n, unit] \<Rightarrow>
          if unit \<noteq> ''kB'' then Inl malformed
          else (case int_of_text n of
             None \<Rightarrow> Inl malformed
           | Some kib \<Rightarrow> if kib < 0 then Inl malformed else Inr (kib * 1024))
      | _ \<Rightarrow> Inl malformed)"

fun meminfo_lines :: "(string \<times> int) list \<Rightarrow> string list \<Rightarrow> string + (string \<times> int) list" where
  "meminfo_lines values [] = Inr values"
| "meminfo_lines values (line # ls) =
     (case partition_colon line of
        (key, separator, remainder) \<Rightarrow>
          if key \<notin> set meminfo_wanted then meminfo_lines values ls
          else if \<not> separator \<or> key \<in> fst ` set values
            then Inl (''memory inventory field '' @ key @ '' is malformed'')
          else andThen (meminfo_field key remainder) (\<lambda>v. meminfo_lines ((key, v) # values) ls))"

definition meminfo_get :: "(string \<times> int) list \<Rightarrow> string \<Rightarrow> int" where
  "meminfo_get values key = (case map_of values key of None \<Rightarrow> 0 | Some v \<Rightarrow> v)"

text \<open>\<open>None\<close> is a file that cannot be read.\<close>

definition read_meminfo :: "string option \<Rightarrow> string + pyval" where
  "read_meminfo content =
     (case content of
        None \<Rightarrow> Inl ''memory inventory is unavailable''
      | Some s \<Rightarrow>
          andThen (meminfo_lines [] (splitlines s)) (\<lambda>values.
          andThen (ensure (list_all (\<lambda>k. k \<in> fst ` set values) meminfo_wanted)
            ''memory inventory is missing required fields'') (\<lambda>_.
          Inr (PDict
            [(''total_bytes'', PInt (meminfo_get values ''MemTotal'')),
             (''available_bytes'', PInt (meminfo_get values ''MemAvailable'')),
             (''swap_total_bytes'', PInt (meminfo_get values ''SwapTotal'')),
             (''swap_free_bytes'', PInt (meminfo_get values ''SwapFree''))]))))"

section \<open>Docker\<close>

text \<open>The rows of a table of JSON lines, and whether they are all there.\<close>

fun json_rows :: "(rat \<Rightarrow> string) \<Rightarrow> string list \<Rightarrow> string + (string \<times> pyval) list list \<times> bool" where
  "json_rows repr [] = Inr ([], True)"
| "json_rows repr (line # ls) =
     (case json_loads False repr line of
        Inl JIntTooLong \<Rightarrow> Inl ''Exceeds the limit (4300 digits) for integer string conversion''
      | Inl e \<Rightarrow> andThen (json_rows repr ls) (\<lambda>(rows, whole). Inr (rows, False))
      | Inr (PDict kvs) \<Rightarrow> andThen (json_rows repr ls) (\<lambda>(rows, whole). Inr (kvs # rows, whole))
      | Inr v \<Rightarrow> andThen (json_rows repr ls) (\<lambda>(rows, whole). Inr (rows, False)))"

definition safe_json_lines :: "(rat \<Rightarrow> string) \<Rightarrow> string \<Rightarrow> nat \<Rightarrow> string + (string \<times> pyval) list list \<times> bool" where
  "safe_json_lines repr s limit =
     (let raw = filter (\<lambda>line. \<not> blank line) (splitlines s) in
      andThen (json_rows repr (take limit raw)) (\<lambda>(rows, whole). Inr (rows, whole \<and> length raw \<le> limit)))"

fun required_text_fields :: "(string \<times> pyval) list \<Rightarrow> (string \<times> string \<times> nat) list \<Rightarrow> string list \<Rightarrow> (string \<times> pyval) list option" where
  "required_text_fields row [] allow_empty = Some []"
| "required_text_fields row ((source, destination, max_length) # fs) allow_empty =
     (case item source row of
        PStr s \<Rightarrow>
          if max_length < str_len s \<or> blank s \<and> destination \<notin> set allow_empty then None
          else map_option (\<lambda>rest. (destination, PStr s) # rest) (required_text_fields row fs allow_empty)
      | _ \<Rightarrow> None)"

definition container_fields :: "(string \<times> string \<times> nat) list" where
  "container_fields =
     [(''Names'', ''name'', 256), (''Image'', ''image'', 512), (''Status'', ''status'', 256),
      (''Ports'', ''ports'', 1024), (''Size'', ''size'', 128)]"

definition storage_fields :: "(string \<times> string \<times> nat) list" where
  "storage_fields =
     [(''Type'', ''type'', 128), (''TotalCount'', ''total_count'', 64), (''Active'', ''active'', 64),
      (''Size'', ''size'', 128), (''Reclaimable'', ''reclaimable'', 128)]"

text \<open>The normalized rows, and whether every row could be normalized.\<close>

definition normalized_rows :: "(string \<times> string \<times> nat) list \<Rightarrow> string list \<Rightarrow> (string \<times> pyval) list list \<Rightarrow> pyval list \<times> bool" where
  "normalized_rows fs allow_empty rows =
     (map PDict (List.map_filter (\<lambda>row. required_text_fields row fs allow_empty) rows),
      list_all (\<lambda>row. required_text_fields row fs allow_empty \<noteq> None) rows)"

text \<open>One table: its rows and whether it is complete.\<close>

record 'w host_env =
  he_loadavg :: "('w, xexn, string \<times> string \<times> string) proc"
  he_cpu_count :: "('w, xexn, int option) proc"
  he_disk_usage :: "('w, xexn, int \<times> int \<times> int) proc"
  he_hostname :: "('w, xexn, string) proc"
  he_meminfo :: "('w, xexn, string option) proc"
  he_which :: "string \<Rightarrow> ('w, xexn, string option) proc"
  he_run :: "string list \<Rightarrow> ('w, xexn, int \<times> string) proc"

text \<open>\<open>OSError\<close>, \<open>TimeoutExpired\<close> and \<open>_OutputLimitExceeded\<close> are caught.\<close>

fun command_failure :: "xexn \<Rightarrow> bool" where
  "command_failure OSError = True"
| "command_failure (TimeoutExpired _ _) = True"
| "command_failure (OtherError name) = (name = ''_OutputLimitExceeded'')"
| "command_failure _ = False"

definition docker_table ::
  "(rat \<Rightarrow> string) \<Rightarrow> 'w host_env \<Rightarrow> string list \<Rightarrow> nat \<Rightarrow> (string \<times> string \<times> nat) list \<Rightarrow> string list \<Rightarrow> ('w, xexn, pyval list \<times> bool) proc" where
  "docker_table repr env argv limit fs allow_empty =
     handle
       (bind (he_run env argv) (\<lambda>(returncode, out).
        if returncode = 0 then
          (case safe_json_lines repr out limit of
             Inl msg \<Rightarrow> raise (ValueError msg)
           | Inr (rows, whole) \<Rightarrow>
               (case normalized_rows fs allow_empty rows of (ns, normal) \<Rightarrow> ret (ns, whole \<and> normal)))
        else ret ([], False)))
       (\<lambda>e. if command_failure e then Some (ret ([], False)) else None)"

definition docker_payload :: "bool \<Rightarrow> string \<Rightarrow> string option \<Rightarrow> pyval list \<Rightarrow> pyval list \<Rightarrow> pyval" where
  "docker_payload cli access_status version containers storage = PDict
     [(''cli_present'', PBool cli), (''access_status'', PStr access_status),
      (''server_version'', case version of None \<Rightarrow> PNone | Some v \<Rightarrow> PStr v),
      (''containers'', PList containers), (''storage'', PList storage)]"

definition docker_tables :: "(rat \<Rightarrow> string) \<Rightarrow> 'w host_env \<Rightarrow> string \<Rightarrow> string option \<Rightarrow> ('w, xexn, pyval) proc" where
  "docker_tables repr env docker version =
     bind (docker_table repr env [docker, ''ps'', ''--size'', ''--format'', ''{{json .}}''] 100 container_fields [''ports'']) (\<lambda>(containers, c_ok).
     bind (docker_table repr env [docker, ''system'', ''df'', ''--format'', ''{{json .}}''] 16 storage_fields []) (\<lambda>(storage, s_ok).
     ret (docker_payload True
       (if version \<noteq> None \<and> c_ok \<and> s_ok \<and> storage \<noteq> [] then ''ok'' else ''partial_failure'') version containers storage)))"

definition docker_inventory :: "(rat \<Rightarrow> string) \<Rightarrow> 'w host_env \<Rightarrow> ('w, xexn, pyval) proc" where
  "docker_inventory repr env =
     bind (he_which env ''docker'') (\<lambda>found.
     case found of
       None \<Rightarrow> ret (docker_payload False ''not_installed'' None [] [])
     | Some docker \<Rightarrow>
         bind (handle (bind (he_run env [docker, ''version'', ''--format'', ''{{.Server.Version}}'']) (\<lambda>r. ret (Some r)))
           (\<lambda>e. if command_failure e then Some (ret None) else None)) (\<lambda>answer.
         case answer of
           None \<Rightarrow> ret (docker_payload True ''denied_or_unreachable'' None [] [])
         | Some (returncode, out) \<Rightarrow>
             if returncode \<noteq> 0 then ret (docker_payload True ''denied_or_unreachable'' None [] [])
             else let v = str_take 128 (strip out) in docker_tables repr env docker (if v = [] then None else Some v)))"

section \<open>The inventory\<close>

definition value_error :: "string + 'a \<Rightarrow> ('w, xexn, 'a) proc" where
  "value_error r = (case r of Inl msg \<Rightarrow> raise (ValueError msg) | Inr a \<Rightarrow> ret a)"

definition collect_inventory :: "(rat \<Rightarrow> string) \<Rightarrow> 'w host_env \<Rightarrow> ('w, xexn, Inventory) proc" where
  "collect_inventory repr env =
     bind (handle (he_loadavg env)
       (\<lambda>e. if e = OSError then Some (raise (ValueError ''load average inventory is unavailable'')) else None)) (\<lambda>(l1, l5, l15).
     bind (he_cpu_count env) (\<lambda>cpu.
     case cpu of
       None \<Rightarrow> raise (ValueError ''logical CPU inventory is unavailable'')
     | Some n \<Rightarrow>
         if n \<le> 0 then raise (ValueError ''logical CPU inventory is unavailable'')
         else bind (he_disk_usage env) (\<lambda>(total, used, free).
           bind (he_hostname env) (\<lambda>hostname.
           bind (bind (he_meminfo env) (\<lambda>content. value_error (read_meminfo content))) (\<lambda>memory.
           bind (docker_inventory repr env) (\<lambda>docker.
           value_error (validate_inventory_payload repr (PDict
             [(''schema_version'', PInt 1),
              (''host'', PDict
                [(''hostname'', PStr (str_take 255 hostname)), (''cpu_logical'', PInt n),
                 (''load_1m'', PFloat (Finite l1)), (''load_5m'', PFloat (Finite l5)), (''load_15m'', PFloat (Finite l15))]),
              (''memory'', memory),
              (''root_filesystem'', PDict
                [(''total_bytes'', PInt total), (''used_bytes'', PInt used), (''free_bytes'', PInt free)]),
              (''docker'', docker)]))))))))"

definition inventory_main :: "(rat \<Rightarrow> string) \<Rightarrow> 'w host_env \<Rightarrow> ('w, xexn, string) proc" where
  "inventory_main repr env =
     bind (collect_inventory repr env) (\<lambda>i. lift (dumps_line (inventory_dict i)))"

section \<open>What the collector reports about Docker is valid\<close>

lemma required_text_fields_item:
  assumes "required_text_fields row fs allow = Some kvs" and "distinct (map (fst \<circ> snd) fs)"
  shows "map fst kvs = map (fst \<circ> snd) fs" and
    "\<And>source k n. (source, k, n) \<in> set fs \<Longrightarrow> \<exists>s. item k kvs = PStr s \<and> text_ok n s \<and> (k \<notin> set allow \<longrightarrow> filled_ok n s)"
proof -
  have "map fst kvs = map (fst \<circ> snd) fs \<and> (\<forall>source k n. (source, k, n) \<in> set fs \<longrightarrow>
      (\<exists>s. (k, PStr s) \<in> set kvs \<and> text_ok n s \<and> (k \<notin> set allow \<longrightarrow> filled_ok n s)))"
    using assms(1)
  proof (induction fs arbitrary: kvs)
    case (Cons f fs)
    obtain src k0 n0 where f: "f = (src, k0, n0)" by (cases f)
    from Cons.prems f obtain s rest where s: "text_ok n0 s" "k0 \<notin> set allow \<longrightarrow> filled_ok n0 s"
      and rest: "required_text_fields row fs allow = Some rest" and kvs: "kvs = (k0, PStr s) # rest"
      by (auto simp: text_ok_def filled_ok_def not_less split: pyval.splits if_splits)
    from Cons.IH [OF rest] s show ?case unfolding kvs f by fastforce
  qed simp
  moreover have "item k kvs = PStr s" if "(k, PStr s) \<in> set kvs" "map fst kvs = map (fst \<circ> snd) fs" for k s
    using that assms(2) by (simp add: item_def map_of_is_SomeI)
  ultimately show "map fst kvs = map (fst \<circ> snd) fs" and
    "\<And>source k n. (source, k, n) \<in> set fs \<Longrightarrow> \<exists>s. item k kvs = PStr s \<and> text_ok n s \<and> (k \<notin> set allow \<longrightarrow> filled_ok n s)"
    by blast+
qed

lemma container_row_valid:
  assumes "required_text_fields row container_fields [''ports''] = Some kvs"
  shows "\<exists>c. \<forall>i. read_container i (PDict kvs) = Inr c"
proof -
  have d: "distinct (map (fst \<circ> snd) container_fields)" by (simp add: container_fields_def)
  note r = required_text_fields_item [OF assms d]
  have "set (map fst kvs) = set [''name'', ''image'', ''status'', ''ports'', ''size'']"
    unfolding r(1) by (simp add: container_fields_def)
  then have "require_exact_dict [''name'', ''image'', ''status'', ''ports'', ''size''] label (PDict kvs) = Inr kvs" for label
    by (simp add: require_exact_dict_def)
  then show ?thesis
    using r(2) [of "''Names''" "''name''" 256] r(2) [of "''Image''" "''image''" 512] r(2) [of "''Status''" "''status''" 256]
      r(2) [of "''Ports''" "''ports''" 1024] r(2) [of "''Size''" "''size''" 128]
    by (auto simp: container_fields_def read_container_def passes)
qed

lemma storage_row_valid:
  assumes "required_text_fields row storage_fields [] = Some kvs"
  shows "\<exists>c. \<forall>i. read_storage i (PDict kvs) = Inr c"
proof -
  have d: "distinct (map (fst \<circ> snd) storage_fields)" by (simp add: storage_fields_def)
  note r = required_text_fields_item [OF assms d]
  have "set (map fst kvs) = set [''type'', ''total_count'', ''active'', ''size'', ''reclaimable'']"
    unfolding r(1) by (simp add: storage_fields_def)
  then have "require_exact_dict [''type'', ''total_count'', ''active'', ''size'', ''reclaimable''] label (PDict kvs) = Inr kvs" for label
    by (simp add: require_exact_dict_def)
  then show ?thesis
    using r(2) [of "''Type''" "''type''" 128] r(2) [of "''TotalCount''" "''total_count''" 64] r(2) [of "''Active''" "''active''" 64]
      r(2) [of "''Size''" "''size''" 128] r(2) [of "''Reclaimable''" "''reclaimable''" 128]
    by (auto simp: storage_fields_def read_storage_def passes)
qed

lemma check_each_all:
  assumes "\<And>x. x \<in> set xs \<Longrightarrow> \<exists>y. \<forall>i. f i x = Inr y"
  shows "\<exists>ys. check_each f i xs = Inr ys \<and> length ys = length xs"
  using assms
proof (induction xs arbitrary: i)
  case (Cons x xs)
  obtain y where "\<forall>i. f i x = Inr y" using Cons.prems [of x] by auto
  moreover from Cons obtain ys where "check_each f (Suc i) xs = Inr ys" "length ys = length xs" by fastforce
  ultimately show ?case by simp
qed simp

lemma length_map_filter: "length (List.map_filter f xs) \<le> length xs"
  by (simp add: List.map_filter_def)

text \<open>The rows of a table, as the validator reads them.\<close>

lemma normalized_rows_valid:
  assumes "normalized_rows fs allow rows = (ns, ok)" and "length rows \<le> limit"
    and "\<And>row kvs. required_text_fields row fs allow = Some kvs \<Longrightarrow> \<exists>y. \<forall>i. read i (PDict kvs) = Inr y"
  shows "\<exists>ys. read_rows label limit read (PList ns) = Inr ys \<and> (ys = [] \<longleftrightarrow> ns = [])"
proof -
  have ns: "ns = map PDict (List.map_filter (\<lambda>row. required_text_fields row fs allow) rows)"
    using assms(1) by (simp add: normalized_rows_def)
  then have "length ns \<le> limit"
    using assms(2) length_map_filter [of "\<lambda>row. required_text_fields row fs allow" rows] by simp
  moreover have "\<exists>y. \<forall>i. read i n = Inr y" if "n \<in> set ns" for n
  proof -
    from that obtain kvs row where "n = PDict kvs" "required_text_fields row fs allow = Some kvs"
      by (auto simp: ns List.map_filter_def)
    then show ?thesis using assms(3) by simp
  qed
  then obtain ys where "check_each read 0 ns = Inr ys" "length ys = length ns"
    using check_each_all [of ns read 0] by blast
  ultimately show ?thesis by (auto simp: read_rows_def)
qed

lemma json_rows_length: "json_rows repr ls = Inr (rows, whole) \<Longrightarrow> length rows \<le> length ls"
  by (induction repr ls arbitrary: rows whole rule: json_rows.induct)
    (fastforce simp: check_simps split: sum.splits json_load_error.splits pyval.splits)+

lemma safe_json_lines_length: "safe_json_lines repr s limit = Inr (rows, whole) \<Longrightarrow> length rows \<le> limit"
  by (auto simp: safe_json_lines_def Let_def check_simps dest!: json_rows_length)

lemma docker_table_valid:
  assumes "\<And>row kvs. required_text_fields row fs allow = Some kvs \<Longrightarrow> \<exists>y. \<forall>i. read i (PDict kvs) = Inr y"
  shows "wp (docker_table repr env argv limit fs allow)
    (\<lambda>(ns, ok) _. \<exists>ys. read_rows label limit read (PList ns) = Inr ys \<and> (ys = [] \<longleftrightarrow> ns = [])) (\<lambda>_ _. True) w"
proof -
  have none: "\<exists>ys. read_rows label limit read (PList []) = Inr ys \<and> ys = []"
    by (simp add: read_rows_def)
  have rows: "\<exists>ys. read_rows label limit read (PList ns) = Inr ys \<and> (ys = [] \<longleftrightarrow> ns = [])"
    if "safe_json_lines repr out limit = Inr (rows, whole)" and "normalized_rows fs allow rows = (ns, normal)" for out rows whole ns normal
    using normalized_rows_valid [where read = read and label = label, OF that(2) safe_json_lines_length [OF that(1)]] assms by blast
  show ?thesis
    unfolding docker_table_def
    by (rule wpI) (auto simp: handle_def bind_def ret_def raise_def none split: prod.splits sum.splits if_splits intro: rows)
qed

definition docker_valid :: "pyval \<Rightarrow> bool" where
  "docker_valid v \<longleftrightarrow>
     (\<exists>kvs d. require_exact_dict [''cli_present'', ''access_status'', ''server_version'', ''containers'', ''storage''] ''docker'' v = Inr kvs \<and>
        read_docker kvs = Inr d \<and> check_docker d = Inr ())"

lemma docker_payload_valid:
  assumes "read_rows ''docker containers'' 100 read_container (PList containers) = Inr cs"
    and "read_rows ''docker storage'' 16 read_storage (PList storage) = Inr ss" and "ss = [] \<longleftrightarrow> storage = []"
    and "\<And>v. version = Some v \<Longrightarrow> filled_ok 128 v"
    and "status = ''not_installed'' \<and> \<not> cli \<and> version = None \<and> cs = [] \<and> ss = [] \<or>
      status = ''denied_or_unreachable'' \<and> cli \<and> version = None \<and> cs = [] \<and> ss = [] \<or>
      status = ''ok'' \<and> cli \<and> version \<noteq> None \<and> storage \<noteq> [] \<or> status = ''partial_failure'' \<and> cli"
  shows "docker_valid (docker_payload cli status version containers storage)"
proof -
  let ?kvs = "[(''cli_present'', PBool cli), (''access_status'', PStr status),
      (''server_version'', case version of None \<Rightarrow> PNone | Some v \<Rightarrow> PStr v), (''containers'', PList containers), (''storage'', PList storage)]"
  let ?d = "\<lparr>dk_cli_present = cli, dk_access_status = status, dk_server_version = version, dk_containers = cs, dk_storage = ss\<rparr>"
  have "read_version (item ''server_version'' ?kvs) = Inr version"
    using assms(4) by (auto simp: item_def read_version_def passes split: option.splits)
  moreover have "status \<in> set access_statuses" "text_ok 64 status"
    using assms(5) by (auto simp: access_statuses_def text_ok_def str_len_def)
  ultimately have "read_docker ?kvs = Inr ?d"
    using assms(1,2) by (simp add: read_docker_def item_def passes)
  moreover have "check_docker ?d = Inr ()"
    using assms(3,5) by (auto simp: check_docker_def)
  ultimately show ?thesis
    unfolding docker_valid_def docker_payload_def by (intro exI [of _ ?kvs] exI [of _ ?d]) (simp add: require_exact_dict_def)
qed

lemma no_rows [simp]: "read_rows label limit read (PList []) = Inr []"
  by (simp add: read_rows_def)

lemma leading_space_prefix: "prefix p s \<Longrightarrow> leading_space p \<noteq> 0 \<Longrightarrow> leading_space s \<noteq> 0"
  by (cases p; cases "tl p"; cases "tl (tl p)")
    (auto simp: prefix_def simp del: ascii_space.simps space2.simps space3.simps split: if_splits list.splits)

text \<open>A space at the end of a text is one at the front of the bytes it takes.\<close>

lemma trailing_space_leading:
  "trailing_space t \<noteq> 0 \<Longrightarrow> leading_space (rev (take (trailing_space t) t)) \<noteq> 0"
  by (cases t; cases "tl t"; cases "tl (tl t)")
    (auto simp del: ascii_space.simps space2.simps space3.simps split: if_splits)

lemma all_trailing:
  "drop_spaces trailing_space t = [] \<Longrightarrow> t \<noteq> [] \<Longrightarrow> leading_space (rev t) \<noteq> 0"
proof (induction t rule: length_induct)
  case (1 t)
  define k where "k = trailing_space t"
  from 1 have k: "k \<noteq> 0" and rest: "drop_spaces trailing_space (drop k t) = []"
    by (auto simp: drop_spaces.simps [of _ t] k_def split: if_splits)
  show ?case
  proof (cases "drop k t = []")
    case True
    then have "take k t = t" by simp
    then show ?thesis using trailing_space_leading [of t] k by (simp add: k_def)
  next
    case False
    moreover have "length (drop k t) < length t" using k 1(3) by simp
    ultimately have "leading_space (rev (drop k t)) \<noteq> 0" using 1(1) rest by blast
    moreover have "prefix (rev (drop k t)) (rev t)" by (simp add: suffix_drop suffix_to_prefix [symmetric])
    ultimately show ?thesis using leading_space_prefix by blast
  qed
qed

lemma drop_spaces_rest: "f (drop_spaces f s) = 0 \<or> drop_spaces f s = []"
  by (induction f s rule: drop_spaces.induct) (subst (1 2) drop_spaces.simps, auto)

lemma strip_leading: "leading_space (strip s) = 0"
proof -
  let ?d = "drop_spaces leading_space s"
  have "leading_space ?d = 0" using drop_spaces_rest [of leading_space s] by auto
  moreover have "prefix (strip s) ?d"
    using drop_spaces_suffix [of trailing_space "rev ?d"] by (simp add: strip_def suffix_to_prefix)
  ultimately show ?thesis using leading_space_prefix by blast
qed

lemma not_blank: "leading_space p = 0 \<Longrightarrow> p \<noteq> [] \<Longrightarrow> \<not> blank p"
  using all_trailing [of "rev p"] by (auto simp: blank_def strip_def drop_spaces.simps [of leading_space p])

lemma str_take_prefix: "prefix (str_take n s) s"
  by (induction n s rule: str_take.induct) (auto split: nat.splits)

lemma server_version_ok:
  assumes "str_take 128 (strip out) \<noteq> []"
  shows "filled_ok 128 (str_take 128 (strip out))"
proof -
  have "leading_space (str_take 128 (strip out)) = 0"
    using leading_space_prefix [OF str_take_prefix] strip_leading by blast
  then show ?thesis using assms not_blank str_take_len by (simp add: filled_ok_def)
qed

lemma wp_any:
  assumes "\<And>a t. Q a t" and "\<And>e t. E e t"
  shows "wp m Q E s"
  using assms by (auto simp: wp_def split: prod.splits sum.splits)

lemma docker_tables_valid:
  fixes env :: "'w host_env"
  assumes "\<And>v. version = Some v \<Longrightarrow> filled_ok 128 v"
  shows "wp (docker_tables repr env docker version) (\<lambda>v _. docker_valid v) (\<lambda>_ _. True) w"
proof -
  note containers = docker_table_valid [where read = read_container and label = "''docker containers''", OF container_row_valid]
  note storage = docker_table_valid [where read = read_storage and label = "''docker storage''", OF storage_row_valid]
  let ?status = "\<lambda>c_ok s_ok ns. if version \<noteq> None \<and> c_ok \<and> s_ok \<and> ns \<noteq> [] then ''ok'' else ''partial_failure''"
  have final: "docker_valid (docker_payload True (?status c_ok s_ok ns) version cs ns)"
    if "read_rows ''docker containers'' 100 read_container (PList cs) = Inr ys"
      and "read_rows ''docker storage'' 16 read_storage (PList ns) = Inr zs" and "zs = [] \<longleftrightarrow> ns = []" for c_ok s_ok ns cs ys zs
    by (rule docker_payload_valid [OF that]) (use assms in auto)
  have tables: "wp (docker_table repr env [docker, ''system'', ''df'', ''--format'', ''{{json .}}''] 16 storage_fields [])
      (\<lambda>(ns, s_ok) _. docker_valid (docker_payload True (?status b s_ok ns) version cs ns)) (\<lambda>_ _. True) v"
    if "read_rows ''docker containers'' 100 read_container (PList cs) = Inr ys" for cs ys b v
    by (rule wp_mono [OF storage]) (use final [OF that] in blast)+
  show ?thesis
    unfolding docker_tables_def wp_bind
  proof (rule wp_mono [OF containers])
    fix a :: "pyval list \<times> bool" and t :: 'w
    assume rows: "(case a of (ns, ok) \<Rightarrow> \<lambda>_. \<exists>ys. read_rows ''docker containers'' 100 read_container (PList ns) = Inr ys \<and>
      (ys = [] \<longleftrightarrow> ns = [])) t"
    obtain cs c_ok where a: "a = (cs, c_ok)" by (cases a)
    with rows obtain ys where ys: "read_rows ''docker containers'' 100 read_container (PList cs) = Inr ys" by auto
    show "wp (case a of (containers, c_ok) \<Rightarrow>
          bind (docker_table repr env [docker, ''system'', ''df'', ''--format'', ''{{json .}}''] 16 storage_fields []) (\<lambda>(storage, s_ok).
          ret (docker_payload True (?status c_ok s_ok storage) version containers storage)))
        (\<lambda>v _. docker_valid v) (\<lambda>_ _. True) t"
      unfolding a prod.case wp_bind by (rule wp_mono [OF tables [of cs ys c_ok, OF ys]]) (auto simp: wp_simps)
  qed simp
qed

text \<open>Whatever the Docker commands print, and however they fail, the Docker part the collector reports
  passes the validation: the tables are cut to the limits, rows with missing or overlong texts are left
  out, and the status fits what was found.\<close>

theorem collected_docker_is_valid:
  assumes "docker_inventory repr env w = (Inr v, w')"
  shows "docker_valid v"
proof -
  have "wp (docker_inventory repr env) (\<lambda>v _. docker_valid v) (\<lambda>_ _. True) w"
    unfolding docker_inventory_def wp_bind
  proof (rule wp_any)
    fix found v
    have empty: "docker_valid (docker_payload False ''not_installed'' None [] [])"
      "docker_valid (docker_payload True ''denied_or_unreachable'' None [] [])"
      by (rule docker_payload_valid; simp)+
    have answered: "wp (if returncode \<noteq> 0 then ret (docker_payload True ''denied_or_unreachable'' None [] [])
          else let v = str_take 128 (strip out) in docker_tables repr env docker (if v = [] then None else Some v))
        (\<lambda>v _. docker_valid v) (\<lambda>_ _. True) u" for returncode :: int and out docker u
    proof -
      have "wp (docker_tables repr env docker None) (\<lambda>v _. docker_valid v) (\<lambda>_ _. True) u"
        by (rule docker_tables_valid) simp
      moreover have "wp (docker_tables repr env docker (Some (str_take 128 (strip out)))) (\<lambda>v _. docker_valid v) (\<lambda>_ _. True) u"
        if "str_take 128 (strip out) \<noteq> []"
        by (rule docker_tables_valid) (use server_version_ok [OF that] in simp)
      ultimately show ?thesis by (simp add: wp_simps empty Let_def)
    qed
    show "wp (case found of None \<Rightarrow> ret (docker_payload False ''not_installed'' None [] [])
        | Some docker \<Rightarrow>
            bind (handle (bind (he_run env [docker, ''version'', ''--format'', ''{{.Server.Version}}'']) (\<lambda>r. ret (Some r)))
              (\<lambda>e. if command_failure e then Some (ret None) else None)) (\<lambda>answer.
            case answer of
              None \<Rightarrow> ret (docker_payload True ''denied_or_unreachable'' None [] [])
            | Some (returncode, out) \<Rightarrow>
                if returncode \<noteq> 0 then ret (docker_payload True ''denied_or_unreachable'' None [] [])
                else let v = str_take 128 (strip out) in docker_tables repr env docker (if v = [] then None else Some v)))
        (\<lambda>v _. docker_valid v) (\<lambda>_ _. True) v"
    proof (cases found)
      case (Some docker)
      show ?thesis
        unfolding Some option.case wp_bind
        by (rule wp_any) (use empty answered in \<open>auto simp: wp_simps split: option.splits\<close>)
    qed (simp add: wp_simps empty)
  qed simp
  with assms show ?thesis by (simp add: wp_def)
qed

text \<open>What the inventory program prints is the text of a sane inventory, and when that text is ASCII
  the dispatcher that reads it gets exactly this inventory.\<close>

theorem collected_inventory_is_accepted:
  assumes "inventory_main repr env w = (Inr out, w')"
  shows "\<exists>i. inventory_ok i \<and> dumps_line (inventory_dict i) = Inr out \<and>
    (plain repr (inventory_dict i) \<and> ascii_floats (inventory_dict i) \<longrightarrow>
     structured_result repr (Some ''system_inventory'') out = Inr (Some i))"
proof -
  have collected: "wp (collect_inventory repr env) (\<lambda>i _. inventory_ok i) (\<lambda>_ _. True) w"
  proof (rule wpI)
    fix i t
    assume "collect_inventory repr env w = (Inr i, t)"
    then obtain v where "validate_inventory_payload repr v = Inr i"
      by (auto simp: collect_inventory_def bind_def value_error_def raise_def ret_def split: prod.splits sum.splits option.splits if_splits)
    then show "inventory_ok i" by (rule validated_ok)
  qed simp
  obtain i t where i: "collect_inventory repr env w = (Inr i, t)" and out: "dumps_line (inventory_dict i) = Inr out"
    using assms by (auto simp: inventory_main_def bind_def lift_def split: prod.splits sum.splits)
  have ok: "inventory_ok i" by (rule wp_returned [OF collected i])
  moreover have "structured_result repr (Some ''system_inventory'') out = Inr (Some i)"
    if "plain repr (inventory_dict i)" "ascii_floats (inventory_dict i)"
    using line_read [OF out that] text_view.validate_view [OF ok] by (simp add: structured_result_def)
  ultimately show ?thesis using out by blast
qed

section \<open>Witnesses\<close>

definition a_host :: "unit host_env" where
  "a_host =
     \<lparr>he_loadavg = ret (''0.5'', ''0.5'', ''0.5''), he_cpu_count = ret (Some 2), he_disk_usage = ret (8, 5, 3),
      he_hostname = ret ''h1'',
      he_meminfo = ret (Some (''MemTotal: 8 kB'' @ CHR 0x0A # ''MemAvailable: 4 kB'' @ CHR 0x0A #
        ''SwapTotal: 0 kB'' @ CHR 0x0A # ''SwapFree: 0 kB'')),
      he_which = (\<lambda>name. ret None), he_run = (\<lambda>argv. raise OSError)\<rparr>"

theorem collected_docker_is_valid_witness:
  "docker_valid (docker_payload True ''denied_or_unreachable'' None [] [])"
  by (rule collected_docker_is_valid [of half "a_host\<lparr>he_which := (\<lambda>name. ret (Some ''/usr/bin/docker''))\<rparr>" "()" _ "()"])
    (simp add: docker_inventory_def a_host_def bind_def handle_def ret_def raise_def)

definition a_collected_inventory :: Inventory where
  "a_collected_inventory =
     an_inventory\<lparr>iv_memory := \<lparr>me_total = 8192, me_available = 4096, me_swap_total = 0, me_swap_free = 0\<rparr>,
       iv_docker := \<lparr>dk_cli_present = False, dk_access_status = ''not_installed'', dk_server_version = None,
         dk_containers = [], dk_storage = []\<rparr>\<rparr>"

lemma a_host_memory:
  "read_meminfo (Some (''MemTotal: 8 kB'' @ CHR 0x0A # ''MemAvailable: 4 kB'' @ CHR 0x0A #
     ''SwapTotal: 0 kB'' @ CHR 0x0A # ''SwapFree: 0 kB'')) =
   Inr (memory_dict \<lparr>me_total = 8192, me_available = 4096, me_swap_total = 0, me_swap_free = 0\<rparr>)"
proof -
  have fields: "meminfo_field ''MemTotal'' '' 8 kB'' = Inr 8192" "meminfo_field ''MemAvailable'' '' 4 kB'' = Inr 4096"
    "meminfo_field ''SwapTotal'' '' 0 kB'' = Inr 0" "meminfo_field ''SwapFree'' '' 0 kB'' = Inr 0"
    by code_simp+
  have lines: "splitlines (''MemTotal: 8 kB'' @ CHR 0x0A # ''MemAvailable: 4 kB'' @ CHR 0x0A #
      ''SwapTotal: 0 kB'' @ CHR 0x0A # ''SwapFree: 0 kB'') =
      [''MemTotal: 8 kB'', ''MemAvailable: 4 kB'', ''SwapTotal: 0 kB'', ''SwapFree: 0 kB'']"
    by code_simp
  show ?thesis
    unfolding read_meminfo_def option.case lines
    by (simp add: meminfo_wanted_def partition_colon_def fields meminfo_get_def memory_dict_def)
qed

lemma a_collected_inventory_ok: "inventory_ok a_collected_inventory"
  using an_inventory_ok
  by (simp add: a_collected_inventory_def inventory_ok_def memory_ok_def docker_ok_def an_inventory_def)

lemma a_collected_inventory_encodes: "encodes True True (inventory_dict a_collected_inventory)"
proof -
  have ints: "list_all (encodes True True)
      [PInt 0, PInt 1, PInt 2, PInt 3, PInt 5, PInt 8, PInt 4096, PInt 8192, PFloat (Finite ''0.5'')]"
    by (simp add: encodes_def json_int_def int_str_def nat_str.simps)
  moreover have "encodes True True (PList [])" by (simp add: encodes_def)
  ultimately show ?thesis
    by (simp add: a_collected_inventory_def an_inventory_def inventory_dict_def host_dict_def memory_dict_def
        filesystem_dict_def docker_dict_def encodes_dict_iff)
qed

lemma a_host_collected: "collect_inventory half a_host () = (Inr a_collected_inventory, ())"
proof -
  have payload: "PDict
      [(''schema_version'', PInt 1),
       (''host'', PDict
         [(''hostname'', PStr ''h1''), (''cpu_logical'', PInt 2), (''load_1m'', PFloat (Finite ''0.5'')),
          (''load_5m'', PFloat (Finite ''0.5'')), (''load_15m'', PFloat (Finite ''0.5''))]),
       (''memory'', memory_dict \<lparr>me_total = 8192, me_available = 4096, me_swap_total = 0, me_swap_free = 0\<rparr>),
       (''root_filesystem'', PDict
         [(''total_bytes'', PInt 8), (''used_bytes'', PInt 5), (''free_bytes'', PInt 3)]),
       (''docker'', docker_payload False ''not_installed'' None [] [])] = inventory_dict a_collected_inventory"
    by (simp add: a_collected_inventory_def an_inventory_def inventory_dict_def host_dict_def filesystem_dict_def
        docker_dict_def docker_payload_def)
  have name: "str_take 255 ''h1'' = ''h1''"
    by (rule str_take_all) (simp add: str_len_def)
  have docker: "docker_inventory half a_host = ret (docker_payload False ''not_installed'' None [] [])"
    by (simp add: docker_inventory_def a_host_def bind_def ret_def fun_eq_iff)
  have valid: "validate_inventory_payload half (inventory_dict a_collected_inventory) = Inr a_collected_inventory"
    using plain_view.validate_view [OF a_collected_inventory_ok] by simp
  show ?thesis
    unfolding collect_inventory_def docker
    by (simp add: a_host_def a_host_memory [simplified] bind_def handle_def ret_def value_error_def name payload valid)
qed

theorem collected_inventory_is_accepted_witness:
  "\<exists>out i. inventory_main half a_host () = (Inr out, ()) \<and> inventory_ok i \<and> dumps_line (inventory_dict i) = Inr out"
proof -
  obtain out where "dumps_line (inventory_dict a_collected_inventory) = Inr out"
    using a_collected_inventory_encodes by (auto simp: encodes_def dumps_line_def)
  then have run: "inventory_main half a_host () = (Inr out, ())"
    by (simp add: inventory_main_def a_host_collected bind_def lift_def)
  from collected_inventory_is_accepted [OF run] run show ?thesis by blast
qed

end
