(* ===== verification/Py_Sort.thy ===== *)
theory Py_Sort
  imports Py_Json "HOL-Library.Multiset"
begin

text \<open>
  \<open>sorted\<close> of strings and by a key, and sets of strings as the lists of their elements, with what
  the components use of them.
\<close>

section \<open>Sorting and sets\<close>

text \<open>\<open>sorted\<close> of strings, and a set of strings as the list of its elements.\<close>

definition sort_strings :: "string list \<Rightarrow> string list" where
  "sort_strings xs = map fst (sort_items (map (\<lambda>x. (x, ())) xs))"

fun set_add :: "'a \<Rightarrow> 'a list \<Rightarrow> 'a list" where
  "set_add x xs = (if x \<in> set xs then xs else xs @ [x])"

definition set_of :: "'a list \<Rightarrow> 'a list" where
  "set_of xs = fold set_add xs []"

text \<open>\<open>sorted(xs, key=...)\<close> for the order \<open>le\<close> of the keys, which keeps equal ones in place.\<close>

fun insert_by :: "('a \<Rightarrow> 'a \<Rightarrow> bool) \<Rightarrow> 'a \<Rightarrow> 'a list \<Rightarrow> 'a list" where
  "insert_by le x [] = [x]"
| "insert_by le x (y # ys) = (if le x y then x # y # ys else y # insert_by le x ys)"

definition sort_by :: "('a \<Rightarrow> 'a \<Rightarrow> bool) \<Rightarrow> 'a list \<Rightarrow> 'a list" where
  "sort_by le xs = foldr (insert_by le) xs []"

section \<open>Their elements and their order\<close>

lemma set_insert_item [simp]: "set (insert_item x xs) = insert x (set xs)"
  by (induction xs) auto

lemma set_sort_strings [simp]: "set (sort_strings xs) = set xs"
  by (simp add: sort_strings_def image_image)

lemma set_set_add [simp]: "set (set_add x xs) = insert x (set xs)"
  by auto

declare set_add.simps [simp del]

lemma set_fold_set_add [simp]: "set (fold set_add xs ys) = set xs \<union> set ys"
  by (induction xs arbitrary: ys) auto

lemma set_set_of [simp]: "set (set_of xs) = set xs"
  by (simp add: set_of_def)

lemma sorted_wrt_insert_item:
  assumes "\<And>x y. P x y \<Longrightarrow> P y x"
  shows "sorted_wrt P (insert_item x xs) = sorted_wrt P (x # xs)"
  by (induction xs) (auto intro: assms)

lemma sorted_wrt_sort_items:
  assumes "\<And>x y. P x y \<Longrightarrow> P y x"
  shows "sorted_wrt P (sort_items xs) = sorted_wrt P xs"
proof (induction xs)
  case (Cons x xs)
  have "sorted_wrt P (sort_items (x # xs)) = sorted_wrt P (insert_item x (sort_items xs))"
    by (simp add: sort_items_def)
  also have "\<dots> = sorted_wrt P (x # sort_items xs)" by (rule sorted_wrt_insert_item [OF assms])
  finally show ?case using Cons by simp
qed (simp add: sort_items_def)

lemma mset_insert_by [simp]: "mset (insert_by le x xs) = add_mset x (mset xs)"
  by (induction xs) auto

lemma mset_sort_by [simp]: "mset (sort_by le xs) = mset xs"
  by (induction xs) (simp_all add: sort_by_def)

lemma set_sort_by [simp]: "set (sort_by le xs) = set xs"
  by (metis mset_sort_by set_mset_mset)

lemma set_insert_by [simp]: "set (insert_by le x xs) = insert x (set xs)"
  by (metis mset_insert_by set_mset_add_mset_insert set_mset_mset)

lemma sorted_insert_by:
  assumes total: "\<And>x y. le x y \<or> le y x" and trans: "\<And>x y z. le x y \<Longrightarrow> le y z \<Longrightarrow> le x z"
  shows "sorted_wrt le xs \<Longrightarrow> sorted_wrt le (insert_by le x xs)"
proof (induction xs)
  case (Cons a xs)
  then show ?case using total [of x a] by (auto intro: trans)
qed simp

lemma sorted_sort_by:
  assumes "\<And>x y. le x y \<or> le y x" and "\<And>x y z. le x y \<Longrightarrow> le y z \<Longrightarrow> le x z"
  shows "sorted_wrt le (sort_by le xs)"
  by (induction xs) (simp_all add: sort_by_def sorted_insert_by [OF assms])

end
