(* ===== verification/Sot_Model.thy ===== *)
theory Sot_Model
  imports Complex_Main Py_Sort
begin

text \<open>
  The read-only source-of-truth reconciler (\<open>orchestration/contracts.py\<close> and
  \<open>orchestration/sot.py\<close>): the facts that sources report, the four nodes of the graph and their
  order. A dictionary is the list of its items in insertion order. A node is the function from the
  state to the state with its updates merged. The library that runs a graph is third-party code:
  it is the parameter \<open>invoke\<close> of the locale \<open>langgraph\<close>, of which the code uses that the nodes run
  along the edges from \<open>START\<close> to \<open>END\<close>, each on the state the nodes before it left.
\<close>

section \<open>Facts\<close>

text \<open>\<open>Scalar\<close>. A finite float is the rational it stands for; \<open>SInf True\<close> is \<open>inf\<close>. Equality is
  Python's: \<open>1 == 1.0 == True\<close>, and \<open>nan\<close> differs from everything.\<close>

datatype scalar =
    SStr string
  | SInt int
  | SFloat rat
  | SInf bool
  | SNan
  | SBool bool
  | SNone

fun scalar_num :: "scalar \<Rightarrow> rat option" where
  "scalar_num (SInt i) = Some (of_int i)"
| "scalar_num (SFloat q) = Some q"
| "scalar_num (SBool b) = Some (if b then 1 else 0)"
| "scalar_num _ = None"

fun py_eq :: "scalar \<Rightarrow> scalar \<Rightarrow> bool" where
  "py_eq (SStr s) (SStr t) = (s = t)"
| "py_eq SNone SNone = True"
| "py_eq (SInf a) (SInf b) = (a = b)"
| "py_eq x y =
     (case scalar_num x of
        None \<Rightarrow> False
      | Some a \<Rightarrow> (case scalar_num y of None \<Rightarrow> False | Some b \<Rightarrow> a = b))"

lemma py_eq_sym: "py_eq x y = py_eq y x"
  by (cases x; cases y) (auto split: option.splits)

lemma py_eq_trans: "py_eq x y \<Longrightarrow> py_eq y z \<Longrightarrow> py_eq x z"
  by (cases x; cases y; cases z) (auto split: if_splits)

lemma py_eq_refl: "x \<noteq> SNan \<Longrightarrow> py_eq x x"
  by (cases x) auto

type_synonym facts = "(string \<times> scalar) list"

record SourceSnapshot =
  source_id :: string
  authority :: string
  facts :: facts

datatype remediation_state = OPEN | CLOSED

record Remediation =
  re_id :: string
  re_state :: remediation_state
  target_keys :: "string list"

datatype finding_kind = FDrift | FConflict | FUnknown

record Finding =
  fi_kind :: finding_kind
  fi_key :: string
  fi_expected :: "scalar option"
  fi_observed :: "scalar option"
  fi_sources :: "string list"

datatype SOTStatus = CURRENT | DRIFT | CONFLICT | UNKNOWN

datatype RemediationDisposition = NONE | EXISTING | PROPOSE

datatype Recommendation =
    NO_ACTION
  | OBSERVE_EXISTING_REMEDIATION
  | PROPOSE_REMEDIATION
  | ESCALATE_AUTHORITY_CONFLICT
  | REQUEST_MORE_EVIDENCE

record ReconciliationState =
  rs_sources :: "SourceSnapshot list"
  rs_remediations :: "Remediation list"
  rs_canonical_facts :: "facts option"
  rs_findings :: "Finding list option"
  rs_status :: "SOTStatus option"
  rs_disposition :: "RemediationDisposition option"
  rs_remediation_ids :: "string list option"
  rs_recommendation :: "Recommendation option"

text \<open>\<open>state.get(key, default)\<close>\<close>

fun get_or :: "'a \<Rightarrow> 'a option \<Rightarrow> 'a" where
  "get_or d None = d"
| "get_or d (Some x) = x"

section \<open>The nodes\<close>

text \<open>\<open>_resolve_authority\<close>. The state of its loop is \<open>canonical_facts\<close>, \<open>canonical_owner\<close> and
  \<open>conflicts\<close>.\<close>

type_synonym resolved = "facts \<times> (string \<times> string) list \<times> Finding list"

fun resolve_fact :: "string \<Rightarrow> string \<times> scalar \<Rightarrow> resolved \<Rightarrow> resolved" where
  "resolve_fact sid (k, v) (known, owner, conflicts) =
     (case map_of known k of
        None \<Rightarrow> (known @ [(k, v)], owner @ [(k, sid)], conflicts)
      | Some expected \<Rightarrow>
          if \<not> py_eq expected v
          then (known, owner, conflicts @
            [\<lparr>fi_kind = FConflict, fi_key = k, fi_expected = Some expected, fi_observed = Some v,
              fi_sources = [the (map_of owner k), sid]\<rparr>])
          else (known, owner, conflicts))"

definition resolve_source :: "SourceSnapshot \<Rightarrow> resolved \<Rightarrow> resolved" where
  "resolve_source src = fold (resolve_fact (source_id src)) (sort_items (facts src))"

definition canonical_sources :: "SourceSnapshot list \<Rightarrow> SourceSnapshot list" where
  "canonical_sources srcs = filter (\<lambda>src. authority src = ''CANONICAL'') srcs"

definition resolve_authority :: "ReconciliationState \<Rightarrow> ReconciliationState" where
  "resolve_authority st =
     (if canonical_sources (rs_sources st) = []
      then st\<lparr>rs_canonical_facts := Some [], rs_status := Some UNKNOWN,
        rs_findings := Some
          [\<lparr>fi_kind = FUnknown, fi_key = ''*'', fi_expected = None, fi_observed = None,
            fi_sources = []\<rparr>]\<rparr>
      else case fold resolve_source (canonical_sources (rs_sources st)) ([], [], []) of
        (known, owner, conflicts) \<Rightarrow>
          if conflicts \<noteq> []
          then st\<lparr>rs_canonical_facts := Some known, rs_status := Some CONFLICT,
            rs_findings := Some conflicts\<rparr>
          else st\<lparr>rs_canonical_facts := Some known, rs_status := Some CURRENT,
            rs_findings := Some []\<rparr>)"

text \<open>\<open>_compare_observations\<close>\<close>

definition drift_of :: "facts \<Rightarrow> string \<Rightarrow> string \<times> scalar \<Rightarrow> Finding list" where
  "drift_of known sid item =
     (case item of (k, observed) \<Rightarrow>
        case map_of known k of
          None \<Rightarrow> []
        | Some expected \<Rightarrow>
            if \<not> py_eq observed expected
            then [\<lparr>fi_kind = FDrift, fi_key = k, fi_expected = Some expected,
                   fi_observed = Some observed, fi_sources = [sid]\<rparr>]
            else [])"

definition source_drift :: "facts \<Rightarrow> SourceSnapshot \<Rightarrow> Finding list" where
  "source_drift known src =
     (if authority src = ''CANONICAL'' then []
      else concat (map (drift_of known (source_id src)) (sort_items (facts src))))"

definition compare_observations :: "ReconciliationState \<Rightarrow> ReconciliationState" where
  "compare_observations st =
     (if rs_status st \<noteq> Some CURRENT then st
      else
        let drift = concat (map (source_drift (get_or [] (rs_canonical_facts st))) (rs_sources st))
        in st\<lparr>rs_status := Some (if drift \<noteq> [] then DRIFT else CURRENT),
             rs_findings := Some drift\<rparr>)"

text \<open>\<open>_detect_existing_remediation\<close>: the state of the loop is \<open>covered_keys\<close> and
  \<open>remediation_ids\<close>.\<close>

definition cover :: "string list \<Rightarrow> Remediation \<Rightarrow> string list \<times> string list \<Rightarrow> string list \<times> string list" where
  "cover drift_keys r acc =
     (if re_state r \<noteq> OPEN then acc
      else if set drift_keys \<inter> set (target_keys r) \<noteq> {}
        then (fold set_add (target_keys r) (fst acc), snd acc @ [re_id r])
      else acc)"

definition detect_existing_remediation :: "ReconciliationState \<Rightarrow> ReconciliationState" where
  "detect_existing_remediation st =
     (if rs_status st \<noteq> Some DRIFT
      then st\<lparr>rs_disposition := Some NONE, rs_remediation_ids := Some []\<rparr>
      else
        let drift_keys = set_of (map fi_key
              (filter (\<lambda>f. fi_kind f = FDrift) (get_or [] (rs_findings st))));
            (covered, ids) = fold (cover drift_keys) (rs_remediations st) ([], [])
        in if drift_keys \<noteq> [] \<and> set drift_keys \<subseteq> set covered
           then st\<lparr>rs_disposition := Some EXISTING, rs_remediation_ids := Some (sort_strings ids)\<rparr>
           else st\<lparr>rs_disposition := Some PROPOSE, rs_remediation_ids := Some (sort_strings ids)\<rparr>)"

text \<open>\<open>_finalize\<close>\<close>

definition finalize :: "ReconciliationState \<Rightarrow> ReconciliationState" where
  "finalize st = st\<lparr>rs_recommendation := Some
     (case get_or UNKNOWN (rs_status st) of
        CURRENT \<Rightarrow> NO_ACTION
      | CONFLICT \<Rightarrow> ESCALATE_AUTHORITY_CONFLICT
      | UNKNOWN \<Rightarrow> REQUEST_MORE_EVIDENCE
      | DRIFT \<Rightarrow>
          if rs_disposition st = Some EXISTING then OBSERVE_EXISTING_REMEDIATION
          else PROPOSE_REMEDIATION)\<rparr>"

section \<open>State graphs\<close>

record 's StateGraph =
  sg_nodes :: "(string \<times> ('s \<Rightarrow> 's)) list"
  sg_edges :: "(string \<times> string) list"
  sg_routes :: "(string \<times> ('s \<Rightarrow> string) \<times> (string \<times> string) list) list"

abbreviation START :: string where "START \<equiv> ''__start__''"
abbreviation END :: string where "END \<equiv> ''__end__''"

text \<open>\<open>build_sot_reconciler\<close>\<close>

definition build_sot_reconciler :: "ReconciliationState StateGraph" where
  "build_sot_reconciler =
     \<lparr>sg_nodes =
        [(''resolve_authority'', resolve_authority),
         (''compare_observations'', compare_observations),
         (''detect_existing_remediation'', detect_existing_remediation),
         (''finalize'', finalize)],
      sg_edges =
        [(START, ''resolve_authority''),
         (''resolve_authority'', ''compare_observations''),
         (''compare_observations'', ''detect_existing_remediation''),
         (''detect_existing_remediation'', ''finalize''),
         (''finalize'', END)],
      sg_routes = []\<rparr>"

text \<open>The node after \<open>n\<close>: the target of its edge, or the entry of its table of routes.\<close>

definition next_node :: "'s StateGraph \<Rightarrow> string \<Rightarrow> 's \<Rightarrow> string option" where
  "next_node g n s =
     (case map_of (sg_edges g) n of
        Some m \<Rightarrow> Some m
      | None \<Rightarrow> (case map_of (sg_routes g) n of
          Some (route, table) \<Rightarrow> map_of table (route s)
        | None \<Rightarrow> None))"

text \<open>\<open>graph_path g k n s t\<close>: from node \<open>n\<close> in state \<open>s\<close> the graph ends after \<open>k\<close> nodes in state
  \<open>t\<close>.\<close>

inductive graph_path :: "'s StateGraph \<Rightarrow> nat \<Rightarrow> string \<Rightarrow> 's \<Rightarrow> 's \<Rightarrow> bool" for g where
  path_end: "graph_path g 0 END s s"
| path_node: "n \<noteq> END \<Longrightarrow> map_of (sg_nodes g) n = Some f \<Longrightarrow> next_node g n (f s) = Some m \<Longrightarrow>
    graph_path g k m (f s) t \<Longrightarrow> graph_path g (Suc k) n s t"

text \<open>What the code relies on: a run of fewer than 25 nodes (the default recursion limit) is
  carried out.\<close>

definition follows_graph :: "('s StateGraph \<Rightarrow> 's \<Rightarrow> 's) \<Rightarrow> bool" where
  "follows_graph invoke \<longleftrightarrow>
     (\<forall>g s n k t. next_node g START s = Some n \<longrightarrow> graph_path g k n s t \<longrightarrow> k < 25 \<longrightarrow>
        invoke g s = t)"

locale langgraph =
  fixes invoke :: "'s StateGraph \<Rightarrow> 's \<Rightarrow> 's"
  assumes follows: "follows_graph invoke"

text \<open>A runner of graphs with these laws.\<close>

fun run_nodes :: "nat \<Rightarrow> 's StateGraph \<Rightarrow> string \<Rightarrow> 's \<Rightarrow> 's" where
  "run_nodes 0 g n s = s"
| "run_nodes (Suc k) g n s =
     (if n = END then s
      else case map_of (sg_nodes g) n of
        None \<Rightarrow> s
      | Some f \<Rightarrow> (case next_node g n (f s) of None \<Rightarrow> f s | Some m \<Rightarrow> run_nodes k g m (f s)))"

definition run_graph :: "'s StateGraph \<Rightarrow> 's \<Rightarrow> 's" where
  "run_graph g s = (case next_node g START s of None \<Rightarrow> s | Some n \<Rightarrow> run_nodes 25 g n s)"

lemma run_nodes_path: "graph_path g k n s t \<Longrightarrow> k < fuel \<Longrightarrow> run_nodes fuel g n s = t"
proof (induction arbitrary: fuel rule: graph_path.induct)
  case (path_end s)
  then show ?case by (cases fuel) simp_all
next
  case (path_node n f s m k t)
  then show ?case by (cases fuel) simp_all
qed

lemma run_graph_follows: "follows_graph run_graph"
  unfolding follows_graph_def run_graph_def by (simp add: run_nodes_path)

interpretation runner: langgraph run_graph
  by unfold_locales (rule run_graph_follows)


text \<open>The state that a caller gives the reconciler.\<close>

definition reconcile_input :: "SourceSnapshot list \<Rightarrow> Remediation list \<Rightarrow> ReconciliationState" where
  "reconcile_input srcs rems =
     \<lparr>rs_sources = srcs, rs_remediations = rems, rs_canonical_facts = None, rs_findings = None,
      rs_status = None, rs_disposition = None, rs_remediation_ids = None,
      rs_recommendation = None\<rparr>"

definition reconciled :: "ReconciliationState \<Rightarrow> ReconciliationState" where
  "reconciled st =
     finalize (detect_existing_remediation (compare_observations (resolve_authority st)))"

text \<open>The edges and the nodes of the graph.\<close>

lemma sot_edges [simp]:
  "next_node build_sot_reconciler START st = Some ''resolve_authority''"
  "next_node build_sot_reconciler ''resolve_authority'' st = Some ''compare_observations''"
  "next_node build_sot_reconciler ''compare_observations'' st = Some ''detect_existing_remediation''"
  "next_node build_sot_reconciler ''detect_existing_remediation'' st = Some ''finalize''"
  "next_node build_sot_reconciler ''finalize'' st = Some END"
  by (simp_all add: next_node_def build_sot_reconciler_def)

lemma sot_nodes [simp]:
  "map_of (sg_nodes build_sot_reconciler) ''resolve_authority'' = Some resolve_authority"
  "map_of (sg_nodes build_sot_reconciler) ''compare_observations'' = Some compare_observations"
  "map_of (sg_nodes build_sot_reconciler) ''detect_existing_remediation'' =
     Some detect_existing_remediation"
  "map_of (sg_nodes build_sot_reconciler) ''finalize'' = Some finalize"
  by (simp_all add: build_sot_reconciler_def)

lemma sot_path:
  "graph_path build_sot_reconciler (Suc (Suc (Suc (Suc 0)))) ''resolve_authority'' st (reconciled st)"
  unfolding reconciled_def
  by (rule path_node, simp, rule sot_nodes, rule sot_edges)+ (rule path_end)

context langgraph
begin

lemma invoke_path:
  "next_node g START s = Some n \<Longrightarrow> graph_path g k n s t \<Longrightarrow> k < 25 \<Longrightarrow> invoke g s = t"
  using follows unfolding follows_graph_def by blast

end

text \<open>The reconciler is its four nodes in order.\<close>

lemma invoke_sot:
  assumes "follows_graph invoke"
  shows "invoke build_sot_reconciler st = reconciled st"
  by (rule langgraph.invoke_path [OF langgraph.intro [OF assms] sot_edges(1) sot_path]) simp

end
