(* ===== verification/Sot_Properties.thy ===== *)
theory Sot_Properties
  imports Sot_Model
begin

text \<open>
  What the reconciler promises, without its loops: which statuses and recommendations the facts
  and the known remediations call for, and the proof that the graph answers exactly that.
\<close>

section \<open>The specification\<close>

text \<open>Two claims agree when they are about different keys or give equal values.\<close>

definition agrees :: "string \<times> scalar \<Rightarrow> string \<times> scalar \<Rightarrow> bool" where
  "agrees c d \<longleftrightarrow> (fst c = fst d \<longrightarrow> py_eq (snd c) (snd d))"

lemma agrees_sym: "agrees c d \<Longrightarrow> agrees d c"
  using py_eq_sym unfolding agrees_def by metis

definition canonical_claims :: "SourceSnapshot list \<Rightarrow> facts" where
  "canonical_claims srcs = concat (map facts (canonical_sources srcs))"

definition consistent :: "SourceSnapshot list \<Rightarrow> bool" where
  "consistent srcs \<longleftrightarrow> sorted_wrt agrees (canonical_claims srcs)"

text \<open>The keys on which a source of lower authority differs from a canonical one.\<close>

definition drifted :: "SourceSnapshot list \<Rightarrow> string set" where
  "drifted srcs = fst ` {c. \<exists>s\<in>set srcs. authority s \<noteq> ''CANONICAL'' \<and> c \<in> set (facts s) \<and>
     (\<exists>d\<in>set (canonical_claims srcs). \<not> agrees c d)}"

definition under_remediation :: "Remediation list \<Rightarrow> string set" where
  "under_remediation rems = (\<Union>r\<in>{r \<in> set rems. re_state r = OPEN}. set (target_keys r))"

definition sot_status :: "SourceSnapshot list \<Rightarrow> SOTStatus" where
  "sot_status srcs =
     (if canonical_sources srcs = [] then UNKNOWN
      else if \<not> consistent srcs then CONFLICT
      else if drifted srcs = {} then CURRENT
      else DRIFT)"

definition sot_recommendation :: "SourceSnapshot list \<Rightarrow> Remediation list \<Rightarrow> Recommendation" where
  "sot_recommendation srcs rems =
     (case sot_status srcs of
        CURRENT \<Rightarrow> NO_ACTION
      | CONFLICT \<Rightarrow> ESCALATE_AUTHORITY_CONFLICT
      | UNKNOWN \<Rightarrow> REQUEST_MORE_EVIDENCE
      | DRIFT \<Rightarrow> if drifted srcs \<subseteq> under_remediation rems then OBSERVE_EXISTING_REMEDIATION
                else PROPOSE_REMEDIATION)"

section \<open>Resolving authority\<close>

fun first_wins :: "facts \<Rightarrow> facts \<Rightarrow> bool" where
  "first_wins known [] = True"
| "first_wins known ((k, v) # cs) =
     (case map_of known k of
        None \<Rightarrow> first_wins (known @ [(k, v)]) cs
      | Some e \<Rightarrow> py_eq e v \<and> first_wins known cs)"

lemma first_wins_consistent:
  "distinct (map fst known) \<Longrightarrow> first_wins known cs = sorted_wrt agrees (known @ cs)"
proof (induction known cs rule: first_wins.induct)
  case (1 known)
  then show ?case
    by (induction known) (auto simp: agrees_def)
next
  case (2 known k v cs)
  show ?case
  proof (cases "map_of known k")
    case None
    then have "k \<notin> fst ` set known" by (simp add: map_of_eq_None_iff)
    with "2.prems" None "2.IH"(1) show ?thesis by simp
  next
    case (Some e)
    then have known: "(k, e) \<in> set known" by (rule map_of_SomeD)
    have unique: "e' = e" if "(k, e') \<in> set known" for e'
      using eq_key_imp_eq_value [OF "2.prems" that known] .
    have "sorted_wrt agrees (known @ (k, v) # cs) \<longleftrightarrow>
        py_eq e v \<and> sorted_wrt agrees (known @ cs)" (is "?L \<longleftrightarrow> ?R")
    proof
      assume ?L
      then show ?R using known by (auto simp: sorted_wrt_append agrees_def)
    next
      assume R: ?R
      have "agrees (k, v) d" if "d \<in> set cs" for d
      proof -
        from R known that have "agrees (k, e) d" by (auto simp: sorted_wrt_append)
        then have "k = fst d \<longrightarrow> py_eq e (snd d)" by (simp add: agrees_def)
        moreover from R have "py_eq v e" by (simp add: py_eq_sym [of v e])
        ultimately show ?thesis by (auto simp: agrees_def intro: py_eq_trans)
      qed
      moreover have "agrees c (k, v)" if "c \<in> set known" for c
        using R that unique unfolding agrees_def by (cases c) auto
      ultimately show ?L using R by (auto simp: sorted_wrt_append)
    qed
    with Some "2.prems" "2.IH"(2) show ?thesis by simp
  qed
qed

lemma map_of_known: "map_of (known @ [(k, v)]) = (map_of known)(k \<mapsto> v)" if "map_of known k = None"
  using that by (auto simp: map_add_def fun_eq_iff split: option.splits)

lemma map_of_shadow:
  assumes "map_of known k = Some e"
  shows "map_of (known @ (k, v) # cs) = map_of (known @ cs)"
  using assms by (auto simp: map_add_def fun_eq_iff split: option.splits)

lemma fold_resolve_fact:
  assumes "fold (resolve_fact sid) cs (known, owner, conflicts) = (known', owner', conflicts')"
    and "distinct (map fst known)"
  shows "distinct (map fst known')" and "map_of known' = map_of (known @ cs)"
    and "conflicts' = [] \<longleftrightarrow> conflicts = [] \<and> first_wins known cs"
    and "first_wins known (cs @ ds) \<longleftrightarrow> first_wins known cs \<and> first_wins known' ds"
proof (atomize (full), use assms in \<open>induction cs arbitrary: known owner conflicts\<close>)
  case Nil
  then show ?case by simp
next
  case (Cons c cs)
  obtain k v where c: "c = (k, v)" by (cases c)
  show ?case
  proof (cases "map_of known k")
    case None
    then have "k \<notin> fst ` set known" by (simp add: map_of_eq_None_iff)
    with Cons.IH [of "known @ [(k, v)]" "owner @ [(k, sid)]" conflicts] Cons.prems None c
    show ?thesis by simp
  next
    case (Some e)
    show ?thesis
    proof (cases "py_eq e v")
      case True
      with Cons.IH [of known owner conflicts] Cons.prems Some c map_of_shadow [OF Some, of v cs]
      show ?thesis by simp
    next
      case False
      define conflict where "conflict =
        \<lparr>fi_kind = FConflict, fi_key = k, fi_expected = Some e, fi_observed = Some v,
         fi_sources = [the (map_of owner k), sid]\<rparr>"
      from Cons.IH [of known owner "conflicts @ [conflict]"] Cons.prems Some c False
        map_of_shadow [OF Some, of v cs]
      show ?thesis by (simp add: conflict_def)
    qed
  qed
qed

lemma fold_resolve_source:
  assumes "fold resolve_source srcs (known, owner, conflicts) = (known', owner', conflicts')"
    and "distinct (map fst known)"
  shows "map_of known' = map_of (known @ concat (map (\<lambda>s. sort_items (facts s)) srcs)) \<and>
    (conflicts' = [] \<longleftrightarrow>
       conflicts = [] \<and> first_wins known (concat (map (\<lambda>s. sort_items (facts s)) srcs)))"
  using assms
proof (induction srcs arbitrary: known owner conflicts)
  case Nil
  then show ?case by simp
next
  case (Cons s srcs)
  obtain k1 o1 c1 where step: "resolve_source s (known, owner, conflicts) = (k1, o1, c1)"
    by (metis prod_cases3)
  note one = fold_resolve_fact [OF step [unfolded resolve_source_def] Cons.prems(2)]
  from Cons.prems(1) step have "fold resolve_source srcs (k1, o1, c1) = (known', owner', conflicts')"
    by simp
  from Cons.IH [OF this one(1)] one(2,3) one(4) [of "concat (map (\<lambda>s. sort_items (facts s)) srcs)"]
  show ?case by simp
qed

lemma canonical_order:
  "sorted_wrt agrees (concat (map (\<lambda>s. sort_items (facts s)) srcs)) =
   sorted_wrt agrees (concat (map facts srcs))"
  by (induction srcs)
    (auto simp: sorted_wrt_append sorted_wrt_sort_items [OF agrees_sym])

lemma resolve_authority_result:
  assumes "canonical_sources (rs_sources st) \<noteq> []"
  obtains known fs where
    "resolve_authority st = st\<lparr>rs_canonical_facts := Some known,
       rs_status := Some (if consistent (rs_sources st) then CURRENT else CONFLICT),
       rs_findings := Some fs\<rparr>"
    and "map_of known = map_of
       (concat (map (\<lambda>s. sort_items (facts s)) (canonical_sources (rs_sources st))))"
proof -
  obtain known owner conflicts where
    r: "fold resolve_source (canonical_sources (rs_sources st)) ([], [], []) =
      (known, owner, conflicts)"
    by (metis prod_cases3)
  from fold_resolve_source [OF r] have m:
    "map_of known = map_of (concat (map (\<lambda>s. sort_items (facts s)) (canonical_sources (rs_sources st))))"
    and c: "conflicts = [] \<longleftrightarrow> consistent (rs_sources st)"
    by (simp_all add: first_wins_consistent canonical_order consistent_def canonical_claims_def)
  show ?thesis
    by (rule that [where known = known and fs = "if conflicts = [] then [] else conflicts"])
      (use assms m in \<open>simp_all add: resolve_authority_def r c [symmetric]\<close>)
qed

section \<open>Drift\<close>

text \<open>When the canonical sources are consistent, the first value of a key speaks for all.\<close>

lemma speaks_for_all:
  assumes "sorted_wrt agrees cs" and "map_of cs k = Some e"
  shows "\<not> py_eq v e \<longleftrightarrow> (\<exists>d\<in>set cs. \<not> agrees (k, v) d)"
proof
  from assms(2) have member: "(k, e) \<in> set cs" by (rule map_of_SomeD)
  show "\<exists>d\<in>set cs. \<not> agrees (k, v) d" if "\<not> py_eq v e"
    using member that by (intro bexI [of _ "(k, e)"]) (simp_all add: agrees_def)
next
  assume "\<exists>d\<in>set cs. \<not> agrees (k, v) d"
  then obtain e' where e': "(k, e') \<in> set cs" and "\<not> py_eq v e'"
    by (auto simp: agrees_def)
  have "e' = e \<or> py_eq e e'"
    using assms e'
  proof (induction cs)
    case (Cons c cs)
    then show ?case
      by (cases c) (auto simp: agrees_def split: if_splits dest: map_of_SomeD)
  qed simp
  with \<open>\<not> py_eq v e'\<close> show "\<not> py_eq v e" using py_eq_trans by blast
qed

lemma in_drift_of:
  "f \<in> set (drift_of known sid (k, v)) \<longleftrightarrow>
     (\<exists>e. map_of known k = Some e \<and> \<not> py_eq v e \<and>
        f = \<lparr>fi_kind = FDrift, fi_key = k, fi_expected = Some e, fi_observed = Some v,
             fi_sources = [sid]\<rparr>)"
  by (cases "map_of known k") (auto simp: drift_of_def)

lemma in_source_drift:
  "f \<in> set (source_drift known s) \<longleftrightarrow> authority s \<noteq> ''CANONICAL'' \<and>
     (\<exists>k v. (k, v) \<in> set (facts s) \<and> f \<in> set (drift_of known (source_id s) (k, v)))"
  by (auto simp: source_drift_def)

lemma drift_kind: "f \<in> set (source_drift known s) \<Longrightarrow> fi_kind f = FDrift"
  by (auto simp: in_source_drift in_drift_of)

lemma drift_findings:
  assumes "sorted_wrt agrees cs" and "map_of known = map_of cs"
  shows "fi_key ` set (concat (map (source_drift known) srcs)) =
    fst ` {c. \<exists>s\<in>set srcs. authority s \<noteq> ''CANONICAL'' \<and> c \<in> set (facts s) \<and>
      (\<exists>d\<in>set cs. \<not> agrees c d)}" (is "?L = ?R")
proof
  show "?L \<subseteq> ?R"
  proof
    fix k assume "k \<in> ?L"
    then obtain s f where s: "s \<in> set srcs" and f: "f \<in> set (source_drift known s)" "k = fi_key f"
      by auto
    from f obtain v e where "authority s \<noteq> ''CANONICAL''" "(k, v) \<in> set (facts s)"
      "map_of cs k = Some e" "\<not> py_eq v e"
      unfolding assms(2) [symmetric] in_source_drift in_drift_of by auto
    with s show "k \<in> ?R" using speaks_for_all [OF assms(1)] by (intro image_eqI [of _ _ "(k, v)"]) auto
  qed
next
  show "?R \<subseteq> ?L"
  proof
    fix k assume "k \<in> ?R"
    then obtain s v d where s: "s \<in> set srcs" "authority s \<noteq> ''CANONICAL''" "(k, v) \<in> set (facts s)"
      and d: "d \<in> set cs" "\<not> agrees (k, v) d"
      by auto
    then have "k \<in> fst ` set cs" by (force simp: agrees_def)
    then obtain e where e: "map_of cs k = Some e"
      by (metis map_of_eq_None_iff not_None_eq)
    with speaks_for_all [OF assms(1) e] d have "\<not> py_eq v e" by blast
    moreover define f where "f = \<lparr>fi_kind = FDrift, fi_key = k, fi_expected = Some e,
      fi_observed = Some v, fi_sources = [source_id s]\<rparr>"
    ultimately have "f \<in> set (source_drift known s)"
      using e assms(2) s unfolding in_source_drift in_drift_of by auto
    then have "\<exists>f \<in> set (source_drift known s). fi_key f = k"
      by (rule bexI [rotated]) (simp add: f_def)
    with s show "k \<in> ?L" by force
  qed
qed

section \<open>Remediation\<close>

lemma fold_cover:
  "set (fst (fold (cover keys) rems (covered, ids))) \<inter> set keys =
     (set covered \<union> under_remediation rems) \<inter> set keys"
proof (induction rems arbitrary: covered ids)
  case Nil
  then show ?case by (simp add: under_remediation_def)
next
  case (Cons r rems)
  obtain covered' ids' where step: "cover keys r (covered, ids) = (covered', ids')"
    by (cases "cover keys r (covered, ids)")
  then have "set covered' \<inter> set keys =
      (set covered \<union> (if re_state r = OPEN then set (target_keys r) else {})) \<inter> set keys"
    by (auto simp: cover_def split: if_splits)
  moreover have "under_remediation (r # rems) =
      (if re_state r = OPEN then set (target_keys r) else {}) \<union> under_remediation rems"
    by (auto simp: under_remediation_def)
  ultimately show ?case using Cons [of covered' ids'] step by auto
qed

lemma covered_iff:
  "set keys \<subseteq> set (fst (fold (cover keys) rems ([], []))) \<longleftrightarrow> set keys \<subseteq> under_remediation rems"
  using fold_cover [of keys rems "[]" "[]"] by auto

section \<open>The reconciler meets its specification\<close>

lemma reconciled_status:
  "rs_status (compare_observations (resolve_authority st)) = Some (sot_status (rs_sources st)) \<and>
   (sot_status (rs_sources st) = DRIFT \<longrightarrow>
     (\<exists>fs. rs_findings (compare_observations (resolve_authority st)) = Some fs \<and>
       fi_key ` set fs = drifted (rs_sources st) \<and> (\<forall>f\<in>set fs. fi_kind f = FDrift)))"
proof (cases "canonical_sources (rs_sources st) = []")
  case True
  then show ?thesis by (simp add: resolve_authority_def compare_observations_def sot_status_def)
next
  case False
  then obtain known fs where r: "resolve_authority st = st\<lparr>rs_canonical_facts := Some known,
       rs_status := Some (if consistent (rs_sources st) then CURRENT else CONFLICT),
       rs_findings := Some fs\<rparr>"
    and known: "map_of known = map_of
       (concat (map (\<lambda>s. sort_items (facts s)) (canonical_sources (rs_sources st))))"
    by (rule resolve_authority_result)
  show ?thesis
  proof (cases "consistent (rs_sources st)")
    case False
    with r \<open>canonical_sources (rs_sources st) \<noteq> []\<close> show ?thesis
      by (simp add: compare_observations_def sot_status_def)
  next
    case True
    let ?drift = "concat (map (source_drift known) (rs_sources st))"
    have "fi_key ` set ?drift = drifted (rs_sources st)"
      using drift_findings [OF _ known, of "rs_sources st"] True
      by (simp add: consistent_def canonical_claims_def canonical_order drifted_def)
    moreover from this have "?drift = [] \<longleftrightarrow> drifted (rs_sources st) = {}"
      by (metis image_is_empty set_empty)
    moreover have "\<forall>f\<in>set ?drift. fi_kind f = FDrift"
      by (auto intro: drift_kind)
    ultimately show ?thesis
      using r True \<open>canonical_sources (rs_sources st) \<noteq> []\<close>
      by (simp add: compare_observations_def sot_status_def Let_def)
  qed
qed

lemma unchanged [simp]:
  "rs_sources (resolve_authority st) = rs_sources st"
  "rs_remediations (resolve_authority st) = rs_remediations st"
  "rs_sources (compare_observations st) = rs_sources st"
  "rs_remediations (compare_observations st) = rs_remediations st"
  "rs_sources (detect_existing_remediation st) = rs_sources st"
  "rs_remediations (detect_existing_remediation st) = rs_remediations st"
  "rs_status (detect_existing_remediation st) = rs_status st"
  "rs_findings (detect_existing_remediation st) = rs_findings st"
  "rs_sources (finalize st) = rs_sources st"
  "rs_remediations (finalize st) = rs_remediations st"
  "rs_status (finalize st) = rs_status st"
  "rs_findings (finalize st) = rs_findings st"
  by (simp_all add: resolve_authority_def compare_observations_def
      detect_existing_remediation_def finalize_def Let_def split: prod.splits)

lemma existing_remediation:
  assumes "rs_status st = Some DRIFT" and "rs_findings st = Some fs"
    and "\<forall>f\<in>set fs. fi_kind f = FDrift" and "fs \<noteq> []"
  shows "rs_disposition (detect_existing_remediation st) = Some EXISTING \<longleftrightarrow>
    fi_key ` set fs \<subseteq> under_remediation (rs_remediations st)"
proof -
  have all: "filter (\<lambda>f. fi_kind f = FDrift) fs = fs" using assms(3) by simp
  let ?keys = "set_of (map fi_key fs)"
  have "set ?keys = fi_key ` set fs" by simp
  with assms(4) have "?keys \<noteq> []" by (metis image_is_empty set_empty)
  with assms(1,2) covered_iff [of ?keys "rs_remediations st"] show ?thesis
    by (auto simp: detect_existing_remediation_def all Let_def split: prod.splits)
qed

lemma reconciled_spec:
  "rs_status (reconciled st) = Some (sot_status (rs_sources st))"
  "rs_recommendation (reconciled st) =
     Some (sot_recommendation (rs_sources st) (rs_remediations st))"
  "sot_status (rs_sources st) = DRIFT \<Longrightarrow>
     fi_key ` set (get_or [] (rs_findings (reconciled st))) = drifted (rs_sources st)"
proof -
  let ?s = "compare_observations (resolve_authority st)"
  have status: "rs_status ?s = Some (sot_status (rs_sources st))"
    using reconciled_status [of st] by blast
  then show "rs_status (reconciled st) = Some (sot_status (rs_sources st))"
    by (simp add: reconciled_def)
  have drift: "\<exists>fs. rs_findings ?s = Some fs \<and> fi_key ` set fs = drifted (rs_sources st) \<and>
      (\<forall>f\<in>set fs. fi_kind f = FDrift)" if "sot_status (rs_sources st) = DRIFT"
    using reconciled_status [of st] that by blast
  show "fi_key ` set (get_or [] (rs_findings (reconciled st))) = drifted (rs_sources st)"
    if "sot_status (rs_sources st) = DRIFT"
    using drift [OF that] by (auto simp: reconciled_def)
  have existing: "rs_disposition (detect_existing_remediation ?s) = Some EXISTING \<longleftrightarrow>
      drifted (rs_sources st) \<subseteq> under_remediation (rs_remediations st)"
    if d: "sot_status (rs_sources st) = DRIFT"
  proof -
    from drift [OF d] obtain fs where fs: "rs_findings ?s = Some fs"
      "fi_key ` set fs = drifted (rs_sources st)" "\<forall>f\<in>set fs. fi_kind f = FDrift"
      by blast
    from d have "drifted (rs_sources st) \<noteq> {}" by (auto simp: sot_status_def split: if_splits)
    with fs(2) have "fs \<noteq> []" by auto
    with existing_remediation [OF _ fs(1) fs(3)] status d fs(2) show ?thesis by simp
  qed
  show "rs_recommendation (reconciled st) =
      Some (sot_recommendation (rs_sources st) (rs_remediations st))"
  proof (cases "sot_status (rs_sources st)")
    case DRIFT
    with existing [OF DRIFT] status show ?thesis
      by (simp add: reconciled_def finalize_def sot_recommendation_def)
  qed (use status in \<open>simp_all add: reconciled_def finalize_def sot_recommendation_def\<close>)
qed

text \<open>C31: run by any library that follows the edges of a state graph, the reconciler classifies and
  recommends exactly what the facts call for: \<open>UNKNOWN\<close> without a canonical source, \<open>CONFLICT\<close>
  when two canonical claims about a key differ, \<open>DRIFT\<close> when a source of lower authority differs
  from a canonical claim, and otherwise \<open>CURRENT\<close>; under drift it recommends to observe the
  existing remediation iff open remediations target every drifting key, and its findings name
  exactly these keys. Sources and remediations are left as they were.\<close>

theorem sot_meets_specification:
  assumes "follows_graph invoke"
  shows "rs_status (invoke build_sot_reconciler (reconcile_input srcs rems)) =
      Some (sot_status srcs) \<and>
    rs_recommendation (invoke build_sot_reconciler (reconcile_input srcs rems)) =
      Some (sot_recommendation srcs rems) \<and>
    (sot_status srcs = DRIFT \<longrightarrow>
      fi_key ` set (get_or [] (rs_findings
        (invoke build_sot_reconciler (reconcile_input srcs rems)))) = drifted srcs) \<and>
    rs_sources (invoke build_sot_reconciler (reconcile_input srcs rems)) = srcs \<and>
    rs_remediations (invoke build_sot_reconciler (reconcile_input srcs rems)) = rems"
  using reconciled_spec [of "reconcile_input srcs rems"]
  by (simp add: invoke_sot [OF assms] reconcile_input_def reconciled_def)

text \<open>The regression scenario of the specification: the project state still reports a pull
  request open, and another one is open to correct it.\<close>

definition example_sources :: "SourceSnapshot list" where
  "example_sources =
     [\<lparr>source_id = ''github'', authority = ''CANONICAL'', facts = [(''pr:37'', SStr ''merged'')]\<rparr>,
      \<lparr>source_id = ''state'', authority = ''WORKING'', facts = [(''pr:37'', SStr ''open'')]\<rparr>]"

definition example_remediations :: "Remediation list" where
  "example_remediations = [\<lparr>re_id = ''PR#38'', re_state = OPEN, target_keys = [''pr:37'']\<rparr>]"

lemma example_spec:
  "sot_status example_sources = DRIFT"
  "sot_recommendation example_sources example_remediations = OBSERVE_EXISTING_REMEDIATION"
  "sot_recommendation example_sources [] = PROPOSE_REMEDIATION"
  by (auto simp: sot_status_def sot_recommendation_def example_sources_def
      example_remediations_def canonical_sources_def consistent_def canonical_claims_def
      drifted_def agrees_def under_remediation_def)

lemma sot_meets_specification_witness:
  "rs_recommendation (run_graph build_sot_reconciler
     (reconcile_input example_sources example_remediations)) = Some OBSERVE_EXISTING_REMEDIATION"
  using sot_meets_specification [OF run_graph_follows, of example_sources example_remediations]
  by (simp add: example_spec)

end
