(* ===== verification/Sot_Binding.thy ===== *)
theory Sot_Binding
  imports Sot_Properties
begin

text \<open>
  Trusted source binding (\<open>orchestration/source_binding.py\<close>): authority comes from rules that match
  the provider and its locator, never from what the provider reports. \<open>repr\<close> is Python's \<open>repr\<close>
  of a string, used in the detail of two issues. A dictionary is the list of its items.
\<close>

section \<open>Data\<close>

text \<open>\<open>UNBOUND_RESULT\<close> is the status \<open>"UNKNOWN"\<close> of a binding result.\<close>

datatype BindingStatus = BOUND | UNBOUND_RESULT

datatype BindingIssueReason =
    INVALID_BINDING
  | DUPLICATE_BINDING_ID
  | DUPLICATE_SOURCE_ID
  | UNSUPPORTED_PROVIDER
  | UNSAFE_LOCATOR
  | UNBOUND
  | AMBIGUOUS_BINDING
  | INVALID_CONTENT_HASH

record ProviderObservation =
  ob_source_id :: string
  ob_provider :: string
  ob_locator :: facts
  ob_facts :: facts
  ob_observed_at :: "string option"
  ob_content_sha256 :: "string option"

record TrustedSourceBinding =
  bn_id :: string
  bn_provider :: string
  bn_authority :: string
  bn_match :: facts

record SourceProvenance =
  pv_source_id :: string
  pv_provider :: string
  pv_authority :: string
  pv_binding_id :: string
  pv_locator :: facts
  pv_observed_at :: "string option"
  pv_content_sha256 :: "string option"

record BindingIssue =
  is_source_id :: string
  is_reason :: BindingIssueReason
  is_candidates :: "string list"
  is_detail :: string

record BindingResult =
  br_status :: BindingStatus
  br_sources :: "SourceSnapshot list"
  br_provenance :: "SourceProvenance list"
  br_issues :: "BindingIssue list"

definition VALID_PROVIDERS :: "string list" where
  "VALID_PROVIDERS = [''GITHUB'', ''GOOGLE_DRIVE'']"

definition VALID_AUTHORITIES :: "string list" where
  "VALID_AUTHORITIES = [''CANONICAL'', ''EVIDENCE'', ''WORKING'']"

text \<open>\<open>_SAFE_LOCATOR_KEYS[provider]\<close>, for a valid provider\<close>

definition SAFE_LOCATOR_KEYS :: "string \<Rightarrow> string list" where
  "SAFE_LOCATOR_KEYS provider =
     (if provider = ''GITHUB''
      then [''repository'', ''ref'', ''path'', ''resource_kind'', ''number'', ''sha'']
      else [''file_id'', ''parent_id'', ''ancestor_id'', ''resource_kind'', ''mime_type''])"

section \<open>Rules and locators\<close>

definition binding_issue ::
  "string \<Rightarrow> BindingIssueReason \<Rightarrow> string \<Rightarrow> string list \<Rightarrow> BindingIssue" where
  "binding_issue sid reason detail candidates =
     \<lparr>is_source_id = sid, is_reason = reason, is_candidates = sort_strings candidates,
      is_detail = detail\<rparr>"

fun valid_match_value :: "scalar \<Rightarrow> bool" where
  "valid_match_value SNone = False"
| "valid_match_value (SStr s) = (strip s \<noteq> [])"
| "valid_match_value _ = True"

text \<open>\<open>sorted(set(d) - safe_keys)\<close>\<close>

definition unsafe_keys :: "string \<Rightarrow> facts \<Rightarrow> string list" where
  "unsafe_keys provider d =
     sort_strings (filter (\<lambda>k. k \<notin> set (SAFE_LOCATOR_KEYS provider)) (map fst d))"

definition validate_binding :: "(string \<Rightarrow> string) \<Rightarrow> TrustedSourceBinding \<Rightarrow> string option" where
  "validate_binding repr b =
     (if bn_provider b \<notin> set VALID_PROVIDERS
      then Some (''Unsupported binding provider: '' @ repr (bn_provider b) @ ''.'')
      else if bn_authority b \<notin> set VALID_AUTHORITIES
      then Some (''Unsupported binding authority: '' @ repr (bn_authority b) @ ''.'')
      else if bn_match b = []
      then Some ''Binding match must not be empty; provider-wide authority is forbidden.''
      else if unsafe_keys (bn_provider b) (bn_match b) \<noteq> []
      then Some (''Binding uses unsupported locator keys: '' @
        joined '', '' (unsafe_keys (bn_provider b) (bn_match b)))
      else if list_ex (\<lambda>v. \<not> valid_match_value v) (map snd (bn_match b))
      then Some ''Binding match values must be stable, non-empty locator values.''
      else if bn_provider b = ''GITHUB'' \<and> ''repository'' \<notin> set (map fst (bn_match b))
      then Some ''GitHub bindings must pin repository identity.''
      else if bn_provider b = ''GOOGLE_DRIVE'' \<and>
        set [''file_id'', ''parent_id'', ''ancestor_id''] \<inter> set (map fst (bn_match b)) = {}
      then Some ''Google Drive bindings must pin a file, parent, or ancestor identity.''
      else None)"

definition binding_matches :: "ProviderObservation \<Rightarrow> TrustedSourceBinding \<Rightarrow> bool" where
  "binding_matches ob b \<longleftrightarrow>
     (if ob_provider ob \<noteq> bn_provider b then False
      else list_all (\<lambda>(k, v). py_eq (get_or SNone (map_of (ob_locator ob) k)) v) (bn_match b))"

definition safe_observation_locator :: "ProviderObservation \<Rightarrow> string option" where
  "safe_observation_locator ob =
     (if unsafe_keys (ob_provider ob) (ob_locator ob) \<noteq> []
      then Some (''Observation uses unsupported locator keys: '' @
        joined '', '' (unsafe_keys (ob_provider ob) (ob_locator ob)))
      else None)"

definition hex_char :: "char \<Rightarrow> bool" where
  "hex_char c \<longleftrightarrow> c \<in> set ''0123456789abcdefABCDEF''"

definition valid_sha256 :: "string \<Rightarrow> bool" where
  "valid_sha256 v \<longleftrightarrow> length v = 64 \<and> list_all hex_char v"

section \<open>Binding\<close>

text \<open>The loop over the ids: what it has seen and what it has seen twice.\<close>

definition seen_step :: "string \<Rightarrow> string list \<times> string list \<Rightarrow> string list \<times> string list" where
  "seen_step x acc =
     (set_add x (fst acc), if x \<in> set (fst acc) then set_add x (snd acc) else snd acc)"

definition duplicate_ids :: "string list \<Rightarrow> string list" where
  "duplicate_ids ids = snd (fold seen_step ids ([], []))"

text \<open>The loop over the rules, with the valid ones and the issues.\<close>

definition binding_step ::
  "(string \<Rightarrow> string) \<Rightarrow> string list \<Rightarrow> TrustedSourceBinding \<Rightarrow>
   TrustedSourceBinding list \<times> BindingIssue list \<Rightarrow>
   TrustedSourceBinding list \<times> BindingIssue list" where
  "binding_step repr duplicates b acc =
     (if bn_id b \<in> set duplicates then acc
      else case validate_binding repr b of
        Some detail \<Rightarrow>
          (fst acc, snd acc @
            [binding_issue ''*'' INVALID_BINDING (bn_id b @ '': '' @ detail) [bn_id b]])
      | None \<Rightarrow> (fst acc @ [b], snd acc))"

definition add_issue :: "BindingIssue \<Rightarrow> BindingResult \<Rightarrow> BindingResult" where
  "add_issue i r = r\<lparr>br_issues := br_issues r @ [i]\<rparr>"

definition snapshot_of :: "ProviderObservation \<Rightarrow> TrustedSourceBinding \<Rightarrow> SourceSnapshot" where
  "snapshot_of ob b =
     \<lparr>source_id = ob_source_id ob, authority = bn_authority b, facts = ob_facts ob\<rparr>"

definition provenance_of :: "ProviderObservation \<Rightarrow> TrustedSourceBinding \<Rightarrow> SourceProvenance" where
  "provenance_of ob b =
     \<lparr>pv_source_id = ob_source_id ob, pv_provider = ob_provider ob, pv_authority = bn_authority b,
      pv_binding_id = bn_id b, pv_locator = ob_locator ob, pv_observed_at = ob_observed_at ob,
      pv_content_sha256 = map_option lower (ob_content_sha256 ob)\<rparr>"

text \<open>The loop over the observations.\<close>

definition observe_step ::
  "(string \<Rightarrow> string) \<Rightarrow> string list \<Rightarrow> TrustedSourceBinding list \<Rightarrow> ProviderObservation \<Rightarrow>
   BindingResult \<Rightarrow> BindingResult" where
  "observe_step repr duplicates rules ob r =
     (let sid = ob_source_id ob in
      if sid \<in> set duplicates then r
      else if ob_provider ob \<notin> set VALID_PROVIDERS
      then add_issue (binding_issue sid UNSUPPORTED_PROVIDER
        (''Unsupported observation provider: '' @ repr (ob_provider ob) @ ''.'') []) r
      else case safe_observation_locator ob of
        Some detail \<Rightarrow> add_issue (binding_issue sid UNSAFE_LOCATOR detail []) r
      | None \<Rightarrow>
          if (case ob_content_sha256 ob of None \<Rightarrow> False | Some h \<Rightarrow> \<not> valid_sha256 h)
          then add_issue (binding_issue sid INVALID_CONTENT_HASH
            ''content_sha256 must be exactly 64 hexadecimal characters.'' []) r
          else
            (let candidates = filter (binding_matches ob) rules in
             if candidates = []
             then add_issue (binding_issue sid UNBOUND
               ''No trusted source binding matches this provider observation.'' []) r
             else if 1 < length candidates
             then add_issue (binding_issue sid AMBIGUOUS_BINDING
               ''Multiple trusted bindings match; authority cannot be resolved safely.''
               (map bn_id candidates)) r
             else r\<lparr>br_sources := br_sources r @ [snapshot_of ob (hd candidates)],
                    br_provenance := br_provenance r @ [provenance_of ob (hd candidates)]\<rparr>))"

definition duplicate_binding_issue :: "string \<Rightarrow> BindingIssue" where
  "duplicate_binding_issue i =
     binding_issue ''*'' DUPLICATE_BINDING_ID (''Trusted binding id is duplicated: '' @ i) [i]"

definition duplicate_source_issue :: "string \<Rightarrow> BindingIssue" where
  "duplicate_source_issue i =
     binding_issue i DUPLICATE_SOURCE_ID
       (''Provider observation source_id is duplicated: '' @ i) []"

definition bind_provider_observations ::
  "(string \<Rightarrow> string) \<Rightarrow> ProviderObservation list \<Rightarrow> TrustedSourceBinding list \<Rightarrow> BindingResult" where
  "bind_provider_observations repr observations bindings =
     (let duplicate_bindings = duplicate_ids (map bn_id bindings);
          (rules, issues) = fold (binding_step repr duplicate_bindings) bindings ([], []);
          duplicate_sources = duplicate_ids (map ob_source_id observations);
          r = fold (observe_step repr duplicate_sources rules) observations
            \<lparr>br_status = BOUND, br_sources = [], br_provenance = [],
             br_issues = issues @
               map duplicate_binding_issue (sort_strings duplicate_bindings) @
               map duplicate_source_issue (sort_strings duplicate_sources)\<rparr>
      in r\<lparr>br_status := (if br_issues r \<noteq> [] then UNBOUND_RESULT else BOUND)\<rparr>)"

section \<open>The specification\<close>

text \<open>A rule is well scoped when it names its provider and authority, uses only the safe keys of
  the provider with stable values, and pins the identity of what it is about.\<close>

definition well_scoped :: "TrustedSourceBinding \<Rightarrow> bool" where
  "well_scoped b \<longleftrightarrow>
     bn_authority b \<in> {''CANONICAL'', ''EVIDENCE'', ''WORKING''} \<and>
     (bn_provider b = ''GITHUB'' \<and> ''repository'' \<in> fst ` set (bn_match b) \<or>
      bn_provider b = ''GOOGLE_DRIVE'' \<and>
        {''file_id'', ''parent_id'', ''ancestor_id''} \<inter> fst ` set (bn_match b) \<noteq> {}) \<and>
     (\<forall>(k, v)\<in>set (bn_match b). k \<in> set (SAFE_LOCATOR_KEYS (bn_provider b)) \<and> valid_match_value v)"

lemma no_unsafe_keys:
  "unsafe_keys provider d = [] \<longleftrightarrow> fst ` set d \<subseteq> set (SAFE_LOCATOR_KEYS provider)"
proof -
  have "unsafe_keys provider d = [] \<longleftrightarrow> set (unsafe_keys provider d) = {}" by simp
  then show ?thesis by (auto simp del: set_empty simp: unsafe_keys_def)
qed

lemma items_split:
  "(\<forall>(k, v)\<in>set m. k \<in> S \<and> P v) \<longleftrightarrow> fst ` set m \<subseteq> S \<and> (\<forall>v\<in>snd ` set m. P v)"
  by (induction m) auto

lemma validate_binding_None: "validate_binding repr b = None \<longleftrightarrow> well_scoped b"
proof -
  have pinned: "x \<in> fst ` set (bn_match b) \<Longrightarrow> bn_match b \<noteq> []" for x by auto
  have "validate_binding repr b = None \<longleftrightarrow>
      (bn_provider b = ''GITHUB'' \<or> bn_provider b = ''GOOGLE_DRIVE'') \<and>
      bn_authority b \<in> {''CANONICAL'', ''EVIDENCE'', ''WORKING''} \<and> bn_match b \<noteq> [] \<and>
      (\<forall>(k, v)\<in>set (bn_match b). k \<in> set (SAFE_LOCATOR_KEYS (bn_provider b)) \<and>
        valid_match_value v) \<and>
      (bn_provider b = ''GITHUB'' \<longrightarrow> ''repository'' \<in> fst ` set (bn_match b)) \<and>
      (bn_provider b = ''GOOGLE_DRIVE'' \<longrightarrow>
        {''file_id'', ''parent_id'', ''ancestor_id''} \<inter> fst ` set (bn_match b) \<noteq> {})"
    unfolding items_split
    by (simp add: validate_binding_def list_ex_iff no_unsafe_keys VALID_PROVIDERS_def
        VALID_AUTHORITIES_def)
  then show ?thesis
    unfolding well_scoped_def using pinned by (cases "bn_provider b = ''GITHUB''") auto
qed

definition trusted_rule :: "TrustedSourceBinding list \<Rightarrow> TrustedSourceBinding \<Rightarrow> bool" where
  "trusted_rule bindings b \<longleftrightarrow>
     count_list (map bn_id bindings) (bn_id b) = 1 \<and> well_scoped b"

definition admissible :: "ProviderObservation list \<Rightarrow> ProviderObservation \<Rightarrow> bool" where
  "admissible obs ob \<longleftrightarrow>
     count_list (map ob_source_id obs) (ob_source_id ob) = 1 \<and>
     ob_provider ob \<in> {''GITHUB'', ''GOOGLE_DRIVE''} \<and>
     fst ` set (ob_locator ob) \<subseteq> set (SAFE_LOCATOR_KEYS (ob_provider ob)) \<and>
     (\<forall>h. ob_content_sha256 ob = Some h \<longrightarrow> valid_sha256 h)"

text \<open>The rule that binds an observation: the only trusted one that matches it.\<close>

definition binding_of ::
  "TrustedSourceBinding list \<Rightarrow> ProviderObservation \<Rightarrow> TrustedSourceBinding option" where
  "binding_of bindings ob =
     (case filter (\<lambda>b. trusted_rule bindings b \<and> binding_matches ob b) bindings of
        [b] \<Rightarrow> Some b
      | _ \<Rightarrow> None)"

definition bound_by ::
  "ProviderObservation list \<Rightarrow> TrustedSourceBinding list \<Rightarrow> ProviderObservation \<Rightarrow>
   (ProviderObservation \<times> TrustedSourceBinding) list" where
  "bound_by obs bindings ob =
     (if admissible obs ob then
       (case binding_of bindings ob of None \<Rightarrow> [] | Some b \<Rightarrow> [(ob, b)]) else [])"

definition bound_pairs ::
  "ProviderObservation list \<Rightarrow> TrustedSourceBinding list \<Rightarrow>
   (ProviderObservation \<times> TrustedSourceBinding) list" where
  "bound_pairs obs bindings = concat (map (bound_by obs bindings) obs)"

definition all_bound :: "ProviderObservation list \<Rightarrow> TrustedSourceBinding list \<Rightarrow> bool" where
  "all_bound obs bindings \<longleftrightarrow>
     (\<forall>b\<in>set bindings. trusted_rule bindings b) \<and>
     (\<forall>ob\<in>set obs. admissible obs ob \<and> binding_of bindings ob \<noteq> None)"

lemma binding_of_rule:
  assumes "binding_of bindings ob = Some b"
  shows "b \<in> set bindings" and "trusted_rule bindings b" and "binding_matches ob b"
    and "\<And>b'. b' \<in> set bindings \<Longrightarrow> trusted_rule bindings b' \<Longrightarrow> binding_matches ob b' \<Longrightarrow> b' = b"
proof -
  from assms have only: "filter (\<lambda>b. trusted_rule bindings b \<and> binding_matches ob b) bindings = [b]"
    by (auto simp: binding_of_def split: list.splits)
  then have "set (filter (\<lambda>b. trusted_rule bindings b \<and> binding_matches ob b) bindings) = {b}"
    by simp
  then show "b \<in> set bindings" and "trusted_rule bindings b" and "binding_matches ob b"
    and "\<And>b'. b' \<in> set bindings \<Longrightarrow> trusted_rule bindings b' \<Longrightarrow> binding_matches ob b' \<Longrightarrow> b' = b"
    by auto
qed

section \<open>The loops meet the specification\<close>

lemma seen_twice:
  "set (fst (fold seen_step ids acc)) = set (fst acc) \<union> set ids \<and>
   set (snd (fold seen_step ids acc)) = set (snd acc) \<union>
     {x. (if x \<in> set (fst acc) then 1 else 2) \<le> count_list ids x}"
proof (induction ids arbitrary: acc)
  case (Cons i ids)
  have "i \<in> set ids \<longleftrightarrow> 1 \<le> count_list ids i"
    using count_list_0_iff [of ids i] by linarith
  with Cons [of "seen_step i acc"] show ?case
    by (auto simp: seen_step_def Suc_le_eq split: if_splits)
qed auto

lemma duplicate_ids_iff:
  "x \<in> set ids \<Longrightarrow> x \<in> set (duplicate_ids ids) \<longleftrightarrow> count_list ids x \<noteq> 1"
  using seen_twice [of ids "([], [])"] count_list_0_iff [of ids x]
  by (auto simp: duplicate_ids_def)

lemma duplicates_known: "x \<in> set (duplicate_ids ids) \<Longrightarrow> x \<in> set ids"
  using seen_twice [of ids "([], [])"] count_list_0_iff [of ids x]
  by (auto simp: duplicate_ids_def)

lemma no_duplicates: "duplicate_ids ids = [] \<longleftrightarrow> (\<forall>x\<in>set ids. count_list ids x = 1)"
proof -
  have "duplicate_ids ids = [] \<longleftrightarrow> (\<forall>x\<in>set ids. x \<notin> set (duplicate_ids ids))"
    using duplicates_known [of "hd (duplicate_ids ids)" ids] hd_in_set by fastforce
  then show ?thesis by (simp add: duplicate_ids_iff)
qed

lemma binding_step_cases:
  "\<exists>added. binding_step repr duplicates b (rules, issues) =
     (rules @ (if bn_id b \<notin> set duplicates \<and> well_scoped b then [b] else []), issues @ added) \<and>
   (added = [] \<longleftrightarrow> bn_id b \<in> set duplicates \<or> well_scoped b)"
proof (cases "validate_binding repr b")
  case None
  then have "well_scoped b" by (simp add: validate_binding_None)
  with None show ?thesis by (simp add: binding_step_def)
next
  case (Some detail)
  then have "\<not> well_scoped b" using validate_binding_None [where repr = repr and b = b] by simp
  with Some show ?thesis by (simp add: binding_step_def)
qed

lemma fold_binding_step:
  "fold (binding_step repr duplicates) bs (rules, issues) = (rules', issues') \<Longrightarrow>
   rules' = rules @ filter (\<lambda>b. bn_id b \<notin> set duplicates \<and> well_scoped b) bs \<and>
    (issues' = [] \<longleftrightarrow> issues = [] \<and>
      (\<forall>b\<in>set bs. bn_id b \<in> set duplicates \<or> well_scoped b))"
proof (induction bs arbitrary: rules issues)
  case (Cons b bs)
  obtain added where
    step: "binding_step repr duplicates b (rules, issues) =
     (rules @ (if bn_id b \<notin> set duplicates \<and> well_scoped b then [b] else []), issues @ added)"
    and none: "added = [] \<longleftrightarrow> bn_id b \<in> set duplicates \<or> well_scoped b"
    using binding_step_cases by blast
  from Cons.prems step have "fold (binding_step repr duplicates) bs
      (rules @ (if bn_id b \<notin> set duplicates \<and> well_scoped b then [b] else []), issues @ added) =
      (rules', issues')"
    by simp
  from Cons.IH [OF this] none show ?case by simp
qed simp

lemma admissible_checks:
  assumes "ob \<in> set obs"
  shows "admissible obs ob \<longleftrightarrow>
    ob_source_id ob \<notin> set (duplicate_ids (map ob_source_id obs)) \<and>
    ob_provider ob \<in> set VALID_PROVIDERS \<and> safe_observation_locator ob = None \<and>
    \<not> (case ob_content_sha256 ob of None \<Rightarrow> False | Some h \<Rightarrow> \<not> valid_sha256 h)"
  using assms
  by (auto simp: admissible_def duplicate_ids_iff VALID_PROVIDERS_def safe_observation_locator_def
      no_unsafe_keys split: option.splits)

lemma one_issue: "\<exists>added. r\<lparr>br_issues := br_issues r @ [i]\<rparr> = r\<lparr>br_issues := br_issues r @ added\<rparr> \<and> added \<noteq> []"
  by blast

lemma no_issue: "\<exists>added. r = (r :: BindingResult)\<lparr>br_issues := br_issues r @ added\<rparr>"
  by (rule exI [of _ "[]"]) simp

lemma observe_step_result:
  assumes "ob \<in> set obs"
    and "filter (binding_matches ob) rules =
      filter (\<lambda>b. trusted_rule bindings b \<and> binding_matches ob b) bindings"
  shows "\<exists>added. observe_step repr (duplicate_ids (map ob_source_id obs)) rules ob r =
      r\<lparr>br_sources := br_sources r @ map (\<lambda>(ob, b). snapshot_of ob b) (bound_by obs bindings ob),
        br_provenance := br_provenance r @
          map (\<lambda>(ob, b). provenance_of ob b) (bound_by obs bindings ob),
        br_issues := br_issues r @ added\<rparr> \<and>
    (ob_source_id ob \<notin> set (duplicate_ids (map ob_source_id obs)) \<longrightarrow>
      (added = [] \<longleftrightarrow> bound_by obs bindings ob \<noteq> []))"
proof (cases "admissible obs ob")
  case False
  then have none: "bound_by obs bindings ob = []" by (simp add: bound_by_def)
  let ?dups = "duplicate_ids (map ob_source_id obs)"
  let ?bad = "case ob_content_sha256 ob of None \<Rightarrow> False | Some h \<Rightarrow> \<not> valid_sha256 h"
  consider "ob_source_id ob \<in> set ?dups"
    | "ob_source_id ob \<notin> set ?dups" "ob_provider ob \<notin> set VALID_PROVIDERS"
    | detail where "ob_source_id ob \<notin> set ?dups" "ob_provider ob \<in> set VALID_PROVIDERS"
        "safe_observation_locator ob = Some detail"
    | "ob_source_id ob \<notin> set ?dups" "ob_provider ob \<in> set VALID_PROVIDERS"
        "safe_observation_locator ob = None" ?bad
    using False [unfolded admissible_checks [OF assms(1)]]
    by (cases "safe_observation_locator ob") (simp_all, blast+)
  then show ?thesis
    by cases (simp_all add: none observe_step_def add_issue_def Let_def one_issue no_issue)
next
  case True
  note checks = True [unfolded admissible_checks [OF assms(1)]]
  let ?cs = "filter (\<lambda>b. trusted_rule bindings b \<and> binding_matches ob b) bindings"
  consider "?cs = []" | b where "?cs = [b]" | b b' bs where "?cs = b # b' # bs"
    by (metis list.exhaust)
  then show ?thesis
  proof cases
    case 1
    then have "bound_by obs bindings ob = []"
      by (simp add: bound_by_def binding_of_def)
    with 1 checks show ?thesis
      by (simp add: observe_step_def add_issue_def assms(2) Let_def one_issue)
  next
    case (2 b)
    then have "bound_by obs bindings ob = [(ob, b)]"
      using True by (simp add: bound_by_def binding_of_def)
    with 2 checks show ?thesis by (auto simp: observe_step_def assms(2))
  next
    case (3 b b' bs)
    then have "bound_by obs bindings ob = []"
      by (simp add: bound_by_def binding_of_def)
    with 3 checks show ?thesis
      by (simp add: observe_step_def add_issue_def assms(2) Let_def one_issue)
  qed
qed

lemma fold_observe_step:
  assumes "\<And>ob. ob \<in> set os \<Longrightarrow> ob \<in> set obs"
    and "\<And>ob. filter (binding_matches ob) rules =
      filter (\<lambda>b. trusted_rule bindings b \<and> binding_matches ob b) bindings"
  shows "\<exists>added. fold (observe_step repr (duplicate_ids (map ob_source_id obs)) rules) os r =
      r\<lparr>br_sources := br_sources r @
          map (\<lambda>(ob, b). snapshot_of ob b) (concat (map (bound_by obs bindings) os)),
        br_provenance := br_provenance r @
          map (\<lambda>(ob, b). provenance_of ob b) (concat (map (bound_by obs bindings) os)),
        br_issues := br_issues r @ added\<rparr> \<and>
    (duplicate_ids (map ob_source_id obs) = [] \<longrightarrow>
      (added = [] \<longleftrightarrow> (\<forall>ob\<in>set os. bound_by obs bindings ob \<noteq> [])))"
  using assms(1)
proof (induction os arbitrary: r)
  case Nil
  then show ?case by (intro exI [of _ "[]"]) simp
next
  case (Cons ob os)
  from Cons.prems have "ob \<in> set obs" by simp
  from observe_step_result [OF this assms(2), where r = r and repr = repr]
  obtain first where
    step: "observe_step repr (duplicate_ids (map ob_source_id obs)) rules ob r =
      r\<lparr>br_sources := br_sources r @ map (\<lambda>(ob, b). snapshot_of ob b) (bound_by obs bindings ob),
        br_provenance := br_provenance r @
          map (\<lambda>(ob, b). provenance_of ob b) (bound_by obs bindings ob),
        br_issues := br_issues r @ first\<rparr>"
    and first: "ob_source_id ob \<notin> set (duplicate_ids (map ob_source_id obs)) \<longrightarrow>
      (first = [] \<longleftrightarrow> bound_by obs bindings ob \<noteq> [])"
    by blast
  define r1 where "r1 =
      r\<lparr>br_sources := br_sources r @ map (\<lambda>(ob, b). snapshot_of ob b) (bound_by obs bindings ob),
        br_provenance := br_provenance r @
          map (\<lambda>(ob, b). provenance_of ob b) (bound_by obs bindings ob),
        br_issues := br_issues r @ first\<rparr>"
  from Cons.IH [of r1] Cons.prems obtain rest where
    rest: "fold (observe_step repr (duplicate_ids (map ob_source_id obs)) rules) os r1 =
      r1\<lparr>br_sources := br_sources r1 @
          map (\<lambda>(ob, b). snapshot_of ob b) (concat (map (bound_by obs bindings) os)),
        br_provenance := br_provenance r1 @
          map (\<lambda>(ob, b). provenance_of ob b) (concat (map (bound_by obs bindings) os)),
        br_issues := br_issues r1 @ rest\<rparr>"
    and none: "duplicate_ids (map ob_source_id obs) = [] \<longrightarrow>
      (rest = [] \<longleftrightarrow> (\<forall>ob\<in>set os. bound_by obs bindings ob \<noteq> []))"
    by auto
  show ?case
    by (rule exI [of _ "first @ rest"])
      (use step rest none first in \<open>simp add: r1_def [symmetric]\<close>, simp add: r1_def)
qed

lemma binding_result:
  shows "br_sources (bind_provider_observations repr obs bindings) =
      map (\<lambda>(ob, b). snapshot_of ob b) (bound_pairs obs bindings)"
    and "br_provenance (bind_provider_observations repr obs bindings) =
      map (\<lambda>(ob, b). provenance_of ob b) (bound_pairs obs bindings)"
    and "br_status (bind_provider_observations repr obs bindings) = BOUND \<longleftrightarrow>
      all_bound obs bindings"
    and "br_issues (bind_provider_observations repr obs bindings) = [] \<longleftrightarrow>
      all_bound obs bindings"
proof -
  let ?dup_b = "duplicate_ids (map bn_id bindings)"
  let ?dup_s = "duplicate_ids (map ob_source_id obs)"
  obtain rules issues where
    loop: "fold (binding_step repr ?dup_b) bindings ([], []) = (rules, issues)"
    by (cases "fold (binding_step repr ?dup_b) bindings ([], [])")
  have trusted: "trusted_rule bindings b \<longleftrightarrow> bn_id b \<notin> set ?dup_b \<and> well_scoped b"
    if "b \<in> set bindings" for b
    using that by (simp add: trusted_rule_def duplicate_ids_iff)
  from fold_binding_step [OF loop]
  have rules: "rules = filter (\<lambda>b. bn_id b \<notin> set ?dup_b \<and> well_scoped b) bindings"
    and issues: "issues = [] \<longleftrightarrow> (\<forall>b\<in>set bindings. bn_id b \<in> set ?dup_b \<or> well_scoped b)"
    by simp_all
  have "rules = filter (trusted_rule bindings) bindings"
    unfolding rules by (rule filter_cong) (simp_all add: trusted)
  then have matching: "filter (binding_matches ob) rules =
      filter (\<lambda>b. trusted_rule bindings b \<and> binding_matches ob b) bindings" for ob
    by simp
  let ?start = "\<lparr>br_status = BOUND, br_sources = [], br_provenance = [],
    br_issues = issues @ map duplicate_binding_issue (sort_strings ?dup_b) @
      map duplicate_source_issue (sort_strings ?dup_s)\<rparr>"
  obtain added where
    result: "fold (observe_step repr ?dup_s rules) obs ?start =
      ?start\<lparr>br_sources := map (\<lambda>(ob, b). snapshot_of ob b) (bound_pairs obs bindings),
        br_provenance := map (\<lambda>(ob, b). provenance_of ob b) (bound_pairs obs bindings),
        br_issues := br_issues ?start @ added\<rparr>"
    and added: "?dup_s = [] \<longrightarrow> (added = [] \<longleftrightarrow> (\<forall>ob\<in>set obs. bound_by obs bindings ob \<noteq> []))"
    using fold_observe_step [where os = obs and obs = obs and rules = rules and repr = repr
        and bindings = bindings and r = ?start, OF _ matching]
    by (auto simp: bound_pairs_def)
  have sorted_empty: "sort_strings xs = [] \<longleftrightarrow> xs = []" for xs
    using set_sort_strings [of xs] by (metis set_empty)
  have "issues = [] \<and> ?dup_b = [] \<longleftrightarrow> (\<forall>b\<in>set bindings. trusted_rule bindings b)"
    unfolding issues using no_duplicates [of "map bn_id bindings"]
    by (auto simp: trusted duplicate_ids_iff)
  moreover have "?dup_s = [] \<and> added = [] \<longleftrightarrow>
      (\<forall>ob\<in>set obs. admissible obs ob \<and> binding_of bindings ob \<noteq> None)"
  proof -
    have "bound_by obs bindings ob \<noteq> [] \<longleftrightarrow> admissible obs ob \<and> binding_of bindings ob \<noteq> None"
      for ob
      by (auto simp: bound_by_def split: option.splits)
    moreover have "?dup_s = []" if "\<forall>ob\<in>set obs. admissible obs ob"
      using that by (simp add: no_duplicates admissible_def)
    ultimately show ?thesis using added by blast
  qed
  ultimately have ok: "br_issues ?start @ added = [] \<longleftrightarrow> all_bound obs bindings"
    by (auto simp: all_bound_def sorted_empty)
  show "br_sources (bind_provider_observations repr obs bindings) =
      map (\<lambda>(ob, b). snapshot_of ob b) (bound_pairs obs bindings)"
    and "br_provenance (bind_provider_observations repr obs bindings) =
      map (\<lambda>(ob, b). provenance_of ob b) (bound_pairs obs bindings)"
    by (simp_all add: bind_provider_observations_def loop result Let_def)
  show "br_issues (bind_provider_observations repr obs bindings) = [] \<longleftrightarrow>
      all_bound obs bindings"
    using ok by (simp add: bind_provider_observations_def loop result Let_def)
  show "br_status (bind_provider_observations repr obs bindings) = BOUND \<longleftrightarrow>
      all_bound obs bindings"
    using ok by (simp add: bind_provider_observations_def loop result Let_def)
qed

end
