(* ===== verification/Sot_Trusted.thy ===== *)
theory Sot_Trusted
  imports Sot_Binding
begin

text \<open>
  The trusted reconciler (\<open>orchestration/trusted_sot.py\<close>): it binds the observations, and runs the
  reconciler on them only when all of them are bound. \<open>invoke\<close> runs the inner graph.
\<close>

record TrustedReconciliationState =
  ts_observations :: "ProviderObservation list"
  ts_bindings :: "TrustedSourceBinding list"
  ts_remediations :: "Remediation list"
  ts_ingest_status :: "BindingStatus option"
  ts_sources :: "SourceSnapshot list option"
  ts_provenance :: "SourceProvenance list option"
  ts_binding_issues :: "BindingIssue list option"
  ts_canonical_facts :: "facts option"
  ts_findings :: "Finding list option"
  ts_status :: "SOTStatus option"
  ts_disposition :: "RemediationDisposition option"
  ts_remediation_ids :: "string list option"
  ts_recommendation :: "Recommendation option"

definition bind_authority ::
  "(string \<Rightarrow> string) \<Rightarrow> TrustedReconciliationState \<Rightarrow> TrustedReconciliationState" where
  "bind_authority repr st =
     (let r = bind_provider_observations repr (ts_observations st) (ts_bindings st) in
      st\<lparr>ts_ingest_status := Some (br_status r), ts_sources := Some (br_sources r),
         ts_provenance := Some (br_provenance r), ts_binding_issues := Some (br_issues r)\<rparr>)"

definition route_after_binding :: "TrustedReconciliationState \<Rightarrow> string" where
  "route_after_binding st =
     (if ts_ingest_status st = Some BOUND then ''reconcile'' else ''fail_closed'')"

definition reconcile_node ::
  "(ReconciliationState StateGraph \<Rightarrow> ReconciliationState \<Rightarrow> ReconciliationState) \<Rightarrow>
   TrustedReconciliationState \<Rightarrow> TrustedReconciliationState" where
  "reconcile_node invoke st =
     (let r = invoke build_sot_reconciler
            (reconcile_input (get_or [] (ts_sources st)) (ts_remediations st)) in
      st\<lparr>ts_canonical_facts := Some (get_or [] (rs_canonical_facts r)),
         ts_findings := Some (get_or [] (rs_findings r)),
         ts_status := Some (get_or UNKNOWN (rs_status r)),
         ts_disposition := Some (get_or NONE (rs_disposition r)),
         ts_remediation_ids := Some (get_or [] (rs_remediation_ids r)),
         ts_recommendation := Some (get_or REQUEST_MORE_EVIDENCE (rs_recommendation r))\<rparr>)"

definition fail_closed :: "TrustedReconciliationState \<Rightarrow> TrustedReconciliationState" where
  "fail_closed st =
     (let issue_sources = sort_strings (set_of (filter (\<lambda>i. i \<noteq> ''*'')
            (map is_source_id (get_or [] (ts_binding_issues st))))) in
      st\<lparr>ts_canonical_facts := Some [],
         ts_findings := Some
           [\<lparr>fi_kind = FUnknown, fi_key = ''authority-binding'', fi_expected = None,
             fi_observed = None, fi_sources = issue_sources\<rparr>],
         ts_status := Some UNKNOWN, ts_disposition := Some NONE, ts_remediation_ids := Some [],
         ts_recommendation := Some REQUEST_MORE_EVIDENCE\<rparr>)"

definition build_trusted_sot_reconciler ::
  "(string \<Rightarrow> string) \<Rightarrow>
   (ReconciliationState StateGraph \<Rightarrow> ReconciliationState \<Rightarrow> ReconciliationState) \<Rightarrow>
   TrustedReconciliationState StateGraph" where
  "build_trusted_sot_reconciler repr invoke =
     \<lparr>sg_nodes =
        [(''bind_authority'', bind_authority repr),
         (''reconcile'', reconcile_node invoke),
         (''fail_closed'', fail_closed)],
      sg_edges =
        [(START, ''bind_authority''),
         (''reconcile'', END),
         (''fail_closed'', END)],
      sg_routes =
        [(''bind_authority'', route_after_binding,
          [(''reconcile'', ''reconcile''), (''fail_closed'', ''fail_closed'')])]\<rparr>"

definition trusted_input ::
  "ProviderObservation list \<Rightarrow> TrustedSourceBinding list \<Rightarrow> Remediation list \<Rightarrow>
   TrustedReconciliationState" where
  "trusted_input obs bindings rems =
     \<lparr>ts_observations = obs, ts_bindings = bindings, ts_remediations = rems,
      ts_ingest_status = None, ts_sources = None, ts_provenance = None, ts_binding_issues = None,
      ts_canonical_facts = None, ts_findings = None, ts_status = None, ts_disposition = None,
      ts_remediation_ids = None, ts_recommendation = None\<rparr>"

section \<open>The run\<close>

lemma trusted_edges:
  fixes repr invoke
  defines "g \<equiv> build_trusted_sot_reconciler repr invoke"
  shows "next_node g START st = Some ''bind_authority''"
    and "next_node g ''bind_authority'' st = Some (route_after_binding st)"
    and "next_node g ''reconcile'' st = Some END"
    and "next_node g ''fail_closed'' st = Some END"
  by (simp_all add: next_node_def g_def build_trusted_sot_reconciler_def route_after_binding_def)

lemma trusted_nodes:
  fixes repr invoke
  defines "g \<equiv> build_trusted_sot_reconciler repr invoke"
  shows "map_of (sg_nodes g) ''bind_authority'' = Some (bind_authority repr)"
    and "map_of (sg_nodes g) ''reconcile'' = Some (reconcile_node invoke)"
    and "map_of (sg_nodes g) ''fail_closed'' = Some fail_closed"
  by (simp_all add: g_def build_trusted_sot_reconciler_def)

definition trusted_run ::
  "(string \<Rightarrow> string) \<Rightarrow>
   (ReconciliationState StateGraph \<Rightarrow> ReconciliationState \<Rightarrow> ReconciliationState) \<Rightarrow>
   TrustedReconciliationState \<Rightarrow> TrustedReconciliationState" where
  "trusted_run repr invoke st =
     (if all_bound (ts_observations st) (ts_bindings st)
      then reconcile_node invoke (bind_authority repr st)
      else fail_closed (bind_authority repr st))"

lemma route_bound:
  "route_after_binding (bind_authority repr st) =
     (if all_bound (ts_observations st) (ts_bindings st) then ''reconcile'' else ''fail_closed'')"
  by (simp add: route_after_binding_def bind_authority_def Let_def binding_result)

lemma trusted_path:
  "graph_path (build_trusted_sot_reconciler repr invoke) (Suc (Suc 0)) ''bind_authority'' st
     (trusted_run repr invoke st)"
proof (cases "all_bound (ts_observations st) (ts_bindings st)")
  case True
  then show ?thesis
    unfolding trusted_run_def
    by (simp, intro path_node [OF _ trusted_nodes(1) trusted_edges(2)])
      (simp_all add: route_bound,
       intro path_node [OF _ trusted_nodes(2) trusted_edges(3)], simp, rule path_end)
next
  case False
  then show ?thesis
    unfolding trusted_run_def
    by (simp, intro path_node [OF _ trusted_nodes(1) trusted_edges(2)])
      (simp_all add: route_bound,
       intro path_node [OF _ trusted_nodes(3) trusted_edges(4)], simp, rule path_end)
qed

lemma invoke_trusted:
  assumes "follows_graph outer"
  shows "outer (build_trusted_sot_reconciler repr invoke) st = trusted_run repr invoke st"
  by (rule langgraph.invoke_path [OF langgraph.intro [OF assms] trusted_edges(1) trusted_path]) simp

text \<open>The snapshots that the trusted rules give.\<close>

definition trusted_snapshots ::
  "ProviderObservation list \<Rightarrow> TrustedSourceBinding list \<Rightarrow> SourceSnapshot list" where
  "trusted_snapshots obs bindings = map (\<lambda>(ob, b). snapshot_of ob b) (bound_pairs obs bindings)"

lemma trusted_run_spec:
  assumes "follows_graph inner"
  shows "all_bound obs bindings \<Longrightarrow>
      ts_status (trusted_run repr inner (trusted_input obs bindings rems)) =
        Some (sot_status (trusted_snapshots obs bindings)) \<and>
      ts_recommendation (trusted_run repr inner (trusted_input obs bindings rems)) =
        Some (sot_recommendation (trusted_snapshots obs bindings) rems)"
    and "\<not> all_bound obs bindings \<Longrightarrow>
      ts_status (trusted_run repr inner (trusted_input obs bindings rems)) = Some UNKNOWN \<and>
      ts_recommendation (trusted_run repr inner (trusted_input obs bindings rems)) =
        Some REQUEST_MORE_EVIDENCE \<and>
      ts_canonical_facts (trusted_run repr inner (trusted_input obs bindings rems)) = Some []"
  by (simp_all add: trusted_run_def trusted_input_def reconcile_node_def bind_authority_def
      fail_closed_def Let_def binding_result reconciled_spec invoke_sot [OF assms]
      reconcile_input_def trusted_snapshots_def)

lemma bound_snapshot:
  assumes "s \<in> set (trusted_snapshots obs bindings)"
  shows "\<exists>ob\<in>set obs. \<exists>b\<in>set bindings. s = snapshot_of ob b \<and> binding_of bindings ob = Some b"
  using assms binding_of_rule(1)
  by (fastforce simp: trusted_snapshots_def bound_pairs_def bound_by_def split: if_splits option.splits)


text \<open>A pull request that GitHub reports merged, bound by one canonical rule.\<close>

definition example_observation :: ProviderObservation where
  "example_observation =
     \<lparr>ob_source_id = ''pr'', ob_provider = ''GITHUB'', ob_locator = [(''repository'', SStr ''c'')],
      ob_facts = [(''pr:40'', SStr ''merged'')], ob_observed_at = Some ''t'',
      ob_content_sha256 = None\<rparr>"

definition example_rule :: TrustedSourceBinding where
  "example_rule =
     \<lparr>bn_id = ''main'', bn_provider = ''GITHUB'', bn_authority = ''CANONICAL'',
      bn_match = [(''repository'', SStr ''c'')]\<rparr>"

lemma example_bound:
  "binding_matches example_observation example_rule"
  "trusted_rule [example_rule] example_rule"
  "admissible [example_observation] example_observation"
  "binding_of [example_rule] example_observation = Some example_rule"
proof -
  have stable: "strip ''c'' \<noteq> []" by (simp add: strip_visible visible_def)
  show matches: "binding_matches example_observation example_rule"
    by (simp add: binding_matches_def example_observation_def example_rule_def)
  show trusted: "trusted_rule [example_rule] example_rule"
    using stable
    by (simp add: trusted_rule_def well_scoped_def example_rule_def SAFE_LOCATOR_KEYS_def)
  show "admissible [example_observation] example_observation"
    by (simp add: admissible_def example_observation_def SAFE_LOCATOR_KEYS_def)
  show "binding_of [example_rule] example_observation = Some example_rule"
    by (simp add: binding_of_def matches trusted)
qed

lemma example_snapshots:
  "all_bound [example_observation] [example_rule]"
  "sot_status (trusted_snapshots [example_observation] [example_rule]) = CURRENT"
  by (simp_all add: all_bound_def example_bound trusted_snapshots_def bound_pairs_def bound_by_def
      snapshot_of_def)
    (simp add: example_rule_def example_observation_def sot_status_def canonical_sources_def
      consistent_def canonical_claims_def drifted_def)


section \<open>Authority is not content\<close>

text \<open>What an observation says of its identity, without the facts it reports and the time.\<close>

definition identity_of :: "ProviderObservation \<Rightarrow> ProviderObservation" where
  "identity_of ob = ob\<lparr>ob_facts := [], ob_observed_at := None\<rparr>"

lemma identity_fields:
  assumes "identity_of ob = identity_of ob'"
  shows "ob_source_id ob = ob_source_id ob'" "ob_provider ob = ob_provider ob'"
    "ob_locator ob = ob_locator ob'" "ob_content_sha256 ob = ob_content_sha256 ob'"
  using assms by (cases ob; cases ob'; simp add: identity_of_def)+

lemma observe_step_identity:
  assumes "identity_of ob = identity_of ob'"
    and "br_issues r = br_issues r'"
    and "map (\<lambda>s. (source_id s, authority s)) (br_sources r) =
      map (\<lambda>s. (source_id s, authority s)) (br_sources r')"
  shows "br_issues (observe_step repr dups rules ob r) =
      br_issues (observe_step repr dups rules ob' r')"
    and "map (\<lambda>s. (source_id s, authority s)) (br_sources (observe_step repr dups rules ob r)) =
      map (\<lambda>s. (source_id s, authority s)) (br_sources (observe_step repr dups rules ob' r'))"
proof -
  note same = identity_fields [OF assms(1)]
  have "binding_matches ob = binding_matches ob'"
    by (auto simp: binding_matches_def same fun_eq_iff)
  moreover have "safe_observation_locator ob = safe_observation_locator ob'"
    by (simp add: safe_observation_locator_def same)
  ultimately show "br_issues (observe_step repr dups rules ob r) =
      br_issues (observe_step repr dups rules ob' r')"
    and "map (\<lambda>s. (source_id s, authority s)) (br_sources (observe_step repr dups rules ob r)) =
      map (\<lambda>s. (source_id s, authority s)) (br_sources (observe_step repr dups rules ob' r'))"
    using assms(2,3)
    by (simp_all add: observe_step_def same add_issue_def snapshot_of_def Let_def
        split: option.split)
qed

lemma fold_observe_identity:
  assumes "map identity_of os = map identity_of os'"
    and "br_issues r = br_issues r'"
    and "map (\<lambda>s. (source_id s, authority s)) (br_sources r) =
      map (\<lambda>s. (source_id s, authority s)) (br_sources r')"
  shows "br_issues (fold (observe_step repr dups rules) os r) =
      br_issues (fold (observe_step repr dups rules) os' r') \<and>
    map (\<lambda>s. (source_id s, authority s)) (br_sources (fold (observe_step repr dups rules) os r)) =
      map (\<lambda>s. (source_id s, authority s)) (br_sources (fold (observe_step repr dups rules) os' r'))"
  using assms
proof (induction os arbitrary: os' r r')
  case (Cons ob os)
  then obtain ob' rest where os': "os' = ob' # rest" "identity_of ob = identity_of ob'"
    "map identity_of os = map identity_of rest"
    by (cases os') auto
  from Cons.IH [OF os'(3) observe_step_identity [OF os'(2) Cons.prems(2,3)]]
  show ?case by (simp add: os'(1))
qed simp

text \<open>Authority is never read from what a provider reports. Two runs over observations with the
  same source ids, providers, locators and hashes but any facts and any times have the same
  binding issues and the same status, and give the same authority to the same sources: facts
  cannot claim authority and freshness cannot raise it.\<close>

theorem authority_is_not_content:
  assumes "map identity_of obs = map identity_of obs'"
  shows "br_status (bind_provider_observations repr obs bindings) =
      br_status (bind_provider_observations repr obs' bindings) \<and>
    br_issues (bind_provider_observations repr obs bindings) =
      br_issues (bind_provider_observations repr obs' bindings) \<and>
    map (\<lambda>s. (source_id s, authority s)) (br_sources (bind_provider_observations repr obs bindings)) =
      map (\<lambda>s. (source_id s, authority s)) (br_sources (bind_provider_observations repr obs' bindings))"
proof -
  have "map ob_source_id obs = map (ob_source_id \<circ> identity_of) obs"
    by (simp add: identity_of_def)
  also have "\<dots> = map ob_source_id (map identity_of obs)" by simp
  also have "\<dots> = map ob_source_id obs'" unfolding assms by (simp add: identity_of_def)
  finally have ids: "map ob_source_id obs = map ob_source_id obs'" .
  show ?thesis
    using fold_observe_identity [OF assms refl refl]
    by (simp add: bind_provider_observations_def ids Let_def split: prod.split)
qed

text \<open>A newer report with other facts.\<close>

lemma authority_is_not_content_witness:
  "br_issues (bind_provider_observations id
     [example_observation\<lparr>ob_facts := [(''authority'', SStr ''CANONICAL'')],
        ob_observed_at := Some ''later''\<rparr>] [example_rule]) =
   br_issues (bind_provider_observations id [example_observation] [example_rule])"
  using authority_is_not_content [where repr = id and bindings = "[example_rule]" and
      obs = "[example_observation\<lparr>ob_facts := [(''authority'', SStr ''CANONICAL'')],
        ob_observed_at := Some ''later''\<rparr>]" and obs' = "[example_observation]"]
  by (simp add: identity_of_def)

text \<open>The match is Python's equality: a rule for pull request 1 matches the locator number
  \<open>True\<close>, whatever \<open>exact match\<close> may suggest.\<close>

lemma exact_match_takes_true_for_one:
  "binding_matches
     \<lparr>ob_source_id = ''pr'', ob_provider = ''GITHUB'', ob_locator = [(''number'', SBool True)],
      ob_facts = [], ob_observed_at = None, ob_content_sha256 = None\<rparr>
     \<lparr>bn_id = ''main'', bn_provider = ''GITHUB'', bn_authority = ''CANONICAL'',
      bn_match = [(''number'', SInt 1)]\<rparr>"
  by (simp add: binding_matches_def)

end
