(* ===== verification/Room_Model.thy ===== *)
theory Room_Model
  imports Cyber_Prelude Py_Sort
begin

text \<open>
  The shared room (\<open>communication/contracts.py\<close>, \<open>agent_registry.py\<close>, \<open>event_gateway.py\<close>,
  \<open>room_coordinator.py\<close>, \<open>test_agents.py\<close>) and the gateway onto the event store
  (\<open>cyberhive_runtime.py\<close>). The store is third-party code: its operations are parameters over a
  world \<open>'w\<close>, and what the code relies on is the locale \<open>event_store\<close>. A field of a draft that a
  client may fill with any JSON value is a \<open>pyval\<close>.
\<close>

section \<open>Data\<close>

text \<open>An exception: whether it is a \<open>PermissionError\<close>, a \<open>ValueError\<close> (or one of its subclasses)
  or another \<open>Exception\<close>, the name of its type, and its message.\<close>

datatype exn_kind = PermissionExn | ValueExn | OtherExn

datatype room_exn = RExc (rx_kind: exn_kind) (rx_type: string) (rx_msg: string)

abbreviation "RoomValueError \<equiv> RExc ValueExn ''ValueError''"
abbreviation "RoomPermissionError \<equiv> RExc PermissionExn ''PermissionError''"

record TrustedActor =
  ta_actor_id :: string
  ta_actor_type :: string
  ta_display_name :: string
  ta_room_ids :: "pyval list"
  ta_session_ids :: "pyval list"

record RoomEventDraft =
  dr_event_id :: string
  dr_room_id :: pyval
  dr_session_id :: pyval
  dr_actor_id :: string
  dr_actor_type :: string
  dr_target :: pyval
  dr_event_type :: pyval
  dr_payload :: pyval
  dr_correlation_id :: "string option"
  dr_causation_id :: "string option"
  dr_metadata :: "(string \<times> pyval) list"
  dr_timestamp :: string

record RoomEvent =
  rv_event_id :: string
  rv_timestamp :: string
  rv_sequence :: int
  rv_room_id :: string
  rv_session_id :: string
  rv_actor_id :: string
  rv_actor_type :: string
  rv_target :: string
  rv_event_type :: string
  rv_payload :: pyval
  rv_correlation_id :: "string option"
  rv_causation_id :: "string option"
  rv_metadata :: "(string \<times> pyval) list"
  rv_previous_hash :: "string option"
  rv_event_hash :: string

record AgentReply =
  ar_text :: string
  ar_metadata :: "(string \<times> pyval) list"

record 'w AgentDescriptor =
  ad_actor_id :: string
  ad_display_name :: string
  ad_respond :: "RoomEvent \<Rightarrow> ('w, room_exn, AgentReply option) proc"
  ad_online :: bool
  ad_priority :: int
  ad_voice_identity :: "string option"

section \<open>The registry of agents\<close>

text \<open>\<open>_agents\<close>, in the order of registration\<close>

type_synonym 'w AgentRegistry = "'w AgentDescriptor list"

definition registry_get :: "'w AgentRegistry \<Rightarrow> string \<Rightarrow> 'w AgentDescriptor option" where
  "registry_get agents i = List.find (\<lambda>d. ad_actor_id d = i) agents"

definition registry_register ::
  "'w AgentDescriptor \<Rightarrow> ('w AgentRegistry, room_exn, unit) proc" where
  "registry_register d = (\<lambda>agents.
     if strip (ad_actor_id d) = [] then (Inl (RoomValueError ''agent actor_id must not be empty''), agents)
     else if registry_get agents (ad_actor_id d) \<noteq> None
       then (Inl (RoomValueError (''agent already registered: '' @ ad_actor_id d)), agents)
     else (Inr (), agents @ [d]))"

definition agent_le :: "'w AgentDescriptor \<Rightarrow> 'w AgentDescriptor \<Rightarrow> bool" where
  "agent_le d e \<longleftrightarrow> ad_priority d < ad_priority e \<or>
     ad_priority d = ad_priority e \<and> str_le (ad_actor_id d) (ad_actor_id e)"

definition registry_select :: "'w AgentRegistry \<Rightarrow> string \<Rightarrow> 'w AgentDescriptor list" where
  "registry_select agents target =
     sort_by agent_le
       (if target = ''*'' then filter ad_online agents
        else case registry_get agents target of
          None \<Rightarrow> []
        | Some one \<Rightarrow> if ad_online one then [one] else [])"

section \<open>The coordinator\<close>

text \<open>
  The services of a coordinator: the gateway, the hexadecimal text of a fresh \<open>uuid4\<close>, and the
  time stamp of a new draft.
\<close>

record 'w coordinator =
  rc_append :: "RoomEventDraft \<Rightarrow> TrustedActor \<Rightarrow> ('w, room_exn, RoomEvent) proc"
  rc_uuid :: "('w, room_exn, string) proc"
  rc_now :: "('w, room_exn, string) proc"
  rc_agents :: "'w AgentRegistry"

text \<open>\<open>event_id or f"evt_{uuid.uuid4().hex}"\<close>\<close>

definition event_id_or_new :: "'w coordinator \<Rightarrow> string option \<Rightarrow> ('w, room_exn, string) proc" where
  "event_id_or_new rc given =
     (case given of
        Some (c # i) \<Rightarrow> ret (c # i)
      | _ \<Rightarrow> bind (rc_uuid rc) (\<lambda>u. ret (''evt_'' @ u)))"

text \<open>The draft of a participant's own message; the time stamp is its default.\<close>

definition own_draft ::
  "string \<Rightarrow> string \<Rightarrow> TrustedActor \<Rightarrow> string \<Rightarrow> string \<Rightarrow> string \<Rightarrow> string \<Rightarrow> string \<Rightarrow> RoomEventDraft" where
  "own_draft room_id session_id actor target event_type body i t =
     \<lparr>dr_event_id = i, dr_room_id = PStr room_id, dr_session_id = PStr session_id,
      dr_actor_id = ta_actor_id actor, dr_actor_type = ta_actor_type actor,
      dr_target = PStr target, dr_event_type = PStr event_type,
      dr_payload = PDict [(''text'', PStr body)], dr_correlation_id = None,
      dr_causation_id = None, dr_metadata = [], dr_timestamp = t\<rparr>"

text \<open>\<open>{**a, **b}\<close>\<close>

fun dict_put :: "string \<times> pyval \<Rightarrow> (string \<times> pyval) list \<Rightarrow> (string \<times> pyval) list" where
  "dict_put (k, v) [] = [(k, v)]"
| "dict_put (k, v) ((k', v') # kvs) =
     (if k = k' then (k, v) # kvs else (k', v') # dict_put (k, v) kvs)"

definition dict_merge ::
  "(string \<times> pyval) list \<Rightarrow> (string \<times> pyval) list \<Rightarrow> (string \<times> pyval) list" where
  "dict_merge a b = fold dict_put b a"

definition agent_actor :: "string \<Rightarrow> string \<Rightarrow> 'w AgentDescriptor \<Rightarrow> TrustedActor" where
  "agent_actor room_id session_id d =
     \<lparr>ta_actor_id = ad_actor_id d, ta_actor_type = ''agent'', ta_display_name = ad_display_name d,
      ta_room_ids = [PStr room_id], ta_session_ids = [PStr session_id]\<rparr>"

definition reply_draft ::
  "string \<Rightarrow> string \<Rightarrow> TrustedActor \<Rightarrow> RoomEvent \<Rightarrow> 'w AgentDescriptor \<Rightarrow> AgentReply \<Rightarrow>
   string \<Rightarrow> string \<Rightarrow> RoomEventDraft" where
  "reply_draft room_id session_id actor user_event d r i t =
     \<lparr>dr_event_id = i, dr_room_id = PStr room_id, dr_session_id = PStr session_id,
      dr_actor_id = ad_actor_id d, dr_actor_type = ''agent'',
      dr_target = PStr (ta_actor_id actor), dr_event_type = PStr ''message.text'',
      dr_payload = PDict [(''text'', PStr (ar_text r))],
      dr_correlation_id = Some (rv_event_id user_event),
      dr_causation_id = Some (rv_event_id user_event),
      dr_metadata = dict_merge [(''display_name'', PStr (ad_display_name d))] (ar_metadata r),
      dr_timestamp = t\<rparr>"

definition system_actor :: "string \<Rightarrow> string \<Rightarrow> TrustedActor" where
  "system_actor room_id session_id =
     \<lparr>ta_actor_id = ''cybercore.system'', ta_actor_type = ''system'',
      ta_display_name = ''CyberCore'', ta_room_ids = [PStr room_id],
      ta_session_ids = [PStr session_id]\<rparr>"

definition error_draft ::
  "string \<Rightarrow> string \<Rightarrow> TrustedActor \<Rightarrow> RoomEvent \<Rightarrow> 'w AgentDescriptor \<Rightarrow> room_exn \<Rightarrow>
   string \<Rightarrow> string \<Rightarrow> RoomEventDraft" where
  "error_draft room_id session_id actor user_event d x i t =
     \<lparr>dr_event_id = i, dr_room_id = PStr room_id, dr_session_id = PStr session_id,
      dr_actor_id = ta_actor_id (system_actor room_id session_id),
      dr_actor_type = ta_actor_type (system_actor room_id session_id),
      dr_target = PStr (ta_actor_id actor), dr_event_type = PStr ''system.error'',
      dr_payload = PDict [(''code'', PStr ''agent_failed''), (''agent_id'', PStr (ad_actor_id d)),
        (''detail'', PStr (rx_type x))],
      dr_correlation_id = Some (rv_event_id user_event),
      dr_causation_id = Some (rv_event_id user_event), dr_metadata = [], dr_timestamp = t\<rparr>"

text \<open>The turn of one agent: what it appends to the list of events.\<close>

definition agent_reply ::
  "'w coordinator \<Rightarrow> string \<Rightarrow> string \<Rightarrow> TrustedActor \<Rightarrow> RoomEvent \<Rightarrow> 'w AgentDescriptor \<Rightarrow>
   ('w, room_exn, RoomEvent list) proc" where
  "agent_reply rc room_id session_id actor user_event d =
     bind (ad_respond d user_event) (\<lambda>reply.
       case reply of
         None \<Rightarrow> ret []
       | Some r \<Rightarrow>
           bind (rc_uuid rc) (\<lambda>u. bind (rc_now rc) (\<lambda>t.
           bind (rc_append rc (reply_draft room_id session_id actor user_event d r (''evt_'' @ u) t)
             (agent_actor room_id session_id d)) (\<lambda>e. ret [e]))))"

definition agent_failure ::
  "'w coordinator \<Rightarrow> string \<Rightarrow> string \<Rightarrow> TrustedActor \<Rightarrow> RoomEvent \<Rightarrow> 'w AgentDescriptor \<Rightarrow>
   room_exn \<Rightarrow> ('w, room_exn, RoomEvent list) proc" where
  "agent_failure rc room_id session_id actor user_event d x =
     bind (rc_uuid rc) (\<lambda>u. bind (rc_now rc) (\<lambda>t.
     bind (rc_append rc (error_draft room_id session_id actor user_event d x (''evt_'' @ u) t)
       (system_actor room_id session_id)) (\<lambda>e. ret [e])))"

definition agent_turn ::
  "'w coordinator \<Rightarrow> string \<Rightarrow> string \<Rightarrow> TrustedActor \<Rightarrow> RoomEvent \<Rightarrow> 'w AgentDescriptor \<Rightarrow>
   ('w, room_exn, RoomEvent list) proc" where
  "agent_turn rc room_id session_id actor user_event d =
     handle (agent_reply rc room_id session_id actor user_event d)
       (\<lambda>x. Some (agent_failure rc room_id session_id actor user_event d x))"

fun agent_turns ::
  "'w coordinator \<Rightarrow> string \<Rightarrow> string \<Rightarrow> TrustedActor \<Rightarrow> RoomEvent \<Rightarrow> 'w AgentDescriptor list \<Rightarrow>
   ('w, room_exn, RoomEvent list) proc" where
  "agent_turns rc room_id session_id actor user_event [] = ret []"
| "agent_turns rc room_id session_id actor user_event (d # ds) =
     bind (agent_turn rc room_id session_id actor user_event d) (\<lambda>es.
     bind (agent_turns rc room_id session_id actor user_event ds) (\<lambda>rest. ret (es @ rest)))"

definition append_own ::
  "'w coordinator \<Rightarrow> string \<Rightarrow> string \<Rightarrow> TrustedActor \<Rightarrow> string \<Rightarrow> string \<Rightarrow> string \<Rightarrow> string option \<Rightarrow>
   ('w, room_exn, RoomEvent) proc" where
  "append_own rc room_id session_id actor target event_type body event_id =
     bind (event_id_or_new rc event_id) (\<lambda>i. bind (rc_now rc) (\<lambda>t.
       rc_append rc (own_draft room_id session_id actor target event_type body i t) actor))"

definition submit_text ::
  "'w coordinator \<Rightarrow> string \<Rightarrow> string \<Rightarrow> TrustedActor \<Rightarrow> string \<Rightarrow> string \<Rightarrow> string option \<Rightarrow>
   ('w, room_exn, RoomEvent list) proc" where
  "submit_text rc room_id session_id actor body target event_id =
     (if strip body = [] then raise (RoomValueError ''message text must not be empty'')
      else
        bind (append_own rc room_id session_id actor target ''message.text'' body event_id)
          (\<lambda>user_event.
        bind (agent_turns rc room_id session_id actor user_event
          (registry_select (rc_agents rc) target)) (\<lambda>es. ret (user_event # es))))"

definition submit_voice_transcript ::
  "'w coordinator \<Rightarrow> string \<Rightarrow> string \<Rightarrow> TrustedActor \<Rightarrow> string \<Rightarrow> string \<Rightarrow> string option \<Rightarrow>
   ('w, room_exn, RoomEvent) proc" where
  "submit_voice_transcript rc room_id session_id actor transcript target event_id =
     (if strip transcript = [] then raise (RoomValueError ''transcript must not be empty'')
      else append_own rc room_id session_id actor target ''message.voice.transcript'' transcript event_id)"

text \<open>The agents of the tests and of the local runtime.\<close>

definition EchoAgent :: "string \<Rightarrow> (pyval \<Rightarrow> string) \<Rightarrow> RoomEvent \<Rightarrow> ('w, room_exn, AgentReply option) proc" where
  "EchoAgent name show_val e =
     (case rv_payload e of
        PDict kvs \<Rightarrow> ret (Some \<lparr>ar_text = name @ '': '' @
          (case map_of kvs ''text'' of None \<Rightarrow> '''' | Some v \<Rightarrow> show_val v), ar_metadata = []\<rparr>)
      | _ \<Rightarrow> raise (RExc OtherExn ''AttributeError'' ''get''))"

definition FailingAgent :: "RoomEvent \<Rightarrow> ('w, room_exn, AgentReply option) proc" where
  "FailingAgent e = raise (RExc OtherExn ''RuntimeError'' ''deterministic test failure'')"

section \<open>The gateway onto the event store\<close>

text \<open>What \<open>event.to_dict()\<close> of a stored event gives; the last five keys may be missing.\<close>

record StoredEvent =
  se_event_id :: string
  se_timestamp :: string
  se_sequence :: int
  se_room_id :: string
  se_session_id :: string
  se_actor_id :: string
  se_actor_type :: string
  se_target :: string
  se_event_type :: string
  se_payload :: pyval
  se_correlation_id :: "string option"
  se_causation_id :: "string option"
  se_metadata :: "(string \<times> pyval) list option"
  se_previous_hash :: "string option"
  se_event_hash :: "string option"

definition to_core :: "StoredEvent \<Rightarrow> RoomEvent" where
  "to_core e =
     \<lparr>rv_event_id = se_event_id e, rv_timestamp = se_timestamp e, rv_sequence = se_sequence e,
      rv_room_id = se_room_id e, rv_session_id = se_session_id e, rv_actor_id = se_actor_id e,
      rv_actor_type = se_actor_type e, rv_target = se_target e, rv_event_type = se_event_type e,
      rv_payload = se_payload e, rv_correlation_id = se_correlation_id e,
      rv_causation_id = se_causation_id e,
      rv_metadata = (case se_metadata e of None \<Rightarrow> [] | Some m \<Rightarrow> m),
      rv_previous_hash = se_previous_hash e,
      rv_event_hash = (case se_event_hash e of None \<Rightarrow> '''' | Some h \<Rightarrow> h)\<rparr>"

text \<open>\<open>EventAccessContext\<close>\<close>

record EventAccessContext =
  ec_actor_id :: string
  ec_actor_type :: string
  ec_room_ids :: "pyval list"
  ec_session_ids :: "pyval list"

definition access_context :: "TrustedActor \<Rightarrow> EventAccessContext" where
  "access_context a =
     \<lparr>ec_actor_id = ta_actor_id a, ec_actor_type = ta_actor_type a, ec_room_ids = ta_room_ids a,
      ec_session_ids = ta_session_ids a\<rparr>"

text \<open>The store gets the fields of the draft and the context of the actor.\<close>

definition hive_append ::
  "(RoomEventDraft \<Rightarrow> EventAccessContext \<Rightarrow> ('w, room_exn, StoredEvent) proc) \<Rightarrow>
   RoomEventDraft \<Rightarrow> TrustedActor \<Rightarrow> ('w, room_exn, RoomEvent) proc" where
  "hive_append store_append draft actor =
     bind (store_append draft (access_context actor)) (\<lambda>e. ret (to_core e))"

section \<open>Contracts\<close>

text \<open>The event says what the draft said.\<close>

definition carries :: "RoomEventDraft \<Rightarrow> RoomEvent \<Rightarrow> bool" where
  "carries d e \<longleftrightarrow>
     rv_event_id e = dr_event_id d \<and> PStr (rv_room_id e) = dr_room_id d \<and>
     PStr (rv_session_id e) = dr_session_id d \<and> rv_actor_id e = dr_actor_id d \<and>
     rv_actor_type e = dr_actor_type d \<and> PStr (rv_target e) = dr_target d \<and>
     PStr (rv_event_type e) = dr_event_type d \<and> rv_payload e = dr_payload d \<and>
     rv_correlation_id e = dr_correlation_id d \<and> rv_causation_id e = dr_causation_id d \<and>
     rv_metadata e = dr_metadata d"

text \<open>A procedure keeps \<open>J\<close>, and raises only when \<open>fails\<close>.\<close>

definition keeps :: "('w \<Rightarrow> bool) \<Rightarrow> bool \<Rightarrow> ('w, room_exn, 'a) proc \<Rightarrow> bool" where
  "keeps J fails m \<longleftrightarrow> (\<forall>w. J w \<longrightarrow> wp m (\<lambda>_. J) (\<lambda>_ w'. fails \<and> J w') w)"

lemma keeps_wp:
  "keeps J fails m \<Longrightarrow> J w \<Longrightarrow> (\<And>a w'. J w' \<Longrightarrow> Q a w') \<Longrightarrow> (\<And>x w'. fails \<Longrightarrow> J w' \<Longrightarrow> E x w') \<Longrightarrow>
    wp m Q E w"
  using wp_mono [of m "\<lambda>_. J" "\<lambda>_ w'. fails \<and> J w'" w Q E] unfolding keeps_def by blast

text \<open>
  A gateway on the calls that \<open>P\<close> allows: it keeps \<open>J\<close>, raises only when \<open>fails\<close>, and returns an
  event that carries the draft.
\<close>

definition gateway_contract ::
  "(RoomEventDraft \<Rightarrow> TrustedActor \<Rightarrow> ('w, room_exn, RoomEvent) proc) \<Rightarrow>
   (RoomEventDraft \<Rightarrow> TrustedActor \<Rightarrow> bool) \<Rightarrow> ('w \<Rightarrow> bool) \<Rightarrow> bool \<Rightarrow> bool" where
  "gateway_contract post P J fails \<longleftrightarrow>
     (\<forall>d a w. P d a \<longrightarrow> J w \<longrightarrow>
        wp (post d a) (\<lambda>e w'. carries d e \<and> J w') (\<lambda>_ w'. fails \<and> J w') w)"

lemma gateway_wp:
  "gateway_contract post P J fails \<Longrightarrow> P d a \<Longrightarrow> J w \<Longrightarrow>
    (\<And>e w'. carries d e \<Longrightarrow> J w' \<Longrightarrow> Q e w') \<Longrightarrow> (\<And>x w'. fails \<Longrightarrow> J w' \<Longrightarrow> E x w') \<Longrightarrow>
    wp (post d a) Q E w"
  using wp_mono [of "post d a" "\<lambda>e w'. carries d e \<and> J w'" "\<lambda>_ w'. fails \<and> J w'" w Q E]
  unfolding gateway_contract_def by blast

lemma wp_ret_fun: "wp (ret a) Q E = Q a"
  by (rule ext) (rule wp_ret)

lemma wp_bind_fun: "wp (bind m f) Q E = wp m (\<lambda>a. wp (f a) Q E) E"
  by (rule ext) (rule wp_bind)

text \<open>The calls that a turn of \<open>actor\<close> in a room makes: each participant speaks for itself.\<close>

definition room_call :: "TrustedActor \<Rightarrow> 'w AgentRegistry \<Rightarrow> RoomEventDraft \<Rightarrow> TrustedActor \<Rightarrow> bool" where
  "room_call actor agents d a \<longleftrightarrow>
     dr_actor_id d = ta_actor_id a \<and> dr_actor_type d = ta_actor_type a \<and>
     (\<exists>r. dr_room_id d = PStr r) \<and> (\<exists>s. dr_session_id d = PStr s) \<and>
     (\<exists>t. dr_target d = PStr t) \<and> (\<exists>y. dr_event_type d = PStr y) \<and>
     (a = actor \<or>
      (\<exists>g\<in>set agents. ta_actor_id a = ad_actor_id g \<and> ta_actor_type a = ''agent'') \<or>
      ta_actor_id a = ''cybercore.system'' \<and> ta_actor_type a = ''system'')"

section \<open>Selection\<close>

lemma registry_get_in: "registry_get agents i = Some d \<Longrightarrow> d \<in> set agents \<and> ad_actor_id d = i"
  by (auto simp: registry_get_def find_Some_iff)

lemma registry_select_set:
  "d \<in> set (registry_select agents target) \<longleftrightarrow>
     ad_online d \<and> (if target = ''*'' then d \<in> set agents else registry_get agents target = Some d)"
  by (auto simp: registry_select_def split: option.splits)

lemma selected_registered: "d \<in> set (registry_select agents target) \<Longrightarrow> d \<in> set agents"
  using registry_get_in by (fastforce simp: registry_select_set split: if_splits)

lemma agent_le_total: "agent_le d e \<or> agent_le e d"
  using str_le_total [of "ad_actor_id d" "ad_actor_id e"] unfolding agent_le_def by linarith

lemma agent_le_trans:
  assumes "agent_le d e" and "agent_le e f"
  shows "agent_le d f"
  using assms str_le_trans [of "ad_actor_id d" "ad_actor_id e" "ad_actor_id f"]
  unfolding agent_le_def by auto

lemma selection_sorted: "sorted_wrt agent_le (registry_select agents target)"
  unfolding registry_select_def by (rule sorted_sort_by [OF agent_le_total agent_le_trans])

section \<open>Turns\<close>

text \<open>What an agent contributes to a turn: nothing, its reply, or the report that it failed, each
  naming the message it is about.\<close>

definition answers :: "TrustedActor \<Rightarrow> RoomEvent \<Rightarrow> 'w AgentDescriptor \<Rightarrow> RoomEvent list \<Rightarrow> bool" where
  "answers actor user_event d es \<longleftrightarrow>
     es = [] \<or>
     (\<exists>e. es = [e] \<and> rv_target e = ta_actor_id actor \<and>
        rv_room_id e = rv_room_id user_event \<and> rv_session_id e = rv_session_id user_event \<and>
        rv_correlation_id e = Some (rv_event_id user_event) \<and>
        rv_causation_id e = Some (rv_event_id user_event) \<and>
        (rv_actor_id e = ad_actor_id d \<and> rv_actor_type e = ''agent'' \<and>
           rv_event_type e = ''message.text'' \<and>
           (\<exists>t. rv_payload e = PDict [(''text'', PStr t)]) \<or>
         rv_actor_id e = ''cybercore.system'' \<and> rv_actor_type e = ''system'' \<and>
           rv_event_type e = ''system.error'' \<and>
           (\<exists>t. rv_payload e = PDict [(''code'', PStr ''agent_failed''),
              (''agent_id'', PStr (ad_actor_id d)), (''detail'', PStr t)])))"

lemma reply_answers:
  assumes "carries (reply_draft (rv_room_id u) (rv_session_id u) actor u d r i t) e"
  shows "answers actor u d [e]"
  using assms by (simp add: answers_def carries_def reply_draft_def)

lemma error_answers:
  assumes "carries (error_draft (rv_room_id u) (rv_session_id u) actor u d x i t) e"
  shows "answers actor u d [e]"
  using assms by (simp add: answers_def carries_def error_draft_def system_actor_def)

lemma room_calls:
  "room_call actor agents (own_draft room_id session_id actor target ty body i t) actor"
  "d \<in> set agents \<Longrightarrow> room_call actor agents (reply_draft room_id session_id actor u d r i t)
     (agent_actor room_id session_id d)"
  "room_call actor agents (error_draft room_id session_id actor u d x i t)
     (system_actor room_id session_id)"
  by (auto simp: room_call_def own_draft_def reply_draft_def agent_actor_def error_draft_def
      system_actor_def)

lemma agent_failure_wp:
  fixes rc :: "'w coordinator" and agents :: "'w AgentRegistry"
  assumes gateway: "gateway_contract (rc_append rc) (room_call actor agents) J fails"
    and uuid: "keeps J fails (rc_uuid rc)" and now: "keeps J fails (rc_now rc)" and J: "J w"
  shows "wp (agent_failure rc (rv_room_id u) (rv_session_id u) actor u d x)
    (\<lambda>es w'. answers actor u d es \<and> J w') (\<lambda>_ w'. fails \<and> J w') w"
  unfolding agent_failure_def wp_bind wp_ret
  apply (rule keeps_wp [OF uuid J])
   apply (erule keeps_wp [OF now])
    apply (erule gateway_wp [OF gateway room_calls(3)])
     apply (simp_all add: error_answers)
  done

lemma agent_reply_wp:
  assumes gateway: "gateway_contract (rc_append rc) (room_call actor agents) J fails"
    and uuid: "keeps J fails (rc_uuid rc)" and now: "keeps J fails (rc_now rc)"
    and agent: "keeps J True (ad_respond d u)" and d: "d \<in> set agents" and J: "J w"
  shows "wp (agent_reply rc (rv_room_id u) (rv_session_id u) actor u d)
    (\<lambda>es w'. answers actor u d es \<and> J w') (\<lambda>_ w'. J w') w"
  unfolding agent_reply_def wp_bind wp_case_option wp_ret
proof (rule keeps_wp [OF agent J])
  fix reply w' assume J': "J w'"
  have reply: "wp (rc_uuid rc) (\<lambda>uid. wp (rc_now rc) (\<lambda>t.
      wp (rc_append rc (reply_draft (rv_room_id u) (rv_session_id u) actor u d r (''evt_'' @ uid) t)
        (agent_actor (rv_room_id u) (rv_session_id u) d))
        (\<lambda>e w'. answers actor u d [e] \<and> J w') (\<lambda>_. J)) (\<lambda>_. J)) (\<lambda>_. J) w'" for r
    apply (rule keeps_wp [OF uuid J'])
     apply (erule keeps_wp [OF now])
      apply (erule gateway_wp [OF gateway room_calls(2) [OF d]])
       apply (simp_all add: reply_answers)
    done
  show "case reply of
      None \<Rightarrow> answers actor u d [] \<and> J w'
    | Some r \<Rightarrow> wp (rc_uuid rc) (\<lambda>uid. wp (rc_now rc) (\<lambda>t.
        wp (rc_append rc (reply_draft (rv_room_id u) (rv_session_id u) actor u d r (''evt_'' @ uid) t)
          (agent_actor (rv_room_id u) (rv_session_id u) d))
          (\<lambda>e w'. answers actor u d [e] \<and> J w') (\<lambda>_. J)) (\<lambda>_. J)) (\<lambda>_. J) w'"
    using J' reply by (simp add: answers_def split: option.split)
qed

lemma agent_turn_wp:
  assumes gateway: "gateway_contract (rc_append rc) (room_call actor agents) J fails"
    and uuid: "keeps J fails (rc_uuid rc)" and now: "keeps J fails (rc_now rc)"
    and agent: "keeps J True (ad_respond d u)" and d: "d \<in> set agents" and J: "J w"
  shows "wp (agent_turn rc (rv_room_id u) (rv_session_id u) actor u d)
    (\<lambda>es w'. answers actor u d es \<and> J w') (\<lambda>_ w'. fails \<and> J w') w"
  unfolding agent_turn_def wp_handle
  by (rule wp_mono [OF agent_reply_wp [OF gateway uuid now agent d J]])
    (simp_all add: agent_failure_wp [OF gateway uuid now])

lemma agent_turns_wp:
  assumes gateway: "gateway_contract (rc_append rc) (room_call actor agents) J fails"
    and uuid: "keeps J fails (rc_uuid rc)" and now: "keeps J fails (rc_now rc)"
    and agents: "\<And>d e. d \<in> set agents \<Longrightarrow> keeps J True (ad_respond d e)"
  shows "set ds \<subseteq> set agents \<Longrightarrow> J w \<Longrightarrow>
    wp (agent_turns rc (rv_room_id u) (rv_session_id u) actor u ds)
    (\<lambda>es w'. (\<exists>ess. es = concat ess \<and> list_all2 (answers actor u) ds ess) \<and> J w')
    (\<lambda>_ w'. fails \<and> J w') w"
proof (induction ds arbitrary: w)
  case Nil
  then show ?case by (simp add: wp_simps)
next
  case (Cons d ds)
  from Cons.prems have d: "d \<in> set agents" and ds: "set ds \<subseteq> set agents" by auto
  have rest: "wp (agent_turns rc (rv_room_id u) (rv_session_id u) actor u ds)
      (\<lambda>rest w'. wp (ret (es @ rest)) (\<lambda>es w'.
        (\<exists>ess. es = concat ess \<and> list_all2 (answers actor u) (d # ds) ess) \<and> J w')
        (\<lambda>_ w'. fails \<and> J w') w') (\<lambda>_ w'. fails \<and> J w') w'"
    if es: "answers actor u d es" "J w'" for es w'
  proof (rule wp_mono [OF Cons.IH [OF ds es(2)]])
    fix rest t
    assume "(\<exists>ess. rest = concat ess \<and> list_all2 (answers actor u) ds ess) \<and> J t"
    then obtain ess where "rest = concat ess" "list_all2 (answers actor u) ds ess" "J t"
      by blast
    with es(1) show "wp (ret (es @ rest)) (\<lambda>es w'.
        (\<exists>ess. es = concat ess \<and> list_all2 (answers actor u) (d # ds) ess) \<and> J w')
        (\<lambda>_ w'. fails \<and> J w') t"
      by (auto simp: wp_simps intro!: exI [of _ "es # ess"])
  qed
  show ?case
    unfolding agent_turns.simps wp_bind
    by (rule wp_mono [OF agent_turn_wp [OF gateway uuid now agents [OF d] d Cons.prems(2)]])
      (use rest in auto)
qed

end
