(* ===== verification/Wake_Dispatcher.thy ===== *)
theory Wake_Dispatcher
  imports Room_Model
begin

text \<open>
  Wake-up of the participants (\<open>wake/dispatcher.py\<close>, \<open>wake/gateway.py\<close> and the text that
  \<open>wake/slack.py\<close> sends). The thread of the dispatcher and the thread that appends events run
  interleaved: \<open>wake_step\<close> gives the atomic steps of both, and a run is any list of them. The locks
  of \<open>queue.Queue\<close> make \<open>put_nowait\<close> and \<open>get\<close> atomic; log output is left out. The sets of sinks
  is given by the names of the targets, and a delivery is recorded whether \<open>send\<close> succeeds or
  raises.
\<close>

section \<open>Requests\<close>

definition WAKE_EVENT_TYPES :: "string list" where
  "WAKE_EVENT_TYPES = [''message.text'', ''message.voice.transcript'', ''task.created'']"

record WakeRequest =
  wk_wake_id :: string
  wk_target :: string
  wk_room_id :: string
  wk_session_id :: string
  wk_event_id :: string
  wk_sequence :: int
  wk_event_type :: string

definition from_event :: "RoomEvent \<Rightarrow> string \<Rightarrow> WakeRequest" where
  "from_event e target =
     \<lparr>wk_wake_id = ''wake:'' @ target @ '':'' @ rv_event_id e, wk_target = target,
      wk_room_id = rv_room_id e, wk_session_id = rv_session_id e, wk_event_id = rv_event_id e,
      wk_sequence = rv_sequence e, wk_event_type = rv_event_type e\<rparr>"

definition targets_for :: "string list \<Rightarrow> RoomEvent \<Rightarrow> string list" where
  "targets_for sinks e =
     (if rv_event_type e \<notin> set WAKE_EVENT_TYPES then []
      else if rv_target e = ''*''
        then sort_strings (filter (\<lambda>t. t \<noteq> rv_actor_id e) sinks)
      else if rv_target e \<in> set sinks \<and> rv_target e \<noteq> rv_actor_id e then [rv_target e]
      else [])"

definition requests_for :: "string list \<Rightarrow> RoomEvent \<Rightarrow> WakeRequest list" where
  "requests_for sinks e = map (from_event e) (targets_for sinks e)"

text \<open>\<open>SlackIncomingWebhookWakeSink.render\<close>\<close>

definition render_wake :: "WakeRequest \<Rightarrow> string" where
  "render_wake r = joined [CHR 0x0A]
     [''CYBERDJS_WAKE'', ''target='' @ wk_target r, ''room='' @ wk_room_id r,
      ''session='' @ wk_session_id r, ''event='' @ wk_event_id r,
      ''sequence='' @ int_str (wk_sequence r), ''type='' @ wk_event_type r]"

section \<open>The dispatcher\<close>

datatype queue_item = Wake WakeRequest | STOP

text \<open>The thread: not running, at the test of its loop, in \<open>get\<close>, or with an item.\<close>

datatype worker = Dead | AtTop | Getting | Holding queue_item

record WakeDispatcher =
  wd_sinks :: "string list"
  wd_size :: nat
  wd_queue :: "queue_item list"
  wd_unfinished :: nat
  wd_stopped :: bool
  wd_created :: bool
  wd_worker :: worker

definition WakeDispatcher_init :: "string list \<Rightarrow> int \<Rightarrow> room_exn + WakeDispatcher" where
  "WakeDispatcher_init sinks queue_size =
     (if queue_size \<le> 0 then Inl (RoomValueError ''queue_size must be positive'')
      else Inr \<lparr>wd_sinks = sinks, wd_size = nat queue_size, wd_queue = [], wd_unfinished = 0,
                wd_stopped = False, wd_created = False, wd_worker = Dead\<rparr>)"

text \<open>\<open>put_nowait\<close>: whether there was room.\<close>

definition put_nowait :: "queue_item \<Rightarrow> WakeDispatcher \<Rightarrow> bool \<times> WakeDispatcher" where
  "put_nowait x d =
     (if wd_size d \<le> length (wd_queue d) then (False, d)
      else (True, d\<lparr>wd_queue := wd_queue d @ [x], wd_unfinished := wd_unfinished d + 1\<rparr>))"

definition dispatcher_start :: "WakeDispatcher \<Rightarrow> WakeDispatcher" where
  "dispatcher_start d =
     (if wd_worker d \<noteq> Dead then d
      else d\<lparr>wd_stopped := False, wd_created := True, wd_worker := AtTop\<rparr>)"

text \<open>\<open>submit\<close> when no other step comes between its puts.\<close>

fun submit_requests :: "WakeRequest list \<Rightarrow> WakeDispatcher \<Rightarrow> WakeRequest list \<times> WakeDispatcher" where
  "submit_requests [] d = ([], d)"
| "submit_requests (r # rs) d =
     (case put_nowait (Wake r) d of
        (ok, d') \<Rightarrow> (case submit_requests rs d' of
          (accepted, d'') \<Rightarrow> (if ok then r # accepted else accepted, d'')))"

definition dispatcher_submit :: "RoomEvent \<Rightarrow> WakeDispatcher \<Rightarrow> WakeRequest list \<times> WakeDispatcher" where
  "dispatcher_submit e d = submit_requests (requests_for (wd_sinks d) e) d"

text \<open>One check of \<open>drain\<close>.\<close>

definition drained :: "WakeDispatcher \<Rightarrow> bool" where
  "drained d \<longleftrightarrow> wd_unfinished d = 0"

text \<open>The two effects of \<open>stop\<close>, before and after it waits for the thread.\<close>

definition stop_put :: "WakeDispatcher \<Rightarrow> WakeDispatcher" where
  "stop_put d = (if \<not> wd_created d then d else snd (put_nowait STOP d))"

definition stop_set :: "WakeDispatcher \<Rightarrow> WakeDispatcher" where
  "stop_set d = (if \<not> wd_created d then d else d\<lparr>wd_stopped := True\<rparr>)"

text \<open>\<open>_run\<close>: the test of the loop, \<open>get\<close> with its time out on an empty queue, and what is done
  with an item: the request given to a sink, if any, and \<open>task_done\<close>.\<close>

definition worker_step :: "WakeDispatcher \<Rightarrow> WakeRequest option \<times> WakeDispatcher" where
  "worker_step d =
     (case wd_worker d of
        Dead \<Rightarrow> (None, d)
      | AtTop \<Rightarrow> (None, d\<lparr>wd_worker := (if wd_stopped d then Dead else Getting)\<rparr>)
      | Getting \<Rightarrow>
          (case wd_queue d of
             [] \<Rightarrow> (None, d\<lparr>wd_worker := AtTop\<rparr>)
           | x # xs \<Rightarrow> (None, d\<lparr>wd_queue := xs, wd_worker := Holding x\<rparr>))
      | Holding STOP \<Rightarrow> (None, d\<lparr>wd_unfinished := wd_unfinished d - 1, wd_worker := Dead\<rparr>)
      | Holding (Wake r) \<Rightarrow>
          (if wk_target r \<in> set (wd_sinks d) then Some r else None,
           d\<lparr>wd_unfinished := wd_unfinished d - 1, wd_worker := AtTop\<rparr>))"

section \<open>The gateway that wakes\<close>

text \<open>The state is the world of the delegate and the dispatcher.\<close>

definition wake_append ::
  "(RoomEventDraft \<Rightarrow> TrustedActor \<Rightarrow> ('w, room_exn, RoomEvent) proc) \<Rightarrow>
   RoomEventDraft \<Rightarrow> TrustedActor \<Rightarrow> ('w \<times> WakeDispatcher, room_exn, RoomEvent) proc" where
  "wake_append delegate draft actor =
     bind (zoom fst (\<lambda>w s. (w, snd s)) (delegate draft actor)) (\<lambda>persisted.
     seq (modify (\<lambda>(w, d). (w, snd (dispatcher_submit persisted d))))
       (ret persisted))"

section \<open>Interleaved runs\<close>

text \<open>
  \<open>pending\<close> are the requests that the appending thread has still to put. Appends are serialised
  (by the lock of the broker), so an event is persisted only when nothing is pending. The other
  fields are histories: what was persisted, accepted by the queue, refused by it, and handed to a
  sink.
\<close>

record wake_system =
  ws_dispatcher :: WakeDispatcher
  ws_pending :: "WakeRequest list"
  ws_persisted :: "RoomEvent list"
  ws_accepted :: "WakeRequest list"
  ws_refused :: "WakeRequest list"
  ws_sent :: "WakeRequest list"

datatype wake_action =
    Persist RoomEvent
  | Put
  | Start
  | StopPut
  | StopSet
  | Work

definition wake_step :: "wake_action \<Rightarrow> wake_system \<Rightarrow> wake_system" where
  "wake_step c s =
     (case c of
        Persist e \<Rightarrow>
          (if ws_pending s \<noteq> [] then s
           else s\<lparr>ws_persisted := ws_persisted s @ [e],
                  ws_pending := requests_for (wd_sinks (ws_dispatcher s)) e\<rparr>)
      | Put \<Rightarrow>
          (case ws_pending s of
             [] \<Rightarrow> s
           | r # rs \<Rightarrow>
               (case put_nowait (Wake r) (ws_dispatcher s) of
                  (ok, d) \<Rightarrow>
                    (if ok then s\<lparr>ws_dispatcher := d, ws_pending := rs, ws_accepted := ws_accepted s @ [r]\<rparr>
                     else s\<lparr>ws_pending := rs, ws_refused := ws_refused s @ [r]\<rparr>)))
      | Start \<Rightarrow> s\<lparr>ws_dispatcher := dispatcher_start (ws_dispatcher s)\<rparr>
      | StopPut \<Rightarrow> s\<lparr>ws_dispatcher := stop_put (ws_dispatcher s)\<rparr>
      | StopSet \<Rightarrow> s\<lparr>ws_dispatcher := stop_set (ws_dispatcher s)\<rparr>
      | Work \<Rightarrow>
          (case worker_step (ws_dispatcher s) of
             (sent, d) \<Rightarrow> s\<lparr>ws_dispatcher := d,
               ws_sent := ws_sent s @ (case sent of None \<Rightarrow> [] | Some r \<Rightarrow> [r])\<rparr>))"

definition wake_start :: "string list \<Rightarrow> nat \<Rightarrow> wake_system" where
  "wake_start sinks capacity =
     \<lparr>ws_dispatcher = \<lparr>wd_sinks = sinks, wd_size = capacity, wd_queue = [], wd_unfinished = 0,
        wd_stopped = False, wd_created = False, wd_worker = Dead\<rparr>,
      ws_pending = [], ws_persisted = [], ws_accepted = [], ws_refused = [], ws_sent = []\<rparr>"

section \<open>The invariant\<close>

definition wakes_of :: "queue_item list \<Rightarrow> WakeRequest list" where
  "wakes_of xs = concat (map (\<lambda>x. case x of Wake r \<Rightarrow> [r] | STOP \<Rightarrow> []) xs)"

definition held :: "WakeDispatcher \<Rightarrow> queue_item list" where
  "held d = (case wd_worker d of Holding x \<Rightarrow> [x] | _ \<Rightarrow> [])"

lemma wakes_of_simps [simp]:
  "wakes_of [] = []" "wakes_of (Wake r # xs) = r # wakes_of xs" "wakes_of (STOP # xs) = wakes_of xs"
  "wakes_of (xs @ ys) = wakes_of xs @ wakes_of ys"
  by (simp_all add: wakes_of_def)

text \<open>Who may be woken by an event: a target of it that is not its author.\<close>

definition may_wake :: "string list \<Rightarrow> RoomEvent \<Rightarrow> string \<Rightarrow> bool" where
  "may_wake sinks e t \<longleftrightarrow>
     rv_event_type e \<in> {''message.text'', ''message.voice.transcript'', ''task.created''} \<and>
     t \<in> set sinks \<and> t \<noteq> rv_actor_id e \<and> (rv_target e = ''*'' \<or> rv_target e = t)"

lemma targets_may_wake:
  "''*'' \<notin> set sinks \<Longrightarrow> t \<in> set (targets_for sinks e) \<longleftrightarrow> may_wake sinks e t"
  by (auto simp: targets_for_def may_wake_def WAKE_EVENT_TYPES_def)

definition wake_inv :: "wake_system \<Rightarrow> bool" where
  "wake_inv s \<longleftrightarrow>
     (let d = ws_dispatcher s in
      ws_accepted s = ws_sent s @ wakes_of (held d) @ wakes_of (wd_queue d) \<and>
      wd_unfinished d = length (held d) + length (wd_queue d) \<and>
      length (wd_queue d) \<le> wd_size d \<and>
      mset (concat (map (requests_for (wd_sinks d)) (ws_persisted s))) =
        mset (ws_pending s) + mset (ws_accepted s) + mset (ws_refused s) \<and>
      (\<forall>r\<in>set (ws_accepted s). wk_target r \<in> set (wd_sinks d)))"

lemma requests_to_sinks: "r \<in> set (requests_for sinks e) \<Longrightarrow> wk_target r \<in> set sinks"
  by (auto simp: requests_for_def targets_for_def from_event_def split: if_splits)

lemma pending_to_sinks:
  assumes "wake_inv s" and "r \<in> set (ws_pending s)"
  shows "wk_target r \<in> set (wd_sinks (ws_dispatcher s))"
proof -
  let ?all = "concat (map (requests_for (wd_sinks (ws_dispatcher s))) (ws_persisted s))"
  from assms(1) have "mset ?all = mset (ws_pending s) + mset (ws_accepted s) + mset (ws_refused s)"
    by (simp add: wake_inv_def Let_def)
  with assms(2) have "r \<in># mset ?all" by simp
  then show ?thesis using requests_to_sinks by auto
qed

lemma work_inv:
  assumes "wake_inv s"
  shows "wake_inv (wake_step Work s)"
proof (cases "wd_worker (ws_dispatcher s)")
  case Dead
  with assms show ?thesis by (simp add: wake_step_def worker_step_def)
next
  case AtTop
  with assms show ?thesis by (simp add: wake_step_def worker_step_def wake_inv_def held_def Let_def)
next
  case Getting
  with assms show ?thesis
    by (cases "wd_queue (ws_dispatcher s)")
      (simp_all add: wake_step_def worker_step_def wake_inv_def held_def Let_def wakes_of_def)
next
  case (Holding x)
  with assms show ?thesis
    by (cases x) (simp_all add: wake_step_def worker_step_def wake_inv_def held_def Let_def)
qed

lemma put_inv:
  assumes "wake_inv s"
  shows "wake_inv (wake_step Put s)"
proof (cases "ws_pending s")
  case Nil
  with assms show ?thesis by (simp add: wake_step_def)
next
  case (Cons r rs)
  with pending_to_sinks [OF assms, of r] assms show ?thesis
    by (auto simp: wake_step_def put_nowait_def wake_inv_def held_def Let_def)
qed

lemma wake_step_inv: "wake_inv s \<Longrightarrow> wake_inv (wake_step c s)"
proof (cases c)
  case (Persist e)
  assume "wake_inv s"
  with Persist show ?thesis by (auto simp: wake_step_def wake_inv_def held_def Let_def)
next
  case Start
  assume "wake_inv s"
  with Start show ?thesis
    by (simp add: wake_step_def wake_inv_def dispatcher_start_def held_def Let_def)
next
  case StopPut
  assume "wake_inv s"
  with StopPut show ?thesis
    by (auto simp: wake_step_def wake_inv_def stop_put_def put_nowait_def held_def Let_def)
next
  case StopSet
  assume "wake_inv s"
  with StopSet show ?thesis
    by (simp add: wake_step_def wake_inv_def stop_set_def held_def Let_def)
qed (simp_all add: work_inv put_inv)

interpretation wakes: reactive wake_step "\<lambda>_. True" wake_inv
  by unfold_locales (rule wake_step_inv)

lemma wake_run_inv: "wake_inv (fold wake_step cs (wake_start sinks capacity))"
  by (rule wakes.run_inv) (simp_all add: list_all_iff wake_inv_def wake_start_def held_def)

lemma step_config:
  "wd_sinks (ws_dispatcher (wake_step c s)) = wd_sinks (ws_dispatcher s) \<and>
   wd_size (ws_dispatcher (wake_step c s)) = wd_size (ws_dispatcher s)"
  by (auto simp: wake_step_def put_nowait_def dispatcher_start_def stop_put_def stop_set_def
      worker_step_def split: wake_action.split list.split worker.split queue_item.split option.split)

lemma run_config:
  "wd_sinks (ws_dispatcher (fold wake_step cs s)) = wd_sinks (ws_dispatcher s) \<and>
   wd_size (ws_dispatcher (fold wake_step cs s)) = wd_size (ws_dispatcher s)"
  by (induction cs arbitrary: s) (simp_all add: step_config)

text \<open>C36: whatever the interleaving of the appending thread, the dispatcher thread and its starts
  and stops, wake requests are a lossless first-in first-out channel behind a bounded queue: what
  was accepted is what was handed to the sinks, then what the thread holds, then what is queued,
  each once and in order; every request that the persisted events call for is pending, accepted or
  refused because the queue was full, and there are no others; each names an event persisted
  before, and a participant that the event may wake, never its author; and when \<open>drain\<close> finds
  nothing unfinished, everything accepted has been handed over.\<close>

theorem wake_requests_delivered:
  assumes "''*'' \<notin> set sinks" and "s = fold wake_step actions (wake_start sinks capacity)"
  shows "ws_accepted s =
      ws_sent s @ wakes_of (held (ws_dispatcher s)) @ wakes_of (wd_queue (ws_dispatcher s)) \<and>
    length (wd_queue (ws_dispatcher s)) \<le> capacity \<and>
    mset (concat (map (requests_for sinks) (ws_persisted s))) =
      mset (ws_pending s) + mset (ws_accepted s) + mset (ws_refused s) \<and>
    (\<forall>r\<in>set (ws_accepted s). \<exists>e\<in>set (ws_persisted s). \<exists>t. r = from_event e t \<and> may_wake sinks e t) \<and>
    (drained (ws_dispatcher s) \<longrightarrow> ws_sent s = ws_accepted s)"
proof -
  have config: "wd_sinks (ws_dispatcher s) = sinks" "wd_size (ws_dispatcher s) = capacity"
    using run_config [of actions "wake_start sinks capacity"] by (simp_all add: assms(2) wake_start_def)
  have inv: "wake_inv s" using wake_run_inv assms(2) by simp
  have all: "mset (concat (map (requests_for sinks) (ws_persisted s))) =
      mset (ws_pending s) + mset (ws_accepted s) + mset (ws_refused s)"
    using inv by (simp add: wake_inv_def Let_def config)
  have origin: "\<exists>e\<in>set (ws_persisted s). \<exists>t. r = from_event e t \<and> may_wake sinks e t"
    if "r \<in> set (ws_accepted s)" for r
  proof -
    from that all have "r \<in># mset (concat (map (requests_for sinks) (ws_persisted s)))" by simp
    then obtain e where "e \<in> set (ws_persisted s)" "r \<in> set (requests_for sinks e)" by auto
    moreover from this obtain t where "r = from_event e t" "may_wake sinks e t"
      by (auto simp: requests_for_def targets_may_wake [OF assms(1)])
    ultimately show ?thesis by blast
  qed
  have "held (ws_dispatcher s) = [] \<and> wd_queue (ws_dispatcher s) = []"
    if "drained (ws_dispatcher s)"
    using that inv by (simp add: wake_inv_def drained_def Let_def)
  with inv all origin show ?thesis by (auto simp: wake_inv_def Let_def config)
qed

text \<open>A broadcast by \<open>h\<close> with one sink.\<close>

definition example_event :: RoomEvent where
  "example_event =
     \<lparr>rv_event_id = ''e'', rv_timestamp = ''t'', rv_sequence = 7, rv_room_id = ''r'',
      rv_session_id = ''s'', rv_actor_id = ''h'', rv_actor_type = ''human'', rv_target = ''*'',
      rv_event_type = ''message.text'', rv_payload = PNone, rv_correlation_id = None,
      rv_causation_id = None, rv_metadata = [], rv_previous_hash = None, rv_event_hash = []\<rparr>"

lemma example_requests: "requests_for [''a''] example_event = [from_event example_event ''a'']"
  by (simp add: requests_for_def targets_for_def example_event_def WAKE_EVENT_TYPES_def
      sort_strings_def sort_items_def)

lemma wake_requests_delivered_witness:
  "ws_sent (fold wake_step [Start, Persist example_event, Put, Work, Work, Work]
     (wake_start [''a''] 1)) = [from_event example_event ''a'']"
proof -
  let ?s = "fold wake_step [Start, Persist example_event, Put, Work, Work, Work] (wake_start [''a''] 1)"
  have star: "''*'' \<notin> set [''a'']" by simp
  have "drained (ws_dispatcher ?s)" and accepted: "ws_accepted ?s = [from_event example_event ''a'']"
    by (simp_all add: wake_step_def wake_start_def dispatcher_start_def example_requests
        put_nowait_def worker_step_def drained_def)
  with wake_requests_delivered [OF star refl,
      of "[Start, Persist example_event, Put, Work, Work, Work]" 1]
  have "ws_sent ?s = ws_accepted ?s" by blast
  then show ?thesis unfolding accepted .
qed

end
