(* ===== verification/Room_Turns.thy ===== *)
theory Room_Turns
  imports Wake_Dispatcher
begin

text \<open>
  What a turn in the shared room promises, over any gateway that keeps its contract
  (\<open>room_gateway\<close>). The gateway onto the event store and the gateway that wakes participants keep
  it when the store and the gateway below do; a plain ledger is a store that does.
\<close>

section \<open>Gateways\<close>

locale room_gateway =
  fixes post :: "RoomEventDraft \<Rightarrow> TrustedActor \<Rightarrow> ('w, room_exn, RoomEvent) proc"
    and calls :: "RoomEventDraft \<Rightarrow> TrustedActor \<Rightarrow> bool"
    and J :: "'w \<Rightarrow> bool" and fails :: bool
  assumes post_contract: "gateway_contract post calls J fails"
begin

lemma wake_contract: "gateway_contract (wake_append post) calls (\<lambda>(w, d). J w) fails"
  unfolding gateway_contract_def
proof (intro allI impI)
  fix d a and s :: "'w \<times> WakeDispatcher"
  assume call: "calls d a" and "case s of (w, d) \<Rightarrow> J w"
  then have J: "J (fst s)" by (cases s) simp
  show "wp (wake_append post d a) (\<lambda>e w'. carries d e \<and> (case w' of (w, d) \<Rightarrow> J w))
      (\<lambda>_ w'. fails \<and> (case w' of (w, d) \<Rightarrow> J w)) s"
    unfolding wake_append_def wp_bind wp_zoom
    by (rule gateway_wp [OF post_contract call J]) (auto simp: wp_simps)
qed

end

text \<open>The store: on success \<open>to_dict()\<close> of the stored event gives the fields of the draft.\<close>

locale event_store =
  fixes store :: "RoomEventDraft \<Rightarrow> EventAccessContext \<Rightarrow> ('w, room_exn, StoredEvent) proc"
    and calls :: "RoomEventDraft \<Rightarrow> TrustedActor \<Rightarrow> bool"
    and J :: "'w \<Rightarrow> bool" and fails :: bool
  assumes store_contract: "calls d a \<Longrightarrow> J w \<Longrightarrow>
    wp (store d (access_context a)) (\<lambda>e w'. carries d (to_core e) \<and> J w') (\<lambda>_ w'. fails \<and> J w') w"

sublocale event_store \<subseteq> hive: room_gateway "hive_append store" calls J fails
  by unfold_locales
    (simp add: gateway_contract_def hive_append_def wp_bind_fun wp_ret_fun store_contract)

text \<open>A ledger that takes the drafts whose author is the caller.\<close>

definition ledger_append ::
  "RoomEventDraft \<Rightarrow> EventAccessContext \<Rightarrow> (StoredEvent list, room_exn, StoredEvent) proc" where
  "ledger_append d c = (\<lambda>w.
     case (dr_room_id d, dr_session_id d, dr_target d, dr_event_type d) of
       (PStr r, PStr s, PStr t, PStr y) \<Rightarrow>
         if dr_actor_id d \<noteq> ec_actor_id c \<or> dr_actor_type d \<noteq> ec_actor_type c
         then (Inl (RoomPermissionError ''actor''), w)
         else
           let e = \<lparr>se_event_id = dr_event_id d, se_timestamp = dr_timestamp d,
             se_sequence = int (length w) + 1, se_room_id = r, se_session_id = s,
             se_actor_id = dr_actor_id d, se_actor_type = dr_actor_type d, se_target = t,
             se_event_type = y, se_payload = dr_payload d,
             se_correlation_id = dr_correlation_id d, se_causation_id = dr_causation_id d,
             se_metadata = Some (dr_metadata d), se_previous_hash = None, se_event_hash = None\<rparr>
           in (Inr e, w @ [e])
     | _ \<Rightarrow> (Inl (RoomValueError ''field''), w))"

definition ledger_call :: "RoomEventDraft \<Rightarrow> TrustedActor \<Rightarrow> bool" where
  "ledger_call d a \<longleftrightarrow>
     dr_actor_id d = ta_actor_id a \<and> dr_actor_type d = ta_actor_type a \<and>
     (\<exists>r. dr_room_id d = PStr r) \<and> (\<exists>s. dr_session_id d = PStr s) \<and>
     (\<exists>t. dr_target d = PStr t) \<and> (\<exists>y. dr_event_type d = PStr y)"

interpretation ledger: event_store ledger_append ledger_call "\<lambda>_. True" False
  by unfold_locales
    (auto simp: wp_def ledger_append_def ledger_call_def access_context_def carries_def
      to_core_def Let_def)

lemma contract_mono:
  assumes "gateway_contract post P J fails" and "\<And>d a. Q d a \<Longrightarrow> P d a"
  shows "gateway_contract post Q J fails"
  using assms unfolding gateway_contract_def by blast

lemma ledger_append_result:
  assumes "ledger_append d c w = (r, w')"
  shows "(\<exists>x. r = Inl x) \<and> w' = w \<or>
    (\<exists>e. r = Inr e \<and> w' = w @ [e] \<and> carries d (to_core e) \<and> se_actor_id e = dr_actor_id d)"
  using assms
  by (auto simp: ledger_append_def carries_def to_core_def Let_def
      split: pyval.splits if_splits)

lemma ledger_append_takes:
  assumes "ledger_call d a"
  shows "\<exists>e. ledger_append d (access_context a) w = (Inr e, w @ [e])"
  using assms by (auto simp: ledger_append_def ledger_call_def access_context_def Let_def)

lemma ledger_authored:
  assumes "\<And>d a. calls d a \<Longrightarrow> dr_actor_id d \<in> S"
    and "\<And>d a. calls d a \<Longrightarrow> \<not> fails \<Longrightarrow> ledger_call d a"
  shows "gateway_contract (hive_append ledger_append) calls
    (list_all (\<lambda>e :: StoredEvent. se_actor_id e \<in> S)) fails"
  unfolding gateway_contract_def
proof (intro allI impI)
  fix d a and w :: "StoredEvent list"
  assume call: "calls d a" and w: "list_all (\<lambda>e. se_actor_id e \<in> S) w"
  show "wp (hive_append ledger_append d a)
      (\<lambda>e w'. carries d e \<and> list_all (\<lambda>e. se_actor_id e \<in> S) w')
      (\<lambda>_ w'. fails \<and> list_all (\<lambda>e. se_actor_id e \<in> S) w') w"
    unfolding hive_append_def wp_bind_fun wp_ret_fun
  proof (rule wpI)
    fix e w'
    assume "ledger_append d (access_context a) w = (Inr e, w')"
    from ledger_append_result [OF this] w assms(1) [OF call]
    show "carries d (to_core e) \<and> list_all (\<lambda>e. se_actor_id e \<in> S) w'" by auto
  next
    fix x w'
    assume r: "ledger_append d (access_context a) w = (Inl x, w')"
    have "fails"
      using r ledger_append_takes [OF assms(2) [OF call], of w] by (cases fails) auto
    with ledger_append_result [OF r] w
    show "fails \<and> list_all (\<lambda>e. se_actor_id e \<in> S) w'" by auto
  qed
qed

lemma room_call_ledger: "room_call actor agents d a \<Longrightarrow> ledger_call d a"
  by (auto simp: room_call_def ledger_call_def)

section \<open>A turn\<close>

text \<open>The events that a turn returns: the message of the actor, then what each selected agent
  contributed, in the order of the selection.\<close>

definition turn_events ::
  "'w AgentRegistry \<Rightarrow> string \<Rightarrow> string \<Rightarrow> TrustedActor \<Rightarrow> string \<Rightarrow> string \<Rightarrow> RoomEvent list \<Rightarrow> bool" where
  "turn_events agents room_id session_id actor body target events \<longleftrightarrow>
     (\<exists>u ess. events = u # concat ess \<and>
        rv_actor_id u = ta_actor_id actor \<and> rv_actor_type u = ta_actor_type actor \<and>
        rv_room_id u = room_id \<and> rv_session_id u = session_id \<and> rv_target u = target \<and>
        rv_event_type u = ''message.text'' \<and> rv_payload u = PDict [(''text'', PStr body)] \<and>
        list_all2 (answers actor u) (registry_select agents target) ess)"

lemma own_draft_carried:
  assumes "carries (own_draft room_id session_id actor target ty body i t) u"
  shows "rv_actor_id u = ta_actor_id actor \<and> rv_actor_type u = ta_actor_type actor \<and>
    rv_room_id u = room_id \<and> rv_session_id u = session_id \<and> rv_target u = target \<and>
    rv_event_type u = ty \<and> rv_payload u = PDict [(''text'', PStr body)]"
  using assms by (simp add: carries_def own_draft_def)

lemma append_own_wp:
  fixes rc :: "'w coordinator" and agents :: "'w AgentRegistry"
  assumes gateway: "gateway_contract (rc_append rc) (room_call actor agents) J fails"
    and uuid: "keeps J fails (rc_uuid rc)" and now: "keeps J fails (rc_now rc)" and J: "J w"
  shows "wp (append_own rc room_id session_id actor target ty body event_id)
    (\<lambda>u w'. (rv_actor_id u = ta_actor_id actor \<and> rv_actor_type u = ta_actor_type actor \<and>
      rv_room_id u = room_id \<and> rv_session_id u = session_id \<and> rv_target u = target \<and>
      rv_event_type u = ty \<and> rv_payload u = PDict [(''text'', PStr body)]) \<and> J w')
    (\<lambda>_ w'. fails \<and> J w') w"
proof -
  have id: "wp (event_id_or_new rc event_id) (\<lambda>_. J) (\<lambda>_ w'. fails \<and> J w') w"
  proof (cases event_id)
    case None
    then show ?thesis
      by (simp add: event_id_or_new_def wp_bind_fun wp_ret_fun keeps_wp [OF uuid J])
  next
    case (Some i)
    then show ?thesis
      by (cases i)
        (simp_all add: event_id_or_new_def wp_bind_fun wp_ret_fun J keeps_wp [OF uuid J])
  qed
  show ?thesis
    unfolding append_own_def wp_bind
    apply (rule wp_mono [OF id])
     apply (erule keeps_wp [OF now])
      apply (erule gateway_wp [OF gateway room_calls(1)])
       apply (simp_all add: own_draft_carried)
    done
qed

lemma room_turn_complete:
  fixes rc :: "'w coordinator"
  assumes "gateway_contract (rc_append rc) (room_call actor (rc_agents rc)) J fails"
    and "keeps J fails (rc_uuid rc)" and "keeps J fails (rc_now rc)"
    and "\<forall>d\<in>set (rc_agents rc). \<forall>e. keeps J True (ad_respond d e)"
    and "strip body \<noteq> []" and "J w"
  shows "wp (submit_text rc room_id session_id actor body target event_id)
      (\<lambda>events w'. turn_events (rc_agents rc) room_id session_id actor body target events \<and> J w')
      (\<lambda>_ w'. fails \<and> J w') w"
proof -
  note turns = agent_turns_wp [OF assms(1-3)]
  have selected: "set (registry_select (rc_agents rc) target) \<subseteq> set (rc_agents rc)"
    using selected_registered by blast
  have rest: "wp (agent_turns rc room_id session_id actor u (registry_select (rc_agents rc) target))
      (\<lambda>es w'. turn_events (rc_agents rc) room_id session_id actor body target (u # es) \<and> J w')
      (\<lambda>_ w'. fails \<and> J w') w'"
    if u: "rv_actor_id u = ta_actor_id actor \<and> rv_actor_type u = ta_actor_type actor \<and>
      rv_room_id u = room_id \<and> rv_session_id u = session_id \<and> rv_target u = target \<and>
      rv_event_type u = ''message.text'' \<and> rv_payload u = PDict [(''text'', PStr body)]"
      and "J w'" for u w'
  proof -
    have "wp (agent_turns rc (rv_room_id u) (rv_session_id u) actor u
        (registry_select (rc_agents rc) target))
      (\<lambda>es w'. (\<exists>ess. es = concat ess \<and>
        list_all2 (answers actor u) (registry_select (rc_agents rc) target) ess) \<and> J w')
      (\<lambda>_ w'. fails \<and> J w') w'"
      by (rule turns [OF _ selected \<open>J w'\<close>]) (use assms(4) in blast)
    with u have "wp (agent_turns rc room_id session_id actor u
        (registry_select (rc_agents rc) target))
      (\<lambda>es w'. (\<exists>ess. es = concat ess \<and>
        list_all2 (answers actor u) (registry_select (rc_agents rc) target) ess) \<and> J w')
      (\<lambda>_ w'. fails \<and> J w') w'" by simp
    then show ?thesis
      by (rule wp_mono) (use u in \<open>auto simp: turn_events_def\<close>)
  qed
  show "wp (submit_text rc room_id session_id actor body target event_id)
      (\<lambda>events w'. turn_events (rc_agents rc) room_id session_id actor body target events \<and> J w')
      (\<lambda>_ w'. fails \<and> J w') w"
    using assms(5) unfolding submit_text_def
    by (simp add: wp_bind_fun wp_ret_fun)
      (rule wp_mono [OF append_own_wp [OF assms(1-3,6)]], use rest in auto)
qed


text \<open>A ledger with an agent that echoes and one that fails.\<close>

definition example_agent ::
  "string \<Rightarrow> (RoomEvent \<Rightarrow> (StoredEvent list, room_exn, AgentReply option) proc) \<Rightarrow>
   StoredEvent list AgentDescriptor" where
  "example_agent i respond =
     \<lparr>ad_actor_id = i, ad_display_name = i, ad_respond = respond, ad_online = True,
      ad_priority = 100, ad_voice_identity = None\<rparr>"

definition example_room :: "StoredEvent list coordinator" where
  "example_room =
     \<lparr>rc_append = hive_append ledger_append, rc_uuid = ret ''0'', rc_now = ret ''t'',
      rc_agents = [example_agent ''b'' (EchoAgent ''B'' (\<lambda>_. ''x'')), example_agent ''a'' FailingAgent]\<rparr>"

lemma keeps_True: "keeps (\<lambda>_. True) True m"
  by (simp add: keeps_def wp_trivial)

lemma keeps_ret: "keeps J fails (ret x)"
  by (simp add: keeps_def wp_ret)

definition example_actor :: TrustedActor where
  "example_actor = \<lparr>ta_actor_id = ''h'', ta_actor_type = ''human'', ta_display_name = ''H'',
     ta_room_ids = [], ta_session_ids = []\<rparr>"


end
