(* ===== verification/Room_Http.thy ===== *)
theory Room_Http
  imports Room_Turns Py_Input
begin

text \<open>
  The room over HTTP (\<open>communication/http_runtime.py\<close>). The HTTP server of the library hands over
  the path, two headers and the body; sending the answer is left to it. \<open>show\<close> is \<open>str\<close> of a value
  that is not a string, \<open>repr\<close> the text of a float and \<open>wide\<close> the reader of JSON in UTF-16 and
  UTF-32. The texts of the errors are not modelled.
\<close>

section \<open>The handler\<close>

definition MAX_BODY_BYTES :: int where
  "MAX_BODY_BYTES = 64 * 1024"

definition LOOPBACK_HOSTS :: "string list" where
  "LOOPBACK_HOSTS = [''127.0.0.1'', ''localhost'', ''::1'']"

record http_env =
  he_show :: "pyval \<Rightarrow> string"
  he_repr :: "rat \<Rightarrow> string"
  he_wide :: "string \<Rightarrow> string + pyval"

record http_request =
  hq_path :: string
  hq_content_length :: "string option"
  hq_user_id :: "string option"
  hq_body :: string

text \<open>\<open>str(value)\<close> and \<open>payload.get(key) or default\<close>\<close>

fun py_str :: "(pyval \<Rightarrow> string) \<Rightarrow> pyval \<Rightarrow> string" where
  "py_str show_val (PStr s) = s"
| "py_str show_val v = show_val v"

definition get_truthy :: "(string \<times> pyval) list \<Rightarrow> string \<Rightarrow> pyval \<Rightarrow> pyval" where
  "get_truthy d k other =
     (case map_of d k of None \<Rightarrow> other | Some v \<Rightarrow> if truthy v then v else other)"

definition http_actor :: "string \<Rightarrow> string \<Rightarrow> string \<Rightarrow> TrustedActor" where
  "http_actor user room_id session_id =
     \<lparr>ta_actor_id = ''openwebui:'' @ user, ta_actor_type = ''human'',
      ta_display_name = ''Open WebUI '' @ user, ta_room_ids = [PStr room_id],
      ta_session_ids = [PStr session_id]\<rparr>"

definition reply_dict :: "(pyval \<Rightarrow> string) \<Rightarrow> RoomEvent \<Rightarrow> room_exn + pyval" where
  "reply_dict show_val e =
     (case rv_payload e of
        PDict payload \<Rightarrow> Inr (PDict
          [(''event_id'', PStr (rv_event_id e)), (''sequence'', PInt (rv_sequence e)),
           (''actor_id'', PStr (rv_actor_id e)),
           (''display_name'', PStr (py_str show_val
              (get_truthy (rv_metadata e) ''display_name'' (PStr (rv_actor_id e))))),
           (''event_type'', PStr (rv_event_type e)),
           (''text'', PStr (py_str show_val (get_truthy payload ''text'' (PStr ''''))))])
      | _ \<Rightarrow> Inl (RExc OtherExn ''AttributeError'' ''get''))"

definition handle_room_message ::
  "(pyval \<Rightarrow> string) \<Rightarrow> 'w coordinator \<Rightarrow> string option \<Rightarrow> (string \<times> pyval) list \<Rightarrow>
   ('w, room_exn, pyval) proc" where
  "handle_room_message show_val rc user_id payload =
     (let user = strip (case user_id of None \<Rightarrow> '''' | Some u \<Rightarrow> u);
          room_id = strip (py_str show_val (get_truthy payload ''room_id'' (PStr '''')));
          session_id = strip (py_str show_val (get_truthy payload ''session_id'' (PStr '''')));
          body = strip (py_str show_val (get_truthy payload ''text'' (PStr '''')));
          named = strip (py_str show_val (get_truthy payload ''target'' (PStr ''*'')));
          target = (if named = [] then ''*'' else named) in
      if user = []
      then raise (RoomPermissionError ''trusted Open WebUI user identity is required'')
      else if room_id = [] \<or> session_id = [] \<or> body = []
      then raise (RoomValueError ''room_id, session_id and text are required'')
      else
        bind (submit_text rc room_id session_id (http_actor user room_id session_id) body target None)
          (\<lambda>events. bind (lift (all_ok (map (reply_dict show_val) (tl events)))) (\<lambda>replies.
          ret (PDict
            [(''room_id'', PStr room_id), (''session_id'', PStr session_id),
             (''last_sequence'', PInt (if events \<noteq> [] then rv_sequence (last events) else 0)),
             (''replies'', PList replies)]))))"

section \<open>The server\<close>

text \<open>\<open>.encode("utf-8")\<close> of the JSON text of a value succeeds.\<close>

fun encodable_val :: "pyval \<Rightarrow> bool" where
  "encodable_val (PStr s) = encodable s"
| "encodable_val (PList xs) = list_all encodable_val xs"
| "encodable_val (PDict kvs) = list_all (\<lambda>(k, v). encodable k \<and> encodable_val v) kvs"
| "encodable_val _ = True"

datatype http_response = HttpOk pyval | HttpError nat

definition read_payload :: "http_env \<Rightarrow> http_request \<Rightarrow> room_exn + (string \<times> pyval) list" where
  "read_payload env rq =
     (case int_of_text (case hq_content_length rq of None \<Rightarrow> ''0'' | Some t \<Rightarrow> t) of
        None \<Rightarrow> Inl (RoomValueError '''')
      | Some n \<Rightarrow>
          if n \<le> 0 \<or> MAX_BODY_BYTES < n then Inl (RoomValueError ''invalid request size'')
          else (case loads_bytes (he_wide env) (he_repr env) (take (nat n) (hq_body rq)) of
            Inl name \<Rightarrow> Inl (RExc ValueExn name '''')
          | Inr (PDict payload) \<Rightarrow> Inr payload
          | Inr _ \<Rightarrow> Inl (RoomValueError ''request body must be a JSON object'')))"

definition do_POST ::
  "http_env \<Rightarrow> 'w coordinator \<Rightarrow> http_request \<Rightarrow> ('w, room_exn, http_response) proc" where
  "do_POST env rc rq =
     (if hq_path rq \<noteq> ''/v1/rooms/message'' then ret (HttpError 404)
      else handle
        (bind (lift (read_payload env rq)) (\<lambda>payload.
         bind (handle_room_message (he_show env) rc (hq_user_id rq) payload) (\<lambda>result.
         if encodable_val result then ret (HttpOk result)
         else raise (RExc ValueExn ''UnicodeEncodeError'' ''''))))
        (\<lambda>x. case rx_kind x of
           PermissionExn \<Rightarrow> Some (ret (HttpError 403))
         | ValueExn \<Rightarrow> Some (ret (HttpError 400))
         | OtherExn \<Rightarrow> None))"

definition build_http_server :: "string \<Rightarrow> room_exn + unit" where
  "build_http_server host =
     (if host \<notin> set LOOPBACK_HOSTS
      then Inl (RoomValueError ''non-loopback room HTTP exposure requires separate deployment approval'')
      else Inr ())"

section \<open>Who speaks\<close>

text \<open>The calls that a turn may make for the user of the header.\<close>

definition http_call :: "string option \<Rightarrow> 'w AgentRegistry \<Rightarrow> RoomEventDraft \<Rightarrow> TrustedActor \<Rightarrow> bool" where
  "http_call user_id agents d a \<longleftrightarrow>
     (\<exists>u room_id session_id. user_id = Some u \<and> strip u \<noteq> [] \<and>
        room_call (http_actor (strip u) room_id session_id) agents d a)"

lemma turn_payloads:
  assumes "turn_events agents room_id session_id actor body target events"
  shows "\<forall>e\<in>set events. \<exists>kvs. rv_payload e = PDict kvs"
proof -
  from assms obtain u ess where events: "events = u # concat ess"
    and u: "rv_payload u = PDict [(''text'', PStr body)]"
    and ess: "list_all2 (answers actor u) (registry_select agents target) ess"
    unfolding turn_events_def by blast
  have "\<exists>kvs. rv_payload e = PDict kvs" if "es \<in> set ess" "e \<in> set es" for es e
  proof -
    from that(1) obtain i where i: "i < length ess" "es = ess ! i" by (auto simp: in_set_conv_nth)
    have "answers actor u (registry_select agents target ! i) es"
      using list_all2_nthD2 [OF ess i(1)] i(2) by simp
    with that(2) show ?thesis by (auto simp: answers_def)
  qed
  with events u show ?thesis by auto
qed

lemma wp_if_raise:
  "(c \<Longrightarrow> E x w) \<Longrightarrow> (\<not> c \<Longrightarrow> wp m Q E w) \<Longrightarrow> wp (if c then raise x else m) Q E w"
  by (simp add: wp_raise)

lemma handle_room_message_wp:
  fixes rc :: "'w coordinator"
  assumes gateway: "gateway_contract (rc_append rc) (http_call user_id (rc_agents rc)) J fails"
    and uuid: "keeps J fails (rc_uuid rc)" and now: "keeps J fails (rc_now rc)"
    and agents: "\<forall>d\<in>set (rc_agents rc). \<forall>e. keeps J True (ad_respond d e)" and J: "J w"
  shows "wp (handle_room_message show_val rc user_id payload)
    (\<lambda>_ w'. J w' \<and> (\<exists>u. user_id = Some u \<and> strip u \<noteq> []))
    (\<lambda>x w'. rx_kind x = PermissionExn \<and> w' = w \<and> (\<nexists>u. user_id = Some u \<and> strip u \<noteq> []) \<or>
       rx_kind x = ValueExn \<and> w' = w \<and> (\<exists>u. user_id = Some u \<and> strip u \<noteq> []) \<or>
       fails \<and> J w' \<and> (\<exists>u. user_id = Some u \<and> strip u \<noteq> [])) w"
proof (cases "\<exists>u. user_id = Some u \<and> strip u \<noteq> []")
  case False
  then have "strip (case user_id of None \<Rightarrow> '''' | Some u \<Rightarrow> u) = []"
    by (cases user_id) auto
  with False show ?thesis by (simp add: handle_room_message_def wp_raise)
next
  case True
  then obtain u where u: "user_id = Some u" "strip u \<noteq> []" by blast
  have turn: "wp (submit_text rc room_id session_id (http_actor (strip u) room_id session_id) body
      target None)
      (\<lambda>events w'. turn_events (rc_agents rc) room_id session_id
        (http_actor (strip u) room_id session_id) body target events \<and> J w')
      (\<lambda>_ w'. fails \<and> J w') w" if "strip body \<noteq> []" for room_id session_id body target
  proof -
    have "gateway_contract (rc_append rc)
        (room_call (http_actor (strip u) room_id session_id) (rc_agents rc)) J fails"
      by (rule contract_mono [OF gateway]) (use u in \<open>auto simp: http_call_def\<close>)
    from room_turn_complete [OF this uuid now agents that J] show ?thesis .
  qed
  have user: "(case user_id of None \<Rightarrow> '''' | Some u \<Rightarrow> u) = u" by (simp add: u)
  have answer: "wp (lift (all_ok (map (reply_dict show_val) (tl events)))) (\<lambda>_. J) E t"
    if "turn_events (rc_agents rc) room_id session_id actor body target events" "J t"
    for room_id session_id actor body target events E t
  proof -
    have "\<forall>e\<in>set (tl events). \<exists>d. reply_dict show_val e = Inr d"
    proof
      fix e assume "e \<in> set (tl events)"
      then have "e \<in> set events" by (cases events) auto
      with turn_payloads [OF that(1)] obtain kvs where "rv_payload e = PDict kvs" by blast
      then show "\<exists>d. reply_dict show_val e = Inr d" by (simp add: reply_dict_def)
    qed
    then have "\<exists>ys. all_ok (map (reply_dict show_val) (tl events)) = Inr ys"
      by (intro all_ok_Inr) auto
    with that(2) show ?thesis by (auto simp: wp_lift)
  qed
  have message: "wp (bind (submit_text rc room_id session_id
        (http_actor (strip u) room_id session_id) body target None)
      (\<lambda>events. bind (lift (all_ok (map (reply_dict show_val) (tl events)))) (\<lambda>replies.
        ret (r events replies)))) (\<lambda>_. J) (\<lambda>_ w'. fails \<and> J w') w"
    if "strip body \<noteq> []" for room_id session_id body target and r :: "RoomEvent list \<Rightarrow> pyval list \<Rightarrow> pyval"
    unfolding wp_bind_fun wp_ret_fun
    by (rule wp_mono [OF turn [OF that]]) (auto intro: answer)
  let ?E = "\<lambda>x w'. rx_kind x = PermissionExn \<and> w' = w \<and> (\<nexists>u. user_id = Some u \<and> strip u \<noteq> []) \<or>
       rx_kind x = ValueExn \<and> w' = w \<and> (\<exists>u. user_id = Some u \<and> strip u \<noteq> []) \<or>
       fails \<and> J w' \<and> (\<exists>u. user_id = Some u \<and> strip u \<noteq> [])"
  have message': "wp (bind (submit_text rc room_id session_id
        (http_actor (strip u) room_id session_id) (strip body) target None)
      (\<lambda>events. bind (lift (all_ok (map (reply_dict show_val) (tl events)))) (\<lambda>replies.
        ret (r events replies))))
      (\<lambda>_ w'. J w' \<and> (\<exists>u. user_id = Some u \<and> strip u \<noteq> [])) ?E w"
    if "strip body \<noteq> []" for room_id session_id body target and r :: "RoomEvent list \<Rightarrow> pyval list \<Rightarrow> pyval"
    by (rule wp_mono [OF message]) (use that u in simp_all)
  have u': "\<exists>u. user_id = Some u \<and> strip u \<noteq> []" using u by blast
  show ?thesis
    unfolding handle_room_message_def Let_def user
    by (rule wp_if_raise, use u(2) in blast, rule wp_if_raise, use u' in simp, rule message', simp)
qed



end
