(* ===== verification/Room_Broker.thy ===== *)
theory Room_Broker
  imports Room_Http
begin

text \<open>
  The broker of the room (\<open>mcp/room_broker.py\<close>) over one Unix socket per participant, with the
  identity-bound backend (\<open>mcp/backend.py\<close>). A request is one line; the answer is the JSON value
  that is written. \<open>subscribe_events\<close>, a bounded loop of reads, and the sockets are not modelled.
  The answers' JSON text is not modelled either, so an answer that \<open>json.dumps\<close> refuses is none
  here.
\<close>

definition MAX_REQUEST_BYTES :: nat where
  "MAX_REQUEST_BYTES = 64 * 1024"

section \<open>The backend\<close>

text \<open>
  The coordinator and the trusted actor, the clock of the event ids, the reader of the gateway,
  and the run-time status. A reader gets whatever values the client sent.
\<close>

record 'w RoomBackend =
  rb_coordinator :: "'w coordinator"
  rb_actor :: TrustedActor
  rb_time_ns :: "('w, room_exn, int) proc"
  rb_read :: "pyval \<Rightarrow> pyval \<Rightarrow> TrustedActor \<Rightarrow> pyval \<Rightarrow> pyval \<Rightarrow> ('w, room_exn, RoomEvent list) proc"
  rb_status :: "('w, room_exn, (string \<times> pyval) list) proc"

definition event_dict :: "RoomEvent \<Rightarrow> pyval" where
  "event_dict e =
     (let opt = (\<lambda>x. case x of None \<Rightarrow> PNone | Some s \<Rightarrow> PStr s) in
      PDict
        [(''event_id'', PStr (rv_event_id e)), (''timestamp'', PStr (rv_timestamp e)),
         (''sequence'', PInt (rv_sequence e)), (''room_id'', PStr (rv_room_id e)),
         (''session_id'', PStr (rv_session_id e)), (''actor_id'', PStr (rv_actor_id e)),
         (''actor_type'', PStr (rv_actor_type e)), (''target'', PStr (rv_target e)),
         (''event_type'', PStr (rv_event_type e)), (''payload'', rv_payload e),
         (''correlation_id'', opt (rv_correlation_id e)),
         (''causation_id'', opt (rv_causation_id e)), (''metadata'', PDict (rv_metadata e)),
         (''previous_hash'', opt (rv_previous_hash e)),
         (''event_hash'', PStr (rv_event_hash e))])"

definition post_draft ::
  "TrustedActor \<Rightarrow> pyval \<Rightarrow> pyval \<Rightarrow> pyval \<Rightarrow> pyval \<Rightarrow> pyval \<Rightarrow> int \<Rightarrow> string \<Rightarrow> RoomEventDraft" where
  "post_draft actor room_id session_id target event_type payload ns t =
     \<lparr>dr_event_id = ''mcp_'' @ int_str ns, dr_room_id = room_id, dr_session_id = session_id,
      dr_actor_id = ta_actor_id actor, dr_actor_type = ta_actor_type actor, dr_target = target,
      dr_event_type = event_type, dr_payload = payload, dr_correlation_id = None,
      dr_causation_id = None, dr_metadata = [], dr_timestamp = t\<rparr>"

definition post_event ::
  "'w RoomBackend \<Rightarrow> pyval \<Rightarrow> pyval \<Rightarrow> pyval \<Rightarrow> pyval \<Rightarrow> pyval \<Rightarrow> ('w, room_exn, pyval) proc" where
  "post_event b room_id session_id target event_type payload =
     bind (rb_time_ns b) (\<lambda>ns. bind (rc_now (rb_coordinator b)) (\<lambda>t.
     bind (rc_append (rb_coordinator b)
       (post_draft (rb_actor b) room_id session_id target event_type payload ns t) (rb_actor b))
       (\<lambda>e. ret (event_dict e))))"

definition read_events ::
  "'w RoomBackend \<Rightarrow> pyval \<Rightarrow> pyval \<Rightarrow> pyval \<Rightarrow> pyval \<Rightarrow> ('w, room_exn, pyval) proc" where
  "read_events b room_id session_id after limit =
     bind (rb_read b room_id session_id (rb_actor b) after limit)
       (\<lambda>es. ret (PList (map event_dict es)))"

definition invoke_agent ::
  "'w RoomBackend \<Rightarrow> string \<Rightarrow> string \<Rightarrow> string \<Rightarrow> string \<Rightarrow> ('w, room_exn, pyval) proc" where
  "invoke_agent b room_id session_id target_agent message =
     bind (submit_text (rb_coordinator b) room_id session_id (rb_actor b) message target_agent None)
       (\<lambda>es. ret (PList (map event_dict es)))"

definition invoke_tool ::
  "(string \<times> (pyval \<Rightarrow> ('w, room_exn, pyval) proc)) list \<Rightarrow> string \<Rightarrow> pyval \<Rightarrow>
   ('w, room_exn, pyval) proc" where
  "invoke_tool handlers name arguments =
     (case map_of handlers name of
        None \<Rightarrow> raise (RoomPermissionError ''tool is not allowlisted'')
      | Some f \<Rightarrow> f arguments)"

section \<open>The requests\<close>

text \<open>A call with \<open>**args\<close> of a function whose keyword arguments are \<open>ks\<close>, with their values in the
  order of \<open>ks\<close>: the keys must be exactly these.\<close>

definition with_keywords ::
  "string list \<Rightarrow> (string \<times> pyval) list \<Rightarrow> (pyval list \<Rightarrow> ('w, room_exn, 'a) proc) \<Rightarrow>
   ('w, room_exn, 'a) proc" where
  "with_keywords ks args f =
     (if set (map fst args) = set ks then f (map (\<lambda>k. the (map_of args k)) ks)
      else raise (RExc OtherExn ''TypeError'' ''''))"

definition identity_dict :: "TrustedActor \<Rightarrow> pyval" where
  "identity_dict a = PDict
     [(''actor_id'', PStr (ta_actor_id a)), (''actor_type'', PStr (ta_actor_type a)),
      (''display_name'', PStr (ta_display_name a)), (''authorized_rooms'', PList (ta_room_ids a))]"

definition broker_dispatch ::
  "'w RoomBackend \<Rightarrow> (string \<Rightarrow> (string \<times> pyval) list \<Rightarrow> ('w, room_exn, pyval) proc) \<Rightarrow> string \<Rightarrow>
   (string \<times> pyval) list \<Rightarrow> ('w, room_exn, pyval) proc" where
  "broker_dispatch b subscribe method args =
     (if method = ''identity'' then ret (identity_dict (rb_actor b))
      else if method = ''post_event'' then
        with_keywords [''room_id'', ''session_id'', ''target'', ''event_type'', ''payload''] args
          (\<lambda>vs. post_event b (vs ! 0) (vs ! 1) (vs ! 2) (vs ! 3) (vs ! 4))
      else if method = ''read_events'' then
        with_keywords [''room_id'', ''session_id'', ''after_sequence'', ''limit''] args
          (\<lambda>vs. read_events b (vs ! 0) (vs ! 1) (vs ! 2) (vs ! 3))
      else if method = ''subscribe_events'' then subscribe method args
      else if method = ''runtime_status'' then bind (rb_status b) (\<lambda>d. ret (PDict d))
      else raise (RoomValueError ''unsupported broker method''))"

text \<open>The request of a line, as the handler reads it.\<close>

definition read_request :: "http_env \<Rightarrow> string \<Rightarrow> room_exn + string \<times> (string \<times> pyval) list" where
  "read_request env line =
     (case loads_bytes (he_wide env) (he_repr env) line of
        Inl name \<Rightarrow> Inl (RExc ValueExn name '''')
      | Inr (PDict request) \<Rightarrow>
          (case (map_of request ''method'', get_truthy request ''args'' (PDict [])) of
             (Some (PStr method), PDict args) \<Rightarrow> Inr (method, args)
           | _ \<Rightarrow> Inl (RoomValueError ''invalid broker request''))
      | Inr _ \<Rightarrow> Inl (RoomValueError ''request must be an object''))"

text \<open>\<open>_RoomRequestHandler.handle\<close>: no answer, or the value of the answer.\<close>

definition broker_handle ::
  "http_env \<Rightarrow> 'w RoomBackend \<Rightarrow> (string \<Rightarrow> (string \<times> pyval) list \<Rightarrow> ('w, room_exn, pyval) proc) \<Rightarrow>
   string \<Rightarrow> ('w, room_exn, pyval option) proc" where
  "broker_handle env b subscribe line =
     (if line = [] \<or> MAX_REQUEST_BYTES < length line then ret None
      else handle
        (bind (lift (read_request env line)) (\<lambda>(method, args).
         bind (broker_dispatch b subscribe method args) (\<lambda>result.
         ret (Some (PDict [(''ok'', PBool True), (''result'', result)])))))
        (\<lambda>x. Some (ret (Some (PDict [(''ok'', PBool False),
           (''error'', PDict [(''type'', PStr (rx_type x))])])))))"

section \<open>One identity per socket\<close>

text \<open>The calls of the gateway that a socket may make.\<close>

definition socket_call :: "TrustedActor \<Rightarrow> RoomEventDraft \<Rightarrow> TrustedActor \<Rightarrow> bool" where
  "socket_call actor d a \<longleftrightarrow> a = actor \<and> dr_actor_id d = ta_actor_id actor \<and>
     dr_actor_type d = ta_actor_type actor \<and> dr_correlation_id d = None \<and> dr_metadata d = []"

lemma keeps_bind:
  assumes "keeps J True m" and "\<And>x. keeps J True (f x)"
  shows "keeps J True (bind m f)"
  using assms unfolding keeps_def wp_bind_fun by (auto intro: wp_mono)

lemma keeps_raise: "keeps J True (raise x)"
  by (simp add: keeps_def wp_raise)

lemma keeps_if: "keeps J True m \<Longrightarrow> keeps J True n \<Longrightarrow> keeps J True (if c then m else n)"
  by simp

lemma keeps_call:
  assumes "gateway_contract post P J True" and "P d a"
  shows "keeps J True (post d a)"
  using assms unfolding gateway_contract_def keeps_def by (auto intro: wp_mono)

lemma post_event_keeps:
  assumes "gateway_contract (rc_append (rb_coordinator b)) (socket_call (rb_actor b)) J True"
    and "keeps J True (rb_time_ns b)" and "keeps J True (rc_now (rb_coordinator b))"
  shows "keeps J True (post_event b r s t y p)"
  unfolding post_event_def
  by (intro keeps_bind assms(2,3) keeps_call [OF assms(1)] keeps_ret)
    (simp add: socket_call_def post_draft_def)

lemma dispatch_keeps:
  assumes "gateway_contract (rc_append (rb_coordinator b)) (socket_call (rb_actor b)) J True"
    and "keeps J True (rb_time_ns b)" and "keeps J True (rc_now (rb_coordinator b))"
    and "\<And>r s a l. keeps J True (rb_read b r s (rb_actor b) a l)"
    and "keeps J True (rb_status b)" and "\<And>m args. keeps J True (subscribe m args)"
  shows "keeps J True (broker_dispatch b subscribe method args)"
  unfolding broker_dispatch_def read_events_def with_keywords_def
  by (intro keeps_if keeps_bind keeps_ret keeps_raise post_event_keeps assms)


text \<open>Any line on the ledger of the example, on the socket of \<open>h\<close>.\<close>

definition example_backend :: "StoredEvent list RoomBackend" where
  "example_backend =
     \<lparr>rb_coordinator = example_room, rb_actor = example_actor, rb_time_ns = ret 7,
      rb_read = (\<lambda>_ _ _ _ _. gets (map to_core)), rb_status = ret []\<rparr>"


end
