(* ===== verification/Dns_Model.thy ===== *)
theory Dns_Model
  imports Py_Sort
begin

text \<open>
  DNS changes at Cloudflare (\<open>cloudflare_dns.py\<close>): records, changes and manifests, and how a
  manifest is read. The YAML library is third-party code: its scanner, composer and loader are
  parameters, and a document is the value the loader gives, with string keys. Letter case outside
  ASCII is not modelled (\<open>lower\<close> of \<open>Py_Text\<close>).
\<close>

section \<open>Records and changes\<close>

text \<open>\<open>CloudflareDnsError\<close> with its message, or the type of another exception.\<close>

datatype dns_error = DnsError string | DnsOther string

definition SUPPORTED_TYPES :: "string list" where
  "SUPPORTED_TYPES = [''A'', ''AAAA'', ''CNAME'', ''MX'', ''TXT'']"

definition PROXY_CAPABLE_TYPES :: "string list" where
  "PROXY_CAPABLE_TYPES = [''A'', ''AAAA'', ''CNAME'']"

definition ADDRESS_TYPES :: "string list" where
  "ADDRESS_TYPES = [''A'', ''AAAA'']"

definition IP_RESOLUTION_TYPES :: "string list" where
  "IP_RESOLUTION_TYPES = [''A'', ''AAAA'', ''CNAME'']"

definition PLANNABLE_ZONE_STATUSES :: "string list" where
  "PLANNABLE_ZONE_STATUSES = [''active'', ''pending'']"

definition DOMAIN_CONTENT_TYPES :: "string list" where
  "DOMAIN_CONTENT_TYPES = [''CNAME'', ''MX'']"

definition RESTORABLE_METADATA_FIELDS :: "string list" where
  "RESTORABLE_METADATA_FIELDS = [''comment'', ''tags'', ''settings'', ''private_routing'']"

type_synonym metadata = "(string \<times> pyval) list"

record DnsRecord =
  dn_type :: string
  dn_name :: string
  dn_content :: string
  dn_ttl :: int
  dn_proxied :: bool
  dn_priority :: "int option"
  dn_id :: "string option"
  dn_restore :: "metadata option"

type_synonym recordset = "string \<times> string"

definition recordset_of :: "DnsRecord \<Rightarrow> recordset" where
  "recordset_of r = (dn_type r, dn_name r)"

type_synonym semantic_key = "string \<times> string \<times> string \<times> int \<times> bool \<times> int option"

definition semantic_key :: "DnsRecord \<Rightarrow> semantic_key" where
  "semantic_key r =
     (dn_type r, dn_name r, dn_content r, dn_ttl r, dn_proxied r, dn_priority r)"

definition api_payload :: "DnsRecord \<Rightarrow> metadata" where
  "api_payload r =
     [(''type'', PStr (dn_type r)), (''name'', PStr (dn_name r)),
      (''content'', PStr (dn_content r)), (''ttl'', PInt (dn_ttl r))] @
     (if dn_type r \<in> set PROXY_CAPABLE_TYPES then [(''proxied'', PBool (dn_proxied r))] else []) @
     (case dn_priority r of None \<Rightarrow> [] | Some p \<Rightarrow> [(''priority'', PInt p)])"

text \<open>\<open>payload.update(d)\<close>\<close>

fun payload_put :: "string \<times> pyval \<Rightarrow> metadata \<Rightarrow> metadata" where
  "payload_put (k, v) [] = [(k, v)]"
| "payload_put (k, v) ((k', v') # kvs) =
     (if k = k' then (k, v) # kvs else (k', v') # payload_put (k, v) kvs)"

definition payload_update :: "metadata \<Rightarrow> metadata \<Rightarrow> metadata" where
  "payload_update p d = fold payload_put d p"

definition restore_payload :: "DnsRecord \<Rightarrow> metadata" where
  "restore_payload r =
     (case dn_restore r of None \<Rightarrow> api_payload r | Some m \<Rightarrow> payload_update (api_payload r) m)"

definition record_dict :: "bool \<Rightarrow> DnsRecord \<Rightarrow> pyval" where
  "record_dict metadata r =
     PDict ((if metadata then restore_payload r else api_payload r) @
       (case dn_id r of None \<Rightarrow> [] | Some i \<Rightarrow> [(''id'', PStr i)]))"

datatype change_action = CREATE | UPDATE | DELETE

fun action_text :: "change_action \<Rightarrow> string" where
  "action_text CREATE = ''CREATE''"
| "action_text UPDATE = ''UPDATE''"
| "action_text DELETE = ''DELETE''"

record DnsChange =
  dc_action :: change_action
  dc_recordset :: recordset
  dc_before :: "DnsRecord option"
  dc_after :: "DnsRecord option"

definition change_dict :: "bool \<Rightarrow> DnsChange \<Rightarrow> pyval" where
  "change_dict metadata c =
     (let side = (\<lambda>x. case x of None \<Rightarrow> PNone | Some r \<Rightarrow> record_dict metadata r) in
      PDict
        [(''action'', PStr (action_text (dc_action c))),
         (''recordset'', PDict
            [(''type'', PStr (fst (dc_recordset c))), (''name'', PStr (snd (dc_recordset c)))]),
         (''before'', side (dc_before c)), (''after'', side (dc_after c))])"

record DnsManifest =
  dm_zone :: string
  dm_managed :: "recordset list"
  dm_records :: "DnsRecord list"
  dm_template :: bool
  dm_rollback :: bool

section \<open>Normalisation\<close>

definition rstrip_dots :: "string \<Rightarrow> string" where
  "rstrip_dots s = rev (dropWhile (\<lambda>c. c = CHR ''.'') (rev s))"

fun split_dots :: "string \<Rightarrow> string list" where
  "split_dots [] = [[]]"
| "split_dots (c # s) =
     (if c = CHR ''.'' then [] # split_dots s
      else case split_dots s of [] \<Rightarrow> [[c]] | l # ls \<Rightarrow> (c # l) # ls)"

definition label_char :: "char \<Rightarrow> bool" where
  "label_char c \<longleftrightarrow> c \<in> set ''abcdefghijklmnopqrstuvwxyz0123456789-''"

definition normalize_zone :: "pyval \<Rightarrow> dns_error + string" where
  "normalize_zone v =
     (case v of
        PStr zone \<Rightarrow>
          if strip zone = [] then Inl (DnsError ''manifest requires non-empty zone'')
          else
            let z = rstrip_dots (lower (strip zone)); labels = split_dots z in
            if length labels < 2 \<or> list_ex (\<lambda>l. l = [] \<or> 63 < length l) labels
            then Inl (DnsError ''manifest zone is invalid'')
            else if list_ex (\<lambda>l. \<not> list_all label_char l \<or> startswith l ''-'' \<or> endswith l ''-'') labels
            then Inl (DnsError ''manifest zone is invalid'')
            else Inr z
      | _ \<Rightarrow> Inl (DnsError ''manifest requires non-empty zone''))"

definition normalize_name :: "pyval \<Rightarrow> string \<Rightarrow> dns_error + string" where
  "normalize_name v zone =
     (case v of
        PStr name \<Rightarrow>
          if strip name = [] then Inl (DnsError ''DNS record name must be a non-empty string'')
          else
            let raw = rstrip_dots (lower (strip name)) in
            if raw = ''@'' then Inr zone
            else if raw = zone \<or> endswith raw (''.'' @ zone) then Inr raw
            else Inr (raw @ ''.'' @ zone)
      | _ \<Rightarrow> Inl (DnsError ''DNS record name must be a non-empty string''))"

definition normalize_domain_content :: "string \<Rightarrow> string \<Rightarrow> dns_error + string" where
  "normalize_domain_content record_type content =
     (if record_type = ''MX'' \<and> strip content = ''.'' then Inr ''.''
      else
        let v = rstrip_dots (lower (strip content)) in
        if v = [] then Inl (DnsError ''domain-valued DNS record content must be non-empty'')
        else Inr v)"

definition upper_char :: "char \<Rightarrow> char" where
  "upper_char c =
     (if (97 :: nat) \<le> of_char c \<and> (of_char c :: nat) \<le> 122 then char_of ((of_char c :: nat) - 32)
      else c)"

definition upper :: "string \<Rightarrow> string" where
  "upper s = map upper_char s"

text \<open>\<open>item.get(key, default)\<close>\<close>

definition get_item :: "metadata \<Rightarrow> string \<Rightarrow> pyval \<Rightarrow> pyval" where
  "get_item d k other = (case map_of d k of None \<Rightarrow> other | Some v \<Rightarrow> v)"

definition unknown_keys :: "metadata \<Rightarrow> string list \<Rightarrow> string list" where
  "unknown_keys d allowed = sort_strings (filter (\<lambda>k. k \<notin> set allowed) (map fst d))"

section \<open>Records of a manifest\<close>

text \<open>The checks of \<open>_record_from_manifest\<close> after the type, one after the other.\<close>

definition manifest_content :: "string \<Rightarrow> pyval \<Rightarrow> dns_error + string" where
  "manifest_content record_type v =
     (case v of
        PStr (c # s) \<Rightarrow>
          if record_type \<in> set DOMAIN_CONTENT_TYPES then normalize_domain_content record_type (c # s)
          else Inr (c # s)
      | _ \<Rightarrow> Inl (DnsError ''manifest record content must be a non-empty string''))"

definition manifest_ttl :: "pyval \<Rightarrow> dns_error + int" where
  "manifest_ttl v =
     (case v of
        PInt ttl \<Rightarrow>
          if ttl \<noteq> 1 \<and> \<not> (60 \<le> ttl \<and> ttl \<le> 86400)
          then Inl (DnsError ''manifest record ttl must be 1 or between 60 and 86400'')
          else Inr ttl
      | _ \<Rightarrow> Inl (DnsError ''manifest record ttl must be 1 or between 60 and 86400''))"

definition manifest_proxied :: "string \<Rightarrow> int \<Rightarrow> pyval \<Rightarrow> dns_error + bool" where
  "manifest_proxied record_type ttl v =
     (case v of
        PBool proxied \<Rightarrow>
          if proxied \<and> record_type \<notin> set PROXY_CAPABLE_TYPES
          then Inl (DnsError (''manifest forbids proxied=true for '' @ record_type))
          else if proxied \<and> ttl \<noteq> 1
          then Inl (DnsError ''proxied Cloudflare records require ttl: 1 (Auto)'')
          else Inr proxied
      | _ \<Rightarrow> Inl (DnsError ''manifest record proxied must be boolean''))"

definition manifest_priority :: "string \<Rightarrow> pyval \<Rightarrow> dns_error + int option" where
  "manifest_priority record_type v =
     (if record_type = ''MX'' then
        (case v of
           PInt p \<Rightarrow>
             if 0 \<le> p \<and> p \<le> 65535 then Inr (Some p)
             else Inl (DnsError ''manifest MX records require integer priority 0..65535'')
         | _ \<Rightarrow> Inl (DnsError ''manifest MX records require integer priority 0..65535''))
      else if v \<noteq> PNone then Inl (DnsError ''manifest priority is only supported for MX records'')
      else Inr None)"

definition supported_type :: "pyval \<Rightarrow> string option" where
  "supported_type v =
     (case v of PStr t \<Rightarrow> if upper t \<in> set SUPPORTED_TYPES then Some (upper t) else None | _ \<Rightarrow> None)"

definition record_from_manifest :: "pyval \<Rightarrow> string \<Rightarrow> dns_error + DnsRecord" where
  "record_from_manifest item zone =
     (case item of
        PDict d \<Rightarrow>
          let unknown = unknown_keys d [''type'', ''name'', ''content'', ''ttl'', ''proxied'', ''priority''] in
          if unknown \<noteq> []
          then Inl (DnsError (''manifest record contains unsupported keys: '' @ joined '', '' unknown))
          else (case supported_type (get_item d ''type'' PNone) of
            None \<Rightarrow> Inl (DnsError ''manifest record type is unsupported'')
          | Some t \<Rightarrow> (case normalize_name (get_item d ''name'' PNone) zone of
              Inl x \<Rightarrow> Inl x
            | Inr name \<Rightarrow> (case manifest_content t (get_item d ''content'' PNone) of
                Inl x \<Rightarrow> Inl x
              | Inr content \<Rightarrow> (case manifest_ttl (get_item d ''ttl'' (PInt 1)) of
                  Inl x \<Rightarrow> Inl x
                | Inr ttl \<Rightarrow> (case manifest_proxied t ttl (get_item d ''proxied'' (PBool False)) of
                    Inl x \<Rightarrow> Inl x
                  | Inr proxied \<Rightarrow> (case manifest_priority t (get_item d ''priority'' PNone) of
                      Inl x \<Rightarrow> Inl x
                    | Inr priority \<Rightarrow> Inr
                        \<lparr>dn_type = t, dn_name = name, dn_content = content, dn_ttl = ttl,
                         dn_proxied = proxied, dn_priority = priority, dn_id = None,
                         dn_restore = None\<rparr>))))))
      | _ \<Rightarrow> Inl (DnsError ''manifest records must be mappings''))"

text \<open>A record of a rollback manifest: the same with the metadata that can be restored.\<close>

definition rollback_record :: "pyval \<Rightarrow> string \<Rightarrow> dns_error + DnsRecord" where
  "rollback_record item zone =
     (case item of
        PDict d \<Rightarrow>
          let unknown = unknown_keys d ([''type'', ''name'', ''content'', ''ttl'', ''proxied'', ''priority'']
                @ RESTORABLE_METADATA_FIELDS);
              restore = concat (map (\<lambda>k. case map_of d k of None \<Rightarrow> [] | Some v \<Rightarrow> [(k, v)])
                RESTORABLE_METADATA_FIELDS) in
          if unknown \<noteq> []
          then Inl (DnsError (''rollback record contains unsupported keys: '' @ joined '', '' unknown))
          else (case record_from_manifest
              (PDict (filter (\<lambda>(k, v). k \<notin> set RESTORABLE_METADATA_FIELDS) d)) zone of
            Inl x \<Rightarrow> Inl x
          | Inr r \<Rightarrow> Inr (r\<lparr>dn_restore := if restore = [] then None else Some restore\<rparr>))
      | _ \<Rightarrow> Inl (DnsError ''rollback manifest records must be mappings''))"

section \<open>Manifests\<close>

text \<open>A list of values read one after the other; the first error ends it.\<close>

fun read_all :: "('a \<Rightarrow> dns_error + 'b) \<Rightarrow> 'a list \<Rightarrow> dns_error + 'b list" where
  "read_all f [] = Inr []"
| "read_all f (x # xs) =
     (case f x of
        Inl e \<Rightarrow> Inl e
      | Inr y \<Rightarrow> (case read_all f xs of Inl e \<Rightarrow> Inl e | Inr ys \<Rightarrow> Inr (y # ys)))"

definition managed_entry :: "string \<Rightarrow> string \<Rightarrow> pyval \<Rightarrow> dns_error + recordset" where
  "managed_entry kind zone item =
     (case item of
        PDict d \<Rightarrow>
          if set (map fst d) \<noteq> {''type'', ''name''}
          then Inl (DnsError (kind @ ''managed_recordsets entries require exactly type and name''))
          else (case supported_type (get_item d ''type'' PNone) of
            None \<Rightarrow> Inl (DnsError (kind @ ''managed recordset type is unsupported''))
          | Some t \<Rightarrow> (case normalize_name (get_item d ''name'' PNone) zone of
              Inl x \<Rightarrow> Inl x
            | Inr name \<Rightarrow> Inr (t, name)))
      | _ \<Rightarrow> Inl (DnsError (kind @ ''managed_recordsets entries require exactly type and name'')))"

text \<open>The checks of the records of one name; \<open>kind\<close> is the word of the messages.\<close>

definition check_owner :: "string \<Rightarrow> DnsRecord list \<Rightarrow> string \<Rightarrow> dns_error option" where
  "check_owner kind records name =
     (let owner = filter (\<lambda>r. dn_name r = name) records;
          types = set_of (map dn_type owner);
          cnames = length (filter (\<lambda>r. dn_type r = ''CNAME'') owner);
          mx = filter (\<lambda>r. dn_type r = ''MX'') owner;
          null_mx = filter (\<lambda>r. dn_content r = ''.'') mx;
          address = filter (\<lambda>r. dn_type r \<in> set ADDRESS_TYPES) owner in
      if 1 < cnames then Some (DnsError (''at most one '' @ kind @ '' CNAME is allowed at '' @ name))
      else if ''CNAME'' \<in> set types \<and> 1 < length types
      then Some (DnsError (''CNAME cannot coexist with other '' @ kind @ '' record types at '' @ name))
      else if null_mx \<noteq> [] \<and>
        (length mx \<noteq> 1 \<or> length null_mx \<noteq> 1 \<or> dn_priority (hd null_mx) \<noteq> Some 0)
      then Some (DnsError (''Null MX at '' @ name @ '' must be the sole MX record with priority 0''))
      else if 1 < length (set_of (map dn_proxied address))
      then Some (DnsError (''A/AAAA '' @ (if kind = ''rollback'' then ''rollback '' else '''') @
        ''records at '' @ name @ '' must use one consistent Cloudflare proxy mode''))
      else None)"

fun first_error :: "dns_error option list \<Rightarrow> dns_error option" where
  "first_error [] = None"
| "first_error (None # xs) = first_error xs"
| "first_error (Some e # xs) = Some e"

definition check_owners :: "string \<Rightarrow> DnsRecord list \<Rightarrow> dns_error option" where
  "check_owners kind records =
     first_error (map (check_owner kind records) (set_of (map dn_name records)))"

text \<open>The part of a document that the two kinds of manifest share, after their versions: zone,
  managed recordsets and records, which \<open>read_record\<close> reads.\<close>

definition manifest_body ::
  "string \<Rightarrow> string \<Rightarrow> string \<Rightarrow> (pyval \<Rightarrow> string \<Rightarrow> dns_error + DnsRecord) \<Rightarrow> string \<Rightarrow> bool \<Rightarrow>
   bool \<Rightarrow> metadata \<Rightarrow> dns_error + DnsManifest" where
  "manifest_body entry manifest kind read_record zone template rollback d =
     (case get_item d ''managed_recordsets'' PNone of
        PList (s # sets) \<Rightarrow> (case read_all (managed_entry entry zone) (s # sets) of
          Inl x \<Rightarrow> Inl x
        | Inr managed \<Rightarrow>
            if \<not> distinct managed
            then Inl (DnsError (manifest @ '' contains duplicate managed_recordsets''))
            else (case get_item d ''records'' PNone of
              PList items \<Rightarrow> (case read_all (\<lambda>i. read_record i zone) items of
                Inl x \<Rightarrow> Inl x
              | Inr records \<Rightarrow>
                  if list_ex (\<lambda>r. recordset_of r \<notin> set managed) records
                  then Inl (DnsError (''every '' @ kind @ '' record must belong to a managed_recordset''))
                  else if \<not> distinct (map semantic_key records)
                  then Inl (DnsError (manifest @ '' contains duplicate desired records''))
                  else (case check_owners kind records of
                    Some x \<Rightarrow> Inl x
                  | None \<Rightarrow> Inr \<lparr>dm_zone = zone, dm_managed = managed, dm_records = records,
                      dm_template = template, dm_rollback = rollback\<rparr>))
            | _ \<Rightarrow> Inl (DnsError (manifest @ '' records must be a list''))))
      | _ \<Rightarrow> Inl (DnsError (manifest @ '' requires non-empty managed_recordsets'')))"

definition manifest_of_document :: "pyval \<Rightarrow> dns_error + DnsManifest" where
  "manifest_of_document doc =
     (case doc of
        PDict d \<Rightarrow>
          let unknown = unknown_keys d
            [''version'', ''zone'', ''managed_recordsets'', ''records'', ''template''] in
          if unknown \<noteq> []
          then Inl (DnsError (''manifest contains unsupported keys: '' @ joined '', '' unknown))
          else if get_item d ''version'' PNone \<noteq> PStr ''cybercore.cloudflare-dns/v0.1''
          then Inl (DnsError ''manifest version must be cybercore.cloudflare-dns/v0.1'')
          else (case normalize_zone (get_item d ''zone'' PNone) of
            Inl x \<Rightarrow> Inl x
          | Inr zone \<Rightarrow> (case get_item d ''template'' (PBool False) of
              PBool template \<Rightarrow>
                manifest_body '''' ''manifest'' ''desired'' record_from_manifest zone template False d
            | _ \<Rightarrow> Inl (DnsError ''manifest template must be boolean'')))
      | _ \<Rightarrow> Inl (DnsError ''Cloudflare DNS manifest must be a mapping''))"

definition rollback_of_document :: "pyval \<Rightarrow> dns_error + DnsManifest" where
  "rollback_of_document doc =
     (case doc of
        PDict d \<Rightarrow>
          let unknown = unknown_keys d [''version'', ''zone'', ''managed_recordsets'', ''records''] in
          if unknown \<noteq> []
          then Inl (DnsError (''rollback manifest contains unsupported keys: '' @ joined '', '' unknown))
          else if get_item d ''version'' PNone \<noteq> PStr ''cybercore.cloudflare-dns.rollback/v0.1''
          then Inl (DnsError
            ''rollback manifest version must be cybercore.cloudflare-dns.rollback/v0.1'')
          else (case normalize_zone (get_item d ''zone'' PNone) of
            Inl x \<Rightarrow> Inl x
          | Inr zone \<Rightarrow>
              manifest_body ''rollback '' ''rollback manifest'' ''rollback'' rollback_record zone False True d)
      | _ \<Rightarrow> Inl (DnsError ''Cloudflare DNS rollback manifest must be a mapping''))"

section \<open>The YAML text\<close>

datatype yaml_token = AnchorToken | AliasToken | DirectiveToken | OtherToken

datatype yaml_node =
    ScalarNode string
  | SequenceNode "yaml_node list"
  | MappingNode "(yaml_node \<times> yaml_node) list"

text \<open>The services of the library: \<open>None\<close> is a \<open>YAMLError\<close>.\<close>

record yaml =
  ya_scan :: "string \<Rightarrow> yaml_token list option"
  ya_compose :: "string \<Rightarrow> yaml_node option option"
  ya_load :: "string \<Rightarrow> pyval option"

fun reject_duplicate_keys :: "yaml_node \<Rightarrow> dns_error option"
  and reject_pairs :: "string list \<Rightarrow> (yaml_node \<times> yaml_node) list \<Rightarrow> dns_error option"
  and reject_items :: "yaml_node list \<Rightarrow> dns_error option" where
  "reject_duplicate_keys (ScalarNode s) = None"
| "reject_duplicate_keys (SequenceNode xs) = reject_items xs"
| "reject_duplicate_keys (MappingNode kvs) = reject_pairs [] kvs"
| "reject_pairs seen [] = None"
| "reject_pairs seen ((k, v) # kvs) =
     (case k of
        ScalarNode key \<Rightarrow>
          if key \<in> set seen
          then Some (DnsError (''Cloudflare DNS manifest contains duplicate key: '' @ key))
          else (case reject_duplicate_keys v of
            Some x \<Rightarrow> Some x
          | None \<Rightarrow> reject_pairs (key # seen) kvs)
      | _ \<Rightarrow> Some (DnsError ''Cloudflare DNS manifest keys must be scalar strings''))"
| "reject_items [] = None"
| "reject_items (x # xs) =
     (case reject_duplicate_keys x of Some e \<Rightarrow> Some e | None \<Rightarrow> reject_items xs)"

fun reject_token :: "yaml_token \<Rightarrow> dns_error option" where
  "reject_token AnchorToken = Some (DnsError ''Cloudflare DNS manifest forbids YAML anchors'')"
| "reject_token AliasToken = Some (DnsError ''Cloudflare DNS manifest forbids YAML aliases'')"
| "reject_token DirectiveToken = Some (DnsError ''Cloudflare DNS manifest forbids YAML directives'')"
| "reject_token OtherToken = None"

definition validate_manifest_yaml :: "yaml \<Rightarrow> string \<Rightarrow> dns_error option" where
  "validate_manifest_yaml y raw =
     (case ya_scan y raw of
        None \<Rightarrow> Some (DnsError ''Cloudflare DNS manifest is invalid YAML'')
      | Some tokens \<Rightarrow> (case first_error (map reject_token tokens) of
          Some x \<Rightarrow> Some x
        | None \<Rightarrow> (case ya_compose y raw of
            None \<Rightarrow> Some (DnsError ''Cloudflare DNS manifest is invalid YAML'')
          | Some None \<Rightarrow> None
          | Some (Some node) \<Rightarrow> reject_duplicate_keys node)))"

text \<open>The text of the file, when it could be read.\<close>

definition load_manifest :: "yaml \<Rightarrow> string \<Rightarrow> string option \<Rightarrow> dns_error + DnsManifest" where
  "load_manifest y path raw =
     (case raw of
        None \<Rightarrow> Inl (DnsError (''cannot read Cloudflare DNS manifest: '' @ path))
      | Some t \<Rightarrow> (case validate_manifest_yaml y t of
          Some x \<Rightarrow> Inl x
        | None \<Rightarrow> (case ya_load y t of
            None \<Rightarrow> Inl (DnsError ''Cloudflare DNS manifest is invalid YAML'')
          | Some doc \<Rightarrow> manifest_of_document doc)))"

definition load_rollback_manifest :: "yaml \<Rightarrow> string \<Rightarrow> string option \<Rightarrow> dns_error + DnsManifest" where
  "load_rollback_manifest y path raw =
     (case raw of
        None \<Rightarrow> Inl (DnsError (''cannot read Cloudflare DNS rollback manifest: '' @ path))
      | Some t \<Rightarrow> (case validate_manifest_yaml y t of
          Some x \<Rightarrow> Inl x
        | None \<Rightarrow> (case ya_load y t of
            None \<Rightarrow> Inl (DnsError ''Cloudflare DNS rollback manifest is invalid YAML'')
          | Some doc \<Rightarrow> rollback_of_document doc)))"

end
