(* ===== verification/Dns_Plan.thy ===== *)
theory Dns_Plan
  imports Dns_Model Sha256
begin

text \<open>
  The plan of a manifest (\<open>cloudflare_dns.py\<close>): for every managed recordset what is to be updated,
  created and deleted, and the fingerprint and approval text that bind it.
\<close>

section \<open>Keys\<close>

text \<open>The key by which records are compared: the semantic key and, for a rollback, the JSON text of
  the metadata (empty otherwise, where Python's key has no such part).\<close>

type_synonym plan_key = "semantic_key \<times> string"

definition planning_key :: "bool \<Rightarrow> DnsRecord \<Rightarrow> dns_error + plan_key" where
  "planning_key rollback r =
     (if \<not> rollback then Inr (semantic_key r, '''')
      else case json_dumps True True (PDict (case dn_restore r of None \<Rightarrow> [] | Some m \<Rightarrow> m)) of
        Inl JTypeError \<Rightarrow> Inl (DnsOther ''TypeError'')
      | Inl JValueError \<Rightarrow> Inl (DnsOther ''ValueError'')
      | Inr t \<Rightarrow> Inr (semantic_key r, t))"

text \<open>Python's order of these tuples; \<open>None\<close> and an integer cannot be compared.\<close>

fun key_le :: "plan_key \<Rightarrow> plan_key \<Rightarrow> bool" where
  "key_le ((t, n, c, ttl, p, pr), m) ((t', n', c', ttl', p', pr'), m') =
     (if t \<noteq> t' then str_le t t'
      else if n \<noteq> n' then str_le n n'
      else if c \<noteq> c' then str_le c c'
      else if ttl \<noteq> ttl' then ttl < ttl'
      else if p \<noteq> p' then \<not> p
      else if pr \<noteq> pr' then (case (pr, pr') of (Some a, Some b) \<Rightarrow> a < b | _ \<Rightarrow> pr = None)
      else str_le m m')"

fun comparable :: "plan_key \<Rightarrow> plan_key \<Rightarrow> bool" where
  "comparable ((t, n, c, ttl, p, pr), m) ((t', n', c', ttl', p', pr'), m') =
     ((t, n, c, ttl, p) = (t', n', c', ttl', p') \<longrightarrow> (pr = None \<longleftrightarrow> pr' = None))"

type_synonym keyed = "(plan_key \<times> DnsRecord) list"

definition keyed_of :: "bool \<Rightarrow> DnsRecord \<Rightarrow> dns_error + plan_key \<times> DnsRecord" where
  "keyed_of rollback r = (case planning_key rollback r of Inl x \<Rightarrow> Inl x | Inr k \<Rightarrow> Inr (k, r))"

definition sort_keyed :: "keyed \<Rightarrow> keyed" where
  "sort_keyed krs = sort_by (\<lambda>a b. key_le (fst a) (fst b)) krs"

text \<open>\<open>sorted(records, key=...)\<close>, with the keys. Two tied records of which one has a priority and
  the other has none are compared by any sort, and raise.\<close>

definition sort_records :: "bool \<Rightarrow> DnsRecord list \<Rightarrow> dns_error + keyed" where
  "sort_records rollback rs =
     (case read_all (keyed_of rollback) rs of
        Inl x \<Rightarrow> Inl x
      | Inr krs \<Rightarrow>
          if list_all (\<lambda>a. list_all (\<lambda>b. comparable (fst a) (fst b)) krs) krs
          then Inr (sort_keyed krs) else Inl (DnsOther ''TypeError''))"

section \<open>One recordset\<close>

text \<open>\<open>exact_desired\<close>\<close>

fun exact_put :: "plan_key \<times> DnsRecord \<Rightarrow> keyed \<Rightarrow> keyed" where
  "exact_put (k, r) [] = [(k, r)]"
| "exact_put (k, r) ((k', r') # krs) =
     (if k = k' then (k', r) # krs else (k', r') # exact_put (k, r) krs)"

text \<open>The loop over the current records: those without a partner, and the desired ones left.\<close>

fun match_current :: "keyed \<Rightarrow> keyed \<Rightarrow> DnsRecord list \<times> keyed" where
  "match_current [] exact = ([], exact)"
| "match_current ((k, r) # krs) exact =
     (if k \<in> fst ` set exact then match_current krs (filter (\<lambda>(k', r'). k' \<noteq> k) exact)
      else case match_current krs exact of (unmatched, left) \<Rightarrow> (r # unmatched, left))"

definition recordset_changes :: "recordset \<Rightarrow> DnsRecord list \<Rightarrow> DnsRecord list \<Rightarrow> DnsChange list" where
  "recordset_changes rset unmatched_current unmatched_desired =
     (let n = min (length unmatched_current) (length unmatched_desired) in
      map (\<lambda>(b, a). \<lparr>dc_action = UPDATE, dc_recordset = rset, dc_before = Some b, dc_after = Some a\<rparr>)
        (zip unmatched_current unmatched_desired) @
      map (\<lambda>a. \<lparr>dc_action = CREATE, dc_recordset = rset, dc_before = None, dc_after = Some a\<rparr>)
        (drop n unmatched_desired) @
      map (\<lambda>b. \<lparr>dc_action = DELETE, dc_recordset = rset, dc_before = Some b, dc_after = None\<rparr>)
        (drop n unmatched_current))"

definition plan_recordset ::
  "bool \<Rightarrow> DnsRecord list \<Rightarrow> DnsRecord list \<Rightarrow> recordset \<Rightarrow> dns_error + DnsChange list" where
  "plan_recordset rollback current desired rset =
     (case sort_records rollback (filter (\<lambda>r. recordset_of r = rset) current) of
        Inl x \<Rightarrow> Inl x
      | Inr current_set \<Rightarrow> (case sort_records rollback (filter (\<lambda>r. recordset_of r = rset) desired) of
          Inl x \<Rightarrow> Inl x
        | Inr desired_set \<Rightarrow>
            (case match_current current_set (fold exact_put desired_set []) of
               (unmatched, left) \<Rightarrow>
                 Inr (recordset_changes rset unmatched (map snd (sort_keyed left))))))"

section \<open>Names in use\<close>

definition name_conflict ::
  "recordset list \<Rightarrow> DnsRecord list \<Rightarrow> DnsRecord list \<Rightarrow> string \<Rightarrow> dns_error option" where
  "name_conflict managed desired current name =
     (let wanted = filter (\<lambda>r. dn_name r = name) desired;
          types = map dn_type wanted;
          unmanaged = filter (\<lambda>r. dn_name r = name \<and> recordset_of r \<notin> set managed) current in
      if list_ex (\<lambda>r. dn_type r = ''NS'') unmanaged
      then Some (DnsError (''desired records at '' @ name @ '' conflict with an unmanaged NS record''))
      else if ''CNAME'' \<in> set types then
        (let conflicts = filter (\<lambda>r. dn_type r \<in> set IP_RESOLUTION_TYPES) unmanaged in
         if conflicts \<noteq> []
         then Some (DnsError (''desired CNAME at '' @ name @ '' conflicts with unmanaged '' @
           joined '', '' (sort_strings (set_of (map dn_type conflicts))) @ '' record(s)''))
         else None)
      else if list_ex (\<lambda>t. t \<in> set ADDRESS_TYPES) types then
        (if list_ex (\<lambda>r. dn_type r = ''CNAME'') unmanaged
         then Some (DnsError (''desired A/AAAA at '' @ name @ '' conflicts with an unmanaged CNAME record''))
         else
           (let address = filter (\<lambda>r. dn_type r \<in> set ADDRESS_TYPES) wanted;
                others = filter (\<lambda>r. dn_type r \<in> set ADDRESS_TYPES) unmanaged in
            if address \<noteq> [] \<and> list_ex (\<lambda>r. dn_proxied r \<noteq> dn_proxied (hd address)) others
            then Some (DnsError (''desired A/AAAA proxy mode at '' @ name @
              '' conflicts with unmanaged A/AAAA records''))
            else None))
      else None)"

definition validate_current_name_conflicts ::
  "DnsManifest \<Rightarrow> DnsRecord list \<Rightarrow> dns_error option" where
  "validate_current_name_conflicts m current =
     first_error (map (name_conflict (dm_managed m) (dm_records m) current)
       (set_of (map dn_name (dm_records m))))"

section \<open>The plan\<close>

record DnsPlan =
  dp_zone :: string
  dp_zone_id :: string
  dp_zone_status :: string
  dp_changes :: "DnsChange list"
  dp_fingerprint :: string
  dp_current_records :: "DnsRecord list"
  dp_rollback :: bool

definition approval_text :: "DnsPlan \<Rightarrow> string" where
  "approval_text p =
     (if dp_rollback p then ''ROLLBACK'' else ''APPLY'') @ '' CLOUDFLARE DNS '' @ dp_zone p @ '' '' @
     dp_fingerprint p"

definition dumps_text :: "pyval \<Rightarrow> dns_error + string" where
  "dumps_text v =
     (case json_dumps True True v of
        Inl JTypeError \<Rightarrow> Inl (DnsOther ''TypeError'')
      | Inl JValueError \<Rightarrow> Inl (DnsOther ''ValueError'')
      | Inr t \<Rightarrow> Inr t)"

definition canonical_plan_payload ::
  "string \<Rightarrow> string \<Rightarrow> string \<Rightarrow> DnsChange list \<Rightarrow> bool \<Rightarrow> dns_error + string" where
  "canonical_plan_payload zone zone_id zone_status changes rollback =
     dumps_text (PDict
       [(''zone'', PStr zone), (''zone_id'', PStr zone_id), (''zone_status'', PStr zone_status),
        (''changes'', PList (map (change_dict rollback) changes))])"

definition managed_snapshot_fingerprint :: "DnsManifest \<Rightarrow> DnsRecord list \<Rightarrow> dns_error + string" where
  "managed_snapshot_fingerprint m records =
     (case read_all (\<lambda>v. case dumps_text v of Inl x \<Rightarrow> Inl x | Inr t \<Rightarrow> Inr (t, v))
         (map (record_dict True) (filter (\<lambda>r. recordset_of r \<in> set (dm_managed m)) records)) of
        Inl x \<Rightarrow> Inl x
      | Inr items \<Rightarrow> (case dumps_text (PList (map snd (sort_items items))) of
          Inl x \<Rightarrow> Inl x
        | Inr t \<Rightarrow> Inr (sha256_hex t)))"

definition build_plan ::
  "DnsManifest \<Rightarrow> string \<Rightarrow> DnsRecord list \<Rightarrow> string \<Rightarrow> dns_error + DnsPlan" where
  "build_plan m zone_id current zone_status =
     (case validate_current_name_conflicts m current of
        Some x \<Rightarrow> Inl x
      | None \<Rightarrow>
          (case read_all (plan_recordset (dm_rollback m)
              (filter (\<lambda>r. recordset_of r \<in> set (dm_managed m)) current) (dm_records m))
              (dm_managed m) of
             Inl x \<Rightarrow> Inl x
           | Inr parts \<Rightarrow>
               if 200 < length (concat parts)
               then Inl (DnsError ''Cloudflare DNS v0.1 limits one plan to 200 changes'')
               else (case canonical_plan_payload (dm_zone m) zone_id zone_status (concat parts)
                   (dm_rollback m) of
                 Inl x \<Rightarrow> Inl x
               | Inr payload \<Rightarrow> Inr
                   \<lparr>dp_zone = dm_zone m, dp_zone_id = zone_id, dp_zone_status = zone_status,
                    dp_changes = concat parts, dp_fingerprint = sha256_hex payload,
                    dp_current_records = current, dp_rollback = dm_rollback m\<rparr>)))"

end
