(* ===== verification/Dns_Properties.thy ===== *)
theory Dns_Properties
  imports Dns_Plan
begin

text \<open>
  What a plan does. \<open>zone_after\<close> is the zone after a batch of changes as Cloudflare documents it:
  a change names its record by id; a patch sets the fields it has and keeps the others; created
  records get a new id.
\<close>

section \<open>The effect of a batch\<close>

definition patched :: "DnsRecord \<Rightarrow> DnsRecord \<Rightarrow> DnsRecord" where
  "patched b a =
     b\<lparr>dn_type := dn_type a, dn_name := dn_name a, dn_content := dn_content a, dn_ttl := dn_ttl a,
       dn_proxied := (if dn_type a \<in> set PROXY_CAPABLE_TYPES then dn_proxied a else dn_proxied b),
       dn_priority := (case dn_priority a of None \<Rightarrow> dn_priority b | Some p \<Rightarrow> Some p),
       dn_restore := (case dn_restore a of
         None \<Rightarrow> dn_restore b
       | Some m \<Rightarrow> Some (payload_update (case dn_restore b of None \<Rightarrow> [] | Some m' \<Rightarrow> m') m))\<rparr>"

definition names_record :: "DnsRecord \<Rightarrow> DnsChange \<Rightarrow> bool" where
  "names_record r c = (case dc_before c of None \<Rightarrow> False | Some b \<Rightarrow> dn_id b = dn_id r)"

definition effect :: "DnsChange list \<Rightarrow> DnsRecord \<Rightarrow> DnsRecord list" where
  "effect cs r =
     (case List.find (names_record r) cs of
        None \<Rightarrow> [r]
      | Some c \<Rightarrow> (case dc_after c of None \<Rightarrow> [] | Some a \<Rightarrow> [patched r a]))"

definition creations :: "DnsChange list \<Rightarrow> DnsRecord list" where
  "creations cs = concat (map (\<lambda>c. case (dc_before c, dc_after c) of
     (None, Some a) \<Rightarrow> [a] | _ \<Rightarrow> []) cs)"

definition zone_after :: "(DnsRecord \<Rightarrow> DnsRecord) \<Rightarrow> DnsChange list \<Rightarrow> DnsRecord list \<Rightarrow> DnsRecord list" where
  "zone_after created cs zone = concat (map (effect cs) zone) @ map created (creations cs)"

text \<open>A created record has the fields it was created with.\<close>

definition creates :: "(DnsRecord \<Rightarrow> DnsRecord) \<Rightarrow> bool" where
  "creates created \<longleftrightarrow> (\<forall>a. semantic_key (created a) = semantic_key a)"

text \<open>What Cloudflare keeps of its records: each has an id of its own, only types that can be
  proxied are, and only MX records have a priority.\<close>

definition plain_record :: "DnsRecord \<Rightarrow> bool" where
  "plain_record r \<longleftrightarrow> (dn_proxied r \<longrightarrow> dn_type r \<in> set PROXY_CAPABLE_TYPES) \<and>
     (dn_priority r = None \<longleftrightarrow> dn_type r \<noteq> ''MX'')"

definition zone_ok :: "DnsRecord list \<Rightarrow> bool" where
  "zone_ok zone \<longleftrightarrow> distinct (map dn_id zone) \<and> (\<forall>r\<in>set zone. plain_record r)"

text \<open>What loading a manifest checks.\<close>

definition manifest_ok :: "DnsManifest \<Rightarrow> bool" where
  "manifest_ok m \<longleftrightarrow> distinct (dm_managed m) \<and> distinct (map semantic_key (dm_records m)) \<and>
     (\<forall>r\<in>set (dm_records m). plain_record r \<and> recordset_of r \<in> set (dm_managed m))"

lemma recordset_key: "semantic_key r = semantic_key r' \<Longrightarrow> recordset_of r = recordset_of r'"
  by (simp add: semantic_key_def recordset_of_def)

lemma patched_key:
  assumes "recordset_of b = recordset_of a" and "plain_record a" and "plain_record b"
  shows "semantic_key (patched b a) = semantic_key a"
  using assms
  by (cases "dn_priority a")
    (auto simp: semantic_key_def patched_def recordset_of_def plain_record_def split: if_splits)

section \<open>Matching\<close>

definition keyed :: "(DnsRecord \<Rightarrow> plan_key) \<Rightarrow> keyed \<Rightarrow> bool" where
  "keyed f krs \<longleftrightarrow> (\<forall>(k, r)\<in>set krs. k = f r)"

lemma mset_distinct_split:
  "distinct xs \<Longrightarrow> k \<in> set xs \<Longrightarrow> mset xs = add_mset k (mset (filter (\<lambda>x. x \<noteq> k) xs))"
proof (induction xs)
  case (Cons x xs)
  have "k \<notin> set xs \<Longrightarrow> filter (\<lambda>x. x \<noteq> k) xs = xs" by (induction xs) auto
  with Cons show ?case by (cases "x = k") auto
qed simp

lemma match_current_mset:
  assumes "keyed f krs" and "distinct (map fst exact)" and "match_current krs exact = (u, left)"
  shows "\<exists>matched. mset (map snd krs) = mset matched + mset u \<and>
    mset (map fst exact) = mset (map f matched) + mset (map fst left) \<and> set left \<subseteq> set exact \<and>
    f ` set u \<inter> fst ` set left = {}"
  using assms
proof (induction krs arbitrary: exact u left)
  case Nil
  then show ?case by auto
next
  case (Cons kr krs)
  obtain k r where kr: "kr = (k, r)" by (cases kr)
  from Cons.prems(1) kr have k: "k = f r" and rest: "keyed f krs" by (auto simp: keyed_def)
  show ?case
  proof (cases "k \<in> fst ` set exact")
    case True
    let ?exact = "filter (\<lambda>(k', r'). k' \<noteq> k) exact"
    have "match_current krs ?exact = (u, left)" using Cons.prems(3) True kr by simp
    moreover have "map fst ?exact = filter (\<lambda>k'. k' \<noteq> k) (map fst exact)"
      by (simp add: filter_map comp_def case_prod_unfold)
    ultimately obtain matched where
      m: "mset (map snd krs) = mset matched + mset u"
      "mset (filter (\<lambda>k'. k' \<noteq> k) (map fst exact)) = mset (map f matched) + mset (map fst left)"
      "set left \<subseteq> set ?exact" "f ` set u \<inter> fst ` set left = {}"
      using Cons.IH [OF rest, of ?exact u left] Cons.prems(2) by auto
    have "mset (map fst exact) = add_mset k (mset (filter (\<lambda>k'. k' \<noteq> k) (map fst exact)))"
      using mset_distinct_split [OF Cons.prems(2), of k] True by simp
    with m kr k show ?thesis by (intro exI [of _ "r # matched"]) auto
  next
    case False
    obtain u' where u: "u = r # u'" and "match_current krs exact = (u', left)"
      using Cons.prems(3) False kr by (auto split: prod.splits)
    with Cons.IH [OF rest Cons.prems(2)] obtain matched where
      "mset (map snd krs) = mset matched + mset u'"
      "mset (map fst exact) = mset (map f matched) + mset (map fst left)"
      "set left \<subseteq> set exact" "f ` set u' \<inter> fst ` set left = {}"
      by blast
    with u kr k False show ?thesis by (intro exI [of _ matched]) auto
  qed
qed

lemma exact_put_new: "k \<notin> fst ` set krs \<Longrightarrow> exact_put (k, r) krs = krs @ [(k, r)]"
  by (induction krs) auto

lemma fold_exact_put:
  "distinct (map fst (acc @ krs)) \<Longrightarrow> fold exact_put krs acc = acc @ krs"
  by (induction krs arbitrary: acc) (auto simp: exact_put_new)

lemma read_all_map: "(\<And>x. x \<in> set xs \<Longrightarrow> f x = Inr (g x)) \<Longrightarrow> read_all f xs = Inr (map g xs)"
  by (induction xs) auto

lemma sort_records_plain:
  assumes "sort_records False rs = Inr krs"
  shows "mset krs = mset (map (\<lambda>r. ((semantic_key r, ''''), r)) rs)"
proof -
  have "read_all (keyed_of False) rs = Inr (map (\<lambda>r. ((semantic_key r, ''''), r)) rs)"
    by (rule read_all_map) (simp add: keyed_of_def planning_key_def)
  with assms show ?thesis
    by (auto simp: sort_records_def sort_keyed_def split: if_splits)
qed

lemma plan_recordset_matching:
  assumes plan: "plan_recordset False current desired rset = Inr cs"
    and "distinct (map semantic_key desired)"
  shows "\<exists>matched u d. mset (filter (\<lambda>r. recordset_of r = rset) current) = mset matched + mset u \<and>
    mset (map semantic_key (filter (\<lambda>r. recordset_of r = rset) desired)) =
      mset (map semantic_key matched) + mset (map semantic_key d) \<and>
    set d \<subseteq> set (filter (\<lambda>r. recordset_of r = rset) desired) \<and> cs = recordset_changes rset u d \<and>
    semantic_key ` set u \<inter> semantic_key ` set d = {}"
proof -
  let ?C = "filter (\<lambda>r. recordset_of r = rset) current"
  let ?D = "filter (\<lambda>r. recordset_of r = rset) desired"
  let ?f = "\<lambda>r. (semantic_key r, '''') :: plan_key"
  obtain kc kd where kc: "sort_records False ?C = Inr kc" and kd: "sort_records False ?D = Inr kd"
    using plan by (auto simp: plan_recordset_def split: sum.splits)
  obtain u left where match: "match_current kc (fold exact_put kd []) = (u, left)"
    by (cases "match_current kc (fold exact_put kd [])")
  have cs: "cs = recordset_changes rset u (map snd (sort_keyed left))"
    using plan kc kd match by (simp add: plan_recordset_def)
  note mc = sort_records_plain [OF kc] and md = sort_records_plain [OF kd]
  have keyed: "keyed ?f kc" "keyed ?f kd"
    using mset_eq_setD [OF mc] mset_eq_setD [OF md] by (auto simp: keyed_def)
  have kd_keys: "mset (map fst kd) = mset (map ?f ?D)"
    using arg_cong [OF md, of "image_mset fst"] by (simp add: multiset.map_comp comp_def)
  have "distinct (map ?f ?D)"
    using assms(2) by (auto simp: distinct_map inj_on_def)
  with kd_keys have distinct: "distinct (map fst kd)" by (metis mset_eq_imp_distinct_iff)
  then have exact: "fold exact_put kd [] = kd" by (simp add: fold_exact_put)
  obtain matched where matched: "mset (map snd kc) = mset matched + mset u"
    "mset (map fst kd) = mset (map ?f matched) + mset (map fst left)" "set left \<subseteq> set kd"
    and disjoint: "?f ` set u \<inter> fst ` set left = {}"
    using match_current_mset [OF keyed(1) _ match] distinct unfolding exact by blast
  have "mset (map snd kc) = mset ?C" "mset (map snd kd) = mset ?D"
    using arg_cong [OF mc, of "image_mset snd"] arg_cong [OF md, of "image_mset snd"]
    by (simp_all add: multiset.map_comp comp_def)
  with matched(1) have C: "mset ?C = mset matched + mset u" by simp
  have left_keys: "map fst left = map (?f \<circ> snd) left"
    using matched(3) keyed(2) by (force simp: keyed_def)
  have "image_mset fst (mset (map fst left)) = image_mset fst (mset (map (?f \<circ> snd) left))"
    by (simp only: left_keys)
  moreover have "image_mset fst (mset (map fst kd)) = mset (map semantic_key ?D)"
    using arg_cong [OF kd_keys, of "image_mset fst"] by (simp add: multiset.map_comp comp_def)
  moreover have "image_mset fst (mset (map fst kd)) =
      mset (map semantic_key matched) + image_mset fst (mset (map fst left))"
    using arg_cong [OF matched(2), of "image_mset fst"] by (simp add: multiset.map_comp comp_def)
  ultimately have keys: "mset (map semantic_key ?D) =
      mset (map semantic_key matched) + mset (map semantic_key (map snd left))"
    by (simp add: multiset.map_comp comp_def)
  have "mset (map semantic_key (map snd left)) = mset (map semantic_key (map snd (sort_keyed left)))"
    by (simp add: sort_keyed_def)
  moreover have "set (map snd (sort_keyed left)) \<subseteq> set ?D"
  proof -
    have "set kd = set (map (\<lambda>r. (?f r, r)) ?D)" using mset_eq_setD [OF md] by simp
    with matched(3) show ?thesis by (auto simp: sort_keyed_def)
  qed
  moreover have "semantic_key ` set u \<inter> semantic_key ` set (map snd (sort_keyed left)) = {}"
  proof -
    have "fst ` set left = (\<lambda>r. ?f r) ` set (map snd left)"
      using arg_cong [OF left_keys, of set] by (simp add: image_image)
    with disjoint show ?thesis by (auto simp: sort_keyed_def)
  qed
  ultimately show ?thesis using C keys cs by metis
qed


section \<open>The zone after a batch\<close>

definition befores :: "DnsChange list \<Rightarrow> DnsRecord list" where
  "befores cs = concat (map (\<lambda>c. case dc_before c of None \<Rightarrow> [] | Some b \<Rightarrow> [b]) cs)"

definition replacement :: "DnsChange \<Rightarrow> DnsRecord list" where
  "replacement c =
     (case (dc_before c, dc_after c) of (Some b, Some a) \<Rightarrow> [patched b a] | _ \<Rightarrow> [])"

definition replacements :: "DnsChange list \<Rightarrow> DnsRecord list" where
  "replacements cs = concat (map replacement cs)"

lemma effect_Nil [simp]: "effect [] r = [r]"
  by (simp add: effect_def)

lemma effect_other: "\<not> names_record r c \<Longrightarrow> effect (c # cs) r = effect cs r"
  by (simp add: effect_def)

lemma effect_named: "names_record r c \<Longrightarrow> dc_before c = Some r \<Longrightarrow> effect (c # cs) r = replacement c"
  by (simp add: effect_def replacement_def split: option.splits)

lemma mset_effects:
  assumes "distinct (map dn_id zone)" and "mset (befores cs) \<subseteq># mset zone"
  shows "mset (concat (map (effect cs) zone)) = (mset zone - mset (befores cs)) + mset (replacements cs)"
  using assms
proof (induction cs arbitrary: zone)
  case Nil
  have "concat (map (effect []) zone) = zone" by (induction zone) auto
  then show ?case by (simp add: befores_def replacements_def)
next
  case (Cons c cs)
  show ?case
  proof (cases "dc_before c")
    case None
    then have "\<And>r. effect (c # cs) r = effect cs r" by (simp add: effect_other names_record_def)
    then have "effect (c # cs) = effect cs" by blast
    with None Cons show ?thesis by (simp add: befores_def replacements_def replacement_def)
  next
    case (Some b)
    have bs: "befores (c # cs) = b # befores cs" using Some by (simp add: befores_def)
    with Cons.prems(2) have "b \<in> set zone" by (auto dest: mset_subset_eqD)
    then obtain xs ys where zone: "zone = xs @ b # ys" by (meson split_list)
    have other: "\<forall>r\<in>set xs \<union> set ys. \<not> names_record r c"
      using Cons.prems(1) Some unfolding zone by (auto simp: names_record_def)
    then have eq: "map (effect (c # cs)) xs = map (effect cs) xs"
        "map (effect (c # cs)) ys = map (effect cs) ys"
      by (simp_all add: effect_other)
    have b: "effect (c # cs) b = replacement c"
      using Some by (simp add: effect_named names_record_def)
    have "mset (befores cs) \<subseteq># mset (xs @ ys)"
      using Cons.prems(2) by (simp add: bs zone)
    moreover have "distinct (map dn_id (xs @ ys))" using Cons.prems(1) by (simp add: zone)
    ultimately have "mset (concat (map (effect cs) (xs @ ys))) =
        (mset (xs @ ys) - mset (befores cs)) + mset (replacements cs)"
      by (rule Cons.IH [rotated])
    moreover have "concat (map (effect (c # cs)) zone) =
        concat (map (effect cs) xs) @ replacement c @ concat (map (effect cs) ys)"
      unfolding zone by (simp only: map_append list.map eq b concat_append concat.simps)
    ultimately show ?thesis by (simp add: zone bs replacements_def)
  qed
qed

lemma filter_tagged:
  assumes "distinct ks" and "\<And>k x. k \<in> set ks \<Longrightarrow> x \<in> set (G k) \<Longrightarrow> tag x = k"
  shows "filter (\<lambda>x. tag x = k) (concat (map G ks)) = (if k \<in> set ks then G k else [])"
  using assms
proof (induction ks)
  case (Cons a ks)
  have "filter (\<lambda>x. tag x = k) (G a) = (if k = a then G a else [])"
    using Cons.prems(2) by (auto simp: filter_id_conv filter_empty_conv)
  with Cons show ?case by auto
qed simp

lemma befores_concat: "befores (concat parts) = concat (map befores parts)"
  by (induction parts) (auto simp: befores_def)

lemma replacements_concat: "replacements (concat parts) = concat (map replacements parts)"
  by (induction parts) (auto simp: replacements_def)

lemma creations_concat: "creations (concat parts) = concat (map creations parts)"
  by (induction parts) (auto simp: creations_def)

lemma concat_singles: "concat (map (\<lambda>x. [f x]) xs) = map f xs"
  by (induction xs) auto

lemma concat_empties: "concat (map (\<lambda>x. []) xs) = []"
  by (induction xs) auto

lemma drop_min_zip: "map fst (zip u d) @ drop (min (length u) (length d)) u = u"
  by (induction u d rule: list_induct2') auto

lemma drop_min_zip': "map snd (zip u d) @ drop (min (length u) (length d)) d = d"
  by (induction u d rule: list_induct2') auto

lemma befores_recordset_changes [simp]: "befores (recordset_changes rset u d) = u"
  using drop_min_zip [of u d]
  by (simp add: befores_def recordset_changes_def Let_def comp_def case_prod_unfold concat_singles
      concat_empties)

lemma replacements_recordset_changes:
  "replacements (recordset_changes rset u d) = map (\<lambda>(b, a). patched b a) (zip u d)"
  by (simp add: replacements_def replacement_def recordset_changes_def Let_def comp_def
      case_prod_unfold concat_singles concat_empties)

lemma creations_recordset_changes:
  "creations (recordset_changes rset u d) = drop (min (length u) (length d)) d"
  by (simp add: creations_def recordset_changes_def Let_def comp_def case_prod_unfold concat_singles
      concat_empties)


section \<open>A plan makes the zone what the manifest says\<close>

lemma read_all_Inr:
  "read_all f xs = Inr ys \<Longrightarrow> ys = map (projr \<circ> f) xs \<and> (\<forall>x\<in>set xs. f x = Inr (projr (f x)))"
  by (induction xs arbitrary: ys) (auto split: sum.splits)

lemma recordset_patched [simp]: "recordset_of (patched b a) = recordset_of a"
  by (simp add: patched_def recordset_of_def)

lemma zip_patched_keys:
  assumes "\<forall>b\<in>set u. recordset_of b = rset \<and> plain_record b"
    and "\<forall>a\<in>set d. recordset_of a = rset \<and> plain_record a"
  shows "map (\<lambda>(b, a). semantic_key (patched b a)) (zip u d) = map semantic_key (map snd (zip u d))"
proof -
  have "semantic_key (patched b a) = semantic_key a" if "(b, a) \<in> set (zip u d)" for b a
    using assms set_zip_leftD [OF that] set_zip_rightD [OF that] by (intro patched_key) auto
  then show ?thesis by auto
qed

lemma plan_recordset_keys:
  assumes "set u \<subseteq> {b. recordset_of b = rset \<and> plain_record b}"
    and "set d \<subseteq> {a. recordset_of a = rset \<and> plain_record a}"
  shows "map semantic_key (replacements (recordset_changes rset u d) @
    creations (recordset_changes rset u d)) = map semantic_key d"
proof -
  have "map (semantic_key \<circ> (\<lambda>(b, a). patched b a)) (zip u d) = map semantic_key (map snd (zip u d))"
    using zip_patched_keys [of u rset d] assms by (auto simp: comp_def case_prod_unfold)
  then have "map semantic_key (replacements (recordset_changes rset u d) @
      creations (recordset_changes rset u d)) =
      map semantic_key (map snd (zip u d) @ drop (min (length u) (length d)) d)"
    by (simp add: replacements_recordset_changes creations_recordset_changes)
  then show ?thesis by (simp only: drop_min_zip')
qed


lemma subseteq_mset_tagged:
  assumes "\<And>k. filter_mset (\<lambda>x. tag x = k) A \<subseteq># filter_mset (\<lambda>x. tag x = k) B"
  shows "A \<subseteq># B"
proof (rule mset_subset_eqI)
  fix x
  show "count A x \<le> count B x"
    using mset_subset_eq_count [OF assms [of "tag x"], of x] by simp
qed

lemma filter_created:
  assumes "creates created"
  shows "filter (\<lambda>r. recordset_of r = rset) (map created rs) =
    map created (filter (\<lambda>r. recordset_of r = rset) rs)"
proof -
  have "recordset_of (created r) = recordset_of r" for r
    using assms by (intro recordset_key) (simp add: creates_def)
  then show ?thesis by (simp add: filter_map comp_def)
qed

text \<open>The changes of a plan, recordset by recordset.\<close>

definition planned :: "DnsManifest \<Rightarrow> DnsRecord list \<Rightarrow> recordset \<Rightarrow> DnsChange list" where
  "planned m current rset = projr (plan_recordset (dm_rollback m)
     (filter (\<lambda>r. recordset_of r \<in> set (dm_managed m)) current) (dm_records m) rset)"

lemma build_plan_changes:
  assumes "build_plan m zone_id current status = Inr p"
  shows "dp_changes p = concat (map (planned m current) (dm_managed m))"
    and "rset \<in> set (dm_managed m) \<Longrightarrow> plan_recordset (dm_rollback m)
      (filter (\<lambda>r. recordset_of r \<in> set (dm_managed m)) current) (dm_records m) rset =
      Inr (planned m current rset)"
proof -
  let ?f = "plan_recordset (dm_rollback m)
    (filter (\<lambda>r. recordset_of r \<in> set (dm_managed m)) current) (dm_records m)"
  have planned: "planned m current = projr \<circ> ?f" by (simp add: fun_eq_iff planned_def)
  obtain parts where parts: "read_all ?f (dm_managed m) = Inr parts" and "dp_changes p = concat parts"
    using assms by (auto simp: build_plan_def split: option.splits sum.splits if_splits)
  with read_all_Inr [OF parts] planned
  show "dp_changes p = concat (map (planned m current) (dm_managed m))" by simp
  show "rset \<in> set (dm_managed m) \<Longrightarrow> ?f rset = Inr (planned m current rset)"
    using read_all_Inr [OF parts] planned by simp
qed

lemma planned_split:
  assumes m: "manifest_ok m" "\<not> dm_rollback m" and p: "build_plan m zone_id current status = Inr p"
    and rset: "rset \<in> set (dm_managed m)"
  obtains matched u d where
    "mset (filter (\<lambda>r. recordset_of r = rset) current) = mset matched + mset u"
    "mset (map semantic_key (filter (\<lambda>r. recordset_of r = rset) (dm_records m))) =
      mset (map semantic_key matched) + mset (map semantic_key d)"
    "set d \<subseteq> set (filter (\<lambda>r. recordset_of r = rset) (dm_records m))"
    "planned m current rset = recordset_changes rset u d"
    "semantic_key ` set u \<inter> semantic_key ` set d = {}"
proof -
  have same: "filter (\<lambda>r. recordset_of r = rset)
      (filter (\<lambda>r. recordset_of r \<in> set (dm_managed m)) current) =
      filter (\<lambda>r. recordset_of r = rset) current"
    using rset by (auto intro: filter_cong)
  have "plan_recordset False (filter (\<lambda>r. recordset_of r \<in> set (dm_managed m)) current)
      (dm_records m) rset = Inr (planned m current rset)"
    using build_plan_changes(2) [OF p rset] m(2) by simp
  from plan_recordset_matching [OF this, unfolded same] m(1) [unfolded manifest_ok_def] show thesis
    by (elim conjE) (drule (1) meta_mp, elim exE conjE, rule that)
qed

lemma planned_matching:
  assumes m: "manifest_ok m" "\<not> dm_rollback m" and p: "build_plan m zone_id current status = Inr p"
    and zone: "zone_ok current" and rset: "rset \<in> set (dm_managed m)"
  obtains matched u d where
    "mset (filter (\<lambda>r. recordset_of r = rset) current) = mset matched + mset u"
    "mset (map semantic_key (filter (\<lambda>r. recordset_of r = rset) (dm_records m))) =
      mset (map semantic_key matched) + mset (map semantic_key d)"
    "set u \<subseteq> {r. recordset_of r = rset \<and> plain_record r}"
    "set d \<subseteq> {r. recordset_of r = rset \<and> plain_record r}"
    "planned m current rset = recordset_changes rset u d"
proof (rule planned_split [OF m p rset])
  fix matched u d
  assume *: "mset (filter (\<lambda>r. recordset_of r = rset) current) = mset matched + mset u"
    "mset (map semantic_key (filter (\<lambda>r. recordset_of r = rset) (dm_records m))) =
      mset (map semantic_key matched) + mset (map semantic_key d)"
    "set d \<subseteq> set (filter (\<lambda>r. recordset_of r = rset) (dm_records m))"
    "planned m current rset = recordset_changes rset u d"
  have "set u \<subseteq> set (filter (\<lambda>r. recordset_of r = rset) current)"
    using arg_cong [OF *(1), of set_mset] by auto
  with * m(1) zone show thesis
    by (intro that [of matched u d]) (auto simp: manifest_ok_def zone_ok_def)
qed

lemma mset_filter_zone_after:
  assumes "distinct (map dn_id current)" and "mset (befores cs) \<subseteq># mset current" and "creates created"
  shows "mset (filter (\<lambda>r. recordset_of r = rset) (zone_after created cs current)) =
    mset (filter (\<lambda>r. recordset_of r = rset) current) -
      mset (filter (\<lambda>r. recordset_of r = rset) (befores cs)) +
    mset (filter (\<lambda>r. recordset_of r = rset) (replacements cs)) +
    mset (map created (filter (\<lambda>r. recordset_of r = rset) (creations cs)))"
  unfolding zone_after_def filter_append filter_created [OF assms(3)] mset_append mset_filter
    mset_effects [OF assms(1,2)]
  by simp

lemma plan_by_recordset:
  assumes m: "manifest_ok m" "\<not> dm_rollback m" and p: "build_plan m zone_id current status = Inr p"
    and ok: "zone_ok current"
  shows "filter (\<lambda>r. recordset_of r = rset) (befores (dp_changes p)) =
      (if rset \<in> set (dm_managed m) then befores (planned m current rset) else [])"
    and "filter (\<lambda>r. recordset_of r = rset) (replacements (dp_changes p)) =
      (if rset \<in> set (dm_managed m) then replacements (planned m current rset) else [])"
    and "filter (\<lambda>r. recordset_of r = rset) (creations (dp_changes p)) =
      (if rset \<in> set (dm_managed m) then creations (planned m current rset) else [])"
proof -
  have distinct: "distinct (dm_managed m)" using m(1) by (simp add: manifest_ok_def)
  note by_part = build_plan_changes(1) [OF p] befores_concat replacements_concat creations_concat
    map_map comp_def
  have tags: "set (befores (planned m current k)) \<subseteq> {r. recordset_of r = k}"
    "set (replacements (planned m current k)) \<subseteq> {r. recordset_of r = k}"
    "set (creations (planned m current k)) \<subseteq> {r. recordset_of r = k}"
    if managed: "k \<in> set (dm_managed m)" for k
  proof -
    obtain u d where "set u \<subseteq> {r. recordset_of r = k}" "set d \<subseteq> {r. recordset_of r = k}"
      and changes: "planned m current k = recordset_changes k u d"
      by (rule planned_matching [OF m p ok managed]) (auto intro: that)
    then show "set (befores (planned m current k)) \<subseteq> {r. recordset_of r = k}"
        "set (creations (planned m current k)) \<subseteq> {r. recordset_of r = k}"
        "set (replacements (planned m current k)) \<subseteq> {r. recordset_of r = k}"
      unfolding changes creations_recordset_changes replacements_recordset_changes
        befores_recordset_changes
      by (fastforce dest: set_zip_rightD in_set_dropD)+
  qed
  note tags = tags(1) [THEN subsetD, simplified] tags(2) [THEN subsetD, simplified]
    tags(3) [THEN subsetD, simplified]
  show "filter (\<lambda>r. recordset_of r = rset) (befores (dp_changes p)) =
      (if rset \<in> set (dm_managed m) then befores (planned m current rset) else [])"
    unfolding by_part by (rule filter_tagged [OF distinct]) (rule tags)
  show "filter (\<lambda>r. recordset_of r = rset) (replacements (dp_changes p)) =
      (if rset \<in> set (dm_managed m) then replacements (planned m current rset) else [])"
    unfolding by_part by (rule filter_tagged [OF distinct]) (rule tags)
  show "filter (\<lambda>r. recordset_of r = rset) (creations (dp_changes p)) =
      (if rset \<in> set (dm_managed m) then creations (planned m current rset) else [])"
    unfolding by_part by (rule filter_tagged [OF distinct]) (rule tags)
qed


lemma plan_zone:
  assumes m: "manifest_ok m" "\<not> dm_rollback m" and p: "build_plan m zone_id current status = Inr p"
    and ok: "zone_ok current" and created: "creates created"
  shows "mset (befores (dp_changes p)) \<subseteq># mset current"
    and "rset \<in> set (dm_managed m) \<Longrightarrow>
      mset (map semantic_key (filter (\<lambda>r. recordset_of r = rset)
        (zone_after created (dp_changes p) current))) =
      mset (map semantic_key (filter (\<lambda>r. recordset_of r = rset) (dm_records m)))"
    and "rset \<notin> set (dm_managed m) \<Longrightarrow>
      mset (filter (\<lambda>r. recordset_of r = rset) (zone_after created (dp_changes p) current)) =
      mset (filter (\<lambda>r. recordset_of r = rset) current)"
proof -
  note parts = plan_by_recordset [OF m p ok]
  show sub: "mset (befores (dp_changes p)) \<subseteq># mset current"
  proof (rule subseteq_mset_tagged [where tag = recordset_of])
    fix k
    show "filter_mset (\<lambda>x. recordset_of x = k) (mset (befores (dp_changes p))) \<subseteq>#
        filter_mset (\<lambda>x. recordset_of x = k) (mset current)"
      unfolding mset_filter [symmetric] parts(1)
      by (cases "k \<in> set (dm_managed m)") (auto elim: planned_matching [OF m p ok])
  qed
  have zone: "distinct (map dn_id current)" using ok by (simp add: zone_ok_def)
  note after = mset_filter_zone_after [OF zone sub created, of rset, unfolded parts]
  show "mset (filter (\<lambda>r. recordset_of r = rset) (zone_after created (dp_changes p) current)) =
      mset (filter (\<lambda>r. recordset_of r = rset) current)" if "rset \<notin> set (dm_managed m)"
    using that unfolding after by simp
  show "mset (map semantic_key (filter (\<lambda>r. recordset_of r = rset)
        (zone_after created (dp_changes p) current))) =
      mset (map semantic_key (filter (\<lambda>r. recordset_of r = rset) (dm_records m)))"
    if rset: "rset \<in> set (dm_managed m)"
  proof -
    obtain matched u d where
      current: "mset (filter (\<lambda>r. recordset_of r = rset) current) = mset matched + mset u"
      and desired: "mset (map semantic_key (filter (\<lambda>r. recordset_of r = rset) (dm_records m))) =
        mset (map semantic_key matched) + mset (map semantic_key d)"
      and ud: "set u \<subseteq> {r. recordset_of r = rset \<and> plain_record r}"
        "set d \<subseteq> {r. recordset_of r = rset \<and> plain_record r}"
      and changes: "planned m current rset = recordset_changes rset u d"
      by (rule planned_matching [OF m p ok rset])
    have keep: "image_mset semantic_key (mset (map created rs)) = mset (map semantic_key rs)" for rs
      using created by (simp add: creates_def multiset.map_comp comp_def)
    have "mset (filter (\<lambda>r. recordset_of r = rset) (zone_after created (dp_changes p) current)) =
        mset matched + mset (replacements (recordset_changes rset u d)) +
        mset (map created (creations (recordset_changes rset u d)))"
      using rset unfolding after current changes by simp
    from arg_cong [OF this, of "image_mset semantic_key"]
    have "mset (map semantic_key (filter (\<lambda>r. recordset_of r = rset)
        (zone_after created (dp_changes p) current))) =
        mset (map semantic_key matched) + mset (map semantic_key
          (replacements (recordset_changes rset u d) @ creations (recordset_changes rset u d)))"
      unfolding image_mset_union keep by simp
    then show ?thesis unfolding plan_recordset_keys [OF ud] desired .
  qed
qed


lemma recordset_changes_empty: "recordset_changes rset u d = [] \<longleftrightarrow> u = [] \<and> d = []"
  by (cases u; cases d) (auto simp: recordset_changes_def)

text \<open>The records of a managed recordset are those asked for, up to their order.\<close>

definition as_desired :: "DnsManifest \<Rightarrow> DnsRecord list \<Rightarrow> recordset \<Rightarrow> bool" where
  "as_desired m zone rset \<longleftrightarrow>
     mset (map semantic_key (filter (\<lambda>r. recordset_of r = rset) zone)) =
     mset (map semantic_key (filter (\<lambda>r. recordset_of r = rset) (dm_records m)))"

lemma planned_empty_iff:
  assumes m: "manifest_ok m" "\<not> dm_rollback m" and p: "build_plan m zone_id zone status = Inr p"
    and rset: "rset \<in> set (dm_managed m)"
  shows "planned m zone rset = [] \<longleftrightarrow> as_desired m zone rset"
proof (rule planned_split [OF m p rset])
  fix matched u d
  assume u: "mset (filter (\<lambda>r. recordset_of r = rset) zone) = mset matched + mset u"
    and d: "mset (map semantic_key (filter (\<lambda>r. recordset_of r = rset) (dm_records m))) =
      mset (map semantic_key matched) + mset (map semantic_key d)"
    and changes: "planned m zone rset = recordset_changes rset u d"
    and disjoint: "semantic_key ` set u \<inter> semantic_key ` set d = {}"
  have "as_desired m zone rset \<longleftrightarrow> mset (map semantic_key u) = mset (map semantic_key d)"
    using arg_cong [OF u, of "image_mset semantic_key"] d by (simp add: as_desired_def)
  also have "\<dots> \<longleftrightarrow> u = [] \<and> d = []"
  proof
    assume "mset (map semantic_key u) = mset (map semantic_key d)"
    from mset_eq_setD [OF this] disjoint show "u = [] \<and> d = []" by auto
  qed simp
  finally show ?thesis by (simp add: changes recordset_changes_empty)
qed

lemma no_changes_iff:
  assumes m: "manifest_ok m" "\<not> dm_rollback m" and p: "build_plan m zone_id zone status = Inr p"
  shows "dp_changes p = [] \<longleftrightarrow> (\<forall>rset\<in>set (dm_managed m). as_desired m zone rset)"
  unfolding build_plan_changes(1) [OF p] using planned_empty_iff [OF m p] by simp

section \<open>What loading a manifest checks\<close>

lemma record_from_manifest_plain:
  assumes "record_from_manifest item zone = Inr r"
  shows "plain_record r"
proof -
  obtain t ttl proxied priority v w where
    "manifest_proxied t ttl v = Inr proxied" and "manifest_priority t w = Inr priority"
    and r: "dn_type r = t" "dn_proxied r = proxied" "dn_priority r = priority"
    using assms
    by (auto simp: record_from_manifest_def Let_def split: pyval.splits if_splits option.splits
        sum.splits)
  then show ?thesis
    unfolding plain_record_def r
    by (auto simp: manifest_proxied_def manifest_priority_def split: pyval.splits if_splits)
qed

lemma manifest_body_ok:
  assumes "manifest_body entry manifest kind record_from_manifest zone template rollback d = Inr m"
  shows "manifest_ok m \<and> dm_rollback m = rollback"
proof -
  obtain items where "distinct (dm_managed m)" "distinct (map semantic_key (dm_records m))"
    "\<not> list_ex (\<lambda>r. recordset_of r \<notin> set (dm_managed m)) (dm_records m)" "dm_rollback m = rollback"
    "read_all (\<lambda>i. record_from_manifest i zone) items = Inr (dm_records m)"
    using assms unfolding manifest_body_def
    by (auto split: pyval.splits list.splits sum.splits if_splits option.splits)
  moreover from this(5) have "\<forall>r\<in>set (dm_records m). plain_record r"
    using read_all_Inr record_from_manifest_plain by fastforce
  ultimately show ?thesis by (auto simp: manifest_ok_def list_ex_iff)
qed

lemma manifest_of_document_ok:
  assumes "manifest_of_document doc = Inr m"
  shows "manifest_ok m \<and> \<not> dm_rollback m"
proof -
  obtain zone template d where
    "manifest_body '''' ''manifest'' ''desired'' record_from_manifest zone template False d = Inr m"
    using assms
    by (auto simp: manifest_of_document_def Let_def split: pyval.splits if_splits sum.splits)
  from manifest_body_ok [OF this] show ?thesis by simp
qed

section \<open>Properties\<close>



section \<open>An example\<close>

text \<open>A zone with two address records of which one is to change, and a text record that nobody
  manages.\<close>

definition example_record :: "string \<Rightarrow> string \<Rightarrow> string option \<Rightarrow> DnsRecord" where
  "example_record t content i =
     \<lparr>dn_type = t, dn_name = ''a.eu'', dn_content = content, dn_ttl = 1, dn_proxied = False,
      dn_priority = None, dn_id = i, dn_restore = None\<rparr>"

definition example_zone :: "DnsRecord list" where
  "example_zone =
     [example_record ''A'' ''192.0.2.1'' (Some ''1''), example_record ''A'' ''192.0.2.9'' (Some ''2''),
      example_record ''TXT'' ''x'' (Some ''4'')]"

definition example_document :: pyval where
  "example_document = PDict
     [(''version'', PStr ''cybercore.cloudflare-dns/v0.1''), (''zone'', PStr ''a.eu''),
      (''managed_recordsets'', PList [PDict [(''type'', PStr ''A''), (''name'', PStr ''@'')]]),
      (''records'', PList
         [PDict [(''type'', PStr ''A''), (''name'', PStr ''@''), (''content'', PStr ''192.0.2.1'')],
          PDict [(''type'', PStr ''A''), (''name'', PStr ''@''), (''content'', PStr ''192.0.2.3'')]])]"

definition example_manifest :: DnsManifest where
  "example_manifest =
     \<lparr>dm_zone = ''a.eu'', dm_managed = [(''A'', ''a.eu'')],
      dm_records = [example_record ''A'' ''192.0.2.1'' None, example_record ''A'' ''192.0.2.3'' None],
      dm_template = False, dm_rollback = False\<rparr>"

definition example_changes :: "DnsChange list" where
  "example_changes =
     [\<lparr>dc_action = UPDATE, dc_recordset = (''A'', ''a.eu''),
       dc_before = Some (example_record ''A'' ''192.0.2.9'' (Some ''2'')),
       dc_after = Some (example_record ''A'' ''192.0.2.3'' None)\<rparr>]"

lemma example_document_loads: "manifest_of_document example_document = Inr example_manifest"
  by code_simp

definition example_zone_after :: "DnsRecord list" where
  "example_zone_after =
     [example_record ''A'' ''192.0.2.1'' (Some ''1''), example_record ''A'' ''192.0.2.3'' (Some ''2''),
      example_record ''TXT'' ''x'' (Some ''4'')]"

definition example_plan :: "DnsRecord list \<Rightarrow> DnsChange list \<Rightarrow> DnsPlan" where
  "example_plan zone changes =
     \<lparr>dp_zone = ''a.eu'', dp_zone_id = ''z'', dp_zone_status = ''active'', dp_changes = changes,
      dp_fingerprint = sha256_hex (projr
        (canonical_plan_payload ''a.eu'' ''z'' ''active'' changes False)),
      dp_current_records = zone, dp_rollback = False\<rparr>"

lemma example_plan_parts:
  "validate_current_name_conflicts example_manifest example_zone = None"
  "validate_current_name_conflicts example_manifest example_zone_after = None"
  "read_all (plan_recordset False (filter (\<lambda>r. recordset_of r \<in> {(''A'', ''a.eu'')}) example_zone)
    (dm_records example_manifest)) [(''A'', ''a.eu'')] = Inr [example_changes]"
  "read_all (plan_recordset False (filter (\<lambda>r. recordset_of r \<in> {(''A'', ''a.eu'')}) example_zone_after)
    (dm_records example_manifest)) [(''A'', ''a.eu'')] = Inr [[]]"
  "isl (canonical_plan_payload ''a.eu'' ''z'' ''active'' example_changes False) = False"
  "isl (canonical_plan_payload ''a.eu'' ''z'' ''active'' [] False) = False"
  "zone_after (\<lambda>r. r) example_changes example_zone = example_zone_after"
  by code_simp+

lemma example_plans:
  "build_plan example_manifest ''z'' example_zone ''active'' =
    Inr (example_plan example_zone example_changes)"
  "build_plan example_manifest ''z'' example_zone_after ''active'' =
    Inr (example_plan example_zone_after [])"
  using example_plan_parts
  by (auto simp: build_plan_def example_plan_def example_manifest_def example_changes_def
      split: sum.splits)

lemma example_zone_ok: "zone_ok example_zone" and creates_id: "creates (\<lambda>r. r)"
  by (simp_all add: zone_ok_def example_zone_def plain_record_def example_record_def creates_def
      PROXY_CAPABLE_TYPES_def)



end
