(* ===== verification/Dns_Client.thy ===== *)
theory Dns_Client
  imports Dns_Plan Py_Input
begin

text \<open>
  The Cloudflare API and its client (\<open>CloudflareApi\<close> and \<open>CloudflareClient\<close> of
  \<open>cloudflare_dns.py\<close>). What answers a request, the \<open>Requester\<close>, is a parameter that changes a
  remote state; the requests that were sent are recorded. An integer that is a Boolean, which
  \<open>isinstance\<close> lets through, is kept as the integer it equals.
\<close>

section \<open>The interface\<close>

type_synonym ('w, 'a) dns_proc = "('w, dns_error, 'a) proc"

record 'w CloudflareApi =
  ca_find_zone :: "string \<Rightarrow> ('w, string \<times> string) dns_proc"
  ca_list_dns_records :: "string \<Rightarrow> ('w, DnsRecord list) dns_proc"
  ca_get_dnssec :: "string \<Rightarrow> ('w, metadata) dns_proc"
  ca_apply_dns_batch :: "string \<Rightarrow> DnsChange list \<Rightarrow> ('w, unit) dns_proc"

section \<open>Requests\<close>

record Request =
  rq_method :: string
  rq_url :: string
  rq_data :: "pyval option"

record 'w cf_world =
  cf_remote :: 'w
  cf_requests :: "Request list"

type_synonym 'w requester = "Request \<Rightarrow> 'w \<Rightarrow> (dns_error + int \<times> string) \<times> 'w"

definition API_BASE :: string where
  "API_BASE = ''https://api.cloudflare.com/client/v4''"

text \<open>\<open>urlencode\<close>\<close>

definition url_hex :: "nat \<Rightarrow> char" where
  "url_hex n = ''0123456789ABCDEF'' ! n"

definition quote_char :: "char \<Rightarrow> string" where
  "quote_char c =
     (if c \<in> set ''ABCDEFGHIJKLMNOPQRSTUVWXYZabcdefghijklmnopqrstuvwxyz0123456789_.-~'' then [c]
      else if c = CHR '' '' then ''+''
      else [CHR ''%'', url_hex (of_char c div 16), url_hex (of_char c mod 16)])"

definition quote_plus :: "string \<Rightarrow> string" where
  "quote_plus s = concat (map quote_char s)"

definition urlencode :: "(string \<times> string) list \<Rightarrow> string" where
  "urlencode query = joined ''&'' (map (\<lambda>(k, v). quote_plus k @ ''='' @ quote_plus v) query)"

text \<open>\<open>json.loads\<close> of a body that is not empty.\<close>

definition decode_body :: "(rat \<Rightarrow> string) \<Rightarrow> string \<Rightarrow> dns_error + pyval" where
  "decode_body repr raw =
     (if raw = [] then Inr (PDict [])
      else if \<not> decodable raw then Inl (DnsError ''Cloudflare API returned an invalid response'')
      else (case json_loads False repr raw of
          Inr v \<Rightarrow> Inr v
        | Inl JIntTooLong \<Rightarrow> Inl (DnsOther ''ValueError'')
        | Inl _ \<Rightarrow> Inl (DnsError ''Cloudflare API returned an invalid response'')))"

definition response_result :: "int \<Rightarrow> pyval \<Rightarrow> dns_error + pyval" where
  "response_result status decoded =
     (let failed = Inl (DnsError (''Cloudflare API request failed with HTTP '' @ int_str status)) in
      if status < 200 \<or> 300 \<le> status then failed
      else (case decoded of
          PDict d \<Rightarrow> if truthy (get_item d ''success'' PNone) then Inr (get_item d ''result'' PNone) else failed
        | _ \<Rightarrow> failed))"

definition send :: "'w requester \<Rightarrow> Request \<Rightarrow> ('w cf_world, int \<times> string) dns_proc" where
  "send requester rq = (\<lambda>w. case requester rq (cf_remote w) of
     (r, remote) \<Rightarrow> (r, w\<lparr>cf_remote := remote, cf_requests := cf_requests w @ [rq]\<rparr>))"

definition request ::
  "(rat \<Rightarrow> string) \<Rightarrow> 'w requester \<Rightarrow> string \<Rightarrow> string \<Rightarrow> (string \<times> string) list \<Rightarrow> pyval option \<Rightarrow>
   ('w cf_world, pyval) dns_proc" where
  "request repr requester method path query payload =
     bind (lift (case payload of
         None \<Rightarrow> Inr ()
       | Some v \<Rightarrow> (case dumps_text v of Inl x \<Rightarrow> Inl x | Inr _ \<Rightarrow> Inr ()))) (\<lambda>_.
     bind (send requester
       \<lparr>rq_method = method,
        rq_url = API_BASE @ path @ (if query = [] then [] else ''?'' @ urlencode query),
        rq_data = payload\<rparr>) (\<lambda>(status, raw).
     bind (lift (decode_body repr raw)) (\<lambda>decoded.
     lift (response_result status decoded))))"

section \<open>The client\<close>

definition zone_identity :: "string \<Rightarrow> pyval \<Rightarrow> dns_error + string \<times> string" where
  "zone_identity zone result =
     (case result of
        PList items \<Rightarrow>
          (case concat (map (\<lambda>i. case i of
              PDict d \<Rightarrow> if get_item d ''name'' PNone = PStr zone then [d] else [] | _ \<Rightarrow> []) items) of
             [d] \<Rightarrow>
               (case (get_item d ''id'' PNone, get_item d ''status'' PNone) of
                  (PStr (c # i), PStr status) \<Rightarrow> Inr (c # i, status)
                | _ \<Rightarrow> Inl (DnsError ''Cloudflare zone identity is invalid''))
           | _ \<Rightarrow> Inl (DnsError (''expected exactly one Cloudflare zone for '' @ zone)))
      | _ \<Rightarrow> Inl (DnsError ''Cloudflare zones response is invalid''))"

definition find_zone ::
  "(rat \<Rightarrow> string) \<Rightarrow> 'w requester \<Rightarrow> string \<Rightarrow> ('w cf_world, string \<times> string) dns_proc" where
  "find_zone repr requester zone =
     bind (request repr requester ''GET'' ''/zones'' [(''name'', zone), (''per_page'', ''50'')] None) (\<lambda>result.
     lift (zone_identity zone result))"

definition api_int :: "pyval \<Rightarrow> int option" where
  "api_int v = (case v of PInt i \<Rightarrow> Some i | PBool b \<Rightarrow> Some (if b then 1 else 0) | _ \<Rightarrow> None)"

text \<open>\<open>_append_api_record\<close>\<close>

definition api_record :: "pyval \<Rightarrow> dns_error + DnsRecord" where
  "api_record item =
     (case item of
        PDict d \<Rightarrow>
          (case (get_item d ''type'' PNone, get_item d ''name'' PNone, get_item d ''content'' PNone,
              get_item d ''id'' PNone) of
             (PStr t, PStr name, PStr content, PStr i) \<Rightarrow>
               (case api_int (get_item d ''ttl'' (PInt 1)) of
                  None \<Rightarrow> Inl (DnsError ''Cloudflare DNS record TTL is invalid'')
                | Some ttl \<Rightarrow>
                    let p = get_item d ''priority'' PNone;
                        restore = concat (map (\<lambda>k. case map_of d k of None \<Rightarrow> [] | Some v \<Rightarrow> [(k, v)])
                          RESTORABLE_METADATA_FIELDS) in
                    if p \<noteq> PNone \<and> api_int p = None
                    then Inl (DnsError ''Cloudflare DNS record priority is invalid'')
                    else (case (if upper t \<in> set DOMAIN_CONTENT_TYPES
                        then normalize_domain_content (upper t) content else Inr content) of
                      Inl x \<Rightarrow> Inl x
                    | Inr content' \<Rightarrow> Inr
                        \<lparr>dn_type = upper t, dn_name = rstrip_dots (lower name), dn_content = content',
                         dn_ttl = ttl, dn_proxied = truthy (get_item d ''proxied'' (PBool False)),
                         dn_priority = api_int p, dn_id = Some i,
                         dn_restore = (if restore = [] then None else Some restore)\<rparr>))
           | _ \<Rightarrow> Inl (DnsError ''Cloudflare DNS record identity is invalid''))
      | _ \<Rightarrow> Inl (DnsError ''Cloudflare DNS record is invalid''))"

definition api_page :: "pyval \<Rightarrow> dns_error + DnsRecord list" where
  "api_page result =
     (case result of
        PList items \<Rightarrow> read_all api_record items
      | _ \<Rightarrow> Inl (DnsError ''Cloudflare DNS records response is invalid''))"

text \<open>The pages from \<open>page\<close> on, at most \<open>left\<close> of them.\<close>

fun list_pages ::
  "(rat \<Rightarrow> string) \<Rightarrow> 'w requester \<Rightarrow> string \<Rightarrow> nat \<Rightarrow> nat \<Rightarrow> DnsRecord list \<Rightarrow>
   ('w cf_world, DnsRecord list) dns_proc" where
  "list_pages repr requester zone_id 0 page records =
     raise (DnsError ''Cloudflare DNS pagination exceeded the safety limit'')"
| "list_pages repr requester zone_id (Suc left) page records =
     bind (request repr requester ''GET'' (''/zones/'' @ zone_id @ ''/dns_records'')
       [(''per_page'', ''500''), (''page'', nat_str page)] None) (\<lambda>result.
     bind (lift (api_page result)) (\<lambda>more.
     if length more < 500 then ret (records @ more)
     else list_pages repr requester zone_id left (Suc page) (records @ more)))"

definition list_dns_records ::
  "(rat \<Rightarrow> string) \<Rightarrow> 'w requester \<Rightarrow> string \<Rightarrow> ('w cf_world, DnsRecord list) dns_proc" where
  "list_dns_records repr requester zone_id = list_pages repr requester zone_id 1000 1 []"

definition get_dnssec ::
  "(rat \<Rightarrow> string) \<Rightarrow> 'w requester \<Rightarrow> string \<Rightarrow> ('w cf_world, metadata) dns_proc" where
  "get_dnssec repr requester zone_id =
     bind (request repr requester ''GET'' (''/zones/'' @ zone_id @ ''/dnssec'') [] None) (\<lambda>result.
     case result of
       PDict d \<Rightarrow> ret (filter (\<lambda>(k, v). k \<in> set [''status'', ''flags'', ''algorithm'', ''key_type'',
         ''digest_type'', ''digest'', ''ds'']) d)
     | _ \<Rightarrow> raise (DnsError ''Cloudflare DNSSEC response is invalid''))"

text \<open>The three lists of a batch: deletes, patches and posts.\<close>

fun batch_lists :: "DnsChange list \<Rightarrow> dns_error + pyval list \<times> pyval list \<times> pyval list" where
  "batch_lists [] = Inr ([], [], [])"
| "batch_lists (c # cs) =
     (let go = (\<lambda>f. case batch_lists cs of Inl x \<Rightarrow> Inl x | Inr ls \<Rightarrow> Inr (f ls)) in
      case (dc_action c, dc_before c, dc_after c) of
        (DELETE, Some b, _) \<Rightarrow>
          (case dn_id b of
             Some (x # i) \<Rightarrow> go (\<lambda>(ds, ps, ns). (PDict [(''id'', PStr (x # i))] # ds, ps, ns))
           | _ \<Rightarrow> Inl (DnsError ''cannot delete Cloudflare DNS record without record id''))
      | (UPDATE, Some b, Some a) \<Rightarrow>
          (case dn_id b of
             Some (x # i) \<Rightarrow> go (\<lambda>(ds, ps, ns).
               (ds, PDict (payload_update [(''id'', PStr (x # i))] (restore_payload a)) # ps, ns))
           | _ \<Rightarrow> Inl (DnsError ''cannot update Cloudflare DNS record without record id''))
      | (CREATE, _, Some a) \<Rightarrow> go (\<lambda>(ds, ps, ns). (ds, ps, PDict (restore_payload a) # ns))
      | _ \<Rightarrow> Inl (DnsError ''invalid Cloudflare DNS plan operation''))"

definition batch_payload :: "DnsChange list \<Rightarrow> dns_error + pyval" where
  "batch_payload changes =
     (if 200 < length changes
      then Inl (DnsError ''Cloudflare DNS v0.1 limits one batch to 200 changes'')
      else (case batch_lists changes of
          Inl x \<Rightarrow> Inl x
        | Inr (deletes, patches, posts) \<Rightarrow> Inr (PDict
            [(''deletes'', PList deletes), (''patches'', PList patches), (''puts'', PList []),
             (''posts'', PList posts)])))"

definition batch_path :: "string \<Rightarrow> string" where
  "batch_path zone_id = ''/zones/'' @ zone_id @ ''/dns_records/batch''"

definition apply_dns_batch ::
  "(rat \<Rightarrow> string) \<Rightarrow> 'w requester \<Rightarrow> string \<Rightarrow> DnsChange list \<Rightarrow> ('w cf_world, unit) dns_proc" where
  "apply_dns_batch repr requester zone_id changes =
     bind (lift (batch_payload changes)) (\<lambda>payload.
     bind (request repr requester ''POST'' (batch_path zone_id) [] (Some payload)) (\<lambda>_. ret ()))"

text \<open>\<open>CloudflareClient\<close> as the interface.\<close>

definition CloudflareClient :: "(rat \<Rightarrow> string) \<Rightarrow> 'w requester \<Rightarrow> 'w cf_world CloudflareApi" where
  "CloudflareClient repr requester =
     \<lparr>ca_find_zone = find_zone repr requester, ca_list_dns_records = list_dns_records repr requester,
      ca_get_dnssec = get_dnssec repr requester, ca_apply_dns_batch = apply_dns_batch repr requester\<rparr>"

section \<open>What it sends\<close>

definition posts :: "'w cf_world \<Rightarrow> Request list" where
  "posts w = filter (\<lambda>rq. rq_method rq \<noteq> ''GET'') (cf_requests w)"

definition batch_request :: "string \<Rightarrow> pyval \<Rightarrow> Request" where
  "batch_request zone_id payload =
     \<lparr>rq_method = ''POST'', rq_url = API_BASE @ batch_path zone_id, rq_data = Some payload\<rparr>"

lemma wp_request:
  assumes "\<And>remote. E (w\<lparr>cf_remote := remote, cf_requests := cf_requests w @
      [\<lparr>rq_method = method, rq_url = API_BASE @ path @ (if query = [] then [] else ''?'' @ urlencode query),
        rq_data = payload\<rparr>]\<rparr>)"
    and "E w"
  shows "wp (request repr requester method path query payload) (\<lambda>_. E) (\<lambda>_. E) w"
  using assms
  by (auto simp: wp_def request_def send_def bind_def lift_def split: prod.splits sum.splits option.splits)

lemma wp_get:
  "posts w = ps \<Longrightarrow> wp (request repr requester ''GET'' path query payload)
     (\<lambda>_ w'. posts w' = ps) (\<lambda>_ w'. posts w' = ps) w"
  by (rule wp_request) (simp_all add: posts_def)

lemma wp_list_pages:
  "posts w = ps \<Longrightarrow> wp (list_pages repr requester zone_id left page records)
     (\<lambda>_ w'. posts w' = ps) (\<lambda>_ w'. posts w' = ps) w"
proof (induction left arbitrary: page records w ps)
  case (Suc left)
  show ?case
    unfolding list_pages.simps wp_bind wp_lift
    by (rule wp_mono [OF wp_get [OF Suc.prems]])
      (auto simp: wp_simps intro: Suc.IH split: sum.splits)
qed (simp add: wp_simps)

lemma client_reads:
  "posts w = ps \<Longrightarrow> wp (find_zone repr requester zone) (\<lambda>_ w'. posts w' = ps) (\<lambda>_ w'. posts w' = ps) w"
  "posts w = ps \<Longrightarrow> wp (list_dns_records repr requester i) (\<lambda>_ w'. posts w' = ps) (\<lambda>_ w'. posts w' = ps) w"
  "posts w = ps \<Longrightarrow> wp (get_dnssec repr requester i) (\<lambda>_ w'. posts w' = ps) (\<lambda>_ w'. posts w' = ps) w"
proof -
  assume w: "posts w = ps"
  show "wp (find_zone repr requester zone) (\<lambda>_ w'. posts w' = ps) (\<lambda>_ w'. posts w' = ps) w"
    unfolding find_zone_def wp_bind wp_lift
    by (rule wp_mono [OF wp_get [OF w]]) (simp_all split: sum.splits)
  show "wp (list_dns_records repr requester i) (\<lambda>_ w'. posts w' = ps) (\<lambda>_ w'. posts w' = ps) w"
    unfolding list_dns_records_def by (rule wp_list_pages [OF w])
  show "wp (get_dnssec repr requester i) (\<lambda>_ w'. posts w' = ps) (\<lambda>_ w'. posts w' = ps) w"
    unfolding get_dnssec_def wp_bind
    by (rule wp_mono [OF wp_get [OF w]]) (simp_all add: wp_simps split: pyval.splits)
qed

lemma client_applies:
  assumes "posts w = ps"
  shows "wp (apply_dns_batch repr requester zone_id changes)
    (\<lambda>_ w'. \<exists>payload. batch_payload changes = Inr payload \<and> posts w' = ps @ [batch_request zone_id payload])
    (\<lambda>_ w'. posts w' = ps \<or> (\<exists>payload. batch_payload changes = Inr payload \<and>
      posts w' = ps @ [batch_request zone_id payload])) w"
  using assms
  by (auto simp: wp_def apply_dns_batch_def request_def send_def bind_def lift_def ret_def posts_def
      batch_request_def split: prod.splits sum.splits option.splits)

end
