(* ===== verification/Dns_Apply.thy ===== *)
theory Dns_Apply
  imports Dns_Properties Dns_Client
begin

text \<open>
  Carrying a plan out (\<open>apply_manifest\<close> of \<open>cloudflare_dns.py\<close>): planning from what the API says,
  the evidence that is written before and after, the batch, and the verification.
\<close>

section \<open>State\<close>

text \<open>What the API acts on, and the part of the file system that holds the evidence.\<close>

record 'w dns_state =
  ds_api :: 'w
  ds_dirs :: "string list"
  ds_files :: "(string \<times> string) list"

text \<open>How the disk answers: a file that cannot be written is missing or cut short.\<close>

datatype disk_result = DiskOk | DiskNothing | DiskPartial nat

record dns_env =
  ne_mkdir_fails :: "string \<Rightarrow> bool"
  ne_write :: "string \<Rightarrow> disk_result"
  ne_safe_dump :: "pyval \<Rightarrow> string"
  ne_repr :: "string \<Rightarrow> string"

type_synonym ('w, 'a) dns_step = "('w dns_state, dns_error, 'a) proc"

definition on_api :: "('w, 'a) dns_proc \<Rightarrow> ('w, 'a) dns_step" where
  "on_api m = zoom ds_api (\<lambda>w s. s\<lparr>ds_api := w\<rparr>) m"

section \<open>JSON with an indentation\<close>

definition new_line :: "nat \<Rightarrow> string" where
  "new_line n = CHR 0x0A # replicate (2 * n) (CHR '' '')"

text \<open>\<open>json.dumps(v, indent=2, sort_keys=True)\<close>, the value being at depth \<open>n\<close>.\<close>

fun json_indent :: "nat \<Rightarrow> pyval \<Rightarrow> json_error + string" where
  "json_indent n (PList xs) =
     (if xs = [] then Inr ''[]''
      else case all_ok (map (json_indent (Suc n)) xs) of
        Inl e \<Rightarrow> Inl e
      | Inr ys \<Rightarrow> Inr (''['' @ new_line (Suc n) @ joined ('','' @ new_line (Suc n)) ys @ new_line n @ '']''))"
| "json_indent n (PDict kvs) =
     (if kvs = [] then Inr ''{}''
      else case all_ok (map snd (sort_items (map (\<lambda>(k, v). (k,
             case json_indent (Suc n) v of
               Inl e \<Rightarrow> Inl e
             | Inr y \<Rightarrow> Inr (json_string True k @ '': '' @ y))) kvs))) of
        Inl e \<Rightarrow> Inl e
      | Inr ys \<Rightarrow> Inr (''{'' @ new_line (Suc n) @ joined ('','' @ new_line (Suc n)) ys @ new_line n @ ''}''))"
| "json_indent n v = json_dumps True True v"

definition evidence_text :: "pyval \<Rightarrow> dns_error + string" where
  "evidence_text v =
     (case json_indent 0 v of
        Inl JTypeError \<Rightarrow> Inl (DnsOther ''TypeError'')
      | Inl JValueError \<Rightarrow> Inl (DnsOther ''ValueError'')
      | Inr t \<Rightarrow> Inr (t @ [CHR 0x0A]))"

section \<open>Evidence\<close>

definition file_path :: "string \<Rightarrow> string \<Rightarrow> string" where
  "file_path dir name = dir @ ''/'' @ name"

definition write_exclusive :: "dns_env \<Rightarrow> string \<Rightarrow> string \<Rightarrow> string \<Rightarrow> ('w, string) dns_step" where
  "write_exclusive env dir name content =
     (let failed = raise (DnsError (''cannot persist Cloudflare DNS evidence: '' @ name));
          put = (\<lambda>t. modify (\<lambda>s. s\<lparr>ds_files := ds_files s @ [(file_path dir name, t)]\<rparr>)) in
      bind (gets ds_files) (\<lambda>files.
      if file_path dir name \<in> fst ` set files then failed
      else (case ne_write env (file_path dir name) of
          DiskNothing \<Rightarrow> failed
        | DiskPartial n \<Rightarrow> seq (put (take n content)) failed
        | DiskOk \<Rightarrow> seq (put content) (ret (sha256_hex content)))))"

definition make_directory :: "dns_env \<Rightarrow> string \<Rightarrow> ('w, unit) dns_step" where
  "make_directory env dir =
     bind (gets ds_dirs) (\<lambda>dirs.
     if dir \<in> set dirs \<or> ne_mkdir_fails env dir
     then raise (DnsError ''Cloudflare DNS evidence directory must be a new writable path'')
     else modify (\<lambda>s. s\<lparr>ds_dirs := ds_dirs s @ [dir]\<rparr>))"

text \<open>\<open>_record_sort_key\<close>\<close>

type_synonym record_key = "string \<times> string \<times> string \<times> int \<times> bool \<times> int \<times> string"

definition record_sort_key :: "DnsRecord \<Rightarrow> record_key" where
  "record_sort_key r =
     (dn_type r, dn_name r, dn_content r, dn_ttl r, dn_proxied r,
      (case dn_priority r of None \<Rightarrow> - 1 | Some p \<Rightarrow> p),
      (case dn_id r of None \<Rightarrow> '''' | Some i \<Rightarrow> i))"

fun record_key_le :: "record_key \<Rightarrow> record_key \<Rightarrow> bool" where
  "record_key_le (t, n, c, ttl, p, pr, i) (t', n', c', ttl', p', pr', i') =
     (if t \<noteq> t' then str_le t t'
      else if n \<noteq> n' then str_le n n'
      else if c \<noteq> c' then str_le c c'
      else if ttl \<noteq> ttl' then ttl < ttl'
      else if p \<noteq> p' then \<not> p
      else if pr \<noteq> pr' then pr < pr'
      else str_le i i')"

definition sorted_records :: "DnsRecord list \<Rightarrow> DnsRecord list" where
  "sorted_records rs = sort_by (\<lambda>a b. record_key_le (record_sort_key a) (record_sort_key b)) rs"

definition rollback_manifest_payload :: "DnsManifest \<Rightarrow> DnsRecord list \<Rightarrow> pyval" where
  "rollback_manifest_payload m current = PDict
     [(''version'', PStr ''cybercore.cloudflare-dns.rollback/v0.1''), (''zone'', PStr (dm_zone m)),
      (''managed_recordsets'', PList (map (\<lambda>(t, n). PDict [(''type'', PStr t), (''name'', PStr n)])
         (dm_managed m))),
      (''records'', PList (map (\<lambda>r. PDict (restore_payload r))
         (sorted_records (filter (\<lambda>r. recordset_of r \<in> set (dm_managed m)) current))))]"

definition snapshot_name :: string where
  "snapshot_name = ''pre-write-zone-snapshot.json''"

definition rollback_name :: string where
  "rollback_name = ''rollback-manifest.yaml''"

definition rollback_receipt_name :: string where
  "rollback_receipt_name = ''rollback-prepared-receipt.json''"

definition snapshot_payload :: "DnsPlan \<Rightarrow> metadata \<Rightarrow> pyval" where
  "snapshot_payload p dnssec = PDict
     [(''version'', PStr ''cybercore.cloudflare-dns.snapshot/v0.1''), (''phase'', PStr ''pre-write''),
      (''zone'', PStr (dp_zone p)), (''zone_id'', PStr (dp_zone_id p)),
      (''zone_status'', PStr (dp_zone_status p)), (''plan_fingerprint'', PStr (dp_fingerprint p)),
      (''dnssec'', PDict dnssec),
      (''records'', PList (map (record_dict True) (sorted_records (dp_current_records p))))]"

definition rollback_receipt :: "DnsPlan \<Rightarrow> string \<Rightarrow> string \<Rightarrow> pyval" where
  "rollback_receipt p rollback_hash snapshot_hash = PDict
     [(''version'', PStr ''cybercore.cloudflare-dns.rollback-receipt/v0.1''),
      (''status'', PStr ''PREPARED_NOT_EXECUTED''), (''zone'', PStr (dp_zone p)),
      (''plan_fingerprint'', PStr (dp_fingerprint p)), (''rollback_manifest'', PStr rollback_name),
      (''rollback_manifest_sha256'', PStr rollback_hash), (''pre_write_snapshot'', PStr snapshot_name),
      (''pre_write_snapshot_sha256'', PStr snapshot_hash)]"

definition prepare_pre_write_evidence ::
  "dns_env \<Rightarrow> DnsPlan \<Rightarrow> DnsManifest \<Rightarrow> metadata \<Rightarrow> string \<Rightarrow> ('w, metadata) dns_step" where
  "prepare_pre_write_evidence env p m dnssec dir =
     seq (make_directory env dir)
     (bind (lift (evidence_text (snapshot_payload p dnssec))) (\<lambda>snapshot_text.
      bind (write_exclusive env dir snapshot_name snapshot_text) (\<lambda>snapshot_hash.
      bind (write_exclusive env dir rollback_name
        (ne_safe_dump env (rollback_manifest_payload m (dp_current_records p)))) (\<lambda>rollback_hash.
      bind (lift (evidence_text (rollback_receipt p rollback_hash snapshot_hash))) (\<lambda>receipt_text.
      seq (write_exclusive env dir rollback_receipt_name receipt_text)
      (ret
        [(''directory'', PStr dir), (''pre_write_snapshot'', PStr snapshot_name),
         (''pre_write_snapshot_sha256'', PStr snapshot_hash), (''rollback_manifest'', PStr rollback_name),
         (''rollback_manifest_sha256'', PStr rollback_hash),
         (''rollback_receipt'', PStr rollback_receipt_name)]))))))"

definition post_write_payload :: "DnsPlan \<Rightarrow> DnsPlan \<Rightarrow> metadata \<Rightarrow> pyval" where
  "post_write_payload p v dnssec = PDict
     [(''version'', PStr ''cybercore.cloudflare-dns.snapshot/v0.1''), (''phase'', PStr ''post-write''),
      (''zone'', PStr (dp_zone p)), (''zone_id'', PStr (dp_zone_id p)),
      (''zone_status'', PStr (dp_zone_status v)), (''plan_fingerprint'', PStr (dp_fingerprint p)),
      (''dnssec'', PDict dnssec),
      (''records'', PList (map (record_dict True) (sorted_records (dp_current_records v)))),
      (''remaining_changes'', PList (map (change_dict False) (dp_changes v)))]"

definition write_post_write_snapshot ::
  "dns_env \<Rightarrow> DnsPlan \<Rightarrow> DnsPlan \<Rightarrow> metadata \<Rightarrow> string \<Rightarrow> ('w, string) dns_step" where
  "write_post_write_snapshot env p v dnssec dir =
     bind (lift (evidence_text (post_write_payload p v dnssec))) (\<lambda>t.
     seq (write_exclusive env dir ''post-write-zone-snapshot.json'' t)
       (ret ''post-write-zone-snapshot.json''))"

definition write_apply_receipt :: "dns_env \<Rightarrow> string \<Rightarrow> pyval \<Rightarrow> ('w, unit) dns_step" where
  "write_apply_receipt env dir payload =
     bind (lift (evidence_text payload)) (\<lambda>t.
     seq (write_exclusive env dir ''apply-receipt.json'' t) (ret ()))"

section \<open>Planning and discovery\<close>

definition plan_from_manifest ::
  "dns_env \<Rightarrow> 'w CloudflareApi \<Rightarrow> DnsManifest \<Rightarrow> ('w, DnsPlan) dns_step" where
  "plan_from_manifest env api m =
     bind (on_api (ca_find_zone api (dm_zone m))) (\<lambda>(zone_id, status).
     if status \<notin> set PLANNABLE_ZONE_STATUSES
     then raise (DnsError (''Cloudflare zone status '' @ ne_repr env status @
       '' is not safe for DNS planning or mutation''))
     else bind (on_api (ca_list_dns_records api zone_id)) (\<lambda>current.
       lift (build_plan m zone_id current status)))"

definition discover :: "'w CloudflareApi \<Rightarrow> pyval \<Rightarrow> ('w, pyval) dns_step" where
  "discover api zone =
     bind (lift (normalize_zone zone)) (\<lambda>normalized.
     bind (on_api (ca_find_zone api normalized)) (\<lambda>(zone_id, status).
     bind (on_api (ca_list_dns_records api zone_id)) (\<lambda>records.
     bind (on_api (ca_get_dnssec api zone_id)) (\<lambda>dnssec.
     ret (PDict [(''zone'', PStr normalized), (''zone_id'', PStr zone_id), (''status'', PStr status),
       (''dnssec'', PDict dnssec), (''records'', PList (map (record_dict False) records)),
       (''mutation'', PStr ''none'')])))))"

section \<open>Applying\<close>

definition applied_of :: "DnsPlan \<Rightarrow> pyval" where
  "applied_of p = PList (map (\<lambda>c. PDict
     [(''action'', PStr (action_text (dc_action c))), (''type'', PStr (fst (dc_recordset c))),
      (''name'', PStr (snd (dc_recordset c)))]) (dp_changes p))"

definition failure_receipt :: "string \<Rightarrow> DnsPlan \<Rightarrow> string \<Rightarrow> metadata \<Rightarrow> pyval" where
  "failure_receipt status p message evidence = PDict
     [(''version'', PStr ''cybercore.cloudflare-dns.apply-receipt/v0.1''), (''status'', PStr status),
      (''zone'', PStr (dp_zone p)), (''plan_fingerprint'', PStr (dp_fingerprint p)),
      (''verified'', PBool False), (''requested_changes'', applied_of p), (''error'', PStr message),
      (''rollback_manifest'', get_item evidence ''rollback_manifest'' PNone)]"

definition final_receipt :: "DnsPlan \<Rightarrow> DnsPlan \<Rightarrow> string \<Rightarrow> metadata \<Rightarrow> pyval" where
  "final_receipt p v post_write_snapshot evidence = PDict
     [(''version'', PStr ''cybercore.cloudflare-dns.apply-receipt/v0.1''),
      (''status'', PStr (if dp_changes v = [] then ''VERIFIED'' else ''NON_CONVERGED'')),
      (''zone'', PStr (dp_zone p)), (''plan_fingerprint'', PStr (dp_fingerprint p)),
      (''verified'', PBool (dp_changes v = [])), (''requested_changes'', applied_of p),
      (''remaining_changes'', PList (map (change_dict False) (dp_changes v))),
      (''pre_write_snapshot'', get_item evidence ''pre_write_snapshot'' PNone),
      (''rollback_manifest'', get_item evidence ''rollback_manifest'' PNone),
      (''rollback_receipt'', get_item evidence ''rollback_receipt'' PNone),
      (''post_write_snapshot'', PStr post_write_snapshot)]"

text \<open>The checks at the mutation boundary, with what the API says then.\<close>

definition boundary_check :: "'w CloudflareApi \<Rightarrow> DnsManifest \<Rightarrow> DnsPlan \<Rightarrow> ('w, unit) dns_step" where
  "boundary_check api m p =
     bind (on_api (ca_find_zone api (dp_zone p))) (\<lambda>(zone_id, status).
     if zone_id \<noteq> dp_zone_id p \<or> status \<noteq> dp_zone_status p
     then raise (DnsError (''Cloudflare zone identity/status drifted at mutation boundary; '' @
       ''generate a fresh plan and approval''))
     else bind (on_api (ca_list_dns_records api zone_id)) (\<lambda>records.
     bind (lift (managed_snapshot_fingerprint m records)) (\<lambda>now.
     bind (lift (managed_snapshot_fingerprint m (dp_current_records p))) (\<lambda>planned.
     if now \<noteq> planned
     then raise (DnsError (''Cloudflare managed DNS records drifted at mutation boundary, including '' @
       ''restorable metadata; generate a fresh plan and approval''))
     else bind (lift (build_plan m zone_id records status)) (\<lambda>boundary.
       if dp_fingerprint boundary \<noteq> dp_fingerprint p
       then raise (DnsError (''Cloudflare managed DNS records drifted at mutation boundary; '' @
         ''generate a fresh plan and approval''))
       else ret ())))))"

text \<open>The part of \<open>apply_manifest\<close> up to and with the batch; it gives the evidence.\<close>

definition apply_changes ::
  "dns_env \<Rightarrow> 'w CloudflareApi \<Rightarrow> DnsManifest \<Rightarrow> DnsPlan \<Rightarrow> string option \<Rightarrow>
   ('w, metadata option) dns_step" where
  "apply_changes env api m p evidence_dir =
     (if dp_changes p = [] then ret None
      else (case evidence_dir of
          None \<Rightarrow> raise (DnsError
            ''remote DNS write requires a new evidence directory for snapshot and rollback'')
        | Some dir \<Rightarrow>
            bind (on_api (ca_get_dnssec api (dp_zone_id p))) (\<lambda>dnssec.
            bind (prepare_pre_write_evidence env p m dnssec dir) (\<lambda>evidence.
            seq (boundary_check api m p)
            (seq (handle (on_api (ca_apply_dns_batch api (dp_zone_id p) (dp_changes p)))
              (\<lambda>e. case e of
                 DnsError t \<Rightarrow> Some (seq (write_apply_receipt env dir
                   (failure_receipt ''WRITE_ERROR_RECONCILIATION_REQUIRED'' p t evidence)) (raise e))
               | DnsOther t \<Rightarrow> None))
            (ret (Some evidence)))))))"

definition verify_changes ::
  "dns_env \<Rightarrow> 'w CloudflareApi \<Rightarrow> DnsManifest \<Rightarrow> DnsPlan \<Rightarrow> string option \<Rightarrow> metadata option \<Rightarrow>
   ('w, DnsPlan \<times> metadata option) dns_step" where
  "verify_changes env api m p evidence_dir evidence =
     handle
       (bind (plan_from_manifest env api m) (\<lambda>v.
        if dp_changes p = [] then ret (v, None)
        else bind (on_api (ca_get_dnssec api (dp_zone_id p))) (\<lambda>dnssec. ret (v, Some dnssec))))
       (\<lambda>e. case e of
          DnsError t \<Rightarrow> Some (seq
            (case (evidence_dir, evidence) of
               (Some dir, Some ev) \<Rightarrow>
                 if dp_changes p = [] then ret ()
                 else write_apply_receipt env dir
                   (failure_receipt ''POST_WRITE_VERIFICATION_ERROR'' p t ev)
             | _ \<Rightarrow> ret ())
            (raise e))
        | DnsOther t \<Rightarrow> None)"

text \<open>The post-write snapshot and the receipt.\<close>

definition record_changes ::
  "dns_env \<Rightarrow> DnsPlan \<Rightarrow> DnsPlan \<Rightarrow> metadata option \<Rightarrow> string option \<Rightarrow> metadata option \<Rightarrow>
   ('w, string option) dns_step" where
  "record_changes env p v dnssec evidence_dir evidence =
     (case (evidence_dir, evidence) of
        (Some dir, Some ev) \<Rightarrow>
          if dp_changes p = [] then ret None
          else (case dnssec of
              None \<Rightarrow> raise (DnsOther ''AssertionError'')
            | Some d \<Rightarrow>
                bind (write_post_write_snapshot env p v d dir) (\<lambda>snapshot.
                seq (write_apply_receipt env dir (final_receipt p v snapshot ev))
                (ret (Some snapshot))))
      | _ \<Rightarrow> ret None)"

definition apply_report :: "DnsPlan \<Rightarrow> metadata option \<Rightarrow> string option \<Rightarrow> pyval" where
  "apply_report p evidence post_write_snapshot = PDict
     [(''zone'', PStr (dp_zone p)), (''plan_fingerprint'', PStr (dp_fingerprint p)),
      (''applied'', applied_of p), (''verified'', PBool True), (''remaining_changes'', PInt 0),
      (''evidence'', case evidence of None \<Rightarrow> PNone | Some d \<Rightarrow> PDict d),
      (''post_write_snapshot'', case post_write_snapshot of None \<Rightarrow> PNone | Some n \<Rightarrow> PStr n)]"

definition apply_manifest ::
  "dns_env \<Rightarrow> 'w CloudflareApi \<Rightarrow> DnsManifest \<Rightarrow> string \<Rightarrow> string \<Rightarrow> string option \<Rightarrow>
   ('w, pyval) dns_step" where
  "apply_manifest env api m expected_plan approval evidence_dir =
     (if dm_template m then raise (DnsError ''template Cloudflare DNS manifest cannot be applied'')
      else bind (plan_from_manifest env api m) (\<lambda>p.
        if dp_fingerprint p \<noteq> expected_plan
        then raise (DnsError (''Cloudflare DNS plan drifted; '' @
          ''generate a fresh plan and approve its exact fingerprint''))
        else if approval \<noteq> approval_text p
        then raise (DnsError (''remote DNS write requires exact approval: '' @ approval_text p))
        else bind (apply_changes env api m p evidence_dir) (\<lambda>evidence.
          bind (verify_changes env api m p evidence_dir evidence) (\<lambda>(v, dnssec).
          bind (record_changes env p v dnssec evidence_dir evidence) (\<lambda>snapshot.
          if dp_changes v \<noteq> []
          then raise (DnsError
            ''Cloudflare DNS write completed but post-write verification did not converge'')
          else ret (apply_report p evidence snapshot))))))"

end
