(* ===== verification/Dns_Safety.thy ===== *)
theory Dns_Safety
  imports Dns_Apply
begin

text \<open>
  What \<open>apply_manifest\<close> may do to a zone. The contract of the API (only a batch writes, and one batch
  at most once) is a locale, which the Cloudflare client gives for every requester.
\<close>

section \<open>What a step keeps\<close>

text \<open>The writes so far are \<open>ws\<close>, and the files \<open>fs\<close> are on the disk.\<close>

definition kept :: "('w \<Rightarrow> 'r list) \<Rightarrow> 'r list \<Rightarrow> (string \<times> string) set \<Rightarrow> 'w dns_state \<Rightarrow> bool" where
  "kept writes ws fs s \<longleftrightarrow> writes (ds_api s) = ws \<and> fs \<subseteq> set (ds_files s)"

definition quiet :: "('w \<Rightarrow> 'r list) \<Rightarrow> ('w, 'a) dns_step \<Rightarrow> bool" where
  "quiet writes m \<longleftrightarrow>
     (\<forall>ws fs s. kept writes ws fs s \<longrightarrow> wp m (\<lambda>_. kept writes ws fs) (\<lambda>_. kept writes ws fs) s)"

named_theorems quiets \<open>steps that write no record\<close>

lemma quietD: "quiet writes m \<Longrightarrow> kept writes ws fs s \<Longrightarrow>
    wp m (\<lambda>_. kept writes ws fs) (\<lambda>_. kept writes ws fs) s"
  by (simp add: quiet_def)

lemma quiet_basic [quiets]: "quiet writes (ret a)" "quiet writes (raise e)" "quiet writes (lift r)"
    "quiet writes (gets f)"
  by (auto simp: quiet_def wp_simps split: sum.splits)

lemma quiet_bind [quiets]:
  "quiet writes m \<Longrightarrow> (\<And>a. quiet writes (f a)) \<Longrightarrow> quiet writes (bind m f)"
  unfolding quiet_def wp_bind by (blast intro: wp_mono)

lemma quiet_seq [quiets]: "quiet writes m \<Longrightarrow> quiet writes n \<Longrightarrow> quiet writes (seq m n)"
  unfolding seq_def by (rule quiet_bind)

lemma quiet_handle [quiets]:
  assumes "quiet writes m" and "\<And>e k. h e = Some k \<Longrightarrow> quiet writes k"
  shows "quiet writes (handle m h)"
  unfolding quiet_def wp_handle
proof (intro allI impI)
  fix ws fs s
  assume "kept writes ws fs s"
  from quietD [OF assms(1) this]
  show "wp m (\<lambda>_. kept writes ws fs) (\<lambda>e t. case h e of None \<Rightarrow> kept writes ws fs t
      | Some k \<Rightarrow> wp k (\<lambda>_. kept writes ws fs) (\<lambda>_. kept writes ws fs) t) s"
    by (rule wp_mono) (auto intro: quietD [OF assms(2)] split: option.split)
qed

lemma quiet_put [quiets]: "quiet writes (modify (\<lambda>s. s\<lparr>ds_files := ds_files s @ fs\<rparr>))"
  by (auto simp: quiet_def kept_def wp_simps)

lemma quiet_dirs [quiets]: "quiet writes (modify (\<lambda>s. s\<lparr>ds_dirs := f s\<rparr>))"
  by (auto simp: quiet_def kept_def wp_simps)

lemma quiet_write_exclusive [quiets]: "quiet writes (write_exclusive env dir name content)"
  unfolding write_exclusive_def Let_def
  by (intro quiets) (auto intro!: quiets split: disk_result.split)

lemma quiet_make_directory [quiets]: "quiet writes (make_directory env dir)"
  unfolding make_directory_def by (intro quiets) (auto intro!: quiets)

lemma quiet_evidence [quiets]:
  "quiet writes (write_apply_receipt env dir payload)"
  "quiet writes (write_post_write_snapshot env p v dnssec dir)"
  unfolding write_apply_receipt_def write_post_write_snapshot_def by (intro quiets)+

lemma quiet_record_changes [quiets]: "quiet writes (record_changes env p v dnssec evidence_dir evidence)"
  unfolding record_changes_def by (auto intro!: quiets split: option.split)

lemma write_exclusive_wp:
  assumes "kept writes ws fs s"
  shows "wp (write_exclusive env dir name content)
    (\<lambda>h t. h = sha256_hex content \<and> kept writes ws (insert (file_path dir name, content) fs) t)
    (\<lambda>_. kept writes ws fs) s"
  using assms
  by (auto simp: write_exclusive_def Let_def kept_def wp_simps split: disk_result.split)

text \<open>The evidence of plan \<open>p\<close> is among the files: the snapshot, the rollback manifest, and the receipt
  with the hashes of both.\<close>

definition evidence_saved ::
  "dns_env \<Rightarrow> DnsManifest \<Rightarrow> DnsPlan \<Rightarrow> string \<Rightarrow> (string \<times> string) set \<Rightarrow> bool" where
  "evidence_saved env m p dir fs \<longleftrightarrow>
     (\<exists>dnssec snapshot receipt.
        let rollback = ne_safe_dump env (rollback_manifest_payload m (dp_current_records p)) in
        evidence_text (snapshot_payload p dnssec) = Inr snapshot \<and>
        evidence_text (rollback_receipt p (sha256_hex rollback) (sha256_hex snapshot)) = Inr receipt \<and>
        {(file_path dir snapshot_name, snapshot), (file_path dir rollback_name, rollback),
         (file_path dir rollback_receipt_name, receipt)} \<subseteq> fs)"

lemma evidence_saved_mono: "evidence_saved env m p dir fs \<Longrightarrow> fs \<subseteq> fs' \<Longrightarrow> evidence_saved env m p dir fs'"
  unfolding evidence_saved_def Let_def by (meson order_trans)

lemma evidence_savedI:
  assumes "evidence_text (snapshot_payload p dnssec) = Inr snapshot"
    and "rollback = ne_safe_dump env (rollback_manifest_payload m (dp_current_records p))"
    and "evidence_text (rollback_receipt p (sha256_hex rollback) (sha256_hex snapshot)) = Inr receipt"
  shows "evidence_saved env m p dir (insert (file_path dir rollback_receipt_name, receipt)
    (insert (file_path dir rollback_name, rollback) (insert (file_path dir snapshot_name, snapshot) fs)))"
  unfolding evidence_saved_def Let_def using assms by blast

lemma kept_mono: "kept writes ws fs' s \<Longrightarrow> fs \<subseteq> fs' \<Longrightarrow> kept writes ws fs s"
  by (auto simp: kept_def)

lemma prepare_wp:
  assumes "kept writes ws fs s"
  shows "wp (prepare_pre_write_evidence env p m dnssec dir)
    (\<lambda>_ t. \<exists>fs'. evidence_saved env m p dir fs' \<and> kept writes ws fs' t) (\<lambda>_. kept writes ws fs) s"
  unfolding prepare_pre_write_evidence_def wp_bind wp_seq wp_lift
proof (rule wp_mono [OF quietD [OF quiet_make_directory assms]], goal_cases)
  case (1 a t)
  let ?rollback = "ne_safe_dump env (rollback_manifest_payload m (dp_current_records p))"
  show ?case
  proof (cases "evidence_text (snapshot_payload p dnssec)")
    case (Inr snapshot)
    show ?thesis
      unfolding Inr sum.case
    proof (rule wp_mono [OF write_exclusive_wp [OF 1]], goal_cases)
      case (1 h t)
      then have h: "h = sha256_hex snapshot"
        and t: "kept writes ws (insert (file_path dir snapshot_name, snapshot) fs) t" by auto
      show ?case
      proof (rule wp_mono [OF write_exclusive_wp [OF t]], goal_cases)
        case (1 h' t')
        then have h': "h' = sha256_hex ?rollback"
          and t': "kept writes ws (insert (file_path dir rollback_name, ?rollback)
            (insert (file_path dir snapshot_name, snapshot) fs)) t'" by auto
        show ?case
        proof (cases "evidence_text (rollback_receipt p h' h)")
          case (Inr receipt)
          have saved: "evidence_saved env m p dir (insert (file_path dir rollback_receipt_name, receipt)
              (insert (file_path dir rollback_name, ?rollback)
                (insert (file_path dir snapshot_name, snapshot) fs)))"
            by (rule evidence_savedI [OF \<open>evidence_text (snapshot_payload p dnssec) = _\<close> refl])
              (use Inr h h' in simp)
          show ?thesis
            unfolding Inr sum.case wp_ret
            by (rule wp_mono [OF write_exclusive_wp [OF t']]) (use saved in \<open>auto elim: kept_mono\<close>)
        qed (use t' in \<open>auto simp: kept_def\<close>)
      qed (auto simp: kept_def)
    qed (auto simp: kept_def)
  qed (use 1 in auto)
qed auto

lemma plan_fields:
  "build_plan m zone_id current status = Inr p \<Longrightarrow>
    dp_zone_id p = zone_id \<and> dp_current_records p = current \<and> dp_zone_status p = status"
  by (auto simp: build_plan_def split: option.splits sum.splits if_splits)

text \<open>A plan that was made is the plan of what the API said.\<close>

definition made_plan :: "DnsManifest \<Rightarrow> DnsPlan \<Rightarrow> bool" where
  "made_plan m p \<longleftrightarrow>
     build_plan m (dp_zone_id p) (dp_current_records p) (dp_zone_status p) = Inr p \<and>
     dp_zone_status p \<in> set PLANNABLE_ZONE_STATUSES"

lemma plan_made: "plan_from_manifest env api m s = (Inr p, t) \<Longrightarrow>
    made_plan m p \<and>
    (\<exists>w. ca_list_dns_records api (dp_zone_id p) w = (Inr (dp_current_records p), ds_api t))"
  by (fastforce simp: plan_from_manifest_def made_plan_def on_api_def proc_defs plan_fields
      split: prod.splits sum.splits if_splits dest: plan_fields)

text \<open>The batch of plan \<open>p\<close> was written once, with its evidence on the disk.\<close>

definition written ::
  "('w \<Rightarrow> 'r list) \<Rightarrow> (string \<Rightarrow> DnsChange list \<Rightarrow> 'r option) \<Rightarrow> dns_env \<Rightarrow> DnsManifest \<Rightarrow> DnsPlan \<Rightarrow>
   string option \<Rightarrow> 'r list \<Rightarrow> 'w dns_state \<Rightarrow> bool" where
  "written writes batch env m p evidence_dir ws s \<longleftrightarrow>
     (\<exists>dir r fs. evidence_dir = Some dir \<and> batch (dp_zone_id p) (dp_changes p) = Some r \<and>
        evidence_saved env m p dir fs \<and> kept writes (ws @ [r]) fs s)"

definition authorised :: "DnsManifest \<Rightarrow> string \<Rightarrow> string \<Rightarrow> DnsPlan \<Rightarrow> bool" where
  "authorised m expected_plan approval p \<longleftrightarrow>
     made_plan m p \<and> \<not> dm_template m \<and> dp_fingerprint p = expected_plan \<and>
     approval = approval_text p \<and> dp_changes p \<noteq> []"

text \<open>Nothing was written, or one authorised batch.\<close>

definition safe_outcome ::
  "('w \<Rightarrow> 'r list) \<Rightarrow> (string \<Rightarrow> DnsChange list \<Rightarrow> 'r option) \<Rightarrow> dns_env \<Rightarrow> DnsManifest \<Rightarrow> string \<Rightarrow>
   string \<Rightarrow> string option \<Rightarrow> 'r list \<Rightarrow> 'w dns_state \<Rightarrow> bool" where
  "safe_outcome writes batch env m expected_plan approval evidence_dir ws s \<longleftrightarrow>
     writes (ds_api s) = ws \<or>
     (\<exists>p. authorised m expected_plan approval p \<and> written writes batch env m p evidence_dir ws s)"

lemma quiet_safe_outcome:
  assumes "quiet writes n" and "safe_outcome writes batch env m e a dir ws s"
  shows "wp n (\<lambda>_. safe_outcome writes batch env m e a dir ws) (\<lambda>_. safe_outcome writes batch env m e a dir ws) s"
  using assms(2) unfolding safe_outcome_def
proof
  assume "writes (ds_api s) = ws"
  then have "kept writes ws {} s" by (simp add: kept_def)
  from quietD [OF assms(1) this]
  show "wp n (\<lambda>_ s. writes (ds_api s) = ws \<or> (\<exists>p. authorised m e a p \<and> written writes batch env m p dir ws s))
     (\<lambda>_ s. writes (ds_api s) = ws \<or> (\<exists>p. authorised m e a p \<and> written writes batch env m p dir ws s)) s"
    by (rule wp_mono) (simp_all add: kept_def)
next
  assume "\<exists>p. authorised m e a p \<and> written writes batch env m p dir ws s"
  then obtain p d r fs where p: "authorised m e a p" "dir = Some d"
      "batch (dp_zone_id p) (dp_changes p) = Some r" "evidence_saved env m p d fs"
    and s: "kept writes (ws @ [r]) fs s"
    unfolding written_def by blast
  from quietD [OF assms(1) s] p
  show "wp n (\<lambda>_ s. writes (ds_api s) = ws \<or> (\<exists>p. authorised m e a p \<and> written writes batch env m p dir ws s))
     (\<lambda>_ s. writes (ds_api s) = ws \<or> (\<exists>p. authorised m e a p \<and> written writes batch env m p dir ws s)) s"
    unfolding written_def by (elim wp_mono) blast+
qed

section \<open>The contract of the API\<close>

locale zone_api =
  fixes api :: "'w CloudflareApi"
    and writes :: "'w \<Rightarrow> 'r list"
    and batch :: "string \<Rightarrow> DnsChange list \<Rightarrow> 'r option"
  assumes find_zone_reads: "writes w = ws \<Longrightarrow>
      wp (ca_find_zone api zone) (\<lambda>_ w'. writes w' = ws) (\<lambda>_ w'. writes w' = ws) w"
    and list_reads: "writes w = ws \<Longrightarrow>
      wp (ca_list_dns_records api zone_id) (\<lambda>_ w'. writes w' = ws) (\<lambda>_ w'. writes w' = ws) w"
    and dnssec_reads: "writes w = ws \<Longrightarrow>
      wp (ca_get_dnssec api zone_id) (\<lambda>_ w'. writes w' = ws) (\<lambda>_ w'. writes w' = ws) w"
    and batch_writes: "writes w = ws \<Longrightarrow>
      wp (ca_apply_dns_batch api zone_id changes)
        (\<lambda>_ w'. \<exists>r. batch zone_id changes = Some r \<and> writes w' = ws @ [r])
        (\<lambda>_ w'. writes w' = ws \<or> (\<exists>r. batch zone_id changes = Some r \<and> writes w' = ws @ [r])) w"
begin

lemma quiet_on_api:
  assumes "\<And>w ws. writes w = ws \<Longrightarrow> wp m (\<lambda>_ w'. writes w' = ws) (\<lambda>_ w'. writes w' = ws) w"
  shows "quiet writes (on_api m)"
  unfolding quiet_def on_api_def wp_zoom
proof (intro allI impI)
  fix ws fs s
  assume "kept writes ws fs s"
  then show "wp m (\<lambda>a w. kept writes ws fs (s\<lparr>ds_api := w\<rparr>)) (\<lambda>e w. kept writes ws fs (s\<lparr>ds_api := w\<rparr>))
      (ds_api s)"
    by (intro wp_mono [OF assms [of "ds_api s" ws]]) (auto simp: kept_def)
qed

lemma quiet_reads:
  "quiet writes (on_api (ca_find_zone api zone))"
  "quiet writes (on_api (ca_list_dns_records api zone_id))"
  "quiet writes (on_api (ca_get_dnssec api zone_id))"
  by (rule quiet_on_api, rule find_zone_reads list_reads dnssec_reads, assumption)+

lemma quiet_plan: "quiet writes (plan_from_manifest env api m)"
  unfolding plan_from_manifest_def
  by (intro quiets quiet_reads) (auto intro!: quiets quiet_reads)

lemma quiet_discover: "quiet writes (discover api zone)"
  unfolding discover_def by (intro quiets quiet_reads) (auto intro!: quiets quiet_reads)

lemma quiet_boundary: "quiet writes (boundary_check api m p)"
  unfolding boundary_check_def
  by (intro quiets quiet_reads) (auto intro!: quiets quiet_reads)

lemma quiet_verify: "quiet writes (verify_changes env api m p evidence_dir evidence)"
  unfolding verify_changes_def
  by (intro quiets quiet_reads quiet_plan)
    (auto intro!: quiets quiet_reads split: dns_error.splits option.splits)

lemma apply_changes_safe:
  assumes p: "made_plan m p" "\<not> dm_template m" "dp_fingerprint p = e" "a = approval_text p"
    and s: "writes (ds_api s) = ws"
  shows "wp (apply_changes env api m p dir) (\<lambda>_. safe_outcome writes batch env m e a dir ws)
    (\<lambda>_. safe_outcome writes batch env m e a dir ws) s"
proof (cases "dp_changes p = [] \<or> dir = None")
  case True
  with s show ?thesis by (auto simp: apply_changes_def wp_simps safe_outcome_def split: option.split)
next
  case False
  then obtain d where d: "dir = Some d" and changes: "dp_changes p \<noteq> []" by auto
  note quiet = quiet_safe_outcome [where batch = batch and env = env and m = m and e = e and a = a
      and dir = dir and ws = ws]
  have none: "kept writes ws fs t \<Longrightarrow> safe_outcome writes batch env m e a dir ws t" for fs t
    by (simp add: kept_def safe_outcome_def)
  have s': "kept writes ws {} s" using s by (simp add: kept_def)
  have auth: "authorised m e a p" using p changes by (simp add: authorised_def)
  have batch: "wp (on_api (ca_apply_dns_batch api (dp_zone_id p) (dp_changes p)))
      (\<lambda>_. safe_outcome writes batch env m e a dir ws) (\<lambda>_. safe_outcome writes batch env m e a dir ws) t"
    if "evidence_saved env m p d fs" "kept writes ws fs t" for fs t
  proof -
    from that have t: "writes (ds_api t) = ws" by (simp add: kept_def)
    show ?thesis
      unfolding on_api_def wp_zoom
      by (rule wp_mono [OF batch_writes [OF t]])
        (use that auth in \<open>auto simp: d safe_outcome_def written_def kept_def\<close>)
  qed
  show ?thesis
    unfolding apply_changes_def d option.case wp_if wp_bind wp_seq wp_handle
  proof (simp only: changes if_False, rule wp_mono [OF quietD [OF quiet_reads(3) s']], goal_cases)
    case (1 dnssec t)
    show ?case
    proof (rule wp_mono [OF prepare_wp [OF 1]], goal_cases)
      case (1 evidence t)
      then obtain fs where saved: "evidence_saved env m p d fs" and t: "kept writes ws fs t" by blast
      show ?case
      proof (rule wp_mono [OF quietD [OF quiet_boundary t]], goal_cases)
        case (1 u t)
        show ?case
          by (rule wp_mono [OF batch [OF saved 1]])
            (auto simp: wp_simps d intro!: wp_mono [OF quiet [OF quiet_evidence(1)]] split: dns_error.split)
      qed (use none in \<open>simp add: d\<close>)
    qed (use none in \<open>simp add: d\<close>)
  qed (use none in \<open>simp add: d\<close>)
qed

lemma apply_manifest_safe:
  assumes s: "writes (ds_api s) = ws"
  shows "wp (apply_manifest env api m e a dir) (\<lambda>_. safe_outcome writes batch env m e a dir ws)
    (\<lambda>_. safe_outcome writes batch env m e a dir ws) s"
proof (cases "dm_template m")
  case True
  with s show ?thesis by (simp add: apply_manifest_def wp_simps safe_outcome_def)
next
  case False
  note quiet = quiet_safe_outcome [where batch = batch and env = env and m = m and e = e and a = a
      and dir = dir and ws = ws]
  have s': "kept writes ws {} s" using s by (simp add: kept_def)
  have plan: "wp (plan_from_manifest env api m) (\<lambda>p t. kept writes ws {} t \<and> made_plan m p)
      (\<lambda>_. kept writes ws {}) s"
    by (rule wp_mono [OF wp_conj [OF quietD [OF quiet_plan s'],
          where Q' = "\<lambda>p _. made_plan m p" and E' = "\<lambda>_ _. True"]])
      (auto intro: wpI dest: plan_made)
  have rest: "quiet writes (bind (verify_changes env api m p dir evidence) (\<lambda>(v, dnssec).
      bind (record_changes env p v dnssec dir evidence) (\<lambda>snapshot.
      if dp_changes v \<noteq> []
      then raise (DnsError ''Cloudflare DNS write completed but post-write verification did not converge'')
      else ret (apply_report p evidence snapshot))))" for p evidence
    by (rule quiet_bind [OF quiet_verify]) (auto intro!: quiets)
  show ?thesis
    unfolding apply_manifest_def wp_if wp_bind [where m = "plan_from_manifest env api m"]
  proof (simp only: False if_False, rule wp_mono [OF plan], goal_cases)
    case (1 p t)
    then have p: "made_plan m p" and t: "writes (ds_api t) = ws" by (simp_all add: kept_def)
    show ?case
    proof (cases "dp_fingerprint p = e \<and> a = approval_text p")
      case True
      then have "dp_fingerprint p = e" "a = approval_text p" by auto
      from apply_changes_safe [OF p False this t] quiet [OF rest] True show ?thesis
        by (simp only: wp_bind [where m = "apply_changes env api m p dir"] if_False simp_thms)
          (rule wp_mono)
    qed (use t in \<open>auto simp: wp_simps safe_outcome_def\<close>)
  qed (simp add: kept_def safe_outcome_def)
qed

end

definition client_batch :: "string \<Rightarrow> DnsChange list \<Rightarrow> Request option" where
  "client_batch zone_id changes =
     (case batch_payload changes of Inl x \<Rightarrow> None | Inr payload \<Rightarrow> Some (batch_request zone_id payload))"

interpretation client: zone_api "CloudflareClient repr requester" posts client_batch
  by unfold_locales
    (auto simp: CloudflareClient_def client_batch_def intro: client_reads
      intro!: wp_mono [OF client_applies])

section \<open>Properties\<close>



section \<open>An example\<close>

text \<open>An API whose zone is already what the example manifest asks for.\<close>

definition example_api :: "unit CloudflareApi" where
  "example_api =
     \<lparr>ca_find_zone = (\<lambda>z. ret (''z'', ''active'')), ca_list_dns_records = (\<lambda>i. ret example_zone_after),
      ca_get_dnssec = (\<lambda>i. ret []), ca_apply_dns_batch = (\<lambda>i cs. ret ())\<rparr>"

definition example_env :: dns_env where
  "example_env =
     \<lparr>ne_mkdir_fails = (\<lambda>d. False), ne_write = (\<lambda>p. DiskOk), ne_safe_dump = (\<lambda>v. []),
      ne_repr = (\<lambda>s. s)\<rparr>"

lemma example_planning:
  "plan_from_manifest example_env example_api example_manifest s = (Inr (example_plan example_zone_after []), s)"
  using example_plans(2)
  by (cases s) (simp add: plan_from_manifest_def example_api_def on_api_def proc_defs
      PLANNABLE_ZONE_STATUSES_def example_manifest_def)

lemma example_run:
  fixes p defines "p \<equiv> example_plan example_zone_after []"
  shows "apply_manifest example_env example_api example_manifest (dp_fingerprint p) (approval_text p) None
    \<lparr>ds_api = (), ds_dirs = [], ds_files = []\<rparr> =
    (Inr (apply_report p None None), \<lparr>ds_api = (), ds_dirs = [], ds_files = []\<rparr>)"
  unfolding p_def
  by (simp add: apply_manifest_def apply_changes_def verify_changes_def record_changes_def
      bind_def handle_def ret_def example_planning)
    (simp add: example_manifest_def example_plan_def)


end
