(* ===== verification/Dns_Example.thy ===== *)
theory Dns_Example
  imports Dns_Safety
begin

text \<open>
  A run of \<open>apply_manifest\<close> through the Cloudflare client that changes the example zone, with an API
  whose answers are scripted: the write that \<open>Dns_Safety\<close> constrains does happen when everything is
  as it has to be.
\<close>

section \<open>Answers\<close>

text \<open>JSON texts, with a tilde for the quotation mark.\<close>

definition no_floats :: "rat \<Rightarrow> string" where
  "no_floats x = []"

definition zone_body :: string where
  "zone_body = ''{~success~:true,~result~:[{~name~:~a.eu~,~id~:~z~,~status~:~active~}]}''"

definition dnssec_body :: string where
  "dnssec_body = ''{~success~:true,~result~:{}}''"

definition quoted :: "string \<Rightarrow> string" where
  "quoted s = map (\<lambda>c. if c = CHR ''~'' then CHR 0x22 else c) s"

definition record_text :: "string \<Rightarrow> string \<Rightarrow> string \<Rightarrow> string" where
  "record_text t content i =
     ''{~type~:~'' @ t @ ''~,~name~:~a.eu~,~content~:~'' @ content @ ''~,~ttl~:1,~id~:~'' @ i @ ''~}''"

definition records_body :: "string \<Rightarrow> string" where
  "records_body content =
     ''{~success~:true,~result~:['' @ record_text ''A'' ''192.0.2.1'' ''1'' @ '','' @
     record_text ''A'' content ''2'' @ '','' @ record_text ''TXT'' ''x'' ''4'' @ '']}''"

text \<open>The answers in the order of the requests: the plan, the evidence, the boundary, the batch, and the
  verification.\<close>

definition scripted_body :: "nat \<Rightarrow> string" where
  "scripted_body n =
     (if n \<in> {0, 3, 6} then quoted zone_body
      else if n \<in> {1, 4} then quoted (records_body ''192.0.2.9'')
      else if n = 7 then quoted (records_body ''192.0.2.3'')
      else quoted dnssec_body)"

definition scripted :: "nat requester" where
  "scripted rq n = (Inr (200, scripted_body n), Suc n)"

definition answer :: "string \<Rightarrow> dns_error + pyval" where
  "answer raw = (case decode_body no_floats raw of Inl x \<Rightarrow> Inl x | Inr v \<Rightarrow> response_result 200 v)"

lemma answers:
  "answer (quoted zone_body) =
    Inr (PList [PDict [(''name'', PStr ''a.eu''), (''id'', PStr ''z''), (''status'', PStr ''active'')]])"
  "answer (quoted dnssec_body) = Inr (PDict [])"
  by code_simp+

lemma listings:
  "(case answer (quoted (records_body ''192.0.2.9'')) of Inl x \<Rightarrow> Inl x | Inr r \<Rightarrow> api_page r) =
    Inr example_zone"
  "(case answer (quoted (records_body ''192.0.2.3'')) of Inl x \<Rightarrow> Inl x | Inr r \<Rightarrow> api_page r) =
    Inr example_zone_after"
  by code_simp+

lemma request_run:
  assumes "\<forall>v. payload = Some v \<longrightarrow> encodes True True v"
  shows "request no_floats scripted rq_kind path query payload w =
    (answer (scripted_body (cf_remote w)),
     w\<lparr>cf_remote := Suc (cf_remote w), cf_requests := cf_requests w @
       [\<lparr>rq_method = rq_kind, rq_url = API_BASE @ path @ (if query = [] then [] else ''?'' @ urlencode query),
         rq_data = payload\<rparr>]\<rparr>)"
  using assms
  by (auto simp: request_def bind_def lift_def send_def scripted_def answer_def encodes_def dumps_text_def
      split: option.splits sum.splits)

definition at_request :: "nat \<Rightarrow> Request list \<Rightarrow> nat cf_world \<Rightarrow> bool" where
  "at_request n ps w \<longleftrightarrow> cf_remote w = n \<and> posts w = ps"

lemma find_zone_run:
  "at_request n ps w \<Longrightarrow> n \<in> {0, 3, 6} \<Longrightarrow>
    wp (find_zone no_floats scripted ''a.eu'')
      (\<lambda>a w'. a = (''z'', ''active'') \<and> at_request (Suc n) ps w') (\<lambda>_ _. False) w"
  by (auto simp: wp_def find_zone_def bind_def lift_def request_run scripted_body_def answers at_request_def
      posts_def zone_identity_def get_item_def)

definition listed :: "nat \<Rightarrow> DnsRecord list" where
  "listed n = (if n = 7 then example_zone_after else example_zone)"

lemma listing:
  assumes "n \<in> {1, 4, 7}"
  obtains r where "answer (scripted_body n) = Inr r" and "api_page r = Inr (listed n)"
    and "length (listed n) < 500"
proof -
  have "length (listed n) < 500"
    by (simp add: listed_def example_zone_def example_zone_after_def)
  moreover from assms listings have "\<exists>r. answer (scripted_body n) = Inr r \<and> api_page r = Inr (listed n)"
    by (cases "n = 7") (auto simp: scripted_body_def listed_def split: sum.splits)
  ultimately show thesis using that by blast
qed

lemma pages_run:
  assumes "at_request n ps w" and n: "n \<in> {1, 4, 7}"
  shows "wp (list_pages no_floats scripted i (Suc left) page [])
      (\<lambda>a w'. a = listed n \<and> at_request (Suc n) ps w') (\<lambda>_ _. False) w"
proof (rule listing [OF n])
  fix r
  assume "answer (scripted_body n) = Inr r" "api_page r = Inr (listed n)" "length (listed n) < 500"
  with assms(1) show ?thesis
    by (simp add: wp_def bind_def lift_def request_run at_request_def posts_def ret_def)
qed

lemma list_run:
  assumes "at_request n ps w" and "n \<in> {1, 4, 7}"
  shows "wp (list_dns_records no_floats scripted i)
      (\<lambda>a w'. a = listed n \<and> at_request (Suc n) ps w') (\<lambda>_ _. False) w"
proof -
  have pages: "(1000 :: nat) = Suc 999" by simp
  show ?thesis unfolding list_dns_records_def pages by (rule pages_run [OF assms])
qed

lemma dnssec_run:
  "at_request n ps w \<Longrightarrow> n \<in> {2, 8} \<Longrightarrow>
    wp (get_dnssec no_floats scripted i) (\<lambda>a w'. a = [] \<and> at_request (Suc n) ps w') (\<lambda>_ _. False) w"
  by (auto simp: wp_def get_dnssec_def bind_def ret_def request_run scripted_body_def answers at_request_def
      posts_def)

lemma example_batch:
  "batch_payload example_changes = Inr (PDict
    [(''deletes'', PList []),
     (''patches'', PList [PDict [(''id'', PStr ''2''), (''type'', PStr ''A''), (''name'', PStr ''a.eu''),
        (''content'', PStr ''192.0.2.3''), (''ttl'', PInt 1), (''proxied'', PBool False)]]),
     (''puts'', PList []), (''posts'', PList [])])"
  by code_simp

lemma encodes_one: "encodes asc nan (PInt 1)"
proof -
  have "json_int 1 = Inr ''1''" by code_simp
  then show ?thesis by (simp add: encodes_def)
qed

lemma batch_run:
  "at_request 5 ps w \<Longrightarrow>
    wp (apply_dns_batch no_floats scripted ''z'' example_changes)
      (\<lambda>_ w'. \<exists>r. at_request 6 (ps @ [r]) w') (\<lambda>_ _. False) w"
  by (auto simp: wp_def apply_dns_batch_def example_batch bind_def lift_def ret_def request_run
      encodes_dict_iff encodes_list_iff encodes_one scripted_body_def answers at_request_def posts_def)


section \<open>The disk\<close>

lemma json_indent_encodes: "encodes True True v \<Longrightarrow> \<exists>t. json_indent n v = Inr t"
proof (induction v arbitrary: n)
  case (PList xs)
  then have "\<forall>x\<in>set xs. \<exists>t. json_indent (Suc n) x = Inr t"
    by (simp add: encodes_list_iff list_all_iff)
  then have "\<exists>ys. all_ok (map (json_indent (Suc n)) xs) = Inr ys" by (intro all_ok_Inr) auto
  then show ?case by auto
next
  case (PDict kvs)
  then have "\<forall>(k, v)\<in>set kvs. \<exists>t. json_indent (Suc n) v = Inr t"
    by (fastforce simp: encodes_dict_iff list_all_iff)
  then have "\<exists>ys. all_ok (map snd (sort_items (map (\<lambda>(k, v). (k,
             case json_indent (Suc n) v of
               Inl e \<Rightarrow> Inl e
             | Inr y \<Rightarrow> Inr (json_string True k @ '': '' @ y))) kvs))) = Inr ys"
    by (intro all_ok_Inr) fastforce
  then show ?case by auto
qed (simp_all add: encodes_def)

lemma evidence_text_encodes: "encodes True True v \<Longrightarrow> \<exists>t. evidence_text v = Inr t"
  using json_indent_encodes [of v 0] by (auto simp: evidence_text_def)

definition at_step ::
  "nat \<Rightarrow> Request list \<Rightarrow> string list \<times> string list \<Rightarrow> nat cf_world dns_state \<Rightarrow> bool" where
  "at_step n ps disk s \<longleftrightarrow> at_request n ps (ds_api s) \<and> (map fst (ds_files s), ds_dirs s) = disk"

lemma on_api_run:
  assumes "\<And>w. at_request n ps w \<Longrightarrow> wp m (\<lambda>a w'. P a \<and> at_request k ps' w') (\<lambda>_ _. False) w"
    and "at_step n ps disk s"
  shows "wp (on_api m) (\<lambda>a s'. P a \<and> at_step k ps' disk s') (\<lambda>_ _. False) s"
  using assms(2) unfolding on_api_def wp_zoom
  by (intro wp_mono [OF assms(1)]) (auto simp: at_step_def)

lemma write_run:
  "at_step n ps (names, dirs) s \<Longrightarrow> file_path dir name \<notin> set names \<Longrightarrow>
    wp (write_exclusive example_env dir name content)
      (\<lambda>h s'. at_step n ps (names @ [file_path dir name], dirs) s') (\<lambda>_ _. False) s"
  by (auto simp: write_exclusive_def Let_def at_step_def wp_simps example_env_def
      simp flip: set_map)


section \<open>The run\<close>

definition the_client :: "nat cf_world CloudflareApi" where
  "the_client = CloudflareClient no_floats scripted"

definition the_plan :: DnsPlan where
  "the_plan = example_plan example_zone example_changes"

lemma client_run:
  "at_step n ps disk s \<Longrightarrow> n \<in> {0, 3, 6} \<Longrightarrow> wp (on_api (ca_find_zone the_client ''a.eu''))
    (\<lambda>a s'. a = (''z'', ''active'') \<and> at_step (Suc n) ps disk s') (\<lambda>_ _. False) s"
  "at_step n ps disk s \<Longrightarrow> n \<in> {1, 4, 7} \<Longrightarrow> wp (on_api (ca_list_dns_records the_client i))
    (\<lambda>a s'. a = listed n \<and> at_step (Suc n) ps disk s') (\<lambda>_ _. False) s"
  "at_step n ps disk s \<Longrightarrow> n \<in> {2, 8} \<Longrightarrow> wp (on_api (ca_get_dnssec the_client i))
    (\<lambda>a s'. a = [] \<and> at_step (Suc n) ps disk s') (\<lambda>_ _. False) s"
  "at_step 5 ps disk s \<Longrightarrow> wp (on_api (ca_apply_dns_batch the_client ''z'' example_changes))
    (\<lambda>_ s'. \<exists>r. at_step 6 (ps @ [r]) disk s') (\<lambda>_ _. False) s"
  unfolding the_client_def CloudflareClient_def CloudflareApi.simps
  by (rule on_api_run [OF find_zone_run], assumption+)
    (rule on_api_run [OF list_run], assumption+,
     rule on_api_run [OF dnssec_run], assumption+,
     auto simp: on_api_def wp_zoom at_step_def intro!: wp_mono [OF batch_run])

lemma plan_run:
  assumes "at_step n ps disk s" and n: "n = 0 \<or> n = 6"
  shows "wp (plan_from_manifest example_env the_client example_manifest)
    (\<lambda>p s'. p = (if n = 0 then the_plan else example_plan example_zone_after []) \<and>
       at_step (n + 2) ps disk s') (\<lambda>_ _. False) s"
proof -
  have zone: "dm_zone example_manifest = ''a.eu''" by (simp add: example_manifest_def)
  have plannable: "''active'' \<in> set PLANNABLE_ZONE_STATUSES" by (simp add: PLANNABLE_ZONE_STATUSES_def)
  have first: "n \<in> {0, 3, 6}" "Suc n \<in> {1, 4, 7}" using n by auto
  have plan: "build_plan example_manifest ''z'' (listed (Suc 0)) ''active'' = Inr the_plan"
    "build_plan example_manifest ''z'' (listed 7) ''active'' = Inr (example_plan example_zone_after [])"
    using example_plans by (auto simp: listed_def the_plan_def)
  show ?thesis
    using n unfolding plan_from_manifest_def wp_bind zone
    by (intro wp_mono [OF client_run(1) [OF assms(1) first(1)]])
      (auto simp: plannable wp_simps plan intro!: wp_mono [OF client_run(2) [OF _ first(2)]])
qed

lemma encodes_record: "dn_restore r = None \<Longrightarrow> dn_ttl r = 1 \<Longrightarrow> dn_priority r = None \<Longrightarrow>
    encodes True True (record_dict True r)"
  by (auto simp: record_dict_def restore_payload_def api_payload_def encodes_dict_iff encodes_one
      split: option.splits)

lemma encodes_evidence:
  "encodes True True (snapshot_payload the_plan [])"
  "encodes True True (rollback_receipt the_plan h h')"
  by (auto simp: snapshot_payload_def rollback_receipt_def encodes_dict_iff encodes_list_iff list_all_iff
      the_plan_def example_plan_def sorted_records_def example_zone_def example_record_def
      intro!: encodes_record)

lemma prepare_run:
  assumes "at_step 3 ps ([], []) s"
  shows "wp (prepare_pre_write_evidence example_env the_plan m [] ''e'')
    (\<lambda>_ s'. \<exists>disk. at_step 3 ps disk s') (\<lambda>_ _. False) s"
proof -
  have directory: "wp (make_directory example_env ''e'') (\<lambda>_ s'. at_step 3 ps ([], [''e'']) s') (\<lambda>_ _. False) s"
    using assms by (simp add: make_directory_def wp_simps at_step_def example_env_def)
  obtain snapshot where snapshot: "evidence_text (snapshot_payload the_plan []) = Inr snapshot"
    using evidence_text_encodes [OF encodes_evidence(1)] by blast
  have receipt: "\<exists>t. evidence_text (rollback_receipt the_plan h h') = Inr t" for h h'
    by (rule evidence_text_encodes [OF encodes_evidence(2)])
  note names = file_path_def snapshot_name_def rollback_name_def rollback_receipt_name_def
  show ?thesis
    unfolding prepare_pre_write_evidence_def wp_bind wp_seq wp_lift wp_ret snapshot sum.case
  proof (rule wp_mono [OF directory], goal_cases)
    case (1 u s1)
    show ?case
    proof (rule wp_mono [OF write_run [OF 1]], goal_cases)
      case (2 h s2)
      show ?case
      proof (rule wp_mono [OF write_run [OF 2]], goal_cases)
        case (2 h' s3)
        obtain t where t: "evidence_text (rollback_receipt the_plan h' h) = Inr t" using receipt by blast
        show ?case
          unfolding t sum.case
          by (rule wp_mono [OF write_run [OF 2]]) (auto simp: names)
      qed (auto simp: names)
    qed auto
  qed auto
qed

lemma same_fingerprint: "\<exists>h. managed_snapshot_fingerprint example_manifest example_zone = Inr h"
proof -
  have "(case read_all (\<lambda>v. case dumps_text v of Inl x \<Rightarrow> Inl x | Inr t \<Rightarrow> Inr (t, v))
      (map (record_dict True) (filter (\<lambda>r. recordset_of r \<in> set (dm_managed example_manifest)) example_zone)) of
      Inl x \<Rightarrow> True | Inr items \<Rightarrow> isl (dumps_text (PList (map snd (sort_items items))))) = False"
    by code_simp
  then show ?thesis by (auto simp: managed_snapshot_fingerprint_def split: sum.splits)
qed

lemma the_plan_fields:
  "dp_zone the_plan = ''a.eu''" "dp_zone_id the_plan = ''z''" "dp_zone_status the_plan = ''active''"
  "dp_current_records the_plan = example_zone" "dp_changes the_plan = example_changes"
  by (simp_all add: the_plan_def example_plan_def)

lemma boundary_run:
  assumes "at_step 3 ps disk s"
  shows "wp (boundary_check the_client example_manifest the_plan) (\<lambda>_ s'. at_step 5 ps disk s')
    (\<lambda>_ _. False) s"
proof -
  obtain h where h: "managed_snapshot_fingerprint example_manifest example_zone = Inr h"
    using same_fingerprint by blast
  have plan: "build_plan example_manifest ''z'' example_zone ''active'' = Inr the_plan"
    by (simp add: example_plans(1) the_plan_def)
  show ?thesis
    unfolding boundary_check_def wp_bind the_plan_fields
    by (rule wp_mono [OF client_run(1) [OF assms]])
      (auto simp: wp_simps listed_def h plan intro!: wp_mono [OF client_run(2)])
qed

text \<open>With the fingerprint and the approval text of the plan the batch is sent.\<close>

definition example_start :: "nat cf_world dns_state" where
  "example_start = \<lparr>ds_api = \<lparr>cf_remote = 0, cf_requests = []\<rparr>, ds_dirs = [], ds_files = []\<rparr>"

definition example_end :: "nat cf_world dns_state" where
  "example_end = snd (apply_manifest example_env the_client example_manifest (dp_fingerprint the_plan)
     (approval_text the_plan) (Some ''e'') example_start)"

lemma example_write: "\<exists>batch. posts (ds_api example_end) = [batch]"
proof -
  let ?s = example_start
  let ?sent = "\<lambda>_ s'. \<exists>batch. posts (ds_api s') = [batch]"
  have sent: "wp n ?sent ?sent s'" if n: "quiet posts n" and s': "posts (ds_api s') = [r]" for n :: "(nat cf_world, 'a) dns_step" and s' r
  proof -
    have "kept posts [r] {} s'" using s' by (simp add: kept_def)
    from quietD [OF n this] show ?thesis by (rule wp_mono) (auto simp: kept_def)
  qed
  have start: "at_step 0 [] ([], []) ?s"
    by (simp add: example_start_def at_step_def at_request_def posts_def)
  have verify: "quiet posts (verify_changes example_env the_client m p dir ev)" for m p dir ev
    unfolding the_client_def by (rule client.quiet_verify)
  have changes: "wp (apply_changes example_env the_client example_manifest the_plan (Some ''e''))
      ?sent (\<lambda>_ _. False) s2" if s2: "at_step 2 [] ([], []) s2" for s2
    unfolding apply_changes_def the_plan_fields option.case wp_if wp_bind wp_seq wp_handle wp_ret
  proof (simp only: example_changes_def list.simps if_False, fold example_changes_def,
      rule wp_mono [OF client_run(3) [OF s2]], goal_cases)
    case (2 dnssec s3)
    then have dnssec: "dnssec = []" and s3: "at_step 3 [] ([], []) s3" by simp_all
    show ?case
      unfolding dnssec
    proof (rule wp_mono [OF prepare_run [OF s3]], goal_cases)
      case (1 ev s4)
      then obtain disk where s4: "at_step 3 [] disk s4" by blast
      show ?case
        by (rule wp_mono [OF boundary_run [OF s4]])
          (auto simp: at_step_def at_request_def intro!: wp_mono [OF client_run(4)])
    qed
  qed auto
  have rest: "quiet posts (bind (verify_changes example_env the_client m p dir ev) (\<lambda>(v, dnssec).
      bind (record_changes example_env p v dnssec dir ev) (\<lambda>snapshot.
      if dp_changes v \<noteq> []
      then raise (DnsError ''Cloudflare DNS write completed but post-write verification did not converge'')
      else ret (apply_report p ev snapshot))))" for m p dir ev
    by (rule quiet_bind [OF verify]) (auto intro!: quiets)
  have template: "\<not> dm_template example_manifest" by (simp add: example_manifest_def)
  have "wp (apply_manifest example_env the_client example_manifest (dp_fingerprint the_plan)
      (approval_text the_plan) (Some ''e'')) ?sent ?sent ?s"
    unfolding apply_manifest_def wp_if wp_bind [where m = "plan_from_manifest example_env the_client example_manifest"]
  proof (simp only: template if_False, rule wp_mono [OF plan_run [OF start]], goal_cases)
    case (2 p s2)
    then have p: "p = the_plan" and s2: "at_step 2 [] ([], []) s2" by (simp_all add: numeral_2_eq_2)
    show ?case
      unfolding p wp_if wp_bind [where m = "apply_changes example_env the_client example_manifest the_plan (Some ''e'')"]
      by (simp, rule wp_mono [OF changes [OF s2]]) (auto intro: sent [OF rest])
  qed simp_all
  then show ?thesis by (simp add: wp_post example_end_def)
qed


end
