(* ===== verification/Spec2Isabelle.thy ===== *)
theory Spec2Isabelle
  imports
    Failover_Recovery
    Kernel_Broker Kernel_Chain
    LongRun_Operator LongRun_Components_Properties
    Voice_Playback Voice_Router_Properties
    Exec_Collect
    Sot_Trusted
    Room_Broker
    Dns_Example
begin

text \<open>
  A verification library for CyberCore (src/src/cybercore).

  CyberCore is a set of components that let people and agents act on systems only under explicit
  authority: a kernel that decides on tasks and writes receipts, a bridge and a broker that pass
  permitted tasks on, a runtime for long missions, a voice front end, a client and a server that run
  a few fixed commands, a reconciler of sources of truth, a shared room, and a tool that changes
  DNS records. What they have in common is modelled once; each component then has its own theories.

  \<^bold>\<open>How Python is modelled.\<close> \<open>Cyber_Prelude\<close> has procedures (a state in, an exception or a value
  and a state out), their weakest preconditions with the rewrite rules \<open>wp_simps\<close>, and the locale
  \<open>reactive\<close>: a component that is driven by commands, with the invariant that they keep.
  Exceptions are values of a sum. Code that is not part of the program (clocks, model providers,
  audio devices, storage, HTTP, YAML, the graph library) is a parameter: a record of procedures on a
  world of its own type, which may raise and, where the code allows it, may change shared data.
  Dictionaries are association lists in insertion order where order is visible and maps elsewhere;
  Python integers are \<open>int\<close>, and words are used where the code has them, in \<open>Sha256\<close>. Floats are
  exact rationals, infinities and NaN: comparisons are those of IEEE 754 and rounding is not modelled.

  \<^bold>\<open>What Python's library does.\<close> \<open>Py_Text\<close> (strip, lower, decimal text; a string is the list of its
  UTF-8 bytes), \<open>Py_Bytes\<close> (decoding, lines), \<open>Py_Time\<close> (datetime), \<open>Py_Sort\<close> (sorted, sets),
  \<open>Py_Json\<close> (json.dumps), \<open>Py_Json_Parse\<close> (json.loads), \<open>Py_Json_Roundtrip\<close> (reading back what was
  written), \<open>Py_Input\<close> (int of a text, JSON from bytes) and \<open>Sha256\<close> (hashlib). The parser of
  JSON has fuel 2 * length + 1, which is proved to be enough for every input; the loops of SHA-256
  run over lists of fixed length.

  \<^bold>\<open>The components.\<close>

  \<^item> Failover simulator (failover_sim.py): \<open>Failover_Journal\<close> (Journal), \<open>Failover_Provider\<close>
    (FakeProvider), \<open>Failover_Simulator\<close> (Simulator: gates, run, reconcile, compensate).
    \<open>Failover_Safety\<close> has the invariant of the code, \<open>Failover_Protocol\<close> the write-ahead protocol as
    an inductive step relation that the code refines, \<open>Failover_Invariants\<close> what follows along the
    protocol by rule induction, \<open>Failover_Properties\<close> and \<open>Failover_Recovery\<close> the properties: no
    effect without authority, at most one effect and one restore per operation, exclusive targets,
    fencing of stale leases, recovery after a crash.
  \<^item> Action Kernel (action_kernel.py): \<open>Kernel_Model\<close> (data, policy, dispatch), \<open>Kernel_Execution\<close> (one
    rule for everything \<open>execute\<close> can do), \<open>Kernel_Properties\<close>. Its audit sink is the locale
    \<open>audit_sink\<close>, which the hash-chained SQLite sink of \<open>Kernel_Audit\<close> and \<open>Kernel_Chain\<close>
    (action_kernel_sqlite_audit.py, _audit_checkpoint.py, _anchor_authority.py) interprets: the
    database always verifies, and a checkpoint binds what came before it up to a collision of SHA-256.
  \<^item> Replay guards, bridge and broker (action_kernel_hive_bridge.py, _sqlite_replay.py, _interop.py,
    _trusted_broker.py): \<open>Kernel_Replay\<close> with the locale \<open>replay_guard\<close>, interpreted on the memory
    guard and on the SQLite guard; \<open>Kernel_Bridge\<close>, \<open>Kernel_Bridge_Safety\<close>, \<open>Kernel_Broker\<close>: what is
    dispatched, under which receipt, and how often.
  \<^item> LongRun (longrun/): \<open>LongRun_Model\<close> (watchdog, governor, evaluation, manifest, state store),
    \<open>LongRun_Engine\<close> (engine.py), \<open>LongRun_Loader\<close> (loader.py), \<open>LongRun_Provider\<close> (provider.py),
    \<open>LongRun_Components\<close> (model_components.py) and \<open>LongRun_Operator\<close> (operator.py).
    \<open>LongRun_Lifecycle\<close> is the life of a mission as a step relation on the two tables of the store,
    which the engine refines; \<open>LongRun_Invariants\<close>, \<open>_Properties\<close>, \<open>_Runs\<close>, \<open>_Contract\<close> and
    \<open>_Termination\<close> have what follows: evidence behind every completion, bounds, who calls the
    executor, and that a run ends within a number of rounds given by the wall budget when the clock
    advances.
  \<^item> Voice (voice/): \<open>Voice_Audio\<close> (audio.py, with the locale \<open>bounded_queue\<close> interpreted on the
    buffer), \<open>Voice_Barge\<close> (barge_shadow.py, adapters.py), \<open>Voice_Session\<close>, \<open>Voice_Realtime\<close>
    (realtime.py), \<open>Voice_Governance\<close> (models.py, approval.py, integrations/howedo.py, oathdo.py) and
    \<open>Voice_Router\<close> (router.py). \<open>Voice_Turns\<close> gives the turn-taking protocol that every command of
    the runtime obeys; \<open>Voice_Playback\<close> and \<open>Voice_Router_Properties\<close> the properties.
  \<^item> Governed execution (execution/): \<open>Exec_Inventory\<close> (the validator), \<open>Exec_Server\<close> (protocol.py,
    operations.py, dispatcher.py), \<open>Exec_Client\<close> (models.py, policy.py, receipt.py, ssh_runner.py) and
    \<open>Exec_Collect\<close> (inventory.py on the server). The locale \<open>json_view\<close> proves once, for a value and
    for what its JSON text reads as, that validation gives the same; \<open>Exec_Wire\<close> and \<open>Exec_Loopback\<close>
    put client and server together.
  \<^item> Source-of-truth reconciler (orchestration/): \<open>Sot_Model\<close> (contracts.py, sot.py),
    \<open>Sot_Properties\<close> (its specification without loops), \<open>Sot_Binding\<close> (source_binding.py) and
    \<open>Sot_Trusted\<close> (trusted_sot.py). The library that runs a graph is the locale \<open>langgraph\<close>, which a
    runner of graphs interprets that follows the edges for at most 25 nodes; both graphs have fewer.
  \<^item> Shared room (communication/, wake/, mcp/room_broker.py, mcp/backend.py, cyberhive_runtime.py):
    \<open>Room_Model\<close> (registry, coordinator), \<open>Wake_Dispatcher\<close> (threads and queue as interleaved atomic
    steps), \<open>Room_Turns\<close> (the locales \<open>room_gateway\<close> and \<open>event_store\<close>; the gateway onto the store and
    the gateway that wakes keep the first when what they call keeps its own), \<open>Room_Http\<close> and
    \<open>Room_Broker\<close>.
  \<^item> Cloudflare DNS (cloudflare_dns.py): \<open>Dns_Model\<close> (records and manifests), \<open>Dns_Plan\<close> (planning),
    \<open>Dns_Client\<close> (CloudflareClient), \<open>Dns_Apply\<close> (apply_manifest and its evidence). \<open>Dns_Properties\<close>
    shows what a plan does to a zone and that planning converges; \<open>Dns_Safety\<close> has the contract of the
    API as the locale \<open>zone_api\<close>, interpreted on the client for every requester, and what may be
    written when. The effect of a batch (\<open>zone_after\<close>) is the documented behaviour of Cloudflare.
    \<open>Dns_Example\<close> runs it all, from the JSON answers to the batch. A listing of records is read for at
    most 1000 pages, as in the code.

  \<^bold>\<open>How they interact.\<close> The broker asks the kernel and hands its receipt to the bridge; the kernel
  writes to the audit chain. The LongRun engine calls the components, which call the provider
  runtime. The voice router uses the session of the realtime runtime and asks the governance
  gateways. Server and client of governed execution meet at the JSON wire. The coordinator of the
  room appends through a gateway that may wake participants; HTTP and broker are two ways into it.
  Properties of such compositions are in \<open>Kernel_Broker\<close>, \<open>LongRun_Components_Properties\<close>,
  \<open>Voice_Router_Properties\<close>, \<open>Exec_Loopback\<close>, \<open>Room_Turns\<close>, \<open>Room_Http\<close>, \<open>Room_Broker\<close> and
  \<open>Dns_Safety\<close>.

  \<^bold>\<open>Witnesses.\<close> A property with hypotheses is followed by a theorem that applies it to a concrete run
  of the model, evaluated by the simplifier or in the kernel.

  \<^bold>\<open>Not modelled.\<close> Rounding of floats; failures of the storage under the LongRun store; locks of
  threads beyond the atomic steps of the wake dispatcher; adapters that call back into the runtime
  that called them; time stamps and metadata of voice events; the recursion limit of the JSON
  scanner; decimal digits outside ASCII in \<open>int\<close>, and letter case outside ASCII where a theory says
  so; lists of names in a few messages; the threads and pipes of the bounded command runner; YAML
  parsing; subscription loops and sockets of the room broker. Whole parts that are left out are the
  command lines, devices and speech models, the governed process runner, the first-write and staging
  tools over FTPS, the tools that rewrite the engineering memory, redaction by regular expressions
  and the classification of utterances: they rest on regular expressions, on third-party libraries
  or on the operating system, or were left out for their size.
\<close>

end
